(* ===== verification/Glide_Prelude.thy ===== *)
theory Glide_Prelude
  imports Main "HOL-Library.Word"
begin

text \<open>
  Shared vocabulary of the development: the fixed-width integer types of the C++ sources, the
  byte and text conversions they use, and the lemmas on lists that several components need.
  The collection \<open>glide_defs\<close> gathers the equations that proofs about one component unfold
  together; \<open>framing\<close> gathers the facts about incremental readers.
\<close>

unbundle bit_operations_syntax

named_theorems glide_defs
named_theorems framing

type_synonym u8 = "8 word"
type_synonym u16 = "16 word"
type_synonym u32 = "32 word"
type_synonym u64 = "64 word"
type_synonym bytes = "8 word list"

section \<open>Words\<close>

lemma word_u8_less [simp]: "unat (b :: u8) < 256"
  by (rule order_less_le_trans [OF unsigned_less]) simp

lemma word_u16_less [simp]: "unat (b :: u16) < 65536"
  by (rule order_less_le_trans [OF unsigned_less]) simp

lemma word_u32_less [simp]: "unat (b :: u32) < 4294967296"
  by (rule order_less_le_trans [OF unsigned_less]) simp

lemma sint_u8_bounds: "- 128 \<le> sint (b :: u8) \<and> sint b \<le> 127"
  using sint_ge[of b] sint_lt[of b] by simp

lemma sint_u16_bounds: "- 32768 \<le> sint (b :: u16) \<and> sint b \<le> 32767"
  using sint_ge[of b] sint_lt[of b] by simp

lemma sint_u32_bounds: "- 2147483648 \<le> sint (b :: u32) \<and> sint b \<le> 2147483647"
  using sint_ge[of b] sint_lt[of b] by simp

section \<open>Bytes and characters\<close>

definition char_of_byte :: "u8 \<Rightarrow> char" where
  "char_of_byte b = char_of (unat b)"

definition byte_of_char :: "char \<Rightarrow> u8" where
  "byte_of_char c = of_nat (of_char c)"

lemma of_char_less [simp]: "(of_char c :: nat) < 256"
  by (cases c) (simp add: of_char_def)

lemma byte_of_char_of_byte [simp]: "byte_of_char (char_of_byte b) = b"
proof -
  have "unat b < 256"
    by (rule word_u8_less)
  then have "unat b mod 256 = unat b" by simp
  then show ?thesis
    by (simp add: byte_of_char_def char_of_byte_def)
qed

lemma char_of_byte_of_char [simp]: "char_of_byte (byte_of_char c) = c"
  by (simp add: byte_of_char_def char_of_byte_def unat_of_nat take_bit_eq_mod)

lemma byte_of_char_inject [simp]: "byte_of_char c = byte_of_char d \<longleftrightarrow> c = d"
  by (metis char_of_byte_of_char)

definition text_of_bytes :: "bytes \<Rightarrow> string" where
  "text_of_bytes bs = map char_of_byte bs"

definition bytes_of_text :: "string \<Rightarrow> bytes" where
  "bytes_of_text s = map byte_of_char s"

lemma text_of_bytes_of_text [simp]: "text_of_bytes (bytes_of_text s) = s"
  by (induction s) (simp_all add: text_of_bytes_def bytes_of_text_def)

lemma bytes_of_text_of_bytes [simp]: "bytes_of_text (text_of_bytes bs) = bs"
  by (induction bs) (simp_all add: text_of_bytes_def bytes_of_text_def)

lemma text_of_bytes_append: "text_of_bytes (xs @ ys) = text_of_bytes xs @ text_of_bytes ys"
  by (simp add: text_of_bytes_def)

lemma length_bytes_of_text [simp]: "length (bytes_of_text s) = length s"
  by (simp add: bytes_of_text_def)

section \<open>Lists\<close>

lemma takeWhile_append_stop:
  "\<forall>x \<in> set xs. P x \<Longrightarrow> \<not> P y \<Longrightarrow> takeWhile P (xs @ y # ys) = xs"
  by (induction xs) auto

lemma dropWhile_append_stop:
  "\<forall>x \<in> set xs. P x \<Longrightarrow> \<not> P y \<Longrightarrow> dropWhile P (xs @ y # ys) = y # ys"
  by (induction xs) auto

lemma takeWhile_all: "\<forall>x \<in> set xs. P x \<Longrightarrow> takeWhile P xs = xs"
  by (induction xs) auto

lemma dropWhile_all: "\<forall>x \<in> set xs. P x \<Longrightarrow> dropWhile P xs = []"
  by (induction xs) auto

lemma dropWhile_none: "xs = [] \<or> \<not> P (hd xs) \<Longrightarrow> dropWhile P xs = xs"
  by (cases xs) auto

lemma take_append_exact: "n = length xs \<Longrightarrow> take n (xs @ ys) = xs"
  by simp

lemma drop_append_exact: "n = length xs \<Longrightarrow> drop n (xs @ ys) = ys"
  by simp

text \<open>The last \<open>n\<close> elements: what a queue that drops its oldest entries keeps.\<close>

definition lastn :: "nat \<Rightarrow> 'a list \<Rightarrow> 'a list" where
  "lastn n xs = drop (length xs - n) xs"

lemma length_lastn [simp]: "length (lastn n xs) = min n (length xs)"
  by (simp add: lastn_def)

lemma lastn_all [simp]: "length xs \<le> n \<Longrightarrow> lastn n xs = xs"
  by (simp add: lastn_def)

lemma lastn_append: "lastn n (lastn n xs @ ys) = lastn n (xs @ ys)"
proof (cases "length xs \<le> n")
  case False
  then have "length xs + length ys - n = (length ys) + (length xs - n)" by simp
  with False show ?thesis by (simp add: lastn_def)
qed simp

lemma set_lastn: "set (lastn n xs) \<subseteq> set xs"
  by (simp add: lastn_def set_drop_subset)

lemma lastn_snoc: "n \<le> length xs \<Longrightarrow> 0 < n \<Longrightarrow> lastn n (xs @ [x]) = drop 1 (lastn n xs) @ [x]"
  by (simp add: lastn_def Suc_diff_le)

section \<open>Incremental readers\<close>

text \<open>
  Several components keep a buffer of unread input, append what arrived and then take every
  complete item off its front. The contract of such a reader is that reading the buffer twice,
  with more input appended in between, gives the same items as reading it once at the end.
\<close>

locale incremental_reader =
  fixes drain :: "'a list \<Rightarrow> 'b list \<times> 'a list"
  assumes drain_append:
    "drain (xs @ ys) = (let (items, rest) = drain xs; (items', rest') = drain (rest @ ys)
                        in (items @ items', rest'))"
begin

definition feed :: "'a list \<Rightarrow> 'a list list \<Rightarrow> 'b list \<times> 'a list" where
  "feed buffer chunks =
     foldl (\<lambda>(items, rest) chunk. let (items', rest') = drain (rest @ chunk) in (items @ items', rest'))
       ([], buffer) chunks"

lemma feed_step_shift:
  "foldl (\<lambda>(items, rest) chunk. let (items', rest') = drain (rest @ chunk) in (items @ items', rest'))
       (pre, buffer) chunks
   = (pre @ fst (feed buffer chunks), snd (feed buffer chunks))"
proof (induction chunks arbitrary: pre buffer)
  case Nil
  then show ?case by (simp add: feed_def)
next
  case (Cons c cs)
  obtain items rest where d: "drain (buffer @ c) = (items, rest)" by fastforce
  have "feed buffer (c # cs) = (items @ fst (feed rest cs), snd (feed rest cs))"
    using Cons.IH[of "items" rest] by (simp add: feed_def d)
  with Cons.IH[of "pre @ items" rest] show ?case by (simp add: d)
qed

lemma feed_Cons:
  "feed buffer (c # cs) = (let (items, rest) = drain (buffer @ c)
     in (items @ fst (feed rest cs), snd (feed rest cs)))"
  using feed_step_shift[of "fst (drain (buffer @ c))" "snd (drain (buffer @ c))" cs]
  by (simp add: feed_def split_def Let_def)

lemma feed_Nil [simp]: "feed buffer [] = ([], buffer)"
  by (simp add: feed_def)

text \<open>Reading chunk by chunk and then once more gives what one read of everything gives.\<close>

lemma feed_concat:
  "drain (buffer @ concat chunks)
   = (let (items, rest) = feed buffer chunks; (items', rest') = drain rest in (items @ items', rest'))"
proof (induction chunks arbitrary: buffer)
  case Nil
  then show ?case by (simp split: prod.splits)
next
  case (Cons c cs)
  have "drain (buffer @ concat (c # cs))
      = (let (items, rest) = drain (buffer @ c); (items', rest') = drain (rest @ concat cs)
         in (items @ items', rest'))"
    using drain_append[of "buffer @ c" "concat cs"] by simp
  then show ?case
    by (simp add: Cons.IH feed_Cons split_def Let_def)
qed

end

end
