(* ===== verification/Cpp_Text.thy ===== *)
theory Cpp_Text
  imports Glide_Prelude
begin

text \<open>
  What the sources use of the C++ text library: \<open>std::to_string\<close>, hexadecimal output,
  \<open>std::istringstream\<close> with \<open>operator>>\<close> on strings, integers and characters,
  \<open>std::getline\<close>, \<open>std::stoi\<close> and the decimal part of \<open>std::strtol\<close>.
  A stream is the text it has not read yet and its \<open>failbit\<close> and \<open>eofbit\<close>. An extraction takes
  the value the variable holds, because a failing extraction may leave it unchanged: it does when
  the stream is not good or only white space is left, and it stores 0 or the nearest bound when
  characters were read that are no number or a number out of range.
\<close>

section \<open>Characters\<close>

definition is_space :: "char \<Rightarrow> bool" where
  "is_space c \<longleftrightarrow> c \<in> {CHR '' '', CHR 0x09, CHR 0x0A, CHR 0x0B, CHR 0x0C, CHR 0x0D}"

definition is_digit :: "char \<Rightarrow> bool" where
  "is_digit c \<longleftrightarrow> (let n = (of_char c :: nat) in 48 \<le> n \<and> n \<le> 57)"

definition is_xdigit :: "char \<Rightarrow> bool" where
  "is_xdigit c \<longleftrightarrow> (let n = (of_char c :: nat)
     in 48 \<le> n \<and> n \<le> 57 \<or> 65 \<le> n \<and> n \<le> 70 \<or> 97 \<le> n \<and> n \<le> 102)"

definition to_upper :: "char \<Rightarrow> char" where
  "to_upper c = (let n = (of_char c :: nat) in if 97 \<le> n \<and> n \<le> 122 then char_of (n - 32) else c)"

definition to_lower :: "char \<Rightarrow> char" where
  "to_lower c = (let n = (of_char c :: nat) in if 65 \<le> n \<and> n \<le> 90 then char_of (n + 32) else c)"

definition digit_char :: "nat \<Rightarrow> char" where
  "digit_char d = char_of (48 + d)"

definition digit_val :: "char \<Rightarrow> nat" where
  "digit_val c = of_char c - 48"

definition xdigit_char :: "nat \<Rightarrow> char" where
  "xdigit_char d = (if d < 10 then char_of (48 + d) else char_of (87 + d))"

definition xdigit_val :: "char \<Rightarrow> nat" where
  "xdigit_val c = (let n = of_char c in
     if n \<le> 57 then n - 48 else if n \<le> 70 then n - 55 else n - 87)"

lemma of_char_char_of_small [simp]: "n < 256 \<Longrightarrow> of_char (char_of n) = (n :: nat)"
  by (simp add: take_bit_eq_mod)

lemma is_digit_digit_char [simp]: "d < 10 \<Longrightarrow> is_digit (digit_char d)"
  by (simp add: is_digit_def digit_char_def)

lemma digit_val_digit_char [simp]: "d < 10 \<Longrightarrow> digit_val (digit_char d) = d"
  by (simp add: digit_val_def digit_char_def)

lemma is_xdigit_xdigit_char [simp]: "d < 16 \<Longrightarrow> is_xdigit (xdigit_char d)"
  by (simp add: is_xdigit_def xdigit_char_def)

lemma xdigit_val_xdigit_char [simp]: "d < 16 \<Longrightarrow> xdigit_val (xdigit_char d) = d"
  by (simp add: xdigit_val_def xdigit_char_def)

lemma digit_not_space [simp]: "is_digit c \<Longrightarrow> \<not> is_space c"
  by (auto simp: is_digit_def is_space_def)

lemma xdigit_not_space [simp]: "is_xdigit c \<Longrightarrow> \<not> is_space c"
  by (auto simp: is_xdigit_def is_space_def)

lemma digit_not_sign [simp]: "is_digit c \<Longrightarrow> c \<noteq> CHR ''-'' \<and> c \<noteq> CHR ''+''"
  by (auto simp: is_digit_def)

lemma space_not_digit [simp]: "is_space c \<Longrightarrow> \<not> is_digit c"
  using digit_not_space by blast

lemma is_space_blank [simp]: "is_space CHR '' ''"
  by (simp add: is_space_def)

lemma is_space_newline [simp]: "is_space CHR 0x0A"
  by (simp add: is_space_def)

lemma not_space_minus [simp]: "\<not> is_space CHR ''-''"
  by (simp add: is_space_def)

section \<open>Numbers as text\<close>

fun nat_str :: "nat \<Rightarrow> string" where
  "nat_str n = (if n < 10 then [digit_char n] else nat_str (n div 10) @ [digit_char (n mod 10)])"

declare nat_str.simps [simp del]

text \<open>\<open>std::to_string\<close> and the decimal \<open>operator<<\<close>.\<close>

definition int_str :: "int \<Rightarrow> string" where
  "int_str i = (if i < 0 then CHR ''-'' # nat_str (nat (- i)) else nat_str (nat i))"

fun hex_str :: "nat \<Rightarrow> string" where
  "hex_str n = (if n < 16 then [xdigit_char n] else hex_str (n div 16) @ [xdigit_char (n mod 16)])"

declare hex_str.simps [simp del]

definition digits_val :: "string \<Rightarrow> nat" where
  "digits_val ds = foldl (\<lambda>v c. 10 * v + digit_val c) 0 ds"

definition xdigits_val :: "string \<Rightarrow> nat" where
  "xdigits_val ds = foldl (\<lambda>v c. 16 * v + xdigit_val c) 0 ds"

lemma nat_str_nonempty [simp]: "nat_str n \<noteq> []"
  by (subst nat_str.simps) simp

lemma nat_str_digits: "\<forall>c \<in> set (nat_str n). is_digit c"
proof (induction n rule: nat_str.induct)
  case (1 n)
  then show ?case by (subst nat_str.simps) auto
qed

lemma digits_val_nat_str [simp]: "digits_val (nat_str n) = n"
proof (induction n rule: nat_str.induct)
  case (1 n)
  show ?case
  proof (cases "n < 10")
    case True
    then show ?thesis by (subst nat_str.simps) (simp add: digits_val_def)
  next
    case False
    have "digits_val (nat_str n) = 10 * digits_val (nat_str (n div 10)) + n mod 10"
      using False by (subst nat_str.simps) (simp add: digits_val_def)
    with False "1.IH" show ?thesis by simp
  qed
qed

lemma hex_str_nonempty [simp]: "hex_str n \<noteq> []"
  by (subst hex_str.simps) simp

lemma hex_str_xdigits: "\<forall>c \<in> set (hex_str n). is_xdigit c"
proof (induction n rule: hex_str.induct)
  case (1 n)
  then show ?case by (subst hex_str.simps) auto
qed

lemma xdigits_val_hex_str [simp]: "xdigits_val (hex_str n) = n"
proof (induction n rule: hex_str.induct)
  case (1 n)
  show ?case
  proof (cases "n < 16")
    case True
    then show ?thesis by (subst hex_str.simps) (simp add: xdigits_val_def)
  next
    case False
    have "xdigits_val (hex_str n) = 16 * xdigits_val (hex_str (n div 16)) + n mod 16"
      using False by (subst hex_str.simps) (simp add: xdigits_val_def)
    with False "1.IH" show ?thesis by simp
  qed
qed

lemma length_hex_str: "0 < k \<Longrightarrow> n < 16 ^ k \<Longrightarrow> length (hex_str n) \<le> k"
proof (induction n arbitrary: k rule: hex_str.induct)
  case (1 n)
  show ?case
  proof (cases "n < 16")
    case True
    with "1.prems" show ?thesis by (subst hex_str.simps) simp
  next
    case False
    then obtain j where k: "k = Suc j" and "0 < j"
      using "1.prems" by (cases k; cases "k - 1") auto
    then have "n div 16 < 16 ^ j"
      using "1.prems" by (simp add: less_mult_imp_div_less mult.commute)
    with False \<open>0 < j\<close> have "length (hex_str (n div 16)) \<le> j"
      using "1.IH" by blast
    with False k show ?thesis by (subst hex_str.simps) simp
  qed
qed

lemma int_str_nonempty [simp]: "int_str i \<noteq> []"
  by (simp add: int_str_def)

lemma int_str_no_space: "\<forall>c \<in> set (int_str i). \<not> is_space c"
  by (auto simp: int_str_def dest: bspec [OF nat_str_digits])

section \<open>Input streams\<close>

record istream =
  unread :: string
  failbit :: bool
  eofbit :: bool

definition istringstream :: "string \<Rightarrow> istream" where
  "istringstream s = \<lparr>unread = s, failbit = False, eofbit = False\<rparr>"

definition good :: "istream \<Rightarrow> bool" where
  "good s \<longleftrightarrow> \<not> failbit s \<and> \<not> eofbit s"

definition set_fail :: "istream \<Rightarrow> istream" where
  "set_fail s = s\<lparr>failbit := True\<rparr>"

text \<open>The sentry of a formatted extraction: \<open>None\<close> when it fails, else the text left.\<close>

definition sentry :: "istream \<Rightarrow> string option \<times> istream" where
  "sentry s =
     (if \<not> good s then (None, set_fail s)
      else let r = dropWhile is_space (unread s) in
        if r = [] then (None, s\<lparr>unread := [], failbit := True, eofbit := True\<rparr>)
        else (Some r, s))"

text \<open>\<open>stream >> word\<close> for a \<open>std::string\<close> that holds \<open>old\<close>.\<close>

definition read_token :: "string \<Rightarrow> istream \<Rightarrow> string \<times> istream" where
  "read_token old s =
     (case sentry s of
        (None, s') \<Rightarrow> (old, s')
      | (Some r, s') \<Rightarrow>
          (takeWhile (\<lambda>c. \<not> is_space c) r,
           s'\<lparr>unread := dropWhile (\<lambda>c. \<not> is_space c) r,
              eofbit := dropWhile (\<lambda>c. \<not> is_space c) r = []\<rparr>))"

text \<open>An optional sign, then the longest run of digits: (negative, digits, rest).\<close>

definition scan_int :: "string \<Rightarrow> bool \<times> string \<times> string" where
  "scan_int r =
     (let neg = (r \<noteq> [] \<and> hd r = CHR ''-'');
          r' = (if r \<noteq> [] \<and> (hd r = CHR ''-'' \<or> hd r = CHR ''+'') then tl r else r)
      in (neg, takeWhile is_digit r', dropWhile is_digit r'))"

text \<open>\<open>stream >> n\<close> for a signed integer type with the bounds \<open>lo\<close> and \<open>hi\<close>.\<close>

definition read_signed :: "int \<Rightarrow> int \<Rightarrow> int \<Rightarrow> istream \<Rightarrow> int \<times> istream" where
  "read_signed lo hi old s =
     (case sentry s of
        (None, s') \<Rightarrow> (old, s')
      | (Some r, s') \<Rightarrow>
          (case scan_int r of (neg, ds, rest) \<Rightarrow>
             let s'' = s'\<lparr>unread := rest, eofbit := rest = []\<rparr>;
                 v = (if neg then - int (digits_val ds) else int (digits_val ds))
             in if ds = [] then (0, set_fail s'')
                else if v < lo then (lo, set_fail s'')
                else if hi < v then (hi, set_fail s'')
                else (v, s'')))"

definition read_int :: "int \<Rightarrow> istream \<Rightarrow> int \<times> istream" where
  "read_int = read_signed (- 2147483648) 2147483647"

text \<open>
  \<open>stream >> n\<close> for an unsigned type of \<open>2 ^ w\<close> values: the magnitude must fit, and a minus
  sign negates it modulo \<open>2 ^ w\<close>.
\<close>

definition read_unsigned :: "nat \<Rightarrow> int \<Rightarrow> istream \<Rightarrow> int \<times> istream" where
  "read_unsigned w old s =
     (case sentry s of
        (None, s') \<Rightarrow> (old, s')
      | (Some r, s') \<Rightarrow>
          (case scan_int r of (neg, ds, rest) \<Rightarrow>
             let s'' = s'\<lparr>unread := rest, eofbit := rest = []\<rparr>;
                 v = int (digits_val ds)
             in if ds = [] then (0, set_fail s'')
                else if 2 ^ w \<le> v then (2 ^ w - 1, set_fail s'')
                else (if neg then (- v) mod 2 ^ w else v, s'')))"

text \<open>\<open>stream >> c\<close> for a \<open>char\<close>.\<close>

definition read_char :: "char \<Rightarrow> istream \<Rightarrow> char \<times> istream" where
  "read_char old s =
     (case sentry s of
        (None, s') \<Rightarrow> (old, s')
      | (Some r, s') \<Rightarrow> (hd r, s'\<lparr>unread := tl r\<rparr>))"

text \<open>\<open>std::getline\<close> with a delimiter.\<close>

definition read_line_until :: "char \<Rightarrow> string \<Rightarrow> istream \<Rightarrow> string \<times> istream" where
  "read_line_until delim old s =
     (if \<not> good s then (old, set_fail s)
      else if unread s = [] then ([], s\<lparr>failbit := True, eofbit := True\<rparr>)
      else let l = takeWhile (\<lambda>c. c \<noteq> delim) (unread s);
               r = dropWhile (\<lambda>c. c \<noteq> delim) (unread s)
           in if r = [] then (l, s\<lparr>unread := [], eofbit := True\<rparr>)
              else (l, s\<lparr>unread := tl r\<rparr>))"

definition read_line :: "string \<Rightarrow> istream \<Rightarrow> string \<times> istream" where
  "read_line = read_line_until (CHR 0x0A)"

text \<open>The lines a loop of \<open>std::getline\<close> over a fresh stream yields.\<close>

fun lines_from :: "string \<Rightarrow> string \<Rightarrow> string list" where
  "lines_from acc [] = (if acc = [] then [] else [acc])"
| "lines_from acc (c # s) = (if c = CHR 0x0A then acc # lines_from [] s else lines_from (acc @ [c]) s)"

definition split_lines :: "string \<Rightarrow> string list" where
  "split_lines s = lines_from [] s"

text \<open>
  \<open>std::stoi\<close>: \<open>None\<close> where it throws (\<open>invalid_argument\<close> when there is no digit,
  \<open>out_of_range\<close> when the value is no \<open>int\<close>). Characters after the number are ignored.
\<close>

definition stoi :: "string \<Rightarrow> int option" where
  "stoi s =
     (case scan_int (dropWhile is_space s) of (neg, ds, rest) \<Rightarrow>
        let v = (if neg then - int (digits_val ds) else int (digits_val ds))
        in if ds = [] \<or> v < - 2147483648 \<or> 2147483647 < v then None else Some v)"

text \<open>The text a \<open>c_str()\<close> reader sees: up to the first NUL.\<close>

definition c_str :: "string \<Rightarrow> string" where
  "c_str s = takeWhile (\<lambda>c. c \<noteq> CHR 0x00) s"

text \<open>
  \<open>strtol(text, &end, 10)\<close> with \<open>end != text && *end == '\0'\<close>: the number when the whole
  C string is one, \<open>None\<close> otherwise (the value before saturation to \<open>long\<close>).
\<close>

definition strtol_whole :: "string \<Rightarrow> int option" where
  "strtol_whole s =
     (case scan_int (dropWhile is_space (c_str s)) of (neg, ds, rest) \<Rightarrow>
        if ds = [] \<or> rest \<noteq> [] then None
        else Some (if neg then - int (digits_val ds) else int (digits_val ds)))"

section \<open>Reading back what was written\<close>

definition word_text :: "string \<Rightarrow> bool" where
  "word_text s \<longleftrightarrow> s \<noteq> [] \<and> (\<forall>c \<in> set s. \<not> is_space c)"

text \<open>A good stream before \<open>rest\<close>; at the end of the text the stream has hit its end.\<close>

definition stream_at :: "string \<Rightarrow> istream" where
  "stream_at rest = \<lparr>unread = rest, failbit = False, eofbit = rest = []\<rparr>"

lemma istringstream_stream_at: "s \<noteq> [] \<Longrightarrow> istringstream s = stream_at s"
  by (simp add: istringstream_def stream_at_def)

lemma word_text_nonempty: "word_text w \<Longrightarrow> w \<noteq> []"
  by (simp add: word_text_def)

lemma word_text_int_str [simp]: "word_text (int_str i)"
  using int_str_no_space by (simp add: word_text_def)

lemma word_text_nat_str [simp]: "word_text (nat_str i)"
  using nat_str_digits by (auto simp: word_text_def)

definition blank_start :: "string \<Rightarrow> bool" where
  "blank_start rest \<longleftrightarrow> rest = [] \<or> is_space (hd rest)"

lemma blank_start_simps [simp]:
  "blank_start []" "blank_start (c # r) \<longleftrightarrow> is_space c"
  by (simp_all add: blank_start_def)

lemma blank_start_stop:
  assumes "blank_start rest"
  shows "takeWhile (\<lambda>c. \<not> is_space c) rest = []"
    and "dropWhile (\<lambda>c. \<not> is_space c) rest = rest"
    and "(\<forall>x \<in> set rest. \<not> is_space x) \<longleftrightarrow> rest = []"
  using assms by (cases rest; simp add: blank_start_def)+

lemma word_takeWhile:
  "\<forall>c \<in> set w. \<not> is_space c \<Longrightarrow> blank_start rest \<Longrightarrow> takeWhile (\<lambda>c. \<not> is_space c) (w @ rest) = w"
  by (induction w) (auto simp: blank_start_def takeWhile_eq_Nil_iff)

lemma word_dropWhile:
  "\<forall>c \<in> set w. \<not> is_space c \<Longrightarrow> blank_start rest \<Longrightarrow> dropWhile (\<lambda>c. \<not> is_space c) (w @ rest) = rest"
  by (induction w) (auto simp: blank_start_def dropWhile_none)

lemma sentry_word:
  assumes "word_text w"
  shows "sentry (stream_at (w @ rest)) = (Some (w @ rest), stream_at (w @ rest))"
    and "sentry (stream_at (CHR '' '' # w @ rest)) = (Some (w @ rest), stream_at (CHR '' '' # w @ rest))"
proof -
  obtain c v where w: "w = c # v" "\<not> is_space c"
    using assms by (cases w) (auto simp: word_text_def)
  then show "sentry (stream_at (w @ rest)) = (Some (w @ rest), stream_at (w @ rest))"
    and "sentry (stream_at (CHR '' '' # w @ rest)) = (Some (w @ rest), stream_at (CHR '' '' # w @ rest))"
    by (simp_all add: sentry_def good_def stream_at_def Let_def)
qed

lemma read_token_word:
  assumes "word_text w" and "blank_start rest"
  shows "read_token old (stream_at (w @ rest)) = (w, stream_at rest)"
    and "read_token old (stream_at (CHR '' '' # w @ rest)) = (w, stream_at rest)"
  using assms
  by (simp_all add: read_token_def sentry_word word_takeWhile word_dropWhile word_text_def)
     (simp_all add: stream_at_def blank_start_stop)

lemma blank_start_digits:
  "blank_start rest \<Longrightarrow> \<forall>c \<in> set ds. is_digit c \<Longrightarrow> takeWhile is_digit (ds @ rest) = ds \<and> dropWhile is_digit (ds @ rest) = rest"
  by (induction ds) (auto simp: blank_start_def takeWhile_eq_Nil_iff intro!: dropWhile_none)

lemma nat_str_hd_digit: "is_digit (hd (nat_str n))"
  using nat_str_digits[of n] nat_str_nonempty[of n] by (cases "nat_str n") auto

lemma scan_int_str:
  assumes "blank_start rest"
  shows "scan_int (int_str i @ rest) = (i < 0, nat_str (nat \<bar>i\<bar>), rest)"
proof -
  have "hd (nat_str (nat i)) \<noteq> CHR ''-''" "hd (nat_str (nat i)) \<noteq> CHR ''+''"
    using nat_str_hd_digit[of "nat i"] by auto
  with blank_start_digits[OF assms nat_str_digits] show ?thesis
    by (cases "i < 0") (simp_all add: scan_int_def int_str_def)
qed

lemma read_signed_int_str:
  assumes "blank_start rest" and "lo \<le> i" and "i \<le> hi"
  shows "read_signed lo hi old (stream_at (int_str i @ rest)) = (i, stream_at rest)"
    and "read_signed lo hi old (stream_at (CHR '' '' # int_str i @ rest)) = (i, stream_at rest)"
  using assms
  by (auto simp: read_signed_def sentry_word scan_int_str Let_def) (simp_all add: stream_at_def)

lemma read_int_int_str:
  assumes "blank_start rest" and "- 2147483648 \<le> i" and "i \<le> 2147483647"
  shows "read_int old (stream_at (int_str i @ rest)) = (i, stream_at rest)"
    and "read_int old (stream_at (CHR '' '' # int_str i @ rest)) = (i, stream_at rest)"
  using assms by (simp_all add: read_int_def read_signed_int_str)

lemma read_unsigned_int_str:
  assumes "blank_start rest" and "0 \<le> i" and "i < 2 ^ w"
  shows "read_unsigned w old (stream_at (int_str i @ rest)) = (i, stream_at rest)"
    and "read_unsigned w old (stream_at (CHR '' '' # int_str i @ rest)) = (i, stream_at rest)"
  using assms
  by (auto simp: read_unsigned_def sentry_word scan_int_str Let_def) (simp_all add: stream_at_def)

lemma stoi_int_str:
  assumes "- 2147483648 \<le> i" and "i \<le> 2147483647"
  shows "stoi (int_str i) = Some i"
proof -
  have "dropWhile is_space (int_str i) = int_str i"
    using int_str_no_space[of i] by (cases "int_str i") auto
  with assms show ?thesis
    using scan_int_str[of "[]" i] by (auto simp: stoi_def)
qed

text \<open>Values read stay within the type.\<close>

lemma read_signed_range:
  "lo \<le> 0 \<Longrightarrow> 0 \<le> hi \<Longrightarrow> lo \<le> old \<and> old \<le> hi \<Longrightarrow>
   lo \<le> fst (read_signed lo hi old s) \<and> fst (read_signed lo hi old s) \<le> hi"
  by (auto simp: read_signed_def Let_def split: prod.splits option.splits)

lemma read_int_range:
  "- 2147483648 \<le> old \<and> old \<le> 2147483647 \<Longrightarrow>
   - 2147483648 \<le> fst (read_int old s) \<and> fst (read_int old s) \<le> 2147483647"
  unfolding read_int_def by (rule read_signed_range) simp_all

lemma read_unsigned_range:
  "0 \<le> old \<and> old < 2 ^ w \<Longrightarrow>
   0 \<le> fst (read_unsigned w old s) \<and> fst (read_unsigned w old s) < 2 ^ w"
  by (auto simp: read_unsigned_def Let_def split: prod.splits option.splits)

lemma read_token_no_space:
  "\<forall>c \<in> set old. \<not> is_space c \<Longrightarrow> \<forall>c \<in> set (fst (read_token old s)). \<not> is_space c"
  by (auto simp: read_token_def dest: set_takeWhileD split: prod.splits option.splits)

lemmas read_back = read_token_word read_int_int_str read_unsigned_int_str

end
