(* ===== verification/Cpp_Float.thy ===== *)
theory Cpp_Float
  imports Cpp_Text
begin

text \<open>
  IEEE 754 binary32 and binary64 as the sources use them: decoding from memory, conversion from
  integers, multiplication, division by an exact constant (each the exact rational result rounded
  to nearest, ties to even), \<open>std::fixed\<close> output (exact decimal expansion rounded to nearest,
  ties to even, as glibc prints it) and text input (\<open>operator>>\<close> and \<open>strtof\<close>).
  A value is its sign with an integer mantissa and the binary exponent of the mantissa's last bit.
\<close>

datatype fp = FNan bool | FInf bool | FFin bool nat int

record fmt =
  prec :: nat
  emin :: int
  emax :: int

definition f32 :: fmt where
  "f32 = \<lparr>prec = 24, emin = - 149, emax = 104\<rparr>"

definition f64 :: fmt where
  "f64 = \<lparr>prec = 53, emin = - 1074, emax = 971\<rparr>"

definition fp_zero :: "fmt \<Rightarrow> fp" where
  "fp_zero f = FFin False 0 (emin f)"

definition fp_max :: "fmt \<Rightarrow> bool \<Rightarrow> fp" where
  "fp_max f neg = FFin neg (2 ^ prec f - 1) (emax f)"

section \<open>Rounding\<close>

text \<open>\<open>a / b\<close> rounded to the nearest integer, ties to even.\<close>

definition rne :: "nat \<Rightarrow> nat \<Rightarrow> nat" where
  "rne a b = (let q = a div b; r = a mod b in
     if 2 * r < b then q else if b < 2 * r then q + 1 else if even q then q else q + 1)"

fun bitlen :: "nat \<Rightarrow> nat" where
  "bitlen n = (if n = 0 then 0 else Suc (bitlen (n div 2)))"

declare bitlen.simps [simp del]

definition floor_log2 :: "nat \<Rightarrow> nat \<Rightarrow> int" where
  "floor_log2 a b = (let e = int (bitlen a) - int (bitlen b) in
     if b * 2 ^ nat e \<le> a * 2 ^ nat (- e) then e else e - 1)"

definition fp_round :: "fmt \<Rightarrow> bool \<Rightarrow> nat \<Rightarrow> nat \<Rightarrow> fp" where
  "fp_round f neg a b =
     (if a = 0 then FFin neg 0 (emin f)
      else let e = max (emin f) (floor_log2 a b - int (prec f - 1));
               q = rne (a * 2 ^ nat (- e)) (b * 2 ^ nat e);
               (q', e') = (if q = 2 ^ prec f then (2 ^ (prec f - 1), e + 1) else (q, e))
           in if emax f < e' then FInf neg else FFin neg q' e')"

lemma rne_error: "0 < b \<Longrightarrow> 2 * \<bar>int (rne a b) * int b - int a\<bar> \<le> int b"
proof -
  assume b: "0 < b"
  define q r where "q = a div b" and "r = a mod b"
  have a: "int a = int b * int q + int r" and r: "r < b"
    using b by (simp_all add: q_def r_def flip: of_nat_mult of_nat_add)
  have "rne a b = q \<and> 2 * r \<le> b \<or> rne a b = q + 1 \<and> b \<le> 2 * r"
    by (auto simp: rne_def q_def r_def Let_def)
  then show ?thesis
  proof
    assume "rne a b = q \<and> 2 * r \<le> b"
    then show ?thesis by (simp add: a algebra_simps)
  next
    assume "rne a b = q + 1 \<and> b \<le> 2 * r"
    with r show ?thesis by (simp add: a algebra_simps)
  qed
qed

lemma bitlen_bounds: "n < 2 ^ bitlen n \<and> (0 < n \<longrightarrow> 2 ^ (bitlen n - 1) \<le> n)"
proof (induction n rule: bitlen.induct)
  case (1 n)
  show ?case
  proof (cases "n = 0")
    case True
    then show ?thesis by (simp add: bitlen.simps)
  next
    case False
    then have IH: "n div 2 < 2 ^ bitlen (n div 2)"
      "0 < n div 2 \<longrightarrow> 2 ^ (bitlen (n div 2) - 1) \<le> n div 2"
      using 1 by auto
    have len: "bitlen n = Suc (bitlen (n div 2))"
      using False by (subst bitlen.simps) simp
    have "2 ^ bitlen (n div 2) \<le> n"
    proof (cases "n div 2 = 0")
      case True
      then show ?thesis using False by (simp add: bitlen.simps)
    next
      case nz: False
      then have "bitlen (n div 2) = Suc (bitlen (n div 2) - 1)"
        by (subst bitlen.simps) (simp add: bitlen.simps)
      then have "(2::nat) ^ bitlen (n div 2) = 2 * 2 ^ (bitlen (n div 2) - 1)"
        by (metis power_Suc)
      with IH(2) nz show ?thesis by simp
    qed
    with IH(1) len show ?thesis by simp
  qed
qed

section \<open>Values in memory\<close>

definition fp_of_bits32 :: "u32 \<Rightarrow> fp" where
  "fp_of_bits32 w =
     (let n = unat w; neg = (2 ^ 31 \<le> n); ex = n div 2 ^ 23 mod 256; frac = n mod 2 ^ 23 in
      if ex = 255 then (if frac = 0 then FInf neg else FNan neg)
      else if ex = 0 then FFin neg frac (- 149)
      else FFin neg (frac + 2 ^ 23) (int ex - 150))"

definition fp_of_bits64 :: "u64 \<Rightarrow> fp" where
  "fp_of_bits64 w =
     (let n = unat w; neg = (2 ^ 63 \<le> n); ex = n div 2 ^ 52 mod 2048; frac = n mod 2 ^ 52 in
      if ex = 2047 then (if frac = 0 then FInf neg else FNan neg)
      else if ex = 0 then FFin neg frac (- 1074)
      else FFin neg (frac + 2 ^ 52) (int ex - 1075))"

definition bits32_of_fp :: "fp \<Rightarrow> u32" where
  "bits32_of_fp x =
     (case x of
        FNan neg \<Rightarrow> of_nat ((if neg then 2 ^ 31 else 0) + 255 * 2 ^ 23 + 2 ^ 22)
      | FInf neg \<Rightarrow> of_nat ((if neg then 2 ^ 31 else 0) + 255 * 2 ^ 23)
      | FFin neg m e \<Rightarrow>
          of_nat ((if neg then 2 ^ 31 else 0)
                  + (if m < 2 ^ 23 then m else nat (e + 150) * 2 ^ 23 + (m - 2 ^ 23))))"

section \<open>Arithmetic\<close>

definition fp_of_int :: "fmt \<Rightarrow> int \<Rightarrow> fp" where
  "fp_of_int f i = fp_round f (i < 0) (nat \<bar>i\<bar>) 1"

definition fp_mul :: "fmt \<Rightarrow> fp \<Rightarrow> fp \<Rightarrow> fp" where
  "fp_mul f x y =
     (case (x, y) of
        (FNan s, _) \<Rightarrow> FNan s
      | (_, FNan s) \<Rightarrow> FNan s
      | (FInf s, FInf t) \<Rightarrow> FInf (s \<noteq> t)
      | (FInf s, FFin t m e) \<Rightarrow> if m = 0 then FNan True else FInf (s \<noteq> t)
      | (FFin s m e, FInf t) \<Rightarrow> if m = 0 then FNan True else FInf (s \<noteq> t)
      | (FFin s m e, FFin t n d) \<Rightarrow>
          fp_round f (s \<noteq> t) (m * n * 2 ^ nat (e + d)) (2 ^ nat (- (e + d))))"

text \<open>Division by a positive integer that the format represents exactly.\<close>

definition fp_div_nat :: "fmt \<Rightarrow> fp \<Rightarrow> nat \<Rightarrow> fp" where
  "fp_div_nat f x d =
     (case x of
        FFin s m e \<Rightarrow> fp_round f s (m * 2 ^ nat e) (d * 2 ^ nat (- e))
      | _ \<Rightarrow> x)"

text \<open>\<open>std::max(0.0F, x)\<close>: the second argument only when the first is less.\<close>

definition fp_max_zero :: "fmt \<Rightarrow> fp \<Rightarrow> fp" where
  "fp_max_zero f x =
     (case x of
        FNan _ \<Rightarrow> fp_zero f
      | FInf neg \<Rightarrow> if neg then fp_zero f else x
      | FFin neg m e \<Rightarrow> if neg \<or> m = 0 then fp_zero f else x)"

section \<open>Output\<close>

definition dec_fixed :: "nat \<Rightarrow> nat \<Rightarrow> string" where
  "dec_fixed p n =
     (let frac = nat_str (n mod 10 ^ p)
      in nat_str (n div 10 ^ p) @ CHR ''.'' # replicate (p - length frac) (CHR ''0'') @ frac)"

definition fp_fixed :: "nat \<Rightarrow> fp \<Rightarrow> string" where
  "fp_fixed p x =
     (case x of
        FNan neg \<Rightarrow> (if neg then ''-nan'' else ''nan'')
      | FInf neg \<Rightarrow> (if neg then ''-inf'' else ''inf'')
      | FFin neg m e \<Rightarrow>
          (if neg then ''-'' else []) @
          dec_fixed p (rne (m * 10 ^ p * 2 ^ nat e) (2 ^ nat (- e))))"

section \<open>Input\<close>

text \<open>
  The characters a decimal floating point extraction takes: (negative, digits before the point,
  digits after it, exponent, well formed, rest). An exponent mark needs a digit before it and is
  ill formed without a digit after it.
\<close>

record float_text =
  ft_neg :: bool
  ft_int :: string
  ft_frac :: string
  ft_exp :: int
  ft_ok :: bool
  ft_rest :: string

definition scan_float :: "string \<Rightarrow> float_text" where
  "scan_float r =
     (let neg = (r \<noteq> [] \<and> hd r = CHR ''-'');
          r0 = (if r \<noteq> [] \<and> (hd r = CHR ''-'' \<or> hd r = CHR ''+'') then tl r else r);
          ds = takeWhile is_digit r0;
          r1 = dropWhile is_digit r0;
          point = (r1 \<noteq> [] \<and> hd r1 = CHR ''.'');
          fs = (if point then takeWhile is_digit (tl r1) else []);
          r2 = (if point then dropWhile is_digit (tl r1) else r1)
      in if ds @ fs \<noteq> [] \<and> r2 \<noteq> [] \<and> (hd r2 = CHR ''e'' \<or> hd r2 = CHR ''E'')
         then (case scan_int (tl r2) of (eneg, es, r3) \<Rightarrow>
                 \<lparr>ft_neg = neg, ft_int = ds, ft_frac = fs,
                  ft_exp = (if eneg then - int (digits_val es) else int (digits_val es)),
                  ft_ok = es \<noteq> [], ft_rest = r3\<rparr>)
         else \<lparr>ft_neg = neg, ft_int = ds, ft_frac = fs, ft_exp = 0, ft_ok = ds @ fs \<noteq> [],
               ft_rest = r2\<rparr>)"

definition fp_of_text :: "fmt \<Rightarrow> float_text \<Rightarrow> fp" where
  "fp_of_text f t =
     (let x = ft_exp t - int (length (ft_frac t))
      in fp_round f (ft_neg t) (digits_val (ft_int t @ ft_frac t) * 10 ^ nat x) (10 ^ nat (- x)))"

text \<open>\<open>stream >> x\<close> for \<open>float\<close> and \<open>double\<close>.\<close>

definition read_float :: "fmt \<Rightarrow> fp \<Rightarrow> istream \<Rightarrow> fp \<times> istream" where
  "read_float f old s =
     (case sentry s of
        (None, s') \<Rightarrow> (old, s')
      | (Some r, s') \<Rightarrow>
          (let t = scan_float r; s'' = s'\<lparr>unread := ft_rest t, eofbit := ft_rest t = []\<rparr>
           in if \<not> ft_ok t then (fp_zero f, set_fail s'')
              else (case fp_of_text f t of
                      FInf neg \<Rightarrow> (fp_max f neg, set_fail s'')
                    | v \<Rightarrow> (v, s''))))"

text \<open>
  \<open>strtof(text, &end)\<close> with \<open>end != text && *end == '\0'\<close>: the value when the whole C string is a
  number in decimal or hexadecimal notation, an infinity or a NaN.
\<close>

definition scan_hex_float :: "string \<Rightarrow> (nat \<times> int) option" where
  "scan_hex_float r =
     (let ds = takeWhile is_xdigit r;
          r1 = dropWhile is_xdigit r;
          point = (r1 \<noteq> [] \<and> hd r1 = CHR ''.'');
          fs = (if point then takeWhile is_xdigit (tl r1) else []);
          r2 = (if point then dropWhile is_xdigit (tl r1) else r1);
          x = - 4 * int (length fs)
      in if ds @ fs = [] then None
         else if r2 = [] then Some (xdigits_val (ds @ fs), x)
         else if to_lower (hd r2) = CHR ''p''
         then (case scan_int (tl r2) of (eneg, es, r3) \<Rightarrow>
                 if es = [] \<or> r3 \<noteq> [] then None
                 else Some (xdigits_val (ds @ fs),
                            x + (if eneg then - int (digits_val es) else int (digits_val es))))
         else None)"

definition nan_tail :: "string \<Rightarrow> bool" where
  "nan_tail r \<longleftrightarrow> r = [] \<or>
     (hd r = CHR ''('' \<and> last r = CHR '')'' \<and> 2 \<le> length r \<and>
      (\<forall>c \<in> set (butlast (tl r)). is_digit c \<or> to_lower c \<noteq> to_upper c \<or> c = CHR ''_''))"

definition strtof_whole :: "string \<Rightarrow> fp option" where
  "strtof_whole text =
     (let r = dropWhile is_space (c_str text);
          neg = (r \<noteq> [] \<and> hd r = CHR ''-'');
          r0 = (if r \<noteq> [] \<and> (hd r = CHR ''-'' \<or> hd r = CHR ''+'') then tl r else r);
          low = map to_lower r0
      in if low = ''inf'' \<or> low = ''infinity'' then Some (FInf neg)
         else if take 3 low = ''nan'' \<and> nan_tail (drop 3 r0) then Some (FNan neg)
         else if take 2 low = ''0x'' \<and> scan_hex_float (drop 2 r0) \<noteq> None
         then map_option (\<lambda>(m, x). fp_round f32 neg (m * 2 ^ nat x) (2 ^ nat (- x)))
                (scan_hex_float (drop 2 r0))
         else (let t = scan_float r in
               if ft_ok t \<and> ft_rest t = [] then Some (fp_of_text f32 t) else None))"

section \<open>Error bounds\<close>

lemma floor_log2_le:
  assumes "0 < a" and "0 < b" and "a < b * 2 ^ k"
  shows "floor_log2 a b < int k"
proof (rule ccontr)
  define e where "e = int (bitlen a) - int (bitlen b)"
  assume "\<not> floor_log2 a b < int k"
  then have "int k \<le> floor_log2 a b" by simp
  then consider "int k \<le> e" "b * 2 ^ nat e \<le> a * 2 ^ nat (- e)"
    | "int k \<le> e - 1"
    by (auto simp: floor_log2_def e_def Let_def split: if_splits)
  then show False
  proof cases
    case 1
    then have "b * 2 ^ nat e \<le> a" and "k \<le> nat e" by simp_all
    moreover from this have "b * 2 ^ k \<le> b * 2 ^ nat e"
      by (simp add: power_increasing)
    ultimately show False using assms(3) by simp
  next
    case 2
    then have len: "bitlen b + k + 1 \<le> bitlen a" by (simp add: e_def)
    have "b * 2 ^ k \<le> 2 ^ (bitlen b + k)"
      using bitlen_bounds[of b] by (simp add: power_add)
    also have "\<dots> \<le> 2 ^ (bitlen a - 1)"
      using len by (intro power_increasing) auto
    also have "\<dots> \<le> a"
      using bitlen_bounds[of a] assms(1) by simp
    finally show False using assms(3) by simp
  qed
qed

lemma rne_unique:
  assumes "0 < B" and "2 * \<bar>int A - int q * int B\<bar> < int B"
  shows "rne A B = q"
proof -
  define r where "r = rne A B"
  have "2 * \<bar>int r * int B - int A\<bar> \<le> int B"
    using rne_error[OF assms(1)] by (simp add: r_def)
  moreover have "\<bar>y - z\<bar> < c" if "2 * \<bar>x - z\<bar> < c" "2 * \<bar>y - x\<bar> \<le> c" for x y z c :: int
    using that by (cases "x \<le> z"; cases "y \<le> x"; cases "y \<le> z"; simp)
  ultimately have d: "\<bar>int r * int B - int q * int B\<bar> < int B"
    using assms(2) by blast
  have "\<bar>(int r - int q) * int B\<bar> < int B"
    using d by (simp add: left_diff_distrib)
  then have "\<bar>int r - int q\<bar> * int B < 1 * int B"
    by (simp add: abs_mult)
  then have "\<bar>int r - int q\<bar> < 1"
    using assms(1) by (simp only: mult_less_cancel_right)
  then show ?thesis by (simp add: r_def)
qed

text \<open>
  A quotient below \<open>2 ^ k\<close> is rounded to a significand over a power of two, with an error of at
  most half a unit of it.
\<close>

lemma fp_round_small:
  assumes "0 < a" and "0 < b" and "a < b * 2 ^ k" and "k + 2 \<le> prec f"
    and "emin f \<le> int k - int (prec f)" and "0 \<le> emax f"
  shows "\<exists>m K. fp_round f neg a b = FFin neg m (- int K) \<and> prec f \<le> K + k + 1 \<and>
           2 * \<bar>int m * int b - int a * 2 ^ K\<bar> \<le> int b"
proof -
  define e where "e = max (emin f) (floor_log2 a b - int (prec f - 1))"
  have le: "e \<le> int k - int (prec f)"
    using floor_log2_le[OF assms(1-3)] assms(4,5) by (simp add: e_def of_nat_diff)
  define N where "N = nat (- e)"
  have N: "e = - int N" "prec f \<le> N + k" using le assms(4) by (simp_all add: N_def)
  define q where "q = rne (a * 2 ^ N) b"
  have err: "2 * \<bar>int q * int b - int a * 2 ^ N\<bar> \<le> int b"
    using rne_error[OF assms(2), of "a * 2 ^ N"] by (simp add: q_def)
  have rd: "fp_round f neg a b =
      (if q = 2 ^ prec f then FFin neg (2 ^ (prec f - 1)) (e + 1) else FFin neg q e)"
    unfolding fp_round_def Let_def e_def[symmetric]
    using assms(1,4,6) le N(1) by (simp add: q_def)
  show ?thesis
  proof (cases "q = 2 ^ prec f")
    case False
    with rd err N show ?thesis by (intro exI[of _ q] exI[of _ N]) simp
  next
    case True
    define M where "M = N - 1"
    have M: "N = Suc M" using N assms(4) by (simp add: M_def)
    have "int q = 2 * 2 ^ (prec f - 1)"
      using True assms(4) by (cases "prec f") simp_all
    with err M have "2 * \<bar>2 * (2 ^ (prec f - 1) * int b - int a * 2 ^ M)\<bar> \<le> int b"
      by (simp add: algebra_simps)
    then have "2 * \<bar>2 ^ (prec f - 1) * int b - int a * 2 ^ M\<bar> \<le> int b" by linarith
    with rd True N M show ?thesis
      by (intro exI[of _ "2 ^ (prec f - 1)"] exI[of _ M]) simp
  qed
qed

section \<open>Reading back\<close>

lemma foldl_digits_val:
  "foldl (\<lambda>v c. 10 * v + digit_val c) x ds = x * 10 ^ length ds + digits_val ds"
proof (induction ds rule: rev_induct)
  case (snoc c ds)
  then show ?case by (simp add: digits_val_def algebra_simps)
qed (simp add: digits_val_def)

lemma digits_val_append: "digits_val (xs @ ys) = digits_val xs * 10 ^ length ys + digits_val ys"
  using foldl_digits_val[of "digits_val xs" ys] by (simp add: digits_val_def)

lemma digits_val_zeros [simp]: "digits_val (replicate n (CHR ''0'')) = 0"
  by (induction n) (simp_all add: digits_val_def digit_val_def)

lemma length_nat_str: "0 < k \<Longrightarrow> n < 10 ^ k \<Longrightarrow> length (nat_str n) \<le> k"
proof (induction n arbitrary: k rule: nat_str.induct)
  case (1 n)
  show ?case
  proof (cases "n < 10")
    case True
    with 1(2) show ?thesis by (subst nat_str.simps) simp
  next
    case False
    with 1(3) obtain j where k: "k = Suc j" "0 < j"
      by (cases k; cases "k - 1") auto
    with 1(3) have "n div 10 < 10 ^ j" by simp
    with 1(1)[OF False k(2)] False k show ?thesis by (subst nat_str.simps) simp
  qed
qed

lemma scan_float_fixed:
  assumes "0 < p" and "blank_start rest"
  shows "scan_float ((if neg then ''-'' else []) @ dec_fixed p n @ rest) =
     \<lparr>ft_neg = neg, ft_int = nat_str (n div 10 ^ p),
      ft_frac = replicate (p - length (nat_str (n mod 10 ^ p))) (CHR ''0'') @ nat_str (n mod 10 ^ p),
      ft_exp = 0, ft_ok = True, ft_rest = rest\<rparr>"
proof -
  define ds where "ds = nat_str (n div 10 ^ p)"
  define fs where "fs = replicate (p - length (nat_str (n mod 10 ^ p))) (CHR ''0'') @ nat_str (n mod 10 ^ p)"
  have ds: "\<forall>c \<in> set ds. is_digit c" "ds \<noteq> []"
    using nat_str_digits by (simp_all add: ds_def)
  have fs: "\<forall>c \<in> set fs. is_digit c"
    using nat_str_digits[of "n mod 10 ^ p"] by (auto simp: fs_def is_digit_def)
  have shown: "dec_fixed p n @ rest = ds @ CHR ''.'' # fs @ rest"
    by (simp add: dec_fixed_def ds_def fs_def Let_def)
  have hd: "hd (ds @ CHR ''.'' # fs @ rest) \<noteq> CHR ''-''" "hd (ds @ CHR ''.'' # fs @ rest) \<noteq> CHR ''+''"
    using ds by (cases ds; auto)+
  have int: "takeWhile is_digit (ds @ CHR ''.'' # fs @ rest) = ds"
    "dropWhile is_digit (ds @ CHR ''.'' # fs @ rest) = CHR ''.'' # fs @ rest"
    using ds(1) by (intro takeWhile_append_stop dropWhile_append_stop; simp add: is_digit_def)+
  note frac = blank_start_digits[OF assms(2) fs]
  have stop: "rest = [] \<or> hd rest \<noteq> CHR ''e'' \<and> hd rest \<noteq> CHR ''E''"
    using assms(2) by (auto simp: blank_start_def is_space_def)
  show ?thesis
    unfolding shown ds_def[symmetric] fs_def[symmetric] scan_float_def Let_def
    using stop ds(2) by (cases neg) (simp_all only: hd int frac if_True if_False append_Nil append_Cons
        list.sel list.simps simp_thms append_is_Nil_conv, auto)
qed

lemma dec_fixed_no_space: "\<forall>c \<in> set (dec_fixed p n). \<not> is_space c"
proof -
  have "\<not> is_space c" if "c \<in> set (nat_str k)" for c k
    using that nat_str_digits[of k] by simp
  moreover have "\<not> is_space CHR ''.''" "\<not> is_space CHR ''0''"
    by (simp_all add: is_space_def)
  ultimately show ?thesis
    by (auto simp: dec_fixed_def Let_def simp del: not_space_minus)
qed

text \<open>A text with \<open>p\<close> decimals reads back as the value nearest to it.\<close>

lemma read_float_fixed:
  assumes "0 < p" and "blank_start rest" and "fp_round f neg n (10 ^ p) = FFin neg m e"
  shows "read_float f old (stream_at (CHR '' '' # ((if neg then ''-'' else []) @ dec_fixed p n) @ rest))
         = (FFin neg m e, stream_at rest)"
proof -
  define w where "w = (if neg then ''-'' else []) @ dec_fixed p n"
  have w: "word_text w"
    using dec_fixed_no_space[of p n] not_space_minus by (auto simp: w_def word_text_def dec_fixed_def Let_def)
  have "length (nat_str (n mod 10 ^ p)) \<le> p"
    using assms(1) by (intro length_nat_str) simp_all
  then have val: "digits_val (nat_str (n div 10 ^ p) @ replicate (p - length (nat_str (n mod 10 ^ p))) (CHR ''0'')
      @ nat_str (n mod 10 ^ p)) = n"
    by (simp add: digits_val_append flip: power_add) (rule div_mult_mod_eq)
  have scan: "scan_float (w @ rest) = \<lparr>ft_neg = neg, ft_int = nat_str (n div 10 ^ p),
      ft_frac = replicate (p - length (nat_str (n mod 10 ^ p))) (CHR ''0'') @ nat_str (n mod 10 ^ p),
      ft_exp = 0, ft_ok = True, ft_rest = rest\<rparr>"
    using scan_float_fixed[OF assms(1,2), of neg n] by (simp add: w_def)
  have "fp_of_text f (scan_float (w @ rest)) = fp_round f neg n (10 ^ p)"
    using val \<open>length (nat_str (n mod 10 ^ p)) \<le> p\<close> by (simp add: scan fp_of_text_def)
  then show ?thesis
    using assms(3) sentry_word[OF w, of rest]
    by (simp add: read_float_def scan stream_at_def Let_def flip: w_def)
qed

text \<open>The binary32 constants the sources write.\<close>

lemma f32_constants:
  "bits32_of_fp (fp_of_int f32 1) = 0x3F800000"
  "bits32_of_fp (fp_of_int f32 45) = 0x42340000"
  by (simp_all add: bits32_of_fp_def fp_of_int_def fp_round_def f32_def floor_log2_def
      bitlen.simps rne_def Let_def)

end
