(* ===== verification/OpenHD_Protocol.thy ===== *)
theory OpenHD_Protocol
  imports Cpp_Text
begin

text \<open>
  \<open>src/common/openhd_protocol.hpp\<close>: the identifier tables mirrored from OpenHD (platforms, cameras,
  Wi-Fi cards), the lookups over them, the uniqueness check the sources run at compile time, and
  the wire constants of OpenHD's own MAVLink messages. The lemmas show that the three tables pass
  the check and that a lookup in a table that passes it finds exactly the entry with the id.
\<close>

definition system_id_ground :: u8 where "system_id_ground = 100"
definition system_id_air :: u8 where "system_id_air = 101"
definition component_id_camera_primary :: u8 where "component_id_camera_primary = 100"
definition component_id_camera_secondary :: u8 where "component_id_camera_secondary = 101"
definition component_id_link :: u8 where "component_id_link = 191"

lemmas openhd_ids = system_id_ground_def system_id_air_def component_id_camera_primary_def
  component_id_camera_secondary_def component_id_link_def

record id_entry =
  entry_id :: int
  entry_key :: string
  entry_name :: string

definition id_entry_of :: "int \<times> string \<times> string \<Rightarrow> id_entry" where
  "id_entry_of e = (case e of (i, k, n) \<Rightarrow> \<lparr>entry_id = i, entry_key = k, entry_name = n\<rparr>)"

text \<open>\<open>platform::ids\<close>\<close>

definition platform_ids :: "id_entry list" where
  "platform_ids = map id_entry_of
    [(0, ''X_PLATFORM_TYPE_UNKNOWN'', ''UNKNOWN''),
     (1, ''X_PLATFORM_TYPE_X86'', ''X86''),
     (10, ''X_PLATFORM_TYPE_RPI_OLD'', ''RPI<=3''),
     (11, ''X_PLATFORM_TYPE_RPI_4'', ''RPI 4''),
     (12, ''X_PLATFORM_TYPE_RPI_CM4'', ''RPI CM4''),
     (13, ''X_PLATFORM_TYPE_RPI_5'', ''RPI 5''),
     (20, ''X_PLATFORM_TYPE_ROCKCHIP_RK3566_RADXA_ZERO3W'', ''RADXA ZERO3W''),
     (21, ''X_PLATFORM_TYPE_ROCKCHIP_RK3588_RADXA_ROCK5_A'', ''RADXA RK3588S''),
     (22, ''X_PLATFORM_TYPE_ROCKCHIP_RK3588_RADXA_ROCK5_B'', ''RADXA RK3588''),
     (23, ''X_PLATFORM_TYPE_ROCKCHIP_RV1126'', ''RV1126''),
     (24, ''X_PLATFORM_TYPE_ROCKCHIP_RK3566_RADXA_CM3'', ''RADXA CM3''),
     (25, ''X_PLATFORM_TYPE_LUCKFOX_RV110X'', ''RV110X''),
     (27, ''X_PLATFORM_TYPE_LUCKFOX_LYRA'', ''ERR-UNDEFINED{27}''),
     (28, ''X_PLATFORM_TYPE_OPENHD_X21'', ''X21/RV1126(B)''),
     (30, ''X_PLATFORM_TYPE_ALWINNER_X20'', ''X20''),
     (31, ''X_PLATFORM_TYPE_ALWINNER_CUBIE_A7S'', ''ERR-UNDEFINED{31}''),
     (32, ''X_PLATFORM_TYPE_ALWINNER_CUBIE_A7Z'', ''A733''),
     (36, ''X_PLATFORM_TYPE_OPENIPC_SIGMASTAR_UNDEFINED'', ''OPENIPC SIGMASTAR''),
     (40, ''X_PLATFORM_TYPE_NVIDIA_XAVIER'', ''NVIDIA_XAVIER''),
     (46, ''X_PLATFORM_TYPE_QUALCOMM_QRB5165'', ''QUALCOMM_QRB5165''),
     (47, ''X_PLATFORM_TYPE_QUALCOMM_QCS405'', ''QUALCOMM_QCS405''),
     (51, ''X_PLATFORM_TYPE_ORQA'', ''ORQA''),
     (52, ''X_PLATFORM_TYPE_UVX_MOD'', ''UVX_MOD''),
     (61, ''X_PLATFORM_TYPE_NXP_IMX8'', ''NXP_IMX8'')]"

text \<open>\<open>camera::ids\<close>\<close>

definition camera_ids :: "id_entry list" where
  "camera_ids = map id_entry_of
    [(0, ''X_CAM_TYPE_DUMMY_SW'', ''DUMMY''),
     (2, ''X_CAM_TYPE_EXTERNAL'', ''EXTERNAL''),
     (3, ''X_CAM_TYPE_EXTERNAL_IP'', ''EXTERNAL_IP''),
     (4, ''X_CAM_TYPE_DEVELOPMENT_FILESRC'', ''DEV_FILESRC''),
     (10, ''X_CAM_TYPE_USB_GENERIC'', ''USB''),
     (11, ''X_CAM_TYPE_USB_INFIRAY'', ''INFIRAY''),
     (12, ''X_CAM_TYPE_USB_INFIRAY_T2'', ''INFIRAY_T2''),
     (13, ''X_CAM_TYPE_USB_INFIRAY_X2'', ''INFIRAY_X2''),
     (14, ''X_CAM_TYPE_USB_INFIRAY_P2_PRO'', ''INFIRAY_P2_PRO''),
     (15, ''X_CAM_TYPE_USB_FLIR_VUE'', ''FLIR VUE''),
     (16, ''X_CAM_TYPE_USB_FLIR_BOSON'', ''FLIR BOSON''),
     (20, ''X_CAM_TYPE_RPI_MMAL_HDMI_TO_CSI'', ''MMAL_HDMI''),
     (30, ''X_CAM_TYPE_RPI_LIBCAMERA_RPIF_V1_OV5647'', ''RPIF_V1_OV5647''),
     (31, ''X_CAM_TYPE_RPI_LIBCAMERA_RPIF_V2_IMX219'', ''RPIF_V2_IMX219''),
     (32, ''X_CAM_TYPE_RPI_LIBCAMERA_RPIF_V3_IMX708'', ''RPIF_V3_IMX708''),
     (33, ''X_CAM_TYPE_RPI_LIBCAMERA_RPIF_HQ_IMX477'', ''RPIF_HQ_IMX477''),
     (40, ''X_CAM_TYPE_RPI_LIBCAMERA_ARDUCAM_SKYMASTERHDR_IMX708'', ''ARDUCAM_SKYMASTERHDR''),
     (41, ''X_CAM_TYPE_RPI_LIBCAMERA_ARDUCAM_SKYVISIONPRO_IMX519'', ''ARDUCAM_SKYVISIONPRO''),
     (42, ''X_CAM_TYPE_RPI_LIBCAMERA_ARDUCAM_IMX477M'', ''ARDUCAM_IMX477M''),
     (43, ''X_CAM_TYPE_RPI_LIBCAMERA_ARDUCAM_IMX462'', ''ARDUCAM_IMX462''),
     (44, ''X_CAM_TYPE_RPI_LIBCAMERA_ARDUCAM_IMX327'', ''ARDUCAM_IMX327''),
     (45, ''X_CAM_TYPE_RPI_LIBCAMERA_ARDUCAM_IMX290'', ''ARDUCAM_IMX290''),
     (46, ''X_CAM_TYPE_RPI_LIBCAMERA_ARDUCAM_IMX462_LOWLIGHT_MINI'', ''ARDUCAM_IMX462_LOWLIGHT_MINI''),
     (47, ''X_CAM_TYPE_RPI_LIBCAMERA_ARDUCAM_IMX662'', ''ARDUCAM_IMX662''),
     (60, ''X_CAM_TYPE_RPI_V4L2_VEYE_2MP'', ''VEYE_2MP''),
     (61, ''X_CAM_TYPE_RPI_V4L2_VEYE_CSIMX307'', ''VEYE_IMX307''),
     (62, ''X_CAM_TYPE_RPI_V4L2_VEYE_CSSC132'', ''VEYE_CSSC132''),
     (63, ''X_CAM_TYPE_RPI_V4L2_VEYE_MVCAM'', ''VEYE_MVCAM''),
     (70, ''X_CAM_TYPE_X20_HDZERO_GENERIC'', ''X20_HDZERO_GENERIC''),
     (71, ''X_CAM_TYPE_X20_HDZERO_RUNCAM_V1'', ''X20_HDZERO_RUNCAM_V1''),
     (72, ''X_CAM_TYPE_X20_HDZERO_RUNCAM_V2'', ''X20_HDZERO_RUNCAM_V2''),
     (73, ''X_CAM_TYPE_X20_HDZERO_RUNCAM_V3'', ''X20_HDZERO_RUNCAM_V3''),
     (74, ''X_CAM_TYPE_X20_HDZERO_RUNCAM_NANO_90'', ''X20_HDZERO_RUNCAM_NANO''),
     (75, ''X_CAM_TYPE_X20_OHD_Jaguar'', ''X20_OHD_Jaguar''),
     (76, ''X_CAM_TYPE_X21_OHD_Jaguar'', ''X21_OHD_Jaguar''),
     (77, ''X_CAM_TYPE_A733_IMX415'', ''A733_IMX415''),
     (78, ''X_CAM_TYPE_A733_IMX219'', ''A733_IMX219''),
     (79, ''X_CAM_TYPE_A733_IMX214'', ''A733_IMX214''),
     (80, ''X_CAM_TYPE_ROCK_5_HDMI_IN'', ''ROCK_5_HDMI_IN''),
     (81, ''X_CAM_TYPE_ROCK_5_OV5647'', ''ROCK_5_OV5647''),
     (82, ''X_CAM_TYPE_ROCK_5_IMX219'', ''ROCK_5_IMX219''),
     (83, ''X_CAM_TYPE_ROCK_5_IMX708'', ''ROCK_5_IMX708''),
     (84, ''X_CAM_TYPE_ROCK_5_IMX462'', ''ROCK_5_IMX462''),
     (85, ''X_CAM_TYPE_ROCK_5_IMX415'', ''ROCK_5_IMX415''),
     (86, ''X_CAM_TYPE_ROCK_5_IMX477'', ''ROCK_5_IMX415''),
     (87, ''X_CAM_TYPE_ROCK_5_IMX519'', ''ROCK_5_IMX415''),
     (88, ''X_CAM_TYPE_ROCK_5_OHD_Jaguar'', ''ROCK_5_OHD_Jaguar''),
     (90, ''X_CAM_TYPE_ROCK_3_HDMI_IN'', ''ROCK_3_HDMI_IN''),
     (91, ''X_CAM_TYPE_ROCK_3_OV5647'', ''ROCK_3_OV5647''),
     (92, ''X_CAM_TYPE_ROCK_3_IMX219'', ''ROCK_3_IMX219''),
     (93, ''X_CAM_TYPE_ROCK_3_IMX708'', ''ROCK_3_IMX708''),
     (94, ''X_CAM_TYPE_ROCK_3_IMX462'', ''ROCK_3_IMX462''),
     (95, ''X_CAM_TYPE_ROCK_3_IMX519'', ''ROCK_3_IMX519''),
     (96, ''X_CAM_TYPE_ROCK_3_OHD_Jaguar'', ''ROCK_3_OHD_Jaguar''),
     (97, ''X_CAM_TYPE_ROCK_3_VEYE'', ''ROCK_3_VEYE''),
     (101, ''X_CAM_TYPE_NVIDIA_XAVIER_IMX577'', ''XAVIER_IMX577''),
     (110, ''X_CAM_TYPE_OPENIPC_GENERIC'', ''OPENIPC_X''),
     (120, ''X_CAM_TYPE_QC_IMX577'', ''CORETRONIC IMX577''),
     (121, ''X_CAM_TYPE_QC_OV9282'', ''CORETRONIC OV9282''),
     (122, ''X_CAM_TYPE_ORQA_HORNET'', ''ORQA_HORNET''),
     (123, ''X_CAM_TYPE_ORQA_JAGUAR'', ''ORQA_JAGUAR''),
     (124, ''X_CAM_TYPE_ORQA_REKINDLE'', ''ORQA_REKINDLE''),
     (125, ''X_CAM_TYPE_ORQA_ORCA_DIGITAL_V2'', ''ORQA_ORCA_DIGITAL_V2''),
     (130, ''X_CAM_TYPE_NXP_IMX8_V4L2'', ''NXP_IMX8_V4L2''),
     (131, ''X_CAM_TYPE_NXP_IMX8_OS08A20'', ''NXP_IMX8_OS08A20''),
     (140, ''X_CAM_TYPE_ROCKCHIP_RV110X'', ''LUCKFOX_MIS5001''),
     (141, ''X_CAM_TYPE_ROCKCHIP_RV1126_CSI'', ''RV1126B_CSI''),
     (142, ''X_CAM_TYPE_ROCKCHIP_RV1126_TEST'', ''RV1126B_TEST''),
     (255, ''X_CAM_TYPE_DISABLED'', ''DISABLED'')]"

text \<open>\<open>wifi_card::ids\<close>\<close>

definition wifi_card_ids :: "id_entry list" where
  "wifi_card_ids = map id_entry_of
    [(0, ''OPENHD_RTL_88X2AU'', ''OPENHD_RTL_88X2AU''),
     (1, ''OPENHD_RTL_88X2BU'', ''OPENHD_RTL_88X2BU''),
     (2, ''OPENHD_RTL_88X2CU'', ''OPENHD_RTL_88X2CU''),
     (3, ''OPENHD_RTL_88X2EU'', ''OPENHD_RTL_88X2EU''),
     (4, ''RTL_88X2AU'', ''RTL_88X2AU''),
     (5, ''RTL_88X2BU'', ''RTL_88X2BU''),
     (6, ''ATHEROS'', ''ATHEROS''),
     (7, ''MT_7921u'', ''MT_7921u''),
     (8, ''RALINK'', ''RALINK''),
     (9, ''INTEL'', ''INTEL''),
     (10, ''BROADCOM'', ''BROADCOM''),
     (11, ''OPENHD_RTL_8852BU'', ''OPENHD_RTL_8852BU''),
     (12, ''OPENHD_EMULATED'', ''OPENHD_EMULATED''),
     (13, ''AIC'', ''AIC''),
     (14, ''QUALCOMM'', ''QUALCOMM''),
     (15, ''UNKNOWN'', ''UNKNOWN''),
     (16, ''ARTOSYN'', ''ARTOSYN'')]"

text \<open>The loop every lookup runs: the first entry with the id.\<close>

fun find_entry :: "id_entry list \<Rightarrow> int \<Rightarrow> id_entry option" where
  "find_entry [] i = None"
| "find_entry (e # es) i = (if entry_id e = i then Some e else find_entry es i)"

definition camera_type_to_string :: "int \<Rightarrow> string" where
  "camera_type_to_string t =
     (case find_entry camera_ids t of
        Some e \<Rightarrow> entry_name e
      | None \<Rightarrow> ''UNKNOWN ('' @ int_str t @ '')'')"

definition wifi_card_type_to_string :: "int \<Rightarrow> string" where
  "wifi_card_type_to_string t =
     (case find_entry wifi_card_ids t of
        Some e \<Rightarrow> entry_name e
      | None \<Rightarrow> ''UNKNOWN'')"

text \<open>\<open>ids_are_unique\<close>: the two nested loops.\<close>

fun ids_are_unique :: "id_entry list \<Rightarrow> bool" where
  "ids_are_unique [] = True"
| "ids_are_unique (e # es) \<longleftrightarrow>
     \<not> list_ex (\<lambda>r. entry_id e = entry_id r) es \<and> ids_are_unique es"

section \<open>Wire constants\<close>

definition stats_monitor_mode_wifi_link_message_id :: nat where
  "stats_monitor_mode_wifi_link_message_id = 1211"
definition stats_monitor_mode_wifi_card_message_id :: nat where
  "stats_monitor_mode_wifi_card_message_id = 1212"
definition core_status_message_id :: nat where "core_status_message_id = 1227"

definition wifi_link_frequency_mhz_offset :: nat where "wifi_link_frequency_mhz_offset = 26"
definition wifi_link_rate_kbits_offset :: nat where "wifi_link_rate_kbits_offset = 28"
definition wifi_link_packet_loss_offset :: nat where "wifi_link_packet_loss_offset = 32"
definition wifi_link_channel_width_offset :: nat where "wifi_link_channel_width_offset = 33"
definition wifi_link_mcs_index_offset :: nat where "wifi_link_mcs_index_offset = 34"
definition wifi_link_snr_antenna1_offset :: nat where "wifi_link_snr_antenna1_offset = 38"
definition wifi_link_snr_antenna2_offset :: nat where "wifi_link_snr_antenna2_offset = 39"
definition wifi_link_temperature_offset :: nat where "wifi_link_temperature_offset = 40"

definition wifi_card_rssi_offset :: nat where "wifi_card_rssi_offset = 23"
definition wifi_card_type_offset :: nat where "wifi_card_type_offset = 21"
definition wifi_card_quality_offset :: nat where "wifi_card_quality_offset = 29"
definition wifi_card_snr_antenna1_offset :: nat where "wifi_card_snr_antenna1_offset = 34"
definition wifi_card_snr_antenna2_offset :: nat where "wifi_card_snr_antenna2_offset = 35"
definition wifi_card_temperature_offset :: nat where "wifi_card_temperature_offset = 36"

definition core_status_cpu_temperature_offset :: nat where "core_status_cpu_temperature_offset = 14"
definition core_status_platform_type_offset :: nat where "core_status_platform_type_offset = 18"

lemmas wire_constants = stats_monitor_mode_wifi_link_message_id_def
  stats_monitor_mode_wifi_card_message_id_def core_status_message_id_def
  wifi_link_frequency_mhz_offset_def wifi_link_rate_kbits_offset_def
  wifi_link_packet_loss_offset_def wifi_link_channel_width_offset_def
  wifi_link_mcs_index_offset_def wifi_link_snr_antenna1_offset_def
  wifi_link_snr_antenna2_offset_def wifi_link_temperature_offset_def
  wifi_card_rssi_offset_def wifi_card_type_offset_def wifi_card_quality_offset_def
  wifi_card_snr_antenna1_offset_def wifi_card_snr_antenna2_offset_def
  wifi_card_temperature_offset_def core_status_cpu_temperature_offset_def
  core_status_platform_type_offset_def

section \<open>The tables are maps\<close>

lemma ids_are_unique_distinct: "ids_are_unique es \<longleftrightarrow> distinct (map entry_id es)"
  by (induction es) (auto simp: list_ex_iff)

lemma find_entry_Some_iff:
  assumes "ids_are_unique es"
  shows "find_entry es i = Some e \<longleftrightarrow> e \<in> set es \<and> entry_id e = i"
  using assms by (induction es) (auto simp: list_ex_iff)

lemma find_entry_None_iff: "find_entry es i = None \<longleftrightarrow> i \<notin> entry_id ` set es"
  by (induction es) auto

lemma platform_ids_unique: "ids_are_unique platform_ids"
  by (simp add: platform_ids_def id_entry_of_def)

lemma camera_ids_unique: "ids_are_unique camera_ids"
  by (simp add: camera_ids_def id_entry_of_def)

lemma wifi_card_ids_unique: "ids_are_unique wifi_card_ids"
  by (simp add: wifi_card_ids_def id_entry_of_def)

end
