(* ===== verification/Mavlink_Wire.thy ===== *)
theory Mavlink_Wire
  imports Cpp_Float OpenHD_Protocol
begin

text \<open>
  The MAVLink byte level of \<open>src/common/mavlink_udp_bridge.cpp\<close>: checksum, little-endian fields,
  fixed-size strings, frame extraction from a datagram and from a TCP byte stream, target
  addressing and packet construction. The lemmas give the field round trips, the agreement of the
  two frame extractors, the independence of stream extraction from how the input was cut
  (an interpretation of \<open>incremental_reader\<close>), and that a built packet is read back.
\<close>

section \<open>Definitions\<close>

record frame =
  sysid :: u8
  compid :: u8
  msgid :: u32
  payload :: bytes

definition crc_accumulate :: "u8 \<Rightarrow> u16 \<Rightarrow> u16" where
  "crc_accumulate data0 crc =
     (let data1 = data0 XOR (ucast (crc AND 0xFF) :: u8);
          data2 = data1 XOR push_bit 4 data1;
          w = (ucast data2 :: u16)
      in drop_bit 8 crc XOR push_bit 8 w XOR push_bit 3 w XOR drop_bit 4 w)"

fun le_nat :: "bytes \<Rightarrow> nat" where
  "le_nat [] = 0"
| "le_nat (b # bs) = unat b + 256 * le_nat bs"

fun le_bytes :: "nat \<Rightarrow> nat \<Rightarrow> bytes" where
  "le_bytes 0 v = []"
| "le_bytes (Suc n) v = of_nat v # le_bytes n (v div 256)"

text \<open>
  \<open>read_le<T>\<close> with \<open>sizeof(T) = n\<close>: the unsigned value of the bytes, 0 when the field does not fit
  in the payload as a whole.
\<close>

definition read_le :: "nat \<Rightarrow> bytes \<Rightarrow> nat \<Rightarrow> nat" where
  "read_le n p off = (if off + n \<le> length p then le_nat (take n (drop off p)) else 0)"

definition read_u8 :: "bytes \<Rightarrow> nat \<Rightarrow> nat" where
  "read_u8 p off = read_le 1 p off"

definition read_i8 :: "bytes \<Rightarrow> nat \<Rightarrow> int" where
  "read_i8 p off = sint (of_nat (read_le 1 p off) :: u8)"

definition read_i16 :: "bytes \<Rightarrow> nat \<Rightarrow> int" where
  "read_i16 p off = sint (of_nat (read_le 2 p off) :: u16)"

definition read_i32 :: "bytes \<Rightarrow> nat \<Rightarrow> int" where
  "read_i32 p off = sint (of_nat (read_le 4 p off) :: u32)"

definition read_i64 :: "bytes \<Rightarrow> nat \<Rightarrow> int" where
  "read_i64 p off = sint (of_nat (read_le 8 p off) :: u64)"

definition read_float_le :: "bytes \<Rightarrow> nat \<Rightarrow> fp" where
  "read_float_le p off = fp_of_bits32 (of_nat (read_le 4 p off))"

definition read_double_le :: "bytes \<Rightarrow> nat \<Rightarrow> fp" where
  "read_double_le p off = fp_of_bits64 (of_nat (read_le 8 p off))"

text \<open>\<open>c_string\<close>: at most \<open>len\<close> bytes, cut at the first NUL, trailing blanks removed.\<close>

definition pop_blanks :: "string \<Rightarrow> string" where
  "pop_blanks s = rev (dropWhile (\<lambda>c. c = CHR '' '') (rev s))"

definition c_string :: "bytes \<Rightarrow> nat \<Rightarrow> nat \<Rightarrow> string" where
  "c_string p off len =
     (if length p \<le> off then []
      else let count = min len (length p - off);
               txt = text_of_bytes (take count (drop off p))
           in pop_blanks (takeWhile (\<lambda>c. c \<noteq> CHR 0x00) txt))"

definition put_fixed_string :: "string \<Rightarrow> nat \<Rightarrow> bytes" where
  "put_fixed_string value len =
     (let cpy = min (length value) len
      in bytes_of_text (take cpy value) @ replicate (len - cpy) 0)"

definition trim_payload_string :: "string \<Rightarrow> string" where
  "trim_payload_string txt = filter (\<lambda>c. c \<noteq> CHR 0x0A) (filter (\<lambda>c. c \<noteq> CHR 0x0D) txt)"

text \<open>
  The size of the frame that starts at the magic byte \<open>hd bs\<close>, \<open>None\<close> when the bytes end before
  it does.
\<close>

definition is_magic :: "u8 \<Rightarrow> bool" where
  "is_magic b \<longleftrightarrow> b = 0xfe \<or> b = 0xfd"

definition header_len :: "u8 \<Rightarrow> nat" where
  "header_len magic = (if magic = 0xfd then 10 else 6)"

definition frame_size :: "bytes \<Rightarrow> nat option" where
  "frame_size bs =
     (let mavlink2 = (hd bs = 0xfd); hl = header_len (hd bs) in
      if length bs < hl + 2 then None
      else let payload_len = unat (bs ! 1);
               signature_len = (if mavlink2 \<and> (bs ! 2) AND 0x01 \<noteq> 0 then 13 else 0);
               frame_len = hl + payload_len + 2 + signature_len
           in if length bs < frame_len then None else Some frame_len)"

definition frame_at :: "bytes \<Rightarrow> frame" where
  "frame_at bs =
     (let payload_len = unat (bs ! 1) in
      if hd bs = 0xfd
      then \<lparr>sysid = bs ! 5, compid = bs ! 6,
            msgid = ucast (bs ! 7) OR push_bit 8 (ucast (bs ! 8)) OR push_bit 16 (ucast (bs ! 9)),
            payload = take payload_len (drop 10 bs)\<rparr>
      else \<lparr>sysid = bs ! 3, compid = bs ! 4, msgid = ucast (bs ! 5),
            payload = take payload_len (drop 6 bs)\<rparr>)"

lemma frame_size_bounds:
  "frame_size bs = Some n \<Longrightarrow> 8 \<le> n \<and> n \<le> length bs"
  by (auto simp: frame_size_def header_len_def Let_def split: if_splits)

function parse_datagram :: "bytes \<Rightarrow> frame list" where
  "parse_datagram bs =
     (case bs of
        [] \<Rightarrow> []
      | b # rest \<Rightarrow>
          if \<not> is_magic b then parse_datagram rest
          else (case frame_size bs of
                  None \<Rightarrow> []
                | Some n \<Rightarrow> frame_at bs # parse_datagram (drop n bs)))"
  by pat_completeness auto
termination
  by (relation "measure length") (auto dest: frame_size_bounds)

declare parse_datagram.simps [simp del]

text \<open>\<open>parse_stream\<close>: the frames and the bytes it leaves in the buffer.\<close>

function parse_stream :: "bytes \<Rightarrow> frame list \<times> bytes" where
  "parse_stream bs =
     (case bs of
        [] \<Rightarrow> ([], [])
      | b # rest \<Rightarrow>
          if \<not> is_magic b then parse_stream rest
          else (case frame_size bs of
                  None \<Rightarrow> ([], bs)
                | Some n \<Rightarrow>
                    let parsed = parse_datagram (take n bs);
                        (frames, left) = parse_stream (drop n bs)
                    in (if parsed \<noteq> [] then hd parsed # frames else frames, left)))"
  by pat_completeness auto
termination
  by (relation "measure length") (auto dest: frame_size_bounds)

declare parse_stream.simps [simp del]

definition target_system_for :: "string \<Rightarrow> u8 \<Rightarrow> u8 \<Rightarrow> u8 \<Rightarrow> u8" where
  "target_system_for target air ground fc =
     (if target = ''ground'' then system_id_ground
      else if target = ''fc'' then fc
      else if target = ''air'' \<or> target = ''camera1'' \<or> target = ''camera2'' then system_id_air
      else if air \<noteq> 0 then air else if ground \<noteq> 0 then ground else system_id_air)"

definition target_component_for :: "string \<Rightarrow> u8 \<Rightarrow> u8 \<Rightarrow> u8 \<Rightarrow> u8" where
  "target_component_for target air ground fc =
     (if target = ''camera1'' then component_id_camera_primary
      else if target = ''camera2'' then component_id_camera_secondary
      else if target = ''ground'' then component_id_link
      else if target = ''fc'' then fc
      else if target = ''air'' then component_id_link
      else if air \<noteq> 0 then air else if ground \<noteq> 0 then ground else component_id_link)"

text \<open>The packet \<open>send_packet\<close> puts on the wire, for the sequence number it takes.\<close>

definition packet_crc :: "bytes \<Rightarrow> u8 \<Rightarrow> u16" where
  "packet_crc packet crc_extra =
     crc_accumulate crc_extra (foldl (\<lambda>crc b. crc_accumulate b crc) 0xFFFF (tl packet))"

definition build_packet :: "u8 \<Rightarrow> u8 \<Rightarrow> u8 \<Rightarrow> u32 \<Rightarrow> u8 \<Rightarrow> bytes \<Rightarrow> bytes" where
  "build_packet sequence system_id component_id message_id crc_extra pl =
     (let packet = [0xfd, of_nat (length pl), 0, 0, sequence, system_id, component_id,
                    ucast (message_id AND 0xFF),
                    ucast (drop_bit 8 message_id AND 0xFF),
                    ucast (drop_bit 16 message_id AND 0xFF)] @ pl;
          crc = packet_crc packet crc_extra
      in packet @ [ucast (crc AND 0xFF), ucast (drop_bit 8 crc AND 0xFF)])"

section \<open>Fields\<close>

lemma length_le_bytes [simp]: "length (le_bytes n v) = n"
  by (induction n arbitrary: v) auto

lemma le_nat_le_bytes: "le_nat (le_bytes n v) = v mod 256 ^ n"
proof (induction n arbitrary: v)
  case (Suc n)
  have "unat (of_nat v :: u8) = v mod 256"
    by (simp add: unat_of_nat take_bit_eq_mod)
  then have "le_nat (le_bytes (Suc n) v) = v mod 256 + 256 * (v div 256 mod 256 ^ n)"
    by (simp add: Suc.IH)
  also have "\<dots> = v mod 256 ^ Suc n"
    by (simp add: mod_mult2_eq)
  finally show ?case .
qed simp

lemma le_nat_bound: "le_nat bs < 256 ^ length bs"
proof (induction bs)
  case (Cons b bs)
  have "unat b < 256" by simp
  with Cons have "unat b + 256 * le_nat bs < 256 * 256 ^ length bs"
    by linarith
  then show ?case by simp
qed simp

lemma read_le_bound: "read_le n p off < 256 ^ n"
proof (cases "off + n \<le> length p")
  case True
  then show ?thesis
    using le_nat_bound[of "take n (drop off p)"] by (simp add: read_le_def)
qed (simp add: read_le_def)

lemma read_le_append:
  "read_le n (pre @ le_bytes n v @ post) (length pre) = v mod 256 ^ n"
  by (simp add: read_le_def le_nat_le_bytes)

lemma length_put_fixed_string [simp]: "length (put_fixed_string value len) = len"
  by (simp add: put_fixed_string_def Let_def)

section \<open>Frame extraction\<close>

lemma parse_datagram_Nil [simp]: "parse_datagram [] = []"
  by (simp add: parse_datagram.simps)

lemma parse_datagram_skip: "\<not> is_magic b \<Longrightarrow> parse_datagram (b # bs) = parse_datagram bs"
  by (subst parse_datagram.simps) simp

lemma parse_datagram_frame:
  "is_magic (hd bs) \<Longrightarrow> bs \<noteq> [] \<Longrightarrow> parse_datagram bs =
     (case frame_size bs of None \<Rightarrow> [] | Some n \<Rightarrow> frame_at bs # parse_datagram (drop n bs))"
  by (subst parse_datagram.simps) (cases bs; simp)

lemma parse_stream_Nil [simp]: "parse_stream [] = ([], [])"
  by (simp add: parse_stream.simps)

lemma parse_stream_skip: "\<not> is_magic b \<Longrightarrow> parse_stream (b # bs) = parse_stream bs"
  by (subst parse_stream.simps) simp

lemma frame_size_append:
  "bs \<noteq> [] \<Longrightarrow> frame_size bs = Some n \<Longrightarrow> frame_size (bs @ ys) = Some n"
  by (auto simp: frame_size_def header_len_def nth_append Let_def split: if_splits)

lemma frame_at_append:
  "bs \<noteq> [] \<Longrightarrow> frame_size bs = Some n \<Longrightarrow> frame_at (bs @ ys) = frame_at bs"
  by (auto simp: frame_size_def frame_at_def header_len_def nth_append Let_def split: if_splits)

lemma frame_size_take:
  "bs \<noteq> [] \<Longrightarrow> frame_size bs = Some n \<Longrightarrow> frame_size (take n bs) = Some n"
  using frame_size_bounds[of bs n]
  by (auto simp: frame_size_def header_len_def hd_take Let_def split: if_splits)

lemma frame_at_take:
  assumes "bs \<noteq> []" and "frame_size bs = Some n"
  shows "frame_at (take n bs) = frame_at bs"
proof -
  have "take n bs \<noteq> []" "frame_size (take n bs) = Some n"
    using assms frame_size_bounds[of bs n] frame_size_take[of bs n] by auto
  then show ?thesis
    using frame_at_append[of "take n bs" n "drop n bs"] by simp
qed

lemma parse_datagram_one:
  assumes "is_magic (hd bs)" and "bs \<noteq> []" and "frame_size bs = Some n"
  shows "parse_datagram (take n bs) = [frame_at bs]"
proof -
  have "take n bs \<noteq> []" "hd (take n bs) = hd bs"
    using assms frame_size_bounds[of bs n] by (auto simp: hd_take)
  then show ?thesis
    using assms frame_size_take[of bs n] frame_at_take[of bs n]
    by (simp add: parse_datagram_frame)
qed

lemma parse_stream_frame:
  "is_magic (hd bs) \<Longrightarrow> bs \<noteq> [] \<Longrightarrow> parse_stream bs =
     (case frame_size bs of None \<Rightarrow> ([], bs)
      | Some n \<Rightarrow> (frame_at bs # fst (parse_stream (drop n bs)), snd (parse_stream (drop n bs))))"
  by (subst parse_stream.simps)
     (auto simp: parse_datagram_one Let_def split: list.splits option.splits prod.splits)

lemma parse_stream_frames: "fst (parse_stream bs) = parse_datagram bs"
proof (induction bs rule: parse_stream.induct)
  case (1 bs)
  show ?case
  proof (cases "bs = []")
    case False
    then obtain b rest where bs: "bs = b # rest" by (cases bs) auto
    show ?thesis
    proof (cases "is_magic b")
      case True
      with 1 bs show ?thesis
        by (cases "frame_size bs") (auto simp: parse_stream_frame parse_datagram_frame)
    next
      case False
      with 1 bs show ?thesis by (simp add: parse_stream_skip parse_datagram_skip)
    qed
  qed simp
qed

text \<open>What is left starts with a frame that is not complete yet, or is empty.\<close>

lemma parse_stream_left:
  "snd (parse_stream bs) = [] \<or>
   is_magic (hd (snd (parse_stream bs))) \<and> frame_size (snd (parse_stream bs)) = None"
proof (induction bs rule: parse_stream.induct)
  case (1 bs)
  show ?case
  proof (cases bs)
    case (Cons b rest)
    with 1 show ?thesis
      by (cases "is_magic b"; cases "frame_size bs")
         (auto simp: parse_stream_frame parse_stream_skip)
  qed simp
qed

lemma parse_stream_append:
  "parse_stream (xs @ ys) =
     (let (fs, left) = parse_stream xs; (fs', left') = parse_stream (left @ ys) in (fs @ fs', left'))"
proof (induction xs rule: parse_stream.induct)
  case (1 xs)
  show ?case
  proof (cases xs)
    case Nil
    then show ?thesis by (simp split: prod.splits)
  next
    case (Cons b rest)
    show ?thesis
    proof (cases "is_magic b")
      case False
      with 1 Cons show ?thesis by (simp add: parse_stream_skip)
    next
      case True
      show ?thesis
      proof (cases "frame_size xs")
        case None
        with True Cons show ?thesis by (simp add: parse_stream_frame split: prod.splits)
      next
        case (Some n)
        with Cons have n: "n \<le> length xs" "frame_size (xs @ ys) = Some n"
          "frame_at (xs @ ys) = frame_at xs"
          using frame_size_append[of xs n ys] frame_at_append[of xs n ys] frame_size_bounds[of xs n]
          by simp_all
        have "parse_stream (drop n xs @ ys) =
          (let (fs, left) = parse_stream (drop n xs); (fs', left') = parse_stream (left @ ys)
           in (fs @ fs', left'))"
          using 1 Cons True Some by auto
        moreover have "is_magic (hd xs)" "xs \<noteq> []" "is_magic (hd (xs @ ys))" "xs @ ys \<noteq> []"
          using True Cons by simp_all
        ultimately show ?thesis
          using parse_stream_frame[of "xs @ ys"] parse_stream_frame[of xs] Some n
          by (simp add: split_def Let_def)
      qed
    qed
  qed
qed

interpretation mavlink_stream: incremental_reader parse_stream
  by unfold_locales (rule parse_stream_append)

lemmas [framing] = parse_stream_frames parse_stream_append

section \<open>Packets\<close>

lemma length_build_packet [simp]: "length (build_packet sq si ci mi ce pl) = 12 + length pl"
  by (simp add: build_packet_def Let_def)

lemma msgid_bytes:
  assumes "(mi :: u32) < 0x1000000"
  shows "ucast (ucast (mi AND 0xFF) :: u8) OR push_bit 8 (ucast (ucast (drop_bit 8 mi AND 0xFF) :: u8))
           OR push_bit 16 (ucast (ucast (drop_bit 16 mi AND 0xFF) :: u8)) = mi"
proof (rule bit_word_eqI)
  fix n
  assume n: "n < LENGTH(32)"
  have hi: "n < 24" if "bit mi n"
  proof (rule ccontr)
    assume "\<not> n < 24"
    then have "(2::nat) ^ 24 \<le> 2 ^ n" by (intro power_increasing) simp_all
    moreover have "unat mi < 2 ^ 24"
      using assms by (simp add: word_less_nat_alt)
    ultimately have "unat mi div 2 ^ n = 0" by simp
    moreover have "bit (unat mi) n"
      using that n by (simp add: bit_unsigned_iff)
    ultimately show False by (simp add: bit_iff_odd)
  qed
  have low: "w AND 0xFF = take_bit 8 w" for w :: u32
    by (simp add: take_bit_eq_mask mask_eq_exp_minus_1)
  have split3: "n < 8 \<or> 8 \<le> n \<and> n < 16 \<or> 16 \<le> n \<and> n < 24 \<or> 24 \<le> n"
    by auto
  show "bit (ucast (ucast (mi AND 0xFF) :: u8) OR push_bit 8 (ucast (ucast (drop_bit 8 mi AND 0xFF) :: u8))
           OR push_bit 16 (ucast (ucast (drop_bit 16 mi AND 0xFF) :: u8)) :: u32) n = bit mi n"
    unfolding low using n hi split3
    by (elim disjE) (auto simp: bit_or_iff bit_push_bit_iff bit_unsigned_iff bit_take_bit_iff bit_drop_bit_eq)
qed

lemma build_packet_frame:
  assumes "length pl \<le> 255" and "mi < 0x1000000"
  shows "frame_size (build_packet sq si ci mi ce pl @ rest) = Some (12 + length pl)"
    and "frame_at (build_packet sq si ci mi ce pl @ rest)
         = \<lparr>sysid = si, compid = ci, msgid = mi, payload = pl\<rparr>"
proof -
  have len: "unat (of_nat (length pl) :: u8) = length pl"
    using assms(1) by (simp add: unat_of_nat take_bit_eq_mod)
  show "frame_size (build_packet sq si ci mi ce pl @ rest) = Some (12 + length pl)"
    by (simp add: frame_size_def build_packet_def header_len_def len Let_def)
  show "frame_at (build_packet sq si ci mi ce pl @ rest)
         = \<lparr>sysid = si, compid = ci, msgid = mi, payload = pl\<rparr>"
    using msgid_bytes[OF assms(2)]
    by (simp add: frame_at_def build_packet_def len Let_def or.assoc)
qed

lemma hd_build_packet: "hd (build_packet sq si ci mi ce pl @ rest) = 0xfd"
  by (simp add: build_packet_def Let_def)

lemma parse_build_packet:
  assumes "length pl \<le> 255" and "mi < 0x1000000"
  shows "parse_datagram (build_packet sq si ci mi ce pl @ rest)
         = \<lparr>sysid = si, compid = ci, msgid = mi, payload = pl\<rparr> # parse_datagram rest"
proof -
  have "build_packet sq si ci mi ce pl @ rest \<noteq> []"
    by (simp add: build_packet_def Let_def)
  then have "parse_datagram (build_packet sq si ci mi ce pl @ rest) =
     \<lparr>sysid = si, compid = ci, msgid = mi, payload = pl\<rparr> #
     parse_datagram (drop (12 + length pl) (build_packet sq si ci mi ce pl @ rest))"
    using parse_datagram_frame[of "build_packet sq si ci mi ce pl @ rest"]
    by (simp add: build_packet_frame[OF assms] hd_build_packet is_magic_def)
  then show ?thesis
    by (simp only: drop_append_exact length_build_packet)
qed

lemma parse_build_packets:
  assumes "\<forall>(sq, si, ci, mi, ce, pl) \<in> set ps. length pl \<le> 255 \<and> mi < 0x1000000"
  shows "parse_stream (concat (map (\<lambda>(sq, si, ci, mi, ce, pl). build_packet sq si ci mi ce pl) ps))
         = (map (\<lambda>(sq, si, ci, mi, ce, pl). \<lparr>sysid = si, compid = ci, msgid = mi, payload = pl\<rparr>) ps, [])"
  using assms
proof (induction ps)
  case (Cons p ps)
  obtain sq si ci mi ce pl where p: "p = (sq, si, ci, mi, ce, pl)" by (cases p) auto
  have ok: "length pl \<le> 255" "mi < 0x1000000" using Cons.prems p by auto
  let ?r = "concat (map (\<lambda>(sq, si, ci, mi, ce, pl). build_packet sq si ci mi ce pl) ps)"
  let ?b = "build_packet sq si ci mi ce pl"
  have "is_magic (hd (?b @ ?r))" by (simp only: hd_build_packet is_magic_def) simp
  moreover have "?b @ ?r \<noteq> []" by (simp add: build_packet_def Let_def)
  moreover have "drop (12 + length pl) (?b @ ?r) = ?r"
    by (simp only: drop_append_exact length_build_packet)
  ultimately have "parse_stream (?b @ ?r)
      = (\<lparr>sysid = si, compid = ci, msgid = mi, payload = pl\<rparr> # fst (parse_stream ?r), snd (parse_stream ?r))"
    using build_packet_frame[OF ok, of sq si ci ce ?r] parse_stream_frame[of "?b @ ?r"] by simp
  then show ?case using Cons p by simp
qed simp

lemma unread_bound:
  assumes "bs = [] \<or> is_magic (hd bs) \<and> frame_size bs = None"
  shows "length bs \<le> 279"
proof (cases "bs = []")
  case False
  have "unat (bs ! 1) \<le> 255" using word_u8_less[of "bs ! 1"] by linarith
  moreover have "header_len (hd bs) \<le> 10" by (simp add: header_len_def)
  ultimately show ?thesis
    using assms False by (auto simp: frame_size_def Let_def split: if_splits)
qed simp

text \<open>What is read is a prefix of the stream that leaves nothing over.\<close>

lemma parse_stream_read_part:
  "\<exists>read. bs = read @ snd (parse_stream bs) \<and> parse_stream read = (fst (parse_stream bs), [])"
proof (induction bs rule: parse_stream.induct)
  case (1 bs)
  show ?case
  proof (cases bs)
    case (Cons b rest)
    show ?thesis
    proof (cases "is_magic b")
      case False
      with 1(1)[OF Cons] obtain r where "rest = r @ snd (parse_stream rest)" "parse_stream r = (fst (parse_stream rest), [])"
        by blast
      then show ?thesis using Cons False by (intro exI[of _ "b # r"]) (simp add: parse_stream_skip)
    next
      case True
      show ?thesis
      proof (cases "frame_size bs")
        case None
        then show ?thesis using True Cons by (simp add: parse_stream_frame)
      next
        case (Some n)
        then obtain r where r: "drop n bs = r @ snd (parse_stream (drop n bs))"
          "parse_stream r = (fst (parse_stream (drop n bs)), [])"
          using 1(2)[OF Cons] True by auto
        have b: "bs \<noteq> []" "is_magic (hd bs)" using Cons True by simp_all
        note n = frame_size_bounds[OF Some]
        have t: "take n bs \<noteq> []" using n b(1) by auto
        have "frame_size (take n bs @ r) = Some n" "frame_at (take n bs @ r) = frame_at bs"
          using frame_size_append[OF t frame_size_take[OF b(1) Some], of r]
            frame_at_append[OF t frame_size_take[OF b(1) Some], of r] frame_at_take[OF b(1) Some] by simp_all
        moreover have "is_magic (hd (take n bs @ r))" using t b(2) by (simp add: hd_append hd_take)
        moreover have "drop n (take n bs @ r) = r" using n by simp
        ultimately have "parse_stream (take n bs @ r) = (frame_at bs # fst (parse_stream r), snd (parse_stream r))"
          using t by (simp add: parse_stream_frame)
        moreover have "bs = (take n bs @ r) @ snd (parse_stream (drop n bs))"
          by (simp flip: r(1))
        ultimately show ?thesis
          using b Some r(2) by (intro exI[of _ "take n bs @ r"]) (simp add: parse_stream_frame)
      qed
    qed
  qed simp
qed

text \<open>
  C37: Reading a byte stream takes exactly the frames that reading the same bytes as one datagram
  takes, whatever precedes, follows or separates them. What it keeps is nothing or one unfinished frame
  from its start byte on, with all its bytes (the bytes before it have been read to the last), and no
  more than 279 bytes; when more bytes follow, reading goes on with what was kept as if everything had
  come at once, so no frame is lost or read twice between two reads of a TCP link.
\<close>

theorem stream_agrees_with_datagrams:
  "fst (parse_stream bs) = parse_datagram bs \<and>
   (\<exists>read. bs = read @ snd (parse_stream bs) \<and> parse_stream read = (parse_datagram bs, [])) \<and>
   (snd (parse_stream bs) = [] \<or> hd (snd (parse_stream bs)) \<in> {0xfe, 0xfd} \<and> frame_size (snd (parse_stream bs)) = None) \<and>
   length (snd (parse_stream bs)) \<le> 279 \<and>
   parse_datagram (bs @ later) = parse_datagram bs @ parse_datagram (snd (parse_stream bs) @ later)"
proof (intro conjI)
  show "fst (parse_stream bs) = parse_datagram bs" by (rule parse_stream_frames)
  show "\<exists>read. bs = read @ snd (parse_stream bs) \<and> parse_stream read = (parse_datagram bs, [])"
    using parse_stream_read_part[of bs] by (simp add: parse_stream_frames)
  show "snd (parse_stream bs) = [] \<or> hd (snd (parse_stream bs)) \<in> {0xfe, 0xfd} \<and> frame_size (snd (parse_stream bs)) = None"
    using parse_stream_left[of bs] by (auto simp: is_magic_def)
  show "length (snd (parse_stream bs)) \<le> 279" by (rule unread_bound[OF parse_stream_left])
  show "parse_datagram (bs @ later) = parse_datagram bs @ parse_datagram (snd (parse_stream bs) @ later)"
    using arg_cong[OF parse_stream_append[of bs later], of fst] by (simp add: split_def Let_def flip: parse_stream_frames)
qed

text \<open>
  C38: Every packet sequence this program builds is read back packet by packet by its own frame
  reader: sender, message identifier and payload unchanged, and no byte is left over.
\<close>

theorem packets_read_back:
  assumes "\<forall>(sq, si, ci, mi, ce, pl) \<in> set ps. length pl \<le> 255 \<and> mi < 0x1000000"
  shows "parse_stream (concat (map (\<lambda>(sq, si, ci, mi, ce, pl). build_packet sq si ci mi ce pl) ps))
         = (map (\<lambda>(sq, si, ci, mi, ce, pl). \<lparr>sysid = si, compid = ci, msgid = mi, payload = pl\<rparr>) ps, [])"
  by (rule parse_build_packets[OF assms])

theorem packets_read_back_witness:
  "parse_stream (build_packet 0 225 191 0 50 [0, 0, 0, 0, 6, 8, 0, 4, 3] @ build_packet 1 225 191 0x1234 7 [0xFD, 0xFE])
   = ([\<lparr>sysid = 225, compid = 191, msgid = 0, payload = [0, 0, 0, 0, 6, 8, 0, 4, 3]\<rparr>,
       \<lparr>sysid = 225, compid = 191, msgid = 0x1234, payload = [0xFD, 0xFE]\<rparr>], [])"
  using packets_read_back[of "[(0, 225, 191, 0, 50, [0, 0, 0, 0, 6, 8, 0, 4, 3]), (1, 225, 191, 0x1234, 7, [0xFD, 0xFE])]"]
  by (simp add: word_less_nat_alt)

end
