(* ===== verification/Mavlink_Decode.thy ===== *)
theory Mavlink_Decode
  imports Mavlink_Wire
begin

text \<open>
  \<open>decode_frame\<close> of \<open>src/common/mavlink_udp_bridge.cpp\<close>: one definition per message the switch handles,
  and the switch. A result is the text of the \<open>mav ...\<close> lines to publish, \<open>None\<close> for \<open>std::nullopt\<close>.
  The lemmas describe the text of the OpenHD messages and show that every text starts with
  \<open>mav \<close>.
\<close>

section \<open>Definitions\<close>

definition nl :: string where "nl = [CHR 0x0A]"

definition mode_from_heartbeat :: "nat \<Rightarrow> nat \<Rightarrow> string" where
  "mode_from_heartbeat base_mode custom_mode =
     (if (of_nat base_mode :: u8) AND 0x80 = 0 then ''Disarmed''
      else if custom_mode \<noteq> 0 then ''Mode '' @ nat_str custom_mode
      else ''Armed'')"

text \<open>The heartbeats the sources take for the flight controller's.\<close>

definition is_vehicle :: "nat \<Rightarrow> nat \<Rightarrow> bool" where
  "is_vehicle autopilot type \<longleftrightarrow>
     autopilot \<noteq> 8 \<or> type = 1 \<or> type = 2 \<or> type = 13 \<or> type = 14 \<or> type = 15"

definition decode_heartbeat :: "frame \<Rightarrow> string option" where
  "decode_heartbeat fr =
     (let p = payload fr; type = read_u8 p 4; autopilot = read_u8 p 5;
          line = (if sysid fr = system_id_ground then ''mav alive ground 1''
                  else if sysid fr = system_id_air then ''mav alive air 1''
                  else if is_vehicle autopilot type then ''mav alive fc 1''
                  else [])
      in if line = [] then None else Some line)"

definition decode_sys_status :: "bytes \<Rightarrow> string option" where
  "decode_sys_status p =
     (let voltage_mv = read_le 2 p 14; battery_remaining = read_i8 p 30 in
      if 0 < voltage_mv \<or> 0 \<le> battery_remaining
      then Some (''mav battery '' @ fp_fixed 2 (fp_div_nat f32 (fp_of_int f32 (int voltage_mv)) 1000)
                 @ '' '' @ int_str battery_remaining)
      else None)"

definition decode_param_value :: "bytes \<Rightarrow> string option" where
  "decode_param_value p =
     (let value = read_float_le p 0; name = c_string p 8 16 in
      if name \<noteq> [] then Some (''mav param auto '' @ name @ '' '' @ fp_fixed 2 value) else None)"

text \<open>Latitude or longitude in \<open>1e-7\<close> degrees as a \<open>double\<close> with seven decimals.\<close>

definition degrees_text :: "int \<Rightarrow> string" where
  "degrees_text v = fp_fixed 7 (fp_div_nat f64 (fp_of_int f64 v) 10000000)"

definition metres_text :: "int \<Rightarrow> string" where
  "metres_text v = fp_fixed 2 (fp_div_nat f32 (fp_of_int f32 v) 1000)"

definition decode_gps_raw_int :: "bytes \<Rightarrow> string option" where
  "decode_gps_raw_int p =
     (let lat = read_i32 p 8; lon = read_i32 p 12; alt = read_i32 p 16; satellites = read_u8 p 29
      in Some (''mav position '' @ degrees_text lat @ '' '' @ degrees_text lon @ '' ''
               @ metres_text alt @ nl @ ''mav gps '' @ nat_str satellites))"

definition rad_to_deg :: fp where
  "rad_to_deg = fp_round f32 False 5729577951308232 (10 ^ 14)"

definition decode_attitude :: "bytes \<Rightarrow> string option" where
  "decode_attitude p =
     Some (''mav attitude '' @ fp_fixed 2 (fp_mul f32 (read_float_le p 4) rad_to_deg)
           @ '' '' @ fp_fixed 2 (fp_mul f32 (read_float_le p 8) rad_to_deg)
           @ '' '' @ fp_fixed 2 (fp_mul f32 (read_float_le p 12) rad_to_deg))"

definition decode_global_position_int :: "bytes \<Rightarrow> string option" where
  "decode_global_position_int p =
     (let lat = read_i32 p 4; lon = read_i32 p 8; relative_alt = read_i32 p 16
      in Some (''mav position '' @ degrees_text lat @ '' '' @ degrees_text lon @ '' ''
               @ metres_text relative_alt))"

definition decode_rc_channels :: "bytes \<Rightarrow> string option" where
  "decode_rc_channels p =
     Some (''mav rc'' @ concat (map (\<lambda>i. '' '' @ nat_str (read_le 2 p i)) [4, 6, 8, 10]))"

definition decode_vfr_hud :: "bytes \<Rightarrow> string option" where
  "decode_vfr_hud p =
     Some (''mav speed '' @ fp_fixed 2 (read_float_le p 16) @ '' '' @ fp_fixed 2 (read_float_le p 0))"

definition decode_statustext :: "bytes \<Rightarrow> string option" where
  "decode_statustext p =
     (let severity = read_u8 p 0;
          txt = trim_payload_string (c_string p 1 (if 51 < length p then 254 else 50))
      in if txt \<noteq> [] then Some (''mav message ['' @ nat_str severity @ ''] '' @ txt) else None)"

definition param_ext_value :: "bytes \<Rightarrow> nat \<Rightarrow> string" where
  "param_ext_value p type =
     (if type = 1 then nat_str (read_u8 p 20)
      else if type = 2 then int_str (read_i8 p 20)
      else if type = 3 then nat_str (read_le 2 p 20)
      else if type = 4 then int_str (read_i16 p 20)
      else if type = 5 then nat_str (read_le 4 p 20)
      else if type = 6 then int_str (read_i32 p 20)
      else if type = 7 then nat_str (read_le 8 p 20)
      else if type = 8 then int_str (read_i64 p 20)
      else if type = 9 then fp_fixed 2 (read_float_le p 20)
      else if type = 10 then fp_fixed 2 (read_double_le p 20)
      else c_string p 20 128)"

definition decode_param_ext_value :: "bytes \<Rightarrow> string option" where
  "decode_param_ext_value p =
     (let name = c_string p 4 16; type = read_u8 p 148 in
      if name \<noteq> [] then Some (''mav param auto '' @ name @ '' '' @ param_ext_value p type) else None)"

definition clamp_int :: "int \<Rightarrow> int \<Rightarrow> int \<Rightarrow> int" where
  "clamp_int v lo hi = (if v < lo then lo else if hi < v then hi else v)"

definition decode_wifi_link :: "bytes \<Rightarrow> string option" where
  "decode_wifi_link p =
     (let frequency_mhz = read_le 2 p wifi_link_frequency_mhz_offset;
          rate_kbits = read_le 2 p wifi_link_rate_kbits_offset;
          channel_width_mhz = read_u8 p wifi_link_channel_width_offset;
          mcs_index = read_u8 p wifi_link_mcs_index_offset;
          packet_loss = clamp_int (read_i8 p wifi_link_packet_loss_offset) 0 100;
          rc_quality = 100 - packet_loss
      in Some (''mav openhd wifi_link '' @ nat_str frequency_mhz
               @ '' '' @ nat_str channel_width_mhz
               @ '' '' @ nat_str mcs_index
               @ '' '' @ fp_fixed 2 (fp_div_nat f32 (fp_of_int f32 (int rate_kbits)) 1000)
               @ '' '' @ int_str rc_quality
               @ '' '' @ int_str (read_i8 p wifi_link_snr_antenna1_offset)
               @ '' '' @ int_str (read_i8 p wifi_link_snr_antenna2_offset)
               @ '' '' @ int_str (read_i8 p wifi_link_temperature_offset)))"

definition decode_wifi_card :: "frame \<Rightarrow> string option" where
  "decode_wifi_card fr =
     (let p = payload fr; card_type = read_u8 p wifi_card_type_offset
      in Some (''mav openhd wifi_card '' @ int_str (read_i8 p wifi_card_rssi_offset)
               @ '' '' @ int_str (clamp_int (read_i8 p wifi_card_quality_offset) 0 100)
               @ '' '' @ int_str (read_i8 p wifi_card_snr_antenna1_offset)
               @ '' '' @ int_str (read_i8 p wifi_card_snr_antenna2_offset)
               @ '' '' @ int_str (read_i8 p wifi_card_temperature_offset) @ nl
               @ ''mav param auto ''
               @ (if sysid fr = system_id_ground then ''GROUND_CHIPSET '' else ''AIR_CHIPSET '')
               @ wifi_card_type_to_string (int card_type)))"

definition decode_core_status :: "bytes \<Rightarrow> string option" where
  "decode_core_status p =
     Some (''mav openhd core '' @ int_str (read_i8 p core_status_cpu_temperature_offset)
           @ '' '' @ nat_str (read_u8 p core_status_platform_type_offset))"

definition decode_frame :: "frame \<Rightarrow> string option" where
  "decode_frame fr =
     (let p = payload fr; i = unat (msgid fr) in
      if i = 0 then decode_heartbeat fr
      else if i = 1 then decode_sys_status p
      else if i = 22 then decode_param_value p
      else if i = 24 then decode_gps_raw_int p
      else if i = 30 then decode_attitude p
      else if i = 33 then decode_global_position_int p
      else if i = 65 then decode_rc_channels p
      else if i = 74 then decode_vfr_hud p
      else if i = 253 then decode_statustext p
      else if i = 322 then decode_param_ext_value p
      else if i = stats_monitor_mode_wifi_link_message_id then decode_wifi_link p
      else if i = stats_monitor_mode_wifi_card_message_id then decode_wifi_card fr
      else if i = core_status_message_id then decode_core_status p
      else None)"

lemmas decoders = decode_heartbeat_def decode_sys_status_def decode_param_value_def
  decode_gps_raw_int_def decode_attitude_def decode_global_position_int_def decode_rc_channels_def
  decode_vfr_hud_def decode_statustext_def decode_param_ext_value_def decode_wifi_link_def
  decode_wifi_card_def decode_core_status_def

section \<open>Lemmas\<close>

lemma int_str_nat: "int_str (int n) = nat_str n"
  by (simp add: int_str_def)

lemma clamp_int_range: "lo \<le> hi \<Longrightarrow> lo \<le> clamp_int v lo hi \<and> clamp_int v lo hi \<le> hi"
  by (simp add: clamp_int_def)

lemma clamp_int_id: "lo \<le> v \<Longrightarrow> v \<le> hi \<Longrightarrow> clamp_int v lo hi = v"
  by (simp add: clamp_int_def)

lemma read_i8_bounds: "- 128 \<le> read_i8 p off \<and> read_i8 p off \<le> 127"
  unfolding read_i8_def by (rule sint_u8_bounds)

lemma read_u8_bound: "read_u8 p off < 256"
  using read_le_bound[of 1 p off] by (simp add: read_u8_def)

lemma decode_frame_mav: "decode_frame fr = Some s \<Longrightarrow> take 4 s = ''mav ''"
  by (auto simp: decode_frame_def decoders Let_def split: if_splits)

end
