(* ===== verification/Mavlink_State.thy ===== *)
theory Mavlink_State
  imports Cpp_Float OpenHD_Protocol
begin

text \<open>
  \<open>src/common/mavlink_state.cpp\<close>: the telemetry snapshot every process keeps and
  \<open>apply_ipc_line\<close>, which updates it from one \<open>mav ...\<close> line. One definition per line key, in
  the order of the source's conditions, then the dispatch. Failing extractions leave or zero their
  variables as the stream library does (theory \<open>Cpp_Text\<close>), and the branches that write straight
  into the snapshot are modelled so. The lemmas give the invariant of the snapshot (percentages
  within 0..100, four channels, five message slots) and that lines which are refused change nothing.
\<close>

section \<open>The snapshot\<close>

record snapshot =
  air_alive :: bool
  ground_alive :: bool
  fc_alive :: bool
  armed :: bool
  attitude_valid :: bool
  altitude_valid :: bool
  speed_valid :: bool
  position_valid :: bool
  battery_valid :: bool
  link_stats_valid :: bool
  siyi_active :: bool
  frequency_mhz :: int
  channel_width_mhz :: int
  mcs_index :: int
  tx_power_mw :: int
  link_rssi_dbm :: int
  link_txc_temp_c :: int
  link_quality_percent :: int
  rc_quality_percent :: int
  link_snr_antenna1_db :: int
  link_snr_antenna2_db :: int
  scan_progress :: int
  rc_channels :: "int list"
  battery_percent :: int
  satellites :: int
  roll_degrees :: fp
  pitch_degrees :: fp
  yaw_degrees :: fp
  altitude_m :: fp
  ground_speed_mps :: fp
  airspeed_mps :: fp
  voltage_v :: fp
  link_bitrate_mbit :: fp
  latitude_deg :: fp
  longitude_deg :: fp
  flight_mode :: string
  resolution_fps :: string
  rotation :: string
  recording :: string
  recording_status :: string
  air_wifi_mode :: string
  ground_wifi_mode :: string
  air_hotspot :: string
  ground_hotspot :: string
  openhd_version :: string
  platform :: string
  ground_chipset :: string
  air_chipset :: string
  camera :: string
  messages :: "string list"
  message_count :: nat

definition initial_snapshot :: snapshot where
  "initial_snapshot =
    \<lparr>air_alive = False, ground_alive = False, fc_alive = False, armed = False,
     attitude_valid = False, altitude_valid = False, speed_valid = False, position_valid = False,
     battery_valid = False, link_stats_valid = False, siyi_active = False,
     frequency_mhz = 0, channel_width_mhz = 0, mcs_index = 0, tx_power_mw = 0,
     link_rssi_dbm = - 128, link_txc_temp_c = - 128, link_quality_percent = 0,
     rc_quality_percent = 0, link_snr_antenna1_db = - 128, link_snr_antenna2_db = - 128,
     scan_progress = 0, rc_channels = [0, 0, 0, 0], battery_percent = - 1, satellites = 0,
     roll_degrees = fp_zero f32, pitch_degrees = fp_zero f32, yaw_degrees = fp_zero f32,
     altitude_m = fp_zero f32, ground_speed_mps = fp_zero f32, airspeed_mps = fp_zero f32,
     voltage_v = fp_zero f32, link_bitrate_mbit = fp_zero f32,
     latitude_deg = fp_zero f64, longitude_deg = fp_zero f64,
     flight_mode = ''N/A'', resolution_fps = ''N/A'', rotation = ''N/A'', recording = ''N/A'',
     recording_status = ''N/A'', air_wifi_mode = ''N/A'', ground_wifi_mode = ''N/A'',
     air_hotspot = ''N/A'', ground_hotspot = ''N/A'', openhd_version = ''N/A'', platform = ''N/A'',
     ground_chipset = ''N/A'', air_chipset = ''N/A'', camera = ''N/A'',
     messages = replicate 5 [], message_count = 0\<rparr>"

section \<open>Helpers\<close>

definition rest_after :: "istream \<Rightarrow> string" where
  "rest_after s = (let v = fst (read_line [] s) in if v \<noteq> [] \<and> hd v = CHR '' '' then tl v else v)"

definition clamp_percent :: "int \<Rightarrow> int" where
  "clamp_percent v = (if v < 0 then 0 else if 100 < v then 100 else v)"

definition push_message :: "snapshot \<Rightarrow> string \<Rightarrow> snapshot" where
  "push_message s m =
     (if m = [] then s
      else if message_count s < length (messages s)
      then s\<lparr>messages := (messages s)[message_count s := m], message_count := message_count s + 1\<rparr>
      else s\<lparr>messages := tl (messages s) @ [m]\<rparr>)"

definition upper_copy :: "string \<Rightarrow> string" where
  "upper_copy v = map to_upper v"

definition parse_int_or :: "int \<Rightarrow> string \<Rightarrow> int" where
  "parse_int_or fallback v = (case stoi v of Some i \<Rightarrow> i | None \<Rightarrow> fallback)"

section \<open>One definition per key\<close>

definition apply_alive :: "snapshot \<Rightarrow> istream \<Rightarrow> snapshot" where
  "apply_alive s st =
     (let (target, st) = read_token [] st; (alive, st) = read_int 0 st in
      if target = ''air'' then s\<lparr>air_alive := alive \<noteq> 0\<rparr>
      else if target = ''ground'' then s\<lparr>ground_alive := alive \<noteq> 0\<rparr>
      else if target = ''fc'' then s\<lparr>fc_alive := alive \<noteq> 0\<rparr>
      else s)"

definition apply_armed :: "snapshot \<Rightarrow> istream \<Rightarrow> snapshot" where
  "apply_armed s st = s\<lparr>armed := fst (read_int 0 st) \<noteq> 0\<rparr>"

definition apply_attitude :: "snapshot \<Rightarrow> istream \<Rightarrow> snapshot" where
  "apply_attitude s st =
     (let (r, st) = read_float f32 (roll_degrees s) st;
          (p, st) = read_float f32 (pitch_degrees s) st;
          (y, st) = read_float f32 (yaw_degrees s) st
      in s\<lparr>roll_degrees := r, pitch_degrees := p, yaw_degrees := y, attitude_valid := True\<rparr>)"

definition apply_position :: "snapshot \<Rightarrow> istream \<Rightarrow> snapshot" where
  "apply_position s st =
     (let (lat, st) = read_float f64 (latitude_deg s) st;
          (lon, st) = read_float f64 (longitude_deg s) st;
          (alt, st) = read_float f32 (altitude_m s) st
      in s\<lparr>latitude_deg := lat, longitude_deg := lon, altitude_m := alt,
           position_valid := True, altitude_valid := True\<rparr>)"

definition apply_speed :: "snapshot \<Rightarrow> istream \<Rightarrow> snapshot" where
  "apply_speed s st =
     (let (g, st) = read_float f32 (ground_speed_mps s) st;
          (a, st) = read_float f32 (airspeed_mps s) st
      in s\<lparr>ground_speed_mps := g, airspeed_mps := a, speed_valid := True\<rparr>)"

definition apply_battery :: "snapshot \<Rightarrow> istream \<Rightarrow> snapshot" where
  "apply_battery s st =
     (let (v, st) = read_float f32 (voltage_v s) st; (b, st) = read_int (battery_percent s) st
      in s\<lparr>voltage_v := v, battery_percent := b, battery_valid := True\<rparr>)"

definition apply_gps :: "snapshot \<Rightarrow> istream \<Rightarrow> snapshot" where
  "apply_gps s st = s\<lparr>satellites := fst (read_int (satellites s) st)\<rparr>"

definition apply_mode :: "snapshot \<Rightarrow> istream \<Rightarrow> snapshot" where
  "apply_mode s st = s\<lparr>flight_mode := rest_after st\<rparr>"

definition apply_link :: "snapshot \<Rightarrow> istream \<Rightarrow> snapshot" where
  "apply_link s st =
     (let (fr, st) = read_int (frequency_mhz s) st;
          (cw, st) = read_int (channel_width_mhz s) st;
          (mc, st) = read_int (mcs_index s) st;
          (tx, st) = read_int (tx_power_mw s) st;
          (br, st) = read_float f32 (link_bitrate_mbit s) st;
          (lq, st) = read_int (link_quality_percent s) st;
          (rssi, st) = read_int (link_rssi_dbm s) st;
          (temp, st) = read_int (link_txc_temp_c s) st;
          s1 = s\<lparr>frequency_mhz := fr, channel_width_mhz := cw, mcs_index := mc, tx_power_mw := tx,
                 link_bitrate_mbit := br, link_quality_percent := lq, link_rssi_dbm := rssi,
                 link_txc_temp_c := temp\<rparr>;
          s2 = (if failbit st then s1
                else let (snr1, st) = read_int (link_snr_antenna1_db s1) st;
                         (snr2, st) = read_int (link_snr_antenna2_db s1) st
                     in s1\<lparr>rc_quality_percent := link_quality_percent s1,
                           link_snr_antenna1_db := snr1, link_snr_antenna2_db := snr2\<rparr>)
      in s2\<lparr>link_quality_percent := clamp_percent (link_quality_percent s2),
            rc_quality_percent := clamp_percent (rc_quality_percent s2)\<rparr>)"

definition apply_wifi_card :: "snapshot \<Rightarrow> istream \<Rightarrow> snapshot" where
  "apply_wifi_card s st =
     (let (rssi, st) = read_int 0 st; (quality, st) = read_int 0 st;
          (snr1, st) = read_int 0 st; (snr2, st) = read_int 0 st; (temp, st) = read_int 0 st;
          s1 = (if link_rssi_dbm s \<le> - 127 \<or> (- 127 < rssi \<and> link_rssi_dbm s \<le> rssi)
                then s\<lparr>link_rssi_dbm := rssi, link_quality_percent := clamp_percent quality,
                       link_snr_antenna1_db := snr1, link_snr_antenna2_db := snr2,
                       link_txc_temp_c := temp\<rparr>
                else s)
      in if rc_quality_percent s1 = 0
         then s1\<lparr>rc_quality_percent := link_quality_percent s1\<rparr> else s1)"

definition apply_wifi_link :: "snapshot \<Rightarrow> istream \<Rightarrow> snapshot" where
  "apply_wifi_link s st =
     (let (fr, st) = read_int 0 st; (cw, st) = read_int 0 st; (mc, st) = read_int 0 st;
          (br, st) = read_float f32 (fp_zero f32) st;
          (rcq, st) = read_int (rc_quality_percent s) st;
          (snr1, st) = read_int (link_snr_antenna1_db s) st;
          (snr2, st) = read_int (link_snr_antenna2_db s) st;
          (temp, st) = read_int (link_txc_temp_c s) st
      in s\<lparr>rc_quality_percent := clamp_percent rcq, link_snr_antenna1_db := snr1,
           link_snr_antenna2_db := snr2, link_txc_temp_c := temp, link_stats_valid := True,
           frequency_mhz := (if 0 < fr then fr else frequency_mhz s),
           channel_width_mhz := (if 0 < cw then cw else channel_width_mhz s),
           mcs_index := mc, link_bitrate_mbit := fp_max_zero f32 br\<rparr>)"

definition apply_core :: "snapshot \<Rightarrow> istream \<Rightarrow> snapshot" where
  "apply_core s st =
     (let (temp, st) = read_int (link_txc_temp_c s) st; (platform_type, st) = read_int 0 st
      in s\<lparr>link_txc_temp_c := temp,
           platform := (case find_entry platform_ids platform_type of
                          Some e \<Rightarrow> entry_name e | None \<Rightarrow> platform s)\<rparr>)"

definition apply_openhd :: "snapshot \<Rightarrow> istream \<Rightarrow> snapshot" where
  "apply_openhd s st =
     (let (field, st) = read_token [] st in
      if field = ''wifi_card'' then apply_wifi_card s st
      else if field = ''wifi_link'' then apply_wifi_link s st
      else if field = ''core'' then apply_core s st
      else s)"

definition apply_scan :: "snapshot \<Rightarrow> istream \<Rightarrow> snapshot" where
  "apply_scan s st = s\<lparr>scan_progress := clamp_percent (fst (read_int (scan_progress s) st))\<rparr>"

fun read_channels :: "int list \<Rightarrow> istream \<Rightarrow> int list" where
  "read_channels [] st = []"
| "read_channels (c # cs) st = (let (v, st') = read_int c st in v # read_channels cs st')"

definition apply_rc :: "snapshot \<Rightarrow> istream \<Rightarrow> snapshot" where
  "apply_rc s st = s\<lparr>rc_channels := read_channels (rc_channels s) st\<rparr>"

definition apply_param :: "snapshot \<Rightarrow> istream \<Rightarrow> snapshot" where
  "apply_param s st =
     (let (target, st) = read_token [] st; (param, st) = read_token [] st;
          v = rest_after st; up = upper_copy param in
      if up = ''SIYI_ACTIVE'' then s\<lparr>siyi_active := parse_int_or 0 v = 1\<rparr>
      else if up \<in> {''RESOLUTION_FPS'', ''VIDEO_FORMAT'', ''CAMERA_FORMAT''} then s\<lparr>resolution_fps := v\<rparr>
      else if up \<in> {''ROTATION_FLIP'', ''ROTATION_DEG'', ''VIDEO_ROTATION''} then s\<lparr>rotation := v\<rparr>
      else if up \<in> {''AIR_RECORDING_E'', ''RECORDING'', ''REC_ENABLED''} then s\<lparr>recording := v\<rparr>
      else if up = ''WIFI_MODE'' \<and> target = ''air'' then s\<lparr>air_wifi_mode := v\<rparr>
      else if up = ''WIFI_MODE'' \<and> target = ''ground'' then s\<lparr>ground_wifi_mode := v\<rparr>
      else if up = ''WIFI_HOTSPOT_E'' \<and> target = ''air'' then s\<lparr>air_hotspot := v\<rparr>
      else if up = ''WIFI_HOTSPOT_E'' \<and> target = ''ground'' then s\<lparr>ground_hotspot := v\<rparr>
      else if up \<in> {''FREQ'', ''FREQUENCY'', ''FREQUENCY_MHZ'', ''WB_FREQUENCY''}
      then s\<lparr>frequency_mhz := parse_int_or (frequency_mhz s) v\<rparr>
      else if up \<in> {''CHANNEL_WIDTH'', ''CHANNEL_WIDTH_MHZ'', ''WB_CHANNEL_WIDTH'', ''WB_CHANNEL_W'',
                     ''BANDWIDTH''}
      then s\<lparr>channel_width_mhz := parse_int_or (channel_width_mhz s) v\<rparr>
      else if up \<in> {''MCS'', ''MCS_INDEX'', ''WB_MCS_INDEX''}
      then s\<lparr>mcs_index := parse_int_or (mcs_index s) v\<rparr>
      else if up \<in> {''TX_POWER'', ''TX_POWER_MW'', ''WB_TX_POWER_MW''}
      then s\<lparr>tx_power_mw := parse_int_or (tx_power_mw s) v\<rparr>
      else if up \<in> {''OPENHD_VERSION'', ''VERSION''} then s\<lparr>openhd_version := v\<rparr>
      else if up = ''AIR_CHIPSET'' then s\<lparr>air_chipset := v\<rparr>
      else if up = ''GROUND_CHIPSET'' then s\<lparr>ground_chipset := v\<rparr>
      else if up \<in> {''CAMERA'', ''CAMERA_TYPE''}
      then (let camera_type = parse_int_or (- 1) v
            in s\<lparr>camera := (if 0 \<le> camera_type then camera_type_to_string camera_type else v)\<rparr>)
      else s)"

definition apply_status :: "snapshot \<Rightarrow> istream \<Rightarrow> snapshot" where
  "apply_status s st =
     (let (field, st) = read_token [] st; v = rest_after st in
      if field = ''openhd_version'' then s\<lparr>openhd_version := v\<rparr>
      else if field = ''ground_chipset'' then s\<lparr>ground_chipset := v\<rparr>
      else if field = ''air_chipset'' then s\<lparr>air_chipset := v\<rparr>
      else if field = ''camera'' then s\<lparr>camera := v\<rparr>
      else if field = ''recording'' then s\<lparr>recording_status := v\<rparr>
      else s)"

definition apply_message :: "snapshot \<Rightarrow> istream \<Rightarrow> snapshot" where
  "apply_message s st = push_message s (rest_after st)"

section \<open>The dispatch\<close>

text \<open>The key dispatch: \<open>None\<close> for a key the function refuses.\<close>

definition apply_key :: "string \<Rightarrow> snapshot \<Rightarrow> istream \<Rightarrow> snapshot option" where
  "apply_key key s st =
     (if key = ''alive'' then Some (apply_alive s st)
      else if key = ''armed'' then Some (apply_armed s st)
      else if key = ''attitude'' then Some (apply_attitude s st)
      else if key = ''position'' then Some (apply_position s st)
      else if key = ''speed'' then Some (apply_speed s st)
      else if key = ''battery'' then Some (apply_battery s st)
      else if key = ''gps'' then Some (apply_gps s st)
      else if key = ''mode'' then Some (apply_mode s st)
      else if key = ''link'' then Some (apply_link s st)
      else if key = ''openhd'' then Some (apply_openhd s st)
      else if key = ''scan'' then Some (apply_scan s st)
      else if key = ''rc'' then Some (apply_rc s st)
      else if key = ''param'' then Some (apply_param s st)
      else if key = ''status'' then Some (apply_status s st)
      else if key = ''message'' then Some (apply_message s st)
      else None)"

definition apply_ipc_line :: "snapshot \<Rightarrow> string \<Rightarrow> bool \<times> snapshot" where
  "apply_ipc_line s line =
     (let (prefix, st) = read_token [] (istringstream line); (key, st) = read_token [] st in
      if prefix \<noteq> ''mav'' then (False, s)
      else (case apply_key key s st of Some s' \<Rightarrow> (True, s') | None \<Rightarrow> (False, s)))"

definition apply_lines :: "snapshot \<Rightarrow> string list \<Rightarrow> snapshot" where
  "apply_lines s ls = foldl (\<lambda>s l. snd (apply_ipc_line s l)) s ls"

definition is_osd_telemetry_line :: "string \<Rightarrow> bool" where
  "is_osd_telemetry_line line =
     (let (prefix, st) = read_token [] (istringstream line); (key, st) = read_token [] st in
      if prefix \<noteq> ''mav'' then False
      else if key = ''alive''
      then (let (target, st) = read_token [] st; (alive, st) = read_int 0 st
            in alive \<noteq> 0 \<and> (target = ''air'' \<or> target = ''fc''))
      else key \<in> {''attitude'', ''position'', ''speed'', ''battery'', ''gps'', ''link'', ''openhd'',
                   ''rc'', ''armed'', ''mode'', ''param'', ''status'', ''message''})"

definition format_action_set_param :: "string \<Rightarrow> string \<Rightarrow> string \<Rightarrow> string" where
  "format_action_set_param target param v = ''mav set '' @ target @ '' '' @ param @ '' '' @ v"

definition format_action_command :: "string \<Rightarrow> string \<Rightarrow> string" where
  "format_action_command command arguments =
     (if arguments = [] then ''mav command '' @ command
      else ''mav command '' @ command @ '' '' @ arguments)"

lemmas apply_defs = apply_alive_def apply_armed_def apply_attitude_def apply_position_def
  apply_speed_def apply_battery_def apply_gps_def apply_mode_def apply_link_def
  apply_wifi_card_def apply_wifi_link_def apply_core_def apply_openhd_def apply_scan_def
  apply_rc_def apply_param_def apply_status_def apply_message_def

section \<open>The invariant\<close>

definition snapshot_ok :: "snapshot \<Rightarrow> bool" where
  "snapshot_ok s \<longleftrightarrow>
     0 \<le> link_quality_percent s \<and> link_quality_percent s \<le> 100 \<and>
     0 \<le> rc_quality_percent s \<and> rc_quality_percent s \<le> 100 \<and>
     0 \<le> scan_progress s \<and> scan_progress s \<le> 100 \<and>
     length (rc_channels s) = 4 \<and> length (messages s) = 5 \<and> message_count s \<le> 5 \<and>
     (\<forall>i < message_count s. messages s ! i \<noteq> [])"

lemma clamp_percent_range [simp]: "0 \<le> clamp_percent v" "clamp_percent v \<le> 100"
  by (simp_all add: clamp_percent_def)

lemma length_read_channels [simp]: "length (read_channels cs st) = length cs"
  by (induction cs arbitrary: st) (auto split: prod.splits)

lemma snapshot_ok_initial: "snapshot_ok initial_snapshot"
  by (simp add: snapshot_ok_def initial_snapshot_def)

lemma push_message_ok:
  assumes "snapshot_ok s"
  shows "snapshot_ok (push_message s m)"
proof -
  consider "m = []" | "m \<noteq> []" "message_count s < 5" | "m \<noteq> []" "message_count s = 5"
    using assms by (fastforce simp: snapshot_ok_def)
  then show ?thesis
  proof cases
    case 3
    then have "(tl (messages s) @ [m]) ! i \<noteq> []" if "i < 5" for i
      using assms that by (cases "i = 4") (auto simp: snapshot_ok_def nth_append nth_tl)
    with 3 assms show ?thesis by (simp add: push_message_def snapshot_ok_def)
  qed (use assms in \<open>auto simp: push_message_def snapshot_ok_def nth_list_update less_Suc_eq\<close>)
qed

text \<open>
  The part of the invariant most lines do not touch: it is decided by the fields it reads.
\<close>

lemma snapshot_ok_cong:
  assumes "link_quality_percent t = link_quality_percent s" "rc_quality_percent t = rc_quality_percent s"
    "scan_progress t = scan_progress s" "rc_channels t = rc_channels s" "messages t = messages s"
    "message_count t = message_count s"
  shows "snapshot_ok t \<longleftrightarrow> snapshot_ok s"
  using assms by (simp add: snapshot_ok_def)

lemma apply_simple_ok:
  "snapshot_ok s \<Longrightarrow> snapshot_ok (apply_alive s st)"
  "snapshot_ok s \<Longrightarrow> snapshot_ok (apply_armed s st)"
  "snapshot_ok s \<Longrightarrow> snapshot_ok (apply_attitude s st)"
  "snapshot_ok s \<Longrightarrow> snapshot_ok (apply_position s st)"
  "snapshot_ok s \<Longrightarrow> snapshot_ok (apply_speed s st)"
  "snapshot_ok s \<Longrightarrow> snapshot_ok (apply_battery s st)"
  "snapshot_ok s \<Longrightarrow> snapshot_ok (apply_gps s st)"
  "snapshot_ok s \<Longrightarrow> snapshot_ok (apply_mode s st)"
  "snapshot_ok s \<Longrightarrow> snapshot_ok (apply_core s st)"
  "snapshot_ok s \<Longrightarrow> snapshot_ok (apply_scan s st)"
  "snapshot_ok s \<Longrightarrow> snapshot_ok (apply_rc s st)"
  "snapshot_ok s \<Longrightarrow> snapshot_ok (apply_status s st)"
  by (auto simp: snapshot_ok_def apply_defs Let_def split: prod.splits)

lemma apply_param_ok: "snapshot_ok s \<Longrightarrow> snapshot_ok (apply_param s st)"
  by (simp add: apply_param_def Let_def split_def snapshot_ok_def)

lemma apply_link_ok: "snapshot_ok s \<Longrightarrow> snapshot_ok (apply_link s st)"
  by (simp add: apply_link_def Let_def split_def snapshot_ok_def)

lemma apply_wifi_card_ok: "snapshot_ok s \<Longrightarrow> snapshot_ok (apply_wifi_card s st)"
  by (simp add: apply_wifi_card_def Let_def split_def snapshot_ok_def)

lemma apply_wifi_link_ok: "snapshot_ok s \<Longrightarrow> snapshot_ok (apply_wifi_link s st)"
  by (simp add: apply_wifi_link_def Let_def split_def snapshot_ok_def)

lemma apply_openhd_ok: "snapshot_ok s \<Longrightarrow> snapshot_ok (apply_openhd s st)"
  by (simp add: apply_openhd_def apply_wifi_card_ok apply_wifi_link_ok apply_simple_ok split: prod.splits)

lemma apply_message_ok: "snapshot_ok s \<Longrightarrow> snapshot_ok (apply_message s st)"
  by (simp add: apply_message_def push_message_ok)

lemmas apply_ok = apply_simple_ok apply_param_ok apply_link_ok apply_openhd_ok apply_message_ok

lemma apply_key_ok: "snapshot_ok s \<Longrightarrow> apply_key key s st = Some s' \<Longrightarrow> snapshot_ok s'"
  by (auto simp: apply_key_def apply_ok split: if_splits)

lemma apply_ipc_line_ok: "snapshot_ok s \<Longrightarrow> snapshot_ok (snd (apply_ipc_line s line))"
  by (auto simp: apply_ipc_line_def apply_key_ok split: prod.splits option.splits)

lemma apply_lines_ok: "snapshot_ok s \<Longrightarrow> snapshot_ok (apply_lines s ls)"
  unfolding apply_lines_def
  by (induction ls arbitrary: s) (simp_all add: apply_ipc_line_ok)

lemma apply_ipc_line_refused: "\<not> fst (apply_ipc_line s line) \<Longrightarrow> snd (apply_ipc_line s line) = s"
  by (simp add: apply_ipc_line_def Let_def split_def split: option.splits if_splits)

section \<open>Messages\<close>

text \<open>The messages a snapshot shows, oldest first.\<close>

definition shown_messages :: "snapshot \<Rightarrow> string list" where
  "shown_messages s = take (message_count s) (messages s)"

lemma shown_push_message:
  assumes "snapshot_ok s" and "m \<noteq> []"
  shows "shown_messages (push_message s m) = lastn 5 (shown_messages s @ [m])"
proof (cases "message_count s < 5")
  case True
  with assms show ?thesis
    by (simp add: push_message_def shown_messages_def snapshot_ok_def take_Suc_conv_app_nth)
next
  case False
  with assms have "message_count s = 5" "length (messages s) = 5"
    by (auto simp: snapshot_ok_def)
  with assms(2) show ?thesis
    by (simp add: push_message_def shown_messages_def lastn_def drop_Suc)
qed

section \<open>Properties\<close>

text \<open>C28: whatever lines arrive, from the initial snapshot on, the link, radio and scan percentages
  stay within 0 and 100, there are four channels and five message slots, and every message counted
  is not empty.\<close>

theorem snapshot_stays_ok: "snapshot_ok (apply_lines initial_snapshot ls)"
  by (rule apply_lines_ok[OF snapshot_ok_initial])

text \<open>The keys the dispatch knows.\<close>

definition telemetry_keys :: "string list" where
  "telemetry_keys = [''alive'', ''armed'', ''attitude'', ''position'', ''speed'', ''battery'', ''gps'', ''mode'',
     ''link'', ''openhd'', ''scan'', ''rc'', ''param'', ''status'', ''message'']"

lemma apply_key_iff: "apply_key k s st \<noteq> None \<longleftrightarrow> k \<in> set telemetry_keys"
  by (simp add: apply_key_def telemetry_keys_def)

text \<open>a line is accepted exactly when its first word is \<open>mav\<close> and its second one of the fifteen
  keys, and a line that is not accepted leaves the snapshot as it is.\<close>

theorem line_accepted_iff:
  "fst (apply_ipc_line s line) =
     (fst (read_token [] (istringstream line)) = ''mav'' \<and>
      fst (read_token [] (snd (read_token [] (istringstream line)))) \<in> set telemetry_keys) \<and>
   (fst (apply_ipc_line s line) \<or> snd (apply_ipc_line s line) = s)"
proof -
  obtain prefix st where p: "read_token [] (istringstream line) = (prefix, st)" by fastforce
  obtain key st' where k: "read_token [] st = (key, st')" by fastforce
  show ?thesis
    using apply_key_iff[of key s st']
    by (cases "apply_key key s st'"; cases "prefix = ''mav''") (simp_all add: apply_ipc_line_def p k)
qed

lemma apply_message_line:
  assumes "CHR 0x0A \<notin> set m"
  shows "apply_ipc_line s (''mav message '' @ m) = (True, push_message s m)"
proof -
  have line: "istringstream (''mav message '' @ m) = stream_at (''mav'' @ CHR '' '' # ''message'' @ CHR '' '' # m)"
    by (simp add: istringstream_def stream_at_def)
  have "rest_after (stream_at (CHR '' '' # m)) = m"
    using assms by (simp add: rest_after_def read_line_def read_line_until_def stream_at_def good_def
        takeWhile_eq_all_conv Let_def)
  then have "apply_key ''message'' s (stream_at (CHR '' '' # m)) = Some (push_message s m)"
    by (simp add: apply_key_def apply_message_def)
  then show ?thesis
    unfolding apply_ipc_line_def line
    by (simp add: read_token_word word_text_def is_space_def del: append_Cons append.simps)
qed

text \<open>the snapshot shows the last five messages, oldest first: after any number of message
  lines those are the last five of the messages shown before and the new ones.\<close>

theorem last_messages_shown:
  assumes "snapshot_ok s" and "\<forall>m \<in> set ms. m \<noteq> [] \<and> CHR 0x0A \<notin> set m"
  shows "shown_messages (apply_lines s (map (\<lambda>m. ''mav message '' @ m) ms)) = lastn 5 (shown_messages s @ ms)"
  using assms
proof (induction ms arbitrary: s)
  case Nil
  then show ?case by (simp add: apply_lines_def shown_messages_def snapshot_ok_def)
next
  case (Cons m ms)
  have "apply_lines s (map (\<lambda>m. ''mav message '' @ m) (m # ms))
      = apply_lines (push_message s m) (map (\<lambda>m. ''mav message '' @ m) ms)"
    using Cons.prems(2) by (simp add: apply_lines_def apply_message_line del: append_Cons append.simps)
  then show ?case
    using Cons.IH[OF push_message_ok[OF Cons.prems(1), of m]] Cons.prems
    by (simp add: shown_push_message lastn_append)
qed

theorem last_messages_shown_witness:
  "shown_messages (apply_lines initial_snapshot (map (\<lambda>m. ''mav message '' @ m) [''a'', ''b'', ''c'', ''d'', ''e'', ''f'']))
   = [''b'', ''c'', ''d'', ''e'', ''f'']"
  using last_messages_shown[OF snapshot_ok_initial, of "[''a'', ''b'', ''c'', ''d'', ''e'', ''f'']"]
  by (simp add: lastn_def shown_messages_def initial_snapshot_def)

end
