(* ===== verification/Mavlink_Bridge.thy ===== *)
theory Mavlink_Bridge
  imports Mavlink_Decode Mavlink_State
begin

text \<open>
  The class \<open>UdpBridge\<close> of \<open>src/common/mavlink_udp_bridge.cpp\<close>: its state, \<open>start\<close>,
  \<open>connect_to\<close>, \<open>poll\<close>, \<open>handle_action_line\<close> with the three senders, \<open>send_packet\<close> and \<open>close\<close>.
  What the operating system answers (sockets, \<open>getaddrinfo\<close>, \<open>connect\<close>, \<open>recv\<close>, \<open>send\<close>) is an
  argument. The fields \<open>wire\<close> and \<open>closed\<close> are no fields of the class: they record the packets
  handed to \<open>send\<close> and the descriptors closed. The lemmas give the invariant of the object, that
  \<open>poll\<close> over TCP does not depend on how the stream was cut, and what is sent for an action line.
\<close>

section \<open>State\<close>

datatype transport = Udp | Tcp

record bridge_options =
  opt_listen_port :: nat
  opt_system_id :: u8
  opt_component_id :: u8

definition default_options :: bridge_options where
  "default_options = \<lparr>opt_listen_port = 14550, opt_system_id = 255, opt_component_id = 190\<rparr>"

text \<open>A peer is \<open>None\<close> for a null \<open>peer_\<close>, \<open>Some None\<close> for a storage that is not valid.\<close>

record bridge =
  fd :: int
  options :: bridge_options
  transport :: transport
  remote_host :: string
  remote_port :: nat
  listening :: bool
  stream_buffer :: bytes
  sequence :: u8
  fc_system_id :: u8
  fc_component_id :: u8
  air_system_id :: u8
  air_component_id :: u8
  ground_system_id :: u8
  ground_component_id :: u8
  last_error :: string
  peer :: "bytes option option"
  wire :: "bytes list"
  closed :: "int list"

definition new_bridge :: bridge where
  "new_bridge = \<lparr>fd = - 1, options = default_options, transport = Udp, remote_host = [],
     remote_port = 0, listening = False, stream_buffer = [], sequence = 0, fc_system_id = 1,
     fc_component_id = 1, air_system_id = 1, air_component_id = 1, ground_system_id = 100,
     ground_component_id = 1, last_error = [], peer = None, wire = [], closed = []\<rparr>"

definition running :: "bridge \<Rightarrow> bool" where
  "running b \<longleftrightarrow> 0 \<le> fd b"

definition close_bridge :: "bridge \<Rightarrow> bridge" where
  "close_bridge b =
     (let b1 = (if 0 \<le> fd b then b\<lparr>fd := - 1, closed := closed b @ [fd b]\<rparr> else b)
      in b1\<lparr>peer := None, stream_buffer := [], remote_host := [], remote_port := 0,
            listening := False\<rparr>)"

definition connection_description :: "bridge \<Rightarrow> string" where
  "connection_description b =
     (if \<not> running b then ''Disconnected''
      else if listening b then ''UDP listening 0.0.0.0:'' @ nat_str (opt_listen_port (options b))
      else (if transport b = Tcp then ''TCP '' else ''UDP '')
           @ remote_host b @ '':'' @ nat_str (remote_port b))"

section \<open>Opening\<close>

text \<open>The answers \<open>start\<close> gets: the new socket (or \<open>-1\<close>), whether \<open>bind\<close> succeeds, the error code.\<close>

record start_answers =
  runtime_ok :: bool
  new_socket :: int
  bind_ok :: bool
  errno :: int

definition start :: "start_answers \<Rightarrow> bridge_options \<Rightarrow> bridge \<Rightarrow> bool \<times> bridge" where
  "start env opts b =
     (let b0 = close_bridge b in
      if \<not> runtime_ok env then (False, b0\<lparr>last_error := ''failed to initialize socket runtime''\<rparr>)
      else let b1 = b0\<lparr>options := opts, transport := Udp, listening := True\<rparr> in
      if new_socket env = - 1
      then (False, b1\<lparr>last_error := ''UDP socket error '' @ int_str (errno env)\<rparr>)
      else let b2 = b1\<lparr>fd := new_socket env\<rparr> in
      if \<not> bind_ok env
      then (False, close_bridge (b2\<lparr>last_error := ''UDP bind error '' @ int_str (errno env)\<rparr>))
      else (True, b2\<lparr>peer := Some None, last_error := []\<rparr>))"

record connect_answers =
  nonblock_ok :: bool
  connect_ok :: bool
  connect_errno :: int
  select_result :: int
  sockopt_ok :: bool
  so_error :: int
  late_errno :: int

definition connect_with_timeout :: "connect_answers \<Rightarrow> int \<Rightarrow> bool \<times> int" where
  "connect_with_timeout a err =
     (if \<not> nonblock_ok a then (False, connect_errno a)
      else if connect_ok a then (True, err)
      else if connect_errno a \<noteq> 115 \<and> connect_errno a \<noteq> 11 then (False, connect_errno a)
      else if select_result a \<le> 0
      then (False, if select_result a = 0 then 110 else late_errno a)
      else if \<not> sockopt_ok a \<or> so_error a \<noteq> 0
      then (False, if so_error a \<noteq> 0 then so_error a else late_errno a)
      else (True, 0))"

datatype addr_family = Inet | Inet6 | Other_family

record candidate =
  c_family :: addr_family
  c_address :: bytes
  c_socket :: int
  c_connect :: connect_answers
  c_bind_ok :: bool
  c_errno :: int

definition open_candidate :: "transport \<Rightarrow> candidate \<Rightarrow> int \<Rightarrow> bool \<times> int" where
  "open_candidate t c err =
     (if t = Tcp then connect_with_timeout (c_connect c) err
      else if c_family c \<noteq> Other_family \<and> c_bind_ok c then (True, err)
      else (False, c_errno c))"

text \<open>
  The loop over the resolved addresses: the first one that connects (TCP) or binds (UDP), the
  last error, and the sockets closed on the way.
\<close>

fun try_candidates ::
  "transport \<Rightarrow> candidate list \<Rightarrow> int \<Rightarrow> candidate option \<times> int \<times> int list" where
  "try_candidates t [] err = (None, err, [])"
| "try_candidates t (c # cs) err =
     (if c_socket c = - 1 then try_candidates t cs err
      else case open_candidate t c err of
        (True, err') \<Rightarrow> (Some c, err', [])
      | (False, err') \<Rightarrow>
          (case try_candidates t cs err' of (sel, e, shut) \<Rightarrow> (sel, e, c_socket c # shut)))"

definition connect_to ::
  "bool \<Rightarrow> (string \<Rightarrow> string \<Rightarrow> candidate list option) \<Rightarrow> transport \<Rightarrow> string \<Rightarrow> nat \<Rightarrow> bridge \<Rightarrow> bool \<times> bridge" where
  "connect_to runtime resolve t host port b =
     (let b0 = close_bridge b in
      if \<not> runtime \<or> host = [] \<or> port = 0 then (False, b0\<lparr>last_error := ''invalid telemetry endpoint''\<rparr>)
      else let port_text = nat_str port in
      case resolve host port_text of
        None \<Rightarrow> (False, b0\<lparr>last_error := ''could not resolve telemetry host '' @ host\<rparr>)
      | Some cs \<Rightarrow>
          if cs = [] then (False, b0\<lparr>last_error := ''could not resolve telemetry host '' @ host\<rparr>)
          else case try_candidates t cs 0 of
            (None, err, shut) \<Rightarrow>
              (False, b0\<lparr>closed := closed b0 @ shut,
                 last_error := ''could not connect telemetry '' @ (if t = Tcp then ''TCP'' else ''UDP'')
                   @ '' endpoint '' @ host @ '':'' @ port_text
                   @ '' (socket error '' @ int_str err @ '')''\<rparr>)
          | (Some c, err, shut) \<Rightarrow>
              (True, b0\<lparr>closed := closed b0 @ shut, fd := c_socket c, transport := t,
                 remote_host := host, remote_port := port, listening := False,
                 peer := Some (if t = Udp then Some (c_address c) else None), last_error := []\<rparr>))"

section \<open>Receiving\<close>

text \<open>One answer of \<open>recv\<close> or \<open>recvfrom\<close>: bytes with the sender's address, or an error code.\<close>

datatype recv_answer = Received bytes bytes | Recv_error int

definition would_block :: "int \<Rightarrow> bool" where
  "would_block e \<longleftrightarrow> e = 11"

definition note_heartbeat :: "frame \<Rightarrow> bridge \<Rightarrow> string list \<times> bridge" where
  "note_heartbeat fr b =
     (if msgid fr \<noteq> 0 then ([], b)
      else let type = read_u8 (payload fr) 4; autopilot = read_u8 (payload fr) 5 in
        if sysid fr = system_id_ground
        then ([], b\<lparr>ground_system_id := sysid fr, ground_component_id := compid fr\<rparr>)
        else if sysid fr = system_id_air
        then ([], b\<lparr>air_system_id := sysid fr, air_component_id := compid fr\<rparr>)
        else if is_vehicle autopilot type
        then (let base_mode = read_u8 (payload fr) 6; custom_mode = read_le 4 (payload fr) 0
              in ([''mav armed '' @ (if (of_nat base_mode :: u8) AND 0x80 \<noteq> 0 then ''1'' else ''0''),
                   ''mav mode '' @ mode_from_heartbeat base_mode custom_mode],
                  b\<lparr>fc_system_id := sysid fr, fc_component_id := compid fr\<rparr>))
        else ([], b))"

definition decoded_lines :: "frame \<Rightarrow> string list" where
  "decoded_lines fr =
     (case decode_frame fr of None \<Rightarrow> []
      | Some text \<Rightarrow> filter (\<lambda>l. l \<noteq> []) (split_lines text))"

definition take_frame :: "frame \<Rightarrow> bridge \<Rightarrow> string list \<times> bridge" where
  "take_frame fr b = (let (ls, b') = note_heartbeat fr b in (ls @ decoded_lines fr, b'))"

fun take_frames :: "frame list \<Rightarrow> bridge \<Rightarrow> string list \<times> bridge" where
  "take_frames [] b = ([], b)"
| "take_frames (fr # frs) b =
     (let (ls, b1) = take_frame fr b; (ls', b2) = take_frames frs b1 in (ls @ ls', b2))"

text \<open>The frames of what was received, at most the 2048 bytes of the buffer.\<close>

definition receive_bytes :: "bytes \<Rightarrow> bytes \<Rightarrow> bridge \<Rightarrow> frame list \<times> bridge" where
  "receive_bytes bs from b =
     (if transport b = Tcp
      then let (frames, left) = parse_stream (stream_buffer b @ bs) in (frames, b\<lparr>stream_buffer := left\<rparr>)
      else (parse_datagram bs,
            case peer b of None \<Rightarrow> b | Some _ \<Rightarrow> b\<lparr>peer := Some (Some from)\<rparr>))"

text \<open>The loop of \<open>poll\<close>; the list of answers stands for the socket, its end for "would block".\<close>

fun poll_loop :: "recv_answer list \<Rightarrow> bridge \<Rightarrow> string list \<times> bridge" where
  "poll_loop [] b = ([], b)"
| "poll_loop (Recv_error e # as) b =
     ([], if would_block e then b else b\<lparr>last_error := ''telemetry receive error '' @ int_str e\<rparr>)"
| "poll_loop (Received bs from # as) b =
     (if bs = []
      then ([], if transport b = Tcp
                then close_bridge (b\<lparr>last_error := ''TCP telemetry peer disconnected''\<rparr>) else b)
      else let (frames, b1) = receive_bytes (take 2048 bs) from b;
               (ls, b2) = take_frames frames b1;
               (ls', b3) = poll_loop as b2
           in (ls @ ls', b3))"

definition poll :: "recv_answer list \<Rightarrow> bridge \<Rightarrow> string list \<times> bridge" where
  "poll as b = (if fd b < 0 then ([], b) else poll_loop as b)"

section \<open>Sending\<close>

text \<open>
  \<open>send_packet\<close> for the answer \<open>snd_result\<close> of the \<open>send\<close> call, a function of the calls made
  before and of the packet.
\<close>

definition send_packet ::
  "(bytes list \<Rightarrow> bytes \<Rightarrow> int) \<Rightarrow> u32 \<Rightarrow> u8 \<Rightarrow> bytes \<Rightarrow> bridge \<Rightarrow> bool \<times> bridge" where
  "send_packet snd_result message_id crc_extra pl b =
     (if fd b < 0 \<or> 255 < length pl \<or> (transport b = Udp \<and> (peer b = None \<or> peer b = Some None))
      then (False, b)
      else let packet = build_packet (sequence b) (opt_system_id (options b))
                          (opt_component_id (options b)) message_id crc_extra pl
           in (snd_result (wire b) packet = int (length packet),
               b\<lparr>sequence := sequence b + 1, wire := wire b @ [packet]\<rparr>))"

definition put_float :: "fp \<Rightarrow> bytes" where
  "put_float x = le_bytes 4 (unat (bits32_of_fp x))"

definition param_target :: "string \<Rightarrow> bridge \<Rightarrow> bytes" where
  "param_target target b =
     [target_system_for target (air_system_id b) (ground_system_id b) (fc_system_id b),
      target_component_for target (air_component_id b) (ground_component_id b) (fc_component_id b)]"

definition send_param_set ::
  "(bytes list \<Rightarrow> bytes \<Rightarrow> int) \<Rightarrow> string \<Rightarrow> string \<Rightarrow> string \<Rightarrow> bridge \<Rightarrow> bool \<times> bridge" where
  "send_param_set env target name val b =
     (case strtof_whole val of
        None \<Rightarrow> (False, b)
      | Some numeric \<Rightarrow>
          send_packet env 23 168
            (put_float numeric @ param_target target b @ put_fixed_string name 16 @ [9]) b)"

definition param_ext_payload :: "string \<Rightarrow> string \<Rightarrow> string \<Rightarrow> bridge \<Rightarrow> bytes" where
  "param_ext_payload target name val b =
     param_target target b @ put_fixed_string name 16 @
     (case strtol_whole val of
        Some v \<Rightarrow> if - 2147483648 \<le> v \<and> v \<le> 2147483647
                  then le_bytes 4 (unat (of_int v :: u32)) @ replicate 124 0 @ [6]
                  else put_fixed_string val 128 @ [11]
      | None \<Rightarrow> put_fixed_string val 128 @ [11])"

definition send_param_ext_set ::
  "(bytes list \<Rightarrow> bytes \<Rightarrow> int) \<Rightarrow> string \<Rightarrow> string \<Rightarrow> string \<Rightarrow> bridge \<Rightarrow> bool \<times> bridge" where
  "send_param_ext_set env target name val b =
     send_packet env 323 78 (param_ext_payload target name val b) b"

text \<open>
  The command table of \<open>send_command_long\<close>: command id, the seven parameters, and whether the
  target is the camera (component 100) rather than the air unit's component.
\<close>

definition f_int :: "int \<Rightarrow> fp" where
  "f_int v = fp_of_int f32 v"

definition f_nan :: fp where
  "f_nan = FNan False"

definition command_table :: "string \<Rightarrow> (nat \<times> fp list \<times> bool) option" where
  "command_table command =
     (let z = fp_zero f32 in
      if command = ''scan'' then Some (31000, [z, z, z, z, z, z, z], False)
      else if command = ''siyi-gimbal-stop'' then Some (1000, [f_nan, f_nan, z, z, z, z, z], True)
      else if command \<in> {''siyi-gimbal-up'', ''siyi-gimbal-down'', ''siyi-gimbal-left'', ''siyi-gimbal-right''}
      then Some (1000, [f_nan, f_nan,
                        if command = ''siyi-gimbal-up'' then f_int 45
                        else if command = ''siyi-gimbal-down'' then f_int (- 45) else z,
                        if command = ''siyi-gimbal-right'' then f_int 45
                        else if command = ''siyi-gimbal-left'' then f_int (- 45) else z,
                        z, z, z], True)
      else if command = ''siyi-gimbal-center'' then Some (1000, [f_nan, f_nan, z, z, f_int 2, z, z], True)
      else if command \<in> {''siyi-zoom-in'', ''siyi-zoom-out'', ''siyi-zoom-stop''}
      then Some (531, [f_int 1,
                       if command = ''siyi-zoom-in'' then f_int 1
                       else if command = ''siyi-zoom-out'' then f_int (- 1) else z, z, z, z, z, z], True)
      else if command \<in> {''siyi-focus-near'', ''siyi-focus-far'', ''siyi-focus-stop''}
      then Some (532, [f_int 1,
                       if command = ''siyi-focus-far'' then f_int 1
                       else if command = ''siyi-focus-near'' then f_int (- 1) else z, z, z, z, z, z], True)
      else if command = ''siyi-autofocus'' then Some (532, [f_int 5, z, z, z, z, z, z], True)
      else if command = ''siyi-photo'' then Some (2000, [z, z, f_int 1, z, z, z, z], True)
      else if command \<in> {''siyi-record-start'', ''siyi-record-stop''}
      then Some (if command = ''siyi-record-start'' then 2500 else 2501, [z, z, z, z, z, z, z], True)
      else None)"

definition send_command_long ::
  "(bytes list \<Rightarrow> bytes \<Rightarrow> int) \<Rightarrow> string \<Rightarrow> string \<Rightarrow> bridge \<Rightarrow> bool \<times> bridge" where
  "send_command_long env command arguments b =
     (case command_table command of
        None \<Rightarrow> (False, b)
      | Some (command_id, params, to_camera) \<Rightarrow>
          send_packet env 76 152
            (concat (map put_float params) @ le_bytes 2 command_id @
             [air_system_id b, if to_camera then 100 else air_component_id b, 0]) b)"

definition handle_action_line ::
  "(bytes list \<Rightarrow> bytes \<Rightarrow> int) \<Rightarrow> string \<Rightarrow> bridge \<Rightarrow> bool \<times> bridge" where
  "handle_action_line env line b =
     (let (prefix, st) = read_token [] (istringstream line); (action, st) = read_token [] st in
      if prefix \<noteq> ''mav'' then (False, b)
      else if action = ''set''
      then (let (target, st) = read_token [] st; (name, st) = read_token [] st;
                val = rest_after st; (ok, b1) = send_param_ext_set env target name val b
            in if ok then (True, b1) else send_param_set env target name val b1)
      else if action = ''command''
      then (let (command, st) = read_token [] st; arguments = rest_after st
            in send_command_long env command arguments b)
      else (False, b))"

section \<open>The invariant of the object\<close>

text \<open>
  A descriptor goes with a peer storage; a closed object holds no stream; what the buffer holds
  is the start of one frame that is not complete.
\<close>

definition bridge_ok :: "bridge \<Rightarrow> bool" where
  "bridge_ok b \<longleftrightarrow>
     - 1 \<le> fd b \<and> (0 \<le> fd b \<longleftrightarrow> peer b \<noteq> None) \<and>
     (fd b < 0 \<or> transport b = Udp \<longrightarrow> stream_buffer b = []) \<and>
     parse_stream (stream_buffer b) = ([], stream_buffer b)"

lemma bridge_ok_new: "bridge_ok new_bridge"
  by (simp add: bridge_ok_def new_bridge_def)

lemma close_bridge_ok: "- 1 \<le> fd b \<Longrightarrow> bridge_ok (close_bridge b)"
  by (auto simp: bridge_ok_def close_bridge_def Let_def)

lemma close_bridge_simps [simp]:
  "stream_buffer (close_bridge b) = []" "peer (close_bridge b) = None"
  "0 \<le> fd b \<Longrightarrow> fd (close_bridge b) = - 1" "fd b < 0 \<Longrightarrow> fd (close_bridge b) = fd b"
  "transport (close_bridge b) = transport b"
  by (simp_all add: close_bridge_def Let_def)

lemma close_bridge_fd: "bridge_ok b \<Longrightarrow> fd (close_bridge b) = - 1"
  by (cases "0 \<le> fd b") (auto simp: bridge_ok_def)

lemma start_ok: "bridge_ok b \<Longrightarrow> - 1 \<le> new_socket env \<Longrightarrow> bridge_ok (snd (start env opts b))"
  using close_bridge_fd[of b]
  by (auto simp: start_def Let_def bridge_ok_def close_bridge_ok)

text \<open>
  No socket is lost while the addresses are tried: those before the selected one are closed, and
  all of them when none is selected.
\<close>

definition opened :: "candidate list \<Rightarrow> int list" where
  "opened cs = filter (\<lambda>s. s \<noteq> - 1) (map c_socket cs)"

lemma opened_simps [simp]:
  "opened [] = []"
  "opened (c # cs) = (if c_socket c = - 1 then opened cs else c_socket c # opened cs)"
  by (simp_all add: opened_def)

lemma opened_before_Cons:
  assumes "\<exists>pre post. cs = pre @ a # post \<and> s = opened pre"
  shows "\<exists>pre post. c # cs = pre @ a # post \<and>
           (if c_socket c = - 1 then s else c_socket c # s) = opened pre"
proof -
  obtain pre post where "cs = pre @ a # post" "s = opened pre" using assms by blast
  then have "c # cs = (c # pre) @ a # post \<and>
      (if c_socket c = - 1 then s else c_socket c # s) = opened (c # pre)" by simp
  then show ?thesis by blast
qed

lemma try_candidates_sockets:
  "try_candidates t cs err = (sel, e, shut) \<Longrightarrow>
   (case sel of None \<Rightarrow> shut = opened cs
    | Some c \<Rightarrow> \<exists>pre post. cs = pre @ c # post \<and> shut = opened pre \<and> c_socket c \<noteq> - 1)"
proof (induction cs arbitrary: err sel e shut)
  case (Cons c cs)
  show ?case
  proof (cases "c_socket c = - 1")
    case True
    with Cons.prems have "try_candidates t cs err = (sel, e, shut)" by simp
    from Cons.IH[OF this] True show ?thesis
      using opened_before_Cons[of cs "the sel" shut c] by (cases sel) auto
  next
    case False
    obtain ok err' where o: "open_candidate t c err = (ok, err')" by fastforce
    show ?thesis
    proof (cases ok)
      case True
      with False o Cons.prems have "sel = Some c" "shut = []" by auto
      then have "c # cs = [] @ c # cs \<and> shut = opened []" by simp
      with False \<open>sel = Some c\<close> show ?thesis unfolding \<open>sel = Some c\<close> option.case by blast
    next
      case not_ok: False
      obtain sel' e' shut' where r: "try_candidates t cs err' = (sel', e', shut')"
        by (cases "try_candidates t cs err'") auto
      with False o not_ok Cons.prems have "sel = sel'" "shut = c_socket c # shut'" by auto
      note IH = Cons.IH[OF r] this
      show ?thesis
      proof (cases sel)
        case None
        with IH False show ?thesis by simp
      next
        case (Some a)
        with IH obtain pre post
          where p: "cs = pre @ a # post" "shut' = opened pre" "c_socket a \<noteq> - 1" by auto
        then have "c # cs = (c # pre) @ a # post" "shut = opened (c # pre)"
          using IH False by auto
        with p(3) Some show ?thesis by (simp only: option.case) blast
      qed
    qed
  qed
qed simp

lemma try_candidates_selected:
  "try_candidates t cs err = (Some c, e, shut) \<Longrightarrow> c \<in> set cs \<and> c_socket c \<noteq> - 1"
  using try_candidates_sockets[of t cs err "Some c" e shut] by auto

lemma connect_to_ok:
  assumes "bridge_ok b"
    and "\<And>cs c. resolve host (nat_str port) = Some cs \<Longrightarrow> c \<in> set cs \<Longrightarrow> - 1 \<le> c_socket c"
  shows "bridge_ok (snd (connect_to runtime resolve t host port b))"
proof -
  have "0 \<le> c_socket c" if "resolve host (nat_str port) = Some cs"
    "try_candidates t cs 0 = (Some c, e, shut)" for cs c e shut
    using assms(2)[OF that(1)] try_candidates_selected[OF that(2)] by force
  then show ?thesis
    using close_bridge_fd[OF assms(1)]
    by (fastforce simp: connect_to_def Let_def bridge_ok_def split: option.splits prod.splits)
qed

section \<open>Receiving does not depend on the cuts\<close>

text \<open>Frames change the learnt addresses only.\<close>

lemma note_heartbeat_keeps [simp]:
  "fd (snd (note_heartbeat fr b)) = fd b"
  "transport (snd (note_heartbeat fr b)) = transport b"
  "stream_buffer (snd (note_heartbeat fr b)) = stream_buffer b"
  "peer (snd (note_heartbeat fr b)) = peer b"
  "wire (snd (note_heartbeat fr b)) = wire b"
  by (simp_all add: note_heartbeat_def Let_def)

lemma take_frames_keeps [simp]:
  "fd (snd (take_frames frs b)) = fd b"
  "transport (snd (take_frames frs b)) = transport b"
  "stream_buffer (snd (take_frames frs b)) = stream_buffer b"
  "peer (snd (take_frames frs b)) = peer b"
  "wire (snd (take_frames frs b)) = wire b"
  by (induction frs arbitrary: b) (simp_all add: take_frame_def split_def Let_def)

lemma note_heartbeat_buffer:
  "note_heartbeat fr (b\<lparr>stream_buffer := x\<rparr>)
   = (fst (note_heartbeat fr b), (snd (note_heartbeat fr b))\<lparr>stream_buffer := x\<rparr>)"
  by (simp add: note_heartbeat_def Let_def)

lemma take_frames_buffer:
  "take_frames frs (b\<lparr>stream_buffer := x\<rparr>)
   = (fst (take_frames frs b), (snd (take_frames frs b))\<lparr>stream_buffer := x\<rparr>)"
  by (induction frs arbitrary: b) (simp_all add: take_frame_def note_heartbeat_buffer split_def Let_def)

lemma take_frames_append:
  "take_frames (xs @ ys) b =
     (let (ls, b1) = take_frames xs b; (ls', b2) = take_frames ys b1 in (ls @ ls', b2))"
  by (induction xs arbitrary: b) (simp_all add: split_def Let_def)

lemma poll_loop_tcp:
  assumes "transport b = Tcp" and "\<forall>c \<in> set chunks. c \<noteq> [] \<and> length c \<le> 2048"
  shows "poll_loop (map (\<lambda>c. Received c from) chunks) b =
     (let (frs, left) = mavlink_stream.feed (stream_buffer b) chunks;
          (ls, b') = take_frames frs b
      in (ls, b'\<lparr>stream_buffer := left\<rparr>))"
  using assms
proof (induction chunks arbitrary: b)
  case (Cons c cs)
  obtain frs left where p: "parse_stream (stream_buffer b @ c) = (frs, left)" by fastforce
  obtain ls b' where t: "take_frames frs b = (ls, b')" by fastforce
  have b': "transport b' = Tcp"
    using take_frames_keeps(2)[of frs b] Cons.prems t by simp
  obtain frs' left' where f: "mavlink_stream.feed left cs = (frs', left')" by fastforce
  have IH: "poll_loop (map (\<lambda>c. Received c from) cs) (b'\<lparr>stream_buffer := left\<rparr>) =
      (fst (take_frames frs' b'), (snd (take_frames frs' b'))\<lparr>stream_buffer := left'\<rparr>)"
    using Cons.IH[of "b'\<lparr>stream_buffer := left\<rparr>"] Cons.prems b' f
    by (simp add: take_frames_buffer split_def Let_def)
  show ?case
    using Cons.prems IH
    by (simp add: receive_bytes_def p t f take_frames_buffer take_frames_append
        mavlink_stream.feed_Cons split_def Let_def)
qed simp

text \<open>\<open>poll\<close> over a byte stream, however it was cut, is one pass over the whole of it.\<close>

lemma poll_tcp:
  assumes "bridge_ok b" and "0 \<le> fd b" and "transport b = Tcp"
    and "\<forall>c \<in> set chunks. c \<noteq> [] \<and> length c \<le> 2048"
  shows "poll (map (\<lambda>c. Received c from) chunks) b =
     (let (frs, left) = parse_stream (stream_buffer b @ concat chunks);
          (ls, b') = take_frames frs b
      in (ls, b'\<lparr>stream_buffer := left\<rparr>))"
proof -
  obtain frs left where f: "mavlink_stream.feed (stream_buffer b) chunks = (frs, left)" by fastforce
  have idem: "parse_stream (snd (mavlink_stream.feed buf cs)) = ([], snd (mavlink_stream.feed buf cs))"
    if "parse_stream buf = ([], buf)" for buf cs
    using that
  proof (induction cs arbitrary: buf)
    case (Cons c cs)
    have "parse_stream (snd (parse_stream xs)) = ([], snd (parse_stream xs))" for xs
      using parse_stream_left[of xs] parse_stream_frame[of "snd (parse_stream xs)"]
      by (cases "snd (parse_stream xs) = []") auto
    with Cons.IH show ?case by (simp add: mavlink_stream.feed_Cons split_def Let_def)
  qed simp
  have "parse_stream left = ([], left)"
    using idem[of "stream_buffer b" chunks] assms(1) f by (simp add: bridge_ok_def)
  then have "parse_stream (stream_buffer b @ concat chunks) = (frs, left)"
    using mavlink_stream.feed_concat[of "stream_buffer b" chunks] f by simp
  then show ?thesis
    using poll_loop_tcp[OF assms(3,4), of "from"] assms(2) f by (simp add: poll_def)
qed

lemma receive_bytes_ok:
  assumes "bridge_ok b" and "0 \<le> fd b"
  shows "bridge_ok (snd (receive_bytes bs from b))" and "fd (snd (receive_bytes bs from b)) = fd b"
proof -
  have "parse_stream (snd (parse_stream xs)) = ([], snd (parse_stream xs))" for xs
    using parse_stream_left[of xs] parse_stream_frame[of "snd (parse_stream xs)"]
    by (cases "snd (parse_stream xs) = []") auto
  with assms show "bridge_ok (snd (receive_bytes bs from b))"
    by (auto simp: bridge_ok_def receive_bytes_def split_def Let_def split: option.splits)
  show "fd (snd (receive_bytes bs from b)) = fd b"
    by (simp add: receive_bytes_def split_def Let_def split: option.splits)
qed

lemma take_frames_ok: "bridge_ok b \<Longrightarrow> bridge_ok (snd (take_frames frs b))"
  by (simp add: bridge_ok_def)

lemma poll_loop_ok:
  assumes "bridge_ok b" and "0 \<le> fd b"
  shows "bridge_ok (snd (poll_loop as b))"
  using assms
proof (induction as b rule: poll_loop.induct)
  case (3 bs frm as b)
  show ?case
  proof (cases "bs = []")
    case True
    with 3(2,3) show ?thesis by (simp add: close_bridge_ok)
  next
    case False
    obtain frs b1 where r: "receive_bytes (take 2048 bs) frm b = (frs, b1)" by fastforce
    obtain ls b2 where t: "take_frames frs b1 = (ls, b2)" by fastforce
    have "bridge_ok b2" "0 \<le> fd b2"
      using receive_bytes_ok[OF 3(2,3), of "take 2048 bs" frm] take_frames_ok[of b1 frs]
        take_frames_keeps(1)[of frs b1] r t 3(3) by simp_all
    with 3(1)[OF False r[symmetric] refl t[symmetric] refl] False r t show ?thesis
      by (simp add: split_def Let_def)
  qed
qed (auto simp: bridge_ok_def)

lemma poll_ok: "bridge_ok b \<Longrightarrow> bridge_ok (snd (poll as b))"
  by (simp add: poll_def poll_loop_ok)

text \<open>The buffer never holds more than one frame that is not complete.\<close>

lemma bridge_ok_buffer:
  assumes "bridge_ok b"
  shows "length (stream_buffer b) < 280"
proof (cases "stream_buffer b = []")
  case False
  define bs where "bs = stream_buffer b"
  have ps: "parse_stream bs = ([], bs)" "bs \<noteq> []"
    using assms False by (simp_all add: bridge_ok_def bs_def)
  then have "frame_size bs = None"
    using parse_stream_left[of bs] by simp
  moreover obtain n where n: "unat (bs ! 1) = n" "n < 256"
    using word_u8_less by blast
  ultimately show ?thesis
    unfolding bs_def[symmetric]
    by (auto simp: frame_size_def header_len_def Let_def n(1)[simplified] split: if_splits)
qed simp

section \<open>Sending\<close>

definition sendable :: "bridge \<Rightarrow> bool" where
  "sendable b \<longleftrightarrow> 0 \<le> fd b \<and> (transport b = Udp \<longrightarrow> (\<exists>a. peer b = Some (Some a)))"

text \<open>The state after one packet of the frame was handed to the socket.\<close>

definition after_packet :: "u32 \<Rightarrow> u8 \<Rightarrow> bytes \<Rightarrow> bridge \<Rightarrow> bridge" where
  "after_packet mi ce pl b =
     b\<lparr>sequence := sequence b + 1,
       wire := wire b @ [build_packet (sequence b) (opt_system_id (options b))
                          (opt_component_id (options b)) mi ce pl]\<rparr>"

lemma send_packet_sends:
  "sendable b \<Longrightarrow> length pl \<le> 255 \<Longrightarrow>
   send_packet env mi ce pl b = (env (wire b) (last (wire (after_packet mi ce pl b))) = 12 + int (length pl),
                                 after_packet mi ce pl b)"
  by (auto simp: send_packet_def sendable_def after_packet_def Let_def)

lemma send_packet_refuses:
  "\<not> sendable b \<or> 255 < length pl \<Longrightarrow> send_packet env mi ce pl b = (False, b)"
  by (cases "peer b"; cases "the (peer b)"; cases "transport b")
     (auto simp: send_packet_def sendable_def)

lemma send_packet_keeps_ok: "bridge_ok b \<Longrightarrow> bridge_ok (snd (send_packet env mi ce pl b))"
  by (simp add: send_packet_def bridge_ok_def Let_def)

lemma handle_action_line_ok: "bridge_ok b \<Longrightarrow> bridge_ok (snd (handle_action_line env line b))"
  by (auto simp: handle_action_line_def send_param_ext_set_def send_param_set_def
      send_command_long_def send_packet_keeps_ok Let_def split_def split: option.splits)

lemma length_param_target [simp]: "length (param_target t b) = 2"
  by (simp add: param_target_def)

lemma length_param_ext_payload [simp]: "length (param_ext_payload t n v b) = 147"
  by (simp add: param_ext_payload_def split: option.splits)

lemma rest_after_blank:
  "CHR 0x0A \<notin> set v \<Longrightarrow> rest_after (stream_at (CHR '' '' # v)) = v"
  by (simp add: rest_after_def read_line_def read_line_until_def stream_at_def good_def
      takeWhile_all Let_def takeWhile_eq_all_conv)

lemma word_text_literal [simp]:
  "word_text ''mav''" "word_text ''set''" "word_text ''command''"
  by (simp_all add: word_text_def is_space_def)

lemma handle_set_line:
  assumes "word_text target" and "word_text name" and "CHR 0x0A \<notin> set val"
  shows "handle_action_line env (format_action_set_param target name val) b =
     (let (ok, b1) = send_param_ext_set env target name val b
      in if ok then (True, b1) else send_param_set env target name val b1)"
proof -
  have line: "istringstream (format_action_set_param target name val)
      = stream_at (''mav'' @ CHR '' '' # ''set'' @ CHR '' '' # target @ CHR '' '' # name @ CHR '' '' # val)"
    by (simp add: format_action_set_param_def istringstream_def stream_at_def)
  show ?thesis
    unfolding handle_action_line_def line
    using assms
    by (simp add: read_token_word rest_after_blank del: append_Cons append.simps)
qed

lemma handle_command_line:
  assumes "word_text command" and "CHR 0x0A \<notin> set arguments"
  shows "handle_action_line env (format_action_command command arguments) b
         = send_command_long env command arguments b"
proof (cases "arguments = []")
  case True
  have line: "istringstream (format_action_command command arguments)
      = stream_at (''mav'' @ CHR '' '' # ''command'' @ CHR '' '' # command @ [])"
    using True by (simp add: format_action_command_def istringstream_def stream_at_def)
  show ?thesis
    unfolding handle_action_line_def line
    using assms
    by (simp add: read_token_word send_command_long_def split_def del: append_Cons append.simps append_Nil2)
next
  case False
  have line: "istringstream (format_action_command command arguments)
      = stream_at (''mav'' @ CHR '' '' # ''command'' @ CHR '' '' # command @ CHR '' '' # arguments)"
    using False by (simp add: format_action_command_def istringstream_def stream_at_def)
  show ?thesis
    unfolding handle_action_line_def line
    using assms
    by (simp add: read_token_word rest_after_blank del: append_Cons append.simps)
qed

text \<open>The fields of the parameter payload, read with the readers of the receiving side.\<close>

lemma strtol_whole_int_str: "strtol_whole (int_str i) = Some i"
proof -
  have ds: "\<forall>c \<in> set (nat_str n). is_digit c" for n by (rule nat_str_digits)
  then have nz: "\<forall>c \<in> set (int_str i). c \<noteq> CHR 0x00"
    by (auto simp: int_str_def is_digit_def dest!: bspec [OF ds])
  have "c_str (int_str i) = int_str i"
    using nz by (simp add: c_str_def takeWhile_eq_all_conv)
  moreover have "dropWhile is_space (int_str i) = int_str i"
    using int_str_no_space[of i] by (intro dropWhile_none) auto
  moreover have "scan_int (int_str i) = (i < 0, nat_str (nat \<bar>i\<bar>), [])"
    using scan_int_str[of "[]" i] by simp
  ultimately show ?thesis by (auto simp: strtol_whole_def)
qed

lemma c_string_put_fixed:
  assumes "CHR 0x00 \<notin> set v" and "v = [] \<or> last (take n v) \<noteq> CHR '' ''" and "off = length pre"
    and "0 < n"
  shows "c_string (pre @ put_fixed_string v n @ post) off n = take n v"
proof -
  define z where "z = replicate (n - length v) (0 :: u8)"
  have put: "put_fixed_string v n = bytes_of_text (take n v) @ z"
    by (auto simp: put_fixed_string_def z_def Let_def min_def)
  have "take n (drop off (pre @ put_fixed_string v n @ post)) = put_fixed_string v n"
    using assms(3) by simp
  moreover have z: "text_of_bytes z = replicate (n - length v) CHR 0x00"
    by (simp add: text_of_bytes_def z_def char_of_byte_def char_of_def)
  ultimately have shown: "text_of_bytes (take n (drop off (pre @ put_fixed_string v n @ post)))
      = take n v @ replicate (n - length v) CHR 0x00"
    using text_of_bytes_append[of "bytes_of_text (take n v)" z] z by (simp only: put text_of_bytes_of_text)
  have nz: "\<forall>c \<in> set (take n v). c \<noteq> CHR 0x00"
    using assms(1) by (auto dest: in_set_takeD)
  have "takeWhile (\<lambda>c. c \<noteq> CHR 0x00) (take n v @ replicate (n - length v) CHR 0x00) = take n v"
    using nz by (simp add: takeWhile_append takeWhile_eq_all_conv)
  moreover have "pop_blanks (take n v) = take n v"
  proof (cases "take n v = []")
    case False
    with assms(2) have "last (take n v) \<noteq> CHR '' ''" by auto
    with False have "dropWhile (\<lambda>c. c = CHR '' '') (rev (take n v)) = rev (take n v)"
      by (intro dropWhile_none) (simp add: hd_rev)
    then show ?thesis by (simp only: pop_blanks_def rev_rev_ident)
  qed (auto simp: pop_blanks_def)
  ultimately show ?thesis
    using shown assms(3,4) by (simp add: c_string_def min_def)
qed

lemma read_i32_put:
  assumes "- 2147483648 \<le> i" and "i \<le> 2147483647" and "off = length pre"
  shows "read_i32 (pre @ le_bytes 4 (unat (of_int i :: u32)) @ post) off = i"
proof -
  have "unat (of_int i :: u32) mod 256 ^ 4 = unat (of_int i :: u32)"
    using word_u32_less[of "of_int i"] by (intro mod_less) simp
  then have "read_i32 (pre @ le_bytes 4 (unat (of_int i :: u32)) @ post) off = sint (of_int i :: u32)"
    by (simp add: read_i32_def assms(3) read_le_append)
  also have "\<dots> = i"
    using assms(1,2) by (simp add: sint_sbintrunc' signed_take_bit_int_eq_self)
  finally show ?thesis .
qed

section \<open>Properties\<close>

text \<open>C2: \<open>poll\<close> on a TCP connection returns the same lines and leaves the same state however the
  byte stream was cut into reads: it is one extraction over the kept bytes and all new ones,
  whose frames are taken in order, and the bytes of the frame that is not complete are kept.\<close>

theorem poll_any_cut:
  assumes "bridge_ok b" and "running b" and "transport b = Tcp"
    and "\<forall>c \<in> set chunks. c \<noteq> [] \<and> length c \<le> 2048"
  shows "poll (map (\<lambda>c. Received c from) chunks) b =
     (let (frs, left) = parse_stream (stream_buffer b @ concat chunks);
          (ls, b') = take_frames frs b
      in (ls, b'\<lparr>stream_buffer := left\<rparr>))"
  using assms(2) unfolding running_def by (rule poll_tcp[OF assms(1) _ assms(3,4)])

definition tcp_bridge :: bridge where
  "tcp_bridge = new_bridge\<lparr>fd := 3, transport := Tcp, peer := Some None\<rparr>"

lemma tcp_bridge_ok: "bridge_ok tcp_bridge" "running tcp_bridge" "transport tcp_bridge = Tcp"
  by (simp_all add: tcp_bridge_def new_bridge_def bridge_ok_def running_def)

theorem poll_any_cut_witness:
  "poll [Received [0xfe, 0] [], Received [1] []] tcp_bridge =
     (let (frs, left) = parse_stream (stream_buffer tcp_bridge @ [0xfe, 0, 1]);
          (ls, b') = take_frames frs tcp_bridge
      in (ls, b'\<lparr>stream_buffer := left\<rparr>))"
  using poll_any_cut[OF tcp_bridge_ok, of "[[0xfe, 0], [1]]" "[]"] by simp

text \<open>The states the object can be in: what its operations reach from construction.\<close>

inductive reachable :: "bridge \<Rightarrow> bool" where
  reachable_new: "reachable new_bridge"
| reachable_start: "reachable b \<Longrightarrow> - 1 \<le> new_socket env \<Longrightarrow> reachable (snd (start env opts b))"
| reachable_connect: "reachable b \<Longrightarrow>
    (\<And>cs c. resolve host (nat_str port) = Some cs \<Longrightarrow> c \<in> set cs \<Longrightarrow> - 1 \<le> c_socket c) \<Longrightarrow>
    reachable (snd (connect_to runtime resolve t host port b))"
| reachable_poll: "reachable b \<Longrightarrow> reachable (snd (poll as b))"
| reachable_action: "reachable b \<Longrightarrow> reachable (snd (handle_action_line env line b))"
| reachable_close: "reachable b \<Longrightarrow> reachable (close_bridge b)"

text \<open>C39: in every state the operations reach, the bridge keeps a peer storage exactly while it
  holds a descriptor, keeps no bytes while it is closed or on UDP, keeps at most the start of one
  frame that is not complete, and so fewer than 280 bytes.\<close>

theorem reachable_bridge_ok:
  assumes "reachable b"
  shows "bridge_ok b \<and> length (stream_buffer b) < 280"
proof -
  from assms have "bridge_ok b"
    by induction (auto simp: bridge_ok_new start_ok connect_to_ok poll_ok handle_action_line_ok
        bridge_ok_def[THEN iffD1, THEN conjunct1] intro: close_bridge_ok)
  with bridge_ok_buffer show ?thesis by simp
qed

theorem reachable_bridge_ok_witness:
  "bridge_ok (close_bridge new_bridge) \<and> length (stream_buffer (close_bridge new_bridge)) < 280"
  by (rule reachable_bridge_ok) (intro reachable_close reachable_new)

text \<open>C29: a \<open>mav set\<close> line of a sendable bridge puts one \<open>PARAM_EXT_SET\<close> packet on the wire, with
  the next sequence number; the receiving side extracts exactly one frame from it, from the
  configured sender, and reads the first sixteen characters of the name from it.\<close>

theorem set_line_sends_packet:
  assumes "sendable b" and "word_text target" and "word_text name" and "CHR 0x00 \<notin> set name"
    and "CHR 0x0A \<notin> set val" and "\<And>pkt. env (wire b) pkt = int (length pkt)"
  defines "p \<equiv> param_ext_payload target name val b"
  shows "handle_action_line env (format_action_set_param target name val) b
           = (True, after_packet 323 78 p b) \<and>
         parse_datagram (last (wire (after_packet 323 78 p b)))
           = [\<lparr>sysid = opt_system_id (options b), compid = opt_component_id (options b),
               msgid = 323, payload = p\<rparr>] \<and>
         c_string p 2 16 = take 16 name"
proof (intro conjI)
  have len: "length p = 147" by (simp add: p_def)
  then show "handle_action_line env (format_action_set_param target name val) b
      = (True, after_packet 323 78 p b)"
    using handle_set_line[OF assms(2,3,5), of env b] send_packet_sends[OF assms(1), of p env 323 78]
      assms(6)
    by (simp add: send_param_ext_set_def after_packet_def flip: p_def)
  show "parse_datagram (last (wire (after_packet 323 78 p b)))
      = [\<lparr>sysid = opt_system_id (options b), compid = opt_component_id (options b),
          msgid = 323, payload = p\<rparr>]"
    using parse_build_packet[of p 323 _ _ _ _ "[]"] len by (simp add: after_packet_def)
  have "last (take 16 name) \<noteq> CHR '' ''"
    using assms(3) last_in_set[of "take 16 name"] in_set_takeD[of "last (take 16 name)" 16 name]
      is_space_blank
    by (auto simp: word_text_def)
  then show "c_string p 2 16 = take 16 name"
    unfolding p_def param_ext_payload_def
    using c_string_put_fixed[OF assms(4), of 16 2 "param_target target b"] by simp
qed

text \<open>A UDP bridge with a known peer and a socket that takes every packet.\<close>

definition udp_bridge :: bridge where
  "udp_bridge = new_bridge\<lparr>fd := 3, peer := Some (Some [])\<rparr>"

definition sends_all :: "bytes list \<Rightarrow> bytes \<Rightarrow> int" where
  "sends_all w pkt = int (length pkt)"

lemma udp_bridge_sendable: "sendable udp_bridge"
  by (simp add: sendable_def udp_bridge_def new_bridge_def)

theorem set_line_sends_packet_witness:
  "fst (handle_action_line sends_all (format_action_set_param ''air'' ''FREQ'' ''5745'') udp_bridge)"
  using set_line_sends_packet[OF udp_bridge_sendable, of "''air''" "''FREQ''" "''5745''" sends_all]
  by (simp add: word_text_def is_space_def sends_all_def)

text \<open>the value of a \<open>PARAM_EXT_SET\<close> payload reads back: every 32-bit integer as the integer
  it was printed from, with type 6, and every other text of at most 128 characters as itself,
  with type 11.\<close>

theorem param_value_read_back:
  "(- 2147483648 \<le> i \<and> i \<le> 2147483647 \<longrightarrow>
      read_i32 (param_ext_payload target name (int_str i) b) 18 = i \<and>
      read_u8 (param_ext_payload target name (int_str i) b) 146 = 6) \<and>
   (strtol_whole val = None \<and> CHR 0x00 \<notin> set val \<and> length val \<le> 128 \<and> (val = [] \<or> last val \<noteq> CHR '' '') \<longrightarrow>
      c_string (param_ext_payload target name val b) 18 128 = val \<and>
      read_u8 (param_ext_payload target name val b) 146 = 11)"
proof (intro conjI impI; (elim conjE)?)
  define pre where "pre = param_target target b @ put_fixed_string name 16"
  have pre: "length pre = 18" by (simp add: pre_def)
  {
    assume i: "- 2147483648 \<le> i" "i \<le> 2147483647"
    have p: "param_ext_payload target name (int_str i) b
        = pre @ le_bytes 4 (unat (of_int i :: u32)) @ replicate 124 0 @ [6]"
      using i by (simp add: param_ext_payload_def strtol_whole_int_str pre_def)
    show "read_i32 (param_ext_payload target name (int_str i) b) 18 = i"
      unfolding p using pre by (intro read_i32_put[OF i]) simp
    show "read_u8 (param_ext_payload target name (int_str i) b) 146 = 6"
      unfolding p using pre by (simp add: read_u8_def read_le_def)
  }
  assume t: "strtol_whole val = None" "CHR 0x00 \<notin> set val" "length val \<le> 128"
    "val = [] \<or> last val \<noteq> CHR '' ''"
  then have p: "param_ext_payload target name val b = pre @ put_fixed_string val 128 @ [11]"
    by (simp add: param_ext_payload_def pre_def)
  show "c_string (param_ext_payload target name val b) 18 128 = val"
    unfolding p using c_string_put_fixed[OF t(2), of 128 18 pre "[11]"] t pre by auto
  show "read_u8 (param_ext_payload target name val b) 146 = 11"
    unfolding p using pre by (simp add: read_u8_def read_le_def)
qed

theorem param_value_read_back_witness:
  "read_i32 (param_ext_payload ''air'' ''FREQ'' (int_str 5745) new_bridge) 18 = 5745 \<and>
   c_string (param_ext_payload ''air'' ''MODE'' ''auto'' new_bridge) 18 128 = ''auto''"
  using param_value_read_back[of 5745 "''air''" "''FREQ''" new_bridge "[]"]
    param_value_read_back[of 0 "''air''" "''MODE''" new_bridge "''auto''"]
  by (simp add: strtol_whole_def c_str_def scan_int_def is_space_def is_digit_def)

text \<open>A \<open>mav command\<close> line of a sendable bridge puts one \<open>COMMAND_LONG\<close> on the wire for every
  command of the table, with the 33 bytes of the message, the command id at offset 28 and the air
  unit as the target system, and any other command leaves the bridge as it is.\<close>

theorem command_line_sends_packet:
  assumes "sendable b" and "word_text command" and "CHR 0x0A \<notin> set arguments"
    and "\<And>pkt. env (wire b) pkt = int (length pkt)"
  shows "case command_table command of
           None \<Rightarrow> handle_action_line env (format_action_command command arguments) b = (False, b)
         | Some (command_id, params, to_camera) \<Rightarrow>
             (\<exists>p. handle_action_line env (format_action_command command arguments) b
                    = (True, after_packet 76 152 p b) \<and>
                  length p = 33 \<and> read_le 2 p 28 = command_id \<and> p ! 30 = air_system_id b \<and>
                  p ! 31 = (if to_camera then 100 else air_component_id b))"
proof (cases "command_table command")
  case None
  then show ?thesis
    using handle_command_line[OF assms(2,3), of env b] by (simp add: send_command_long_def)
next
  case (Some e)
  obtain cid params cam where e: "e = (cid, params, cam)" by (cases e) auto
  have tab: "length params = 7" "cid < 65536"
    using Some e by (auto simp: command_table_def Let_def split: if_splits)
  define fs where "fs = concat (map put_float params)"
  have "length (concat (map put_float ps)) = 4 * length ps" for ps
    by (induction ps) (simp_all add: put_float_def)
  then have fs: "length fs = 28" using tab(1) by (simp add: fs_def)
  define p where "p = fs @ le_bytes 2 cid @ [air_system_id b, if cam then 100 else air_component_id b, 0]"
  have p: "length p = 33" "read_le 2 p 28 = cid" "p ! 30 = air_system_id b"
    "p ! 31 = (if cam then 100 else air_component_id b)"
    using fs tab(2) read_le_append[of 2 fs cid "[air_system_id b, if cam then 100 else air_component_id b, 0]"]
    by (simp_all add: p_def nth_append)
  then have "handle_action_line env (format_action_command command arguments) b = (True, after_packet 76 152 p b)"
    using handle_command_line[OF assms(2,3), of env b] send_packet_sends[OF assms(1), of p env 76 152]
      assms(4) Some e
    by (simp add: send_command_long_def after_packet_def p_def fs_def)
  with p Some e show ?thesis by auto
qed

theorem command_line_sends_packet_witness:
  "handle_action_line sends_all (format_action_command ''jump'' []) udp_bridge = (False, udp_bridge)"
  using command_line_sends_packet[OF udp_bridge_sendable, of "''jump''" "[]" sends_all]
  by (simp add: word_text_def is_space_def sends_all_def command_table_def Let_def)

text \<open>while \<open>connect_to\<close> tries the resolved addresses no socket is lost: those opened before
  the selected one are closed, and all of them when none is selected.\<close>

theorem connect_closes_the_rest:
  assumes "try_candidates t cs err = (sel, e, shut)"
  shows "case sel of None \<Rightarrow> shut = opened cs
         | Some c \<Rightarrow> \<exists>pre post. cs = pre @ c # post \<and> shut = opened pre \<and> c_socket c \<noteq> - 1"
  using assms by (rule try_candidates_sockets)

theorem connect_closes_the_rest_witness:
  "opened [\<lparr>c_family = Inet, c_address = [], c_socket = 5, c_connect = undefined, c_bind_ok = False,
           c_errno = 98\<rparr>] = [5]"
  using connect_closes_the_rest[of Udp
    "[\<lparr>c_family = Inet, c_address = [], c_socket = 5, c_connect = undefined, c_bind_ok = False,
       c_errno = 98\<rparr>]" 0 None 98 "[5]"]
  by (simp add: open_candidate_def)

end
