(* ===== verification/Telemetry_Flow.thy ===== *)
theory Telemetry_Flow
  imports Mavlink_Bridge
begin

text \<open>
  From a MAVLink frame to the telemetry snapshot: \<open>decode_frame\<close> (theory \<open>Mavlink_Decode\<close>) writes
  lines, \<open>apply_ipc_line\<close> (theory \<open>Mavlink_State\<close>) reads them in another process. The lemmas show what of
  a frame arrives in the snapshot through the text in between.
\<close>

section \<open>Lines\<close>

lemma apply_line_key:
  assumes "word_text key" and "blank_start rest"
  shows "apply_ipc_line s (''mav '' @ key @ rest) =
    (case apply_key key s (stream_at rest) of Some s' \<Rightarrow> (True, s') | None \<Rightarrow> (False, s))"
proof -
  have line: "istringstream (''mav '' @ key @ rest) = stream_at (''mav'' @ CHR '' '' # key @ rest)"
    by (simp add: istringstream_def stream_at_def)
  show ?thesis
    unfolding apply_ipc_line_def line
    using assms by (simp add: read_token_word del: append_Cons append.simps)
qed

lemma lines_from_no_newline:
  "CHR 0x0A \<notin> set l \<Longrightarrow> lines_from acc (l @ CHR 0x0A # r) = (acc @ l) # lines_from [] r"
  by (induction l arbitrary: acc) auto

lemma lines_from_last:
  "CHR 0x0A \<notin> set l \<Longrightarrow> acc @ l \<noteq> [] \<Longrightarrow> lines_from acc l = [acc @ l]"
  by (induction l arbitrary: acc) auto

lemma split_lines_one: "CHR 0x0A \<notin> set l \<Longrightarrow> l \<noteq> [] \<Longrightarrow> split_lines l = [l]"
  by (simp add: split_lines_def lines_from_last)

lemma split_lines_two:
  "CHR 0x0A \<notin> set l \<Longrightarrow> CHR 0x0A \<notin> set r \<Longrightarrow> r \<noteq> [] \<Longrightarrow> split_lines (l @ nl @ r) = [l, r]"
  by (simp add: split_lines_def nl_def lines_from_no_newline lines_from_last)

lemma no_newline: "\<forall>c \<in> set w. \<not> is_space c \<Longrightarrow> CHR 0x0A \<notin> set w"
  by (auto simp: is_space_def)

lemma fp_fixed_no_space: "\<forall>c \<in> set (fp_fixed p x). \<not> is_space c"
proof (cases x)
  case (FFin neg m e)
  then show ?thesis
    using dec_fixed_no_space[of p] by (cases neg) (simp_all add: fp_fixed_def)
qed (simp_all add: fp_fixed_def is_space_def)

lemma word_text_fp_fixed: "word_text (fp_fixed p x)"
  using fp_fixed_no_space by (simp add: word_text_def) (simp add: fp_fixed_def dec_fixed_def Let_def split: fp.splits)

section \<open>Degrees\<close>

lemma fp_of_int_exact:
  assumes "v \<noteq> 0" and "\<bar>v\<bar> < 2 ^ k" and "k + 2 \<le> prec f" and "emin f \<le> int k - int (prec f)"
    and "0 \<le> emax f"
  shows "\<exists>K. fp_of_int f v = FFin (v < 0) (nat \<bar>v\<bar> * 2 ^ K) (- int K)"
proof -
  define a where "a = nat \<bar>v\<bar>"
  have a: "0 < a" "a < 1 * 2 ^ k" using assms(1,2) by (simp_all add: a_def nat_less_iff)
  obtain m K where r: "fp_round f (v < 0) a 1 = FFin (v < 0) m (- int K)"
    "2 * \<bar>int m * 1 - int a * 2 ^ K\<bar> \<le> 1"
    using fp_round_small[of a 1 k f "v < 0"] a assms(3-5) by auto
  have "int m = int a * 2 ^ K" using r(2) by arith
  then have "m = a * 2 ^ K" by (metis of_nat_eq_iff of_nat_mult of_nat_numeral of_nat_power)
  with r(1) show ?thesis by (auto simp: fp_of_int_def a_def)
qed

text \<open>The decimals written are the digits of the integer: dividing and rounding loses nothing.\<close>

lemma degrees_text_exact:
  assumes "\<bar>v\<bar> \<le> 2147483648"
  shows "degrees_text v = (if v < 0 then ''-'' else []) @ dec_fixed 7 (nat \<bar>v\<bar>)"
proof (cases "v = 0")
  case True
  then show ?thesis
    by (simp add: degrees_text_def fp_of_int_def fp_div_nat_def fp_round_def fp_fixed_def f64_def rne_def)
next
  case False
  define a where "a = nat \<bar>v\<bar>"
  obtain J where J: "fp_of_int f64 v = FFin (v < 0) (a * 2 ^ J) (- int J)"
    using fp_of_int_exact[OF False, of 33 f64] assms by (auto simp: a_def f64_def)
  have a: "0 < a * 2 ^ J" "0 < 10000000 * (2::nat) ^ J" "a * 2 ^ J < 10000000 * 2 ^ J * 2 ^ 8"
    using False assms by (auto simp: a_def)
  obtain m K where r: "fp_round f64 (v < 0) (a * 2 ^ J) (10000000 * 2 ^ J) = FFin (v < 0) m (- int K)"
    "44 \<le> K" "2 * \<bar>int m * int (10000000 * 2 ^ J) - int (a * 2 ^ J) * 2 ^ K\<bar> \<le> int (10000000 * 2 ^ J)"
    using fp_round_small[OF a, of f64 "v < 0"] by (auto simp: f64_def)
  have "int m * int (10000000 * 2 ^ J) - int (a * 2 ^ J) * 2 ^ K
      = (int (m * 10000000) - int a * 2 ^ K) * 2 ^ J"
    by (simp add: algebra_simps)
  with r(3) have "(2 * \<bar>int (m * 10000000) - int a * 2 ^ K\<bar>) * 2 ^ J \<le> 10000000 * 2 ^ J"
    by (simp add: abs_mult)
  then have "2 * \<bar>int (m * 10000000) - int a * 2 ^ K\<bar> \<le> 10000000"
    by (simp only: mult_le_cancel_right) simp
  moreover have "(10000000 :: int) < 2 ^ K"
    using power_increasing[OF r(2), of "2 :: int"] by simp
  ultimately have "rne (m * 10000000) (2 ^ K) = a"
    by (intro rne_unique) simp_all
  moreover have "fp_div_nat f64 (fp_of_int f64 v) 10000000 = FFin (v < 0) m (- int K)"
    using r(1) by (simp add: J fp_div_nat_def)
  ultimately show ?thesis
    by (simp add: degrees_text_def fp_fixed_def flip: a_def)
qed

lemma degrees_value_finite:
  assumes "\<bar>v\<bar> \<le> 2147483648"
  shows "\<exists>m e. fp_round f64 (v < 0) (nat \<bar>v\<bar>) (10 ^ 7) = FFin (v < 0) m e"
proof (cases "v = 0")
  case False
  have "nat \<bar>v\<bar> < 2560000000" using assms by (simp add: nat_less_iff)
  with False show ?thesis
    using fp_round_small[of "nat \<bar>v\<bar>" "10 ^ 7" 8 f64 "v < 0"] by (auto simp: f64_def)
qed (simp add: fp_round_def)

text \<open>The double nearest to \<open>v\<close> ten-millionths.\<close>

definition degrees_value :: "int \<Rightarrow> fp" where
  "degrees_value v = fp_round f64 (v < 0) (nat \<bar>v\<bar>) (10 ^ 7)"

lemma read_degrees:
  assumes "\<bar>v\<bar> \<le> 2147483648" and "blank_start rest"
  shows "read_float f64 old (stream_at (CHR '' '' # degrees_text v @ rest)) = (degrees_value v, stream_at rest)"
proof -
  obtain m e where me: "fp_round f64 (v < 0) (nat \<bar>v\<bar>) (10 ^ 7) = FFin (v < 0) m e"
    using degrees_value_finite[OF assms(1)] by blast
  show ?thesis
    using read_float_fixed[OF _ assms(2) me] me
    by (simp add: degrees_text_exact[OF assms(1)] degrees_value_def)
qed

section \<open>What arrives\<close>

text \<open>The snapshot after the lines a frame decodes to.\<close>

definition apply_frame :: "snapshot \<Rightarrow> frame \<Rightarrow> snapshot" where
  "apply_frame s fr = apply_lines s (decoded_lines fr)"

lemma apply_frame_one:
  assumes "decode_frame fr = Some (''mav '' @ key @ rest)" and "word_text key" and "blank_start rest"
    and "CHR 0x0A \<notin> set rest" and "apply_key key s (stream_at rest) = Some s'"
  shows "apply_frame s fr = s'"
proof -
  have "CHR 0x0A \<notin> set key" using assms(2) no_newline[of key] by (simp add: word_text_def)
  then have "decoded_lines fr = [''mav '' @ key @ rest]"
    using split_lines_one[of "''mav '' @ key @ rest"] assms(1,4) by (simp add: decoded_lines_def)
  then show ?thesis
    using apply_line_key[OF assms(2,3), of s] assms(5) by (simp add: apply_frame_def apply_lines_def)
qed

lemma apply_frame_two:
  assumes "decode_frame fr = Some ((''mav '' @ key1 @ rest1) @ nl @ ''mav '' @ key2 @ rest2)"
    and "word_text key1" and "blank_start rest1" and "CHR 0x0A \<notin> set rest1"
    and "word_text key2" and "blank_start rest2" and "CHR 0x0A \<notin> set rest2"
    and "apply_key key1 s (stream_at rest1) = Some s1"
    and "apply_key key2 s1 (stream_at rest2) = Some s2"
  shows "apply_frame s fr = s2"
proof -
  have "CHR 0x0A \<notin> set key1" "CHR 0x0A \<notin> set key2"
    using assms(2,5) no_newline[of key1] no_newline[of key2] by (simp_all add: word_text_def)
  then have "decoded_lines fr = [''mav '' @ key1 @ rest1, ''mav '' @ key2 @ rest2]"
    using split_lines_two[of "''mav '' @ key1 @ rest1" "''mav '' @ key2 @ rest2"] assms(1,4,7)
    by (simp add: decoded_lines_def)
  then show ?thesis
    using apply_line_key[OF assms(2,3), of s] apply_line_key[OF assms(5,6), of s1] assms(8,9)
    by (simp add: apply_frame_def apply_lines_def)
qed

lemma no_newline_texts [simp]:
  "CHR 0x0A \<notin> set (fp_fixed p x)" "CHR 0x0A \<notin> set (nat_str n)" "CHR 0x0A \<notin> set (int_str i)"
  "CHR 0x0A \<notin> set (degrees_text v)" "CHR 0x0A \<notin> set (metres_text w)"
  using no_newline[OF fp_fixed_no_space] no_newline[of "nat_str n"] no_newline[of "int_str i"]
    word_text_nat_str[of n] word_text_int_str[of i]
  by (simp_all add: degrees_text_def metres_text_def word_text_def)

lemma read_int_nat_str:
  assumes "blank_start rest" and "n < 2147483648"
  shows "read_int old (stream_at (CHR '' '' # nat_str n @ rest)) = (int n, stream_at rest)"
  using read_int_int_str(2)[OF assms(1), of "int n"] assms(2) by (simp add: int_str_nat)

lemmas field_read = read_int_int_str(2) read_int_nat_str read_degrees read_token_word

lemma read_i32_abs: "\<bar>read_i32 p off\<bar> \<le> 2147483648"
  unfolding read_i32_def using sint_u32_bounds[of "of_nat (read_le 4 p off)"] by linarith

lemma decode_gps_frame:
  assumes "msgid fr = 24"
  shows "decode_frame fr = Some ((''mav '' @ ''position'' @ CHR '' '' # degrees_text (read_i32 (payload fr) 8)
      @ CHR '' '' # degrees_text (read_i32 (payload fr) 12) @ CHR '' '' # metres_text (read_i32 (payload fr) 16))
      @ nl @ ''mav '' @ ''gps'' @ CHR '' '' # nat_str (read_u8 (payload fr) 29))"
  using assms by (simp add: decode_frame_def decode_gps_raw_int_def Let_def)

text \<open>C1: a \<open>GPS_RAW_INT\<close> frame's latitude and longitude, written as text with seven decimals and
  read back from it, arrive in the snapshot as the doubles nearest to the transmitted 1e-7 degrees,
  for every 32-bit value, and the satellite count arrives unchanged.\<close>

theorem gps_position_arrives:
  fixes s :: snapshot and fr :: frame
  assumes "msgid fr = 24"
  defines "t \<equiv> apply_frame s fr"
  shows "latitude_deg t = degrees_value (read_i32 (payload fr) 8) \<and>
         longitude_deg t = degrees_value (read_i32 (payload fr) 12) \<and>
         satellites t = int (read_u8 (payload fr) 29) \<and> position_valid t \<and> altitude_valid t"
proof -
  define lat lon alt sats where v: "lat = read_i32 (payload fr) 8" "lon = read_i32 (payload fr) 12"
    "alt = read_i32 (payload fr) 16" "sats = read_u8 (payload fr) 29"
  define rest1 where "rest1 = CHR '' '' # degrees_text lat @ CHR '' '' # degrees_text lon @ CHR '' '' # metres_text alt"
  define rest2 where "rest2 = CHR '' '' # nat_str sats"
  have sats: "sats < 2147483648"
    using read_u8_bound[of "payload fr" 29] by (simp add: v)
  have lat: "read_float f64 old (stream_at rest1) =
      (degrees_value lat, stream_at (CHR '' '' # degrees_text lon @ CHR '' '' # metres_text alt))" for old
    unfolding rest1_def v by (rule read_degrees[OF read_i32_abs]) simp
  have lon: "read_float f64 old (stream_at (CHR '' '' # degrees_text lon @ CHR '' '' # metres_text alt)) =
      (degrees_value lon, stream_at (CHR '' '' # metres_text alt))" for old
    unfolding v by (rule read_degrees[OF read_i32_abs]) simp
  obtain a st where alt: "read_float f32 (altitude_m s) (stream_at (CHR '' '' # metres_text alt)) = (a, st)"
    by fastforce
  have sat: "read_int old (stream_at rest2) = (int sats, stream_at [])" for old
    using read_int_nat_str[of "[]" sats old] sats by (simp add: rest2_def)
  define s1 where "s1 = s\<lparr>latitude_deg := degrees_value lat, longitude_deg := degrees_value lon,
      altitude_m := a, position_valid := True, altitude_valid := True\<rparr>"
  have "t = s1\<lparr>satellites := int sats\<rparr>"
    unfolding t_def
  proof (rule apply_frame_two)
    show "decode_frame fr = Some ((''mav '' @ ''position'' @ rest1) @ nl @ ''mav '' @ ''gps'' @ rest2)"
      using decode_gps_frame[OF assms(1)] by (simp add: rest1_def rest2_def v)
    show "apply_key ''position'' s (stream_at rest1) = Some s1"
      by (simp add: apply_key_def apply_position_def lat lon alt s1_def)
    show "apply_key ''gps'' s1 (stream_at rest2) = Some (s1\<lparr>satellites := int sats\<rparr>)"
      by (simp add: apply_key_def apply_gps_def sat)
  qed (simp_all add: rest1_def rest2_def word_text_def is_space_def)
  then show ?thesis by (simp add: s1_def v)
qed

definition gps_frame :: frame where
  "gps_frame = \<lparr>sysid = 1, compid = 1, msgid = 24,
     payload = replicate 8 0 @ le_bytes 4 521234567 @ le_bytes 4 134567891 @ replicate 13 0 @ [7]\<rparr>"

theorem gps_position_arrives_witness: "satellites (apply_frame initial_snapshot gps_frame) = 7"
proof -
  have "read_u8 (payload gps_frame) 29 = 7"
    by (simp add: gps_frame_def read_u8_def read_le_def)
  then show ?thesis
    using gps_position_arrives[of gps_frame initial_snapshot] by (simp add: gps_frame_def)
qed

lemma abs_half_bound: "2 * \<bar>x\<bar> \<le> 1000 \<Longrightarrow> x \<le> (500 :: int)"
  by simp

lemma bound_from_error: "x * 1000 - y \<le> 500 \<Longrightarrow> y \<le> 65536 * z \<Longrightarrow> 0 < z \<Longrightarrow> x \<le> 66 * z + (1 :: int)"
  by simp

lemma product_bound:
  "2 * \<bar>y - x * 100\<bar> \<le> z \<Longrightarrow> 65536 \<le> z \<Longrightarrow> x \<le> 66 * z + 1 \<Longrightarrow> y < 12800 * (z :: int)"
  using abs_ge_self[of "y - x * 100"] by simp

text \<open>The bit rate of a link message: two decimals that read back as a number.\<close>

lemma read_rate:
  assumes "rate < 65536" and "blank_start rest"
  shows "\<exists>m e. \<forall>old. read_float f32 old (stream_at (CHR '' '' #
      fp_fixed 2 (fp_div_nat f32 (fp_of_int f32 (int rate)) 1000) @ rest)) = (FFin False m e, stream_at rest)"
proof -
  have "\<exists>n. n < 100 * 2 ^ 7 \<and> fp_fixed 2 (fp_div_nat f32 (fp_of_int f32 (int rate)) 1000) = dec_fixed 2 n"
  proof (cases "rate = 0")
    case True
    then show ?thesis
      by (simp add: fp_of_int_def fp_div_nat_def fp_round_def fp_fixed_def f32_def rne_def) (rule exI[of _ 0], simp)
  next
    case False
    obtain J where J: "fp_of_int f32 (int rate) = FFin False (rate * 2 ^ J) (- int J)"
      using fp_of_int_exact[of "int rate" 17 f32] False assms(1) by (auto simp: f32_def)
    obtain m K where r: "fp_round f32 False (rate * 2 ^ J) (1000 * 2 ^ J) = FFin False m (- int K)"
      "16 \<le> K" "2 * \<bar>int m * int (1000 * 2 ^ J) - int (rate * 2 ^ J) * 2 ^ K\<bar> \<le> int (1000 * 2 ^ J)"
      using fp_round_small[of "rate * 2 ^ J" "1000 * 2 ^ J" 7 f32 False] False assms(1)
      by (auto simp: f32_def)
    have "int m * int (1000 * 2 ^ J) - int (rate * 2 ^ J) * 2 ^ K = (int m * 1000 - int rate * 2 ^ K) * 2 ^ J"
      by (simp add: algebra_simps)
    with r(3) have "(2 * \<bar>int m * 1000 - int rate * 2 ^ K\<bar>) * 2 ^ J \<le> 1000 * 2 ^ J"
      by (simp add: abs_mult)
    then have "2 * \<bar>int m * 1000 - int rate * 2 ^ K\<bar> \<le> 1000"
      by (simp only: mult_le_cancel_right) simp
    then have "int m * 1000 - int rate * 2 ^ K \<le> 500"
      using abs_half_bound[of "int m * 1000 - int rate * 2 ^ K"] by simp
    moreover have "int rate * 2 ^ K \<le> 65536 * 2 ^ K"
      using assms(1) by (intro mult_right_mono) simp_all
    moreover have "(0 :: int) < 2 ^ K" by simp
    ultimately have m: "int m \<le> 66 * 2 ^ K + 1"
      by (rule bound_from_error)
    define n where "n = rne (m * 100) (2 ^ K)"
    have "2 * \<bar>int n * 2 ^ K - int (m * 100)\<bar> \<le> 2 ^ K"
      using rne_error[of "2 ^ K" "m * 100"] by (simp add: n_def)
    moreover have "(65536 :: int) \<le> 2 ^ K"
      using power_increasing[OF r(2), of "2 :: int"] by simp
    ultimately have "int n * 2 ^ K < 12800 * 2 ^ K"
      using m product_bound[of "int n * 2 ^ K" "int m" "2 ^ K"]
      by (simp only: of_nat_mult of_nat_numeral)
    then have "n < 12800" by simp
    moreover have "fp_div_nat f32 (fp_of_int f32 (int rate)) 1000 = FFin False m (- int K)"
      using r(1) by (simp add: J fp_div_nat_def)
    ultimately show ?thesis
      by (intro exI[of _ n]) (simp add: fp_fixed_def n_def)
  qed
  then obtain n where n: "n < 100 * 2 ^ 7" "fp_fixed 2 (fp_div_nat f32 (fp_of_int f32 (int rate)) 1000) = dec_fixed 2 n"
    by blast
  have "\<exists>m e. fp_round f32 False n (10 ^ 2) = FFin False m e"
  proof (cases "n = 0")
    case False
    with n(1) show ?thesis using fp_round_small[of n "10 ^ 2" 7 f32 False] by (auto simp: f32_def)
  qed (simp add: fp_round_def)
  then obtain m e where me: "fp_round f32 False n (10 ^ 2) = FFin False m e" by blast
  show ?thesis
    using read_float_fixed[OF _ assms(2) me] n(2) by auto
qed

text \<open>the fields of a monitor-mode link message arrive: quality as the complement of the
  clamped packet loss, signal-to-noise ratios and temperature as signed bytes, frequency and channel
  width unless they are zero, and the modulation index.\<close>

theorem wifi_link_arrives:
  fixes s :: snapshot and fr :: frame
  assumes "msgid fr = of_nat stats_monitor_mode_wifi_link_message_id"
  defines "p \<equiv> payload fr" and "t \<equiv> apply_frame s fr"
  shows "rc_quality_percent t = 100 - clamp_int (read_i8 p 32) 0 100 \<and>
    link_snr_antenna1_db t = read_i8 p 38 \<and> link_snr_antenna2_db t = read_i8 p 39 \<and>
    link_txc_temp_c t = read_i8 p 40 \<and> mcs_index t = int (read_u8 p 34) \<and>
    frequency_mhz t = (if read_le 2 p 26 = 0 then frequency_mhz s else int (read_le 2 p 26)) \<and>
    channel_width_mhz t = (if read_u8 p 33 = 0 then channel_width_mhz s else int (read_u8 p 33)) \<and>
    link_stats_valid t"
proof -
  define q where "q = 100 - clamp_int (read_i8 p 32) 0 100"
  have q: "0 \<le> q" "q \<le> 100"
    using clamp_int_range[of 0 100 "read_i8 p 32"] by (simp_all add: q_def)
  have small: "read_le 2 p 26 < 65536" "read_le 2 p 28 < 65536"
    using read_le_bound[of 2 p 26] read_le_bound[of 2 p 28] by simp_all
  have b8: "- 2147483648 \<le> read_i8 p k \<and> read_i8 p k \<le> 2147483647" for k
    using read_i8_bounds[of p k] by linarith
  define tail4 where "tail4 = CHR '' '' # int_str q @ CHR '' '' # int_str (read_i8 p 38)
      @ CHR '' '' # int_str (read_i8 p 39) @ CHR '' '' # int_str (read_i8 p 40) @ []"
  define rate where "rate = fp_fixed 2 (fp_div_nat f32 (fp_of_int f32 (int (read_le 2 p 28))) 1000)"
  have "blank_start tail4" by (simp add: tail4_def)
  then obtain m e where rate: "read_float f32 old (stream_at (CHR '' '' # rate @ tail4))
      = (FFin False m e, stream_at tail4)" for old
    using read_rate[OF small(2), of tail4] unfolding rate_def by blast
  define rest where "rest = CHR '' '' # ''wifi_link'' @ CHR '' '' # nat_str (read_le 2 p 26)
      @ CHR '' '' # nat_str (read_u8 p 33) @ CHR '' '' # nat_str (read_u8 p 34) @ CHR '' '' # rate @ tail4"
  have field: "read_token [] (stream_at rest) = (''wifi_link'', stream_at (CHR '' '' # nat_str (read_le 2 p 26)
      @ CHR '' '' # nat_str (read_u8 p 33) @ CHR '' '' # nat_str (read_u8 p 34) @ CHR '' '' # rate @ tail4))"
    unfolding rest_def by (rule read_token_word) (simp_all add: word_text_def is_space_def)
  have u8: "read_u8 p k < 2147483648" for k
    using read_u8_bound[of p k] by simp
  have "t = s\<lparr>rc_quality_percent := clamp_percent q, link_snr_antenna1_db := read_i8 p 38,
      link_snr_antenna2_db := read_i8 p 39, link_txc_temp_c := read_i8 p 40, link_stats_valid := True,
      frequency_mhz := (if 0 < int (read_le 2 p 26) then int (read_le 2 p 26) else frequency_mhz s),
      channel_width_mhz := (if 0 < int (read_u8 p 33) then int (read_u8 p 33) else channel_width_mhz s),
      mcs_index := int (read_u8 p 34), link_bitrate_mbit := fp_max_zero f32 (FFin False m e)\<rparr>"
    unfolding t_def
  proof (rule apply_frame_one)
    show "decode_frame fr = Some (''mav '' @ ''openhd'' @ rest)"
      using assms(1) by (simp add: decode_frame_def decode_wifi_link_def wire_constants rest_def
          tail4_def rate_def q_def p_def Let_def)
    show "CHR 0x0A \<notin> set rest"
      by (simp add: rest_def tail4_def rate_def)
    have "apply_wifi_link s (snd (read_token [] (stream_at rest))) =
      s\<lparr>rc_quality_percent := clamp_percent q, link_snr_antenna1_db := read_i8 p 38,
      link_snr_antenna2_db := read_i8 p 39, link_txc_temp_c := read_i8 p 40, link_stats_valid := True,
      frequency_mhz := (if 0 < int (read_le 2 p 26) then int (read_le 2 p 26) else frequency_mhz s),
      channel_width_mhz := (if 0 < int (read_u8 p 33) then int (read_u8 p 33) else channel_width_mhz s),
      mcs_index := int (read_u8 p 34), link_bitrate_mbit := fp_max_zero f32 (FFin False m e)\<rparr>"
      using small u8 q b8
      by (simp only: field snd_conv apply_wifi_link_def Let_def split_conv fst_conv read_int_nat_str
          blank_start_simps is_space_blank rate)
         (simp add: tail4_def read_int_int_str read_int_int_str(2)[of "[]", simplified])
    then show "apply_key ''openhd'' s (stream_at rest) = Some (s\<lparr>rc_quality_percent := clamp_percent q,
      link_snr_antenna1_db := read_i8 p 38,
      link_snr_antenna2_db := read_i8 p 39, link_txc_temp_c := read_i8 p 40, link_stats_valid := True,
      frequency_mhz := (if 0 < int (read_le 2 p 26) then int (read_le 2 p 26) else frequency_mhz s),
      channel_width_mhz := (if 0 < int (read_u8 p 33) then int (read_u8 p 33) else channel_width_mhz s),
      mcs_index := int (read_u8 p 34), link_bitrate_mbit := fp_max_zero f32 (FFin False m e)\<rparr>)"
      by (simp add: apply_key_def apply_openhd_def field)
  qed (simp_all add: rest_def word_text_def is_space_def)
  then show ?thesis using q by (simp add: clamp_percent_def q_def)
qed

definition wifi_link_frame :: frame where
  "wifi_link_frame = \<lparr>sysid = 101, compid = 191, msgid = 1211,
     payload = replicate 26 0 @ le_bytes 2 5745 @ le_bytes 2 12000 @ [0, 0, 5, 20, 3, 0, 0, 0, 30, 28, 55]\<rparr>"

theorem wifi_link_arrives_witness:
  "frequency_mhz (apply_frame initial_snapshot wifi_link_frame) = 5745 \<and>
   rc_quality_percent (apply_frame initial_snapshot wifi_link_frame) = 95"
proof -
  have "msgid wifi_link_frame = of_nat stats_monitor_mode_wifi_link_message_id"
    "read_le 2 (payload wifi_link_frame) 26 = 5745" "read_i8 (payload wifi_link_frame) 32 = 5"
    by (simp_all add: wifi_link_frame_def wire_constants read_le_def read_i8_def le_nat_le_bytes)
  then show ?thesis
    using wifi_link_arrives[of wifi_link_frame initial_snapshot] by (simp add: clamp_int_def)
qed

lemma read_last_int:
  assumes "- 2147483648 \<le> i" and "i \<le> 2147483647"
  shows "read_int old (stream_at (CHR '' '' # int_str i)) = (i, stream_at [])"
  using read_int_int_str(2)[OF _ assms, of "[]" old] by simp

lemma read_last_nat: "n < 2147483648 \<Longrightarrow> read_int old (stream_at (CHR '' '' # nat_str n)) = (int n, stream_at [])"
  using read_int_nat_str[of "[]" n old] by simp

text \<open>an OpenHD core status message arrives: the CPU temperature as a signed byte, and the
  platform as the name of the transmitted identifier when it is a known one.\<close>

theorem core_status_arrives:
  fixes s :: snapshot and fr :: frame
  assumes "msgid fr = of_nat core_status_message_id"
  defines "p \<equiv> payload fr" and "t \<equiv> apply_frame s fr"
  shows "link_txc_temp_c t = read_i8 p 14 \<and>
    platform t = (case find_entry platform_ids (int (read_u8 p 18)) of
      Some e \<Rightarrow> entry_name e | None \<Rightarrow> platform s)"
proof -
  define rest where "rest = CHR '' '' # ''core'' @ CHR '' '' # int_str (read_i8 p 14)
      @ CHR '' '' # nat_str (read_u8 p 18)"
  have field: "read_token [] (stream_at rest)
      = (''core'', stream_at (CHR '' '' # int_str (read_i8 p 14) @ CHR '' '' # nat_str (read_u8 p 18)))"
    unfolding rest_def by (rule read_token_word) (simp_all add: word_text_def is_space_def)
  have b8: "- 2147483648 \<le> read_i8 p 14" "read_i8 p 14 \<le> 2147483647" "read_u8 p 18 < 2147483648"
    using read_i8_bounds[of p 14] read_u8_bound[of p 18] by linarith+
  have "t = apply_core s (stream_at (CHR '' '' # int_str (read_i8 p 14) @ CHR '' '' # nat_str (read_u8 p 18)))"
    unfolding t_def
  proof (rule apply_frame_one)
    show "decode_frame fr = Some (''mav '' @ ''openhd'' @ rest)"
      using assms(1) by (simp add: decode_frame_def decode_core_status_def wire_constants rest_def p_def Let_def)
    show "apply_key ''openhd'' s (stream_at rest) = Some (apply_core s (stream_at (CHR '' '' #
        int_str (read_i8 p 14) @ CHR '' '' # nat_str (read_u8 p 18))))"
      by (simp add: apply_key_def apply_openhd_def field)
  qed (simp_all add: rest_def word_text_def is_space_def)
  then show ?thesis
    using b8 by (simp add: apply_core_def read_int_int_str read_last_nat)
qed

definition core_frame :: frame where
  "core_frame = \<lparr>sysid = 101, compid = 191, msgid = 1227, payload = replicate 14 0 @ [61, 0, 0, 0, 0]\<rparr>"

theorem core_status_arrives_witness: "link_txc_temp_c (apply_frame initial_snapshot core_frame) = 61"
proof -
  have "msgid core_frame = of_nat core_status_message_id" "read_i8 (payload core_frame) 14 = 61"
    by (simp_all add: core_frame_def wire_constants read_le_def read_i8_def le_nat_le_bytes)
  then show ?thesis
    using core_status_arrives[of core_frame initial_snapshot] by simp
qed

text \<open>an \<open>RC_CHANNELS\<close> frame's first four channels arrive in the snapshot in order, as unsigned
  16-bit values.\<close>

theorem rc_channels_arrive:
  assumes "msgid fr = 65" and "length (rc_channels s) = 4"
  shows "rc_channels (apply_frame s fr) = map (\<lambda>i. int (read_le 2 (payload fr) i)) [4, 6, 8, 10]"
proof -
  define p where "p = payload fr"
  obtain a b c d where ch: "rc_channels s = [a, b, c, d]"
    using assms(2) by (auto simp: numeral_eq_Suc length_Suc_conv)
  have u16: "read_le 2 p i < 2147483648" for i
    using read_le_bound[of 2 p i] by simp
  define rest where "rest = concat (map (\<lambda>i. CHR '' '' # nat_str (read_le 2 p i)) [4, 6, 8, 10])"
  have "apply_frame s fr = apply_rc s (stream_at rest)"
  proof (rule apply_frame_one)
    show "decode_frame fr = Some (''mav '' @ ''rc'' @ rest)"
      using assms(1) by (simp add: decode_frame_def decode_rc_channels_def rest_def p_def Let_def)
    show "apply_key ''rc'' s (stream_at rest) = Some (apply_rc s (stream_at rest))"
      by (simp add: apply_key_def)
  qed (simp_all add: rest_def word_text_def is_space_def)
  then show ?thesis
    by (simp add: apply_rc_def ch rest_def read_int_nat_str read_last_nat u16 flip: p_def)
qed

definition rc_frame :: frame where
  "rc_frame = \<lparr>sysid = 1, compid = 1, msgid = 65,
     payload = replicate 4 0 @ le_bytes 2 1500 @ le_bytes 2 1100 @ le_bytes 2 1900 @ le_bytes 2 1000\<rparr>"

theorem rc_channels_arrive_witness:
  "rc_channels (apply_frame initial_snapshot rc_frame) = [1500, 1100, 1900, 1000]"
proof -
  have "msgid rc_frame = 65" "length (rc_channels initial_snapshot) = 4"
    "map (read_le 2 (payload rc_frame)) [4, 6, 8, 10] = [1500, 1100, 1900, 1000]"
    by (simp_all add: rc_frame_def initial_snapshot_def read_le_def le_nat_le_bytes)
  then show ?thesis
    using rc_channels_arrive[of rc_frame initial_snapshot] by simp
qed

lemma mode_no_newline: "CHR 0x0A \<notin> set (mode_from_heartbeat bm cm)"
  by (simp add: mode_from_heartbeat_def)

lemma stream_token_end: "word_text w \<Longrightarrow> read_token old (stream_at (CHR '' '' # w)) = (w, stream_at [])"
  using read_token_word(2)[of w "[]" old] by simp

text \<open>The heartbeat of a flight controller sets, through the lines the bridge returns for it, the
  armed flag to bit 7 of the base mode, the flight mode to its text and the controller alive, and
  the bridge addresses that controller from then on.\<close>

theorem flight_controller_heartbeat_arrives:
  fixes s :: snapshot and fr :: frame and b :: bridge
  assumes "msgid fr = 0" and "sysid fr \<notin> {system_id_ground, system_id_air}"
    and "is_vehicle (read_u8 (payload fr) 5) (read_u8 (payload fr) 4)"
  defines "t \<equiv> apply_lines s (fst (take_frame fr b))"
    and "mode \<equiv> mode_from_heartbeat (read_u8 (payload fr) 6) (read_le 4 (payload fr) 0)"
  shows "armed t = ((of_nat (read_u8 (payload fr) 6) :: u8) AND 0x80 \<noteq> 0) \<and>
    flight_mode t = mode \<and> fc_alive t \<and>
    fc_system_id (snd (take_frame fr b)) = sysid fr \<and> fc_component_id (snd (take_frame fr b)) = compid fr"
proof -
  define up where "up = ((of_nat (read_u8 (payload fr) 6) :: u8) AND 0x80 \<noteq> 0)"
  have "decode_frame fr = Some ''mav alive fc 1''"
    using assms(1-3) by (simp add: decode_frame_def decode_heartbeat_def Let_def)
  then have "decoded_lines fr = [''mav alive fc 1'']"
    using split_lines_one[of "''mav alive fc 1''"] by (simp add: decoded_lines_def)
  then have lines: "take_frame fr b = ([''mav '' @ ''armed'' @ CHR '' '' # int_str (if up then 1 else 0),
      ''mav '' @ ''mode'' @ CHR '' '' # mode, ''mav '' @ ''alive'' @ CHR '' '' # ''fc'' @ CHR '' '' # int_str 1],
      b\<lparr>fc_system_id := sysid fr, fc_component_id := compid fr\<rparr>)"
    using assms(1-3) by (simp add: take_frame_def note_heartbeat_def up_def mode_def int_str_def
        nat_str.simps digit_char_def char_of_def bit_0 Let_def)
  have w: "word_text ''armed''" "word_text ''mode''" "word_text ''alive''" "word_text ''fc''"
    by (simp_all add: word_text_def is_space_def)
  have "t = s\<lparr>armed := up, flight_mode := mode, fc_alive := True\<rparr>"
    unfolding t_def lines apply_lines_def
    using w by (simp add: apply_line_key apply_key_def apply_armed_def apply_mode_def apply_alive_def
        read_last_int rest_after_blank mode_no_newline mode_def read_token_word(2)
        del: append_Cons append.simps)
  then show ?thesis using lines by (simp add: up_def)
qed

definition heartbeat_frame :: frame where
  "heartbeat_frame = \<lparr>sysid = 1, compid = 1, msgid = 0, payload = [4, 0, 0, 0, 2, 3, 0x81, 4, 3]\<rparr>"

theorem flight_controller_heartbeat_arrives_witness:
  "armed (apply_lines initial_snapshot (fst (take_frame heartbeat_frame new_bridge)))"
proof -
  have "msgid heartbeat_frame = 0" "sysid heartbeat_frame \<notin> {system_id_ground, system_id_air}"
    "is_vehicle (read_u8 (payload heartbeat_frame) 5) (read_u8 (payload heartbeat_frame) 4)"
    "(of_nat (read_u8 (payload heartbeat_frame) 6) :: u8) AND 0x80 \<noteq> 0"
    by (simp_all add: heartbeat_frame_def system_id_ground_def system_id_air_def is_vehicle_def
        read_u8_def read_le_def)
  then show ?thesis
    using flight_controller_heartbeat_arrives[of heartbeat_frame initial_snapshot new_bridge] by simp
qed

end
