(* ===== verification/Ipc.thy ===== *)
theory Ipc
  imports Glide_Prelude Cpp_Text
begin

text \<open>
  \<open>src/common/ipc.cpp\<close>: the line protocol between the processes. \<open>drain_lines\<close>, the class
  \<open>Client\<close> and the class \<open>Server\<close> (Linux branch). The kernel's answers (\<open>socket\<close>, \<open>connect\<close>,
  \<open>accept\<close>, \<open>recv\<close>, \<open>send\<close>) are arguments; the ghost fields \<open>cl_closed\<close>, \<open>closed_fds\<close>,
  \<open>sent\<close> and \<open>names\<close> record the descriptors closed, what was sent, and the socket names that exist
  in the file system. The lemmas give the independence of \<open>drain_lines\<close> from how the stream was cut
  (an interpretation of \<open>incremental_reader\<close>), the round trip of lines, and the invariant of the
  server's client table.
\<close>

section \<open>Lines\<close>

definition newline :: char where "newline = CHR 0x0A"

definition strip_cr :: "string \<Rightarrow> string" where
  "strip_cr l = (if l \<noteq> [] \<and> last l = CHR 0x0D then butlast l else l)"

function drain_lines :: "string \<Rightarrow> string list \<times> string" where
  "drain_lines buffer =
     (if newline \<notin> set buffer then ([], buffer)
      else let l = takeWhile (\<lambda>c. c \<noteq> newline) buffer;
               (lines, left) = drain_lines (tl (dropWhile (\<lambda>c. c \<noteq> newline) buffer))
           in (strip_cr l # lines, left))"
  by pat_completeness auto
termination
proof (relation "measure length")
  fix buffer :: string
  assume "\<not> newline \<notin> set buffer"
  then have "dropWhile (\<lambda>c. c \<noteq> newline) buffer \<noteq> []" by (simp add: dropWhile_eq_Nil_conv)
  then have "length (tl (dropWhile (\<lambda>c. c \<noteq> newline) buffer)) < length (dropWhile (\<lambda>c. c \<noteq> newline) buffer)"
    by (cases "dropWhile (\<lambda>c. c \<noteq> newline) buffer") auto
  also have "\<dots> \<le> length buffer" by (rule length_dropWhile_le)
  finally show "(tl (dropWhile (\<lambda>c. c \<noteq> newline) buffer), buffer) \<in> measure length" by simp
qed simp

declare drain_lines.simps [simp del]

section \<open>Client\<close>

text \<open>An answer of \<open>recv\<close>: data (no data is the end of the stream) or an error such as EAGAIN.\<close>

datatype recv_answer = Data string | Recv_error

text \<open>The loop of \<open>recv\<close> calls: the buffer with all data appended, and whether the end was seen.\<close>

fun recv_all :: "recv_answer list \<Rightarrow> string \<Rightarrow> string \<times> bool" where
  "recv_all [] buffer = (buffer, False)"
| "recv_all (Recv_error # as) buffer = (buffer, False)"
| "recv_all (Data d # as) buffer = (if d = [] then (buffer, True) else recv_all as (buffer @ d))"

record client =
  cl_fd :: int
  cl_buffer :: string
  cl_closed :: "int list"

definition new_client :: client where
  "new_client = \<lparr>cl_fd = - 1, cl_buffer = [], cl_closed = []\<rparr>"

definition client_connected :: "client \<Rightarrow> bool" where
  "client_connected c \<longleftrightarrow> 0 \<le> cl_fd c"

definition client_close :: "client \<Rightarrow> client" where
  "client_close c =
     (if 0 \<le> cl_fd c then c\<lparr>cl_fd := - 1, cl_closed := cl_closed c @ [cl_fd c]\<rparr> else c)"

definition client_connect_to :: "int \<Rightarrow> bool \<Rightarrow> client \<Rightarrow> bool \<times> client" where
  "client_connect_to sock connect_ok c =
     (let c1 = (client_close c)\<lparr>cl_fd := sock\<rparr> in
      if sock < 0 then (False, c1)
      else if \<not> connect_ok then (False, client_close c1)
      else (True, c1))"

definition line_payload :: "string \<Rightarrow> string" where
  "line_payload l = l @ [newline]"

text \<open>\<open>send_line\<close>: the result, and what is handed to \<open>send\<close> when it is called.\<close>

definition client_send_line :: "(string \<Rightarrow> int) \<Rightarrow> string \<Rightarrow> client \<Rightarrow> bool \<times> string option" where
  "client_send_line snd_result l c =
     (if cl_fd c < 0 then (False, None)
      else (snd_result (line_payload l) = int (length (line_payload l)), Some (line_payload l)))"

definition client_poll_lines :: "recv_answer list \<Rightarrow> client \<Rightarrow> string list \<times> client" where
  "client_poll_lines as c =
     (if cl_fd c < 0 then ([], c)
      else let (buffer, eof) = recv_all as (cl_buffer c);
               c1 = (if eof then client_close c else c);
               (lines, left) = drain_lines buffer
           in (lines, c1\<lparr>cl_buffer := left\<rparr>))"

section \<open>Server\<close>

record client_state =
  cs_id :: int
  cs_fd :: int
  cs_buffer :: string

record server =
  listen_fd :: int
  next_client_id :: int
  path :: string
  srv_error :: string
  clients :: "client_state list"
  closed_fds :: "int list"
  sent :: "(int \<times> string) list"
  names :: "string set"

definition new_server :: server where
  "new_server = \<lparr>listen_fd = - 1, next_client_id = 1, path = [], srv_error = [], clients = [],
     closed_fds = [], sent = [], names = {}\<rparr>"

definition server_close :: "server \<Rightarrow> server" where
  "server_close s =
     s\<lparr>clients := [], listen_fd := (if 0 \<le> listen_fd s then - 1 else listen_fd s),
       closed_fds := closed_fds s @ map cs_fd (clients s)
         @ (if 0 \<le> listen_fd s then [listen_fd s] else []),
       names := (if path s \<noteq> [] then names s - {c_str (path s)} else names s)\<rparr>"

text \<open>The name in a \<open>sockaddr_un\<close>: at most 107 characters.\<close>

definition socket_name :: "string \<Rightarrow> string" where
  "socket_name p = take 107 (c_str p)"

record listen_answers =
  ls_socket :: int
  ls_bind_ok :: bool
  ls_listen_ok :: bool
  ls_error :: string

definition listen_on :: "listen_answers \<Rightarrow> string \<Rightarrow> server \<Rightarrow> bool \<times> server" where
  "listen_on env p s =
     (let s1 = (server_close s)\<lparr>path := p, listen_fd := ls_socket env\<rparr> in
      if ls_socket env < 0 then (False, s1\<lparr>srv_error := ls_error env\<rparr>)
      else let s2 = s1\<lparr>names := names s1 - {c_str p}\<rparr> in
      if \<not> ls_bind_ok env \<or> socket_name p \<in> names s2
      then (False, server_close (s2\<lparr>srv_error := ls_error env\<rparr>))
      else let s3 = s2\<lparr>names := insert (socket_name p) (names s2)\<rparr> in
      if \<not> ls_listen_ok env then (False, server_close (s3\<lparr>srv_error := ls_error env\<rparr>))
      else (True, s3))"

fun accept_clients :: "int list \<Rightarrow> server \<Rightarrow> server" where
  "accept_clients [] s = s"
| "accept_clients (f # fs) s =
     (if f < 0 then s
      else accept_clients fs (s\<lparr>next_client_id := next_client_id s + 1,
             clients := clients s @ [\<lparr>cs_id = next_client_id s, cs_fd = f, cs_buffer = []\<rparr>]\<rparr>))"

text \<open>One client: its events, its state after, and whether the end of its stream was seen.\<close>

definition serve_client ::
  "(int \<Rightarrow> recv_answer list) \<Rightarrow> client_state \<Rightarrow> (int \<times> string) list \<times> client_state \<times> bool" where
  "serve_client env c =
     (let (buffer, eof) = recv_all (env (cs_fd c)) (cs_buffer c); (lines, left) = drain_lines buffer
      in (map (\<lambda>l. (cs_id c, l)) lines, c\<lparr>cs_buffer := left\<rparr>, eof))"

definition reap :: "server \<Rightarrow> int \<Rightarrow> server" where
  "reap s i =
     s\<lparr>clients := filter (\<lambda>c. cs_id c \<noteq> i) (clients s),
       closed_fds := closed_fds s @ map cs_fd (filter (\<lambda>c. cs_id c = i) (clients s))\<rparr>"

definition server_poll ::
  "int list \<Rightarrow> (int \<Rightarrow> recv_answer list) \<Rightarrow> server \<Rightarrow> (int \<times> string) list \<times> server" where
  "server_poll accepted env s =
     (if listen_fd s < 0 then ([], s)
      else let s1 = accept_clients accepted s;
               served = map (serve_client env) (clients s1);
               s2 = s1\<lparr>clients := map (\<lambda>(_, c, _). c) served\<rparr>;
               dead = map (\<lambda>(_, c, _). cs_id c) (filter (\<lambda>(_, _, eof). eof) served)
           in (concat (map (\<lambda>(ev, _, _). ev) served), foldl reap s2 dead))"

definition server_send_line :: "(int \<Rightarrow> string \<Rightarrow> int) \<Rightarrow> int \<Rightarrow> string \<Rightarrow> server \<Rightarrow> bool \<times> server" where
  "server_send_line snd_result i l s =
     (case List.find (\<lambda>c. cs_id c = i) (clients s) of
        None \<Rightarrow> (False, s)
      | Some c \<Rightarrow>
          (snd_result (cs_fd c) (line_payload l) = int (length (line_payload l)),
           s\<lparr>sent := sent s @ [(cs_fd c, line_payload l)]\<rparr>))"

definition broadcast_line :: "(int \<Rightarrow> string \<Rightarrow> int) \<Rightarrow> string \<Rightarrow> server \<Rightarrow> server" where
  "broadcast_line snd_result l s =
     foldl (\<lambda>t c. snd (server_send_line snd_result (cs_id c) l t)) s (clients s)"

section \<open>Draining\<close>

lemma drain_lines_none: "newline \<notin> set b \<Longrightarrow> drain_lines b = ([], b)"
  by (simp add: drain_lines.simps)

lemma drain_lines_line:
  assumes "newline \<notin> set l"
  shows "drain_lines (l @ newline # b) = (strip_cr l # fst (drain_lines b), snd (drain_lines b))"
proof -
  have "takeWhile (\<lambda>c. c \<noteq> newline) (l @ newline # b) = l"
    by (rule takeWhile_append_stop) (use assms in auto)
  moreover have "dropWhile (\<lambda>c. c \<noteq> newline) (l @ newline # b) = newline # b"
    by (rule dropWhile_append_stop) (use assms in auto)
  ultimately show ?thesis
    by (subst drain_lines.simps) (simp add: split_def Let_def)
qed

lemma first_line:
  assumes "newline \<in> set b"
  obtains l r where "b = l @ newline # r" and "newline \<notin> set l"
  using split_list_first[OF assms] by blast

lemma drain_lines_left: "newline \<notin> set (snd (drain_lines b))"
proof (induction b rule: length_induct)
  case (1 b)
  show ?case
  proof (cases "newline \<in> set b")
    case True
    then obtain l r where "b = l @ newline # r" "newline \<notin> set l" by (rule first_line)
    with 1 show ?thesis by (simp add: drain_lines_line)
  qed (simp add: drain_lines_none)
qed

lemma drain_lines_append:
  "drain_lines (xs @ ys) =
     (let (ls, left) = drain_lines xs; (ls', left') = drain_lines (left @ ys) in (ls @ ls', left'))"
proof (induction xs rule: length_induct)
  case (1 xs)
  show ?case
  proof (cases "newline \<in> set xs")
    case True
    then obtain l r where xs: "xs = l @ newline # r" "newline \<notin> set l" by (rule first_line)
    with 1 have "drain_lines (r @ ys) =
      (let (ls, left) = drain_lines r; (ls', left') = drain_lines (left @ ys) in (ls @ ls', left'))"
      by simp
    with xs show ?thesis by (simp add: drain_lines_line split_def Let_def)
  qed (simp add: drain_lines_none split_def Let_def)
qed

interpretation line_reader: incremental_reader drain_lines
  by unfold_locales (rule drain_lines_append)

lemmas [framing] = drain_lines_append drain_lines_left

definition plain_line :: "string \<Rightarrow> bool" where
  "plain_line l \<longleftrightarrow> newline \<notin> set l \<and> (l = [] \<or> last l \<noteq> CHR 0x0D)"

lemma strip_cr_plain: "plain_line l \<Longrightarrow> strip_cr l = l"
  by (auto simp: plain_line_def strip_cr_def)

lemma drain_payloads:
  "\<forall>l \<in> set ls. plain_line l \<Longrightarrow> drain_lines (concat (map line_payload ls) @ b) = (ls @ fst (drain_lines b), snd (drain_lines b))"
  by (induction ls) (auto simp: line_payload_def drain_lines_line strip_cr_plain plain_line_def)

lemma recv_all_data:
  "\<forall>d \<in> set ds. d \<noteq> [] \<Longrightarrow> recv_all (map Data ds) buffer = (buffer @ concat ds, False)"
  by (induction ds arbitrary: buffer) auto

section \<open>Several polls\<close>

fun client_polls :: "recv_answer list list \<Rightarrow> client \<Rightarrow> string list \<times> client" where
  "client_polls [] c = ([], c)"
| "client_polls (as # rounds) c =
     (let (ls, c1) = client_poll_lines as c; (ls', c2) = client_polls rounds c1 in (ls @ ls', c2))"

lemma client_poll_data:
  assumes "0 \<le> cl_fd c" and "\<forall>d \<in> set ds. d \<noteq> []"
  shows "client_poll_lines (map Data ds) c =
    (fst (drain_lines (cl_buffer c @ concat ds)), c\<lparr>cl_buffer := snd (drain_lines (cl_buffer c @ concat ds))\<rparr>)"
  using assms by (simp add: client_poll_lines_def recv_all_data split_def Let_def)

lemma client_polls_feed:
  assumes "0 \<le> cl_fd c" and "\<forall>ds \<in> set rounds. \<forall>d \<in> set ds. d \<noteq> []"
  shows "client_polls (map (map Data) rounds) c =
    (fst (line_reader.feed (cl_buffer c) (map concat rounds)),
     c\<lparr>cl_buffer := snd (line_reader.feed (cl_buffer c) (map concat rounds))\<rparr>)"
  using assms
proof (induction rounds arbitrary: c)
  case (Cons ds rounds)
  then show ?case
    using Cons.IH[of "c\<lparr>cl_buffer := snd (drain_lines (cl_buffer c @ concat ds))\<rparr>"]
    by (simp add: client_poll_data line_reader.feed_Cons split_def Let_def)
qed simp

section \<open>The client table\<close>

definition server_ok :: "server \<Rightarrow> bool" where
  "server_ok s \<longleftrightarrow>
     distinct (map cs_id (clients s)) \<and> distinct (map cs_fd (clients s)) \<and>
     (\<forall>c \<in> set (clients s). 1 \<le> cs_id c \<and> cs_id c < next_client_id s \<and> 0 \<le> cs_fd c \<and>
        newline \<notin> set (cs_buffer c)) \<and>
     1 \<le> next_client_id s"

lemma server_ok_new: "server_ok new_server"
  by (simp add: server_ok_def new_server_def)

lemma server_close_ok: "server_ok s \<Longrightarrow> server_ok (server_close s)"
  by (simp add: server_ok_def server_close_def)

lemma server_ok_cong:
  "clients t = clients s \<Longrightarrow> next_client_id t = next_client_id s \<Longrightarrow> server_ok t \<longleftrightarrow> server_ok s"
  by (simp add: server_ok_def)

lemma listen_on_ok: "server_ok s \<Longrightarrow> server_ok (snd (listen_on env p s))"
  using server_close_ok[of s] by (simp add: listen_on_def Let_def server_ok_def server_close_def)

text \<open>The kernel's law: a descriptor it gives is not one that is open.\<close>

definition fresh_fds :: "int list \<Rightarrow> server \<Rightarrow> bool" where
  "fresh_fds fs s \<longleftrightarrow> distinct fs \<and> set fs \<inter> set (map cs_fd (clients s)) = {}"

lemma accept_clients_ok:
  "server_ok s \<Longrightarrow> fresh_fds fs s \<Longrightarrow> server_ok (accept_clients fs s)"
proof (induction fs s rule: accept_clients.induct)
  case (2 f fs s)
  show ?case
  proof (cases "f < 0")
    case False
    define t where "t = s\<lparr>next_client_id := next_client_id s + 1,
        clients := clients s @ [\<lparr>cs_id = next_client_id s, cs_fd = f, cs_buffer = []\<rparr>]\<rparr>"
    have "server_ok t" "fresh_fds fs t"
      using 2(2,3) False by (fastforce simp: t_def server_ok_def fresh_fds_def)+
    with 2(1)[OF False] False show ?thesis by (simp add: t_def)
  qed (use 2 in simp)
qed simp

lemma serve_client_simps:
  "cs_id (fst (snd (serve_client env c))) = cs_id c"
  "cs_fd (fst (snd (serve_client env c))) = cs_fd c"
  "newline \<notin> set (cs_buffer (fst (snd (serve_client env c))))"
  "\<forall>e \<in> set (fst (serve_client env c)). fst e = cs_id c"
  using drain_lines_left[of "fst (recv_all (env (cs_fd c)) (cs_buffer c))"]
  by (auto simp: serve_client_def split_def Let_def)

lemma foldl_reap:
  "clients (foldl reap s dead) = filter (\<lambda>c. cs_id c \<notin> set dead) (clients s)"
  "next_client_id (foldl reap s dead) = next_client_id s"
  by (induction dead arbitrary: s) (simp_all add: reap_def conj_commute)

lemma distinct_map_filter': "distinct (map f xs) \<Longrightarrow> distinct (map f (filter P xs))"
  by (induction xs) auto

lemma server_poll_ok:
  assumes "server_ok s" and "fresh_fds accepted s"
  shows "server_ok (snd (server_poll accepted env s))"
proof (cases "listen_fd s < 0")
  case False
  define t where "t = accept_clients accepted s"
  define served where "served = map (\<lambda>c. fst (snd (serve_client env c))) (clients t)"
  have t: "server_ok t" unfolding t_def by (rule accept_clients_ok[OF assms])
  have ids: "map cs_id served = map cs_id (clients t)" "map cs_fd served = map cs_fd (clients t)"
    by (simp_all add: served_def serve_client_simps o_def)
  have "server_ok (t\<lparr>clients := served\<rparr>)"
    using t by (auto simp: server_ok_def ids) (auto simp: served_def serve_client_simps)
  then have "server_ok (foldl reap (t\<lparr>clients := served\<rparr>) dead)" for dead
    by (simp add: server_ok_def foldl_reap distinct_map_filter')
  with False show ?thesis
    by (simp add: server_poll_def served_def split_def Let_def o_def flip: t_def)
qed (use assms in \<open>simp add: server_poll_def\<close>)

lemma server_send_line_ok: "server_ok s \<Longrightarrow> server_ok (snd (server_send_line env i l s))"
  by (simp add: server_send_line_def server_ok_def split: option.splits)

lemma find_client:
  "distinct (map cs_id cs) \<Longrightarrow> c \<in> set cs \<Longrightarrow> List.find (\<lambda>d. cs_id d = cs_id c) cs = Some c"
  by (induction cs) force+

lemma send_to_clients:
  assumes "server_ok s" and "set cs \<subseteq> set (clients s)" and "clients t = clients s"
  shows "foldl (\<lambda>t c. snd (server_send_line env (cs_id c) l t)) t cs
         = t\<lparr>sent := sent t @ map (\<lambda>c. (cs_fd c, line_payload l)) cs\<rparr>"
  using assms(2,3)
proof (induction cs arbitrary: t)
  case (Cons c cs)
  have "List.find (\<lambda>d. cs_id d = cs_id c) (clients t) = Some c"
    using Cons.prems assms(1) by (intro find_client) (auto simp: server_ok_def)
  with Cons show ?case by (simp add: server_send_line_def)
qed simp

lemma broadcast_line_sends:
  "server_ok s \<Longrightarrow> broadcast_line env l s
     = s\<lparr>sent := sent s @ map (\<lambda>c. (cs_fd c, line_payload l)) (clients s)\<rparr>"
  unfolding broadcast_line_def by (rule send_to_clients) simp_all

section \<open>Reachable states\<close>

text \<open>The states a server can be in, with a kernel that gives fresh descriptors.\<close>

inductive server_reachable :: "server \<Rightarrow> bool" where
  server_new: "server_reachable new_server"
| server_listen: "server_reachable s \<Longrightarrow> server_reachable (snd (listen_on env p s))"
| server_poll: "server_reachable s \<Longrightarrow> fresh_fds accepted s \<Longrightarrow>
    server_reachable (snd (server_poll accepted recvs s))"
| server_send: "server_reachable s \<Longrightarrow> server_reachable (snd (server_send_line sends i l s))"
| server_broadcast: "server_reachable s \<Longrightarrow> server_reachable (broadcast_line sends l s)"
| server_shut: "server_reachable s \<Longrightarrow> server_reachable (server_close s)"

lemma reachable_server_ok: "server_reachable s \<Longrightarrow> server_ok s"
  by (induction rule: server_reachable.induct)
     (simp_all add: server_ok_new listen_on_ok server_poll_ok server_send_line_ok
      server_close_ok broadcast_line_sends, simp add: server_ok_def)

text \<open>A listening server to apply the properties to.\<close>

definition listening :: server where
  "listening = snd (listen_on \<lparr>ls_socket = 3, ls_bind_ok = True, ls_listen_ok = True, ls_error = []\<rparr> ''/g'' new_server)"

lemma listening_reachable: "server_reachable listening"
  unfolding listening_def by (intro server_listen server_new)

lemma listening_eq: "listening = new_server\<lparr>listen_fd := 3, path := ''/g'', names := {''/g''}\<rparr>"
  by (simp add: listening_def listen_on_def server_close_def new_server_def socket_name_def c_str_def)

section \<open>Properties\<close>

text \<open>C27: lines sent one after the other arrive as they were sent, in order, each once, however the
  byte stream is cut into reads and the reads are spread over polls, and nothing is left over.\<close>

theorem lines_arrive:
  assumes "client_connected c" and "cl_buffer c = []" and "\<forall>l \<in> set ls. plain_line l"
    and "\<forall>ds \<in> set rounds. \<forall>d \<in> set ds. d \<noteq> []"
    and "concat (map concat rounds) = concat (map line_payload ls)"
  shows "client_polls (map (map Data) rounds) c = (ls, c)"
proof -
  define f where "f = line_reader.feed [] (map concat rounds)"
  have "drain_lines (concat (map concat rounds)) = (ls, [])"
    using drain_payloads[OF assms(3), of "[]"] assms(5) by (simp add: drain_lines_none)
  moreover have "drain_lines (concat (map concat rounds))
      = (let (items, rest) = f; (items', rest') = drain_lines rest in (items @ items', rest'))"
    using line_reader.feed_concat[of "[]" "map concat rounds"] by (simp add: f_def)
  moreover have "newline \<notin> set (snd f)"
  proof -
    have "newline \<notin> set b \<Longrightarrow> newline \<notin> set (snd (line_reader.feed b chunks))" for b chunks
    proof (induction chunks arbitrary: b)
      case (Cons d chunks)
      then show ?case using drain_lines_left by (simp add: line_reader.feed_Cons split_def Let_def)
    qed simp
    then show ?thesis by (simp add: f_def)
  qed
  ultimately have "f = (ls, [])"
    by (simp add: split_def Let_def drain_lines_none prod_eq_iff)
  moreover have "c\<lparr>cl_buffer := []\<rparr> = c" using assms(2) by (cases c) simp
  ultimately show ?thesis
    using client_polls_feed[OF _ assms(4)] assms(1,2) by (simp add: client_connected_def f_def)
qed

theorem lines_arrive_witness:
  "client_polls (map (map Data) [[''a'', ''b''], [''c'' @ [newline], ''d'' @ [newline]]]) (new_client\<lparr>cl_fd := 4\<rparr>)
   = ([''abc'', ''d''], new_client\<lparr>cl_fd := 4\<rparr>)"
  by (rule lines_arrive)
     (simp_all add: client_connected_def new_client_def plain_line_def line_payload_def newline_def)

text \<open>In every reachable state client identifiers are distinct, positive and below the next one,
  so no identifier is given twice; descriptors are distinct; and no buffer holds a whole line.\<close>

theorem server_table_ok:
  assumes "server_reachable s"
  shows "server_ok s"
  using assms by (rule reachable_server_ok)

theorem server_table_ok_witness:
  "server_ok (snd (server_poll [5, 6] (\<lambda>f. [Data ''x'']) listening))"
  by (rule server_table_ok, rule server_poll[OF listening_reachable])
     (simp add: fresh_fds_def listening_eq new_server_def)

text \<open>a broadcast sends the line to every connected client, once each, in the order they
  connected.\<close>

theorem broadcast_reaches_each_client:
  assumes "server_reachable s"
  shows "sent (broadcast_line sends l s) = sent s @ map (\<lambda>c. (cs_fd c, line_payload l)) (clients s)"
  by (simp add: broadcast_line_sends[OF reachable_server_ok[OF assms]])

theorem broadcast_reaches_each_client_witness:
  "sent (broadcast_line (\<lambda>_ l. int (length l)) ''hi'' (snd (server_poll [5, 6] (\<lambda>_. [Recv_error]) listening)))
   = [(5, ''hi'' @ [newline]), (6, ''hi'' @ [newline])]"
proof -
  have "server_reachable (snd (server_poll [5, 6] (\<lambda>_. [Recv_error]) listening))"
    by (rule server_poll[OF listening_reachable]) (simp add: fresh_fds_def listening_eq new_server_def)
  from broadcast_reaches_each_client[OF this, of "\<lambda>_ l. int (length l)" "''hi''"] show ?thesis
    by (simp add: server_poll_def listening_eq new_server_def serve_client_def drain_lines_none line_payload_def)
qed

text \<open>A poll of a listening server keeps exactly the clients, old and new, whose streams have not
  ended, and closes the descriptors of the others.\<close>

theorem poll_reaps_ended_clients:
  fixes env :: "int \<Rightarrow> recv_answer list"
  assumes "server_reachable s" and "fresh_fds accepted s" and "0 \<le> listen_fd s"
  defines "t \<equiv> accept_clients accepted s" and "u \<equiv> snd (server_poll accepted env s)"
  shows "map cs_id (clients u) = map cs_id (filter (\<lambda>c. \<not> snd (recv_all (env (cs_fd c)) (cs_buffer c))) (clients t)) \<and>
    set (closed_fds u) = set (closed_fds t) \<union>
      cs_fd ` {c \<in> set (clients t). snd (recv_all (env (cs_fd c)) (cs_buffer c))}"
proof -
  have ok: "server_ok t"
    unfolding t_def using reachable_server_ok[OF assms(1)] assms(2) by (rule accept_clients_ok)
  define served where "served = map (\<lambda>c. fst (snd (serve_client env c))) (clients t)"
  define dead where "dead = map cs_id (filter (\<lambda>c. snd (recv_all (env (cs_fd c)) (cs_buffer c))) (clients t))"
  have u: "u = foldl reap (t\<lparr>clients := served\<rparr>) dead"
    using assms(3) by (simp add: u_def server_poll_def served_def dead_def t_def split_def Let_def o_def
        filter_map serve_client_simps) (simp add: serve_client_def split_def Let_def)
  have dead_iff: "cs_id c \<in> set dead \<longleftrightarrow> snd (recv_all (env (cs_fd c)) (cs_buffer c))"
    if "c \<in> set (clients t)" for c
    using that ok by (auto simp: dead_def server_ok_def distinct_map dest: inj_onD)
  have "map cs_id (clients u) = map cs_id (filter (\<lambda>c. \<not> snd (recv_all (env (cs_fd c)) (cs_buffer c))) (clients t))"
    by (simp add: u foldl_reap served_def filter_map o_def serve_client_simps dead_iff cong: filter_cong)
  moreover have "set (closed_fds (foldl reap v ds))
      = set (closed_fds v) \<union> cs_fd ` {c \<in> set (clients v). cs_id c \<in> set ds}" for v ds
    by (induction ds arbitrary: v) (auto simp: reap_def)
  moreover have "cs_fd ` {c \<in> set served. cs_id c \<in> set dead}
      = cs_fd ` {c \<in> set (clients t). snd (recv_all (env (cs_fd c)) (cs_buffer c))}"
    unfolding served_def by (force simp: serve_client_simps dead_iff image_iff)
  ultimately show ?thesis by (simp add: u)
qed

theorem poll_reaps_ended_clients_witness:
  "map cs_id (clients (snd (server_poll [5, 6] (\<lambda>f. if f = 5 then [Data []] else [])
     (snd (listen_on \<lparr>ls_socket = 3, ls_bind_ok = True, ls_listen_ok = True, ls_error = []\<rparr> ''/s'' new_server))))) = [2]"
  using poll_reaps_ended_clients[OF server_listen[OF server_new], of "[5, 6]"
      "\<lparr>ls_socket = 3, ls_bind_ok = True, ls_listen_ok = True, ls_error = []\<rparr>" "''/s''"
      "\<lambda>f. if f = 5 then [Data []] else []"]
  by (simp add: listen_on_def server_close_def new_server_def socket_name_def c_str_def fresh_fds_def Let_def)

text \<open>closing the server removes the socket name it listens on, when the path fits the address
  (107 characters), and closes every descriptor it holds.\<close>

theorem close_removes_name:
  assumes "listen_on env p s = (True, t)" and "length p \<le> 107" and "p \<noteq> []"
  shows "socket_name p \<in> names t \<and> socket_name p \<notin> names (server_close t) \<and>
    listen_fd t \<in> set (closed_fds (server_close t)) \<and>
    (\<forall>c \<in> set (clients u). cs_fd c \<in> set (closed_fds (server_close u)))"
proof -
  have "length (c_str p) \<le> 107"
    using assms(2) length_takeWhile_le[of "\<lambda>c. c \<noteq> CHR 0x00" p] by (simp add: c_str_def)
  then have "socket_name p = c_str p" by (simp add: socket_name_def)
  with assms show ?thesis
    by (auto simp: listen_on_def server_close_def Let_def split: if_splits)
qed

theorem close_removes_name_witness:
  "socket_name ''/s'' \<notin> names (server_close (snd (listen_on
     \<lparr>ls_socket = 3, ls_bind_ok = True, ls_listen_ok = True, ls_error = []\<rparr> ''/s'' new_server)))"
  using close_removes_name[of "\<lparr>ls_socket = 3, ls_bind_ok = True, ls_listen_ok = True, ls_error = []\<rparr>"
      "''/s''" new_server]
  by (simp add: listen_on_def server_close_def new_server_def socket_name_def c_str_def Let_def)

text \<open>\<open>close\<close> of a client keeps the bytes of the line that was not complete, so after a new
  connection the first line received is preceded by what the old connection left.\<close>

theorem reconnect_keeps_old_bytes:
  assumes "0 \<le> cl_fd c" and "newline \<notin> set (cl_buffer c)" and "newline \<notin> set old" and "old \<noteq> []"
    and "0 \<le> sock" and "newline \<notin> set l"
  shows "fst (client_poll_lines [Data (line_payload l)]
           (snd (client_connect_to sock True (snd (client_poll_lines [Data old, Data []] c)))))
         = [strip_cr (cl_buffer c @ old @ l)]"
proof -
  have "drain_lines (cl_buffer c @ old) = ([], cl_buffer c @ old)"
    using assms(2,3) by (intro drain_lines_none) simp
  moreover have "drain_lines ((cl_buffer c @ old @ l) @ newline # []) = ([strip_cr (cl_buffer c @ old @ l)], [])"
    using assms(2,3,6) by (subst drain_lines_line) (simp_all add: drain_lines_none)
  ultimately show ?thesis
    using assms(1,4,5)
    by (simp add: client_poll_lines_def client_connect_to_def client_close_def line_payload_def Let_def)
qed

theorem reconnect_keeps_old_bytes_witness:
  "fst (client_poll_lines [Data (line_payload ''mav armed 1'')]
     (snd (client_connect_to 5 True (snd (client_poll_lines [Data ''mav al'', Data []] (new_client\<lparr>cl_fd := 4\<rparr>))))))
   = [''mav almav armed 1'']"
  using reconnect_keeps_old_bytes[of "new_client\<lparr>cl_fd := 4\<rparr>" "''mav al''" 5 "''mav armed 1''"]
  by (simp add: new_client_def newline_def strip_cr_def)

end
