(* ===== verification/Net_Discovery.thy ===== *)
theory Net_Discovery
  imports Glide_Prelude Cpp_Text
begin

text \<open>
  \<open>src/common/network_discovery.cpp\<close>: the peers found by UDP broadcast (class
  \<open>DiscoveryService\<close>) and the point-to-point set-up. Time is in milliseconds of the steady
  clock, 0 being the default \<open>time_point\<close>. Sockets, interfaces and the \<open>ip\<close> command are
  arguments; the ghost field \<open>outbox\<close> records the datagrams handed to \<open>sendto\<close> with their
  destination and its port. The lemmas give the invariant of the peer table, the discovery handshake of two
  nodes and the life cycle of a scan.
\<close>

section \<open>State\<close>

record discovery_options =
  discovery_udp_port :: nat
  video_udp_port :: nat
  role :: string

record peer =
  address :: string
  hostname :: string
  video_port :: nat
  last_seen :: nat

record service =
  fd :: int
  options :: discovery_options
  own_name :: string
  last_error :: string
  peers :: "peer list"
  pending_lines :: "string list"
  scan_until :: nat
  next_probe :: nat
  outbox :: "(string \<times> nat \<times> string) list"

definition default_options :: discovery_options where
  "default_options = \<lparr>discovery_udp_port = 5620, video_udp_port = 5600, role = ''glide''\<rparr>"

definition new_service :: service where
  "new_service = \<lparr>fd = - 1, options = default_options, own_name = ''glide'', last_error = [],
     peers = [], pending_lines = [], scan_until = 0, next_probe = 0, outbox = []\<rparr>"

definition running :: "service \<Rightarrow> bool" where
  "running s \<longleftrightarrow> 0 \<le> fd s"

definition discover_prefix :: string where "discover_prefix = ''OPENHD_GLIDE_DISCOVER''"
definition here_prefix :: string where "here_prefix = ''OPENHD_GLIDE_HERE''"

definition sanitize_token :: "string \<Rightarrow> string" where
  "sanitize_token v = map (\<lambda>c. if c = CHR '' '' \<or> c = CHR 0x0A \<or> c = CHR 0x0D \<or> c = CHR 0x09
                               then CHR ''_'' else c) v"

text \<open>\<open>local_hostname\<close> for the answer of \<open>gethostname\<close>.\<close>

definition local_hostname :: "string option \<Rightarrow> string" where
  "local_hostname answer =
     (case answer of Some n \<Rightarrow> if c_str n \<noteq> [] then c_str n else ''glide'' | None \<Rightarrow> ''glide'')"

section \<open>Interfaces\<close>

record interface =
  if_inet :: bool
  if_up :: bool
  if_loopback :: bool
  if_broadcast :: bool
  if_addr :: u32
  if_broadaddr :: "u32 option"
  if_netmask :: "u32 option"

definition interface_destination :: "interface \<Rightarrow> u32" where
  "interface_destination i =
     (case (if if_broadcast i then if_broadaddr i else None) of
        Some a \<Rightarrow> a
      | None \<Rightarrow> (case if_netmask i of Some m \<Rightarrow> if_addr i OR NOT m | None \<Rightarrow> 0xFFFFFFFF))"

definition usable_interface :: "interface \<Rightarrow> bool" where
  "usable_interface i \<longleftrightarrow> if_inet i \<and> if_up i \<and> \<not> if_loopback i"

definition broadcast_addresses :: "interface list option \<Rightarrow> u32 list" where
  "broadcast_addresses answer =
     (case answer of None \<Rightarrow> []
      | Some is \<Rightarrow> map interface_destination (filter usable_interface is) @ [0xFFFFFFFF])"

section \<open>Operations\<close>

definition stop :: "service \<Rightarrow> service" where
  "stop s = s\<lparr>fd := (if 0 \<le> fd s then - 1 else fd s), scan_until := 0, next_probe := 0\<rparr>"

record start_answers =
  sa_host :: "string option"
  sa_socket :: int
  sa_bind_ok :: bool
  sa_errno :: int

definition start :: "start_answers \<Rightarrow> discovery_options \<Rightarrow> service \<Rightarrow> bool \<times> service" where
  "start env opts s =
     (let s1 = (stop s)\<lparr>options := opts, own_name := sanitize_token (local_hostname (sa_host env))\<rparr> in
      if sa_socket env = - 1 then (False, s1\<lparr>last_error := ''socket failed: '' @ int_str (sa_errno env)\<rparr>)
      else let s2 = s1\<lparr>fd := sa_socket env\<rparr> in
      if \<not> sa_bind_ok env
      then (False, stop (s2\<lparr>last_error := ''bind UDP discovery failed: '' @ int_str (sa_errno env)\<rparr>))
      else (True, s2\<lparr>pending_lines := pending_lines s2 @ [''state net idle'']\<rparr>))"

definition start_scan :: "nat \<Rightarrow> nat \<Rightarrow> service \<Rightarrow> service" where
  "start_scan now duration s =
     (if \<not> running s then s
      else s\<lparr>peers := [], scan_until := now + duration, next_probe := 0,
             pending_lines := pending_lines s @ [''state net scanning'']\<rparr>)"

definition announcement :: "string \<Rightarrow> service \<Rightarrow> string" where
  "announcement prefix s = prefix @ '' 1 '' @ own_name s @ '' '' @ nat_str (video_udp_port (options s))"

definition send_broadcast_probe :: "string list \<Rightarrow> service \<Rightarrow> service" where
  "send_broadcast_probe destinations s =
     (if \<not> running s then s
      else s\<lparr>outbox := outbox s @ map (\<lambda>d. (d, discovery_udp_port (options s), announcement discover_prefix s)) destinations\<rparr>)"

definition peer_line :: "peer \<Rightarrow> string" where
  "peer_line p = ''state net peer '' @ address p @ '' '' @ hostname p @ '' '' @ nat_str (video_port p)"

fun replace_peer :: "peer \<Rightarrow> peer list \<Rightarrow> peer list" where
  "replace_peer p [] = [p]"
| "replace_peer p (q # qs) = (if address q = address p then p # qs else q # replace_peer p qs)"

definition upsert_peer :: "peer \<Rightarrow> service \<Rightarrow> service" where
  "upsert_peer p s =
     s\<lparr>peers := replace_peer p (peers s), pending_lines := pending_lines s @ [peer_line p]\<rparr>"

text \<open>\<open>handle_packet\<close>, for the addresses of the own interfaces and the time of the call.\<close>

definition handle_packet :: "string list \<Rightarrow> nat \<Rightarrow> string \<Rightarrow> string \<Rightarrow> service \<Rightarrow> service" where
  "handle_packet local now pl sender s =
     (if sender = [] then s
      else let st = istringstream pl;
               (prefix, st) = read_token [] st; (version, st) = read_int 0 st;
               (name, st) = read_token [] st; (port, st) = read_unsigned 16 0 st in
      if version \<noteq> 1 then s
      else if prefix = discover_prefix
      then s\<lparr>outbox := outbox s @ [(sender, discovery_udp_port (options s), announcement here_prefix s)]\<rparr>
      else if prefix \<noteq> here_prefix \<or> port = 0 then s
      else if sender \<in> set local then s
      else upsert_peer \<lparr>address = sender, hostname = sanitize_token (if name = [] then ''glide'' else name),
                        video_port = nat port, last_seen = now\<rparr> s)"

text \<open>A datagram: its bytes as read into the buffer of 511 characters, its sender, and when.\<close>

record datagram =
  dg_text :: string
  dg_sender :: string
  dg_now :: nat

fun receive_all :: "string list \<Rightarrow> datagram list \<Rightarrow> service \<Rightarrow> service" where
  "receive_all local [] s = s"
| "receive_all local (d # ds) s =
     (if dg_text d = [] then s
      else receive_all local ds (handle_packet local (dg_now d) (c_str (take 511 (dg_text d))) (dg_sender d) s))"

definition poll_state_lines ::
  "string list \<Rightarrow> string list \<Rightarrow> nat \<Rightarrow> datagram list \<Rightarrow> service \<Rightarrow> string list \<times> service" where
  "poll_state_lines destinations local now ds s =
     (let s1 = (if running s \<and> scan_until s \<noteq> 0 \<and> next_probe s \<le> now
                then (send_broadcast_probe destinations s)\<lparr>next_probe := now + 450\<rparr> else s);
          s2 = (if running s1 then receive_all local ds s1 else s1);
          s3 = (if scan_until s2 \<noteq> 0 \<and> scan_until s2 \<le> now
                then s2\<lparr>scan_until := 0,
                        pending_lines := pending_lines s2 @ [''state net done '' @ nat_str (length (peers s2))]\<rparr>
                else s2)
      in (pending_lines s3, s3\<lparr>pending_lines := []\<rparr>))"

text \<open>
  \<open>scan_blocking\<close> for the times at which its loop polls, all before the deadline, and what it
  receives at each.
\<close>

definition scan_blocking ::
  "start_answers \<Rightarrow> string list \<Rightarrow> string list \<Rightarrow> discovery_options \<Rightarrow> nat \<Rightarrow> nat \<Rightarrow>
   (nat \<times> datagram list) list \<Rightarrow> peer list" where
  "scan_blocking env destinations local opts now duration polls =
     (let (ok, s) = start env opts new_service in
      if \<not> ok then []
      else peers (foldl (\<lambda>s (t, ds). snd (poll_state_lines destinations local t ds s))
             (start_scan now duration s)
             (takeWhile (\<lambda>(t, _). t < now + duration + 150) polls)))"

section \<open>Point to point\<close>

definition ip_commands :: "string \<Rightarrow> string \<Rightarrow> string list list" where
  "ip_commands iface cidr =
     [[''link'', ''set'', iface, ''up''], [''addr'', ''flush'', ''dev'', iface],
      [''addr'', ''add'', cidr, ''dev'', iface]]"

definition point_to_point_cidr :: "string \<Rightarrow> string" where
  "point_to_point_cidr r = (if r = ''air'' then ''10.77.0.2/30'' else ''10.77.0.1/30'')"

text \<open>The result text and the commands run; a command's answer is its error text.\<close>

fun run_commands :: "(string list \<Rightarrow> string) \<Rightarrow> string list list \<Rightarrow> string \<times> string list list" where
  "run_commands env [] = ([], [])"
| "run_commands env (c # cs) =
     (if env c \<noteq> [] then (env c, [c]) else let (e, ran) = run_commands env cs in (e, c # ran))"

definition configure_point_to_point ::
  "(string list \<Rightarrow> string) \<Rightarrow> string \<Rightarrow> string \<Rightarrow> string \<times> string list list" where
  "configure_point_to_point env iface r =
     (if iface = [] then (''missing interface name'', [])
      else let cidr = point_to_point_cidr r; (e, ran) = run_commands env (ip_commands iface cidr)
           in (if e \<noteq> [] then e else ''ok '' @ iface @ '' '' @ cidr, ran))"

section \<open>The peer table\<close>

definition blank_free :: "string \<Rightarrow> bool" where
  "blank_free v \<longleftrightarrow> (\<forall>c \<in> set v. c \<noteq> CHR '' '' \<and> c \<noteq> CHR 0x0A \<and> c \<noteq> CHR 0x0D \<and> c \<noteq> CHR 0x09)"

definition peers_ok :: "string list \<Rightarrow> peer list \<Rightarrow> bool" where
  "peers_ok local ps \<longleftrightarrow> distinct (map address ps) \<and>
     (\<forall>p \<in> set ps. address p \<noteq> [] \<and> address p \<notin> set local \<and> blank_free (hostname p) \<and>
        hostname p \<noteq> [] \<and> 1 \<le> video_port p \<and> video_port p < 65536)"

lemma blank_free_sanitize: "blank_free (sanitize_token v)"
  by (auto simp: blank_free_def sanitize_token_def)

lemma sanitize_token_Nil [simp]: "sanitize_token v = [] \<longleftrightarrow> v = []"
  by (simp add: sanitize_token_def)

lemma sanitize_token_word: "word_text v \<Longrightarrow> sanitize_token v = v"
  unfolding sanitize_token_def by (rule map_idI) (simp add: word_text_def is_space_def)

lemma replace_peer_addresses [simp]:
  "address ` set (replace_peer p ps) = insert (address p) (address ` set ps)"
  by (induction ps) auto

lemma replace_peer_in: "q \<in> set (replace_peer p ps) \<Longrightarrow> q = p \<or> q \<in> set ps"
  by (induction ps) (auto split: if_splits)

lemma replace_peer_distinct: "distinct (map address ps) \<Longrightarrow> distinct (map address (replace_peer p ps))"
  by (induction ps) auto

lemma replace_peer_member: "p \<in> set (replace_peer p ps)"
  by (induction ps) auto

lemma replace_peer_others: "q \<in> set ps \<Longrightarrow> address q \<noteq> address p \<Longrightarrow> q \<in> set (replace_peer p ps)"
  by (induction ps) auto

lemma upsert_peer_ok:
  "peers_ok local (peers s) \<Longrightarrow> peers_ok local [p] \<Longrightarrow> peers_ok local (peers (upsert_peer p s))"
  by (auto simp: peers_ok_def upsert_peer_def replace_peer_distinct dest!: replace_peer_in)

lemma handle_packet_ok:
  assumes "peers_ok local (peers s)"
  shows "peers_ok local (peers (handle_packet local now pl sender s))"
proof -
  have port: "1 \<le> nat (fst (read_unsigned 16 0 st)) \<and> nat (fst (read_unsigned 16 0 st)) < 65536"
    if "fst (read_unsigned 16 0 st) \<noteq> 0" for st
  proof -
    have "0 \<le> fst (read_unsigned 16 0 st)" "fst (read_unsigned 16 0 st) < 65536"
      using read_unsigned_range[of 0 16 st] by simp_all
    with that show ?thesis by (simp add: nat_less_iff)
  qed
  define new where "new name st = \<lparr>address = sender, hostname = sanitize_token (if name = [] then ''glide'' else name),
      video_port = nat (fst (read_unsigned 16 0 st)), last_seen = now\<rparr>" for name st
  have "peers_ok local [new name st]"
    if "sender \<noteq> []" "sender \<notin> set local" "fst (read_unsigned 16 0 st) \<noteq> 0" for name st
    using that port blank_free_sanitize by (simp add: peers_ok_def new_def)
  then show ?thesis
    using assms unfolding handle_packet_def Let_def split_def new_def[symmetric]
    by (simp add: upsert_peer_ok)
qed

lemma handle_packet_keeps [simp]:
  "fd (handle_packet local now pl sender s) = fd s"
  "options (handle_packet local now pl sender s) = options s"
  "own_name (handle_packet local now pl sender s) = own_name s"
  "scan_until (handle_packet local now pl sender s) = scan_until s"
  "next_probe (handle_packet local now pl sender s) = next_probe s"
  by (simp_all add: handle_packet_def upsert_peer_def Let_def split_def)

lemma receive_all_keeps [simp]:
  "fd (receive_all local ds s) = fd s"
  "options (receive_all local ds s) = options s"
  "own_name (receive_all local ds s) = own_name s"
  "scan_until (receive_all local ds s) = scan_until s"
  "next_probe (receive_all local ds s) = next_probe s"
  by (induction ds arbitrary: s) simp_all

lemma receive_all_ok: "peers_ok local (peers s) \<Longrightarrow> peers_ok local (peers (receive_all local ds s))"
  by (induction ds arbitrary: s) (simp_all add: handle_packet_ok)

lemma send_broadcast_probe_keeps [simp]:
  "fd (send_broadcast_probe dst s) = fd s" "peers (send_broadcast_probe dst s) = peers s"
  "options (send_broadcast_probe dst s) = options s" "own_name (send_broadcast_probe dst s) = own_name s"
  "scan_until (send_broadcast_probe dst s) = scan_until s"
  "pending_lines (send_broadcast_probe dst s) = pending_lines s"
  by (simp_all add: send_broadcast_probe_def)

lemma poll_state_lines_ok:
  "peers_ok local (peers s) \<Longrightarrow> peers_ok local (peers (snd (poll_state_lines dst local now ds s)))"
  by (simp add: poll_state_lines_def Let_def receive_all_ok)

section \<open>Announcements\<close>

lemma handle_announcement:
  assumes "word_text prefix" and "word_text (own_name b)" and "video_udp_port (options b) < 65536"
    and "sender \<noteq> []"
  shows "handle_packet local now (announcement prefix b) sender s =
    (if prefix = discover_prefix
     then s\<lparr>outbox := outbox s @ [(sender, discovery_udp_port (options s), announcement here_prefix s)]\<rparr>
     else if prefix \<noteq> here_prefix \<or> video_udp_port (options b) = 0 \<or> sender \<in> set local then s
     else upsert_peer \<lparr>address = sender, hostname = own_name b, video_port = video_udp_port (options b),
                       last_seen = now\<rparr> s)"
proof -
  define port where "port = video_udp_port (options b)"
  have line: "istringstream (announcement prefix b) = stream_at (prefix @ CHR '' '' # int_str 1 @
      CHR '' '' # own_name b @ CHR '' '' # int_str (int port) @ [])"
    by (simp add: announcement_def istringstream_def stream_at_def port_def int_str_def nat_str.simps
        digit_char_def char_of_def bit_0)
  have reads: "read_token [] (stream_at (prefix @ CHR '' '' # r)) = (prefix, stream_at (CHR '' '' # r))"
    "read_int 0 (stream_at (CHR '' '' # int_str 1 @ CHR '' '' # r)) = (1, stream_at (CHR '' '' # r))"
    "read_token [] (stream_at (CHR '' '' # own_name b @ CHR '' '' # r)) = (own_name b, stream_at (CHR '' '' # r))"
    "read_unsigned 16 0 (stream_at (CHR '' '' # int_str (int port) @ [])) = (int port, stream_at [])" for r
    using assms(3) by (auto simp del: append_Nil2 intro!: read_token_word read_int_int_str read_unsigned_int_str assms(1,2)
        simp: port_def)
  show ?thesis
    unfolding handle_packet_def line
    using assms(2,4) by (simp only: reads Let_def split_conv) (simp add: word_text_def sanitize_token_word[OF assms(2)] port_def)
qed

lemma receive_one:
  assumes "length t \<le> 511" and "CHR 0x00 \<notin> set t" and "t \<noteq> []"
  shows "receive_all local [\<lparr>dg_text = t, dg_sender = sender, dg_now = now\<rparr>] s
         = handle_packet local now t sender s"
proof -
  have "c_str t = t" using assms(2) by (auto simp: c_str_def takeWhile_eq_all_conv)
  with assms show ?thesis by simp
qed

section \<open>Reachable states\<close>

text \<open>The states of a service on a host whose interfaces have the addresses \<open>local\<close>.\<close>

inductive service_reachable :: "string list \<Rightarrow> service \<Rightarrow> bool" for local :: "string list" where
  service_new: "service_reachable local new_service"
| service_start: "service_reachable local s \<Longrightarrow> service_reachable local (snd (start env opts s))"
| service_stop: "service_reachable local s \<Longrightarrow> service_reachable local (stop s)"
| service_scan: "service_reachable local s \<Longrightarrow> service_reachable local (start_scan now duration s)"
| service_poll: "service_reachable local s \<Longrightarrow>
    service_reachable local (snd (poll_state_lines dst local now ds s))"

lemma operations_keep_peers [simp]:
  "peers (stop s) = peers s" "peers (snd (start env opts s)) = peers s"
  by (simp_all add: stop_def start_def Let_def)

lemma start_scan_ok: "peers_ok local (peers s) \<Longrightarrow> peers_ok local (peers (start_scan now duration s))"
  by (simp add: start_scan_def peers_ok_def)

section \<open>Properties\<close>

text \<open>In every reachable state the peers have distinct addresses, none empty and none of the
  own interfaces, names that are one word of the state line, and ports between 1 and 65535.\<close>

theorem peer_table_ok:
  assumes "service_reachable local s"
  shows "peers_ok local (peers s)"
  using assms
proof induction
  case service_new
  then show ?case by (simp add: new_service_def peers_ok_def)
qed (simp_all add: start_scan_ok poll_state_lines_ok)

theorem peer_table_ok_witness: "peers_ok [''10.0.0.1''] (peers (start_scan 5 2500 new_service))"
  by (rule peer_table_ok) (intro service_scan service_new)

text \<open>What a service that has started sends goes to its own discovery port, the one it is bound to.\<close>

lemma scan_probes:
  assumes "running a" "0 < now + duration"
  shows "snd (poll_state_lines dst local now [] (start_scan now duration a)) =
    a\<lparr>peers := [], pending_lines := [], scan_until := (if duration = 0 then 0 else now + duration), next_probe := now + 450,
      outbox := outbox a @ map (\<lambda>d. (d, discovery_udp_port (options a), announcement discover_prefix a)) dst\<rparr>"
  using assms by (simp add: poll_state_lines_def start_scan_def send_broadcast_probe_def running_def announcement_def Let_def)

lemma nat_str_length: "n < 10 ^ Suc k \<Longrightarrow> length (nat_str n) \<le> Suc k"
proof (induction k arbitrary: n)
  case (Suc k)
  then have "n div 10 < 10 ^ Suc k" by (simp add: less_mult_imp_div_less)
  from Suc.IH[OF this] show ?case by (subst nat_str.simps) simp
qed (simp add: nat_str.simps)

lemma poll_one:
  assumes "running s"
  obtains s1 where "own_name s1 = own_name s" "options s1 = options s" "running s1" "peers s1 = peers s"
    "set (outbox s) \<subseteq> set (outbox s1)" "length (outbox s) \<le> length (outbox s1)" "take (length (outbox s)) (outbox s1) = outbox s"
    "\<exists>more. fst (poll_state_lines dst local now ds s) = pending_lines (receive_all local ds s1) @ more"
    "peers (snd (poll_state_lines dst local now ds s)) = peers (receive_all local ds s1)"
    "outbox (snd (poll_state_lines dst local now ds s)) = outbox (receive_all local ds s1)"
proof
  let ?s1 = "if running s \<and> scan_until s \<noteq> 0 \<and> next_probe s \<le> now
    then (send_broadcast_probe dst s)\<lparr>next_probe := now + 450\<rparr> else s"
  show "own_name ?s1 = own_name s" "options ?s1 = options s" "peers ?s1 = peers s" "set (outbox s) \<subseteq> set (outbox ?s1)"
    "length (outbox s) \<le> length (outbox ?s1)" "take (length (outbox s)) (outbox ?s1) = outbox s"
    by (auto simp: send_broadcast_probe_def)
  show r: "running ?s1" using assms by (simp add: running_def)
  show "\<exists>more. fst (poll_state_lines dst local now ds s) = pending_lines (receive_all local ds ?s1) @ more"
    "peers (snd (poll_state_lines dst local now ds s)) = peers (receive_all local ds ?s1)"
    "outbox (snd (poll_state_lines dst local now ds s)) = outbox (receive_all local ds ?s1)"
    using r by (simp_all add: poll_state_lines_def Let_def)
qed

text \<open>C30: two nodes find each other. Let two services run with the same discovery port and valid video ports, each with a
  name of one word of at most 470 characters, so that its announcement fits into the buffer of 511. When one starts a scan, its first poll sends a
  probe to every destination, to the port the other is bound to. A poll of the other that receives the probe sends
  an answer to the address the probe came from, to the port the scanning node is bound to. And a later poll of the
  scanning node that receives this answer, from an address that is not one of its own, puts the other node's address, name and video port into its table and
  reports it in a state line.\<close>

theorem discovery_handshake:
  fixes a b :: service and dst_a dst_b local_a local_b :: "string list" and t1 t2 t3 :: nat
  assumes "running a" and "running b" and "discovery_udp_port (options a) = discovery_udp_port (options b)"
    and "0 < t1 + duration" and "word_text (own_name a)" and "word_text (own_name b)"
    and "video_udp_port (options a) < 65536" and "0 < video_udp_port (options b)"
    and "video_udp_port (options b) < 65536"
    and "length (own_name a) \<le> 470" and "length (own_name b) \<le> 470"
    and "CHR 0x00 \<notin> set (own_name a)" and "CHR 0x00 \<notin> set (own_name b)"
    and "addr_a \<noteq> []" and "addr_b \<noteq> []" and "addr_b \<notin> set local_a"
  defines "a1 \<equiv> snd (poll_state_lines dst_a local_a t1 [] (start_scan t1 duration a))"
  shows "\<exists>probe answer.
    (\<forall>d \<in> set dst_a. (d, discovery_udp_port (options b), probe) \<in> set (drop (length (outbox a)) (outbox a1))) \<and>
    (let b1 = snd (poll_state_lines dst_b local_b t2 [\<lparr>dg_text = probe, dg_sender = addr_a, dg_now = t2\<rparr>] b)
     in (addr_a, discovery_udp_port (options a), answer) \<in> set (drop (length (outbox b)) (outbox b1))) \<and>
    (let (lines, a2) = poll_state_lines dst_a local_a t3 [\<lparr>dg_text = answer, dg_sender = addr_b, dg_now = t3\<rparr>] a1;
         p = \<lparr>address = addr_b, hostname = own_name b, video_port = video_udp_port (options b), last_seen = t3\<rparr>
     in p \<in> set (peers a2) \<and> peer_line p \<in> set lines)"
proof -
  have digits: "length (nat_str n) \<le> 5" if "n < 65536" for n
    using nat_str_length[of n 4] that by simp
  have len: "length (announcement discover_prefix a) \<le> 511" "length (announcement here_prefix b) \<le> 511"
    using digits[OF assms(7)] digits[OF assms(9)] assms(10,11) by (simp_all add: announcement_def discover_prefix_def here_prefix_def)
  have pre: "word_text discover_prefix" "word_text here_prefix" "here_prefix \<noteq> discover_prefix"
    by (simp_all add: discover_prefix_def here_prefix_def word_text_def is_space_def)
  have nz: "CHR 0x00 \<notin> set (nat_str n)" for n
    using nat_str_digits[of n] by (auto simp: is_digit_def)
  have plain: "CHR 0x00 \<notin> set (announcement discover_prefix a)" "CHR 0x00 \<notin> set (announcement here_prefix b)"
    "announcement discover_prefix a \<noteq> []" "announcement here_prefix b \<noteq> []"
    using assms(12,13) nz by (simp_all add: announcement_def discover_prefix_def here_prefix_def)
  note a1 = scan_probes[OF assms(1,4), of dst_a local_a, folded a1_def]
  let ?probe = "announcement discover_prefix a" and ?answer = "announcement here_prefix b"
  have 1: "\<forall>d \<in> set dst_a. (d, discovery_udp_port (options b), ?probe) \<in> set (drop (length (outbox a)) (outbox a1))"
    using assms(3) by (simp add: a1)
  have 2: "(addr_a, discovery_udp_port (options a), ?answer) \<in> set (drop (length (outbox b))
      (outbox (snd (poll_state_lines dst_b local_b t2 [\<lparr>dg_text = ?probe, dg_sender = addr_a, dg_now = t2\<rparr>] b))))"
  proof -
    obtain s1 where s1: "own_name s1 = own_name b" "options s1 = options b" "length (outbox b) \<le> length (outbox s1)"
      "outbox (snd (poll_state_lines dst_b local_b t2 [\<lparr>dg_text = ?probe, dg_sender = addr_a, dg_now = t2\<rparr>] b))
        = outbox (receive_all local_b [\<lparr>dg_text = ?probe, dg_sender = addr_a, dg_now = t2\<rparr>] s1)"
      by (rule poll_one[OF assms(2)])
    have "receive_all local_b [\<lparr>dg_text = ?probe, dg_sender = addr_a, dg_now = t2\<rparr>] s1
        = s1\<lparr>outbox := outbox s1 @ [(addr_a, discovery_udp_port (options b), ?answer)]\<rparr>"
      unfolding receive_one[OF len(1) plain(1,3)]
      using handle_announcement[OF pre(1) assms(5,7,14), of local_b t2 s1] s1(1,2) by (simp add: announcement_def)
    then show ?thesis using s1(3,4) assms(3) by simp
  qed
  let ?p = "\<lparr>address = addr_b, hostname = own_name b, video_port = video_udp_port (options b), last_seen = t3\<rparr>"
  let ?r = "poll_state_lines dst_a local_a t3 [\<lparr>dg_text = ?answer, dg_sender = addr_b, dg_now = t3\<rparr>] a1"
  have 3: "?p \<in> set (peers (snd ?r)) \<and> peer_line ?p \<in> set (fst ?r)"
  proof -
    have "running a1" using assms(1) by (simp add: a1 running_def)
    then obtain s1 where s1:
      "\<exists>more. fst ?r = pending_lines (receive_all local_a [\<lparr>dg_text = ?answer, dg_sender = addr_b, dg_now = t3\<rparr>] s1) @ more"
      "peers (snd ?r) = peers (receive_all local_a [\<lparr>dg_text = ?answer, dg_sender = addr_b, dg_now = t3\<rparr>] s1)"
      by (rule poll_one)
    have "receive_all local_a [\<lparr>dg_text = ?answer, dg_sender = addr_b, dg_now = t3\<rparr>] s1 = upsert_peer ?p s1"
      unfolding receive_one[OF len(2) plain(2,4)]
      using handle_announcement[OF pre(2) assms(6,9,15), of local_a t3 s1] assms(8,16) pre(3) by simp
    then show ?thesis using s1 by (auto simp: upsert_peer_def replace_peer_member)
  qed
  show ?thesis using 1 2 3 by (intro exI[of _ ?probe] exI[of _ ?answer]) (simp add: Let_def split_def)
qed

theorem discovery_handshake_witness:
  "\<exists>probe answer.
    (''10.0.0.255'', 5620, probe) \<in>
      set (outbox (snd (poll_state_lines [''10.0.0.255''] [''10.0.0.1''] 7 [] (start_scan 7 2500 (new_service\<lparr>fd := 3\<rparr>))))) \<and>
    (''10.0.0.1'', 5620, answer) \<in>
      set (outbox (snd (poll_state_lines [] [''10.0.0.2''] 8 [\<lparr>dg_text = probe, dg_sender = ''10.0.0.1'', dg_now = 8\<rparr>] (new_service\<lparr>fd := 4\<rparr>))))"
proof -
  let ?a = "new_service\<lparr>fd := 3\<rparr>" and ?b = "new_service\<lparr>fd := 4\<rparr>"
  have "running ?a" "running ?b" "discovery_udp_port (options ?a) = discovery_udp_port (options ?b)" "0 < (7 :: nat) + 2500"
    "word_text (own_name ?a)" "word_text (own_name ?b)" "video_udp_port (options ?a) < 65536" "0 < video_udp_port (options ?b)"
    "video_udp_port (options ?b) < 65536" "length (own_name ?a) \<le> 470" "length (own_name ?b) \<le> 470"
    "CHR 0x00 \<notin> set (own_name ?a)" "CHR 0x00 \<notin> set (own_name ?b)" "''10.0.0.1'' \<noteq> ([] :: string)" "''10.0.0.2'' \<noteq> ([] :: string)"
    "''10.0.0.2'' \<notin> set [''10.0.0.1'']"
    by (simp_all add: new_service_def running_def default_options_def word_text_def is_space_def)
  from discovery_handshake[OF this, of "[''10.0.0.255'']" "[]" "[''10.0.0.2'']" 8 9]
  show ?thesis by (auto simp: Let_def new_service_def default_options_def dest: in_set_dropD)
qed

text \<open>a scan ends once: a poll before its end keeps it running, the first poll at or after its
  end reports the number of peers as its last line and ends it, and a poll outside a scan sends no
  probe and starts none.\<close>

theorem scan_life_cycle:
  fixes dst local :: "string list" and ds :: "datagram list" and now :: nat
  assumes "running s"
  defines "r \<equiv> poll_state_lines dst local now ds s"
  shows "if scan_until s = 0
         then scan_until (snd r) = 0 \<and> outbox (snd r) = outbox (receive_all local ds s)
         else if now < scan_until s then scan_until (snd r) = scan_until s
         else scan_until (snd r) = 0 \<and>
              last (fst r) = ''state net done '' @ nat_str (length (peers (snd r)))"
  using assms(1) by (auto simp: r_def poll_state_lines_def running_def Let_def)

theorem scan_life_cycle_witness:
  "last (fst (poll_state_lines [] [] 3000 [] (start_scan 100 2500 (new_service\<lparr>fd := 3\<rparr>)))) = ''state net done 0''"
  using scan_life_cycle[of "start_scan 100 2500 (new_service\<lparr>fd := 3\<rparr>)" "[]" "[]" 3000 "[]"]
  by (simp add: start_scan_def new_service_def running_def poll_state_lines_def send_broadcast_probe_def
      nat_str.simps digit_char_def char_of_def bit_0 Let_def)

text \<open>a probe goes to one destination for every interface that is up, has an IPv4 address and is
  no loopback, and to the limited broadcast address; where the kernel reports no broadcast address the
  destination has the network part of the interface's address and all host bits set.\<close>

theorem probe_destinations:
  "length (broadcast_addresses (Some is)) = length (filter usable_interface is) + 1 \<and>
   last (broadcast_addresses (Some is)) = 0xFFFFFFFF \<and>
   (\<forall>i \<in> set is. usable_interface i \<longrightarrow> interface_destination i \<in> set (broadcast_addresses (Some is)) \<and>
      (if_broadcast i \<and> if_broadaddr i \<noteq> None \<or>
       (\<forall>m. if_netmask i = Some m \<longrightarrow> interface_destination i AND m = if_addr i AND m \<and>
              interface_destination i OR m = 0xFFFFFFFF)))"
proof -
  have net: "(x OR NOT m) AND m = x AND m" "(x OR NOT m) OR m = 0xFFFFFFFF" for x m :: u32
  proof -
    have ones: "(0xFFFFFFFF :: u32) = - 1" by simp
    show "(x OR NOT m) AND m = x AND m" by (rule bit_word_eqI) (auto simp: bit_simps)
    show "(x OR NOT m) OR m = 0xFFFFFFFF" unfolding ones by (rule bit_word_eqI) (auto simp: bit_simps)
  qed
  show ?thesis by (auto simp: broadcast_addresses_def interface_destination_def net)
qed

theorem probe_destinations_witness:
  "interface_destination \<lparr>if_inet = True, if_up = True, if_loopback = False, if_broadcast = False,
       if_addr = 0xC0A80207, if_broadaddr = None, if_netmask = Some 0xFFFFFF00\<rparr> AND 0xFFFFFF00 = 0xC0A80200"
  using probe_destinations[of "[\<lparr>if_inet = True, if_up = True, if_loopback = False, if_broadcast = False,
       if_addr = 0xC0A80207, if_broadaddr = None, if_netmask = Some 0xFFFFFF00\<rparr>]"]
  by (simp add: usable_interface_def)

text \<open>the point-to-point set-up runs its three commands in order up to the first that fails,
  reports success exactly when all three succeeded, and gives the two roles different addresses of
  one four-address network.\<close>

theorem point_to_point_steps:
  fixes r :: string
  assumes "iface \<noteq> []"
  defines "cidr \<equiv> point_to_point_cidr r"
  shows "fst (configure_point_to_point env iface r) = ''ok '' @ iface @ '' '' @ cidr \<and>
           snd (configure_point_to_point env iface r) = ip_commands iface cidr \<and>
           (\<forall>c \<in> set (ip_commands iface cidr). env c = [])
         \<or> (\<exists>k < 3. snd (configure_point_to_point env iface r) = take (Suc k) (ip_commands iface cidr) \<and>
              fst (configure_point_to_point env iface r) = env (ip_commands iface cidr ! k) \<and>
              env (ip_commands iface cidr ! k) \<noteq> [] \<and> (\<forall>j < k. env (ip_commands iface cidr ! j) = []))"
proof -
  define cs where "cs = ip_commands iface cidr"
  have run: "fst (run_commands env cs) = [] \<and> snd (run_commands env cs) = cs \<and> (\<forall>c \<in> set cs. env c = []) \<or>
    (\<exists>k < length cs. snd (run_commands env cs) = take (Suc k) cs \<and> fst (run_commands env cs) = env (cs ! k) \<and>
       env (cs ! k) \<noteq> [] \<and> (\<forall>j < k. env (cs ! j) = []))" for cs
  proof (induction cs)
    case (Cons c cs)
    show ?case
    proof (cases "env c = []")
      case True
      from Cons show ?thesis
      proof
        assume "\<exists>k < length cs. snd (run_commands env cs) = take (Suc k) cs \<and>
          fst (run_commands env cs) = env (cs ! k) \<and> env (cs ! k) \<noteq> [] \<and> (\<forall>j < k. env (cs ! j) = [])"
        then obtain k where "k < length cs" "snd (run_commands env cs) = take (Suc k) cs"
          "fst (run_commands env cs) = env (cs ! k)" "env (cs ! k) \<noteq> []" "\<forall>j < k. env (cs ! j) = []" by blast
        with True show ?thesis
          by (intro disjI2 exI[of _ "Suc k"]) (auto simp: split_def nth_Cons split: nat.splits)
      qed (use True in \<open>simp add: split_def\<close>)
    qed (auto intro!: exI[of _ 0])
  qed simp
  have "length cs = 3" by (simp add: cs_def ip_commands_def)
  with run[of cs] assms(1) show ?thesis
    by (auto simp: configure_point_to_point_def split_def Let_def cs_def cidr_def[symmetric])
qed

theorem point_to_point_steps_witness:
  "fst (configure_point_to_point (\<lambda>c. []) ''eth0'' ''air'') = ''ok eth0 10.77.0.2/30''"
  using point_to_point_steps[of "''eth0''" "\<lambda>c. []" "''air''"] by (simp add: point_to_point_cidr_def)

end
