(* ===== verification/Preview_Control.thy ===== *)
theory Preview_Control
  imports Glide_Prelude Cpp_Text
begin

text \<open>
  \<open>src/common/preview_control.cpp\<close>: settings the processes share through small files of the
  temporary directory. The file system is a map from paths to contents; the temporary directory and
  which paths can be written are arguments. The locale \<open>stored_setting\<close> states what one setting
  promises; each setting of the file is an interpretation of it.
\<close>

type_synonym files = "string \<rightharpoonup> string"

section \<open>Paths\<close>

definition join_path :: "string \<Rightarrow> string \<Rightarrow> string" where
  "join_path dir name = (if dir \<noteq> [] \<and> last dir \<noteq> CHR ''/'' then dir @ ''/'' @ name else dir @ name)"

definition fps_control_path :: "string \<Rightarrow> string" where
  "fps_control_path tmp = join_path tmp ''openhd-glide-flow-fps.enabled''"

definition coordinates_control_path :: "string \<Rightarrow> string" where
  "coordinates_control_path tmp = join_path tmp ''openhd-glide-flow-coordinates.enabled''"

definition compact_readouts_control_path :: "string \<Rightarrow> string" where
  "compact_readouts_control_path tmp = join_path tmp ''openhd-glide-flow-compact-readouts.enabled''"

definition top_bar_control_path :: "string \<Rightarrow> string" where
  "top_bar_control_path tmp = join_path tmp ''openhd-glide-flow-topbar.enabled''"

definition osd_layout_control_path :: "string \<Rightarrow> string" where
  "osd_layout_control_path tmp = join_path tmp ''openhd-glide-flow-osd.layout''"

definition theme_color_path :: "string \<Rightarrow> string \<Rightarrow> string" where
  "theme_color_path tmp key = join_path tmp (''openhd-glide-theme-'' @ key @ ''.rgb'')"

section \<open>Reading and writing\<close>

definition default_theme_color :: "string \<Rightarrow> u32" where
  "default_theme_color key =
     (if key = ''bar_text'' then 0xebf5ff
      else if key = ''bar_background'' then 0x0e1318
      else if key = ''primary'' then 0x99ffb8
      else if key = ''secondary'' then 0x55a8ff
      else 0xffffff)"

text \<open>The value a \<open>char\<close> read from the file has; \<open>None\<close> when the file cannot be opened.\<close>

definition read_flag :: "bool \<Rightarrow> string \<Rightarrow> files \<Rightarrow> bool" where
  "read_flag missing p fs =
     (case fs p of None \<Rightarrow> missing
      | Some contents \<Rightarrow> fst (read_char (CHR 0x00) (istringstream contents)) \<noteq> CHR ''0'')"

definition read_enabled_file :: "string \<Rightarrow> files \<Rightarrow> bool" where
  "read_enabled_file = read_flag True"

text \<open>\<open>std::ofstream\<close> with \<open>trunc\<close>: nothing happens when the path cannot be written.\<close>

definition write_file :: "(string \<Rightarrow> bool) \<Rightarrow> string \<Rightarrow> string \<Rightarrow> files \<Rightarrow> files" where
  "write_file writable p contents fs = (if writable p then fs(p \<mapsto> contents) else fs)"

definition write_enabled_file :: "(string \<Rightarrow> bool) \<Rightarrow> string \<Rightarrow> bool \<Rightarrow> files \<Rightarrow> files" where
  "write_enabled_file writable p enabled =
     write_file writable p [if enabled then CHR ''1'' else CHR ''0'', CHR 0x0A]"

text \<open>\<open>file >> value\<close> on a stream that may not have opened.\<close>

definition read_word :: "string \<Rightarrow> files \<Rightarrow> string" where
  "read_word p fs =
     (case fs p of None \<Rightarrow> [] | Some contents \<Rightarrow> fst (read_token [] (istringstream contents)))"

section \<open>The settings\<close>

definition fps_overlay_enabled :: "string \<Rightarrow> files \<Rightarrow> bool" where
  "fps_overlay_enabled tmp = read_enabled_file (fps_control_path tmp)"

definition set_fps_overlay_enabled :: "string \<Rightarrow> (string \<Rightarrow> bool) \<Rightarrow> bool \<Rightarrow> files \<Rightarrow> files" where
  "set_fps_overlay_enabled tmp w = write_enabled_file w (fps_control_path tmp)"

definition coordinates_overlay_enabled :: "string \<Rightarrow> files \<Rightarrow> bool" where
  "coordinates_overlay_enabled tmp = read_enabled_file (coordinates_control_path tmp)"

definition set_coordinates_overlay_enabled :: "string \<Rightarrow> (string \<Rightarrow> bool) \<Rightarrow> bool \<Rightarrow> files \<Rightarrow> files" where
  "set_coordinates_overlay_enabled tmp w = write_enabled_file w (coordinates_control_path tmp)"

definition compact_readouts_enabled :: "string \<Rightarrow> files \<Rightarrow> bool" where
  "compact_readouts_enabled tmp = read_flag False (compact_readouts_control_path tmp)"

definition set_compact_readouts_enabled :: "string \<Rightarrow> (string \<Rightarrow> bool) \<Rightarrow> bool \<Rightarrow> files \<Rightarrow> files" where
  "set_compact_readouts_enabled tmp w = write_enabled_file w (compact_readouts_control_path tmp)"

definition top_bar_enabled :: "string \<Rightarrow> files \<Rightarrow> bool" where
  "top_bar_enabled tmp = read_enabled_file (top_bar_control_path tmp)"

definition set_top_bar_enabled :: "string \<Rightarrow> (string \<Rightarrow> bool) \<Rightarrow> bool \<Rightarrow> files \<Rightarrow> files" where
  "set_top_bar_enabled tmp w = write_enabled_file w (top_bar_control_path tmp)"

definition osd_layout :: "string \<Rightarrow> files \<Rightarrow> string" where
  "osd_layout tmp fs =
     (let v = read_word (osd_layout_control_path tmp) fs
      in if v = ''rocket'' \<or> v = ''rover'' \<or> v = ''ship'' then v else ''drone'')"

definition set_osd_layout :: "string \<Rightarrow> (string \<Rightarrow> bool) \<Rightarrow> string \<Rightarrow> files \<Rightarrow> files" where
  "set_osd_layout tmp w layout =
     write_file w (osd_layout_control_path tmp)
       ((if layout = ''rocket'' \<or> layout = ''rover'' \<or> layout = ''ship'' then layout else ''drone'') @ [CHR 0x0A])"

definition theme_color :: "string \<Rightarrow> string \<Rightarrow> files \<Rightarrow> u32" where
  "theme_color tmp key fs =
     (let v = read_word (theme_color_path tmp key) fs
      in if length v = 6 \<and> list_all is_xdigit v then of_nat (xdigits_val v) else default_theme_color key)"

definition rgb_text :: "u32 \<Rightarrow> string" where
  "rgb_text rgb = (let h = hex_str (unat (rgb AND 0xFFFFFF))
                   in replicate (6 - length h) (CHR ''0'') @ h @ [CHR 0x0A])"

definition set_theme_color :: "string \<Rightarrow> (string \<Rightarrow> bool) \<Rightarrow> string \<Rightarrow> u32 \<Rightarrow> files \<Rightarrow> files" where
  "set_theme_color tmp w key rgb = write_file w (theme_color_path tmp key) (rgb_text rgb)"

section \<open>What a setting promises\<close>

text \<open>
  A setting lives in one file: reading it after a write gives the value written, brought to its
  normal form; reading depends on that file only; writing changes no other file.
\<close>

locale stored_setting =
  fixes path :: string
    and get :: "files \<Rightarrow> 'v"
    and put :: "(string \<Rightarrow> bool) \<Rightarrow> 'v \<Rightarrow> files \<Rightarrow> files"
    and norm :: "'v \<Rightarrow> 'v"
  assumes get_put: "w path \<Longrightarrow> get (put w v fs) = norm v"
    and get_local: "fs path = fs' path \<Longrightarrow> get fs = get fs'"
    and put_frame: "q \<noteq> path \<Longrightarrow> put w v fs q = fs q"
    and put_refused: "\<not> w path \<Longrightarrow> put w v fs = fs"
    and norm_norm: "norm (norm v) = norm v"
begin

lemma get_put_always: "get (put w v fs) = (if w path then norm v else get fs)"
  by (simp add: get_put put_refused)

lemma get_write_other: "q \<noteq> path \<Longrightarrow> get (write_file w q contents fs) = get fs"
  by (rule get_local) (simp add: write_file_def)

lemma last_put_wins: "w path \<Longrightarrow> get (put w v' (put w v fs)) = norm v'"
  by (simp add: get_put)

end

locale two_settings =
  a: stored_setting pa geta puta norma + b: stored_setting pb getb putb normb
  for pa :: string and geta :: "files \<Rightarrow> 'a" and puta norma
    and pb :: string and getb :: "files \<Rightarrow> 'b" and putb normb +
  assumes paths_differ: "pa \<noteq> pb"
begin

lemma independent: "getb (puta w v fs) = getb fs" "geta (putb w u fs) = geta fs"
  using paths_differ by (auto intro: b.get_local a.get_local a.put_frame b.put_frame)

end

lemma read_char_first: "\<not> is_space c \<Longrightarrow> fst (read_char old (istringstream (c # r))) = c"
  by (simp add: read_char_def sentry_def istringstream_def good_def Let_def)

lemma read_flag_written: "w p \<Longrightarrow> read_flag missing p (write_enabled_file w p v fs) = v"
  by (simp add: read_flag_def write_enabled_file_def write_file_def read_char_first is_space_def)

lemma flag_setting:
  "stored_setting p (read_flag missing p) (\<lambda>w v. write_enabled_file w p v) (\<lambda>v. v)"
  by unfold_locales
     (auto simp: read_flag_written, auto simp: read_flag_def write_enabled_file_def write_file_def)

lemma read_word_written:
  assumes "w p" and "word_text v"
  shows "read_word p (write_file w p (v @ [CHR 0x0A]) fs) = v"
proof -
  have "istringstream (v @ [CHR 0x0A]) = stream_at (v @ [CHR 0x0A])"
    by (simp add: istringstream_def stream_at_def)
  then show ?thesis
    using assms by (simp add: read_word_def write_file_def read_token_word)
qed

lemma word_text_layouts:
  "word_text ''rocket''" "word_text ''rover''" "word_text ''ship''" "word_text ''drone''"
  by (simp_all add: word_text_def is_space_def)

definition norm_layout :: "string \<Rightarrow> string" where
  "norm_layout l = (if l = ''rocket'' \<or> l = ''rover'' \<or> l = ''ship'' then l else ''drone'')"

lemma layout_setting:
  "stored_setting (osd_layout_control_path tmp) (osd_layout tmp) (set_osd_layout tmp) norm_layout"
proof
  fix w :: "string \<Rightarrow> bool" and v fs
  assume w: "w (osd_layout_control_path tmp)"
  have "word_text (norm_layout v)"
    using word_text_layouts by (auto simp: norm_layout_def)
  then have "read_word (osd_layout_control_path tmp) (set_osd_layout tmp w v fs) = norm_layout v"
    using read_word_written[where w = w, OF w] by (simp add: set_osd_layout_def norm_layout_def)
  then show "osd_layout tmp (set_osd_layout tmp w v fs) = norm_layout v"
    by (simp add: osd_layout_def norm_layout_def)
qed (auto simp: osd_layout_def read_word_def set_osd_layout_def write_file_def norm_layout_def)

lemma xdigits_val_append:
  "xdigits_val (replicate n (CHR ''0'') @ h) = xdigits_val h"
proof -
  have "foldl (\<lambda>v c. 16 * v + xdigit_val c) 0 (replicate n (CHR ''0'')) = 0"
    by (induction n) (simp_all add: xdigit_val_def)
  then show ?thesis by (simp add: xdigits_val_def)
qed

lemma theme_setting:
  "stored_setting (theme_color_path tmp key) (theme_color tmp key) (\<lambda>w. set_theme_color tmp w key)
     (\<lambda>rgb. rgb AND 0xFFFFFF)"
proof
  fix w :: "string \<Rightarrow> bool" and v :: u32 and fs
  assume w: "w (theme_color_path tmp key)"
  define n where "n = unat (v AND 0xFFFFFF)"
  have "v AND 0xFFFFFF = take_bit 24 v"
    by (simp add: take_bit_eq_mask mask_eq_exp_minus_1)
  then have n: "n < 16 ^ 6"
    using take_bit_nat_less_exp[of 24 "unat v"] by (simp add: n_def unsigned_take_bit_eq)
  define h where "h = replicate (6 - length (hex_str n)) (CHR ''0'') @ hex_str n"
  have h: "length h = 6" "\<forall>c \<in> set h. is_xdigit c" "xdigits_val h = n"
    using length_hex_str[OF _ n] hex_str_xdigits[of n]
    by (auto simp: h_def xdigits_val_append is_xdigit_def)
  then have "word_text h" by (auto simp: word_text_def)
  then have "read_word (theme_color_path tmp key) (set_theme_color tmp w key v fs) = h"
    using read_word_written[where w = w, OF w, of h fs]
    by (simp add: set_theme_color_def rgb_text_def h_def n_def Let_def)
  then show "theme_color tmp key (set_theme_color tmp w key v fs) = v AND 0xFFFFFF"
    using h by (simp add: theme_color_def list_all_iff n_def)
qed (auto simp: theme_color_def read_word_def set_theme_color_def write_file_def and.assoc)

interpretation fps: stored_setting "fps_control_path tmp" "fps_overlay_enabled tmp"
  "set_fps_overlay_enabled tmp" "\<lambda>v. v" for tmp
  using flag_setting[of "fps_control_path tmp" True]
  by (simp add: fps_overlay_enabled_def read_enabled_file_def set_fps_overlay_enabled_def[abs_def])

interpretation coordinates: stored_setting "coordinates_control_path tmp" "coordinates_overlay_enabled tmp"
  "set_coordinates_overlay_enabled tmp" "\<lambda>v. v" for tmp
  using flag_setting[of "coordinates_control_path tmp" True]
  by (simp add: coordinates_overlay_enabled_def read_enabled_file_def set_coordinates_overlay_enabled_def[abs_def])

interpretation compact: stored_setting "compact_readouts_control_path tmp" "compact_readouts_enabled tmp"
  "set_compact_readouts_enabled tmp" "\<lambda>v. v" for tmp
  using flag_setting[of "compact_readouts_control_path tmp" False]
  by (simp add: compact_readouts_enabled_def set_compact_readouts_enabled_def[abs_def])

interpretation top_bar: stored_setting "top_bar_control_path tmp" "top_bar_enabled tmp"
  "set_top_bar_enabled tmp" "\<lambda>v. v" for tmp
  using flag_setting[of "top_bar_control_path tmp" True]
  by (simp add: top_bar_enabled_def read_enabled_file_def set_top_bar_enabled_def[abs_def])

interpretation layout: stored_setting "osd_layout_control_path tmp" "osd_layout tmp"
  "set_osd_layout tmp" norm_layout for tmp
  by (rule layout_setting)

interpretation theme: stored_setting "theme_color_path tmp key" "theme_color tmp key"
  "\<lambda>w. set_theme_color tmp w key" "\<lambda>rgb. rgb AND 0xFFFFFF" for tmp key
  by (rule theme_setting)

lemma join_path_inject [simp]: "join_path d n = join_path d m \<longleftrightarrow> n = m"
  by (simp add: join_path_def)

lemmas setting_path_defs = fps_control_path_def coordinates_control_path_def
  compact_readouts_control_path_def top_bar_control_path_def osd_layout_control_path_def theme_color_path_def

interpretation fps_layout: two_settings "fps_control_path tmp" "fps_overlay_enabled tmp"
  "set_fps_overlay_enabled tmp" "\<lambda>v. v" "osd_layout_control_path tmp" "osd_layout tmp"
  "set_osd_layout tmp" norm_layout for tmp
  by unfold_locales (simp add: setting_path_defs)

interpretation theme_layout: two_settings "theme_color_path tmp key" "theme_color tmp key"
  "\<lambda>w. set_theme_color tmp w key" "\<lambda>rgb. rgb AND 0xFFFFFF" "osd_layout_control_path tmp" "osd_layout tmp"
  "set_osd_layout tmp" norm_layout for tmp key
  by unfold_locales (simp add: setting_path_defs)

section \<open>Properties\<close>

text \<open>Every setting reads back as it was written: the four switches as they are, the layout as
  itself when it is one of the four known ones and as the drone layout otherwise, and a theme color
  by its 24 color bits; and where the file cannot be written the setting keeps its value.\<close>

theorem settings_read_back:
  "fps_overlay_enabled tmp (set_fps_overlay_enabled tmp w v fs)
     = (if w (fps_control_path tmp) then v else fps_overlay_enabled tmp fs) \<and>
   coordinates_overlay_enabled tmp (set_coordinates_overlay_enabled tmp w v fs)
     = (if w (coordinates_control_path tmp) then v else coordinates_overlay_enabled tmp fs) \<and>
   compact_readouts_enabled tmp (set_compact_readouts_enabled tmp w v fs)
     = (if w (compact_readouts_control_path tmp) then v else compact_readouts_enabled tmp fs) \<and>
   top_bar_enabled tmp (set_top_bar_enabled tmp w v fs)
     = (if w (top_bar_control_path tmp) then v else top_bar_enabled tmp fs) \<and>
   osd_layout tmp (set_osd_layout tmp w l fs)
     = (if w (osd_layout_control_path tmp) then norm_layout l else osd_layout tmp fs) \<and>
   theme_color tmp key (set_theme_color tmp w key rgb fs)
     = (if w (theme_color_path tmp key) then rgb AND 0xFFFFFF else theme_color tmp key fs)"
  by (intro conjI fps.get_put_always coordinates.get_put_always compact.get_put_always
      top_bar.get_put_always layout.get_put_always theme.get_put_always)

text \<open>settings do not disturb each other: a write of a theme color changes no other theme color,
  no switch and not the layout, and a write of the layout changes no switch and no theme color.\<close>

theorem settings_independent:
  assumes "key' \<noteq> key"
  shows "theme_color tmp key' (set_theme_color tmp w key rgb fs) = theme_color tmp key' fs \<and>
    fps_overlay_enabled tmp (set_theme_color tmp w key rgb fs) = fps_overlay_enabled tmp fs \<and>
    osd_layout tmp (set_theme_color tmp w key rgb fs) = osd_layout tmp fs \<and>
    theme_color tmp key (set_osd_layout tmp w l fs) = theme_color tmp key fs \<and>
    fps_overlay_enabled tmp (set_osd_layout tmp w l fs) = fps_overlay_enabled tmp fs \<and>
    osd_layout tmp (set_fps_overlay_enabled tmp w v fs) = osd_layout tmp fs \<and>
    top_bar_enabled tmp (set_fps_overlay_enabled tmp w v fs) = top_bar_enabled tmp fs \<and>
    compact_readouts_enabled tmp (set_coordinates_overlay_enabled tmp w v fs) = compact_readouts_enabled tmp fs"
proof (intro conjI)
  show "theme_color tmp key' (set_theme_color tmp w key rgb fs) = theme_color tmp key' fs"
    unfolding set_theme_color_def by (rule theme.get_write_other) (use assms in \<open>simp add: setting_path_defs\<close>)
  show "fps_overlay_enabled tmp (set_theme_color tmp w key rgb fs) = fps_overlay_enabled tmp fs"
    unfolding set_theme_color_def by (rule fps.get_write_other) (simp add: setting_path_defs)
  show "top_bar_enabled tmp (set_fps_overlay_enabled tmp w v fs) = top_bar_enabled tmp fs"
    unfolding set_fps_overlay_enabled_def write_enabled_file_def
    by (rule top_bar.get_write_other) (simp add: setting_path_defs)
  show "compact_readouts_enabled tmp (set_coordinates_overlay_enabled tmp w v fs) = compact_readouts_enabled tmp fs"
    unfolding set_coordinates_overlay_enabled_def write_enabled_file_def
    by (rule compact.get_write_other) (simp add: setting_path_defs)
qed (rule fps_layout.independent theme_layout.independent)+

theorem settings_independent_witness:
  "theme_color ''/tmp'' ''primary'' (set_theme_color ''/tmp'' (\<lambda>p. True) ''secondary'' 0x112233 (\<lambda>p. None)) = 0x99ffb8"
proof -
  have "theme_color ''/tmp'' ''primary'' (\<lambda>p. None) = 0x99ffb8"
    by (simp add: theme_color_def read_word_def default_theme_color_def)
  then show ?thesis
    using settings_independent[of "''primary''" "''secondary''" "''/tmp''" "\<lambda>p. True" "0x112233" "\<lambda>p. None"]
    by simp
qed

end
