(* ===== verification/Platform.thy ===== *)
theory Platform
  imports Cpp_Float "HOL-Library.Multiset" "HOL-Library.List_Lexorder" "HOL-Library.Char_ord"
begin

text \<open>
  \<open>src/platform\<close>: the CPU topology read from sysfs, the assignment of the worker processes to
  cores, the search for a running OpenHD process, and the DRM plane probe. What sysfs, procfs and
  libdrm answer is an argument. The ranking of cores is an instance of \<open>linorder\<close>, so that the
  sort of the sources is the library's \<open>sort_key\<close>. The lemmas give what an assignment promises.
\<close>

section \<open>CPU topology\<close>

record core_info =
  logical_id :: nat
  physical_package_id :: "nat option"
  core_id :: "nat option"
  current_frequency_khz :: "nat option"
  max_frequency_khz :: "nat option"
  online :: bool

text \<open>A directory entry of the CPU root: its name and the files below it.\<close>

record cpu_entry =
  ce_name :: string
  ce_directory :: bool
  ce_file :: "string \<Rightarrow> string option"

definition read_u64_file :: "string option \<Rightarrow> nat option" where
  "read_u64_file f =
     (case f of None \<Rightarrow> None
      | Some contents \<Rightarrow>
          (let (v, st) = read_unsigned 64 0 (istringstream contents)
           in if failbit st then None else Some (nat v)))"

definition read_uint_file :: "string option \<Rightarrow> nat option" where
  "read_uint_file f = map_option (\<lambda>v. v mod 2 ^ 32) (read_u64_file f)"

definition is_cpu_directory :: "cpu_entry \<Rightarrow> bool" where
  "is_cpu_directory e \<longleftrightarrow>
     ce_directory e \<and> 3 < length (ce_name e) \<and> take 3 (ce_name e) = ''cpu'' \<and>
     list_all is_digit (drop 3 (ce_name e))"

text \<open>\<open>None\<close> where \<open>std::stoul\<close> throws because the number is no \<open>unsigned long\<close>.\<close>

definition probe_linux_cpu :: "cpu_entry \<Rightarrow> core_info option" where
  "probe_linux_cpu e =
     (let n = digits_val (drop 3 (ce_name e)) in
      if 2 ^ 64 \<le> n then None
      else Some \<lparr>logical_id = n mod 2 ^ 32,
             physical_package_id = read_uint_file (ce_file e ''topology/physical_package_id''),
             core_id = read_uint_file (ce_file e ''topology/core_id''),
             current_frequency_khz = read_u64_file (ce_file e ''cpufreq/scaling_cur_freq''),
             max_frequency_khz = read_u64_file (ce_file e ''cpufreq/cpuinfo_max_freq''),
             online = (case read_u64_file (ce_file e ''online'') of Some v \<Rightarrow> v \<noteq> 0 | None \<Rightarrow> True)\<rparr>)"

definition fallback_topology :: "nat \<Rightarrow> core_info list" where
  "fallback_topology hardware_concurrency =
     map (\<lambda>i. \<lparr>logical_id = i, physical_package_id = None, core_id = None,
                current_frequency_khz = None, max_frequency_khz = None, online = True\<rparr>)
       [0..<max 1 hardware_concurrency]"

text \<open>The directory's entries are \<open>None\<close> when it does not exist.\<close>

definition probe_cpu_topology :: "nat \<Rightarrow> cpu_entry list option \<Rightarrow> core_info list option" where
  "probe_cpu_topology hardware_concurrency root =
     (case those (map probe_linux_cpu
             (filter is_cpu_directory (case root of Some es \<Rightarrow> es | None \<Rightarrow> []))) of
        None \<Rightarrow> None
      | Some cores \<Rightarrow>
          if cores \<noteq> [] then Some (sort_key logical_id cores)
          else Some (fallback_topology hardware_concurrency))"

definition yes_no :: "bool \<Rightarrow> string" where
  "yes_no b = (if b then ''yes'' else ''no'')"

definition format_frequency :: "nat option \<Rightarrow> string" where
  "format_frequency khz =
     (case khz of None \<Rightarrow> ''unknown''
      | Some v \<Rightarrow> fp_fixed 2 (fp_div_nat f64 (fp_of_int f64 (int v)) 1000000) @ '' GHz'')"

definition opt_nat_str :: "string \<Rightarrow> nat option \<Rightarrow> string" where
  "opt_nat_str missing v = (case v of None \<Rightarrow> missing | Some n \<Rightarrow> nat_str n)"

definition nl :: string where "nl = [CHR 0x0A]"

definition describe_core :: "core_info \<Rightarrow> string" where
  "describe_core c =
     ''  cpu'' @ nat_str (logical_id c) @ '' online='' @ yes_no (online c)
     @ '' package='' @ opt_nat_str ''unknown'' (physical_package_id c)
     @ '' core='' @ opt_nat_str ''unknown'' (core_id c)
     @ '' current='' @ format_frequency (current_frequency_khz c)
     @ '' max='' @ format_frequency (max_frequency_khz c) @ nl"

definition describe_cpu_topology :: "core_info list \<Rightarrow> string" where
  "describe_cpu_topology cores =
     ''CPU topology: '' @ nat_str (length cores) @ '' logical core(s)'' @ nl
     @ concat (map describe_core cores)"

section \<open>Ranking\<close>

text \<open>The comparator of the sources: higher frequency first, then the lower identifier.\<close>

datatype core_rank = Rank (rank_frequency: nat) (rank_id: nat)

instantiation core_rank :: linorder
begin

definition less_core_rank :: "core_rank \<Rightarrow> core_rank \<Rightarrow> bool" where
  "less_core_rank a b \<longleftrightarrow>
     (if rank_frequency a \<noteq> rank_frequency b then rank_frequency b < rank_frequency a
      else rank_id a < rank_id b)"

definition less_eq_core_rank :: "core_rank \<Rightarrow> core_rank \<Rightarrow> bool" where
  "less_eq_core_rank a b \<longleftrightarrow> a = b \<or> a < b"

instance
proof
  fix a b c :: core_rank
  show "(a < b) = (a \<le> b \<and> \<not> b \<le> a)"
    by (cases a; cases b) (auto simp: less_core_rank_def less_eq_core_rank_def)
  show "a \<le> a" by (simp add: less_eq_core_rank_def)
  show "a \<le> b \<Longrightarrow> b \<le> c \<Longrightarrow> a \<le> c"
    by (cases a; cases b; cases c) (auto simp: less_core_rank_def less_eq_core_rank_def split: if_splits)
  show "a \<le> b \<Longrightarrow> b \<le> a \<Longrightarrow> a = b"
    by (cases a; cases b) (auto simp: less_core_rank_def less_eq_core_rank_def split: if_splits)
  show "a \<le> b \<or> b \<le> a"
    by (cases a; cases b) (auto simp: less_core_rank_def less_eq_core_rank_def)
qed

end

definition ranking_frequency :: "core_info \<Rightarrow> nat" where
  "ranking_frequency c =
     (case max_frequency_khz c of Some f \<Rightarrow> f
      | None \<Rightarrow> (case current_frequency_khz c of Some f \<Rightarrow> f | None \<Rightarrow> 0))"

definition core_rank_of :: "core_info \<Rightarrow> core_rank" where
  "core_rank_of c = Rank (ranking_frequency c) (logical_id c)"

section \<open>Assignment\<close>

definition online_cores :: "bool \<Rightarrow> core_info list \<Rightarrow> core_info list" where
  "online_cores avoid_core0 cores =
     sort_key core_rank_of (filter (\<lambda>c. online c \<and> \<not> (avoid_core0 \<and> logical_id c = 0)) cores)"

record assignment =
  worker_name :: string
  logical_core :: nat
  shares_core :: bool
  reason :: string

definition candidate_cores :: "bool \<Rightarrow> core_info list \<Rightarrow> core_info list" where
  "candidate_cores avoid_core0 cores =
     (let cs = online_cores avoid_core0 cores
      in if cs = [] \<and> avoid_core0 then online_cores False cores else cs)"

definition assign_worker_cores :: "bool \<Rightarrow> core_info list \<Rightarrow> assignment list" where
  "assign_worker_cores avoid_core0 topology =
     (case map logical_id (candidate_cores avoid_core0 topology) of
        [] \<Rightarrow> []
      | view_core # others \<Rightarrow>
          \<lparr>worker_name = ''glide-view'', logical_core = view_core, shares_core = False,
           reason = (if avoid_core0 \<and> view_core \<noteq> 0
             then ''highest priority worker on fastest online non-core0 because OpenHD is running''
             else ''highest priority worker on fastest online core'')\<rparr> #
          (case others of
             [] \<Rightarrow>
               [\<lparr>worker_name = ''glide-flow'', logical_core = view_core, shares_core = True,
                 reason = ''no non-view core available; single-core systems are not a target''\<rparr>,
                \<lparr>worker_name = ''glide-ui'', logical_core = view_core, shares_core = True,
                 reason = ''no non-view core available; single-core systems are not a target''\<rparr>]
           | flow_core # rest \<Rightarrow>
               [\<lparr>worker_name = ''glide-flow'', logical_core = flow_core, shares_core = False,
                 reason = ''second priority worker on next fastest online core''\<rparr>,
                case rest of
                  ui_core # _ \<Rightarrow>
                    \<lparr>worker_name = ''glide-ui'', logical_core = ui_core, shares_core = False,
                     reason = ''lowest priority worker, but enough cores are available for a fast isolated core''\<rparr>
                | [] \<Rightarrow>
                    \<lparr>worker_name = ''glide-ui'', logical_core = flow_core, shares_core = True,
                     reason = ''only one non-view core available; sharing with glide-flow keeps glide-view isolated''\<rparr>]))"

definition describe_assignment :: "assignment \<Rightarrow> string" where
  "describe_assignment a =
     ''  '' @ worker_name a @ '' -> cpu'' @ nat_str (logical_core a)
     @ '' shared='' @ yes_no (shares_core a) @ '' reason='' @ [CHR 0x22] @ reason a @ [CHR 0x22] @ nl"

definition describe_worker_core_assignments :: "assignment list \<Rightarrow> string" where
  "describe_worker_core_assignments as =
     ''Worker CPU assignments: '' @ nat_str (length as) @ '' worker(s)'' @ nl
     @ concat (map describe_assignment as)"

section \<open>The OpenHD process\<close>

record proc_entry =
  pe_name :: string
  pe_comm :: "string option"
  pe_cmdline :: "string option"

definition is_numeric_name :: "string \<Rightarrow> bool" where
  "is_numeric_name name \<longleftrightarrow> name \<noteq> [] \<and> list_all is_digit name"

definition read_first_line :: "string option \<Rightarrow> string" where
  "read_first_line f = (case f of None \<Rightarrow> [] | Some c \<Rightarrow> fst (read_line [] (istringstream c)))"

definition is_relevant_openhd_name :: "string \<Rightarrow> bool" where
  "is_relevant_openhd_name name \<longleftrightarrow>
     name \<noteq> ''openhd-glide'' \<and>
     (name = ''openhd'' \<or> take 7 name = ''openhd-'' \<or> take 6 name = ''OpenHD'')"

definition base_name :: "string \<Rightarrow> string" where
  "base_name v = rev (takeWhile (\<lambda>c. c \<noteq> CHR ''/'') (rev v))"

definition read_cmdline_argv0 :: "string option \<Rightarrow> string" where
  "read_cmdline_argv0 f =
     (case f of None \<Rightarrow> []
      | Some c \<Rightarrow> base_name (fst (read_line_until (CHR 0x00) [] (istringstream c))))"

definition is_openhd_process_running :: "proc_entry list option \<Rightarrow> bool" where
  "is_openhd_process_running proc =
     (case proc of None \<Rightarrow> False
      | Some es \<Rightarrow> list_ex (\<lambda>e. is_numeric_name (pe_name e) \<and>
          (is_relevant_openhd_name (read_first_line (pe_comm e)) \<or>
           is_relevant_openhd_name (read_cmdline_argv0 (pe_cmdline e)))) es)"

section \<open>DRM planes\<close>

definition format_fourcc :: "u32 \<Rightarrow> string" where
  "format_fourcc f = map char_of_byte
     [ucast (f AND 0xFF), ucast (drop_bit 8 f AND 0xFF), ucast (drop_bit 16 f AND 0xFF),
      ucast (drop_bit 24 f AND 0xFF)]"

record plane_info =
  plane_id :: u32
  possible_crtcs :: u32
  current_crtc_id :: "u32 option"
  plane_x :: "int option"
  plane_y :: "int option"
  plane_width :: "nat option"
  plane_height :: "nat option"
  plane_formats :: "u32 list"

record device_info =
  dev_path :: string
  available :: bool
  dev_status :: string
  planes :: "plane_info list"

text \<open>
  What libdrm answers about a plane: its fields, and its properties as (name, value), the name
  \<open>None\<close> where the property cannot be read; \<open>None\<close> for the list when there is no property object.
\<close>

record plane_answer =
  pa_crtcs :: u32
  pa_crtc :: u32
  pa_formats :: "u32 list"
  pa_properties :: "(string option \<times> u64) list option"

record device_answer =
  da_open :: bool
  da_universal :: bool
  da_planes :: "u32 list option"
  da_plane :: "u32 \<Rightarrow> plane_answer option"

definition get_plane_property :: "(string option \<times> u64) list option \<Rightarrow> string \<Rightarrow> u64 option" where
  "get_plane_property properties name =
     (case properties of None \<Rightarrow> None
      | Some ps \<Rightarrow> map_option snd (List.find (\<lambda>(n, _). n = Some name) ps))"

definition read_plane :: "(u32 \<Rightarrow> plane_answer option) \<Rightarrow> u32 \<Rightarrow> plane_info" where
  "read_plane env i =
     (case env i of
        None \<Rightarrow> \<lparr>plane_id = i, possible_crtcs = 0, current_crtc_id = None, plane_x = None,
                 plane_y = None, plane_width = None, plane_height = None, plane_formats = []\<rparr>
      | Some p \<Rightarrow>
          (let signed = (\<lambda>v. sint (ucast (v :: u64) :: u32)); unsigned = (\<lambda>v. unat (ucast (v :: u64) :: u32));
               property = get_plane_property (pa_properties p)
           in \<lparr>plane_id = i, possible_crtcs = pa_crtcs p,
               current_crtc_id = (if pa_crtc p \<noteq> 0 then Some (pa_crtc p) else None),
               plane_x = map_option signed (property ''CRTC_X''),
               plane_y = map_option signed (property ''CRTC_Y''),
               plane_width = map_option unsigned (property ''CRTC_W''),
               plane_height = map_option unsigned (property ''CRTC_H''),
               plane_formats = pa_formats p\<rparr>))"

definition probe_device :: "device_answer \<Rightarrow> string \<Rightarrow> device_info" where
  "probe_device env path =
     (let failed = (\<lambda>status. \<lparr>dev_path = path, available = False, dev_status = status, planes = []\<rparr>) in
      if \<not> da_open env then failed ''not accessible''
      else if \<not> da_universal env then failed ''failed to enable universal planes''
      else case da_planes env of
        None \<Rightarrow> failed ''failed to read plane resources''
      | Some ids \<Rightarrow> \<lparr>dev_path = path, available = True, dev_status = ''ok'',
                     planes = map (read_plane (da_plane env)) ids\<rparr>)"

text \<open>The names below \<open>/dev/dri\<close>, \<open>None\<close> when the directory does not exist.\<close>

definition find_drm_device_paths :: "string list option \<Rightarrow> string list" where
  "find_drm_device_paths names =
     (case names of None \<Rightarrow> []
      | Some ns \<Rightarrow> sort (map (\<lambda>n. ''/dev/dri/'' @ n) (filter (\<lambda>n. take 4 n = ''card'') ns)))"

definition probe_drm_planes :: "string list option \<Rightarrow> (string \<Rightarrow> device_answer) \<Rightarrow> device_info list" where
  "probe_drm_planes names env =
     (let paths = find_drm_device_paths names in
      if paths = []
      then [\<lparr>dev_path = ''/dev/dri'', available = False, dev_status = ''no DRM card devices found'', planes = []\<rparr>]
      else map (\<lambda>p. probe_device (env p) p) paths)"

definition join_with :: "string \<Rightarrow> string list \<Rightarrow> string" where
  "join_with sep xs = (case xs of [] \<Rightarrow> [] | x # rest \<Rightarrow> x @ concat (map (\<lambda>y. sep @ y) rest))"

definition opt_int_str :: "int option \<Rightarrow> string" where
  "opt_int_str v = (case v of None \<Rightarrow> ''?'' | Some i \<Rightarrow> int_str i)"

definition describe_formats :: "u32 list \<Rightarrow> string" where
  "describe_formats fs =
     (if fs = [] then []
      else '' formats='' @ join_with '','' (map format_fourcc (take 6 fs))
           @ (if 6 < length fs then '',...'' else []))"

definition describe_plane :: "plane_info \<Rightarrow> string" where
  "describe_plane p =
     ''  plane '' @ nat_str (unat (plane_id p)) @ '' possible_crtcs=0x'' @ hex_str (unat (possible_crtcs p))
     @ '' crtc='' @ opt_nat_str ''none'' (map_option unat (current_crtc_id p))
     @ '' pos=('' @ opt_int_str (plane_x p) @ '','' @ opt_int_str (plane_y p) @ '')''
     @ '' size='' @ opt_nat_str ''?'' (plane_width p) @ ''x'' @ opt_nat_str ''?'' (plane_height p)
     @ describe_formats (plane_formats p) @ nl"

definition describe_device :: "device_info \<Rightarrow> string" where
  "describe_device d =
     ''DRM device '' @ dev_path d @ '': '' @ dev_status d
     @ (if available d then '' ('' @ nat_str (length (planes d)) @ '' plane(s))'' else []) @ nl
     @ concat (map describe_plane (planes d))"

definition describe_drm_probe :: "device_info list \<Rightarrow> string" where
  "describe_drm_probe ds = concat (map describe_device ds)"

section \<open>Lemmas\<close>

lemma set_online_cores:
  "c \<in> set (online_cores avoid cores) \<longleftrightarrow> c \<in> set cores \<and> online c \<and> \<not> (avoid \<and> logical_id c = 0)"
  by (auto simp: online_cores_def)

lemma online_cores_Nil:
  "online_cores avoid cores = [] \<longleftrightarrow> (\<forall>c \<in> set cores. \<not> (online c \<and> \<not> (avoid \<and> logical_id c = 0)))"
proof -
  have "sort_key core_rank_of xs = [] \<longleftrightarrow> xs = []" for xs
    by (metis length_0_conv length_sort)
  then show ?thesis by (simp add: online_cores_def filter_empty_conv)
qed

lemma candidate_cores_online: "c \<in> set (candidate_cores avoid cores) \<Longrightarrow> c \<in> set cores \<and> online c"
  by (auto simp: candidate_cores_def set_online_cores Let_def split: if_splits)

lemma candidate_cores_Nil: "candidate_cores avoid cores = [] \<longleftrightarrow> (\<forall>c \<in> set cores. \<not> online c)"
  by (auto simp: candidate_cores_def online_cores_Nil Let_def)

lemma sorted_candidates: "sorted (map core_rank_of (candidate_cores avoid cores))"
  by (simp add: candidate_cores_def online_cores_def Let_def)

lemma distinct_candidates:
  "distinct (map logical_id cores) \<Longrightarrow> distinct (map logical_id (candidate_cores avoid cores))"
proof -
  assume d: "distinct (map logical_id cores)"
  have "distinct (map logical_id (online_cores a cores))" for a
  proof -
    have "mset (map logical_id (online_cores a cores))
        = mset (map logical_id (filter (\<lambda>c. online c \<and> \<not> (a \<and> logical_id c = 0)) cores))"
      by (simp add: online_cores_def)
    moreover have "distinct (map logical_id (filter (\<lambda>c. online c \<and> \<not> (a \<and> logical_id c = 0)) cores))"
      using d by (simp add: distinct_map_filter)
    ultimately show ?thesis by (metis mset_eq_imp_distinct_iff)
  qed
  then show ?thesis by (simp add: candidate_cores_def Let_def)
qed

lemma candidates_avoid_core0:
  "\<exists>c \<in> set cores. online c \<and> logical_id c \<noteq> 0 \<Longrightarrow> c \<in> set (candidate_cores True cores) \<Longrightarrow> logical_id c \<noteq> 0"
  by (auto simp: candidate_cores_def set_online_cores online_cores_Nil Let_def split: if_splits)

section \<open>Properties\<close>

text \<open>
  The order the assignment must follow, in numbers: the known maximum frequency of a core, else its known
  current one, else 0; of two cores the one with the higher frequency comes first, of equal ones the one with
  the smaller identifier.
\<close>

definition core_khz :: "core_info \<Rightarrow> nat" where
  "core_khz c = (if max_frequency_khz c \<noteq> None then the (max_frequency_khz c)
     else if current_frequency_khz c \<noteq> None then the (current_frequency_khz c) else 0)"

definition goes_first :: "core_info \<Rightarrow> core_info \<Rightarrow> bool" where
  "goes_first a b \<longleftrightarrow> core_khz b < core_khz a \<or> core_khz a = core_khz b \<and> logical_id a \<le> logical_id b"

lemma rank_goes_first: "core_rank_of a \<le> core_rank_of b \<Longrightarrow> goes_first a b"
  by (auto simp: core_rank_of_def less_eq_core_rank_def less_core_rank_def goes_first_def core_khz_def
      ranking_frequency_def split: option.splits if_splits)

lemma candidates_go_first:
  assumes "candidate_cores avoid cores = xs @ c # ys" "d \<in> set (c # ys)"
  shows "goes_first c d"
  using sorted_candidates[of avoid cores] assms by (auto simp: sorted_append intro: rank_goes_first)

text \<open>C33: the assignment gives the three workers, in the order of their priority, cores of the candidates: the
  online cores, without core 0 while OpenHD runs as long as another core is online. The view gets the candidate
  with the highest maximum frequency (the current one where the maximum is unknown; of equal ones the smallest
  identifier), the display the next one, the user interface the one after that; with two candidates the user
  interface shares the display's core and never the view's, with one all share it. It is empty only without
  online core.\<close>

theorem worker_cores_assigned:
  fixes avoid :: bool
  assumes "distinct (map logical_id cores)" and "c0 \<in> set cores" and "online c0"
  defines "as \<equiv> assign_worker_cores avoid cores"
    and "candidates \<equiv> {c \<in> set cores. online c \<and> (avoid \<and> (\<exists>d \<in> set cores. online d \<and> logical_id d \<noteq> 0) \<longrightarrow> logical_id c \<noteq> 0)}"
  shows "map worker_name as = [''glide-view'', ''glide-flow'', ''glide-ui''] \<and>
    (\<exists>v f u. {v, f, u} \<subseteq> candidates \<and> map logical_core as = [logical_id v, logical_id f, logical_id u] \<and>
       (\<forall>c \<in> candidates. goes_first v c) \<and>
       (if card candidates = 1 then f = v \<and> u = v
        else f \<noteq> v \<and> (\<forall>c \<in> candidates - {v}. goes_first f c) \<and>
          (if card candidates = 2 then u = f
           else u \<notin> {v, f} \<and> (\<forall>c \<in> candidates - {v, f}. goes_first u c))))"
proof -
  define cs where "cs = candidate_cores avoid cores"
  have set_cs: "candidates = set cs"
    unfolding cs_def candidates_def candidate_cores_def Let_def
    by (auto simp: set_online_cores online_cores_Nil)
  have dist: "distinct cs" using distinct_candidates[OF assms(1), of avoid] by (simp add: cs_def distinct_map)
  then have card: "card candidates = length cs" by (simp add: set_cs distinct_card)
  have first: "goes_first c d" if "cs = xs @ c # ys" "d \<in> set (c # ys)" for xs c ys d
    using candidates_go_first[OF that(1)[unfolded cs_def] that(2)] .
  have "cs \<noteq> []" using candidate_cores_Nil[of avoid cores] assms(2,3) by (auto simp: cs_def)
  then consider v where "cs = [v]" | v f where "cs = [v, f]" | v f u us where "cs = v # f # u # us"
    by (metis neq_Nil_conv)
  then show ?thesis
  proof cases
    case 1
    have "as = assign_worker_cores avoid cores" by (simp add: as_def)
    then show ?thesis
      using 1 first[of "[]" v "[]"] by (intro conjI exI[of _ v])
        (simp_all add: assign_worker_cores_def set_cs card flip: cs_def)
  next
    case 2
    have "goes_first v v" "goes_first v f" "goes_first f f"
      using 2 first[of "[]" v "[f]"] first[of "[v]" f "[]"] by simp_all
    then show ?thesis
      using 2 dist by (intro conjI exI[of _ v] exI[of _ f])
        (auto simp: as_def assign_worker_cores_def set_cs card simp flip: cs_def)
  next
    case 3
    have "\<forall>c \<in> set cs. goes_first v c" "\<forall>c \<in> set (f # u # us). goes_first f c" "\<forall>c \<in> set (u # us). goes_first u c"
      using 3 first[of "[]" v "f # u # us"] first[of "[v]" f "u # us"] first[of "[v, f]" u us] by auto
    then show ?thesis
      using 3 dist by (intro conjI exI[of _ v] exI[of _ f] exI[of _ u])
        (auto simp: as_def assign_worker_cores_def set_cs card simp flip: cs_def)
  qed
qed

definition test_core :: "nat \<Rightarrow> nat \<Rightarrow> core_info" where
  "test_core i f = \<lparr>logical_id = i, physical_package_id = None, core_id = None,
     current_frequency_khz = None, max_frequency_khz = Some f, online = True\<rparr>"

theorem worker_cores_assigned_witness:
  "map worker_name (assign_worker_cores True [test_core 0 1800000, test_core 1 1800000])
   = [''glide-view'', ''glide-flow'', ''glide-ui'']"
  using worker_cores_assigned[of "[test_core 0 1800000, test_core 1 1800000]" "test_core 0 1800000" True]
  by (simp add: test_core_def)

text \<open>the topology is never empty: without usable entries it is the fallback of at least one
  core, all online with the identifiers from 0; and the cores read are in the order of their
  identifiers.\<close>

theorem topology_not_empty:
  assumes "probe_cpu_topology n root = Some cores"
  shows "cores \<noteq> [] \<and> sorted (map logical_id cores) \<and>
    (filter is_cpu_directory (case root of Some es \<Rightarrow> es | None \<Rightarrow> []) = [] \<longrightarrow>
       map logical_id cores = [0..<max 1 n] \<and> (\<forall>c \<in> set cores. online c))"
proof -
  have "those (map probe_linux_cpu es) = Some [] \<Longrightarrow> es = []" for es
    by (cases es) (auto split: option.splits)
  moreover have "sort_key logical_id xs = [] \<longleftrightarrow> xs = []" for xs
    by (metis length_0_conv length_sort)
  moreover have "map logical_id (fallback_topology n) = [0..<max 1 n]"
    by (simp add: fallback_topology_def o_def)
  moreover have "\<forall>c \<in> set (fallback_topology n). online c" "fallback_topology n \<noteq> []"
    by (auto simp: fallback_topology_def)
  ultimately show ?thesis
    using assms by (auto simp: probe_cpu_topology_def split: option.splits if_splits)
qed

theorem topology_not_empty_witness: "probe_cpu_topology 4 None = Some (fallback_topology 4) \<and> fallback_topology 4 \<noteq> []"
  using topology_not_empty[of 4 None "fallback_topology 4"] by (simp add: probe_cpu_topology_def)

text \<open>an OpenHD process is reported when some process directory's command or program name starts
  with \<open>openhd-\<close> or \<open>OpenHD\<close> or is \<open>openhd\<close>, except for the exact name \<open>openhd-glide\<close>; so the
  script that starts this program's own service, whose command name the kernel cuts to
  \<open>openhd-glide-se\<close>, is reported as OpenHD.\<close>

theorem openhd_detection:
  "is_openhd_process_running (Some es) \<longleftrightarrow>
     (\<exists>e \<in> set es. is_numeric_name (pe_name e) \<and>
        (is_relevant_openhd_name (read_first_line (pe_comm e)) \<or>
         is_relevant_openhd_name (read_cmdline_argv0 (pe_cmdline e)))) \<and>
   \<not> is_relevant_openhd_name ''openhd-glide'' \<and>
   is_openhd_process_running (Some [\<lparr>pe_name = ''812'', pe_comm = Some (''openhd-glide-se'' @ nl),
      pe_cmdline = Some (''/bin/bash'' @ [CHR 0x00])\<rparr>])"
proof -
  have "read_first_line (Some (''openhd-glide-se'' @ nl)) = ''openhd-glide-se''"
    by (simp add: read_first_line_def nl_def read_line_def read_line_until_def istringstream_def good_def Let_def)
  then show ?thesis
    by (simp add: is_openhd_process_running_def list_ex_iff is_relevant_openhd_name_def is_numeric_name_def
        is_digit_def)
qed

text \<open>the plane probe always reports something: one device per card, in the order of the paths,
  available exactly when it could be opened, showed all its planes and listed them; and without a
  card one device that is not available.\<close>

theorem drm_probe_reports:
  "probe_drm_planes names env \<noteq> [] \<and>
   (find_drm_device_paths names \<noteq> [] \<longrightarrow>
      map dev_path (probe_drm_planes names env) = find_drm_device_paths names \<and>
      sorted (map dev_path (probe_drm_planes names env)) \<and>
      (\<forall>d \<in> set (probe_drm_planes names env). available d \<longleftrightarrow>
         da_open (env (dev_path d)) \<and> da_universal (env (dev_path d)) \<and> da_planes (env (dev_path d)) \<noteq> None))"
proof -
  have path: "dev_path (probe_device e p) = p" for e p
    by (simp add: probe_device_def Let_def split: option.splits)
  have ok: "available (probe_device e p) \<longleftrightarrow> da_open e \<and> da_universal e \<and> da_planes e \<noteq> None" for e p
    by (simp add: probe_device_def Let_def split: option.splits)
  have "sorted (find_drm_device_paths names)"
    by (simp add: find_drm_device_paths_def split: option.splits)
  then show ?thesis
    by (auto simp: probe_drm_planes_def Let_def path ok o_def)
qed

theorem drm_probe_reports_witness:
  "map dev_path (probe_drm_planes (Some [''card1'', ''renderD128'', ''card0''])
     (\<lambda>p. \<lparr>da_open = False, da_universal = False, da_planes = None, da_plane = \<lambda>i. None\<rparr>))
   = [''/dev/dri/card0'', ''/dev/dri/card1'']"
proof -
  have "find_drm_device_paths (Some [''card1'', ''renderD128'', ''card0'']) = [''/dev/dri/card0'', ''/dev/dri/card1'']"
    by code_simp
  then show ?thesis
    using drm_probe_reports[of "Some [''card1'', ''renderD128'', ''card0'']"
        "\<lambda>p. \<lparr>da_open = False, da_universal = False, da_planes = None, da_plane = \<lambda>i. None\<rparr>"] by simp
qed

end
