(* ===== verification/Rtp.thy ===== *)
theory Rtp
  imports Glide_Prelude Cpp_Text "HOL-Library.Multiset"
begin

text \<open>
  What the RTP decoders of \<open>src/video\<close> share: the RTP header parse at the start of each
  \<open>handle_rtp_packet\<close>, 16-bit sequence and 32-bit timestamp arithmetic, the aggregation packets of
  H.264 (STAP-A) and H.265 (AP), the bounded queues of decoded frames, and the sequencing of
  operations that return \<open>false\<close> to stop. The lemmas give the bounds of the payload, the round trip
  of the header and of aggregation packets, and the laws of a bounded queue.
\<close>

section \<open>Operations that may stop\<close>

definition and_then :: "bool \<times> 's \<Rightarrow> ('s \<Rightarrow> bool \<times> 's) \<Rightarrow> bool \<times> 's" where
  "and_then r f = (case r of (ok, s) \<Rightarrow> if ok then f s else (False, s))"

lemma and_then_simps [simp]: "and_then (True, s) f = f s" "and_then (False, s) f = (False, s)"
  by (simp_all add: and_then_def)

text \<open>\<open>f\<close> on each element in order until it returns false.\<close>

fun for_all :: "('a \<Rightarrow> 's \<Rightarrow> bool \<times> 's) \<Rightarrow> 'a list \<Rightarrow> 's \<Rightarrow> bool \<times> 's" where
  "for_all f [] s = (True, s)"
| "for_all f (x # xs) s = and_then (f x s) (for_all f xs)"

section \<open>The header\<close>

record rtp =
  marker :: bool
  seqno :: u16
  timestamp :: u32
  body :: bytes

definition be16 :: "u8 \<Rightarrow> u8 \<Rightarrow> nat" where
  "be16 hi lo = 256 * unat hi + unat lo"

definition word16 :: "u8 \<Rightarrow> u8 \<Rightarrow> u16" where
  "word16 hi lo = push_bit 8 (ucast hi) OR ucast lo"

definition word32 :: "u8 \<Rightarrow> u8 \<Rightarrow> u8 \<Rightarrow> u8 \<Rightarrow> u32" where
  "word32 a b c d = push_bit 24 (ucast a) OR push_bit 16 (ucast b) OR push_bit 8 (ucast c) OR ucast d"

text \<open>Where the payload starts, \<open>None\<close> when the packet ends before.\<close>

definition payload_offset :: "bytes \<Rightarrow> nat option" where
  "payload_offset p =
     (let off = 12 + unat (p ! 0 AND 0x0F) * 4 in
      if length p < off then None
      else if p ! 0 AND 0x10 = 0 then Some off
      else if length p < off + 4 then None
      else let off' = off + 4 + be16 (p ! (off + 2)) (p ! (off + 3)) * 4
           in if length p < off' then None else Some off')"

definition payload_length :: "bytes \<Rightarrow> nat \<Rightarrow> nat" where
  "payload_length p off =
     (let n = length p - off; padding = unat (p ! (length p - 1))
      in if p ! 0 AND 0x20 \<noteq> 0 \<and> 0 < n \<and> padding \<le> n then n - padding else n)"

text \<open>The packet, \<open>None\<close> where the decoders ignore it.\<close>

definition parse_rtp :: "bytes \<Rightarrow> rtp option" where
  "parse_rtp p =
     (if length p < 12 \<or> drop_bit 6 (p ! 0) \<noteq> 2 then None
      else case payload_offset p of
        None \<Rightarrow> None
      | Some off \<Rightarrow>
          if payload_length p off = 0 then None
          else Some \<lparr>marker = (p ! 1 AND 0x80 \<noteq> 0), seqno = word16 (p ! 2) (p ! 3),
                     timestamp = word32 (p ! 4) (p ! 5) (p ! 6) (p ! 7),
                     body = take (payload_length p off) (drop off p)\<rparr>)"

text \<open>Signed distances on the sequence and the timestamp circle.\<close>

definition sequence_delta :: "u16 \<Rightarrow> u16 \<Rightarrow> int" where
  "sequence_delta s expected = sint (s - expected)"

definition timestamp_delta :: "u32 \<Rightarrow> u32 \<Rightarrow> int" where
  "timestamp_delta t prev = sint (t - prev)"

section \<open>Aggregation packets\<close>

text \<open>The units after the aggregation header, and whether the last one was whole.\<close>

function aggregated :: "bytes \<Rightarrow> bytes list \<times> bool" where
  "aggregated r =
     (case r of
        hi # lo # rest \<Rightarrow>
          (let n = be16 hi lo in
           if length rest < n then ([], False)
           else let (units, whole) = aggregated (drop n rest) in (take n rest # units, whole))
      | _ \<Rightarrow> ([], True))"
  by pat_completeness auto
termination by (relation "measure length") auto

declare aggregated.simps [simp del]

definition start_code :: bytes where
  "start_code = [0, 0, 0, 1]"

definition h264_nal_type :: "bytes \<Rightarrow> nat" where
  "h264_nal_type nal = unat (hd nal AND 0x1F)"

definition h265_nal_type :: "bytes \<Rightarrow> nat" where
  "h265_nal_type nal = unat (drop_bit 1 (hd nal) AND 0x3F)"

section \<open>Bounded queues\<close>

text \<open>
  Append to a queue after dropping from its front while it holds \<open>cap\<close> or more: what was dropped
  and the queue. The decoders that append first and then drop down to \<open>cap\<close> do the same.
\<close>

definition push_bounded :: "nat \<Rightarrow> 'a \<Rightarrow> 'a list \<Rightarrow> 'a list \<times> 'a list" where
  "push_bounded cap x q =
     (let k = length q + 1 - cap in (take k q, drop k q @ [x]))"

text \<open>Drop from the front while more than \<open>n\<close> are queued: what was dropped and what is kept.\<close>

definition drop_to :: "nat \<Rightarrow> 'a list \<Rightarrow> 'a list \<times> 'a list" where
  "drop_to n q = (take (length q - n) q, lastn n q)"

lemma drop_to_laws:
  assumes "drop_to n q = (gone, q')"
  shows "gone @ q' = q" and "length q' = min n (length q)"
  using assms by (auto simp: drop_to_def lastn_def)

lemma push_bounded_laws:
  assumes "push_bounded cap x q = (gone, q')" and "0 < cap"
  shows "gone @ q' = q @ [x]" and "length q \<le> cap \<Longrightarrow> length q' \<le> cap" and "x \<in> set q'"
    and "length q < cap \<Longrightarrow> gone = []"
  using assms by (auto simp: push_bounded_def Let_def)

text \<open>The frame an optional member holds.\<close>

definition held :: "nat option \<Rightarrow> nat list" where
  "held f = (case f of None \<Rightarrow> [] | Some x \<Rightarrow> [x])"

section \<open>Lemmas\<close>

lemma payload_offset_bounds: "payload_offset p = Some off \<Longrightarrow> 12 \<le> off \<and> off \<le> length p"
  by (auto simp: payload_offset_def Let_def split: if_splits)

lemma payload_length_bounds: "payload_length p off \<le> length p - off"
  unfolding payload_length_def Let_def by (split if_split) (intro conjI impI diff_le_self order_refl)

lemma parse_rtp_body:
  assumes "parse_rtp p = Some r"
  shows "body r \<noteq> []" and "\<exists>pre post. p = pre @ body r @ post \<and> 12 \<le> length pre"
proof -
  obtain off where off: "payload_offset p = Some off" "payload_length p off \<noteq> 0"
    "body r = take (payload_length p off) (drop off p)"
    using assms by (auto simp: parse_rtp_def split: if_splits option.splits)
  show "body r \<noteq> []"
    using off payload_length_bounds[of p off] by auto
  have "p = take off p @ body r @ drop (payload_length p off) (drop off p)"
    by (simp only: off(3) append_take_drop_id)
  moreover have "12 \<le> length (take off p)"
    using payload_offset_bounds[OF off(1)] by simp
  ultimately show "\<exists>pre post. p = pre @ body r @ post \<and> 12 \<le> length pre" by blast
qed

text \<open>The packet a sender without padding, extension and contributing sources writes.\<close>

definition build_rtp :: "bool \<Rightarrow> u16 \<Rightarrow> u32 \<Rightarrow> u32 \<Rightarrow> bytes \<Rightarrow> bytes" where
  "build_rtp m s t ssrc b =
     [0x80, if m then 0xE0 else 0x60, ucast (drop_bit 8 s), ucast s,
      ucast (drop_bit 24 t), ucast (drop_bit 16 t), ucast (drop_bit 8 t), ucast t,
      ucast (drop_bit 24 ssrc), ucast (drop_bit 16 ssrc), ucast (drop_bit 8 ssrc), ucast ssrc] @ b"

lemma word16_split: "word16 (ucast (drop_bit 8 s)) (ucast s) = s"
  by (rule bit_word_eqI)
     (auto simp: word16_def bit_or_iff bit_push_bit_iff bit_unsigned_iff bit_drop_bit_eq)

lemma word32_split:
  "word32 (ucast (drop_bit 24 t)) (ucast (drop_bit 16 t)) (ucast (drop_bit 8 t)) (ucast t) = t"
proof (rule bit_word_eqI)
  fix n :: nat
  assume "n < LENGTH(32)"
  then consider "n < 8" | "8 \<le> n" "n < 16" | "16 \<le> n" "n < 24" | "24 \<le> n" "n < 32" by fastforce
  then show "bit (word32 (ucast (drop_bit 24 t)) (ucast (drop_bit 16 t)) (ucast (drop_bit 8 t)) (ucast t)) n = bit t n"
    by cases (auto simp: word32_def bit_or_iff bit_push_bit_iff bit_unsigned_iff bit_drop_bit_eq)
qed

lemma parse_build_rtp:
  assumes "b \<noteq> []"
  shows "parse_rtp (build_rtp m s t ssrc b) = Some \<lparr>marker = m, seqno = s, timestamp = t, body = b\<rparr>"
  using assms
  by (simp add: parse_rtp_def payload_offset_def payload_length_def build_rtp_def word16_split word32_split Let_def)

definition aggregate :: "bytes list \<Rightarrow> bytes" where
  "aggregate units = concat (map (\<lambda>u. [of_nat (length u div 256), of_nat (length u)] @ u) units)"

lemma aggregated_Nil [simp]: "aggregated [] = ([], True)"
  by (simp add: aggregated.simps)

lemma aggregated_unit:
  assumes "length u < 65536"
  shows "aggregated ([of_nat (length u div 256), of_nat (length u)] @ u @ r)
         = (u # fst (aggregated r), snd (aggregated r))"
proof -
  have "be16 (of_nat (length u div 256)) (of_nat (length u)) = length u"
    using assms by (simp add: be16_def unat_of_nat take_bit_eq_mod)
  then show ?thesis
    by (subst aggregated.simps) (simp add: split_def Let_def)
qed

lemma aggregated_aggregate:
  "\<forall>u \<in> set units. length u < 65536 \<Longrightarrow> aggregated (aggregate units) = (units, True)"
proof (induction units)
  case (Cons u units)
  then show ?case
    using aggregated_unit[of u "aggregate units"] by (simp add: aggregate_def)
qed (simp add: aggregate_def)

end
