(* ===== verification/Jpeg_Rtp.thy ===== *)
theory Jpeg_Rtp
  imports Rtp
begin

text \<open>
  RTP JPEG (RFC 2435) in \<open>src/video/rockchip_mpp_rtp_decoder.cpp\<close>: the tables, the quantization
  tables for a quality factor and the JFIF header put before the scan data of a packet that has
  none. The lemmas give the range of the quantizers and the segment structure of the header.
\<close>

definition jpeg_luma_quantizer :: bytes where
  "jpeg_luma_quantizer = [
     16, 11, 10, 16, 24, 40, 51, 61, 12, 12, 14, 19, 26, 58, 60, 55,
     14, 13, 16, 24, 40, 57, 69, 56, 14, 17, 22, 29, 51, 87, 80, 62,
     18, 22, 37, 56, 68, 109, 103, 77, 24, 35, 55, 64, 81, 104, 113, 92,
     49, 64, 78, 87, 103, 121, 120, 101, 72, 92, 95, 98, 112, 100, 103, 99]"

definition jpeg_chroma_quantizer :: bytes where
  "jpeg_chroma_quantizer = [
     17, 18, 24, 47, 99, 99, 99, 99, 18, 21, 26, 66, 99, 99, 99, 99,
     24, 26, 56, 99, 99, 99, 99, 99, 47, 66, 99, 99, 99, 99, 99, 99,
     99, 99, 99, 99, 99, 99, 99, 99, 99, 99, 99, 99, 99, 99, 99, 99,
     99, 99, 99, 99, 99, 99, 99, 99, 99, 99, 99, 99, 99, 99, 99, 99]"

definition jpeg_huffman_luma_dc :: bytes where
  "jpeg_huffman_luma_dc = [
     0x00, 0x01, 0x05, 0x01, 0x01, 0x01, 0x01, 0x01, 0x01, 0x00, 0x00, 0x00, 0x00, 0x00, 0x00, 0x00,
     0x00, 0x01, 0x02, 0x03, 0x04, 0x05, 0x06, 0x07, 0x08, 0x09, 0x0a, 0x0b]"

definition jpeg_huffman_chroma_dc :: bytes where
  "jpeg_huffman_chroma_dc = [
     0x00, 0x03, 0x01, 0x01, 0x01, 0x01, 0x01, 0x01, 0x01, 0x01, 0x01, 0x00, 0x00, 0x00, 0x00, 0x00,
     0x00, 0x01, 0x02, 0x03, 0x04, 0x05, 0x06, 0x07, 0x08, 0x09, 0x0a, 0x0b]"

definition jpeg_huffman_luma_ac :: bytes where
  "jpeg_huffman_luma_ac = [
     0x00, 0x02, 0x01, 0x03, 0x03, 0x02, 0x04, 0x03, 0x05, 0x05, 0x04, 0x04, 0x00, 0x00, 0x01, 0x7d,
     0x01, 0x02, 0x03, 0x00, 0x04, 0x11, 0x05, 0x12, 0x21, 0x31, 0x41, 0x06, 0x13, 0x51, 0x61, 0x07,
     0x22, 0x71, 0x14, 0x32, 0x81, 0x91, 0xa1, 0x08, 0x23, 0x42, 0xb1, 0xc1, 0x15, 0x52, 0xd1, 0xf0,
     0x24, 0x33, 0x62, 0x72, 0x82, 0x09, 0x0a, 0x16, 0x17, 0x18, 0x19, 0x1a, 0x25, 0x26, 0x27, 0x28,
     0x29, 0x2a, 0x34, 0x35, 0x36, 0x37, 0x38, 0x39, 0x3a, 0x43, 0x44, 0x45, 0x46, 0x47, 0x48, 0x49,
     0x4a, 0x53, 0x54, 0x55, 0x56, 0x57, 0x58, 0x59, 0x5a, 0x63, 0x64, 0x65, 0x66, 0x67, 0x68, 0x69,
     0x6a, 0x73, 0x74, 0x75, 0x76, 0x77, 0x78, 0x79, 0x7a, 0x83, 0x84, 0x85, 0x86, 0x87, 0x88, 0x89,
     0x8a, 0x92, 0x93, 0x94, 0x95, 0x96, 0x97, 0x98, 0x99, 0x9a, 0xa2, 0xa3, 0xa4, 0xa5, 0xa6, 0xa7,
     0xa8, 0xa9, 0xaa, 0xb2, 0xb3, 0xb4, 0xb5, 0xb6, 0xb7, 0xb8, 0xb9, 0xba, 0xc2, 0xc3, 0xc4, 0xc5,
     0xc6, 0xc7, 0xc8, 0xc9, 0xca, 0xd2, 0xd3, 0xd4, 0xd5, 0xd6, 0xd7, 0xd8, 0xd9, 0xda, 0xe1, 0xe2,
     0xe3, 0xe4, 0xe5, 0xe6, 0xe7, 0xe8, 0xe9, 0xea, 0xf1, 0xf2, 0xf3, 0xf4, 0xf5, 0xf6, 0xf7, 0xf8,
     0xf9, 0xfa]"

definition jpeg_huffman_chroma_ac :: bytes where
  "jpeg_huffman_chroma_ac = [
     0x00, 0x02, 0x01, 0x02, 0x04, 0x04, 0x03, 0x04, 0x07, 0x05, 0x04, 0x04, 0x00, 0x01, 0x02, 0x77,
     0x00, 0x01, 0x02, 0x03, 0x11, 0x04, 0x05, 0x21, 0x31, 0x06, 0x12, 0x41, 0x51, 0x07, 0x61, 0x71,
     0x13, 0x22, 0x32, 0x81, 0x08, 0x14, 0x42, 0x91, 0xa1, 0xb1, 0xc1, 0x09, 0x23, 0x33, 0x52, 0xf0,
     0x15, 0x62, 0x72, 0xd1, 0x0a, 0x16, 0x24, 0x34, 0xe1, 0x25, 0xf1, 0x17, 0x18, 0x19, 0x1a, 0x26,
     0x27, 0x28, 0x29, 0x2a, 0x35, 0x36, 0x37, 0x38, 0x39, 0x3a, 0x43, 0x44, 0x45, 0x46, 0x47, 0x48,
     0x49, 0x4a, 0x53, 0x54, 0x55, 0x56, 0x57, 0x58, 0x59, 0x5a, 0x63, 0x64, 0x65, 0x66, 0x67, 0x68,
     0x69, 0x6a, 0x73, 0x74, 0x75, 0x76, 0x77, 0x78, 0x79, 0x7a, 0x82, 0x83, 0x84, 0x85, 0x86, 0x87,
     0x88, 0x89, 0x8a, 0x92, 0x93, 0x94, 0x95, 0x96, 0x97, 0x98, 0x99, 0x9a, 0xa2, 0xa3, 0xa4, 0xa5,
     0xa6, 0xa7, 0xa8, 0xa9, 0xaa, 0xb2, 0xb3, 0xb4, 0xb5, 0xb6, 0xb7, 0xb8, 0xb9, 0xba, 0xc2, 0xc3,
     0xc4, 0xc5, 0xc6, 0xc7, 0xc8, 0xc9, 0xca, 0xd2, 0xd3, 0xd4, 0xd5, 0xd6, 0xd7, 0xd8, 0xd9, 0xda,
     0xe2, 0xe3, 0xe4, 0xe5, 0xe6, 0xe7, 0xe8, 0xe9, 0xea, 0xf2, 0xf3, 0xf4, 0xf5, 0xf6, 0xf7, 0xf8,
     0xf9, 0xfa]"

definition append_u16 :: "nat \<Rightarrow> bytes" where
  "append_u16 v = [of_nat (v div 256), of_nat v]"

definition append_marker :: "u8 \<Rightarrow> bytes" where
  "append_marker m = [0xFF, m]"

definition quant_scale :: "u8 \<Rightarrow> nat" where
  "quant_scale q =
     (let factor = (if unat q < 1 then 1 else if 99 < unat q then 99 else unat q)
      in if factor < 50 then 5000 div factor else 200 - factor * 2)"

definition quantizer :: "nat \<Rightarrow> u8 \<Rightarrow> u8" where
  "quantizer scale base = of_nat (min 255 (max 1 ((unat base * scale + 50) div 100)))"

text \<open>The luma and the chroma table.\<close>

definition make_jpeg_quant_tables :: "u8 \<Rightarrow> bytes \<times> bytes" where
  "make_jpeg_quant_tables q =
     (map (quantizer (quant_scale q)) jpeg_luma_quantizer,
      map (quantizer (quant_scale q)) jpeg_chroma_quantizer)"

definition quant_header :: "bytes \<Rightarrow> u8 \<Rightarrow> bytes" where
  "quant_header table table_id = append_marker 0xDB @ append_u16 67 @ [table_id] @ table"

definition huffman_header :: "bytes \<Rightarrow> u8 \<Rightarrow> u8 \<Rightarrow> bytes" where
  "huffman_header table table_id table_class =
     append_marker 0xC4 @ append_u16 (3 + length table) @ [push_bit 4 table_class OR table_id] @ table"

definition restart_header :: "nat \<Rightarrow> bytes" where
  "restart_header interval =
     (if interval \<noteq> 0 then append_marker 0xDD @ append_u16 4 @ append_u16 interval else [])"

definition frame_header :: "u8 \<Rightarrow> nat \<Rightarrow> nat \<Rightarrow> bytes" where
  "frame_header type width height =
     append_marker 0xC0 @ append_u16 17 @ [8] @ append_u16 height @ append_u16 width
     @ [3, 1, if type = 0 then 0x21 else 0x22, 0, 2, 0x11, 1, 3, 0x11, 1]"

definition scan_header :: bytes where
  "scan_header = append_marker 0xDA @ append_u16 12 @ [3, 1, 0, 2, 0x11, 3, 0x11, 0, 63, 0]"

definition jpeg_header :: "u8 \<Rightarrow> nat \<Rightarrow> nat \<Rightarrow> bytes \<Rightarrow> bytes \<Rightarrow> nat \<Rightarrow> bytes" where
  "jpeg_header type width height luma chroma restart_interval =
     append_marker 0xD8 @ append_marker 0xE0 @ append_u16 16
     @ [0x4A, 0x46, 0x49, 0x46, 0, 1, 1, 0, 0, 1, 0, 1, 0, 0]
     @ quant_header luma 0 @ quant_header chroma 1
     @ restart_header restart_interval
     @ frame_header type width height
     @ huffman_header jpeg_huffman_luma_dc 0 0 @ huffman_header jpeg_huffman_luma_ac 0 1
     @ huffman_header jpeg_huffman_chroma_dc 1 0 @ huffman_header jpeg_huffman_chroma_ac 1 1
     @ scan_header"

section \<open>Lemmas\<close>

lemma table_lengths [simp]:
  "length jpeg_luma_quantizer = 64" "length jpeg_chroma_quantizer = 64"
  "length jpeg_huffman_luma_dc = 28" "length jpeg_huffman_chroma_dc = 28"
  "length jpeg_huffman_luma_ac = 178" "length jpeg_huffman_chroma_ac = 178"
  by (simp_all add: jpeg_luma_quantizer_def jpeg_chroma_quantizer_def jpeg_huffman_luma_dc_def
      jpeg_huffman_chroma_dc_def jpeg_huffman_luma_ac_def jpeg_huffman_chroma_ac_def)

lemma quantizer_range: "1 \<le> unat (quantizer scale base)"
  by (simp add: quantizer_def unat_of_nat take_bit_eq_mod min_def max_def)

lemma append_u16_length [simp]: "length (append_u16 v) = 2"
  by (simp add: append_u16_def)

lemma append_marker_length [simp]: "length (append_marker m) = 2"
  by (simp add: append_marker_def)

text \<open>
  The marker segments of a header: after the start-of-image marker each segment is a marker and a
  length that counts itself and what follows; the walk returns the markers up to the scan header
  and what is left.
\<close>

function segments :: "bytes \<Rightarrow> (u8 list \<times> bytes) option" where
  "segments bs =
     (case bs of
        ff # m # hi # lo # rest \<Rightarrow>
          (let n = be16 hi lo in
           if ff \<noteq> 0xFF \<or> n < 2 \<or> length rest < n - 2 then None
           else if m = 0xDA then Some ([m], drop (n - 2) rest)
           else map_option (\<lambda>(ms, r). (m # ms, r)) (segments (drop (n - 2) rest)))
      | _ \<Rightarrow> None)"
  by pat_completeness auto
termination by (relation "measure length") auto

declare segments.simps [simp del]

lemma segment_step:
  assumes "n = length d + 2" and "n < 65536" and "m \<noteq> 0xDA"
  shows "segments (append_marker m @ append_u16 n @ d @ r) = map_option (\<lambda>(ms, r). (m # ms, r)) (segments r)"
proof -
  have "be16 (of_nat (n div 256)) (of_nat n) = n"
    using assms(2) by (simp add: be16_def unat_of_nat take_bit_eq_mod)
  then show ?thesis
    using assms(1,3) by (subst segments.simps) (simp add: append_marker_def append_u16_def Let_def)
qed

lemma segment_scan: "segments (scan_header @ r) = Some ([0xDA], r)"
  by (subst segments.simps) (simp add: scan_header_def append_marker_def append_u16_def be16_def Let_def)

section \<open>Properties\<close>

text \<open>For every quality factor the two quantization tables have 64 entries, none of them zero.\<close>

theorem quant_tables_valid:
  "length (fst (make_jpeg_quant_tables q)) = 64 \<and> length (snd (make_jpeg_quant_tables q)) = 64 \<and>
   0 \<notin> set (fst (make_jpeg_quant_tables q)) \<union> set (snd (make_jpeg_quant_tables q))"
proof -
  have "quantizer s b \<noteq> 0" for s b
    using quantizer_range[of s b] by auto
  then show ?thesis by (auto simp: make_jpeg_quant_tables_def)
qed

text \<open>the header the decoder writes before bare scan data is a well-formed sequence of JPEG
  segments: every length field counts its segment exactly, the segments are the application header,
  the two quantization tables, the restart interval when there is one, the frame header, four Huffman
  tables and the scan header, and the scan data follows it unchanged.\<close>

theorem jpeg_header_well_formed:
  assumes "length luma = 64" and "length chroma = 64"
  shows "take 2 (jpeg_header t w h luma chroma ri @ scan) = [0xFF, 0xD8] \<and>
    segments (drop 2 (jpeg_header t w h luma chroma ri @ scan)) =
      Some ([0xE0, 0xDB, 0xDB] @ (if ri = 0 then [] else [0xDD]) @ [0xC0, 0xC4, 0xC4, 0xC4, 0xC4, 0xDA], scan)"
proof -
  have quant: "segments (quant_header q i @ r) = map_option (\<lambda>(ms, r). (0xDB # ms, r)) (segments r)"
    if "length q = 64" for q i r
    using segment_step[of 67 "[i] @ q" "0xDB" r] that by (simp add: quant_header_def)
  have huff: "segments (huffman_header q i c @ r) = map_option (\<lambda>(ms, r). (0xC4 # ms, r)) (segments r)"
    if "length q < 256" for q i c r
    using segment_step[of "3 + length q" "[push_bit 4 c OR i] @ q" "0xC4" r] that
    by (simp add: huffman_header_def)
  have restart: "segments (restart_header ri @ r)
      = map_option (\<lambda>(ms, r). ((if ri = 0 then [] else [0xDD]) @ ms, r)) (segments r)" for r
    using segment_step[of 4 "append_u16 ri" "0xDD" r] by (simp add: restart_header_def option.map_ident case_prod_unfold)
  have frame: "segments (frame_header t w h @ r) = map_option (\<lambda>(ms, r). (0xC0 # ms, r)) (segments r)" for r
    using segment_step[of 17 "[8] @ append_u16 h @ append_u16 w
      @ [3, 1, if t = 0 then 0x21 else 0x22, 0, 2, 0x11, 1, 3, 0x11, 1]" "0xC0" r]
    by (simp add: frame_header_def)
  have app: "segments (append_marker 0xE0 @ append_u16 16 @ [0x4A, 0x46, 0x49, 0x46, 0, 1, 1, 0, 0, 1, 0, 1, 0, 0] @ r)
      = map_option (\<lambda>(ms, r). (0xE0 # ms, r)) (segments r)" for r
    by (rule segment_step) simp_all
  have "drop 2 (jpeg_header t w h luma chroma ri @ scan) =
      append_marker 0xE0 @ append_u16 16 @ [0x4A, 0x46, 0x49, 0x46, 0, 1, 1, 0, 0, 1, 0, 1, 0, 0]
      @ quant_header luma 0 @ quant_header chroma 1 @ restart_header ri @ frame_header t w h
      @ huffman_header jpeg_huffman_luma_dc 0 0 @ huffman_header jpeg_huffman_luma_ac 0 1
      @ huffman_header jpeg_huffman_chroma_dc 1 0 @ huffman_header jpeg_huffman_chroma_ac 1 1
      @ scan_header @ scan"
    by (simp add: jpeg_header_def append_marker_def)
  moreover have "take 2 (jpeg_header t w h luma chroma ri @ scan) = [0xFF, 0xD8]"
    by (simp add: jpeg_header_def append_marker_def)
  ultimately show ?thesis
    using assms by (simp only: app quant frame restart huff table_lengths segment_scan) simp
qed

theorem jpeg_header_well_formed_witness:
  "segments (drop 2 (jpeg_header 1 640 480 (fst (make_jpeg_quant_tables 50)) (snd (make_jpeg_quant_tables 50)) 0 @ [1, 2])) =
     Some ([0xE0, 0xDB, 0xDB, 0xC0, 0xC4, 0xC4, 0xC4, 0xC4, 0xDA], [1, 2])"
  using jpeg_header_well_formed[of "fst (make_jpeg_quant_tables 50)" "snd (make_jpeg_quant_tables 50)" 1 640 480 0 "[1, 2]"]
  by (simp add: make_jpeg_quant_tables_def)

end
