(* ===== verification/Rockchip_Decoder.thy ===== *)
theory Rockchip_Decoder
  imports Jpeg_Rtp
begin

text \<open>
  \<open>src/video/rockchip_mpp_rtp_decoder.cpp\<close>: the RTP side of the Rockchip decoder (sequence
  supervision, H.264, H.265 and JPEG depacketization, the recovery seed, submission to MPP) and its
  queues of decoded frames and their owners. MPP, the socket, files and the environment are
  arguments; \<open>handed\<close> records the packets MPP accepted and \<open>released\<close> the frames given back. The
  mutex protects each step of a thread, so the operations are the atomic steps of the interleaving.
\<close>

section \<open>State\<close>

record jpeg_unit =
  ju_data :: bytes
  ju_pts :: nat
  ju_width :: nat
  ju_height :: nat

record decoder =
  opened :: bool
  h265 :: bool
  mjpeg :: bool
  running :: bool
  ready_frames :: "nat list"
  mjpeg_units :: "jpeg_unit list"
  current_frame :: "nat option"
  pending_frame :: "nat option"
  parsed_units :: u64
  decoded_frames :: u64
  dropped_decoded_frames :: u64
  rtp_packets :: u64
  rtp_sequence_gaps :: u64
  rtp_sequence_resyncs :: u64
  late_or_duplicate_packets :: u64
  incomplete_fragments :: u64
  x20_header_injections :: u64
  submitted_packets :: u64
  submit_stalls :: u64
  have_sequence :: bool
  expected_sequence :: u16
  have_rtp_timestamp :: bool
  last_rtp_timestamp :: u32
  current_timestamp :: u32
  x20_sps_seen :: bool
  x20_pps_seen :: bool
  x21_mpp_sps_seen :: bool
  x20_checked_non_x20 :: bool
  x20_header_injected :: bool
  x20_header_missing :: bool
  force_x20_header :: bool
  fragment :: bytes
  access_unit :: bytes
  have_access_unit :: bool
  access_unit_timestamp :: u32
  mjpeg_width :: nat
  mjpeg_height :: nat
  last_error :: string
  handed :: "(bytes \<times> nat) list"
  released :: "nat list"

definition new_decoder :: decoder where
  "new_decoder =
    \<lparr>opened = False, h265 = False, mjpeg = False, running = False, ready_frames = [], mjpeg_units = [],
     current_frame = None, pending_frame = None, parsed_units = 0, decoded_frames = 0,
     dropped_decoded_frames = 0, rtp_packets = 0, rtp_sequence_gaps = 0, rtp_sequence_resyncs = 0,
     late_or_duplicate_packets = 0, incomplete_fragments = 0, x20_header_injections = 0,
     submitted_packets = 0, submit_stalls = 0, have_sequence = False, expected_sequence = 0,
     have_rtp_timestamp = False, last_rtp_timestamp = 0, current_timestamp = 0, x20_sps_seen = False,
     x20_pps_seen = False, x21_mpp_sps_seen = False, x20_checked_non_x20 = False,
     x20_header_injected = False, x20_header_missing = False, force_x20_header = False, fragment = [],
     access_unit = [], have_access_unit = False, access_unit_timestamp = 0, mjpeg_width = 0,
     mjpeg_height = 0, last_error = [], handed = [], released = []\<rparr>"

definition is_h265_name :: "string \<Rightarrow> bool" where
  "is_h265_name codec \<longleftrightarrow> codec = ''h265'' \<or> codec = ''hevc''"

definition is_mjpeg_name :: "string \<Rightarrow> bool" where
  "is_mjpeg_name codec \<longleftrightarrow> codec \<in> {''mjpeg'', ''mjpg'', ''jpeg'', ''mjepg''}"

section \<open>Statistics\<close>

definition stat :: "string \<Rightarrow> u64 \<Rightarrow> string" where
  "stat name v = name @ ''='' @ nat_str (unat v)"

definition stats :: "decoder \<Rightarrow> string" where
  "stats d =
     stat ''parsed_units'' (parsed_units d) @ stat '' submitted_packets'' (submitted_packets d)
     @ stat '' decoded_frames'' (decoded_frames d)
     @ '' queued_frames='' @ nat_str (length (ready_frames d))
     @ stat '' dropped_decoded_frames'' (dropped_decoded_frames d)
     @ stat '' rtp_packets'' (rtp_packets d) @ stat '' rtp_sequence_gaps'' (rtp_sequence_gaps d)
     @ stat '' rtp_sequence_resyncs'' (rtp_sequence_resyncs d)
     @ stat '' late_or_duplicate_packets'' (late_or_duplicate_packets d)
     @ stat '' incomplete_fragments'' (incomplete_fragments d)
     @ stat '' x20_header_injections'' (x20_header_injections d)
     @ stat '' submit_stalls'' (submit_stalls d) @ '' input=native-udp-rtp''"

section \<open>Submission\<close>

text \<open>
  One round of the loop of \<open>submit_packet\<close>: whether the decoder still runs, whether MPP took the
  packet, its return code, and whether 100 ms have passed. The list ends when the decoder stops.
  The answers for a packet depend on how many were handed over before; \<open>None\<close> is a failing
  \<open>mpp_packet_init\<close>.
\<close>

record put_round =
  pr_running :: bool
  pr_ok :: bool
  pr_code :: int
  pr_late :: bool

datatype put_outcome = Accepted | Stopped | Stalled int

fun put_loop :: "put_round list \<Rightarrow> put_outcome" where
  "put_loop [] = Stopped"
| "put_loop (r # rs) =
     (if \<not> pr_running r then Stopped
      else if pr_ok r then Accepted
      else if pr_late r then Stalled (pr_code r)
      else put_loop rs)"

record environment =
  env_put :: "nat \<Rightarrow> bytes \<Rightarrow> put_round list option"
  env_getenv :: "string \<Rightarrow> string option"
  env_file :: "string \<Rightarrow> bytes option"

definition submit_packet :: "environment \<Rightarrow> bytes \<Rightarrow> nat \<Rightarrow> decoder \<Rightarrow> bool \<times> decoder" where
  "submit_packet env pkt pts d =
     (if pkt = [] \<or> \<not> opened d then (False, d)
      else if mjpeg d then (False, d)
      else case env_put env (length (handed d)) pkt of
        None \<Rightarrow> (False, d\<lparr>last_error := ''failed to allocate RKMPP input packet''\<rparr>)
      | Some rounds \<Rightarrow>
          (case put_loop rounds of
             Accepted \<Rightarrow> (True, d\<lparr>parsed_units := parsed_units d + 1,
                               submitted_packets := submitted_packets d + 1,
                               handed := handed d @ [(pkt, pts)]\<rparr>)
           | Stopped \<Rightarrow> (False, d)
           | Stalled code \<Rightarrow>
               (let d1 = d\<lparr>submit_stalls := submit_stalls d + 1\<rparr>
                in (False, d1\<lparr>last_error := ''RKMPP decode_put_packet stalled for 100ms last_ret=''
                      @ int_str code @ '' packet_size='' @ nat_str (length pkt)
                      @ '' pts='' @ nat_str pts @ '' '' @ stats d1\<rparr>))))"

section \<open>The recovery seed\<close>

definition x20_sps :: bytes where
  "x20_sps = [0x67, 0x4d, 0x00, 0x29, 0x96, 0x54, 0x02, 0x80, 0x2d, 0x88]"

definition x20_pps :: bytes where
  "x20_pps = [0x68, 0xee, 0x31, 0x12]"

definition is_x21_rv1126_mpp_sps :: "bytes \<Rightarrow> bool" where
  "is_x21_rv1126_mpp_sps nal \<longleftrightarrow>
     4 \<le> length nal \<and> nal ! 0 AND 0x1F = 7 \<and> nal ! 1 = 0x64 \<and> nal ! 3 = 0x2a"

definition seed_needed :: "decoder \<Rightarrow> bool" where
  "seed_needed d \<longleftrightarrow>
     (x20_sps_seen d \<and> x20_pps_seen d \<and> \<not> x20_header_injected d) \<or>
     (x21_mpp_sps_seen d \<and> \<not> x20_header_injected d)"

definition update_x20_detection :: "bytes \<Rightarrow> decoder \<Rightarrow> bool \<times> decoder" where
  "update_x20_detection nal d =
     (if x20_header_injected d \<or> x20_checked_non_x20 d \<or> nal = [] then (seed_needed d, d)
      else let d' =
             (if h264_nal_type nal = 7
              then (if nal = x20_sps then d\<lparr>x20_sps_seen := True\<rparr>
                    else if is_x21_rv1126_mpp_sps nal then d\<lparr>x21_mpp_sps_seen := True\<rparr>
                    else d\<lparr>x20_checked_non_x20 := True\<rparr>)
              else if h264_nal_type nal = 8
              then (if nal = x20_pps then d\<lparr>x20_pps_seen := True\<rparr> else d\<lparr>x20_checked_non_x20 := True\<rparr>)
              else d)
           in (seed_needed d', d'))"

definition seed_paths :: "environment \<Rightarrow> bool \<Rightarrow> string list" where
  "seed_paths env x21 =
     (let name = (if x21 then ''x21_header.h264'' else ''x20_header.h264'');
          override = env_getenv env (if x21 then ''OPENHD_GLIDE_X21_HEADER'' else ''OPENHD_GLIDE_X20_HEADER'')
      in (case override of Some p \<Rightarrow> (if p = [] then [] else [p]) | None \<Rightarrow> [])
         @ [''/usr/share/openhd-glide/'' @ name, ''/usr/local/share/openhd-glide/'' @ name,
            ''/usr/local/bin/'' @ name])"

definition find_seed :: "environment \<Rightarrow> bool \<Rightarrow> bytes option" where
  "find_seed env x21 =
     (case List.find (\<lambda>p. env_file env p \<noteq> None \<and> env_file env p \<noteq> Some []) (seed_paths env x21) of
        None \<Rightarrow> None | Some p \<Rightarrow> env_file env p)"

definition inject_x20_header_if_needed :: "environment \<Rightarrow> decoder \<Rightarrow> bool \<times> decoder" where
  "inject_x20_header_if_needed env d =
     (if x20_header_injected d \<or> x20_header_missing d then (True, d)
      else case find_seed env (x21_mpp_sps_seen d) of
        None \<Rightarrow> (True, d\<lparr>x20_header_missing := True\<rparr>)
      | Some header \<Rightarrow>
          and_then (submit_packet env header 0 d)
            (\<lambda>d. (True, d\<lparr>x20_header_injected := True,
                          x20_header_injections := x20_header_injections d + 1\<rparr>)))"

definition submit_nal :: "environment \<Rightarrow> bytes \<Rightarrow> nat \<Rightarrow> decoder \<Rightarrow> bool \<times> decoder" where
  "submit_nal env nal pts d =
     (if nal = [] then (True, d)
      else and_then
        (if h265 d then (True, d)
         else let (needed, d1) = update_x20_detection nal d
              in if needed then inject_x20_header_if_needed env d1 else (True, d1))
        (submit_packet env (if take 4 nal = start_code then nal else start_code @ nal) pts))"

section \<open>Pictures\<close>

definition clear_unit :: "decoder \<Rightarrow> decoder" where
  "clear_unit d = d\<lparr>access_unit := [], have_access_unit := False\<rparr>"

definition is_vcl :: "decoder \<Rightarrow> bytes \<Rightarrow> bool" where
  "is_vcl d nal \<longleftrightarrow>
     (if h265 d then h265_nal_type nal \<le> 31 else 1 \<le> h264_nal_type nal \<and> h264_nal_type nal \<le> 5)"

definition collect_vcl :: "bytes \<Rightarrow> u32 \<Rightarrow> decoder \<Rightarrow> decoder" where
  "collect_vcl nal t d =
     (let d1 = (if have_access_unit d \<and> access_unit_timestamp d \<noteq> t
                then (clear_unit d)\<lparr>incomplete_fragments := incomplete_fragments d + 1\<rparr> else d);
          d2 = (if \<not> have_access_unit d1
                then d1\<lparr>access_unit_timestamp := t, have_access_unit := True\<rparr> else d1)
      in d2\<lparr>access_unit := access_unit d2 @ start_code @ nal\<rparr>)"

definition queue_nal :: "environment \<Rightarrow> u32 \<Rightarrow> bytes \<Rightarrow> decoder \<Rightarrow> bool \<times> decoder" where
  "queue_nal env t nal d =
     (if nal = [] then (True, d)
      else and_then
        (if force_x20_header d \<and> \<not> h265 d \<and> \<not> mjpeg d \<and> submitted_packets d = 0 \<and>
            \<not> x20_sps_seen d \<and> \<not> x20_pps_seen d \<and> \<not> x20_header_injected d
         then inject_x20_header_if_needed env d else (True, d))
        (\<lambda>d. if \<not> is_vcl d nal then submit_nal env nal (unat t) d else (True, collect_vcl nal t d)))"

definition flush_access_unit :: "environment \<Rightarrow> decoder \<Rightarrow> bool \<times> decoder" where
  "flush_access_unit env d =
     (if \<not> have_access_unit d \<or> access_unit d = [] then (True, clear_unit d)
      else let (ok, d1) = submit_packet env (access_unit d) (unat (access_unit_timestamp d)) d
           in (ok, clear_unit d1))"

definition flush_if :: "environment \<Rightarrow> bool \<Rightarrow> decoder \<Rightarrow> bool \<times> decoder" where
  "flush_if env m d = (if m then flush_access_unit env d else (True, d))"

section \<open>Depacketization\<close>

text \<open>A fragment: the header bytes that start the unit, the start and end flags, the data.\<close>

definition append_fragment ::
  "environment \<Rightarrow> bytes \<Rightarrow> bool \<Rightarrow> bool \<Rightarrow> bytes \<Rightarrow> bool \<Rightarrow> u32 \<Rightarrow> decoder \<Rightarrow> bool \<times> decoder" where
  "append_fragment env header starts ends data m t d =
     (if \<not> starts \<and> (fragment d = [] \<or> current_timestamp d \<noteq> t)
      then (True, d\<lparr>incomplete_fragments := incomplete_fragments d + 1\<rparr>)
      else let d1 = (if starts then d\<lparr>fragment := header, current_timestamp := t\<rparr> else d);
               d2 = d1\<lparr>fragment := fragment d1 @ data\<rparr>
           in if ends
              then let (ok, d3) = queue_nal env t (fragment d2) d2; d4 = d3\<lparr>fragment := []\<rparr>
                   in if ok then flush_if env m d4 else (False, d4)
              else (True, d2))"

definition append_h264_payload :: "environment \<Rightarrow> bytes \<Rightarrow> bool \<Rightarrow> u32 \<Rightarrow> decoder \<Rightarrow> bool \<times> decoder" where
  "append_h264_payload env p m t d =
     (if p = [] then (True, d)
      else let ty = h264_nal_type p in
      if 1 \<le> ty \<and> ty \<le> 23 then and_then (queue_nal env t p d) (flush_if env m)
      else if ty = 24
      then and_then (for_all (queue_nal env t) (fst (aggregated (drop 1 p))) d) (flush_if env m)
      else if ty = 28 \<and> 2 \<le> length p
      then append_fragment env [(p ! 0 AND 0xE0) OR (p ! 1 AND 0x1F)] (p ! 1 AND 0x80 \<noteq> 0)
             (p ! 1 AND 0x40 \<noteq> 0) (drop 2 p) m t d
      else (True, d))"

definition append_h265_payload :: "environment \<Rightarrow> bytes \<Rightarrow> bool \<Rightarrow> u32 \<Rightarrow> decoder \<Rightarrow> bool \<times> decoder" where
  "append_h265_payload env p m t d =
     (if length p < 2 then (True, d)
      else let ty = h265_nal_type p in
      if ty \<le> 47 then and_then (queue_nal env t p d) (flush_if env m)
      else if ty = 48
      then and_then (for_all (queue_nal env t) (fst (aggregated (drop 2 p))) d) (flush_if env m)
      else if ty = 49 \<and> 3 \<le> length p
      then append_fragment env [(p ! 0 AND 0x81) OR push_bit 1 (p ! 2 AND 0x3F), p ! 1]
             (p ! 2 AND 0x80 \<noteq> 0) (p ! 2 AND 0x40 \<noteq> 0) (drop 3 p) m t d
      else (True, d))"

section \<open>JPEG\<close>

definition queue_mjpeg_access_unit :: "nat \<Rightarrow> nat \<Rightarrow> nat \<Rightarrow> decoder \<Rightarrow> decoder" where
  "queue_mjpeg_access_unit width height pts d =
     (let au = access_unit d;
          data = (if length au < 2 \<or> au ! (length au - 2) \<noteq> 0xFF \<or> au ! (length au - 1) \<noteq> 0xD9
                  then au @ [0xFF, 0xD9] else au);
          (gone, units) = push_bounded 3
            \<lparr>ju_data = data, ju_pts = pts, ju_width = width, ju_height = height\<rparr> (mjpeg_units d)
      in clear_unit (d\<lparr>mjpeg_units := units,
           dropped_decoded_frames := dropped_decoded_frames d + of_nat (length gone)\<rparr>))"

definition jpeg_dimension :: "u8 \<Rightarrow> nat" where
  "jpeg_dimension b = (if b = 0 then 2048 else unat b * 8)"

text \<open>
  The fields before the scan data: the offset of the scan data, the type, the restart interval and
  the quantization tables. \<open>Inl True\<close> is a return that counts the packet as incomplete,
  \<open>Inl False\<close> one that does not.
\<close>

record jpeg_fields =
  jf_offset :: nat
  jf_type :: u8
  jf_restart :: nat
  jf_luma :: bytes
  jf_chroma :: bytes

definition jpeg_restart :: "bytes \<Rightarrow> (nat \<times> u8 \<times> nat) option" where
  "jpeg_restart p =
     (if p ! 4 AND 0x40 = 0 then Some (8, p ! 4, 0)
      else if length p < 12 then None
      else Some (12, p ! 4 AND NOT 0x40, be16 (p ! 8) (p ! 9)))"

definition parse_jpeg :: "bytes \<Rightarrow> nat \<Rightarrow> bool + jpeg_fields" where
  "parse_jpeg p fragment_offset =
     (case jpeg_restart p of
        None \<Rightarrow> Inl False
      | Some (off, ty, restart) \<Rightarrow>
          if 128 \<le> unat (p ! 5) \<and> fragment_offset = 0
          then if length p < off + 4 then Inl False
               else let precision = p ! (off + 1); table_length = be16 (p ! (off + 2)) (p ! (off + 3));
                        tables = off + 4
                    in if precision \<noteq> 0 \<or> table_length < 128 \<or> length p < tables + table_length
                       then Inl True
                       else Inr \<lparr>jf_offset = tables + table_length, jf_type = ty, jf_restart = restart,
                                 jf_luma = take 64 (drop tables p),
                                 jf_chroma = take 64 (drop (tables + 64) p)\<rparr>
          else Inr \<lparr>jf_offset = off, jf_type = ty, jf_restart = restart,
                    jf_luma = fst (make_jpeg_quant_tables (p ! 5)),
                    jf_chroma = snd (make_jpeg_quant_tables (p ! 5))\<rparr>)"

definition start_jpeg :: "jpeg_fields \<Rightarrow> nat \<Rightarrow> nat \<Rightarrow> bytes \<Rightarrow> u32 \<Rightarrow> decoder \<Rightarrow> decoder" where
  "start_jpeg f width height scan t d =
     (let d1 = (if have_access_unit d \<and> access_unit d \<noteq> [] \<and> access_unit_timestamp d \<noteq> t
                then queue_mjpeg_access_unit (mjpeg_width d) (mjpeg_height d)
                       (unat (access_unit_timestamp d)) d
                else d)
      in d1\<lparr>access_unit := (if take 2 scan = [0xFF, 0xD8] then scan
              else jpeg_header (jf_type f) width height (jf_luma f) (jf_chroma f) (jf_restart f) @ scan),
            access_unit_timestamp := t, have_access_unit := True,
            mjpeg_width := width, mjpeg_height := height\<rparr>)"

definition append_mjpeg_payload :: "bytes \<Rightarrow> bool \<Rightarrow> u32 \<Rightarrow> decoder \<Rightarrow> bool \<times> decoder" where
  "append_mjpeg_payload p m t d =
     (if length p < 8 then (True, d)
      else let fragment_offset = 65536 * unat (p ! 1) + 256 * unat (p ! 2) + unat (p ! 3);
               width = jpeg_dimension (p ! 6); height = jpeg_dimension (p ! 7);
               incomplete = d\<lparr>incomplete_fragments := incomplete_fragments d + 1\<rparr> in
      case parse_jpeg p fragment_offset of
        Inl counted \<Rightarrow> (True, if counted then incomplete else d)
      | Inr f \<Rightarrow>
          if length p \<le> jf_offset f then (True, d)
          else let scan = drop (jf_offset f) p in
          if fragment_offset \<noteq> 0 \<and> (\<not> have_access_unit d \<or> access_unit_timestamp d \<noteq> t)
          then (True, incomplete)
          else let d1 = (if fragment_offset = 0 then start_jpeg f width height scan t d
                         else d\<lparr>access_unit := access_unit d @ scan\<rparr>)
               in (True, if m then queue_mjpeg_access_unit width height (unat t) d1 else d1))"

section \<open>The packet handler\<close>

definition forget_partial :: "decoder \<Rightarrow> decoder" where
  "forget_partial d = d\<lparr>fragment := [], access_unit := [], have_access_unit := False\<rparr>"

text \<open>The sequence supervision: whether the packet is used, and the state after.\<close>

definition supervise :: "rtp \<Rightarrow> decoder \<Rightarrow> bool \<times> decoder" where
  "supervise r d =
     (let d0 = d\<lparr>rtp_packets := rtp_packets d + 1\<rparr>;
          delta = (if have_sequence d0 then sequence_delta (seqno r) (expected_sequence d0) else 0);
          tdelta = (if have_rtp_timestamp d0 then timestamp_delta (timestamp r) (last_rtp_timestamp d0) else 0)
      in if delta < 0 \<and> \<not> (delta < - 1000 \<or> tdelta < - 90000)
         then (False, d0\<lparr>late_or_duplicate_packets := late_or_duplicate_packets d0 + 1\<rparr>)
         else let d1 = (if delta < 0
                        then (forget_partial d0)\<lparr>rtp_sequence_resyncs := rtp_sequence_resyncs d0 + 1\<rparr>
                        else if 0 < delta
                        then (forget_partial d0)\<lparr>rtp_sequence_gaps := rtp_sequence_gaps d0 + 1\<rparr>
                        else d0)
              in (True, d1\<lparr>expected_sequence := seqno r + 1, last_rtp_timestamp := timestamp r,
                           have_rtp_timestamp := True, have_sequence := True\<rparr>))"

definition append_payload :: "environment \<Rightarrow> rtp \<Rightarrow> decoder \<Rightarrow> bool \<times> decoder" where
  "append_payload env r d =
     (if mjpeg d then append_mjpeg_payload (body r) (marker r) (timestamp r) d
      else if h265 d then append_h265_payload env (body r) (marker r) (timestamp r) d
      else append_h264_payload env (body r) (marker r) (timestamp r) d)"

definition handle_rtp_packet :: "environment \<Rightarrow> bytes \<Rightarrow> decoder \<Rightarrow> bool \<times> decoder" where
  "handle_rtp_packet env packet d =
     (case parse_rtp packet of
        None \<Rightarrow> (True, d)
      | Some r \<Rightarrow> (let (used, d1) = supervise r d
                 in if used then append_payload env r d1 else (True, d1)))"

text \<open>An answer of \<open>recv\<close> in the feed thread: a packet, a transient error or another error's text.\<close>

datatype feed_answer = Packet bytes | Transient | Failed string

fun feed_loop :: "environment \<Rightarrow> feed_answer list \<Rightarrow> decoder \<Rightarrow> decoder" where
  "feed_loop env [] d = d"
| "feed_loop env (a # as) d =
     (if \<not> running d then d
      else case a of
        Transient \<Rightarrow> feed_loop env as d
      | Failed e \<Rightarrow> d\<lparr>last_error := ''failed to receive RKMPP RTP packet: '' @ e, running := False\<rparr>
      | Packet p \<Rightarrow>
          if p = [] then feed_loop env as d
          else let (ok, d1) = handle_rtp_packet env p d
               in if ok then feed_loop env as d1
                  else d1\<lparr>last_error := (if last_error d1 = []
                             then ''native RKMPP RTP feed stopped after packet submit failure''
                             else last_error d1), running := False\<rparr>)"

section \<open>Decoded frames\<close>

text \<open>What MPP says of a frame; the format masks and codes of its header are applied outside.\<close>

record frame_info =
  fi_buffer :: bool
  fi_fd :: "int option"
  fi_width :: u32
  fi_height :: u32
  fi_hstride :: u32
  fi_vstride :: u32
  fi_format :: u32
  fi_base :: u32
  fi_fbc :: u32
  fi_is_nv12 :: bool
  fi_is_uncompressed :: bool
  fi_tiled :: bool

record dmabuf_frame =
  df_width :: u32
  df_height :: u32
  df_format :: string
  df_planes :: "(int \<times> u32 \<times> u32) list"

text \<open>The frame with its planes as (descriptor, stride, offset), or the error text.\<close>

definition frame_to_dmabuf :: "frame_info \<Rightarrow> string + dmabuf_frame" where
  "frame_to_dmabuf f =
     (if \<not> fi_buffer f then Inl ''MPP decoded frame is missing a buffer''
      else case fi_fd f of
        None \<Rightarrow> Inl ''MPP decoded frame buffer is not fd-backed''
      | Some fd \<Rightarrow>
          if fd < 0 then Inl ''MPP decoded frame buffer is not fd-backed''
          else if fi_width f = 0 \<or> fi_height f = 0 \<or> fi_hstride f = 0 \<or> fi_vstride f = 0
          then Inl ''MPP decoded frame has invalid dimensions''
          else if \<not> fi_is_nv12 f \<or> \<not> fi_is_uncompressed f \<or> fi_tiled f
          then Inl (''MPP decoded frame is not linear NV12 fmt=0x'' @ hex_str (unat (fi_format f))
                 @ '' base=0x'' @ hex_str (unat (fi_base f)) @ '' fbc=0x'' @ hex_str (unat (fi_fbc f))
                 @ '' tiled='' @ (if fi_tiled f then ''1'' else ''0''))
          else Inr \<lparr>df_width = fi_width f, df_height = fi_height f, df_format = ''NV12'',
                    df_planes = [(fd, fi_hstride f, 0), (fd, fi_hstride f, fi_hstride f * fi_vstride f)]\<rparr>)"

definition release :: "nat list \<Rightarrow> decoder \<Rightarrow> decoder" where
  "release fs d = d\<lparr>released := released d @ fs\<rparr>"

definition poll :: "(nat \<Rightarrow> frame_info) \<Rightarrow> decoder \<Rightarrow> dmabuf_frame option \<times> decoder" where
  "poll info d =
     (if ready_frames d = [] then (None, d)
      else let (gone, kept) = drop_to 2 (ready_frames d);
               selected = hd kept;
               d1 = (release gone d)\<lparr>ready_frames := tl kept,
                      dropped_decoded_frames := dropped_decoded_frames d + of_nat (length gone)\<rparr>;
               d2 = (release (held (pending_frame d1)) d1)\<lparr>pending_frame := Some selected\<rparr>
           in case frame_to_dmabuf (info selected) of
                Inr out \<Rightarrow> (Some out, d2)
              | Inl e \<Rightarrow> (None, (release [selected] d2)\<lparr>pending_frame := None, last_error := e\<rparr>))"

definition mark_presented :: "decoder \<Rightarrow> decoder" where
  "mark_presented d =
     (release (held (current_frame d)) d)\<lparr>current_frame := pending_frame d, pending_frame := None\<rparr>"

definition push_frame :: "nat \<Rightarrow> decoder \<Rightarrow> decoder" where
  "push_frame f d =
     (let (gone, q) = push_bounded 4 f (ready_frames d)
      in (release gone d)\<lparr>ready_frames := q,
           dropped_decoded_frames := dropped_decoded_frames d + of_nat (length gone),
           decoded_frames := decoded_frames d + 1\<rparr>)"

text \<open>
  One round of \<open>frame_loop\<close>: the frame MPP gave and what it is; an information change comes with
  the error text of \<open>configure_h26x_output_group\<close>, if it failed.
\<close>

datatype frame_event = No_frame | Info_change nat "string option" | Unusable nat | Usable nat

definition event_frames :: "frame_event \<Rightarrow> nat list" where
  "event_frames e = (case e of No_frame \<Rightarrow> [] | Info_change f _ \<Rightarrow> [f] | Unusable f \<Rightarrow> [f] | Usable f \<Rightarrow> [f])"

definition frame_round :: "frame_event \<Rightarrow> decoder \<Rightarrow> decoder" where
  "frame_round e d =
     (if \<not> running d then release (event_frames e) d
      else case e of
        No_frame \<Rightarrow> d
      | Info_change f None \<Rightarrow> release [f] d
      | Info_change f (Some e) \<Rightarrow> (release [f] d)\<lparr>last_error := e, running := False\<rparr>
      | Unusable f \<Rightarrow> release [f] d
      | Usable f \<Rightarrow> push_frame f d)"

text \<open>
  One round of \<open>mjpeg_task_loop\<close>: only the newest unit is decoded; the answer of the MPP task of
  \<open>submit_mjpeg_task\<close> is the frame it filled, or the text of the step that failed (which gives back
  its buffers and its frame itself).
\<close>

definition mjpeg_round :: "(jpeg_unit \<Rightarrow> string + nat) \<Rightarrow> decoder \<Rightarrow> decoder" where
  "mjpeg_round task d =
     (if \<not> running d \<or> mjpeg_units d = [] then d
      else let (gone, kept) = drop_to 1 (mjpeg_units d);
               d1 = d\<lparr>mjpeg_units := [], dropped_decoded_frames := dropped_decoded_frames d + of_nat (length gone)\<rparr>
           in if ju_width (hd kept) = 0 \<or> ju_height (hd kept) = 0
              then d1\<lparr>last_error := ''RKMPP MJPEG dimensions are not known'', running := False\<rparr>
              else case task (hd kept) of
                Inl e \<Rightarrow> d1\<lparr>last_error := e, running := False\<rparr>
              | Inr f \<Rightarrow> (push_frame f d1)\<lparr>parsed_units := parsed_units d1 + 1,
                                            submitted_packets := submitted_packets d1 + 1\<rparr>)"

definition cleanup :: "decoder \<Rightarrow> decoder" where
  "cleanup d =
     (release (ready_frames d @ held (pending_frame d) @ held (current_frame d)) d)
       \<lparr>running := False, opened := False, ready_frames := [], mjpeg_units := [], pending_frame := None,
        current_frame := None\<rparr>"

section \<open>Start\<close>

text \<open>
  The answers of MPP and of the system to the steps of \<open>start\<close>: the format support, \<open>mpp_create\<close>,
  \<open>mpp_init\<close>, and the error texts of \<open>socket\<close> and \<open>bind\<close> if they fail. The decoder configuration of
  \<open>configure_mpp\<close> ignores failures and keeps no state.
\<close>

record start_answers =
  sa_supported :: bool
  sa_created :: bool
  sa_initialized :: bool
  sa_socket_error :: "string option"
  sa_bind_error :: "string option"

definition init_mpp :: "start_answers \<Rightarrow> string \<Rightarrow> decoder \<Rightarrow> bool \<times> decoder" where
  "init_mpp a codec d =
     (let d1 = d\<lparr>h265 := is_h265_name codec, mjpeg := is_mjpeg_name codec\<rparr> in
      if \<not> sa_supported a
      then (False, d1\<lparr>last_error := ''Rockchip MPP does not support ''
              @ (if mjpeg d1 then ''MJPEG'' else if h265 d1 then ''HEVC'' else ''AVC'') @ '' decode''\<rparr>)
      else if \<not> sa_created a then (False, d1\<lparr>last_error := ''mpp_create failed''\<rparr>)
      else let d2 = d1\<lparr>opened := True\<rparr>
           in if \<not> sa_initialized a then (False, d2\<lparr>last_error := ''mpp_init decoder failed''\<rparr>)
              else (True, d2))"

definition init_socket :: "start_answers \<Rightarrow> decoder \<Rightarrow> bool \<times> decoder" where
  "init_socket a d =
     (case sa_socket_error a of
        Some e \<Rightarrow> (False, d\<lparr>last_error := ''failed to create RKMPP UDP socket: '' @ e\<rparr>)
      | None \<Rightarrow>
          (case sa_bind_error a of
             Some e \<Rightarrow> (False, d\<lparr>last_error := ''failed to bind RKMPP UDP RTP socket: '' @ e\<rparr>)
           | None \<Rightarrow> (True, d)))"

definition start :: "start_answers \<Rightarrow> string \<Rightarrow> bool \<Rightarrow> decoder \<Rightarrow> bool \<times> decoder" where
  "start a codec force d =
     (let (ok, d1) = and_then (init_mpp a codec (d\<lparr>last_error := [], force_x20_header := force\<rparr>)) (init_socket a)
      in if ok then (True, d1\<lparr>running := True\<rparr>) else (False, cleanup d1))"

end
