(* ===== verification/Rtp_Contracts.thy ===== *)
theory Rtp_Contracts
  imports Rtp
begin

text \<open>
  What the decoders of \<open>src/video\<close> promise in common. The first part describes the packets a sender
  makes of an H.264 unit and of the slices of a picture. \<open>fragment_reader\<close> is the contract of a
  decoder that puts FU-A fragments together; \<open>frame_owner\<close> is the contract of one that keeps decoded
  frames and gives each back.
\<close>

section \<open>Frames for the display\<close>

text \<open>\<open>DmabufVideoFrame\<close> of \<open>dev/kms_dmabuf_video_plane.hpp\<close>; a plane is its descriptor, stride and offset.\<close>

datatype yuv_color_space = Cs_unspecified | Cs_rec601 | Cs_rec709 | Cs_rec2020
datatype yuv_range = Range_unspecified | Range_narrow | Range_full

record video_frame =
  vf_width :: u32
  vf_height :: u32
  vf_format :: string
  vf_planes :: "(int \<times> u32 \<times> u32) list"
  vf_color :: yuv_color_space
  vf_range :: yuv_range

section \<open>The sender\<close>

definition fu_header :: "u8 \<Rightarrow> bool \<Rightarrow> bool \<Rightarrow> bytes" where
  "fu_header h starts ends =
     [(h AND 0xE0) OR 28, (if starts then 0x80 else 0) OR (if ends then 0x40 else 0) OR (h AND 0x1F)]"

text \<open>The FU-A packets a sender makes of the unit \<open>h # concat chunks\<close>.\<close>

fun fu_packets :: "u16 \<Rightarrow> u32 \<Rightarrow> u32 \<Rightarrow> u8 \<Rightarrow> bool \<Rightarrow> bool \<Rightarrow> bytes list \<Rightarrow> bytes list" where
  "fu_packets s t ssrc h m starts [] = []"
| "fu_packets s t ssrc h m starts (c # cs) =
     build_rtp (m \<and> cs = []) s t ssrc (fu_header h starts (cs = []) @ c)
     # fu_packets (s + 1) t ssrc h m False cs"

text \<open>The packets of the units of one picture, the marker on the last.\<close>

fun slice_packets :: "u16 \<Rightarrow> u32 \<Rightarrow> u32 \<Rightarrow> bytes list \<Rightarrow> bytes list" where
  "slice_packets s t ssrc [] = []"
| "slice_packets s t ssrc (n # ns) = build_rtp (ns = []) s t ssrc n # slice_packets (s + 1) t ssrc ns"

definition annex_b :: "bytes list \<Rightarrow> bytes" where
  "annex_b nals = concat (map (\<lambda>nal. start_code @ nal) nals)"

lemma annex_b_Cons [simp]: "annex_b (n # ns) = start_code @ n @ annex_b ns"
  by (simp add: annex_b_def)

lemma annex_b_Nil [simp]: "annex_b [] = []"
  by (simp add: annex_b_def)

lemma u8_eqI:
  assumes "bit (a :: u8) 0 = bit b 0" "bit a 1 = bit b 1" "bit a 2 = bit b 2" "bit a 3 = bit b 3"
    "bit a 4 = bit b 4" "bit a 5 = bit b 5" "bit a 6 = bit b 6" "bit a 7 = bit b 7"
  shows "a = b"
proof (rule bit_word_eqI)
  fix n :: nat
  assume "n < LENGTH(8)"
  then consider "n = 0" | "n = 1" | "n = 2" | "n = 3" | "n = 4" | "n = 5" | "n = 6" | "n = 7" by fastforce
  then show "bit a n = bit b n" by cases (use assms in simp_all)
qed

lemma fu_bits:
  fixes h :: u8
  shows "((h AND 0xE0) OR 28) AND 0x1F = 28"
    and "(((h AND 0xE0) OR 28) AND 0xE0) OR (((if a then 0x80 else 0) OR (if b then 0x40 else 0) OR (h AND 0x1F)) AND 0x1F) = h"
    and "((if a then 0x80 else 0) OR (if b then 0x40 else 0) OR (h AND 0x1F)) AND 0x80 = (if a then 0x80 else 0)"
    and "((if a then 0x80 else 0) OR (if b then 0x40 else 0) OR (h AND 0x1F)) AND 0x40 = (if b then 0x40 else 0)"
  by (cases a; cases b; intro u8_eqI; simp add: bit_simps)+

lemma fu_header_nonempty [simp]: "fu_header h a e \<noteq> []"
  by (simp add: fu_header_def)

lemma fu_type: "h264_nal_type (fu_header h a e @ c) = 28"
  by (simp add: h264_nal_type_def fu_header_def fu_bits(1))

section \<open>Readers of fragments\<close>

text \<open>
  \<open>counted s t\<close> is what a packet in order does to the counters, \<open>keep t x\<close> stores the bytes of a
  unit, and \<open>complete\<close> is what happens to a stored unit at its last fragment.
\<close>

locale fragment_reader =
  fixes handle :: "'e \<Rightarrow> bytes \<Rightarrow> 's \<Rightarrow> bool \<times> 's"
    and in_order :: "u16 \<Rightarrow> 's \<Rightarrow> bool"
    and counted :: "u16 \<Rightarrow> u32 \<Rightarrow> 's \<Rightarrow> 's"
    and keep :: "u32 \<Rightarrow> bytes \<Rightarrow> 's \<Rightarrow> 's"
    and complete :: "'e \<Rightarrow> bool \<Rightarrow> u32 \<Rightarrow> 's \<Rightarrow> bool \<times> 's"
  assumes first_fragment: "in_order s d \<Longrightarrow>
      handle env (build_rtp m s t ssrc (fu_header h True e @ c)) d =
        (let d' = keep t (h # c) (counted s t d) in if e then complete env m t d' else (True, d'))"
    and next_fragment: "in_order s (keep t x d) \<Longrightarrow> x \<noteq> [] \<Longrightarrow>
      handle env (build_rtp m s t ssrc (fu_header h False e @ c)) (keep t x d) =
        (let d' = keep t (x @ c) (counted s t d) in if e then complete env m t d' else (True, d'))"
    and in_order_keep: "in_order s d \<Longrightarrow> in_order (s + 1) (keep t x (counted s t d))"
    and in_order_counted: "in_order s (keep t x d) \<Longrightarrow> in_order s d"
begin

fun counted_many :: "nat \<Rightarrow> u16 \<Rightarrow> u32 \<Rightarrow> 's \<Rightarrow> 's" where
  "counted_many 0 s t d = d"
| "counted_many (Suc n) s t d = counted_many n (s + 1) t (counted s t d)"

lemma next_fragments:
  assumes "in_order s (keep t x d)" "x \<noteq> []" "cs \<noteq> []"
  shows "for_all (handle env) (fu_packets s t ssrc h m False cs) (keep t x d)
         = complete env m t (keep t (x @ concat cs) (counted_many (length cs) s t d))"
  using assms
proof (induction cs arbitrary: s d x)
  case (Cons c cs)
  have ord: "in_order (s + 1) (keep t (x @ c) (counted s t d))"
    by (rule in_order_keep[OF in_order_counted[OF Cons.prems(1)]])
  show ?case
  proof (cases "cs = []")
    case True
    with Cons.prems show ?thesis
      by (simp add: next_fragment and_then_def split: prod.splits)
  next
    case False
    with Cons.prems Cons.IH[OF ord] show ?thesis
      by (simp add: next_fragment)
  qed
qed simp

lemma all_fragments:
  assumes "in_order s d" "cs \<noteq> []"
  shows "for_all (handle env) (fu_packets s t ssrc h m True cs) d
         = complete env m t (keep t (h # concat cs) (counted_many (length cs) s t d))"
proof -
  obtain c cs' where cs: "cs = c # cs'" using assms(2) by (cases cs) auto
  show ?thesis
  proof (cases "cs' = []")
    case True
    with assms cs show ?thesis by (simp add: first_fragment and_then_def split: prod.splits)
  next
    case False
    with assms cs next_fragments[OF in_order_keep[OF assms(1)], of "h # c" cs'] show ?thesis
      by (simp add: first_fragment)
  qed
qed

end

section \<open>Owners of frames\<close>

text \<open>
  A step takes the frames \<open>gives e s\<close> from the decoder hardware; \<open>owned\<close> are the frames kept and
  \<open>returned\<close> those given back. No step loses or doubles a frame, as long as \<open>ok\<close> holds, and it does.
\<close>

locale frame_owner =
  fixes step :: "'e \<Rightarrow> 's \<Rightarrow> 's"
    and gives :: "'e \<Rightarrow> 's \<Rightarrow> nat list"
    and owned :: "'s \<Rightarrow> nat list"
    and returned :: "'s \<Rightarrow> nat list"
    and ok :: "'s \<Rightarrow> bool"
  assumes step_conserves: "ok s \<Longrightarrow>
      mset (owned (step e s)) + mset (returned (step e s)) = mset (owned s) + mset (returned s) + mset (gives e s)"
    and step_ok: "ok s \<Longrightarrow> ok (step e s)"
begin

fun run :: "'e list \<Rightarrow> 's \<Rightarrow> 's" where
  "run [] s = s"
| "run (e # es) s = run es (step e s)"

fun given :: "'e list \<Rightarrow> 's \<Rightarrow> nat list" where
  "given [] s = []"
| "given (e # es) s = gives e s @ given es (step e s)"

lemma run_fold: "run es s = fold step es s"
  by (induction es arbitrary: s) simp_all

lemma run_ok: "ok s \<Longrightarrow> ok (run es s)"
  by (induction es arbitrary: s) (simp_all add: step_ok)

lemma run_conserves:
  "ok s \<Longrightarrow>
   mset (owned (run es s)) + mset (returned (run es s)) = mset (owned s) + mset (returned s) + mset (given es s)"
  by (induction es arbitrary: s) (simp_all add: step_conserves step_ok ac_simps)

text \<open>From an owner of nothing: as long as the hardware gives distinct frames, none is returned twice
  and none is both kept and returned.\<close>

lemma returned_once:
  assumes "ok s" "owned s = []" "returned s = []" "distinct (given es s)"
  shows "distinct (returned (run es s)) \<and> set (owned (run es s)) \<inter> set (returned (run es s)) = {}
    \<and> set (owned (run es s)) \<union> set (returned (run es s)) = set (given es s)"
proof -
  have "mset (owned (run es s) @ returned (run es s)) = mset (given es s)"
    using run_conserves[of s es] assms by simp
  then have "distinct (owned (run es s) @ returned (run es s))"
    "set (owned (run es s) @ returned (run es s)) = set (given es s)"
    using assms(4) by (metis distinct_count_atmost_1 mset_eq_imp_distinct_iff, metis set_mset_mset)
  then show ?thesis by auto
qed

end

text \<open>
  The decoders that ask the hardware inside their operations: \<open>got\<close> records the frames taken so far,
  and every operation grows the record, keeping the balance of kept and returned frames.
\<close>

definition grows ::
  "('s \<Rightarrow> nat list) \<Rightarrow> ('s \<Rightarrow> nat list) \<Rightarrow> ('s \<Rightarrow> nat list) \<Rightarrow> ('s \<Rightarrow> bool) \<Rightarrow> 's \<Rightarrow> 's \<Rightarrow> bool" where
  "grows got owned returned ok d d' \<longleftrightarrow> (ok d \<longrightarrow> ok d' \<and> (\<exists>fs. got d' = got d @ fs \<and>
     mset (owned d') + mset (returned d') = mset (owned d) + mset (returned d) + mset fs))"

lemma grows_same:
  "got d' = got d \<Longrightarrow> owned d' = owned d \<Longrightarrow> returned d' = returned d \<Longrightarrow> ok d' = ok d \<Longrightarrow>
   grows got owned returned ok d d'"
  by (simp add: grows_def)

lemma grows_refl [simp]: "grows got owned returned ok d d"
  by (simp add: grows_same)

lemma grows_trans:
  "grows got owned returned ok a b \<Longrightarrow> grows got owned returned ok b c \<Longrightarrow> grows got owned returned ok a c"
  unfolding grows_def by (metis append.assoc mset_append union_assoc)

lemma grows_and_then:
  assumes "grows got owned returned ok a (snd r)" "\<And>d. grows got owned returned ok d (snd (f d))"
  shows "grows got owned returned ok a (snd (and_then r f))"
  using assms grows_trans[OF assms(1) assms(2)] by (cases r) (simp add: and_then_def)

lemma grows_for_all:
  assumes "\<And>x d. grows got owned returned ok d (snd (f x d))"
  shows "grows got owned returned ok d (snd (for_all f xs d))"
  by (induction xs arbitrary: d) (simp_all add: grows_and_then assms)

locale frame_ledger =
  fixes step :: "'e \<Rightarrow> 's \<Rightarrow> 's"
    and got :: "'s \<Rightarrow> nat list"
    and owned :: "'s \<Rightarrow> nat list"
    and returned :: "'s \<Rightarrow> nat list"
    and ok :: "'s \<Rightarrow> bool"
  assumes step_grows: "grows got owned returned ok s (step e s)"
begin

definition taken :: "'e \<Rightarrow> 's \<Rightarrow> nat list" where
  "taken e s = drop (length (got s)) (got (step e s))"

end

sublocale frame_ledger \<subseteq> frame_owner step taken owned returned ok
proof unfold_locales
  fix s e
  assume "ok s"
  then show "mset (owned (step e s)) + mset (returned (step e s)) = mset (owned s) + mset (returned s) + mset (taken e s)"
    "ok (step e s)"
    using step_grows[of s e] by (auto simp: grows_def taken_def)
qed

context frame_ledger
begin

lemma run_got: "ok s \<Longrightarrow> got (run es s) = got s @ given es s"
proof (induction es arbitrary: s)
  case (Cons e es)
  have "got (step e s) = got s @ taken e s"
    using step_grows[of s e] Cons.prems by (auto simp: grows_def taken_def)
  with Cons step_ok[of s e] show ?case by simp
qed simp

lemma accounted:
  assumes "ok s" "owned s = []" "returned s = []" "got s = []" "distinct (got (fold step es s))"
  shows "let d = fold step es s in
    distinct (returned d) \<and> set (owned d) \<inter> set (returned d) = {} \<and> set (owned d) \<union> set (returned d) = set (got d)
    \<and> mset (owned d) + mset (returned d) = mset (got d) \<and> ok d"
  using assms run_got[OF assms(1), of es] returned_once[OF assms(1-3), of es] run_conserves[OF assms(1), of es]
    run_ok[OF assms(1), of es]
  by (simp add: Let_def flip: run_fold)

end

end
