(* ===== verification/Rockchip_Streams.thy ===== *)
theory Rockchip_Streams
  imports Rockchip_Decoder Rtp_Contracts
begin

text \<open>
  The guarantees of the Rockchip decoder over whole packet streams: fragments of H.264 units give
  the unit, the slices of a picture reach MPP as one packet, what packet loss does to a picture,
  late packets, the recovery seed, and the ownership of decoded frames over any interleaving of the
  feed thread, the frame threads and the owner of the decoder.
\<close>

section \<open>Streams\<close>

text \<open>The decoder after a successful \<open>start\<close> (lemma \<open>start_started\<close>).\<close>

definition started :: "string \<Rightarrow> bool \<Rightarrow> decoder" where
  "started codec force =
     new_decoder\<lparr>opened := True, running := True, h265 := is_h265_name codec,
                 mjpeg := is_mjpeg_name codec, force_x20_header := force\<rparr>"

lemma start_started:
  "start \<lparr>sa_supported = True, sa_created = True, sa_initialized = True, sa_socket_error = None,
          sa_bind_error = None\<rparr> codec force new_decoder = (True, started codec force)"
  by (simp add: start_def init_mpp_def init_socket_def started_def new_decoder_def)

text \<open>A failed start leaves a decoder that neither runs nor accepts packets, with an error text.\<close>

lemma start_failed:
  "start a codec force d = (False, d') \<Longrightarrow> \<not> running d' \<and> \<not> opened d' \<and> last_error d' \<noteq> []"
  by (auto simp: start_def init_mpp_def init_socket_def and_then_def cleanup_def release_def Let_def
      split: prod.splits if_splits option.splits)

definition counted :: "u16 \<Rightarrow> u32 \<Rightarrow> decoder \<Rightarrow> decoder" where
  "counted s t d =
     d\<lparr>rtp_packets := rtp_packets d + 1, expected_sequence := s + 1, last_rtp_timestamp := t,
       have_rtp_timestamp := True, have_sequence := True\<rparr>"

lemma supervise_in_order:
  assumes "have_sequence d \<longrightarrow> expected_sequence d = seqno r"
  shows "supervise r d = (True, counted (seqno r) (timestamp r) d)"
  using assms by (auto simp: supervise_def counted_def sequence_delta_def Let_def)

lemma handle_in_order:
  assumes "have_sequence d \<longrightarrow> expected_sequence d = s" and "b \<noteq> []" and "\<not> mjpeg d" and "\<not> h265 d"
  shows "handle_rtp_packet env (build_rtp m s t ssrc b) d
         = append_h264_payload env b m t (counted s t d)"
  using assms
  by (simp add: handle_rtp_packet_def parse_build_rtp supervise_in_order append_payload_def)
     (simp add: counted_def)

section \<open>Fragments\<close>

lemma append_fu:
  "append_h264_payload env (fu_header h a e @ c) m t d = append_fragment env [h] a e c m t d"
  unfolding append_h264_payload_def Let_def fu_type
  by (simp add: fu_header_def fu_bits(2-4))

text \<open>What the whole unit does once it is reassembled: one \<open>queue_nal\<close>, then the flush of the marker.\<close>

definition unit_complete :: "environment \<Rightarrow> bool \<Rightarrow> u32 \<Rightarrow> bytes \<Rightarrow> decoder \<Rightarrow> bool \<times> decoder" where
  "unit_complete env m t nal d =
     (let (ok, d1) = queue_nal env t nal (d\<lparr>fragment := nal, current_timestamp := t\<rparr>);
          d2 = d1\<lparr>fragment := []\<rparr>
      in if ok then flush_if env m d2 else (False, d2))"

text \<open>The counters after \<open>n\<close> packets in order.\<close>

definition counted_n :: "nat \<Rightarrow> u16 \<Rightarrow> u32 \<Rightarrow> decoder \<Rightarrow> decoder" where
  "counted_n n s t d =
     d\<lparr>rtp_packets := rtp_packets d + of_nat n, expected_sequence := s + of_nat n, last_rtp_timestamp := t,
       have_rtp_timestamp := True, have_sequence := True\<rparr>"

definition reads_h264 :: "u16 \<Rightarrow> decoder \<Rightarrow> bool" where
  "reads_h264 s d \<longleftrightarrow> \<not> mjpeg d \<and> \<not> h265 d \<and> (have_sequence d \<longrightarrow> expected_sequence d = s)"

definition keep_fragment :: "u32 \<Rightarrow> bytes \<Rightarrow> decoder \<Rightarrow> decoder" where
  "keep_fragment t x d = d\<lparr>current_timestamp := t, fragment := x\<rparr>"

definition complete_fragment :: "environment \<Rightarrow> bool \<Rightarrow> u32 \<Rightarrow> decoder \<Rightarrow> bool \<times> decoder" where
  "complete_fragment env m t d =
     (let (ok, d1) = queue_nal env t (fragment d) d; d2 = d1\<lparr>fragment := []\<rparr>
      in if ok then flush_if env m d2 else (False, d2))"

lemma append_fragment_start:
  "append_fragment env [h] True e c m t d
   = (let d' = keep_fragment t (h # c) d in if e then complete_fragment env m t d' else (True, d'))"
  by (simp add: append_fragment_def complete_fragment_def Let_def keep_fragment_def)

lemma append_fragment_more:
  "fragment d \<noteq> [] \<Longrightarrow> current_timestamp d = t \<Longrightarrow> append_fragment env [h] False e c m t d
   = (let d' = d\<lparr>fragment := fragment d @ c\<rparr> in if e then complete_fragment env m t d' else (True, d'))"
  by (simp add: append_fragment_def complete_fragment_def Let_def)

lemma append_fragment_next:
  assumes "x \<noteq> []"
  shows "append_fragment env [h] False e c m t (counted s t (keep_fragment t x d))
   = (let d' = keep_fragment t (x @ c) (counted s t d) in if e then complete_fragment env m t d' else (True, d'))"
proof -
  let ?d = "counted s t (keep_fragment t x d)"
  have eq: "?d\<lparr>fragment := fragment ?d @ c\<rparr> = keep_fragment t (x @ c) (counted s t d)"
    by (simp add: counted_def keep_fragment_def)
  have "fragment ?d \<noteq> []" "current_timestamp ?d = t"
    using assms by (simp_all add: counted_def keep_fragment_def)
  from append_fragment_more[OF this, of env h e c m] show ?thesis unfolding eq .
qed

interpretation rk_fragments: fragment_reader handle_rtp_packet reads_h264 counted keep_fragment complete_fragment
proof unfold_locales
  fix s t ssrc h m e c and env :: environment and d :: decoder
  assume a: "reads_h264 s d"
  show "handle_rtp_packet env (build_rtp m s t ssrc (fu_header h True e @ c)) d =
      (let d' = keep_fragment t (h # c) (counted s t d) in if e then complete_fragment env m t d' else (True, d'))"
    using a handle_in_order[of d s "fu_header h True e @ c"]
    by (simp add: reads_h264_def append_fu append_fragment_start)
next
  fix s t ssrc h m e c x and env :: environment and d :: decoder
  assume a: "reads_h264 s (keep_fragment t x d)" "x \<noteq> []"
  show "handle_rtp_packet env (build_rtp m s t ssrc (fu_header h False e @ c)) (keep_fragment t x d) =
      (let d' = keep_fragment t (x @ c) (counted s t d) in if e then complete_fragment env m t d' else (True, d'))"
    using a handle_in_order[of "keep_fragment t x d" s "fu_header h False e @ c"]
    by (simp add: reads_h264_def append_fu append_fragment_next)
qed (simp_all add: reads_h264_def keep_fragment_def counted_def)

lemma rk_counted_many: "0 < n \<Longrightarrow> rk_fragments.counted_many n s t d = counted_n n s t d"
proof (induction n arbitrary: s d)
  case (Suc n)
  show ?case
  proof (cases "n = 0")
    case True
    have "counted s t d = counted_n 1 s t d" by (simp add: counted_def counted_n_def)
    with True show ?thesis by simp
  next
    case False
    have "counted_n n (s + 1) t (counted s t d) = counted_n (Suc n) s t d"
      by (simp add: counted_n_def counted_def add.assoc)
    with False Suc.IH show ?thesis by simp
  qed
qed simp

lemma unit_complete_keep: "unit_complete env m t nal d = complete_fragment env m t (keep_fragment t nal d)"
proof -
  have "d\<lparr>fragment := nal, current_timestamp := t\<rparr> = keep_fragment t nal d"
    by (simp add: keep_fragment_def)
  then show ?thesis
    unfolding unit_complete_def complete_fragment_def by (simp only:) (simp add: keep_fragment_def)
qed

text \<open>
  The FU-A fragments of an H.264 unit, sent in order, act as the unit \<open>h # concat chunks\<close> itself:
  one \<open>queue_nal\<close> of exactly these bytes at the last fragment and then the flush of its marker.
\<close>

theorem fragments_reassembled:
  assumes "\<not> mjpeg d" "\<not> h265 d" "have_sequence d \<longrightarrow> expected_sequence d = s" "chunks \<noteq> []"
  shows "for_all (handle_rtp_packet env) (fu_packets s t ssrc h m True chunks) d
         = unit_complete env m t (h # concat chunks) (counted_n (length chunks) s t d)"
proof -
  have "reads_h264 s d" using assms by (simp add: reads_h264_def)
  from rk_fragments.all_fragments[OF this assms(4)] show ?thesis
    using assms(4) by (simp add: unit_complete_keep rk_counted_many)
qed

text \<open>Three fragments of an IDR unit with the marker reach MPP as one packet.\<close>

definition accepting :: environment where
  "accepting = \<lparr>env_put = \<lambda>_ _. Some [\<lparr>pr_running = True, pr_ok = True, pr_code = 0, pr_late = False\<rparr>],
                env_getenv = \<lambda>_. None, env_file = \<lambda>_. None\<rparr>"

theorem fragments_reassembled_witness:
  "handed (snd (for_all (handle_rtp_packet accepting)
     (fu_packets 65535 9000 7 0x65 True True [[1, 2], [3], [4]]) (started ''h264'' False)))
   = [([0, 0, 0, 1, 0x65, 1, 2, 3, 4], 9000)]"
  using fragments_reassembled[of "started ''h264'' False" 65535 "[[1, 2], [3], [4]]" accepting 9000 7 "0x65" True]
  by (simp add: started_def new_decoder_def is_h265_name_def is_mjpeg_name_def unit_complete_def counted_n_def
      queue_nal_def is_vcl_def h264_nal_type_def collect_vcl_def flush_if_def flush_access_unit_def
      submit_packet_def accepting_def start_code_def clear_unit_def)

section \<open>Slices\<close>

definition slice :: "bytes \<Rightarrow> bool" where
  "slice nal \<longleftrightarrow> nal \<noteq> [] \<and> 1 \<le> h264_nal_type nal \<and> h264_nal_type nal \<le> 5"

text \<open>A decoder that receives H.264 without the configured seed.\<close>

definition plain_h264 :: "decoder \<Rightarrow> bool" where
  "plain_h264 d \<longleftrightarrow> \<not> mjpeg d \<and> \<not> h265 d \<and> \<not> force_x20_header d"

lemma append_slice:
  assumes "slice n" "plain_h264 d"
  shows "append_h264_payload env n m t d = flush_if env m (collect_vcl n t d)"
proof -
  have "n \<noteq> []" "1 \<le> h264_nal_type n" "h264_nal_type n \<le> 5" using assms by (simp_all add: slice_def)
  then show ?thesis
    using assms(2) by (simp add: append_h264_payload_def Let_def queue_nal_def is_vcl_def plain_h264_def)
qed

text \<open>The decoder with the collected part \<open>au\<close> of the picture of time \<open>t\<close>.\<close>

definition collecting :: "u32 \<Rightarrow> bytes \<Rightarrow> decoder \<Rightarrow> decoder" where
  "collecting t au d = d\<lparr>access_unit := au, access_unit_timestamp := t, have_access_unit := True\<rparr>"

lemma collect_vcl_same:
  "have_access_unit d \<longrightarrow> access_unit_timestamp d = t \<Longrightarrow>
   collect_vcl n t d = collecting t (access_unit d @ start_code @ n) d"
  by (cases d) (auto simp: collect_vcl_def collecting_def Let_def)

lemma slices_collected:
  assumes "\<forall>n \<in> set slices. slice n" "slices \<noteq> []" "plain_h264 d"
    "have_sequence d \<longrightarrow> expected_sequence d = s" "have_access_unit d \<longrightarrow> access_unit_timestamp d = t"
  shows "for_all (handle_rtp_packet env) (slice_packets s t ssrc slices) d
         = flush_access_unit env (collecting t (access_unit d @ annex_b slices) (counted_n (length slices) s t d))"
  using assms
proof (induction slices arbitrary: s d)
  case (Cons n ns)
  have step: "handle_rtp_packet env (build_rtp m s t ssrc n) d
      = flush_if env m (collecting t (access_unit d @ start_code @ n) (counted s t d))" for m
    using Cons.prems handle_in_order[of d s n] append_slice[of n "counted s t d"]
      collect_vcl_same[of "counted s t d" t n]
    by (simp add: slice_def plain_h264_def counted_def)
  show ?case
  proof (cases "ns = []")
    case True
    have "counted s t d = counted_n 1 s t d"
      by (simp add: counted_def counted_n_def)
    then show ?thesis
      using True by (simp add: step flush_if_def and_then_def split: prod.splits)
  next
    case False
    let ?d = "collecting t (access_unit d @ start_code @ n) (counted s t d)"
    have "counted_n (length ns) (s + 1) t ?d = collecting t (access_unit ?d) (counted_n (length (n # ns)) s t d)"
      by (simp add: counted_n_def counted_def collecting_def add.assoc)
    then have "collecting t (access_unit ?d @ annex_b ns) (counted_n (length ns) (s + 1) t ?d)
        = collecting t (access_unit d @ annex_b (n # ns)) (counted_n (length (n # ns)) s t d)"
      by (simp add: collecting_def)
    then show ?thesis
      using Cons.prems False Cons.IH[of ?d "s + 1"]
      by (simp add: step flush_if_def plain_h264_def) (simp add: collecting_def counted_def)
  qed
qed simp

text \<open>MPP takes the packet that is handed over next.\<close>

definition mpp_accepts :: "environment \<Rightarrow> decoder \<Rightarrow> bytes \<Rightarrow> bool" where
  "mpp_accepts env d pkt \<longleftrightarrow>
     opened d \<and> (\<exists>rounds. env_put env (length (handed d)) pkt = Some rounds \<and> put_loop rounds = Accepted)"

lemma flush_collected:
  assumes "mpp_accepts env d au" "\<not> mjpeg d" "au \<noteq> []"
  shows "flush_access_unit env (collecting t au d)
         = (True, clear_unit ((collecting t au d)\<lparr>parsed_units := parsed_units d + 1,
              submitted_packets := submitted_packets d + 1, handed := handed d @ [(au, unat t)]\<rparr>))"
  using assms by (auto simp: flush_access_unit_def collecting_def submit_packet_def mpp_accepts_def)

text \<open>
  C3: The slices of one H.264 picture, each in its own packet with the picture's timestamp and the
  marker on the last, reach MPP as exactly one packet: the Annex B concatenation of all of them,
  with the timestamp as presentation time; no partial picture stays behind.
\<close>

theorem slices_make_one_picture:
  assumes "\<forall>n \<in> set slices. slice n" "slices \<noteq> []" "plain_h264 d"
    "have_sequence d \<longrightarrow> expected_sequence d = s" "\<not> have_access_unit d" "access_unit d = []"
    "mpp_accepts env d (annex_b slices)"
  shows "\<exists>d'. for_all (handle_rtp_packet env) (slice_packets s t ssrc slices) d = (True, d')
    \<and> handed d' = handed d @ [(annex_b slices, unat t)] \<and> submitted_packets d' = submitted_packets d + 1
    \<and> access_unit d' = [] \<and> \<not> have_access_unit d' \<and> expected_sequence d' = s + of_nat (length slices)"
proof -
  have "annex_b slices \<noteq> []" using assms(2) by (cases slices) (simp_all add: start_code_def)
  moreover have "mpp_accepts env (counted_n (length slices) s t d) (annex_b slices)"
    using assms(7) by (simp add: mpp_accepts_def counted_n_def)
  ultimately show ?thesis
    using assms slices_collected[of slices d s t env ssrc]
      flush_collected[of env "counted_n (length slices) s t d" "annex_b slices" t]
    by (simp add: clear_unit_def collecting_def) (simp add: counted_n_def plain_h264_def)
qed

lemma accepting_accepts: "opened d \<Longrightarrow> mpp_accepts accepting d pkt"
  by (simp add: mpp_accepts_def accepting_def)

theorem slices_make_one_picture_witness:
  "handed (snd (for_all (handle_rtp_packet accepting) (slice_packets 5 3000 7 [[0x65, 1], [0x65, 2], [0x65, 3]])
     (started ''h264'' False))) = [([0, 0, 0, 1, 0x65, 1, 0, 0, 0, 1, 0x65, 2, 0, 0, 0, 1, 0x65, 3], 3000)]"
proof -
  have h: "\<not> h265 (started ''h264'' False)" "\<not> mjpeg (started ''h264'' False)"
    by (simp_all add: started_def is_h265_name_def is_mjpeg_name_def)
  have "\<forall>n \<in> set [[0x65, 1], [0x65, 2], [0x65, 3 :: u8]]. slice n"
    by (simp add: slice_def h264_nal_type_def)
  with h accepting_accepts[of "started ''h264'' False"] show ?thesis
    using slices_make_one_picture[of "[[0x65, 1], [0x65, 2], [0x65, 3]]" "started ''h264'' False" 5 accepting 3000 7]
    by (auto simp: plain_h264_def started_def new_decoder_def start_code_def)
qed

section \<open>Loss, late packets\<close>

lemma sint_small: "k < 32768 \<Longrightarrow> sint (of_nat k :: u16) = int k"
  by (simp add: signed_of_nat signed_take_bit_int_eq_self)

lemma supervise_gap:
  assumes "have_sequence d" "0 < sequence_delta (seqno r) (expected_sequence d)"
  shows "supervise r d = (True, counted (seqno r) (timestamp r)
           ((forget_partial d)\<lparr>rtp_sequence_gaps := rtp_sequence_gaps d + 1\<rparr>))"
  using assms by (simp add: supervise_def counted_def forget_partial_def Let_def)

lemma handle_gap_slice:
  assumes "have_sequence d" "expected_sequence d = s" "0 < k" "k < 32768" "slice n" "plain_h264 d"
  shows "handle_rtp_packet env (build_rtp m (s + of_nat k) t ssrc n) d
    = flush_if env m (collecting t (start_code @ n) (counted (s + of_nat k) t
        ((forget_partial d)\<lparr>rtp_sequence_gaps := rtp_sequence_gaps d + 1\<rparr>)))"
proof -
  let ?d = "counted (s + of_nat k) t ((forget_partial d)\<lparr>rtp_sequence_gaps := rtp_sequence_gaps d + 1\<rparr>)"
  let ?r = "\<lparr>marker = m, seqno = s + of_nat k, timestamp = t, body = n\<rparr>"
  have "n \<noteq> []" using assms(5) by (simp add: slice_def)
  have "0 < sequence_delta (seqno ?r) (expected_sequence d)"
    using assms by (simp add: sequence_delta_def sint_small)
  then have "supervise ?r d = (True, ?d)"
    using supervise_gap[of d ?r] assms(1) by simp
  moreover have "append_h264_payload env n m t ?d = flush_if env m (collecting t (start_code @ n) ?d)"
    using assms append_slice[of n ?d env m t] collect_vcl_same[of ?d t n]
    by (simp add: plain_h264_def counted_def forget_partial_def)
  moreover have "\<not> mjpeg ?d" "\<not> h265 ?d"
    using assms by (simp_all add: plain_h264_def counted_def forget_partial_def)
  ultimately show ?thesis
    using \<open>n \<noteq> []\<close> by (simp add: handle_rtp_packet_def parse_build_rtp append_payload_def)
qed

text \<open>
  Losing packets in the middle of a picture does not discard the picture: the first slice \<open>a\<close> is
  received, \<open>k\<close> packets are lost, and the last slice \<open>c\<close> with the marker is handed to MPP alone as
  the whole picture. The sequence gap clears what was collected but nothing remembers that the
  picture is incomplete, although \<open>queue_nal\<close> treats a partial picture as one to discard.
\<close>

theorem partial_picture_after_gap:
  assumes "slice a" "slice c" "plain_h264 d" "have_sequence d \<longrightarrow> expected_sequence d = s"
    "0 < k" "k < 32768" "mpp_accepts env d (start_code @ c)"
  shows "\<exists>d'. for_all (handle_rtp_packet env)
      [build_rtp False s t ssrc a, build_rtp True (s + 1 + of_nat k) t ssrc c] d = (True, d')
    \<and> handed d' = handed d @ [(start_code @ c, unat t)]
    \<and> rtp_sequence_gaps d' = rtp_sequence_gaps d + 1 \<and> fragment d' = [] \<and> access_unit d' = []"
proof -
  let ?d1 = "collect_vcl a t (counted s t d)"
  let ?d2 = "counted (s + 1 + of_nat k) t ((forget_partial ?d1)\<lparr>rtp_sequence_gaps := rtp_sequence_gaps ?d1 + 1\<rparr>)"
  have keep: "have_sequence ?d1" "expected_sequence ?d1 = s + 1" "plain_h264 ?d1" "plain_h264 (counted s t d)"
    "handed ?d1 = handed d" "opened ?d1 = opened d" "rtp_sequence_gaps ?d1 = rtp_sequence_gaps d"
    using assms(3) by (auto simp: collect_vcl_def counted_def clear_unit_def Let_def plain_h264_def)
  have "a \<noteq> []" using assms(1) by (simp add: slice_def)
  then have one: "handle_rtp_packet env (build_rtp False s t ssrc a) d = (True, ?d1)"
    using assms keep(4) handle_in_order[of d s a] append_slice[of a "counted s t d"]
    by (simp add: plain_h264_def flush_if_def)
  have "mpp_accepts env ?d2 (start_code @ c)" "\<not> mjpeg ?d2"
    using assms(7) keep by (simp_all add: mpp_accepts_def counted_def forget_partial_def plain_h264_def)
  from flush_collected[OF this, of t] show ?thesis
    using handle_gap_slice[of ?d1 "s + 1" k c env True t ssrc] assms keep one
    by (simp add: flush_if_def start_code_def)
      (simp add: clear_unit_def collecting_def counted_def forget_partial_def)
qed

theorem partial_picture_after_gap_witness:
  "handed (snd (for_all (handle_rtp_packet accepting)
      [build_rtp False 5 3000 7 [0x65, 1], build_rtp True (5 + 1 + of_nat 1) 3000 7 [0x65, 3]]
      (started ''h264'' False))) = [([0, 0, 0, 1, 0x65, 3], 3000)]"
proof -
  have "\<not> h265 (started ''h264'' False)" "\<not> mjpeg (started ''h264'' False)"
    by (simp_all add: started_def is_h265_name_def is_mjpeg_name_def)
  then have "plain_h264 (started ''h264'' False)"
    by (simp add: plain_h264_def started_def new_decoder_def)
  moreover have "slice [0x65, 1]" "slice [0x65, 3]"
    by (simp_all add: slice_def h264_nal_type_def)
  ultimately show ?thesis
    using accepting_accepts[of "started ''h264'' False"]
      partial_picture_after_gap[of "[0x65, 1]" "[0x65, 3]" "started ''h264'' False" 5 1 accepting 3000 7]
    by (auto simp: started_def new_decoder_def start_code_def simp del: of_nat_1)
qed

text \<open>
  A late or repeated packet (behind the expected sequence by at most 1000 and behind the last
  timestamp by at most one second of the 90 kHz clock) changes nothing but its two counters.
\<close>

theorem late_packets_only_counted:
  assumes "parse_rtp p = Some r" "have_sequence d"
    "sequence_delta (seqno r) (expected_sequence d) < 0" "- 1000 \<le> sequence_delta (seqno r) (expected_sequence d)"
    "have_rtp_timestamp d \<longrightarrow> - 90000 \<le> timestamp_delta (timestamp r) (last_rtp_timestamp d)"
  shows "handle_rtp_packet env p d
         = (True, d\<lparr>rtp_packets := rtp_packets d + 1,
                    late_or_duplicate_packets := late_or_duplicate_packets d + 1\<rparr>)"
  using assms
  by (cases "have_rtp_timestamp d") (simp_all add: handle_rtp_packet_def supervise_def Let_def)

theorem late_packets_only_counted_witness:
  "handle_rtp_packet accepting (build_rtp True 65535 100 7 [0x65]) (counted 1 100 (started ''h264'' False))
   = (True, (counted 1 100 (started ''h264'' False))\<lparr>rtp_packets := 2, late_or_duplicate_packets := 1\<rparr>)"
  using late_packets_only_counted[OF parse_build_rtp[of "[0x65]" True 65535 100 7],
      of "counted 1 100 (started ''h264'' False)" accepting]
  by (simp add: counted_def started_def new_decoder_def sequence_delta_def timestamp_delta_def)

section \<open>The recovery seed\<close>

definition seed_ok :: "decoder \<Rightarrow> bool" where
  "seed_ok d \<longleftrightarrow>
     unat (x20_header_injections d) = (if x20_header_injected d then 1 else 0) \<and>
     (h265 d \<or> mjpeg d \<longrightarrow> \<not> x20_header_injected d)"

lemma seed_ok_and_then [intro]:
  "seed_ok (snd r) \<Longrightarrow> (\<And>d. seed_ok d \<Longrightarrow> seed_ok (snd (f d))) \<Longrightarrow> seed_ok (snd (and_then r f))"
  by (cases r) (simp add: and_then_def)

lemma seed_ok_for_all:
  "(\<And>x d. seed_ok d \<Longrightarrow> seed_ok (snd (f x d))) \<Longrightarrow> seed_ok d \<Longrightarrow> seed_ok (snd (for_all f xs d))"
  by (induction xs arbitrary: d) auto

lemma submit_packet_frame:
  "x20_header_injections (snd (submit_packet env p pts d)) = x20_header_injections d"
  "x20_header_injected (snd (submit_packet env p pts d)) = x20_header_injected d"
  "h265 (snd (submit_packet env p pts d)) = h265 d" "mjpeg (snd (submit_packet env p pts d)) = mjpeg d"
  by (auto simp: submit_packet_def Let_def split: option.split put_outcome.split)

lemma submit_packet_seed: "seed_ok d \<Longrightarrow> seed_ok (snd (submit_packet env p pts d))"
  by (simp add: seed_ok_def submit_packet_frame)

lemma inject_seed:
  assumes "seed_ok d" "\<not> h265 d"
  shows "seed_ok (snd (inject_x20_header_if_needed env d))"
proof (cases "x20_header_injected d \<or> x20_header_missing d \<or> find_seed env (x21_mpp_sps_seen d) = None")
  case True
  with assms show ?thesis by (auto simp: inject_x20_header_if_needed_def seed_ok_def)
next
  case False
  then obtain h where h: "find_seed env (x21_mpp_sps_seen d) = Some h" by auto
  obtain ok d' where r: "submit_packet env h 0 d = (ok, d')" by fastforce
  have "seed_ok (d'\<lparr>x20_header_injected := True, x20_header_injections := x20_header_injections d' + 1\<rparr>)" if ok
  proof -
    have "\<not> mjpeg d" using r that by (auto simp: submit_packet_def split: if_splits)
    moreover have "x20_header_injections d = 0"
      using assms False by (simp add: seed_ok_def unat_eq_0)
    ultimately show ?thesis
      using assms(2) submit_packet_frame[of env h 0 d] r by (simp add: seed_ok_def)
  qed
  moreover have "seed_ok d'" using submit_packet_seed[OF assms(1), of env h 0] r by simp
  ultimately show ?thesis
    using False by (simp add: inject_x20_header_if_needed_def h r and_then_def)
qed

lemma update_seed: "seed_ok d \<Longrightarrow> seed_ok (snd (update_x20_detection n d))"
  and update_h265: "h265 (snd (update_x20_detection n d)) = h265 d"
  by (auto simp: update_x20_detection_def seed_ok_def Let_def)

lemma submit_nal_seed: "seed_ok d \<Longrightarrow> seed_ok (snd (submit_nal env n pts d))"
  using update_seed[of d n] update_h265[of n d]
  by (auto simp: submit_nal_def split_def Let_def intro!: seed_ok_and_then submit_packet_seed inject_seed)

lemma collect_vcl_seed: "seed_ok d \<Longrightarrow> seed_ok (collect_vcl n t d)"
  by (auto simp: collect_vcl_def clear_unit_def seed_ok_def Let_def)

lemma queue_nal_seed: "seed_ok d \<Longrightarrow> seed_ok (snd (queue_nal env t n d))"
  by (auto simp: queue_nal_def intro!: seed_ok_and_then inject_seed submit_nal_seed collect_vcl_seed)

lemma flush_seed: "seed_ok d \<Longrightarrow> seed_ok (snd (flush_if env m d))"
  using submit_packet_seed[of d env "access_unit d" "unat (access_unit_timestamp d)"]
  by (auto simp: flush_if_def flush_access_unit_def clear_unit_def split_def Let_def) (simp_all add: seed_ok_def)

lemma append_fragment_seed: "seed_ok d \<Longrightarrow> seed_ok (snd (append_fragment env h a e c m t d))"
proof -
  assume a: "seed_ok d"
  have f: "seed_ok (d\<lparr>fragment := x\<rparr>)" "seed_ok (d\<lparr>fragment := x, current_timestamp := t\<rparr>)"
    "seed_ok (d\<lparr>current_timestamp := t, fragment := x\<rparr>)" if "seed_ok d" for x d
    using that by (simp_all add: seed_ok_def)
  have "seed_ok (d\<lparr>incomplete_fragments := i\<rparr>)" for i
    using a by (simp add: seed_ok_def)
  with a show ?thesis
    by (auto simp: append_fragment_def split_def Let_def intro!: flush_seed f queue_nal_seed)
qed

lemma append_h26x_seed:
  "seed_ok d \<Longrightarrow> seed_ok (snd (append_h264_payload env p m t d))"
  "seed_ok d \<Longrightarrow> seed_ok (snd (append_h265_payload env p m t d))"
  by (auto simp: append_h264_payload_def append_h265_payload_def Let_def
      intro!: seed_ok_and_then append_fragment_seed queue_nal_seed flush_seed seed_ok_for_all)

lemma queue_mjpeg_seed: "seed_ok d \<Longrightarrow> seed_ok (queue_mjpeg_access_unit w h pts d)"
  by (simp add: queue_mjpeg_access_unit_def clear_unit_def seed_ok_def split_def Let_def)

lemma append_mjpeg_seed: "seed_ok d \<Longrightarrow> seed_ok (snd (append_mjpeg_payload p m t d))"
proof -
  assume a: "seed_ok d"
  have s: "seed_ok (start_jpeg f w h scan t d)" for f w h scan
    using a queue_mjpeg_seed[OF a] by (auto simp: start_jpeg_def Let_def) (simp_all add: seed_ok_def)
  have o: "seed_ok (d\<lparr>access_unit := x\<rparr>)" "seed_ok (d\<lparr>incomplete_fragments := i\<rparr>)" for x i
    using a by (simp_all add: seed_ok_def)
  show ?thesis
    using a s o
    by (auto simp: append_mjpeg_payload_def Let_def intro!: queue_mjpeg_seed split: sum.split)
qed

lemma handle_seed: "seed_ok d \<Longrightarrow> seed_ok (snd (handle_rtp_packet env p d))"
proof -
  assume a: "seed_ok d"
  have "seed_ok (snd (supervise r d))" for r
    using a by (auto simp: supervise_def forget_partial_def seed_ok_def Let_def)
  then show ?thesis
    using a
    by (auto simp: handle_rtp_packet_def append_payload_def split_def Let_def
        intro!: append_mjpeg_seed append_h26x_seed split: option.split)
qed

lemma feed_loop_seed: "seed_ok d \<Longrightarrow> seed_ok (feed_loop env answers d)"
proof (induction answers arbitrary: d)
  case (Cons a as)
  have "seed_ok (snd (handle_rtp_packet env p d))" for p
    by (rule handle_seed[OF Cons.prems])
  moreover have "seed_ok (e\<lparr>last_error := x, running := False\<rparr>)" if "seed_ok e" for e x
    using that by (simp add: seed_ok_def)
  ultimately show ?case
    using Cons by (simp add: split_def Let_def split: feed_answer.split)
qed simp

lemma feed_loop_codec:
  "seed_ok (feed_loop env answers (started codec force))"
  by (rule feed_loop_seed) (simp add: seed_ok_def started_def new_decoder_def)

text \<open>
  Whatever arrives on the socket, whatever MPP answers and whichever seed files exist, the
  feed thread hands the recovery seed to MPP at most once in the life of a decoder, and the flag
  that it did and the statistics agree.
\<close>

theorem seed_injected_once:
  "unat (x20_header_injections (feed_loop env answers (started codec force)))
   = (if x20_header_injected (feed_loop env answers (started codec force)) then 1 else 0)"
  using feed_loop_codec[of env answers codec force] by (simp add: seed_ok_def)

section \<open>Frames\<close>

definition owned :: "decoder \<Rightarrow> nat list" where
  "owned d = ready_frames d @ held (pending_frame d) @ held (current_frame d)"

text \<open>The frame a round of \<open>mjpeg_task_loop\<close> takes from MPP.\<close>

definition mjpeg_frames :: "(jpeg_unit \<Rightarrow> string + nat) \<Rightarrow> decoder \<Rightarrow> nat list" where
  "mjpeg_frames task d =
     (if \<not> running d \<or> mjpeg_units d = [] then []
      else let u = last (mjpeg_units d)
           in if ju_width u = 0 \<or> ju_height u = 0 then [] else case task u of Inl _ \<Rightarrow> [] | Inr f \<Rightarrow> [f])"

text \<open>
  What the threads and the owner do with frames: a call of \<open>poll\<close>, \<open>mark_presented\<close> or \<open>cleanup\<close>,
  a round of \<open>frame_loop\<close> or of \<open>mjpeg_task_loop\<close>.
\<close>

datatype rk_event =
  Rk_poll "nat \<Rightarrow> frame_info" | Rk_present | Rk_frame frame_event | Rk_jpeg "jpeg_unit \<Rightarrow> string + nat" | Rk_stop

fun rk_step :: "rk_event \<Rightarrow> decoder \<Rightarrow> decoder" where
  "rk_step (Rk_poll info) d = snd (poll info d)"
| "rk_step Rk_present d = mark_presented d"
| "rk_step (Rk_frame e) d = frame_round e d"
| "rk_step (Rk_jpeg task) d = mjpeg_round task d"
| "rk_step Rk_stop d = cleanup d"

fun rk_gives :: "rk_event \<Rightarrow> decoder \<Rightarrow> nat list" where
  "rk_gives (Rk_frame e) d = event_frames e"
| "rk_gives (Rk_jpeg task) d = mjpeg_frames task d"
| "rk_gives _ d = []"

definition balance :: "decoder \<Rightarrow> nat multiset" where
  "balance d = mset (owned d) + mset (released d)"

lemmas owner_defs = balance_def owned_def release_def held_def

lemma push_frame_balance: "balance (push_frame f d) = balance d + {#f#}"
proof -
  obtain gone q where q: "push_bounded 4 f (ready_frames d) = (gone, q)" by fastforce
  have "gone @ q = ready_frames d @ [f]" using push_bounded_laws[OF q] by simp
  then have "mset gone + mset q = mset (ready_frames d) + {#f#}"
    by (metis mset_append mset.simps mset_single_iff_right add.commute union_code)
  then show ?thesis
    by (simp add: push_frame_def q owner_defs) (metis add.assoc add.commute)
qed

lemma poll_balance: "balance (snd (poll info d)) = balance d"
proof (cases "ready_frames d = []")
  case False
  obtain gone kept where q: "drop_to 2 (ready_frames d) = (gone, kept)" by fastforce
  note q' = drop_to_laws[OF q]
  have "0 < length kept" using q'(2) False by (simp add: min_def)
  then obtain x xs where kept: "kept = x # xs" by (cases kept) auto
  have "mset (ready_frames d) = mset gone + {#x#} + mset xs"
    using arg_cong[OF q'(1), of mset] by (simp add: kept)
  then show ?thesis
    using False
    by (cases "frame_to_dmabuf (info x)"; cases "pending_frame d")
       (simp_all add: poll_def q kept owner_defs Let_def ac_simps)
qed (simp add: poll_def)

lemma frame_round_balance: "balance (frame_round e d) = balance d + mset (event_frames e)"
  by (auto simp: frame_round_def event_frames_def push_frame_balance split: frame_event.splits option.splits)
     (auto simp: owner_defs)

lemma hd_lastn_1 [simp]: "q \<noteq> [] \<Longrightarrow> hd (snd (drop_to (Suc 0) q)) = last q"
  by (cases q rule: rev_cases) (simp_all add: drop_to_def lastn_def)

lemma mjpeg_round_balance: "balance (mjpeg_round task d) = balance d + mset (mjpeg_frames task d)"
proof -
  have keep: "balance (d\<lparr>mjpeg_units := u, dropped_decoded_frames := c\<rparr>) = balance d" for u c
    by (simp add: owner_defs)
  have "balance (push_frame f (d\<lparr>mjpeg_units := u, dropped_decoded_frames := c\<rparr>)) = balance d + {#f#}" for f u c
    by (simp add: push_frame_balance keep)
  then have p: "balance ((push_frame f (d\<lparr>mjpeg_units := u, dropped_decoded_frames := c\<rparr>))
      \<lparr>parsed_units := v, submitted_packets := w\<rparr>) = balance d + {#f#}" for f u c v w
    by (simp add: owner_defs)
  have n: "balance (d\<lparr>mjpeg_units := u, dropped_decoded_frames := c, last_error := e, running := False\<rparr>) = balance d"
    for u c e
    by (simp add: owner_defs)
  show ?thesis
    using p n
    by (auto simp: mjpeg_round_def mjpeg_frames_def split_def Let_def split: sum.splits)
qed

text \<open>The ready queue holds at most four frames.\<close>

lemma rk_step_bound: "length (ready_frames d) \<le> 4 \<Longrightarrow> length (ready_frames (rk_step e d)) \<le> 4"
proof (cases e)
  case (Rk_poll info)
  then show "length (ready_frames d) \<le> 4 \<Longrightarrow> length (ready_frames (rk_step e d)) \<le> 4"
    by (auto simp: poll_def drop_to_def lastn_def release_def Let_def split: sum.splits)
next
  case (Rk_frame ev)
  have "length (ready_frames d) \<le> 4 \<Longrightarrow> length (ready_frames (push_frame f d)) \<le> 4" for f
    by (simp add: push_frame_def push_bounded_def release_def Let_def)
  with Rk_frame show "length (ready_frames d) \<le> 4 \<Longrightarrow> length (ready_frames (rk_step e d)) \<le> 4"
    by (auto simp: frame_round_def release_def split: frame_event.splits option.splits)
next
  case (Rk_jpeg task)
  have "length (ready_frames e) \<le> 4 \<Longrightarrow> length (ready_frames (push_frame f e)) \<le> 4" for f e
    by (simp add: push_frame_def push_bounded_def release_def Let_def)
  with Rk_jpeg show "length (ready_frames d) \<le> 4 \<Longrightarrow> length (ready_frames (rk_step e d)) \<le> 4"
    by (auto simp: mjpeg_round_def split_def Let_def split: sum.splits)
qed (auto simp: mark_presented_def cleanup_def release_def)

definition four_queued :: "decoder \<Rightarrow> bool" where
  "four_queued d \<longleftrightarrow> length (ready_frames d) \<le> 4"

interpretation rk_frames: frame_owner rk_step rk_gives owned released four_queued
proof unfold_locales
  fix e d
  have "balance (rk_step e d) = balance d + mset (rk_gives e d)"
    by (cases e)
      (auto simp: poll_balance frame_round_balance mjpeg_round_balance,
       auto simp: mark_presented_def cleanup_def owner_defs split: option.splits)
  then show "mset (owned (rk_step e d)) + mset (released (rk_step e d))
      = mset (owned d) + mset (released d) + mset (rk_gives e d)"
    by (simp add: balance_def)
qed (simp add: four_queued_def rk_step_bound)

text \<open>
  The decoder after any interleaving of the owner's calls and the rounds of the threads, with the
  frames MPP gave so far.
\<close>

inductive frame_run :: "nat list \<Rightarrow> decoder \<Rightarrow> bool" where
  start: "frame_run [] (started codec force)"
| step: "frame_run got d \<Longrightarrow> frame_run (got @ rk_gives e d) (rk_step e d)"

lemma frame_run_balance:
  "frame_run got d \<Longrightarrow> mset got = mset (owned d) + mset (released d) \<and> length (ready_frames d) \<le> 4"
proof (induction rule: frame_run.induct)
  case (start codec force)
  then show ?case by (simp add: owned_def held_def started_def new_decoder_def)
next
  case (step got d e)
  then show ?case
    using rk_frames.step_conserves[of d e] rk_step_bound[of d e] by (simp add: four_queued_def)
qed

text \<open>
  C4: Frames are neither leaked nor given back twice: in every state the frames MPP gave are
  exactly those in the ready queue, the pending and the presented one, and those given back, each
  as often as MPP gave it; the ready queue never holds more than four; and after \<open>cleanup\<close> every
  frame has been given back.
\<close>

theorem frames_accounted:
  assumes "frame_run got d"
  shows "mset got = mset (ready_frames d) + mset (held (pending_frame d)) + mset (held (current_frame d))
                    + mset (released d)
    \<and> length (ready_frames d) \<le> 4 \<and> mset (released (cleanup d)) = mset got"
  using frame_run_balance[OF assms]
  by (simp add: owned_def cleanup_def release_def ac_simps)

theorem frames_accounted_witness:
  "mset (released (cleanup (snd (poll (\<lambda>_. \<lparr>fi_buffer = True, fi_fd = Some 5, fi_width = 64, fi_height = 48,
       fi_hstride = 64, fi_vstride = 48, fi_format = 0, fi_base = 0, fi_fbc = 0, fi_is_nv12 = True,
       fi_is_uncompressed = True, fi_tiled = False\<rparr>)
     (frame_round (Usable 3) (frame_round (Usable 2) (frame_round (Usable 1) (started ''h264'' False)))))))) = {#1, 2, 3#}"
proof -
  have "frame_run (((([] @ rk_gives (Rk_frame (Usable 1)) d0) @ rk_gives (Rk_frame (Usable 2)) d1)
        @ rk_gives (Rk_frame (Usable 3)) d2) @ rk_gives (Rk_poll i) d3) (rk_step (Rk_poll i) d3)"
    if "d0 = started ''h264'' False" "d1 = rk_step (Rk_frame (Usable 1)) d0"
      "d2 = rk_step (Rk_frame (Usable 2)) d1" "d3 = rk_step (Rk_frame (Usable 3)) d2" for i d0 d1 d2 d3
    unfolding that by (intro frame_run.intros)
  from frames_accounted[OF this[OF refl refl refl refl]] show ?thesis by (simp add: event_frames_def)
qed

end
