(* ===== verification/Imx_Decoder.thy ===== *)
theory Imx_Decoder
  imports Rtp_Contracts
begin

text \<open>
  \<open>src/video/imx_vpu_rtp_decoder.cpp\<close>: the decoder for the i.MX VPU. The record \<open>vpu\<close> holds the
  members of \<open>ImxVpuRtpDecoder\<close>. The VPU library, the DMA allocator and the socket are arguments:
  \<open>ve_push n\<close> is the error of the n-th access unit pushed, \<open>ve_step n\<close> the result of the n-th
  decode call. \<open>pushed\<close> records the access units the VPU took, \<open>got_frames\<close> the frames it gave and
  \<open>returned_frames\<close> those given back.
\<close>

section \<open>State\<close>

record vpu =
  socket_open :: bool
  decoder_open :: bool
  framebuffer_pool :: "nat option list"
  ready_frames :: "nat list"
  current_frame :: "nat option"
  fragment :: bytes
  access_unit :: bytes
  h265 :: bool
  have_sequence :: bool
  have_timestamp :: bool
  have_access_unit :: bool
  expected_sequence :: u16
  last_timestamp :: u32
  fragment_timestamp :: u32
  access_unit_timestamp :: u32
  frame_width :: u32
  frame_height :: u32
  y_stride :: u32
  uv_stride :: u32
  y_offset :: u32
  uv_offset :: u32
  color_space :: yuv_color_space
  color_range :: yuv_range
  output_description :: string
  rtp_packets :: u64
  sequence_gaps :: u64
  late_packets :: u64
  incomplete_fragments :: u64
  access_units :: u64
  decoded_frames :: u64
  skipped_frames :: u64
  dropped_frames :: u64
  last_error :: string
  decode_calls :: nat
  pushed :: "(bytes \<times> u32) list"
  got_frames :: "nat list"
  returned_frames :: "nat list"

definition new_vpu :: vpu where
  "new_vpu =
    \<lparr>socket_open = False, decoder_open = False, framebuffer_pool = [], ready_frames = [], current_frame = None,
     fragment = [], access_unit = [], h265 = False, have_sequence = False, have_timestamp = False,
     have_access_unit = False, expected_sequence = 0, last_timestamp = 0, fragment_timestamp = 0,
     access_unit_timestamp = 0, frame_width = 0, frame_height = 0, y_stride = 0, uv_stride = 0, y_offset = 0,
     uv_offset = 0, color_space = Cs_unspecified, color_range = Range_unspecified, output_description = [],
     rtp_packets = 0, sequence_gaps = 0, late_packets = 0, incomplete_fragments = 0, access_units = 0,
     decoded_frames = 0, skipped_frames = 0, dropped_frames = 0, last_error = [], decode_calls = 0,
     pushed = [], got_frames = [], returned_frames = []\<rparr>"

section \<open>Answers of the VPU library\<close>

text \<open>
  What \<open>add_framebuffers\<close> sees: the stream information, each allocation by its index, the text of a
  failed one, and the error of adding the buffers to the pool.
\<close>

record fb_answer =
  fa_info :: bool
  fa_buffer :: "nat \<Rightarrow> nat option"
  fa_alloc_error :: string
  fa_add_error :: "string option"

record stream_info =
  si_nv12 :: bool
  si_format_name :: string
  si_width :: u32
  si_height :: u32
  si_y_stride :: u32
  si_uv_stride :: u32
  si_y_offset :: u32
  si_uv_offset :: u32
  si_matrix :: "nat option"
  si_full_range :: bool
  si_framebuffers :: nat

datatype vpu_step =
    Decode_failed string
  | No_output
  | New_stream_info "stream_info option" fb_answer
  | Need_framebuffer fb_answer
  | Frame_decoded "string + nat"
  | Frame_skipped
  | More_input
  | Parameters_changed
  | End_of_stream

record vpu_env =
  ve_push :: "nat \<Rightarrow> string option"
  ve_step :: "nat \<Rightarrow> vpu_step"
  ve_fd :: "nat \<Rightarrow> int"

definition decoder_error :: "string \<Rightarrow> string \<Rightarrow> string" where
  "decoder_error operation code = operation @ '': '' @ code"

section \<open>Frames\<close>

definition return_frames :: "nat list \<Rightarrow> vpu \<Rightarrow> vpu" where
  "return_frames fs d = d\<lparr>returned_frames := returned_frames d @ fs\<rparr>"

definition mark_presented :: "vpu \<Rightarrow> vpu" where
  "mark_presented d = (return_frames (held (current_frame d)) d)\<lparr>current_frame := None\<rparr>"

definition clear_decoder_frames :: "vpu \<Rightarrow> vpu" where
  "clear_decoder_frames d =
     (return_frames (held (current_frame d) @ ready_frames d) d)\<lparr>current_frame := None, ready_frames := []\<rparr>"

definition deallocate_pool :: "vpu \<Rightarrow> vpu" where
  "deallocate_pool d = d\<lparr>framebuffer_pool := []\<rparr>"

definition add_framebuffers :: "fb_answer \<Rightarrow> nat \<Rightarrow> vpu \<Rightarrow> bool \<times> vpu" where
  "add_framebuffers a n d =
     (if \<not> fa_info a
      then (False, d\<lparr>last_error := ''cannot allocate i.MX VPU framebuffers without stream information''\<rparr>)
      else let allocated = takeWhile (\<lambda>b. b \<noteq> None) (map (fa_buffer a) [0..<n]);
               d1 = d\<lparr>framebuffer_pool := framebuffer_pool d @ allocated @ replicate (n - length allocated) None\<rparr>
           in if length allocated < n
              then (False, d1\<lparr>last_error := ''failed to allocate i.MX VPU framebuffer: '' @ fa_alloc_error a\<rparr>)
              else if n = 0 then (True, d1)
              else case fa_add_error a of
                     Some e \<Rightarrow> (False, d1\<lparr>last_error := decoder_error ''failed to add i.MX VPU framebuffer pool'' e\<rparr>)
                   | None \<Rightarrow> (True, d1))"

definition matrix_color_space :: "nat option \<Rightarrow> yuv_color_space" where
  "matrix_color_space m =
     (if m = Some 1 then Cs_rec709
      else if m = Some 5 \<or> m = Some 6 then Cs_rec601
      else if m = Some 9 \<or> m = Some 10 then Cs_rec2020
      else Cs_unspecified)"

fun color_space_name :: "yuv_color_space \<Rightarrow> string" where
  "color_space_name Cs_rec601 = ''bt601''"
| "color_space_name Cs_rec709 = ''bt709''"
| "color_space_name Cs_rec2020 = ''bt2020''"
| "color_space_name Cs_unspecified = ''unspecified''"

definition stream_description :: "vpu \<Rightarrow> string" where
  "stream_description d =
     ''output=linear-nv12 size='' @ nat_str (unat (frame_width d)) @ ''x'' @ nat_str (unat (frame_height d))
     @ '' strides='' @ nat_str (unat (y_stride d)) @ ''/'' @ nat_str (unat (uv_stride d))
     @ '' offsets='' @ nat_str (unat (y_offset d)) @ ''/'' @ nat_str (unat (uv_offset d))
     @ '' color='' @ color_space_name (color_space d)
     @ '' range='' @ (if color_range d = Range_full then ''full'' else ''narrow'')"

definition update_stream_info :: "stream_info option \<Rightarrow> fb_answer \<Rightarrow> vpu \<Rightarrow> bool \<times> vpu" where
  "update_stream_info info a d =
     (case info of
        None \<Rightarrow> (False, d\<lparr>last_error := ''i.MX VPU returned no stream information''\<rparr>)
      | Some i \<Rightarrow>
          if \<not> si_nv12 i
          then (False, d\<lparr>last_error := ''i.MX VPU output cannot be imported as linear NV12: '' @ si_format_name i\<rparr>)
          else let d1 = (deallocate_pool (clear_decoder_frames d))
                     \<lparr>frame_width := si_width i, frame_height := si_height i, y_stride := si_y_stride i,
                      uv_stride := si_uv_stride i, y_offset := si_y_offset i, uv_offset := si_uv_offset i,
                      color_space := matrix_color_space (si_matrix i),
                      color_range := (if si_full_range i then Range_full else Range_narrow)\<rparr>
               in add_framebuffers a (si_framebuffers i) (d1\<lparr>output_description := stream_description d1\<rparr>))"

section \<open>Decoding\<close>

definition take_frame :: "nat \<Rightarrow> vpu \<Rightarrow> vpu" where
  "take_frame f d =
     (let (gone, q) = drop_to 6 (ready_frames d @ [f])
      in (return_frames gone d)\<lparr>ready_frames := q, got_frames := got_frames d @ [f],
           decoded_frames := decoded_frames d + 1, dropped_frames := dropped_frames d + of_nat (length gone)\<rparr>)"

text \<open>One decode call: \<open>Inl\<close> the state and whether to go on, \<open>Inr\<close> the result of \<open>decode_available\<close>.\<close>

definition decode_step :: "vpu_step \<Rightarrow> vpu \<Rightarrow> vpu + bool \<times> vpu" where
  "decode_step s d =
     (case s of
        Decode_failed e \<Rightarrow> Inr (False, d\<lparr>last_error := decoder_error ''native i.MX VPU decode failed'' e\<rparr>)
      | No_output \<Rightarrow> Inl d
      | New_stream_info i a \<Rightarrow>
          (let (ok, d1) = update_stream_info i a d in if ok then Inl d1 else Inr (False, d1))
      | Need_framebuffer a \<Rightarrow>
          (let (ok, d1) = add_framebuffers a 1 d in if ok then Inl d1 else Inr (False, d1))
      | Frame_decoded (Inl e) \<Rightarrow>
          Inr (False, d\<lparr>last_error := decoder_error ''failed to get decoded i.MX VPU frame'' e\<rparr>)
      | Frame_decoded (Inr f) \<Rightarrow> Inl (take_frame f d)
      | Frame_skipped \<Rightarrow> Inl (d\<lparr>skipped_frames := skipped_frames d + 1\<rparr>)
      | More_input \<Rightarrow> Inr (True, d)
      | Parameters_changed \<Rightarrow>
          Inr (False, d\<lparr>last_error := ''i.MX VPU stream parameters changed; restart the native decoder''\<rparr>)
      | End_of_stream \<Rightarrow> Inr (False, d\<lparr>last_error := ''i.MX VPU decoder reached end of stream''\<rparr>))"

fun decode_loop :: "nat \<Rightarrow> vpu_env \<Rightarrow> vpu \<Rightarrow> bool \<times> vpu" where
  "decode_loop 0 env d =
     (False, d\<lparr>last_error := ''i.MX VPU decoder did not request more input after 128 decode steps''\<rparr>)"
| "decode_loop (Suc n) env d =
     (case decode_step (ve_step env (decode_calls d)) (d\<lparr>decode_calls := decode_calls d + 1\<rparr>) of
        Inl d1 \<Rightarrow> decode_loop n env d1
      | Inr r \<Rightarrow> r)"

definition decode_available :: "vpu_env \<Rightarrow> vpu \<Rightarrow> bool \<times> vpu" where
  "decode_available env d = decode_loop 128 env d"

definition clear_unit :: "vpu \<Rightarrow> vpu" where
  "clear_unit d = d\<lparr>have_access_unit := False, access_unit := []\<rparr>"

definition submit_access_unit :: "vpu_env \<Rightarrow> vpu \<Rightarrow> bool \<times> vpu" where
  "submit_access_unit env d =
     (if \<not> have_access_unit d \<or> access_unit d = [] then (True, clear_unit d)
      else case ve_push env (length (pushed d)) of
        Some e \<Rightarrow> (False, d\<lparr>last_error := decoder_error ''failed to push access unit into i.MX VPU'' e\<rparr>)
      | None \<Rightarrow>
          decode_available env (clear_unit (d\<lparr>access_units := access_units d + 1,
            pushed := pushed d @ [(access_unit d, access_unit_timestamp d)]\<rparr>)))"

section \<open>Depacketization\<close>

definition start_unit :: "u32 \<Rightarrow> vpu \<Rightarrow> vpu" where
  "start_unit t d =
     (if have_access_unit d then d else d\<lparr>have_access_unit := True, access_unit_timestamp := t\<rparr>)"

definition queue_nal :: "vpu_env \<Rightarrow> u32 \<Rightarrow> bytes \<Rightarrow> vpu \<Rightarrow> bool \<times> vpu" where
  "queue_nal env t nal d =
     (if nal = [] then (True, d)
      else and_then
        (if have_access_unit d \<and> access_unit_timestamp d \<noteq> t then submit_access_unit env d else (True, d))
        (\<lambda>d. let d1 = start_unit t d in (True, d1\<lparr>access_unit := access_unit d1 @ start_code @ nal\<rparr>)))"

definition submit_if :: "vpu_env \<Rightarrow> bool \<Rightarrow> vpu \<Rightarrow> bool \<times> vpu" where
  "submit_if env m d = (if m then submit_access_unit env d else (True, d))"

text \<open>The units of an aggregation packet; a unit that is cut off ends the packet without a submission.\<close>

definition append_aggregate :: "vpu_env \<Rightarrow> bytes \<Rightarrow> bool \<Rightarrow> u32 \<Rightarrow> vpu \<Rightarrow> bool \<times> vpu" where
  "append_aggregate env r m t d =
     (let (units, whole) = aggregated r
      in and_then (for_all (queue_nal env t) units d)
           (\<lambda>d. if whole then submit_if env m d
                else (True, d\<lparr>incomplete_fragments := incomplete_fragments d + 1\<rparr>)))"

definition keep_fragment :: "u32 \<Rightarrow> bytes \<Rightarrow> vpu \<Rightarrow> vpu" where
  "keep_fragment t x d = d\<lparr>fragment := x, fragment_timestamp := t\<rparr>"

definition complete_fragment :: "vpu_env \<Rightarrow> bool \<Rightarrow> u32 \<Rightarrow> vpu \<Rightarrow> bool \<times> vpu" where
  "complete_fragment env m t d =
     (let (ok, d1) = queue_nal env t (fragment d) d; d2 = d1\<lparr>fragment := []\<rparr>
      in if ok then submit_if env m d2 else (False, d2))"

definition append_fragment ::
  "vpu_env \<Rightarrow> bytes \<Rightarrow> bool \<Rightarrow> bool \<Rightarrow> bytes \<Rightarrow> bool \<Rightarrow> u32 \<Rightarrow> vpu \<Rightarrow> bool \<times> vpu" where
  "append_fragment env header starts ends data m t d =
     (if \<not> starts \<and> (fragment d = [] \<or> fragment_timestamp d \<noteq> t)
      then (True, d\<lparr>incomplete_fragments := incomplete_fragments d + 1\<rparr>)
      else let d1 = keep_fragment t ((if starts then header else fragment d) @ data) d
           in if ends then complete_fragment env m t d1 else (True, d1))"

definition append_h264_payload :: "vpu_env \<Rightarrow> bytes \<Rightarrow> bool \<Rightarrow> u32 \<Rightarrow> vpu \<Rightarrow> bool \<times> vpu" where
  "append_h264_payload env p m t d =
     (if p = [] then (True, d)
      else let ty = h264_nal_type p in
      if 1 \<le> ty \<and> ty \<le> 23 then and_then (queue_nal env t p d) (submit_if env m)
      else if ty = 24 then append_aggregate env (drop 1 p) m t d
      else if ty = 28 \<and> 2 \<le> length p
      then append_fragment env [(p ! 0 AND 0xE0) OR (p ! 1 AND 0x1F)] (p ! 1 AND 0x80 \<noteq> 0)
             (p ! 1 AND 0x40 \<noteq> 0) (drop 2 p) m t d
      else (True, d))"

definition append_h265_payload :: "vpu_env \<Rightarrow> bytes \<Rightarrow> bool \<Rightarrow> u32 \<Rightarrow> vpu \<Rightarrow> bool \<times> vpu" where
  "append_h265_payload env p m t d =
     (if length p < 2 then (True, d)
      else let ty = h265_nal_type p in
      if ty \<le> 47 then and_then (queue_nal env t p d) (submit_if env m)
      else if ty = 48 then append_aggregate env (drop 2 p) m t d
      else if ty = 49 \<and> 3 \<le> length p
      then append_fragment env [(p ! 0 AND 0x81) OR push_bit 1 (p ! 2 AND 0x3F), p ! 1]
             (p ! 2 AND 0x80 \<noteq> 0) (p ! 2 AND 0x40 \<noteq> 0) (drop 3 p) m t d
      else (True, d))"

definition forget_partial :: "vpu \<Rightarrow> vpu" where
  "forget_partial d = d\<lparr>fragment := [], access_unit := [], have_access_unit := False\<rparr>"

definition in_step :: "u16 \<Rightarrow> u32 \<Rightarrow> vpu \<Rightarrow> vpu" where
  "in_step s t d =
     d\<lparr>expected_sequence := s + 1, have_sequence := True, last_timestamp := t, have_timestamp := True\<rparr>"

definition supervise :: "rtp \<Rightarrow> vpu \<Rightarrow> bool \<times> vpu" where
  "supervise r d =
     (let d0 = d\<lparr>rtp_packets := rtp_packets d + 1\<rparr>;
          delta = (if have_sequence d0 then sequence_delta (seqno r) (expected_sequence d0) else 0);
          tdelta = (if have_timestamp d0 then timestamp_delta (timestamp r) (last_timestamp d0) else 0)
      in if delta < 0 \<and> \<not> (delta < - 1000 \<or> tdelta < - 90000)
         then (False, d0\<lparr>late_packets := late_packets d0 + 1\<rparr>)
         else (True, in_step (seqno r) (timestamp r)
                (if delta < 0 then forget_partial d0
                 else if 0 < delta then (forget_partial d0)\<lparr>sequence_gaps := sequence_gaps d0 + 1\<rparr>
                 else d0)))"

definition handle_rtp_packet :: "vpu_env \<Rightarrow> bytes \<Rightarrow> vpu \<Rightarrow> bool \<times> vpu" where
  "handle_rtp_packet env packet d =
     (case parse_rtp packet of
        None \<Rightarrow> (True, d)
      | Some r \<Rightarrow>
          (let (used, d1) = supervise r d
           in if \<not> used then (True, d1)
              else if h265 d1 then append_h265_payload env (body r) (marker r) (timestamp r) d1
              else append_h264_payload env (body r) (marker r) (timestamp r) d1))"

section \<open>Polling\<close>

definition deliver_ready_frame :: "vpu_env \<Rightarrow> vpu \<Rightarrow> video_frame option \<times> vpu" where
  "deliver_ready_frame env d =
     (case ready_frames d of
        [] \<Rightarrow> (None, d)
      | f # fs \<Rightarrow>
          (let d1 = d\<lparr>current_frame := Some f, ready_frames := fs\<rparr>; fd = ve_fd env f
           in if fd < 0
              then (None, d1\<lparr>last_error := ''decoded i.MX VPU frame has no DMA-BUF file descriptor''\<rparr>)
              else (Some \<lparr>vf_width = frame_width d, vf_height = frame_height d, vf_format = ''NV12'',
                     vf_planes = [(fd, y_stride d, y_offset d), (fd, uv_stride d, uv_offset d)],
                     vf_color = color_space d, vf_range = color_range d\<rparr>, d1)))"

definition try_deliver :: "vpu_env \<Rightarrow> vpu \<Rightarrow> video_frame option \<times> vpu" where
  "try_deliver env d = (if current_frame d = None then deliver_ready_frame env d else (None, d))"

text \<open>An answer of \<open>recv\<close>; the list ends where the socket has no more packets.\<close>

datatype recv_answer = Received bytes | Recv_failed string

fun poll_loop :: "vpu_env \<Rightarrow> recv_answer list \<Rightarrow> vpu \<Rightarrow> video_frame option \<times> vpu" where
  "poll_loop env [] d = try_deliver env d"
| "poll_loop env (Recv_failed e # as) d =
     (None, d\<lparr>last_error := ''failed to receive i.MX VPU RTP packet: '' @ e\<rparr>)"
| "poll_loop env (Received p # as) d =
     (if p = [] then try_deliver env d
      else let (ok, d1) = handle_rtp_packet env p d in
      if \<not> ok then (None, d1)
      else case try_deliver env d1 of
        (Some f, d2) \<Rightarrow> (Some f, d2)
      | (None, d2) \<Rightarrow> poll_loop env as d2)"

definition poll :: "vpu_env \<Rightarrow> recv_answer list \<Rightarrow> vpu \<Rightarrow> video_frame option \<times> vpu" where
  "poll env answers d =
     (case try_deliver env (d\<lparr>last_error := []\<rparr>) of
        (Some f, d1) \<Rightarrow> (Some f, d1)
      | (None, d1) \<Rightarrow> poll_loop env answers d1)"

section \<open>Statistics, start and cleanup\<close>

definition stat :: "string \<Rightarrow> u64 \<Rightarrow> string" where
  "stat name v = name @ ''='' @ nat_str (unat v)"

definition stats :: "vpu \<Rightarrow> string" where
  "stats d =
     stat ''rtp_packets'' (rtp_packets d) @ stat '' rtp_sequence_gaps'' (sequence_gaps d)
     @ stat '' late_or_duplicate_packets'' (late_packets d) @ stat '' incomplete_fragments'' (incomplete_fragments d)
     @ stat '' access_units'' (access_units d) @ stat '' decoded_frames'' (decoded_frames d)
     @ stat '' skipped_frames'' (skipped_frames d) @ stat '' dropped_frames'' (dropped_frames d)
     @ (if output_description d = [] then [] else '' '' @ output_description d)"

text \<open>The answers to the steps of \<open>init_decoder\<close> and \<open>init_socket\<close>; \<open>Some\<close> is the text of a failure.\<close>

record vpu_start =
  vs_has_decoder :: bool
  vs_frames_from_pool :: bool
  vs_allocator_error :: "string option"
  vs_stream_buffer_error :: "string option"
  vs_open_error :: "string option"
  vs_socket_error :: "string option"
  vs_bind_error :: "string option"

definition init_decoder :: "vpu_start \<Rightarrow> string \<Rightarrow> vpu \<Rightarrow> bool \<times> vpu" where
  "init_decoder a codec d0 =
     (let d = d0\<lparr>h265 := (codec = ''h265'' \<or> codec = ''hevc'')\<rparr>; fail = (\<lambda>e. (False, d\<lparr>last_error := e\<rparr>)) in
      if \<not> h265 d \<and> codec \<noteq> ''h264'' then fail ''native i.MX VPU supports --view-udp-codec h264 or h265''
      else if \<not> vs_has_decoder a then fail ''i.MX VPU API reports no hardware decoder''
      else if \<not> vs_frames_from_pool a then fail ''i.MX VPU output is not backed by its DMA framebuffer pool''
      else case vs_allocator_error a of
        Some e \<Rightarrow> fail (''failed to create i.MX DMA allocator: '' @ e)
      | None \<Rightarrow> (case vs_stream_buffer_error a of
        Some e \<Rightarrow> fail (''failed to allocate i.MX VPU stream buffer: '' @ e)
      | None \<Rightarrow> (case vs_open_error a of
        Some e \<Rightarrow> fail (decoder_error ''failed to open native i.MX VPU decoder'' e)
      | None \<Rightarrow> (True, d\<lparr>decoder_open := True\<rparr>))))"

definition init_socket :: "vpu_start \<Rightarrow> vpu \<Rightarrow> bool \<times> vpu" where
  "init_socket a d =
     (case vs_socket_error a of
        Some e \<Rightarrow> (False, d\<lparr>last_error := ''failed to create i.MX VPU UDP socket: '' @ e\<rparr>)
      | None \<Rightarrow> (case vs_bind_error a of
        Some e \<Rightarrow> (False, d\<lparr>socket_open := True, last_error := ''failed to bind i.MX VPU RTP socket: '' @ e\<rparr>)
      | None \<Rightarrow> (True, d\<lparr>socket_open := True\<rparr>)))"

definition start :: "vpu_start \<Rightarrow> string \<Rightarrow> vpu \<Rightarrow> bool \<times> vpu" where
  "start a codec d = and_then (init_decoder a codec d) (init_socket a)"

definition cleanup :: "vpu \<Rightarrow> vpu" where
  "cleanup d =
     (deallocate_pool (clear_decoder_frames d))\<lparr>decoder_open := False, socket_open := False\<rparr>"

end
