(* ===== verification/Imx_Streams.thy ===== *)
theory Imx_Streams
  imports Imx_Decoder
begin

text \<open>
  The guarantees of the i.MX decoder: fragments give the unit (an interpretation of
  \<open>fragment_reader\<close>), the units of a picture reach the VPU as one access unit, decoding ends within
  128 calls and says why, and no frame is lost or returned twice (an interpretation of
  \<open>frame_owner\<close>).
\<close>

section \<open>Packets in order\<close>

definition counted :: "u16 \<Rightarrow> u32 \<Rightarrow> vpu \<Rightarrow> vpu" where
  "counted s t d = in_step s t (d\<lparr>rtp_packets := rtp_packets d + 1\<rparr>)"

definition reads_h264 :: "u16 \<Rightarrow> vpu \<Rightarrow> bool" where
  "reads_h264 s d \<longleftrightarrow> \<not> h265 d \<and> (have_sequence d \<longrightarrow> expected_sequence d = s)"

lemmas imx_order_defs = counted_def in_step_def reads_h264_def keep_fragment_def

lemma imx_handle_in_order:
  assumes "reads_h264 s d" "b \<noteq> []"
  shows "handle_rtp_packet env (build_rtp m s t ssrc b) d = append_h264_payload env b m t (counted s t d)"
proof -
  have "supervise \<lparr>marker = m, seqno = s, timestamp = t, body = b\<rparr> d = (True, counted s t d)"
    using assms(1) by (auto simp: supervise_def imx_order_defs sequence_delta_def Let_def)
  moreover have "\<not> h265 (counted s t d)" using assms(1) by (simp add: imx_order_defs)
  ultimately show ?thesis
    using assms(2) by (simp add: handle_rtp_packet_def parse_build_rtp)
qed

section \<open>Fragments\<close>

lemma imx_append_fu:
  "append_h264_payload env (fu_header h a e @ c) m t d = append_fragment env [h] a e c m t d"
  unfolding append_h264_payload_def Let_def fu_type
  by (simp add: fu_header_def fu_bits(2-4))

lemma imx_fragment_next:
  assumes "x \<noteq> []"
  shows "append_fragment env [h] False e c m t (counted s t (keep_fragment t x d))
   = (let d' = keep_fragment t (x @ c) (counted s t d) in if e then complete_fragment env m t d' else (True, d'))"
proof -
  let ?d = "counted s t (keep_fragment t x d)"
  have eq: "keep_fragment t (fragment ?d @ c) ?d = keep_fragment t (x @ c) (counted s t d)"
    by (simp add: imx_order_defs)
  have "fragment ?d \<noteq> []" "fragment_timestamp ?d = t"
    using assms by (simp_all add: imx_order_defs)
  then show ?thesis by (simp add: append_fragment_def eq Let_def)
qed

interpretation imx_fragments: fragment_reader handle_rtp_packet reads_h264 counted keep_fragment complete_fragment
proof unfold_locales
  fix s t ssrc h m e c and env :: vpu_env and d :: vpu
  assume a: "reads_h264 s d"
  show "handle_rtp_packet env (build_rtp m s t ssrc (fu_header h True e @ c)) d =
      (let d' = keep_fragment t (h # c) (counted s t d) in if e then complete_fragment env m t d' else (True, d'))"
    using imx_handle_in_order[OF a, of "fu_header h True e @ c"]
    by (simp add: imx_append_fu append_fragment_def Let_def)
next
  fix s t ssrc h m e c x and env :: vpu_env and d :: vpu
  assume a: "reads_h264 s (keep_fragment t x d)" "x \<noteq> []"
  show "handle_rtp_packet env (build_rtp m s t ssrc (fu_header h False e @ c)) (keep_fragment t x d) =
      (let d' = keep_fragment t (x @ c) (counted s t d) in if e then complete_fragment env m t d' else (True, d'))"
    using imx_handle_in_order[OF a(1), of "fu_header h False e @ c"] a(2)
    by (simp add: imx_append_fu imx_fragment_next)
qed (simp_all add: imx_order_defs)

section \<open>Pictures\<close>

definition counted_n :: "nat \<Rightarrow> u16 \<Rightarrow> u32 \<Rightarrow> vpu \<Rightarrow> vpu" where
  "counted_n n s t d = in_step (s + of_nat n - 1) t (d\<lparr>rtp_packets := rtp_packets d + of_nat n\<rparr>)"

definition collecting :: "u32 \<Rightarrow> bytes \<Rightarrow> vpu \<Rightarrow> vpu" where
  "collecting t au d = d\<lparr>access_unit := au, access_unit_timestamp := t, have_access_unit := True\<rparr>"

lemma imx_queue_same:
  "have_access_unit d \<longrightarrow> access_unit_timestamp d = t \<Longrightarrow> n \<noteq> [] \<Longrightarrow>
   queue_nal env t n d = (True, collecting t (access_unit d @ start_code @ n) d)"
  by (cases d) (auto simp: queue_nal_def start_unit_def collecting_def Let_def)

text \<open>A unit sent in a packet of its own.\<close>

definition single_nal :: "bytes \<Rightarrow> bool" where
  "single_nal nal \<longleftrightarrow> nal \<noteq> [] \<and> 1 \<le> h264_nal_type nal \<and> h264_nal_type nal \<le> 23"

lemma imx_units_collected:
  assumes "\<forall>n \<in> set units. single_nal n" "units \<noteq> []" "reads_h264 s d"
    "have_access_unit d \<longrightarrow> access_unit_timestamp d = t"
  shows "for_all (handle_rtp_packet env) (slice_packets s t ssrc units) d
         = submit_access_unit env (collecting t (access_unit d @ annex_b units) (counted_n (length units) s t d))"
  using assms
proof (induction units arbitrary: s d)
  case (Cons n ns)
  have n: "n \<noteq> []" "1 \<le> h264_nal_type n" "h264_nal_type n \<le> 23"
    using Cons.prems(1) by (simp_all add: single_nal_def)
  have step: "handle_rtp_packet env (build_rtp m s t ssrc n) d
      = submit_if env m (collecting t (access_unit d @ start_code @ n) (counted s t d))" for m
    using n imx_handle_in_order[OF Cons.prems(3) n(1)] imx_queue_same[of "counted s t d" t n env] Cons.prems(4)
    by (simp add: append_h264_payload_def imx_order_defs)
  show ?case
  proof (cases "ns = []")
    case True
    have "counted s t d = counted_n 1 s t d"
      by (simp add: counted_def counted_n_def)
    then show ?thesis
      using True by (simp add: step submit_if_def and_then_def split: prod.splits)
  next
    case False
    let ?d = "collecting t (access_unit d @ start_code @ n) (counted s t d)"
    have "counted_n (length ns) (s + 1) t ?d = collecting t (access_unit ?d) (counted_n (length (n # ns)) s t d)"
      by (simp add: counted_n_def counted_def collecting_def in_step_def add.assoc)
    then have "collecting t (access_unit ?d @ annex_b ns) (counted_n (length ns) (s + 1) t ?d)
        = collecting t (access_unit d @ annex_b (n # ns)) (counted_n (length (n # ns)) s t d)"
      by (simp add: collecting_def)
    moreover have "reads_h264 (s + 1) ?d"
      using Cons.prems(3) by (simp add: collecting_def imx_order_defs)
    ultimately show ?thesis
      using Cons.prems False Cons.IH[of "s + 1" ?d]
      by (simp add: step submit_if_def) (simp add: collecting_def)
  qed
qed simp

section \<open>Decode calls\<close>

lemma add_framebuffers_error: "add_framebuffers a n d = (False, d') \<Longrightarrow> last_error d' \<noteq> []"
  by (auto simp: add_framebuffers_def decoder_error_def Let_def split: if_splits option.splits)

lemma add_framebuffers_keeps:
  "decode_calls (snd (add_framebuffers a n d)) = decode_calls d"
  "pushed (snd (add_framebuffers a n d)) = pushed d"
  by (auto simp: add_framebuffers_def Let_def split: option.splits)

lemma update_stream_info_error: "update_stream_info i a d = (False, d') \<Longrightarrow> last_error d' \<noteq> []"
  by (auto simp: update_stream_info_def Let_def dest: add_framebuffers_error split: if_splits option.splits)

lemma update_stream_info_keeps:
  "decode_calls (snd (update_stream_info i a d)) = decode_calls d"
  "pushed (snd (update_stream_info i a d)) = pushed d"
  by (auto simp: update_stream_info_def Let_def add_framebuffers_keeps deallocate_pool_def
      clear_decoder_frames_def return_frames_def split: option.splits)

text \<open>A step that goes on changes neither the calls nor what was pushed; one that ends well asked for
  more input; one that ends badly leaves an error text.\<close>

lemma decode_step_Inl:
  assumes "decode_step s d = Inl d'"
  shows "decode_calls d' = decode_calls d \<and> pushed d' = pushed d \<and> s \<noteq> More_input"
  using assms update_stream_info_keeps[of _ _ d] add_framebuffers_keeps[of _ 1 d]
  by (auto simp: decode_step_def take_frame_def return_frames_def split_def Let_def
      split: vpu_step.splits sum.splits if_splits)

lemma decode_step_Inr:
  assumes "decode_step s d = Inr (ok, d')"
  shows "decode_calls d' = decode_calls d \<and> pushed d' = pushed d \<and> (ok \<longleftrightarrow> s = More_input) \<and> (\<not> ok \<longrightarrow> last_error d' \<noteq> [])"
proof -
  have u: "update_stream_info i a d = (b, d'') \<Longrightarrow> decode_calls d'' = decode_calls d \<and> pushed d'' = pushed d" for i a b d''
    using update_stream_info_keeps[of i a d] by simp
  have f: "add_framebuffers a n d = (b, d'') \<Longrightarrow> decode_calls d'' = decode_calls d \<and> pushed d'' = pushed d" for n a b d''
    using add_framebuffers_keeps[of a n d] by simp
  show ?thesis
    using assms
    by (auto simp: decode_step_def decoder_error_def Let_def
        dest: u f update_stream_info_error add_framebuffers_error
        split: vpu_step.splits sum.splits if_splits prod.splits)
qed

lemma decode_loop_calls:
  assumes "decode_loop n env d = (ok, d')"
  shows "decode_calls d' \<le> decode_calls d + n \<and> pushed d' = pushed d \<and>
    (if ok then decode_calls d < decode_calls d' \<and> ve_step env (decode_calls d' - 1) = More_input
     else last_error d' \<noteq> [])"
  using assms
proof (induction n arbitrary: d)
  case (Suc n)
  let ?d = "d\<lparr>decode_calls := decode_calls d + 1\<rparr>"
  show ?case
  proof (cases "decode_step (ve_step env (decode_calls d)) ?d")
    case (Inl d1)
    with Suc.prems have "decode_loop n env d1 = (ok, d')" by simp
    from Suc.IH[OF this] decode_step_Inl[OF Inl] show ?thesis by auto
  next
    case (Inr r)
    with Suc.prems have "decode_step (ve_step env (decode_calls d)) ?d = Inr (ok, d')" by simp
    from decode_step_Inr[OF this] show ?thesis by auto
  qed
qed auto

text \<open>
  C32: \<open>decode_available\<close> always returns: it makes at most 128 decode calls, it succeeds only when the
  VPU asked for more input in its last call, and it never fails without an error text.
\<close>

theorem imx_decode_bounded:
  "case decode_available env d of (ok, d') \<Rightarrow>
     decode_calls d' \<le> decode_calls d + 128 \<and>
     (if ok then decode_calls d < decode_calls d' \<and> ve_step env (decode_calls d' - 1) = More_input
      else last_error d' \<noteq> [])"
  using decode_loop_calls[of 128 env d] by (auto simp: decode_available_def split: prod.split)

text \<open>
  The units of one picture, parameter sets included, reach the VPU as exactly one access unit: the
  Annex B concatenation of all of them with the timestamp of the picture, whatever decoding it
  gives; no part of the picture stays behind, and the reader expects the packet that follows.
\<close>

theorem imx_units_make_one_picture:
  assumes "\<forall>n \<in> set units. single_nal n" "units \<noteq> []" "reads_h264 s d" "\<not> have_access_unit d"
    "access_unit d = []" "ve_push env (length (pushed d)) = None"
  shows "\<exists>d0. for_all (handle_rtp_packet env) (slice_packets s t ssrc units) d = decode_available env d0
    \<and> pushed (snd (decode_available env d0)) = pushed d @ [(annex_b units, t)]
    \<and> access_unit d0 = [] \<and> \<not> have_access_unit d0 \<and> reads_h264 (s + of_nat (length units)) d0"
proof -
  let ?c = "collecting t (annex_b units) (counted_n (length units) s t d)"
  let ?d0 = "clear_unit (?c\<lparr>access_units := access_units ?c + 1, pushed := pushed ?c @ [(annex_b units, t)]\<rparr>)"
  have "annex_b units \<noteq> []" using assms(2) by (cases units) (simp_all add: start_code_def)
  then have "submit_access_unit env ?c = decode_available env ?d0"
    using assms(6) by (simp add: submit_access_unit_def collecting_def counted_n_def in_step_def)
  then have "for_all (handle_rtp_packet env) (slice_packets s t ssrc units) d = decode_available env ?d0"
    using imx_units_collected[of units s d t env ssrc] assms by simp
  moreover have "pushed (snd (decode_available env ?d0)) = pushed d @ [(annex_b units, t)]"
    using decode_loop_calls[of 128 env ?d0] decode_available_def[of env ?d0]
    by (cases "decode_loop 128 env ?d0") (simp add: clear_unit_def collecting_def counted_n_def in_step_def)
  moreover have "access_unit ?d0 = []" "\<not> have_access_unit ?d0" "reads_h264 (s + of_nat (length units)) ?d0"
    using assms(3) by (simp_all add: clear_unit_def collecting_def counted_n_def in_step_def reads_h264_def)
  ultimately show ?thesis by blast
qed

definition imx_started :: "string \<Rightarrow> vpu" where
  "imx_started codec =
     new_vpu\<lparr>h265 := (codec = ''h265'' \<or> codec = ''hevc''), decoder_open := True, socket_open := True\<rparr>"

lemma imx_start_started:
  "codec \<in> {''h264'', ''h265'', ''hevc''} \<Longrightarrow>
   start \<lparr>vs_has_decoder = True, vs_frames_from_pool = True, vs_allocator_error = None, vs_stream_buffer_error = None,
          vs_open_error = None, vs_socket_error = None, vs_bind_error = None\<rparr> codec new_vpu = (True, imx_started codec)"
  by (auto simp: start_def init_decoder_def init_socket_def imx_started_def new_vpu_def)

definition quiet_vpu :: vpu_env where
  "quiet_vpu = \<lparr>ve_push = \<lambda>_. None, ve_step = \<lambda>_. More_input, ve_fd = \<lambda>_. 7\<rparr>"

theorem imx_units_make_one_picture_witness:
  "pushed (snd (for_all (handle_rtp_packet quiet_vpu) (slice_packets 5 3000 7 [[0x67, 1], [0x68, 2], [0x65, 3]])
     (imx_started ''h264''))) = [([0, 0, 0, 1, 0x67, 1, 0, 0, 0, 1, 0x68, 2, 0, 0, 0, 1, 0x65, 3], 3000)]"
proof -
  have "\<forall>n \<in> set [[0x67, 1], [0x68, 2], [0x65, 3 :: u8]]. single_nal n"
    by (simp add: single_nal_def h264_nal_type_def)
  then show ?thesis
    using imx_units_make_one_picture[of "[[0x67, 1], [0x68, 2], [0x65, 3]]" 5 "imx_started ''h264''" quiet_vpu 3000 7]
    by (auto simp: reads_h264_def imx_started_def new_vpu_def quiet_vpu_def start_code_def)
qed

section \<open>Frames\<close>

definition owned :: "vpu \<Rightarrow> nat list" where
  "owned d = held (current_frame d) @ ready_frames d"

definition six_queued :: "vpu \<Rightarrow> bool" where
  "six_queued d \<longleftrightarrow> length (ready_frames d) \<le> 6"

abbreviation grow :: "vpu \<Rightarrow> vpu \<Rightarrow> bool" where
  "grow \<equiv> grows got_frames owned returned_frames six_queued"

lemma grow_same:
  "got_frames d' = got_frames d \<Longrightarrow> ready_frames d' = ready_frames d \<Longrightarrow> current_frame d' = current_frame d \<Longrightarrow>
   returned_frames d' = returned_frames d \<Longrightarrow> grow d d'"
  by (rule grows_same) (simp_all add: owned_def six_queued_def)

lemma grows_clear: "grow d (clear_decoder_frames d)"
  by (simp add: grows_def clear_decoder_frames_def return_frames_def owned_def six_queued_def held_def ac_simps)

lemma grows_present: "grow d (mark_presented d)"
  by (simp add: grows_def mark_presented_def return_frames_def owned_def six_queued_def held_def ac_simps)

lemma grows_take: "grow d (take_frame f d)"
proof -
  obtain gone q where q: "drop_to 6 (ready_frames d @ [f]) = (gone, q)" by fastforce
  note q' = drop_to_laws[OF q]
  have "mset gone + mset q = mset (ready_frames d) + {#f#}"
    using arg_cong[OF q'(1), of mset] by simp
  then show ?thesis
    using q'(2) by (simp add: grows_def take_frame_def q return_frames_def owned_def six_queued_def ac_simps)
qed

lemma grows_framebuffers: "grow d (snd (add_framebuffers a n d))"
  by (rule grow_same) (auto simp: add_framebuffers_def Let_def split: option.splits)

lemma grows_stream_info: "grow d (snd (update_stream_info i a d))"
proof (cases "\<exists>x. i = Some x \<and> si_nv12 x")
  case True
  then show ?thesis
    by (auto simp: update_stream_info_def Let_def deallocate_pool_def
        intro!: grows_trans[OF grows_trans[OF grows_clear grow_same] grows_framebuffers])
qed (auto simp: update_stream_info_def intro!: grow_same split: option.splits)

lemma grows_decode_step: "grow d (case decode_step s d of Inl d' \<Rightarrow> d' | Inr (ok, d') \<Rightarrow> d')"
  using grows_stream_info[of d] grows_framebuffers[of d _ 1]
  by (auto simp: decode_step_def split_def Let_def grows_take intro: grow_same split: vpu_step.splits sum.splits)

lemma grows_decode_loop: "grow d (snd (decode_loop n env d))"
proof (induction n arbitrary: d)
  case (Suc n)
  let ?d = "d\<lparr>decode_calls := decode_calls d + 1\<rparr>"
  have "grow d ?d" by (rule grow_same) simp_all
  then show ?case
    using grows_decode_step[of ?d "ve_step env (decode_calls d)"] Suc.IH
    by (cases "decode_step (ve_step env (decode_calls d)) ?d") (auto intro: grows_trans)
qed (auto intro: grow_same)

lemma grows_submit: "grow d (snd (submit_access_unit env d))"
  by (cases "ve_push env (length (pushed d))")
     (simp_all add: submit_access_unit_def decode_available_def clear_unit_def grow_same
       grows_trans[OF grow_same grows_decode_loop])

lemma grows_queue: "grow d (snd (queue_nal env t nal d))"
  by (auto simp: queue_nal_def start_unit_def Let_def intro!: grows_and_then grows_submit grow_same)

lemma grows_submit_if: "grow d (snd (submit_if env m d))"
  by (simp add: submit_if_def grows_submit grow_same)

lemma grows_aggregate: "grow d (snd (append_aggregate env r m t d))"
  unfolding append_aggregate_def split_def Let_def
  by (intro grows_and_then grows_for_all grows_queue) (simp add: grows_submit_if grow_same)

lemma grows_complete: "grow d (snd (complete_fragment env m t d))"
proof -
  obtain ok d1 where q: "queue_nal env t (fragment d) d = (ok, d1)" by fastforce
  have "grow d d1" using grows_queue[of d env t "fragment d"] q by simp
  moreover have "grow d1 (d1\<lparr>fragment := []\<rparr>)" by (rule grow_same) simp_all
  ultimately have "grow d (d1\<lparr>fragment := []\<rparr>)" by (rule grows_trans)
  then show ?thesis
    using grows_trans[OF _ grows_submit_if] by (simp add: complete_fragment_def q Let_def)
qed

lemma grows_fragment: "grow d (snd (append_fragment env h a e x m t d))"
  by (simp add: append_fragment_def keep_fragment_def Let_def grow_same grows_trans[OF grow_same grows_complete])

lemma grows_payload:
  "grow d (snd (append_h264_payload env p m t d))" "grow d (snd (append_h265_payload env p m t d))"
  by (simp_all add: append_h264_payload_def append_h265_payload_def Let_def
      grows_and_then grows_queue grows_submit_if grows_aggregate grows_fragment grow_same)

lemma grows_supervise: "grow d (snd (supervise r d))"
  by (auto simp: supervise_def in_step_def forget_partial_def Let_def intro!: grow_same)

lemma grows_packet: "grow d (snd (handle_rtp_packet env p d))"
proof (cases "parse_rtp p")
  case (Some r)
  obtain u d1 where s: "supervise r d = (u, d1)" by fastforce
  have "grow d d1" using grows_supervise[of d r] s by simp
  then show ?thesis
    using grows_trans[OF _ grows_payload(1)] grows_trans[OF _ grows_payload(2)]
    by (simp add: handle_rtp_packet_def Some s)
qed (simp add: handle_rtp_packet_def grow_same)

lemma grows_deliver: "grow d (snd (try_deliver env d))"
  by (cases "ready_frames d")
     (auto simp: try_deliver_def deliver_ready_frame_def grows_def owned_def six_queued_def held_def Let_def)

lemma grows_poll_loop: "grow d (snd (poll_loop env as d))"
proof (induction "as" arbitrary: d)
  case (Cons a "as")
  show ?case
  proof (cases a)
    case (Received p)
    obtain ok d1 where h: "handle_rtp_packet env p d = (ok, d1)" by fastforce
    obtain f d2 where t: "try_deliver env d1 = (f, d2)" by fastforce
    have 1: "grow d d1" using grows_packet[of d env p] h by simp
    have "grow d d2" using grows_trans[OF 1 grows_deliver[of d1 env]] t by simp
    then show ?thesis
      using 1 h t Cons.IH[of d2] grows_deliver by (auto simp: Received intro: grows_trans split: option.splits)
  qed (simp add: grow_same)
qed (simp add: grows_deliver)

lemma grows_poll: "grow d (snd (poll env as d))"
proof -
  let ?d = "d\<lparr>last_error := []\<rparr>"
  obtain f d1 where t: "try_deliver env ?d = (f, d1)" by fastforce
  have "grow d d1"
    using grows_trans[OF _ grows_deliver[of ?d env], of d] t by (simp add: grow_same)
  then show ?thesis
    using grows_trans[OF _ grows_poll_loop] t by (auto simp: poll_def split: option.splits)
qed

lemma grows_cleanup: "grow d (cleanup d)"
  by (rule grows_trans[OF grows_clear]) (simp add: cleanup_def deallocate_pool_def grow_same)

text \<open>What the owner of the decoder does: it polls, presents, and cleans up.\<close>

datatype imx_event = Imx_poll vpu_env "recv_answer list" | Imx_present | Imx_stop

fun imx_step :: "imx_event \<Rightarrow> vpu \<Rightarrow> vpu" where
  "imx_step (Imx_poll env answers) d = snd (poll env answers d)"
| "imx_step Imx_present d = mark_presented d"
| "imx_step Imx_stop d = cleanup d"

lemma imx_step_grows: "grow d (imx_step e d)"
  by (cases e) (simp_all add: grows_poll grows_present grows_cleanup)

interpretation imx_frames: frame_ledger imx_step got_frames owned returned_frames six_queued
  by unfold_locales (rule imx_step_grows)

definition imx_after :: "string \<Rightarrow> imx_event list \<Rightarrow> vpu" where
  "imx_after codec events = fold imx_step events (imx_started codec)"

lemma imx_started_frames [simp]:
  "ready_frames (imx_started c) = []" "current_frame (imx_started c) = None"
  "returned_frames (imx_started c) = []" "got_frames (imx_started c) = []"
  by (simp_all add: imx_started_def new_vpu_def)

text \<open>
  C31: The frames of the i.MX VPU are neither leaked nor given back twice: after any calls of \<open>poll\<close>,
  \<open>mark_presented\<close> and \<open>cleanup\<close>, whatever the VPU and the network did, a frame it gave is presented,
  waits in the queue of at most six, or has been given back, and only one of these when the VPU gave
  it once; \<open>cleanup\<close> gives back the rest.
\<close>

theorem imx_frames_accounted:
  assumes "distinct (got_frames (imx_after codec events))"
  shows "let d = imx_after codec events in
    distinct (returned_frames d)
    \<and> set (held (current_frame d) @ ready_frames d) \<inter> set (returned_frames d) = {}
    \<and> set (held (current_frame d) @ ready_frames d) \<union> set (returned_frames d) = set (got_frames d)
    \<and> length (ready_frames d) \<le> 6
    \<and> mset (returned_frames (cleanup d)) = mset (got_frames d)"
proof -
  let ?d = "imx_after codec events"
  have "mset (returned_frames (cleanup ?d)) = mset (owned ?d) + mset (returned_frames ?d)"
    by (simp add: cleanup_def deallocate_pool_def clear_decoder_frames_def return_frames_def owned_def)
  with assms imx_frames.accounted[of "imx_started codec" events] show ?thesis
    by (simp add: imx_after_def Let_def owned_def six_queued_def held_def)
qed

text \<open>Two frames come out for one access unit; the first is presented and the second one queued.\<close>

definition two_frames :: vpu_env where
  "two_frames = quiet_vpu\<lparr>ve_step := (\<lambda>n. if n < 2 then Frame_decoded (Inr n) else More_input)\<rparr>"

theorem imx_frames_accounted_witness:
  "mset (returned_frames (cleanup (imx_after ''h264''
     [Imx_poll two_frames [Received (build_rtp True 5 3000 7 [0x65, 3])], Imx_present]))) = {#0, 1#}"
proof -
  have "got_frames (imx_after ''h264''
      [Imx_poll two_frames [Received (build_rtp True 5 3000 7 [0x65, 3])], Imx_present]) = [0, 1]"
    by code_simp
  then show ?thesis
    using imx_frames_accounted[of "''h264''"
      "[Imx_poll two_frames [Received (build_rtp True 5 3000 7 [0x65, 3])], Imx_present]"]
    by (simp add: Let_def)
qed

end
