(* ===== verification/Cedar_Decoder.thy ===== *)
theory Cedar_Decoder
  imports Rtp_Contracts
begin

text \<open>
  \<open>src/video/cedar_rtp_decoder.cpp\<close>: the decoder for the Allwinner Cedar engine. The record
  \<open>cedar\<close> holds the members of \<open>CedarRtpDecoder\<close>; the Cedar library and the socket are arguments
  (\<open>cedar_env\<close>). \<open>submitted\<close> records what was written to the stream buffer (the part before its end,
  the part after the wrap, the time stamp), \<open>got_pictures\<close> the pictures taken from the decoder and
  \<open>returned_pictures\<close> those given back.
\<close>

section \<open>Bit reader\<close>

record bit_reader =
  data :: bytes
  byte_offset :: nat
  bit_offset :: nat

definition new_reader :: "bytes \<Rightarrow> bit_reader" where
  "new_reader bs = \<lparr>data = bs, byte_offset = 0, bit_offset = 0\<rparr>"

definition at_emulation :: "bytes \<Rightarrow> nat \<Rightarrow> bool" where
  "at_emulation bs i \<longleftrightarrow> 2 \<le> i \<and> i < length bs \<and> bs ! (i - 2) = 0 \<and> bs ! (i - 1) = 0 \<and> bs ! i = 3"

function read_bit :: "bit_reader \<Rightarrow> (bool \<times> bit_reader) option" where
  "read_bit r =
     (if length (data r) \<le> byte_offset r then None
      else if at_emulation (data r) (byte_offset r)
      then read_bit (r\<lparr>byte_offset := byte_offset r + 1, bit_offset := 0\<rparr>)
      else Some (bit (data r ! byte_offset r) (7 - bit_offset r),
             if bit_offset r + 1 = 8 then r\<lparr>byte_offset := byte_offset r + 1, bit_offset := 0\<rparr>
             else r\<lparr>bit_offset := bit_offset r + 1\<rparr>))"
  by pat_completeness auto
termination by (relation "measure (\<lambda>r. length (data r) - byte_offset r)") auto

declare read_bit.simps [simp del]

text \<open>The zero bits before the first one bit, at most 31 of them; \<open>None\<close> where \<open>read_ue\<close> gives up.\<close>

fun leading_zeros :: "nat \<Rightarrow> nat \<Rightarrow> bit_reader \<Rightarrow> (nat \<times> bit_reader) option" where
  "leading_zeros 0 n r = None"
| "leading_zeros (Suc k) n r =
     (case read_bit r of
        None \<Rightarrow> None
      | Some (b, r') \<Rightarrow> if b then Some (n, r') else leading_zeros k (n + 1) r')"

fun read_suffix :: "nat \<Rightarrow> u32 \<Rightarrow> bit_reader \<Rightarrow> (u32 \<times> bit_reader) option" where
  "read_suffix 0 x r = Some (x, r)"
| "read_suffix (Suc k) x r =
     (case read_bit r of
        None \<Rightarrow> None
      | Some (b, r') \<Rightarrow> read_suffix k (push_bit 1 x OR of_bool b) r')"

definition read_ue :: "bit_reader \<Rightarrow> (u32 \<times> bit_reader) option" where
  "read_ue r =
     (case leading_zeros 32 0 r of
        None \<Rightarrow> None
      | Some (n, r') \<Rightarrow> map_option (\<lambda>(x, r''). (push_bit n 1 - 1 + x, r'')) (read_suffix n 0 r'))"

definition first_slice_starts_frame :: "bytes \<Rightarrow> bool" where
  "first_slice_starts_frame nal =
     (if length nal \<le> 1 then False
      else case read_ue (new_reader (drop 1 nal)) of None \<Rightarrow> False | Some (v, _) \<Rightarrow> v = 0)"

definition nal_is_vcl :: "nat \<Rightarrow> bool" where
  "nal_is_vcl ty \<longleftrightarrow> 1 \<le> ty \<and> ty \<le> 5"

section \<open>State\<close>

record cedar =
  socket_open :: bool
  decoder_open :: bool
  memory_open :: bool
  access_unit :: bytes
  current_timestamp :: u32
  have_timestamp :: bool
  expected_sequence :: u16
  have_sequence :: bool
  fu_started :: bool
  fu_timestamp :: u32
  access_unit_has_vcl :: bool
  dropping_timestamp :: bool
  require_idr :: bool
  drop_timestamp :: u32
  sps :: bytes
  pps :: bytes
  pending_picture :: "nat option"
  current_picture :: "nat option"
  ready_pictures :: "nat list"
  packets :: u64
  rtp_sequence_gaps :: u64
  late_or_duplicate_packets :: u64
  dropped_incomplete_fragments :: u64
  dropped_waiting_for_idr :: u64
  access_units :: u64
  decoded_frames :: u64
  dropped_access_units :: u64
  access_unit_submitted_this_poll :: bool
  last_error :: string
  stream_requests :: nat
  decode_calls :: nat
  drains :: nat
  submitted :: "(bytes \<times> bytes \<times> u32) list"
  got_pictures :: "nat list"
  returned_pictures :: "nat list"

definition new_cedar :: cedar where
  "new_cedar =
    \<lparr>socket_open = False, decoder_open = False, memory_open = False, access_unit = [], current_timestamp = 0,
     have_timestamp = False, expected_sequence = 0, have_sequence = False, fu_started = False, fu_timestamp = 0,
     access_unit_has_vcl = False, dropping_timestamp = False, require_idr = True, drop_timestamp = 0, sps = [],
     pps = [], pending_picture = None, current_picture = None, ready_pictures = [], packets = 0,
     rtp_sequence_gaps = 0, late_or_duplicate_packets = 0, dropped_incomplete_fragments = 0,
     dropped_waiting_for_idr = 0, access_units = 0, decoded_frames = 0, dropped_access_units = 0,
     access_unit_submitted_this_poll = False, last_error = [], stream_requests = 0, decode_calls = 0, drains = 0,
     submitted = [], got_pictures = [], returned_pictures = []\<rparr>"

section \<open>Answers of the Cedar library\<close>

datatype decode_result =
  Decode_ok | No_bitstream | No_frame_buffer | Unsupported | Resolution_change | Other_result

datatype pixel_format = Pixel_nv12 | Pixel_nv21 | Pixel_yv12 | Pixel_other int

record picture =
  p_fd :: int
  p_width :: int
  p_height :: int
  p_line_stride :: int
  p_format :: pixel_format

text \<open>
  The sizes of the two parts of a requested stream buffer, whether a submission failed, the result of
  each decode call, the pictures ready at each drain, a picture's fields, and the byte that follows
  the payload in the receive buffer.
\<close>

record cedar_env =
  ce_request :: "nat \<Rightarrow> (nat \<times> nat) option"
  ce_submit_fails :: "nat \<Rightarrow> bool"
  ce_decode :: "nat \<Rightarrow> decode_result"
  ce_pictures :: "nat \<Rightarrow> nat list"
  ce_picture :: "nat \<Rightarrow> picture"
  ce_after :: u8

section \<open>Access units\<close>

definition aud :: bytes where
  "aud = [0, 0, 0, 1, 9, 0x10]"

definition append_aud_if_needed :: "bytes \<Rightarrow> bytes" where
  "append_aud_if_needed out = (if out = [] then aud else out)"

definition reset_access_unit :: "cedar \<Rightarrow> cedar" where
  "reset_access_unit d =
     d\<lparr>access_unit := [], have_timestamp := False, fu_started := False, access_unit_has_vcl := False,
       dropped_access_units := dropped_access_units d + 1\<rparr>"

definition append_nal :: "bytes \<Rightarrow> cedar \<Rightarrow> cedar" where
  "append_nal nal d = d\<lparr>access_unit := append_aud_if_needed (access_unit d) @ start_code @ nal\<rparr>"

definition append_if_any :: "bytes \<Rightarrow> cedar \<Rightarrow> cedar" where
  "append_if_any nal d = (if nal = [] then d else append_nal nal d)"

definition append_cached_parameter_sets :: "cedar \<Rightarrow> cedar" where
  "append_cached_parameter_sets d = append_if_any (pps d) (append_if_any (sps d) d)"

definition cache_parameter_set :: "bytes \<Rightarrow> cedar \<Rightarrow> cedar" where
  "cache_parameter_set nal d =
     (if nal = [] then d
      else if h264_nal_type nal = 7 then d\<lparr>sps := nal\<rparr>
      else if h264_nal_type nal = 8 then d\<lparr>pps := nal\<rparr> else d)"

section \<open>Submission\<close>

text \<open>The calls after a stream buffer was refused: at most four, their results ignored.\<close>

fun drain_decoder :: "nat \<Rightarrow> cedar_env \<Rightarrow> cedar \<Rightarrow> cedar" where
  "drain_decoder 0 env d = d"
| "drain_decoder (Suc n) env d =
     (let r = ce_decode env (decode_calls d); d1 = d\<lparr>decode_calls := decode_calls d + 1\<rparr>
      in if r = No_bitstream \<or> r = No_frame_buffer then d1 else drain_decoder n env d1)"

fun decode_loop :: "nat \<Rightarrow> cedar_env \<Rightarrow> cedar \<Rightarrow> bool \<times> cedar" where
  "decode_loop 0 env d = (True, d)"
| "decode_loop (Suc n) env d =
     (let r = ce_decode env (decode_calls d); d1 = d\<lparr>decode_calls := decode_calls d + 1\<rparr>
      in if r = No_bitstream \<or> r = No_frame_buffer then (True, d1)
         else if r = Unsupported
         then (False, d1\<lparr>last_error := ''Cedar decoder reported unsupported H264 stream''\<rparr>)
         else if r = Resolution_change then (True, d1)
         else decode_loop n env d1)"

definition submit_access_unit :: "cedar_env \<Rightarrow> cedar \<Rightarrow> bool \<times> cedar" where
  "submit_access_unit env d =
     (if access_unit d = [] then (True, d)
      else let d0 = d\<lparr>stream_requests := stream_requests d + 1\<rparr>; au = access_unit d in
      case ce_request env (stream_requests d) of
        None \<Rightarrow> (True, drain_decoder 4 env (reset_access_unit d0))
      | Some (room, ring) \<Rightarrow>
          if room + ring < length au then (True, reset_access_unit d0)
          else if ce_submit_fails env (stream_requests d)
          then (False, d0\<lparr>last_error := ''failed to submit H264 access unit to Cedar decoder''\<rparr>)
          else let first = min room (length au) in
            decode_loop 8 env
              (d0\<lparr>submitted := submitted d @ [(take first au, drop first au, current_timestamp d)],
                  access_units := access_units d + 1, access_unit_submitted_this_poll := True,
                  access_unit := [], have_timestamp := False, access_unit_has_vcl := False\<rparr>))"

section \<open>Depacketization\<close>

datatype drop_reason = Waiting_for_idr | Incomplete

definition drop_picture :: "drop_reason \<Rightarrow> u32 \<Rightarrow> cedar \<Rightarrow> cedar" where
  "drop_picture why t d =
     (let d1 = (reset_access_unit d)\<lparr>dropping_timestamp := True, drop_timestamp := t\<rparr> in
      case why of
        Waiting_for_idr \<Rightarrow> d1\<lparr>dropped_waiting_for_idr := dropped_waiting_for_idr d1 + 1\<rparr>
      | Incomplete \<Rightarrow> d1\<lparr>dropped_incomplete_fragments := dropped_incomplete_fragments d1 + 1\<rparr>)"

text \<open>
  What each branch does with a unit of type \<open>ty\<close> before it appends it: a slice that cannot be
  decoded drops the picture, an IDR slice is preceded by the parameter sets.
\<close>

definition admit :: "nat \<Rightarrow> bytes \<Rightarrow> u32 \<Rightarrow> cedar \<Rightarrow> bool \<times> cedar" where
  "admit ty nal t d =
     (if \<not> nal_is_vcl ty then (True, d)
      else if require_idr d \<and> ty \<noteq> 5 then (False, drop_picture Waiting_for_idr t d)
      else if \<not> access_unit_has_vcl d \<and> \<not> first_slice_starts_frame nal
      then (False, drop_picture Incomplete t d)
      else (True, (if ty = 5 then (append_cached_parameter_sets d)\<lparr>require_idr := False\<rparr> else d)
                    \<lparr>access_unit_has_vcl := True\<rparr>))"

definition append_single :: "bytes \<Rightarrow> u32 \<Rightarrow> cedar \<Rightarrow> bool \<times> cedar" where
  "append_single nal t d =
     and_then (admit (h264_nal_type nal) nal t (cache_parameter_set nal (d\<lparr>fu_started := False\<rparr>)))
       (\<lambda>d. (True, append_nal nal d))"

text \<open>
  The units of an aggregation packet. The type of an empty unit is read from the byte after it,
  which may lie after the payload.
\<close>

function append_units :: "u8 \<Rightarrow> bytes \<Rightarrow> u32 \<Rightarrow> cedar \<Rightarrow> bool \<times> cedar" where
  "append_units after r t d =
     (case r of
        hi # lo # rest \<Rightarrow>
          (let n = be16 hi lo in
           if length rest < n then (True, d)
           else and_then (admit (h264_nal_type (rest @ [after])) (take n rest) t (cache_parameter_set (take n rest) d))
                  (\<lambda>d. append_units after (drop n rest) t (append_nal (take n rest) d)))
      | _ \<Rightarrow> (True, d))"
  by pat_completeness auto
termination by (relation "measure (\<lambda>(after, r, t, d). length r)") auto

declare append_units.simps [simp del]

definition append_fragment :: "bytes \<Rightarrow> u32 \<Rightarrow> cedar \<Rightarrow> bool \<times> cedar" where
  "append_fragment p t d =
     (let rebuilt = (p ! 0 AND 0xE0) OR (p ! 1 AND 0x1F); starts = (p ! 1 AND 0x80 \<noteq> 0); ends = (p ! 1 AND 0x40 \<noteq> 0);
          nal = rebuilt # drop 2 p
      in if starts
         then and_then (admit (h264_nal_type nal) nal t d)
                (\<lambda>d. (True, append_nal nal (d\<lparr>fu_started := \<not> ends, fu_timestamp := t\<rparr>)))
         else if \<not> fu_started d \<or> fu_timestamp d \<noteq> t
         then (False, d\<lparr>dropped_incomplete_fragments := dropped_incomplete_fragments d + 1\<rparr>)
         else (True, d\<lparr>access_unit := access_unit d @ drop 2 p, fu_started := \<not> ends\<rparr>))"

text \<open>\<open>False\<close> where the payload ends the handling of its packet.\<close>

definition append_units_of :: "cedar_env \<Rightarrow> bytes \<Rightarrow> u32 \<Rightarrow> cedar \<Rightarrow> bool \<times> cedar" where
  "append_units_of env p t d =
     (let ty = h264_nal_type p in
      if 1 \<le> ty \<and> ty \<le> 23 then append_single p t d
      else if ty = 24 then append_units (ce_after env) (drop 1 p) t (d\<lparr>fu_started := False\<rparr>)
      else if ty = 28 \<and> 2 \<le> length p then append_fragment p t d
      else (True, d))"

text \<open>The sequence check; \<open>False\<close> for a packet that is not used.\<close>

definition supervise :: "u16 \<Rightarrow> u32 \<Rightarrow> cedar \<Rightarrow> bool \<times> cedar" where
  "supervise s t d =
     (if dropping_timestamp d \<and> t = drop_timestamp d then (False, d)
      else let d1 = d\<lparr>dropping_timestamp := False\<rparr>;
               delta = (if have_sequence d1 then sequence_delta s (expected_sequence d1) else 0)
      in if delta < 0 then (False, d1\<lparr>late_or_duplicate_packets := late_or_duplicate_packets d1 + 1\<rparr>)
         else let d2 = (if 0 < delta
                        then (reset_access_unit (d1\<lparr>rtp_sequence_gaps := rtp_sequence_gaps d1 + 1\<rparr>))\<lparr>require_idr := True\<rparr>
                        else d1)
              in (True, d2\<lparr>expected_sequence := s + 1, have_sequence := True\<rparr>))"

definition next_picture :: "cedar_env \<Rightarrow> u32 \<Rightarrow> cedar \<Rightarrow> bool \<times> cedar" where
  "next_picture env t d =
     and_then
       (if have_timestamp d \<and> t \<noteq> current_timestamp d \<and> access_unit d \<noteq> []
        then if fu_started d then (True, reset_access_unit d) else submit_access_unit env d
        else (True, d))
       (\<lambda>d. (True, d\<lparr>current_timestamp := t, have_timestamp := True\<rparr>))"

definition append_h264_payload :: "cedar_env \<Rightarrow> bytes \<Rightarrow> bool \<Rightarrow> u16 \<Rightarrow> u32 \<Rightarrow> cedar \<Rightarrow> bool \<times> cedar" where
  "append_h264_payload env p m s t d =
     (if p = [] then (True, d)
      else let (used, d1) = supervise s t d in
      if \<not> used then (True, d1)
      else and_then (next_picture env t d1)
        (\<lambda>d. let (go_on, d2) = append_units_of env p t d in
             if go_on \<and> m \<and> access_unit d2 \<noteq> [] \<and> \<not> fu_started d2 then submit_access_unit env d2
             else (True, d2)))"

definition handle_rtp_packet :: "cedar_env \<Rightarrow> bytes \<Rightarrow> cedar \<Rightarrow> bool \<times> cedar" where
  "handle_rtp_packet env packet d =
     (case parse_rtp packet of
        None \<Rightarrow> (True, d)
      | Some r \<Rightarrow> append_h264_payload env (body r) (marker r) (seqno r) (timestamp r) (d\<lparr>packets := packets d + 1\<rparr>))"

section \<open>Pictures\<close>

text \<open>A picture can only be given back while the decoder is open.\<close>

definition return_pictures :: "nat list \<Rightarrow> cedar \<Rightarrow> cedar" where
  "return_pictures ps d = (if decoder_open d then d\<lparr>returned_pictures := returned_pictures d @ ps\<rparr> else d)"

definition mark_presented :: "cedar \<Rightarrow> cedar" where
  "mark_presented d =
     (if decoder_open d then (return_pictures (held (current_picture d)) d)\<lparr>current_picture := None\<rparr> else d)"

definition picture_to_frame :: "picture \<Rightarrow> string + video_frame" where
  "picture_to_frame p =
     (if p_fd p < 0 then Inl ''Cedar decoded picture has no DMABUF fd''
      else let w = of_int (p_width p); h = of_int (p_height p);
               stride = of_int (if 0 < p_line_stride p then p_line_stride p else p_width p);
               frame = (\<lambda>f planes. Inr \<lparr>vf_width = w, vf_height = h, vf_format = f, vf_planes = planes,
                          vf_color = Cs_unspecified, vf_range = Range_unspecified\<rparr>);
               two = [(p_fd p, stride, 0), (p_fd p, stride, stride * h)] in
      case p_format p of
        Pixel_nv12 \<Rightarrow> frame ''NV12'' two
      | Pixel_nv21 \<Rightarrow> frame ''NV21'' two
      | Pixel_yv12 \<Rightarrow>
          frame ''YVU420'' [(p_fd p, stride, 0), (p_fd p, stride div 2, stride * h),
            (p_fd p, stride div 2, stride * h + (stride div 2) * ((h + 1) div 2))]
      | Pixel_other n \<Rightarrow> Inl (''unsupported Cedar output pixel format '' @ int_str n))"

definition drain_picture :: "cedar_env \<Rightarrow> cedar \<Rightarrow> video_frame option \<times> cedar" where
  "drain_picture env d =
     (let new = ce_pictures env (drains d);
          (gone, q) = drop_to 6 (ready_pictures d @ new);
          d1 = (return_pictures gone d)\<lparr>ready_pictures := q, drains := drains d + 1,
                 decoded_frames := decoded_frames d + of_nat (length new), got_pictures := got_pictures d @ new\<rparr>
      in if current_picture d1 \<noteq> None then (None, d1)
         else case q of
           [] \<Rightarrow> (None, d1)
         | p # ps \<Rightarrow>
             (let d2 = d1\<lparr>current_picture := Some p, ready_pictures := ps\<rparr> in
              case picture_to_frame (ce_picture env p) of
                Inl e \<Rightarrow> (None, d2\<lparr>last_error := e\<rparr>)
              | Inr f \<Rightarrow> (Some f, d2)))"

section \<open>Polling\<close>

text \<open>An answer of \<open>recv\<close>; the list ends where the socket has no more packets.\<close>

datatype recv_answer = Received bytes | Recv_failed string

definition drain_if_submitted :: "cedar_env \<Rightarrow> video_frame option \<Rightarrow> cedar \<Rightarrow> video_frame option \<times> cedar" where
  "drain_if_submitted env got d =
     (if access_unit_submitted_this_poll d
      then let (f, d1) = drain_picture env d
           in (case f of None \<Rightarrow> got | Some _ \<Rightarrow> f, d1\<lparr>access_unit_submitted_this_poll := False\<rparr>)
      else (got, d))"

definition last_drain :: "cedar_env \<Rightarrow> video_frame option \<Rightarrow> cedar \<Rightarrow> video_frame option \<times> cedar" where
  "last_drain env got d = (case got of Some f \<Rightarrow> (Some f, d) | None \<Rightarrow> drain_picture env d)"

fun poll_loop :: "cedar_env \<Rightarrow> recv_answer list \<Rightarrow> video_frame option \<Rightarrow> cedar \<Rightarrow> video_frame option \<times> cedar" where
  "poll_loop env [] got d = last_drain env got d"
| "poll_loop env (Recv_failed e # as) got d = (None, d\<lparr>last_error := ''failed to receive RTP packet: '' @ e\<rparr>)"
| "poll_loop env (Received p # as) got d =
     (if p = [] then last_drain env got d
      else let (ok, d1) = handle_rtp_packet env p d in
      if \<not> ok then (None, d1)
      else let (got', d2) = drain_if_submitted env got d1 in poll_loop env as got' d2)"

definition poll :: "cedar_env \<Rightarrow> recv_answer list \<Rightarrow> cedar \<Rightarrow> video_frame option \<times> cedar" where
  "poll env answers d =
     poll_loop env answers None (d\<lparr>last_error := [], access_unit_submitted_this_poll := False\<rparr>)"

section \<open>Statistics, start and cleanup\<close>

definition stats :: "cedar \<Rightarrow> string" where
  "stats d =
     ''rtp_packets='' @ nat_str (unat (packets d)) @ '' rtp_sequence_gaps='' @ nat_str (unat (rtp_sequence_gaps d))
     @ '' late_or_duplicate_packets='' @ nat_str (unat (late_or_duplicate_packets d))
     @ '' dropped_incomplete_fragments='' @ nat_str (unat (dropped_incomplete_fragments d))
     @ '' dropped_waiting_for_idr='' @ nat_str (unat (dropped_waiting_for_idr d))
     @ '' access_units='' @ nat_str (unat (access_units d))
     @ '' dropped_access_units='' @ nat_str (unat (dropped_access_units d))
     @ '' decoded_frames='' @ nat_str (unat (decoded_frames d))"

text \<open>The answers to the steps of \<open>init_socket\<close> and \<open>init_decoder\<close>; \<open>Some\<close> is the text of a failure.\<close>

record cedar_start =
  cs_socket_error :: "string option"
  cs_bind_error :: "string option"
  cs_adapter :: bool
  cs_memory_opened :: bool
  cs_ve_ops :: bool
  cs_decoder :: bool
  cs_result :: "int \<times> int \<times> int \<times> int \<Rightarrow> int"

definition init_socket :: "cedar_start \<Rightarrow> cedar \<Rightarrow> bool \<times> cedar" where
  "init_socket a d =
     (case cs_socket_error a of
        Some e \<Rightarrow> (False, d\<lparr>last_error := ''failed to create UDP socket: '' @ e\<rparr>)
      | None \<Rightarrow> (case cs_bind_error a of
        Some e \<Rightarrow> (False, d\<lparr>socket_open := True, last_error := ''failed to bind UDP RTP socket: '' @ e\<rparr>)
      | None \<Rightarrow> (True, d\<lparr>socket_open := True\<rparr>)))"

text \<open>The stream parameters Cedar gets: width, height, frame rate and the duration of a frame.\<close>

definition stream_parameters :: "u32 \<Rightarrow> u32 \<Rightarrow> u32 \<Rightarrow> int \<times> int \<times> int \<times> int" where
  "stream_parameters width height fps =
     (sint width, sint height, sint fps, if 0 < fps then sint (1000000 div fps) else 16667)"

definition init_decoder :: "cedar_start \<Rightarrow> u32 \<Rightarrow> u32 \<Rightarrow> u32 \<Rightarrow> cedar \<Rightarrow> bool \<times> cedar" where
  "init_decoder a width height fps d =
     (if \<not> cs_adapter a then (False, d\<lparr>last_error := ''failed to open Cedar memory adapter''\<rparr>)
      else let d1 = d\<lparr>memory_open := True\<rparr> in
      if \<not> cs_memory_opened a then (False, d1\<lparr>last_error := ''failed to open Cedar memory adapter''\<rparr>)
      else if \<not> cs_ve_ops a then (False, d1\<lparr>last_error := ''failed to get Cedar VE ops''\<rparr>)
      else if \<not> cs_decoder a then (False, d1\<lparr>last_error := ''failed to create Cedar video decoder''\<rparr>)
      else let d2 = d1\<lparr>decoder_open := True\<rparr>; result = cs_result a (stream_parameters width height fps) in
      if result \<noteq> 0
      then (False, d2\<lparr>last_error := ''failed to initialize Cedar H264 decoder result='' @ int_str result\<rparr>)
      else (True, d2))"

definition start :: "cedar_start \<Rightarrow> u32 \<Rightarrow> u32 \<Rightarrow> u32 \<Rightarrow> cedar \<Rightarrow> bool \<times> cedar" where
  "start a width height fps d = and_then (init_socket a d) (init_decoder a width height fps)"

definition cleanup :: "cedar \<Rightarrow> cedar" where
  "cleanup d =
     (let all = held (pending_picture d) @ held (current_picture d) @ ready_pictures d;
          d1 = (return_pictures all d)\<lparr>ready_pictures := []\<rparr>;
          d2 = (if decoder_open d then d1\<lparr>pending_picture := None, current_picture := None\<rparr> else d1)
      in d2\<lparr>decoder_open := False, memory_open := False, socket_open := False\<rparr>)"

end
