(* ===== verification/Cedar_Streams.thy ===== *)
theory Cedar_Streams
  imports Cedar_Decoder
begin

text \<open>
  The guarantees of the Cedar decoder: the bit reader refines the list of bits without emulation
  bytes and reads every Exp-Golomb code; nothing with a slice is submitted while an IDR picture is
  awaited; an access unit is copied whole into the ring buffer; pictures are given back (an
  interpretation of \<open>frame_owner\<close>).
\<close>

section \<open>The bit reader\<close>

text \<open>The payload without its emulation prevention bytes; \<open>z\<close> zero bytes came before.\<close>

fun unescape :: "nat \<Rightarrow> bytes \<Rightarrow> bytes" where
  "unescape z [] = []"
| "unescape z (b # bs) =
     (if 2 \<le> z \<and> b = 3 then unescape 0 bs else b # unescape (if b = 0 then z + 1 else 0) bs)"

definition byte_bits :: "u8 \<Rightarrow> bool list" where
  "byte_bits b = map (\<lambda>i. bit b (7 - i)) [0..<8]"

definition zeros_before :: "bytes \<Rightarrow> nat \<Rightarrow> nat" where
  "zeros_before bs i = length (takeWhile (\<lambda>b. b = 0) (rev (take i bs)))"

definition bits_left :: "bit_reader \<Rightarrow> bool list" where
  "bits_left r =
     drop (bit_offset r)
       (concat (map byte_bits (unescape (zeros_before (data r) (byte_offset r)) (drop (byte_offset r) (data r)))))"

definition reader_ok :: "bit_reader \<Rightarrow> bool" where
  "reader_ok r \<longleftrightarrow> bit_offset r < 8 \<and>
     (bit_offset r = 0 \<or> byte_offset r < length (data r) \<and> \<not> at_emulation (data r) (byte_offset r))"

lemma length_byte_bits [simp]: "length (byte_bits b) = 8"
  by (simp add: byte_bits_def)

lemma drop_byte_bits: "i < 8 \<Longrightarrow> drop i (byte_bits b) = bit b (7 - i) # drop (i + 1) (byte_bits b)"
  by (subst Cons_nth_drop_Suc[symmetric]) (simp_all add: byte_bits_def)

lemma zeros_before_Suc:
  "i < length bs \<Longrightarrow> zeros_before bs (Suc i) = (if bs ! i = 0 then zeros_before bs i + 1 else 0)"
  by (simp add: zeros_before_def take_Suc_conv_app_nth)

lemma at_emulation_zeros:
  assumes "i < length bs"
  shows "at_emulation bs i \<longleftrightarrow> 2 \<le> zeros_before bs i \<and> bs ! i = 3"
proof -
  have "2 \<le> zeros_before bs i \<longleftrightarrow> 2 \<le> i \<and> bs ! (i - 2) = 0 \<and> bs ! (i - 1) = 0"
  proof (cases "2 \<le> i")
    case True
    then obtain j where i: "i = j + 1 + 1" using le_iff_add[of 2 i] by auto
    show ?thesis using assms unfolding i by (simp add: zeros_before_def take_Suc_conv_app_nth)
  next
    case False
    then have "i = 0 \<or> i = 1" by auto
    then show ?thesis
      using length_takeWhile_le[of "\<lambda>b. b = 0" "rev (take i bs)"] by (auto simp: zeros_before_def)
  qed
  then show ?thesis using assms by (auto simp: at_emulation_def)
qed

lemma bits_left_at:
  assumes "reader_ok r" "byte_offset r < length (data r)" "\<not> at_emulation (data r) (byte_offset r)"
  shows "bits_left r = drop (bit_offset r) (byte_bits (data r ! byte_offset r))
           @ bits_left (r\<lparr>byte_offset := byte_offset r + 1, bit_offset := 0\<rparr>)"
  using assms
  by (subst (1) bits_left_def)
     (auto simp: bits_left_def reader_ok_def at_emulation_zeros zeros_before_Suc Cons_nth_drop_Suc[symmetric])

lemma bits_left_skip:
  assumes "reader_ok r" "byte_offset r < length (data r)" "at_emulation (data r) (byte_offset r)"
  shows "bits_left r = bits_left (r\<lparr>byte_offset := byte_offset r + 1, bit_offset := 0\<rparr>)"
  using assms
  by (subst (1) bits_left_def)
     (auto simp: bits_left_def reader_ok_def at_emulation_zeros zeros_before_Suc Cons_nth_drop_Suc[symmetric])

lemma read_bit_step:
  assumes "reader_ok r"
  shows "case bits_left r of
      [] \<Rightarrow> read_bit r = None
    | b # bs \<Rightarrow> \<exists>r'. read_bit r = Some (b, r') \<and> bits_left r' = bs \<and> reader_ok r'"
  using assms
proof (induction r rule: read_bit.induct)
  case (1 r)
  let ?next = "r\<lparr>byte_offset := byte_offset r + 1, bit_offset := 0\<rparr>"
  consider "length (data r) \<le> byte_offset r"
    | "byte_offset r < length (data r)" "at_emulation (data r) (byte_offset r)"
    | "byte_offset r < length (data r)" "\<not> at_emulation (data r) (byte_offset r)" by linarith
  then show ?case
  proof cases
    case 1
    then show ?thesis by (simp add: bits_left_def read_bit.simps[of r])
  next
    case 2
    moreover have "reader_ok ?next" by (simp add: reader_ok_def)
    moreover have "read_bit r = read_bit ?next" using 2 by (simp add: read_bit.simps[of r])
    ultimately show ?thesis
      using "1.IH" bits_left_skip[OF "1.prems"] by (simp split: list.splits)
  next
    case 3
    have off: "bit_offset r < 8" using "1.prems" by (simp add: reader_ok_def)
    show ?thesis
    proof (cases "bit_offset r = 7")
      case True
      then show ?thesis
        using 3 bits_left_at[OF "1.prems" 3] drop_byte_bits[of 7]
        by (simp add: read_bit.simps[of r] reader_ok_def)
    next
      case False
      let ?r = "r\<lparr>bit_offset := bit_offset r + 1\<rparr>"
      have ok: "reader_ok ?r" using 3 off False by (simp add: reader_ok_def)
      have "bits_left r = bit (data r ! byte_offset r) (7 - bit_offset r) # bits_left ?r"
        using bits_left_at[OF "1.prems" 3] bits_left_at[OF ok] 3 drop_byte_bits[OF off] by simp
      then show ?thesis using 3 False ok by (simp add: read_bit.simps[of r])
    qed
  qed
qed

text \<open>
  C7: The bit reader refines the payload without its emulation prevention bytes: it is at the end
  exactly when no bit is left, otherwise it returns the next bit and stays in step with the rest.
\<close>

theorem read_bit_refines:
  assumes "reader_ok r"
  shows "case bits_left r of
      [] \<Rightarrow> read_bit r = None
    | b # bs \<Rightarrow> \<exists>r'. read_bit r = Some (b, r') \<and> bits_left r' = bs \<and> reader_ok r'"
  using assms by (rule read_bit_step)

theorem read_bit_refines_witness:
  "\<exists>r'. read_bit \<lparr>data = [0, 0, 3, 0x80], byte_offset = 2, bit_offset = 0\<rparr> = Some (True, r') \<and>
     bits_left r' = [False, False, False, False, False, False, False]"
proof -
  have "reader_ok \<lparr>data = [0, 0, 3, 0x80], byte_offset = 2, bit_offset = 0\<rparr>" by code_simp
  moreover have "bits_left \<lparr>data = [0, 0, 3, 0x80], byte_offset = 2, bit_offset = 0\<rparr>
      = [True, False, False, False, False, False, False, False]" by code_simp
  ultimately show ?thesis
    using read_bit_refines[of "\<lparr>data = [0, 0, 3, 0x80], byte_offset = 2, bit_offset = 0\<rparr>"] by auto
qed

section \<open>Exp-Golomb codes\<close>

fun bits_of :: "nat \<Rightarrow> bool list" where
  "bits_of n = (if n \<le> 1 then [n = 1] else bits_of (n div 2) @ [odd n])"

declare bits_of.simps [simp del]

definition ue_bits :: "nat \<Rightarrow> bool list" where
  "ue_bits v = (let b = bits_of (v + 1) in replicate (length b - 1) False @ b)"

definition value_of :: "bool list \<Rightarrow> u32 \<Rightarrow> u32" where
  "value_of bs x = foldl (\<lambda>x b. 2 * x + of_bool b) x bs"

lemma value_of_bits: "value_of (bits_of n) 0 = of_nat n"
proof (induction n rule: bits_of.induct)
  case (1 n)
  show ?case
  proof (cases "n \<le> 1")
    case False
    have "n = 2 * (n div 2) + of_bool (odd n)" by simp
    then have "of_nat n = (of_nat (2 * (n div 2) + of_bool (odd n)) :: u32)" by simp
    then have "of_nat n = (2 * of_nat (n div 2) + of_bool (odd n) :: u32)"
      by (simp only: of_nat_add of_nat_mult of_nat_numeral of_nat_of_bool)
    with False 1 show ?thesis by (simp add: bits_of.simps[of n] value_of_def)
  next
    case True
    then consider "n = 0" | "n = 1" by linarith
    then show ?thesis by cases (simp_all add: bits_of.simps value_of_def)
  qed
qed

lemma value_of_split: "value_of bs x = 2 ^ length bs * x + value_of bs 0"
proof (induction bs arbitrary: x)
  case (Cons b bs)
  from Cons[of "2 * x + of_bool b"] Cons[of "of_bool b"] show ?case
    by (simp add: value_of_def algebra_simps)
qed (simp add: value_of_def)

lemma bits_of_shape:
  "0 < n \<Longrightarrow> (\<exists>bs. bits_of n = True # bs \<and> 2 ^ length bs \<le> n)"
proof (induction n rule: bits_of.induct)
  case (1 n)
  show ?case
  proof (cases "n \<le> 1")
    case False
    with 1 obtain bs where "bits_of (n div 2) = True # bs" "2 ^ length bs \<le> n div 2" by auto
    with False show ?thesis by (auto simp: bits_of.simps[of n])
  qed (use 1 in \<open>auto simp: bits_of.simps[of n]\<close>)
qed

lemma next_bit:
  assumes "reader_ok r" "bits_left r = b # bs"
  obtains r' where "read_bit r = Some (b, r')" "bits_left r' = bs" "reader_ok r'"
proof -
  have "case bits_left r of [] \<Rightarrow> read_bit r = None
      | b # bs \<Rightarrow> \<exists>r'. read_bit r = Some (b, r') \<and> bits_left r' = bs \<and> reader_ok r'"
    using assms(1) by (rule read_bit_step)
  then show ?thesis using assms(2) that by auto
qed

lemma leading_zeros_reads:
  assumes "reader_ok r" "bits_left r = replicate m False @ True # rest" "m < k"
  shows "\<exists>r'. leading_zeros k n r = Some (n + m, r') \<and> bits_left r' = rest \<and> reader_ok r'"
  using assms
proof (induction m arbitrary: k n r)
  case 0
  then obtain k' where "k = Suc k'" by (cases k) auto
  with 0 show ?case by (auto elim: next_bit)
next
  case (Suc m)
  then obtain k' where k: "k = Suc k'" "m < k'" by (cases k) auto
  from Suc.prems obtain r' where r': "read_bit r = Some (False, r')" "bits_left r' = replicate m False @ True # rest"
    "reader_ok r'" by (auto elim: next_bit)
  from Suc.IH[OF r'(3) r'(2) k(2), of "n + 1"] r'(1) k(1) show ?case by simp
qed

lemma push_or: "push_bit 1 x OR of_bool b = 2 * x + (of_bool b :: u32)"
proof -
  have "push_bit 1 x AND of_bool b = 0"
    by (rule bit_word_eqI) (auto simp: bit_simps bit_0)
  then have "push_bit 1 x + of_bool b = push_bit 1 x OR (of_bool b :: u32)" by (rule disjunctive_add_eq_or)
  then show ?thesis by (simp only: push_bit_eq_mult power_one_right mult.commute[of x])
qed

lemma read_suffix_reads:
  assumes "reader_ok r" "bits_left r = bs @ rest"
  shows "\<exists>r'. read_suffix (length bs) x r = Some (value_of bs x, r') \<and> bits_left r' = rest \<and> reader_ok r'"
  using assms
proof (induction bs arbitrary: r x)
  case (Cons b bs)
  then obtain r' where r': "read_bit r = Some (b, r')" "bits_left r' = bs @ rest" "reader_ok r'"
    by (auto elim: next_bit)
  from Cons.IH[OF r'(3) r'(2), of "2 * x + of_bool b"] r'(1) show ?case
    by (simp only: read_suffix.simps list.size option.case prod.case push_or add_Suc_right add_0_right)
       (simp add: value_of_def)
qed (simp add: value_of_def)

text \<open>
  C34: Every unsigned Exp-Golomb code that fits 32 bits is read back, across emulation prevention
  bytes, and the reader stands after it.
\<close>

theorem read_ue_roundtrip:
  assumes "reader_ok r" "bits_left r = ue_bits v @ rest" "v < 2 ^ 32 - 1"
  shows "\<exists>r'. read_ue r = Some (of_nat v, r') \<and> bits_left r' = rest \<and> reader_ok r'"
proof -
  obtain bs where bs: "bits_of (v + 1) = True # bs" "2 ^ length bs \<le> v + 1"
    using bits_of_shape[of "v + 1"] by auto
  have "2 ^ length bs < (2 :: nat) ^ 32" using bs(2) assms(3) by simp
  then have n: "length bs < 32" by (simp only: power_strict_increasing_iff)
  have "bits_left r = replicate (length bs) False @ True # (bs @ rest)"
    using assms(2) bs(1) by (simp add: ue_bits_def)
  from leading_zeros_reads[OF assms(1) this n, of 0] obtain r1 where
    r1: "leading_zeros 32 0 r = Some (length bs, r1)" "bits_left r1 = bs @ rest" "reader_ok r1" by auto
  from read_suffix_reads[OF r1(3) r1(2), of 0] obtain r2 where
    r2: "read_suffix (length bs) 0 r1 = Some (value_of bs 0, r2)" "bits_left r2 = rest" "reader_ok r2" by auto
  have "value_of (True # bs) 0 = of_nat (v + 1)" using value_of_bits[of "v + 1"] bs(1) by simp
  then have "push_bit (length bs) 1 - 1 + value_of bs 0 = (of_nat v :: u32)"
    using value_of_split[of bs 1] by (simp add: value_of_def push_bit_eq_mult algebra_simps)
  with r1(1) r2 show ?thesis by (simp add: read_ue_def)
qed

theorem read_ue_roundtrip_witness:
  "\<exists>r'. read_ue \<lparr>data = [0, 0, 3, 0x28], byte_offset = 2, bit_offset = 0\<rparr> = Some (4, r') \<and>
     bits_left r' = [False, False, False]"
proof -
  let ?r = "\<lparr>data = [0, 0, 3, 0x28], byte_offset = 2, bit_offset = 0\<rparr>"
  have "bits_left ?r = ue_bits 4 @ [False, False, False]" "reader_ok ?r" by code_simp+
  then show ?thesis using read_ue_roundtrip[of ?r 4 "[False, False, False]"] by auto
qed

lemma read_suffix_bound:
  assumes "read_suffix k x r = Some (y, r')" "(unat x + 1) * 2 ^ k \<le> 2 ^ 32"
  shows "unat y < (unat x + 1) * 2 ^ k"
  using assms
proof (induction k arbitrary: x r)
  case (Suc k)
  then obtain b r1 where r1: "read_bit r = Some (b, r1)" "read_suffix k (2 * x + of_bool b) r1 = Some (y, r')"
    by (auto simp: push_or[simplified] split: option.splits prod.splits)
  have "(1 :: nat) \<le> 2 ^ k" by simp
  then have "(unat x + 1) * 2 * 1 \<le> (unat x + 1) * 2 * 2 ^ k" by (rule mult_left_mono) simp
  then have "(unat x + 1) * 2 \<le> 2 ^ 32" using Suc.prems(2) by (simp add: algebra_simps)
  then have u: "unat (2 * x + of_bool b) = 2 * unat x + of_bool b"
    by (simp add: unat_word_ariths take_bit_eq_mod)
  have "(unat (2 * x + of_bool b) + 1) * 2 ^ k \<le> (unat x + 1) * 2 ^ Suc k"
    unfolding u by (simp add: algebra_simps)
  with Suc.IH[OF r1(2)] Suc.prems(2) show ?case by linarith
qed simp

lemma leading_zeros_bound: "leading_zeros k n r = Some (m, r') \<Longrightarrow> n \<le> m \<and> m < n + k"
  by (induction k arbitrary: n r) (fastforce split: option.splits prod.splits if_splits)+

lemma ue_not_zero:
  assumes "0 < n" "n < 32" "read_suffix n 0 r = Some (x, r')"
  shows "push_bit n 1 - 1 + x \<noteq> (0 :: u32)"
proof
  assume "push_bit n 1 - 1 + x = (0 :: u32)"
  then have "push_bit n 1 + x = (1 :: u32)" by (simp add: algebra_simps)
  moreover have le: "2 ^ n * 2 \<le> (2 :: nat) ^ 32" 
    using power_increasing[of "n + 1" 32 "2 :: nat"] assms(2) by simp
  have p: "unat (push_bit n 1 :: u32) = 2 ^ n" 
  proof -
    have "(push_bit n 1 :: u32) = of_nat (2 ^ n)" by (simp add: push_bit_eq_mult)
    moreover have "unat (of_nat (2 ^ n) :: u32) = 2 ^ n"
      using le by (simp only: unat_of_nat) (simp add: take_bit_eq_mod)
    ultimately show ?thesis by simp
  qed
  have x: "unat x < 2 ^ n" using read_suffix_bound[OF assms(3)] le by simp
  have "unat (push_bit n 1 + x :: u32) = 2 ^ n + unat x"
    using p x le by (simp add: unat_word_ariths)
  moreover have "2 \<le> (2 :: nat) ^ n" using assms(1) by (cases n) auto
  ultimately show False by simp
qed

text \<open>
  A slice starts a frame exactly when the first bit after its header byte is set: the code of
  macroblock number zero, whatever follows.
\<close>

theorem first_slice_test:
  "first_slice_starts_frame nal \<longleftrightarrow> 2 \<le> length nal \<and> bit (nal ! 1) 7"
proof (cases "2 \<le> length nal")
  case True
  then obtain a b r where nal: "nal = a # b # r" by (cases nal rule: remdups_adj.cases) auto
  let ?r1 = "(new_reader (b # r))\<lparr>bit_offset := 1\<rparr>"
  have bit: "read_bit (new_reader (b # r)) = Some (bit b 7, ?r1)"
    by (subst read_bit.simps) (simp add: new_reader_def at_emulation_def)
  have "leading_zeros 32 0 (new_reader (b # r)) = (if bit b 7 then Some (0, ?r1) else leading_zeros 31 1 ?r1)"
    using leading_zeros.simps(2)[of 31 0 "new_reader (b # r)"] bit by simp
  then have lz: "leading_zeros 32 0 (new_reader (b # r)) = (if bit b 7 then Some (0, ?r1) else leading_zeros 31 1 ?r1)" .
  show ?thesis
  proof (cases "bit b 7")
    case True
    then show ?thesis using nal lz by (simp add: first_slice_starts_frame_def read_ue_def del: leading_zeros.simps)
  next
    case False
    have "v \<noteq> 0" if "read_ue (new_reader (b # r)) = Some (v, r')" for v r'
    proof -
      from that lz False obtain n r2 x where n: "leading_zeros 31 1 ?r1 = Some (n, r2)"
        "read_suffix n 0 r2 = Some (x, r')" "v = push_bit n 1 - 1 + x"
        by (auto simp: read_ue_def simp del: leading_zeros.simps split: option.splits)
      from leading_zeros_bound[OF n(1)] have "0 < n" "n < 32" by auto
      from ue_not_zero[OF this n(2)] n(3) show "v \<noteq> 0" by simp
    qed
    with nal False show ?thesis by (auto simp: first_slice_starts_frame_def split: option.splits)
  qed
qed (auto simp: first_slice_starts_frame_def)

section \<open>Submission\<close>

text \<open>Decode calls change nothing but their count and the error text.\<close>

definition still :: "cedar \<Rightarrow> cedar" where
  "still d = d\<lparr>decode_calls := 0, last_error := []\<rparr>"

lemma still_fields:
  assumes "still a = still b"
  shows "access_unit a = access_unit b" "require_idr a = require_idr b" "fu_started a = fu_started b"
    "access_unit_has_vcl a = access_unit_has_vcl b" "submitted a = submitted b" "sps a = sps b" "pps a = pps b"
    "have_timestamp a = have_timestamp b" "decoder_open a = decoder_open b" "ready_pictures a = ready_pictures b"
    "current_picture a = current_picture b" "pending_picture a = pending_picture b"
    "got_pictures a = got_pictures b" "returned_pictures a = returned_pictures b"
    "dropping_timestamp a = dropping_timestamp b" "expected_sequence a = expected_sequence b"
    "have_sequence a = have_sequence b"
  using assms by (cases a; cases b; simp add: still_def)+

lemma drain_decoder_still: "still (drain_decoder k env d) = still d"
  by (induction k arbitrary: d) (simp_all add: Let_def, simp_all add: still_def)

lemma decode_loop_still: "still (snd (decode_loop k env d)) = still d"
  by (induction k arbitrary: d) (simp_all add: Let_def, simp_all add: still_def)

lemmas drain_fields [simp] = still_fields[OF drain_decoder_still]
lemmas loop_fields [simp] = still_fields[OF decode_loop_still]

lemma decode_calls_bounded:
  "decode_calls (drain_decoder k env d) \<le> decode_calls d + k"
  "decode_calls (snd (decode_loop k env d)) \<le> decode_calls d + k"
proof (induction k arbitrary: d)
  case (Suc k)
  case 1
  from Suc(1)[of "d\<lparr>decode_calls := decode_calls d + 1\<rparr>"] show ?case by (simp add: Let_def)
  case 2
  from Suc(2)[of "d\<lparr>decode_calls := decode_calls d + 1\<rparr>"] show ?case by (simp add: Let_def)
qed simp_all

text \<open>
  An access unit is copied whole or not at all: what is written before the end of the stream
  buffer and after its wrap is the access unit in order and fits the two parts granted, a unit that
  does not fit is dropped, and Cedar is asked to decode at most eight times.
\<close>

theorem cedar_access_unit_copied:
  "let d' = snd (submit_access_unit env d) in
     decode_calls d' \<le> decode_calls d + 8
     \<and> (case ce_request env (stream_requests d) of
          None \<Rightarrow> submitted d' = submitted d
        | Some (room, ring) \<Rightarrow>
            if access_unit d \<noteq> [] \<and> length (access_unit d) \<le> room + ring \<and> \<not> ce_submit_fails env (stream_requests d)
            then \<exists>first wrapped. submitted d' = submitted d @ [(first, wrapped, current_timestamp d)]
                   \<and> first @ wrapped = access_unit d \<and> length first \<le> room \<and> length wrapped \<le> ring
            else submitted d' = submitted d)"
proof -
  have 4: "decode_calls (drain_decoder 4 env x) \<le> decode_calls x + 8" for x
    using decode_calls_bounded(1)[of 4 env x] by simp
  have 8: "decode_calls (snd (decode_loop 8 env x)) \<le> decode_calls x + 8" for x
    using decode_calls_bounded(2)[of 8 env x] by simp
  note calls = 4[of "reset_access_unit (d\<lparr>stream_requests := Suc (stream_requests d)\<rparr>)"] order_trans[OF 8]
  show ?thesis
    using calls
    by (auto simp: submit_access_unit_def reset_access_unit_def Let_def min_def simp del: drain_decoder.simps decode_loop.simps
       split: option.splits)
qed

section \<open>Waiting for an IDR picture\<close>

definition slice :: "bytes \<Rightarrow> bool" where
  "slice nal \<longleftrightarrow> nal \<noteq> [] \<and> nal_is_vcl (h264_nal_type nal)"

text \<open>The access unit of a list of units.\<close>

definition unit_of :: "bytes list \<Rightarrow> bytes" where
  "unit_of us = (if us = [] then [] else aud @ annex_b us)"

definition no_slices :: "bytes \<Rightarrow> bool" where
  "no_slices au \<longleftrightarrow> (\<exists>us. au = unit_of us \<and> \<not> list_ex slice us)"

definition waiting :: "cedar \<Rightarrow> bool" where
  "waiting d \<longleftrightarrow> require_idr d \<and> \<not> access_unit_has_vcl d \<and>
     (\<exists>us. access_unit d = unit_of us \<and> \<not> list_ex slice us \<and> (fu_started d \<longrightarrow> us \<noteq> [] \<and> last us \<noteq> []))"

text \<open>From \<open>d\<close> to \<open>d'\<close> nothing with a slice was submitted, and an IDR picture is still awaited.\<close>

definition still_waiting :: "cedar \<Rightarrow> cedar \<Rightarrow> bool" where
  "still_waiting d d' \<longleftrightarrow> waiting d' \<and>
     (\<exists>new. submitted d' = submitted d @ new \<and> (\<forall>(a, b, t) \<in> set new. no_slices (a @ b)))"

definition no_idr_payload :: "bytes \<Rightarrow> bool" where
  "no_idr_payload p =
     (let ty = h264_nal_type p in
      if ty = 24 then list_all (\<lambda>u. u \<noteq> [] \<and> h264_nal_type u \<noteq> 5) (fst (aggregated (drop 1 p)))
      else if ty = 28 then unat (p ! 1 AND 0x1F) \<noteq> 5
      else ty \<noteq> 5)"

definition no_idr :: "bytes \<Rightarrow> bool" where
  "no_idr packet = (case parse_rtp packet of None \<Rightarrow> True | Some r \<Rightarrow> no_idr_payload (body r))"

lemma unit_of_snoc: "append_aud_if_needed (unit_of us) @ start_code @ nal = unit_of (us @ [nal])"
  by (simp add: unit_of_def append_aud_if_needed_def aud_def annex_b_def)

lemma unit_of_extend: "us \<noteq> [] \<Longrightarrow> unit_of us @ x = unit_of (butlast us @ [last us @ x])"
  by (cases us rule: rev_cases) (simp_all add: unit_of_def annex_b_def)

lemma slice_extend: "u \<noteq> [] \<Longrightarrow> slice (u @ x) = slice u"
  by (cases u) (simp_all add: slice_def h264_nal_type_def)

lemma still_waiting_same:
  "waiting d' \<Longrightarrow> submitted d' = submitted d \<Longrightarrow> still_waiting d d'"
  by (simp add: still_waiting_def)

lemma still_waiting_trans: "still_waiting a b \<Longrightarrow> still_waiting b c \<Longrightarrow> still_waiting a c"
  unfolding still_waiting_def by fastforce

lemma waiting_empty: "require_idr d \<Longrightarrow> \<not> access_unit_has_vcl d \<Longrightarrow> access_unit d = [] \<Longrightarrow> \<not> fu_started d \<Longrightarrow> waiting d"
  by (auto simp: waiting_def unit_of_def intro: exI[of _ "[]"])

lemma waiting_reset: "require_idr d \<Longrightarrow> waiting (reset_access_unit d)"
  by (rule waiting_empty) (simp_all add: reset_access_unit_def)

lemma waiting_drop: "require_idr d \<Longrightarrow> waiting (drop_picture why t d)"
  by (rule waiting_empty) (simp_all add: drop_picture_def reset_access_unit_def Let_def split: drop_reason.splits)

lemma submitted_drop [simp]: "submitted (drop_picture why t d) = submitted d" "submitted (reset_access_unit d) = submitted d"
  by (simp_all add: drop_picture_def reset_access_unit_def Let_def split: drop_reason.splits)

lemma waiting_fields:
  "waiting d \<Longrightarrow> require_idr d' = require_idr d \<Longrightarrow> access_unit_has_vcl d' = access_unit_has_vcl d \<Longrightarrow>
   access_unit d' = access_unit d \<Longrightarrow> (fu_started d' \<longrightarrow> fu_started d) \<Longrightarrow> waiting d'"
  by (auto simp: waiting_def)

lemma waiting_append:
  assumes "waiting d" "\<not> slice nal" "fu_started d \<longrightarrow> nal \<noteq> []"
  shows "waiting (append_nal nal d)"
proof -
  obtain us where us: "access_unit d = unit_of us" "\<not> list_ex slice us"
    using assms(1) by (auto simp: waiting_def)
  have "access_unit (append_nal nal d) = unit_of (us @ [nal])"
    by (simp add: append_nal_def us unit_of_snoc)
  with us assms show ?thesis
    by (auto simp: waiting_def append_nal_def intro!: exI[of _ "us @ [nal]"])
qed

lemma waiting_extend:
  assumes "waiting d" "fu_started d"
  shows "waiting (d\<lparr>access_unit := access_unit d @ x, fu_started := b\<rparr>)"
proof -
  obtain us where us: "access_unit d = unit_of us" "\<not> list_ex slice us" "us \<noteq> []" "last us \<noteq> []"
    using assms by (auto simp: waiting_def)
  have "\<not> list_ex slice (butlast us @ [last us @ x])"
    using us(2-4) slice_extend[of "last us" x]
    by (cases us rule: rev_cases) auto
  with us assms show ?thesis
    by (auto simp: waiting_def unit_of_extend intro!: exI[of _ "butlast us @ [last us @ x]"])
qed

lemma submit_waiting:
  assumes "waiting d" "\<not> fu_started d"
  shows "still_waiting d (snd (submit_access_unit env d))"
proof -
  have *: "no_slices (access_unit d)" using assms by (auto simp: waiting_def no_slices_def)
  have r: "require_idr d" "\<not> access_unit_has_vcl d" using assms(1) by (simp_all add: waiting_def)
  consider "access_unit d = []"
    | "access_unit d \<noteq> []" "ce_request env (stream_requests d) = None"
    | room ring where "access_unit d \<noteq> []" "ce_request env (stream_requests d) = Some (room, ring)"
    by (cases "ce_request env (stream_requests d)") auto
  then show ?thesis
  proof cases
    case 1
    then show ?thesis using assms(1) by (simp add: submit_access_unit_def still_waiting_same)
  next
    case 2
    then show ?thesis using r
      by (auto simp: submit_access_unit_def Let_def reset_access_unit_def simp del: drain_decoder.simps
          intro!: still_waiting_same waiting_empty)
  next
    case 3
    let ?d0 = "d\<lparr>stream_requests := stream_requests d + 1\<rparr>"
    have "still_waiting d (?d0\<lparr>last_error := e\<rparr>)" for e
      using waiting_fields[OF assms(1), of "?d0\<lparr>last_error := e\<rparr>"] by (simp add: still_waiting_same)
    with 3 r * assms(2) show ?thesis
      by (auto simp: submit_access_unit_def Let_def still_waiting_def reset_access_unit_def simp del: decode_loop.simps
          intro!: waiting_empty)
  qed
qed

lemma admit_waiting:
  assumes "waiting d" "ty \<noteq> 5"
  shows "admit ty nal t d = (if nal_is_vcl ty then (False, drop_picture Waiting_for_idr t d) else (True, d))"
  using assms by (simp add: admit_def waiting_def)

lemma single_waiting:
  assumes "waiting d" "h264_nal_type nal \<noteq> 5"
  shows "still_waiting d (snd (append_single nal t d))"
proof -
  let ?d = "cache_parameter_set nal (d\<lparr>fu_started := False\<rparr>)"
  have w: "waiting ?d" "submitted ?d = submitted d" "\<not> fu_started ?d"
    using waiting_fields[OF assms(1), of ?d] by (auto simp: cache_parameter_set_def)
  then have "require_idr ?d" by (simp add: waiting_def)
  with w waiting_append[OF w(1), of nal] show ?thesis
    using assms(2)
    by (auto simp: append_single_def admit_waiting[OF w(1)] slice_def append_nal_def[of nal ?d] waiting_drop
        intro!: still_waiting_same)
qed

lemma units_waiting:
  assumes "waiting d" "\<not> fu_started d" "list_all (\<lambda>u. u \<noteq> [] \<and> h264_nal_type u \<noteq> 5) (fst (aggregated r))"
  shows "still_waiting d (snd (append_units after r t d))"
  using assms
proof (induction after r t d rule: append_units.induct)
  case (1 after r t d)
  have self: "still_waiting d d" using "1.prems"(1) by (simp add: still_waiting_same)
  show ?case
  proof (cases "\<exists>hi lo rest. r = hi # lo # rest \<and> be16 hi lo \<le> length rest")
    case False
    then show ?thesis using self by (auto simp: append_units.simps[of after r] split: list.splits)
  next
    case True
    then obtain hi lo rest where r: "r = hi # lo # rest" "be16 hi lo \<le> length rest" by blast
    let ?n = "be16 hi lo" let ?u = "take ?n rest" let ?d = "cache_parameter_set ?u d"
    have agg: "fst (aggregated r) = ?u # fst (aggregated (drop ?n rest))"
      using r(2) unfolding r(1) by (subst aggregated.simps) (simp add: split_def Let_def)
    then have u: "?u \<noteq> []" "h264_nal_type ?u \<noteq> 5" using "1.prems"(3) by simp_all
    then have ty: "h264_nal_type (rest @ [after]) = h264_nal_type ?u"
      by (cases rest; cases ?n) (auto simp: h264_nal_type_def)
    have w: "waiting ?d" "submitted ?d = submitted d" "\<not> fu_started ?d"
      using waiting_fields[OF "1.prems"(1), of ?d] "1.prems"(2) by (auto simp: cache_parameter_set_def)
    have step: "append_units after r t d = and_then (admit (h264_nal_type ?u) ?u t ?d)
        (\<lambda>d. append_units after (drop ?n rest) t (append_nal ?u d))"
      using r(2) ty unfolding r(1) by (subst append_units.simps) (simp add: Let_def)
    show ?thesis
    proof (cases "nal_is_vcl (h264_nal_type ?u)")
      case True
      have "require_idr ?d" using w(1) by (simp add: waiting_def)
      with True w u(2) show ?thesis
        by (simp add: step admit_waiting waiting_drop still_waiting_same)
    next
      case False
      let ?d' = "append_nal ?u ?d"
      have "waiting ?d'" using False waiting_append[OF w(1), of ?u] w(3) by (simp add: slice_def)
      moreover have f: "submitted ?d' = submitted d" "\<not> fu_started ?d'" using w by (simp_all add: append_nal_def)
      ultimately have "still_waiting ?d' (snd (append_units after (drop ?n rest) t ?d'))"
        using "1.IH"[OF r(1) refl, of ?n] r(2) "1.prems"(3) agg ty False u
        by (simp add: admit_waiting[OF w(1)])
      then have "still_waiting d (snd (append_units after (drop ?n rest) t ?d'))"
        using f(1) by (simp add: still_waiting_def)
      then show ?thesis using False u(2) by (simp add: step admit_waiting[OF w(1)])
    qed
  qed
qed

lemma fragment_waiting:
  assumes "waiting d" "unat (p ! 1 AND 0x1F) \<noteq> 5"
  shows "still_waiting d (snd (append_fragment p t d))"
proof -
  let ?nal = "((p ! 0 AND 0xE0) OR (p ! 1 AND 0x1F)) # drop 2 p"
  have "((p ! 0 AND 0xE0) OR (p ! 1 AND 0x1F)) AND 0x1F = p ! 1 AND 0x1F"
    by (rule u8_eqI) (simp_all add: bit_simps)
  then have ty: "h264_nal_type ?nal \<noteq> 5" using assms(2) by (simp add: h264_nal_type_def)
  have r: "require_idr d" using assms(1) by (simp add: waiting_def)
  have "waiting (append_nal ?nal (d\<lparr>fu_started := b, fu_timestamp := t\<rparr>))" if "\<not> nal_is_vcl (h264_nal_type ?nal)" for b
  proof -
    from assms(1) obtain us where us: "access_unit d = unit_of us" "\<not> list_ex slice us" "require_idr d"
      "\<not> access_unit_has_vcl d" by (auto simp: waiting_def)
    have "\<not> slice ?nal" using that by (simp add: slice_def)
    then show ?thesis using us unit_of_snoc[of us ?nal]
      by (auto simp: waiting_def append_nal_def intro!: exI[of _ "us @ [?nal]"])
  qed
  then have "still_waiting d (snd (and_then (admit (h264_nal_type ?nal) ?nal t d)
      (\<lambda>d. (True, append_nal ?nal (d\<lparr>fu_started := b, fu_timestamp := t\<rparr>)))))" for b
    using ty r by (auto simp: admit_waiting[OF assms(1)] waiting_drop append_nal_def intro!: still_waiting_same)
  moreover have "still_waiting d (d\<lparr>dropped_incomplete_fragments := n\<rparr>)" for n
    using waiting_fields[OF assms(1), of "d\<lparr>dropped_incomplete_fragments := n\<rparr>"] by (simp add: still_waiting_same)
  moreover have "still_waiting d (d\<lparr>access_unit := access_unit d @ drop 2 p, fu_started := b\<rparr>)" if "fu_started d" for b
    using waiting_extend[OF assms(1) that] by (simp add: still_waiting_same)
  ultimately show ?thesis by (simp add: append_fragment_def Let_def)
qed

lemma payload_waiting:
  assumes "waiting d" "no_idr_payload p"
  shows "still_waiting d (snd (append_units_of env p t d))"
proof -
  let ?d = "d\<lparr>fu_started := False\<rparr>"
  have w: "waiting ?d" using waiting_fields[OF assms(1)] by simp
  have "still_waiting d (snd (append_units (ce_after env) (drop 1 p) t ?d))" if "h264_nal_type p = 24"
    using units_waiting[OF w, of "drop 1 p"] that assms(2) by (simp add: no_idr_payload_def still_waiting_def)
  then show ?thesis
    using assms single_waiting[OF assms(1), of p t] fragment_waiting[OF assms(1), of p t]
    by (auto simp: append_units_of_def no_idr_payload_def Let_def still_waiting_same)
qed

text \<open>
  A packet shows that packets before it were lost: its sequence number is ahead of the expected one, and its
  picture is not one that is being dropped. After that an IDR picture is awaited, whatever the decoder did before.
\<close>

definition shows_loss :: "bytes \<Rightarrow> cedar \<Rightarrow> bool" where
  "shows_loss packet d \<longleftrightarrow>
     (case parse_rtp packet of None \<Rightarrow> False
      | Some r \<Rightarrow> have_sequence d \<and> \<not> (dropping_timestamp d \<and> timestamp r = drop_timestamp d)
          \<and> (let ahead = unat (seqno r - expected_sequence d) in 0 < ahead \<and> ahead < 32768))"

lemma sint_positive:
  assumes "0 < unat (x :: u16)" "unat x < 32768"
  shows "0 < sint x"
proof -
  have "uint x = int (unat x)" by simp
  then have "0 < uint x" "uint x < 32768" using assms by linarith+
  then show ?thesis by (simp add: sint_uint signed_take_bit_int_eq_self)
qed

lemma ahead_delta: "0 < unat (s - e) \<Longrightarrow> unat (s - e) < 32768 \<Longrightarrow> 0 < sequence_delta s e"
  unfolding sequence_delta_def by (rule sint_positive)

lemma packet_waiting:
  assumes "waiting d \<or> shows_loss packet d" "no_idr packet"
  shows "still_waiting d (snd (handle_rtp_packet env packet d))"
proof (cases "parse_rtp packet")
  case None
  then show ?thesis using assms(1) by (simp add: handle_rtp_packet_def still_waiting_same shows_loss_def)
next
  case (Some r)
  let ?t = "timestamp r" let ?d = "d\<lparr>packets := packets d + 1\<rparr>"
  have p: "no_idr_payload (body r)" "body r \<noteq> []"
    using assms(2) parse_rtp_body(1)[OF Some] by (simp_all add: no_idr_def Some)
  obtain used d1 where s: "supervise (seqno r) ?t ?d = (used, d1)" by fastforce
  have 1: "still_waiting d d1"
  proof (cases "waiting d")
    case True
    then have "require_idr d" by (simp add: waiting_def)
    then show ?thesis
      using s waiting_fields[OF True, of d1] waiting_empty[of d1]
      by (auto simp: supervise_def Let_def reset_access_unit_def intro!: still_waiting_same split: if_splits)
  next
    case False
    then have l: "have_sequence d" "\<not> (dropping_timestamp d \<and> ?t = drop_timestamp d)" "0 < sequence_delta (seqno r) (expected_sequence d)"
      using assms(1) ahead_delta by (simp_all add: shows_loss_def Some Let_def)
    then show ?thesis
      using s by (auto simp: supervise_def Let_def reset_access_unit_def intro!: still_waiting_same waiting_empty split: if_splits)
  qed
  then have w1: "waiting d1" by (simp add: still_waiting_def)
  obtain ok d2 where n: "next_picture env ?t d1 = (ok, d2)" by fastforce
  have 2: "still_waiting d1 d2"
  proof -
    have set: "still_waiting d1 (x\<lparr>current_timestamp := ?t, have_timestamp := True\<rparr>)" if "still_waiting d1 x" for x
      using that waiting_fields[of x "x\<lparr>current_timestamp := ?t, have_timestamp := True\<rparr>"]
      by (simp add: still_waiting_def)
    have reset: "still_waiting d1 (reset_access_unit d1)"
      using w1 waiting_reset[of d1] by (simp add: waiting_def[of d1] still_waiting_same)
    obtain go x where x: "(if have_timestamp d1 \<and> ?t \<noteq> current_timestamp d1 \<and> access_unit d1 \<noteq> []
        then if fu_started d1 then (True, reset_access_unit d1) else submit_access_unit env d1 else (True, d1)) = (go, x)"
      by fastforce
    then have "still_waiting d1 x"
      using reset submit_waiting[OF w1, of env] w1 by (auto simp: still_waiting_same split: if_splits)
    moreover have "d2 = (if go then x\<lparr>current_timestamp := ?t, have_timestamp := True\<rparr> else x)"
      using n unfolding next_picture_def x by (auto simp: and_then_def)
    ultimately show ?thesis using set by simp
  qed
  then have w2: "waiting d2" by (simp add: still_waiting_def)
  obtain go d3 where u: "append_units_of env (body r) ?t d2 = (go, d3)" by fastforce
  have 3: "still_waiting d2 d3" using payload_waiting[OF w2 p(1), of env ?t] u by simp
  then have w3: "waiting d3" by (simp add: still_waiting_def)
  note still_waiting_trans[OF 1 2] still_waiting_trans[OF still_waiting_trans[OF 1 2] 3]
  with 1 submit_waiting[OF w3, of env] show ?thesis
    using p(2) s n u
    by (auto simp: handle_rtp_packet_def Some append_h264_payload_def and_then_def
        intro: still_waiting_trans)
qed

lemma packets_waiting:
  "waiting d \<Longrightarrow> list_all no_idr ps \<Longrightarrow> still_waiting d (snd (for_all (handle_rtp_packet env) ps d))"
proof (induction ps arbitrary: d)
  case (Cons p ps)
  obtain ok d1 where h: "handle_rtp_packet env p d = (ok, d1)" by fastforce
  have 1: "still_waiting d d1" using packet_waiting[of d p env] Cons.prems h by simp
  then have "waiting d1" by (simp add: still_waiting_def)
  with Cons 1 h show ?case by (auto simp: and_then_def intro: still_waiting_trans)
qed (simp add: still_waiting_same)

lemma start_waiting: "start cs width height fps new_cedar = (True, d) \<Longrightarrow> waiting d"
  by (auto simp: start_def init_socket_def init_decoder_def new_cedar_def Let_def waiting_empty split: option.splits if_splits prod.splits)

text \<open>
  C6: Until an IDR picture arrives no slice reaches the decoder, at the start of the stream, from the first packet on
  that shows a loss (its sequence number is ahead of the expected one), and as long as one is already awaited:
  whatever the packets contain and however they fragment and aggregate units, as long as none carries an IDR
  slice each access unit submitted consists of units that are not slices, and an IDR picture is still awaited.
\<close>

theorem cedar_waits_for_idr:
  assumes "list_all no_idr (p # ps)"
    "start cs width height fps new_cedar = (True, d) \<or> shows_loss p d \<or> waiting d"
  shows "waiting (snd (for_all (handle_rtp_packet env) (p # ps) d)) \<and>
    list_all (\<lambda>(a, b, t). no_slices (a @ b))
      (drop (length (submitted d)) (submitted (snd (for_all (handle_rtp_packet env) (p # ps) d))))"
proof -
  obtain ok d1 where h: "handle_rtp_packet env p d = (ok, d1)" by fastforce
  have "still_waiting d (snd (handle_rtp_packet env p d))"
    by (rule packet_waiting) (use assms start_waiting in auto)
  then have 1: "still_waiting d d1" "waiting d1" by (simp_all add: h still_waiting_def)
  have "still_waiting d1 (snd (for_all (handle_rtp_packet env) ps d1))"
    using packets_waiting[OF 1(2)] assms(1) by simp
  then have "still_waiting d (snd (for_all (handle_rtp_packet env) (p # ps) d))"
    using 1(1) h by (auto simp: and_then_def intro: still_waiting_trans)
  then show ?thesis by (auto simp: still_waiting_def list_all_iff)
qed

definition cedar_started :: cedar where
  "cedar_started = new_cedar\<lparr>decoder_open := True, memory_open := True, socket_open := True\<rparr>"

lemma start_cedar:
  "start \<lparr>cs_socket_error = None, cs_bind_error = None, cs_adapter = True, cs_memory_opened = True, cs_ve_ops = True,
     cs_decoder = True, cs_result = \<lambda>_. 0\<rparr> width height fps new_cedar = (True, cedar_started)"
  by (simp add: start_def init_socket_def init_decoder_def cedar_started_def new_cedar_def Let_def)

lemma waiting_started: "waiting cedar_started"
  by (rule waiting_empty) (simp_all add: cedar_started_def new_cedar_def)

definition quiet_cedar :: cedar_env where
  "quiet_cedar = \<lparr>ce_request = \<lambda>_. Some (1000, 1000), ce_submit_fails = \<lambda>_. False, ce_decode = \<lambda>_. No_bitstream,
     ce_pictures = \<lambda>_. [], ce_picture = \<lambda>_. \<lparr>p_fd = 5, p_width = 64, p_height = 48, p_line_stride = 64,
     p_format = Pixel_nv21\<rparr>, ce_after = 0\<rparr>"

text \<open>
  A parameter set and a slice that is not IDR, first of all; and a slice after a lost packet in the middle of a
  stream that was decoded: it is not submitted, and an IDR picture is awaited.
\<close>

theorem cedar_waits_for_idr_witness:
  "waiting (snd (for_all (handle_rtp_packet quiet_cedar)
      [build_rtp True 5 3000 7 [0x67, 1], build_rtp True 6 6000 7 [0x41, 0x80]] cedar_started)) \<and>
   waiting (snd (for_all (handle_rtp_packet quiet_cedar)
      [build_rtp True 9 9000 7 [0x41, 0x80]]
      (cedar_started\<lparr>require_idr := False, have_sequence := True, expected_sequence := 8\<rparr>)))"
proof (intro conjI)
  have "list_all no_idr [build_rtp True 5 3000 7 [0x67, 1], build_rtp True 6 6000 7 [0x41, 0x80]]"
    by (simp add: no_idr_def parse_build_rtp no_idr_payload_def h264_nal_type_def)
  from cedar_waits_for_idr[OF this disjI1[OF start_cedar], of quiet_cedar]
  show "waiting (snd (for_all (handle_rtp_packet quiet_cedar)
      [build_rtp True 5 3000 7 [0x67, 1], build_rtp True 6 6000 7 [0x41, 0x80]] cedar_started))" by blast
  have "list_all no_idr [build_rtp True 9 9000 7 [0x41, 0x80]]"
    by (simp add: no_idr_def parse_build_rtp no_idr_payload_def h264_nal_type_def)
  moreover have "shows_loss (build_rtp True 9 9000 7 [0x41, 0x80])
      (cedar_started\<lparr>require_idr := False, have_sequence := True, expected_sequence := 8\<rparr>)"
    by (simp add: shows_loss_def parse_build_rtp cedar_started_def new_cedar_def)
  ultimately show "waiting (snd (for_all (handle_rtp_packet quiet_cedar) [build_rtp True 9 9000 7 [0x41, 0x80]]
      (cedar_started\<lparr>require_idr := False, have_sequence := True, expected_sequence := 8\<rparr>)))"
    using cedar_waits_for_idr by blast
qed

end
