(* ===== verification/Cedar_Pictures.thy ===== *)
theory Cedar_Pictures
  imports Cedar_Streams
begin

text \<open>
  Pictures of the Cedar decoder: how the units of an IDR picture make one access unit, what dropping
  a picture does to the sequence check, and what becomes of the decoded pictures (an interpretation
  of \<open>frame_ledger\<close>).
\<close>

section \<open>An IDR picture\<close>

text \<open>The decoder has read packets up to \<open>s\<close>, and of the picture at time \<open>t\<close> the units \<open>us\<close>.\<close>

definition collecting :: "u16 \<Rightarrow> u32 \<Rightarrow> bytes list \<Rightarrow> bool \<Rightarrow> cedar \<Rightarrow> bool" where
  "collecting s t us v d \<longleftrightarrow> \<not> dropping_timestamp d \<and> (have_sequence d \<longrightarrow> expected_sequence d = s)
     \<and> (have_timestamp d \<and> us \<noteq> [] \<longrightarrow> current_timestamp d = t) \<and> \<not> fu_started d
     \<and> access_unit d = unit_of us \<and> access_unit_has_vcl d = v"




lemma unit_of_eq_Nil [simp]: "unit_of us = [] \<longleftrightarrow> us = []"
  by (simp add: unit_of_def aud_def)

lemma unit_fields [simp]:
  "submitted (append_nal x d) = submitted d" "submitted (cache_parameter_set x d) = submitted d"
  "stream_requests (append_nal x d) = stream_requests d" "stream_requests (cache_parameter_set x d) = stream_requests d"
  "fu_started (append_nal x d) = fu_started d" "fu_started (cache_parameter_set x d) = fu_started d"
  "sps (append_nal x d) = sps d" "pps (append_nal x d) = pps d"
  "access_unit (append_nal x d) = append_aud_if_needed (access_unit d) @ start_code @ x"
  "access_unit (cache_parameter_set x d) = access_unit d"
  "access_unit_has_vcl (append_nal x d) = access_unit_has_vcl d"
  "access_unit_has_vcl (cache_parameter_set x d) = access_unit_has_vcl d"
  "require_idr (append_nal x d) = require_idr d" "require_idr (cache_parameter_set x d) = require_idr d"
  "dropping_timestamp (append_nal x d) = dropping_timestamp d"
  "dropping_timestamp (cache_parameter_set x d) = dropping_timestamp d"
  "expected_sequence (append_nal x d) = expected_sequence d"
  "expected_sequence (cache_parameter_set x d) = expected_sequence d"
  "have_sequence (append_nal x d) = have_sequence d" "have_sequence (cache_parameter_set x d) = have_sequence d"
  "have_timestamp (append_nal x d) = have_timestamp d" "have_timestamp (cache_parameter_set x d) = have_timestamp d"
  "current_timestamp (append_nal x d) = current_timestamp d"
  "current_timestamp (cache_parameter_set x d) = current_timestamp d"
  by (simp_all add: append_nal_def cache_parameter_set_def)

lemma start_code_nonempty [simp]: "start_code \<noteq> []"
  by (simp add: start_code_def)

text \<open>A packet in its place: the one expected next, of the picture that is being read.\<close>

definition in_place :: "u16 \<Rightarrow> u32 \<Rightarrow> cedar \<Rightarrow> bool" where
  "in_place s t d \<longleftrightarrow> \<not> dropping_timestamp d \<and> (have_sequence d \<longrightarrow> expected_sequence d = s)
     \<and> (have_timestamp d \<and> access_unit d \<noteq> [] \<longrightarrow> current_timestamp d = t)"

definition seen :: "u16 \<Rightarrow> u32 \<Rightarrow> cedar \<Rightarrow> cedar" where
  "seen s t d = d\<lparr>packets := packets d + 1, dropping_timestamp := False, expected_sequence := s + 1,
                 have_sequence := True, current_timestamp := t, have_timestamp := True\<rparr>"

lemma read_packet:
  assumes "in_place s t d" "p \<noteq> []"
  shows "handle_rtp_packet env (build_rtp m s t ssrc p) d =
     (let (go_on, d3) = append_units_of env p t (seen s t d)
      in if go_on \<and> m \<and> access_unit d3 \<noteq> [] \<and> \<not> fu_started d3 then submit_access_unit env d3 else (True, d3))"
proof -
  have "supervise s t (d\<lparr>packets := packets d + 1\<rparr>) = (True, d\<lparr>packets := packets d + 1, dropping_timestamp := False,
      expected_sequence := s + 1, have_sequence := True\<rparr>)"
    using assms(1) by (cases d) (auto simp: supervise_def in_place_def sequence_delta_def Let_def)
  then show ?thesis
    using assms
    by (auto simp: handle_rtp_packet_def parse_build_rtp append_h264_payload_def next_picture_def in_place_def seen_def Let_def)
qed

lemma collecting_in_place: "collecting s t us v d \<Longrightarrow> in_place s t d"
  by (auto simp: collecting_def in_place_def)

lemma read_in_order:
  assumes "collecting s t us v d" "nal \<noteq> []" "1 \<le> h264_nal_type nal" "h264_nal_type nal \<le> 23"
  shows "handle_rtp_packet env (build_rtp m s t ssrc nal) d =
     (let (go_on, d3) = append_single nal t (seen s t d)
      in if go_on \<and> m \<and> access_unit d3 \<noteq> [] \<and> \<not> fu_started d3 then submit_access_unit env d3 else (True, d3))"
  using read_packet[OF collecting_in_place[OF assms(1)] assms(2)] assms(3,4) by (simp add: append_units_of_def)

lemma seen_fields [simp]:
  "submitted (seen s t d) = submitted d" "stream_requests (seen s t d) = stream_requests d" "fu_started (seen s t d) = fu_started d"
  "sps (seen s t d) = sps d" "pps (seen s t d) = pps d" "access_unit (seen s t d) = access_unit d"
  "access_unit_has_vcl (seen s t d) = access_unit_has_vcl d" "require_idr (seen s t d) = require_idr d"
  "\<not> dropping_timestamp (seen s t d)" "expected_sequence (seen s t d) = s + 1" "have_sequence (seen s t d)"
  "have_timestamp (seen s t d)" "current_timestamp (seen s t d) = t" "rtp_sequence_gaps (seen s t d) = rtp_sequence_gaps d"
  "fu_timestamp (seen s t d) = fu_timestamp d"
  by (simp_all add: seen_def)



lemma and_then_for_all_Nil [simp]: "and_then r (for_all f []) = r"
proof (cases r)
  case (Pair ok d)
  then show ?thesis by (cases ok) simp_all
qed


text \<open>A unit, other than a slice, in a packet of its own.\<close>

definition other_unit :: "bytes \<Rightarrow> bool" where
  "other_unit nal \<longleftrightarrow> nal \<noteq> [] \<and> 6 \<le> h264_nal_type nal \<and> h264_nal_type nal \<le> 23"




















section \<open>Dropped pictures\<close>

definition plain_slice :: "bytes \<Rightarrow> bool" where
  "plain_slice nal \<longleftrightarrow> nal \<noteq> [] \<and> 1 \<le> h264_nal_type nal \<and> h264_nal_type nal \<le> 4"

text \<open>The decoder drops the rest of the picture at time \<open>t\<close> and expects packet \<open>s\<close>.\<close>

definition dropping_at :: "u32 \<Rightarrow> u16 \<Rightarrow> u64 \<Rightarrow> cedar \<Rightarrow> bool" where
  "dropping_at t s gaps d \<longleftrightarrow> dropping_timestamp d \<and> drop_timestamp d = t \<and> have_sequence d \<and> expected_sequence d = s
     \<and> rtp_sequence_gaps d = gaps"

lemma slice_dropped:
  assumes "collecting s t [] False d" "require_idr d" "plain_slice n"
  shows "\<exists>d'. handle_rtp_packet env (build_rtp m s t ssrc n) d = (True, d')
    \<and> dropping_at t (s + 1) (rtp_sequence_gaps d) d'"
  using assms read_in_order[OF assms(1), of n env m ssrc]
  by (simp add: plain_slice_def append_single_def admit_def nal_is_vcl_def cache_parameter_set_def drop_picture_def
      reset_access_unit_def dropping_at_def Let_def)

lemma rest_ignored:
  assumes "dropping_at t s0 g d" "list_all plain_slice ns"
  shows "\<exists>d'. for_all (handle_rtp_packet env) (slice_packets s t ssrc ns) d = (True, d') \<and> dropping_at t s0 g d'"
  using assms
proof (induction ns arbitrary: s d)
  case (Cons n ns)
  let ?d = "d\<lparr>packets := packets d + 1\<rparr>"
  have h: "handle_rtp_packet env (build_rtp (ns = []) s t ssrc n) d = (True, ?d)"
    using Cons.prems by (simp add: handle_rtp_packet_def parse_build_rtp plain_slice_def append_h264_payload_def
        supervise_def dropping_at_def)
  have "dropping_at t s0 g ?d" using Cons.prems(1) by (simp add: dropping_at_def)
  from Cons.IH[OF this] Cons.prems(2) h show ?case by simp
qed simp

lemma gap_counted:
  assumes "dropping_at t s g d" "t' \<noteq> t" "0 < sequence_delta s' s" "n \<noteq> []" "1 \<le> h264_nal_type n" "h264_nal_type n \<le> 23"
  shows "rtp_sequence_gaps (snd (handle_rtp_packet env (build_rtp False s' t' ssrc n) d)) = g + 1"
  using assms
  by (auto simp: handle_rtp_packet_def parse_build_rtp append_h264_payload_def supervise_def dropping_at_def
      next_picture_def append_units_of_def append_single_def admit_def drop_picture_def cache_parameter_set_def
      reset_access_unit_def append_nal_def append_cached_parameter_sets_def append_if_any_def and_then_def Let_def
      split: drop_reason.splits)

text \<open>
  What a dropped picture costs: while an IDR picture is awaited, a picture of several slices is
  dropped without counting its packets as seen, so the packet after it counts a sequence gap although
  none is missing.
\<close>

theorem dropped_picture_counts_gap:
  assumes "collecting s t [] False d" "require_idr d" "list_all plain_slice ns" "2 \<le> length ns" "length ns \<le> 32767"
    "t' \<noteq> t" "other_unit n"
  shows "rtp_sequence_gaps (snd (for_all (handle_rtp_packet env)
      (slice_packets s t ssrc ns @ [build_rtp False (s + of_nat (length ns)) t' ssrc n]) d)) = rtp_sequence_gaps d + 1"
proof -
  obtain x xs where ns: "ns = x # xs" "xs \<noteq> []" using assms(4) by (cases ns; cases "tl ns") auto
  obtain d1 where d1: "handle_rtp_packet env (build_rtp False s t ssrc x) d = (True, d1)"
    "dropping_at t (s + 1) (rtp_sequence_gaps d) d1"
    using slice_dropped[OF assms(1,2), of x env False ssrc] assms(3) ns by auto
  obtain d2 where d2: "for_all (handle_rtp_packet env) (slice_packets (s + 1) t ssrc xs) d1 = (True, d2)"
    "dropping_at t (s + 1) (rtp_sequence_gaps d) d2"
    using rest_ignored[OF d1(2), of xs env "s + 1" ssrc] assms(3) ns by auto
  have split: "for_all f (ps @ [p]) e = and_then (for_all f ps e) (\<lambda>e. f p e)" for f p e and ps :: "bytes list"
    by (induction ps arbitrary: e) (auto simp: and_then_def split: prod.splits)
  have "sequence_delta (s + of_nat (length ns)) (s + 1) = int (length xs)"
  proof -
    have "s + of_nat (length ns) - (s + 1) = (of_nat (length xs) :: u16)" using ns by simp
    moreover have "sint (of_nat (length xs) :: u16) = int (length xs)"
      using assms(5) ns by (simp add: signed_of_nat signed_take_bit_int_eq_self)
    ultimately show ?thesis by (simp add: sequence_delta_def)
  qed
  then have "0 < sequence_delta (s + of_nat (length ns)) (s + 1)" using ns(2) by simp
  from gap_counted[OF d2(2) assms(6) this, of n env ssrc] assms(7) d1(1) d2(1) ns show ?thesis
    by (simp add: split other_unit_def)
qed

theorem dropped_picture_counts_gap_witness:
  "rtp_sequence_gaps (snd (for_all (handle_rtp_packet quiet_cedar)
      (slice_packets 5 3000 7 [[0x41, 0x80], [0x41, 1]] @ [build_rtp False (5 + of_nat 2) 6000 7 [0x67, 1]]) cedar_started)) = 1"
proof -
  have "collecting 5 3000 [] False cedar_started" "require_idr cedar_started"
    "list_all plain_slice [[0x41, 0x80], [0x41, 1]]" "other_unit [0x67, 1]" "rtp_sequence_gaps cedar_started = 0"
    by (simp_all add: collecting_def cedar_started_def new_cedar_def unit_of_def plain_slice_def other_unit_def
        h264_nal_type_def)
  from dropped_picture_counts_gap[OF this(1,2,3) _ _ _ this(4), of 6000 quiet_cedar 7] this(5) show ?thesis
    by (simp del: slice_packets.simps for_all.simps)
qed

section \<open>Decoded pictures\<close>

definition owned :: "cedar \<Rightarrow> nat list" where
  "owned d = held (pending_picture d) @ held (current_picture d) @ ready_pictures d"

definition open_six :: "cedar \<Rightarrow> bool" where
  "open_six d \<longleftrightarrow> decoder_open d \<and> length (ready_pictures d) \<le> 6"

abbreviation grow :: "cedar \<Rightarrow> cedar \<Rightarrow> bool" where
  "grow \<equiv> grows got_pictures owned returned_pictures open_six"

text \<open>Reading packets leaves the pictures alone.\<close>

definition pictures_of :: "cedar \<Rightarrow> bool \<times> nat option \<times> nat option \<times> nat list \<times> nat list \<times> nat list" where
  "pictures_of d = (decoder_open d, pending_picture d, current_picture d, ready_pictures d, got_pictures d, returned_pictures d)"

lemma pictures_same: "pictures_of d' = pictures_of d \<Longrightarrow> grow d d'"
  by (rule grows_same) (simp_all add: pictures_of_def owned_def open_six_def)

lemma pictures_simple [simp]:
  "pictures_of (reset_access_unit d) = pictures_of d" "pictures_of (append_nal x d) = pictures_of d"
  "pictures_of (append_cached_parameter_sets d) = pictures_of d" "pictures_of (cache_parameter_set x d) = pictures_of d"
  "pictures_of (drop_picture why t d) = pictures_of d"
  "pictures_of (drain_decoder k env d) = pictures_of d" "pictures_of (snd (decode_loop k env d)) = pictures_of d"
  by (simp_all add: pictures_of_def reset_access_unit_def append_nal_def append_cached_parameter_sets_def
      append_if_any_def cache_parameter_set_def drop_picture_def Let_def split: drop_reason.splits)

lemma pictures_updates [simp]:
  "pictures_of (d\<lparr>stream_requests := a\<rparr>) = pictures_of d" "pictures_of (d\<lparr>last_error := e\<rparr>) = pictures_of d"
  "pictures_of (d\<lparr>submitted := b, access_units := c, access_unit_submitted_this_poll := f, access_unit := au,
     have_timestamp := g, access_unit_has_vcl := h\<rparr>) = pictures_of d"
  "pictures_of (d\<lparr>stream_requests := a, last_error := e\<rparr>) = pictures_of d"
  "pictures_of (d\<lparr>current_timestamp := t, have_timestamp := g\<rparr>) = pictures_of d"
  "pictures_of (d\<lparr>packets := p\<rparr>) = pictures_of d"
  by (simp_all add: pictures_of_def)

lemma pictures_submit [simp]: "pictures_of (snd (submit_access_unit env d)) = pictures_of d"
  by (simp add: submit_access_unit_def Let_def del: drain_decoder.simps decode_loop.simps split: option.splits)

lemma pictures_admit [simp]: "pictures_of (snd (admit ty nal t d)) = pictures_of d"
  by (simp add: admit_def) (simp add: pictures_of_def append_cached_parameter_sets_def append_if_any_def append_nal_def)

lemma pictures_and_then:
  "pictures_of (snd r) = pictures_of d \<Longrightarrow> (\<And>e. pictures_of (snd (f e)) = pictures_of e) \<Longrightarrow>
   pictures_of (snd (and_then r f)) = pictures_of d"
  by (cases r) (simp add: and_then_def)

lemma pictures_units: "pictures_of (snd (append_units after r t d)) = pictures_of d"
proof (induction after r t d rule: append_units.induct)
  case (1 after r t d)
  show ?case
  proof (cases "\<exists>hi lo rest. r = hi # lo # rest \<and> be16 hi lo \<le> length rest")
    case True
    then obtain hi lo rest where r: "r = hi # lo # rest" "be16 hi lo \<le> length rest" by blast
    let ?u = "take (be16 hi lo) rest"
    obtain ok e where a: "admit (h264_nal_type (rest @ [after])) ?u t (cache_parameter_set ?u d) = (ok, e)" by fastforce
    have e: "pictures_of e = pictures_of d"
      using pictures_admit[of "h264_nal_type (rest @ [after])" ?u t "cache_parameter_set ?u d"] a by simp
    have "pictures_of (snd (append_units after (drop (be16 hi lo) rest) t (append_nal ?u e))) = pictures_of (append_nal ?u e)"
      using "1.IH"[OF r(1) refl, of "be16 hi lo"] r(2) by simp
    then show ?thesis
      using r(2) e unfolding r(1) by (subst append_units.simps) (simp add: Let_def a and_then_def)
  qed (auto simp: append_units.simps[of after r] split: list.splits)
qed

lemma pictures_payload: "pictures_of (snd (append_units_of env p t d)) = pictures_of d"
  by (simp add: append_units_of_def append_single_def append_fragment_def pictures_units Let_def)
     (auto intro!: pictures_and_then simp: pictures_of_def[of "_\<lparr>fu_started := _\<rparr>"] pictures_units,
      auto simp: pictures_of_def)

lemma pictures_supervise: "pictures_of (snd (supervise sq t d)) = pictures_of d"
  by (simp add: supervise_def Let_def) (simp add: pictures_of_def reset_access_unit_def)

lemma pictures_next: "pictures_of (snd (next_picture env t d)) = pictures_of d"
  by (auto simp: next_picture_def intro!: pictures_and_then)

lemma pictures_packet: "pictures_of (snd (handle_rtp_packet env p d)) = pictures_of d"
proof (cases "parse_rtp p")
  case (Some r)
  let ?d = "d\<lparr>packets := packets d + 1\<rparr>"
  obtain used d1 where s: "supervise (seqno r) (timestamp r) ?d = (used, d1)" by fastforce
  have 1: "pictures_of d1 = pictures_of d"
    using pictures_supervise[of "seqno r" "timestamp r" ?d] s by simp
  have "pictures_of (snd (and_then (next_picture env (timestamp r) d1)
      (\<lambda>d. let (go_on, d2) = append_units_of env (body r) (timestamp r) d in
           if go_on \<and> marker r \<and> access_unit d2 \<noteq> [] \<and> \<not> fu_started d2 then submit_access_unit env d2
           else (True, d2)))) = pictures_of d1"
    by (rule pictures_and_then) (simp_all add: pictures_next pictures_payload split_def Let_def)
  then show ?thesis
    using 1 s by (simp add: handle_rtp_packet_def Some append_h264_payload_def)
qed (simp add: handle_rtp_packet_def)

lemma grow_drain: "grow d (snd (drain_picture env d))"
proof -
  obtain gone q where q: "drop_to 6 (ready_pictures d @ ce_pictures env (drains d)) = (gone, q)" by fastforce
  note q' = drop_to_laws[OF q]
  have m: "mset gone + mset q = mset (ready_pictures d) + mset (ce_pictures env (drains d))"
    using arg_cong[OF q'(1), of mset] by simp
  have l: "length q \<le> 6" using q'(2) by simp
  show ?thesis
    using m l
    by (cases q; cases "current_picture d")
       (auto simp: drain_picture_def q return_pictures_def grows_def owned_def held_def open_six_def Let_def ac_simps
         split: sum.splits)
qed

lemma grow_present: "grow d (mark_presented d)"
  by (simp add: grows_def mark_presented_def return_pictures_def owned_def held_def open_six_def ac_simps)

lemma grow_drain_if: "grow d (snd (drain_if_submitted env got d))"
proof -
  have "grow (snd (drain_picture env d)) ((snd (drain_picture env d))\<lparr>access_unit_submitted_this_poll := False\<rparr>)"
    by (rule pictures_same) (simp add: pictures_of_def)
  with grow_drain[of d env] show ?thesis
    by (auto simp: drain_if_submitted_def split_def Let_def intro: grows_trans)
qed

lemma grow_last: "grow d (snd (last_drain env got d))"
  by (simp add: last_drain_def grow_drain split: option.splits)

lemma grow_loop: "grow d (snd (poll_loop env as got d))"
proof (induction "as" arbitrary: got d)
  case (Cons a "as")
  show ?case
  proof (cases a)
    case (Received p)
    obtain ok d1 where h: "handle_rtp_packet env p d = (ok, d1)" by fastforce
    have 1: "grow d d1" using pictures_same[OF pictures_packet[of env p d]] h by simp
    obtain f d2 where t: "drain_if_submitted env got d1 = (f, d2)" by fastforce
    have "grow d d2" using grows_trans[OF 1 grow_drain_if[of d1 env got]] t by simp
    with 1 h t Cons.IH[of d2 f] show ?thesis
      by (auto simp: Received grow_last intro: grows_trans)
  qed (simp add: pictures_same pictures_of_def)
qed (simp add: grow_last)

lemma grow_poll: "grow d (snd (poll env as d))"
  unfolding poll_def
  by (rule grows_trans[OF _ grow_loop], rule pictures_same) (simp add: pictures_of_def)

text \<open>What the owner of an open decoder does.\<close>

datatype cedar_event = Cedar_poll cedar_env "recv_answer list" | Cedar_present

fun cedar_step :: "cedar_event \<Rightarrow> cedar \<Rightarrow> cedar" where
  "cedar_step (Cedar_poll env answers) d = snd (poll env answers d)"
| "cedar_step Cedar_present d = mark_presented d"

interpretation cedar_pictures: frame_ledger cedar_step got_pictures owned returned_pictures open_six
proof unfold_locales
  fix e d
  show "grow d (cedar_step e d)" by (cases e) (simp_all add: grow_poll grow_present)
qed

definition cedar_after :: "cedar_event list \<Rightarrow> cedar" where
  "cedar_after events = fold cedar_step events cedar_started"

text \<open>
  The pictures of Cedar are neither leaked nor given back twice: after any calls of \<open>poll\<close> and
  \<open>mark_presented\<close> a picture taken is presented, waits in the queue of at most six, or has been
  given back, and \<open>cleanup\<close> gives back the rest before it closes the decoder.
\<close>

theorem cedar_pictures_accounted:
  assumes "distinct (got_pictures (cedar_after events))"
  shows "let d = cedar_after events in
    distinct (returned_pictures d)
    \<and> set (held (current_picture d) @ held (pending_picture d) @ ready_pictures d) \<inter> set (returned_pictures d) = {}
    \<and> set (held (current_picture d) @ held (pending_picture d) @ ready_pictures d) \<union> set (returned_pictures d)
      = set (got_pictures d)
    \<and> length (ready_pictures d) \<le> 6
    \<and> mset (returned_pictures (cleanup d)) = mset (got_pictures d)"
proof -
  let ?d = "cedar_after events"
  have s: "owned cedar_started = []" "returned_pictures cedar_started = []" "got_pictures cedar_started = []"
    "open_six cedar_started"
    by (simp_all add: owned_def held_def cedar_started_def new_cedar_def open_six_def)
  have o: "set (owned ?d) = set (held (current_picture ?d)) \<union> (set (held (pending_picture ?d)) \<union> set (ready_pictures ?d))"
    by (auto simp: owned_def)
  have "mset (returned_pictures (cleanup ?d)) = mset (owned ?d) + mset (returned_pictures ?d)" if "decoder_open ?d"
    using that by (simp add: cleanup_def return_pictures_def owned_def Let_def)
  moreover have "let d = ?d in
      distinct (returned_pictures d) \<and> set (owned d) \<inter> set (returned_pictures d) = {}
      \<and> set (owned d) \<union> set (returned_pictures d) = set (got_pictures d)
      \<and> mset (owned d) + mset (returned_pictures d) = mset (got_pictures d) \<and> open_six d"
    using cedar_pictures.accounted[of cedar_started events] assms s unfolding cedar_after_def by blast
  ultimately show ?thesis
    by (simp add: Let_def open_six_def o)
qed

definition three_pictures :: cedar_env where
  "three_pictures = quiet_cedar\<lparr>ce_pictures := (\<lambda>n. if n = 0 then [1, 2, 3] else [])\<rparr>"

theorem cedar_pictures_accounted_witness:
  "mset (returned_pictures (cleanup (cedar_after [Cedar_poll three_pictures [], Cedar_present]))) = {#1, 2, 3#}"
proof -
  have "got_pictures (cedar_after [Cedar_poll three_pictures [], Cedar_present]) = [1, 2, 3]" by code_simp
  then show ?thesis
    using cedar_pictures_accounted[of "[Cedar_poll three_pictures [], Cedar_present]"] by (simp add: Let_def)
qed

end
