(* ===== verification/Cpp_Numbers.thy ===== *)
theory Cpp_Numbers
  imports Cpp_Float
begin

text \<open>
  The number parsers of the C++ library that the option parsers use: \<open>std::stoul\<close> with its bases,
  \<open>std::stof\<close> and \<open>std::stod\<close>, and the comparison of floating point numbers with \<open>std::clamp\<close>.
  \<open>None\<close> is an exception (\<open>invalid_argument\<close> without a number, \<open>out_of_range\<close> when the value does not fit).
  Characters after the number are ignored.
\<close>

section \<open>Integers\<close>

definition is_odigit :: "char \<Rightarrow> bool" where
  "is_odigit c \<longleftrightarrow> is_digit c \<and> digit_val c < 8"

definition digits_base :: "nat \<Rightarrow> string \<Rightarrow> nat" where
  "digits_base b ds = foldl (\<lambda>v c. b * v + xdigit_val c) 0 ds"

text \<open>The base that base 0 stands for, and the text after a \<open>0x\<close> that a digit follows.\<close>

definition number_base :: "nat \<Rightarrow> string \<Rightarrow> nat \<times> string" where
  "number_base b r =
     (let hex = (3 \<le> length r \<and> r ! 0 = CHR ''0'' \<and> to_lower (r ! 1) = CHR ''x'' \<and> is_xdigit (r ! 2)) in
      if (b = 0 \<or> b = 16) \<and> hex then (16, drop 2 r)
      else if b = 0 then (if r \<noteq> [] \<and> hd r = CHR ''0'' then 8 else 10, r)
      else (b, r))"

definition base_digit :: "nat \<Rightarrow> char \<Rightarrow> bool" where
  "base_digit b = (if b = 16 then is_xdigit else if b = 8 then is_odigit else is_digit)"

definition stoul :: "nat \<Rightarrow> string \<Rightarrow> u64 option" where
  "stoul base s =
     (let r = dropWhile is_space (c_str s);
          neg = (r \<noteq> [] \<and> hd r = CHR ''-'');
          r0 = (if r \<noteq> [] \<and> (hd r = CHR ''-'' \<or> hd r = CHR ''+'') then tl r else r);
          (b, r1) = number_base base r0;
          ds = takeWhile (base_digit b) r1; v = digits_base b ds
      in if ds = [] \<or> 2 ^ 64 \<le> v then None else Some (if neg then - of_nat v else of_nat v))"

section \<open>Floating point\<close>

text \<open>
  A mantissa in base \<open>b\<close> with digits \<open>is_d\<close> and an exponent mark; the exponent counts only when a digit
  follows it. \<open>None\<close> without a digit.
\<close>

definition scan_mantissa :: "(char \<Rightarrow> bool) \<Rightarrow> char \<Rightarrow> string \<Rightarrow> (string \<times> string \<times> int) option" where
  "scan_mantissa is_d mark r =
     (let ds = takeWhile is_d r; r1 = dropWhile is_d r;
          point = (r1 \<noteq> [] \<and> hd r1 = CHR ''.'');
          fs = (if point then takeWhile is_d (tl r1) else []);
          r2 = (if point then dropWhile is_d (tl r1) else r1);
          x = (if r2 \<noteq> [] \<and> to_lower (hd r2) = mark
               then (case scan_int (tl r2) of (eneg, es, _) \<Rightarrow>
                 if es = [] then 0 else if eneg then - int (digits_val es) else int (digits_val es))
               else 0)
      in if ds @ fs = [] then None else Some (ds, fs, x))"

text \<open>A finite quotient as \<open>strtof\<close> and \<open>strtod\<close> return it: an overflow and an inexact subnormal set \<open>ERANGE\<close>.\<close>

definition in_range :: "fmt \<Rightarrow> bool \<Rightarrow> nat \<Rightarrow> nat \<Rightarrow> fp option" where
  "in_range f neg a b =
     (case fp_round f neg a b of
        FFin n m e \<Rightarrow>
          if a \<noteq> 0 \<and> m < 2 ^ (prec f - 1) \<and> m * 2 ^ nat e * b \<noteq> a * 2 ^ nat (- e) then None else Some (FFin n m e)
      | _ \<Rightarrow> None)"

definition stod :: "fmt \<Rightarrow> string \<Rightarrow> fp option" where
  "stod f s =
     (let r = dropWhile is_space (c_str s);
          neg = (r \<noteq> [] \<and> hd r = CHR ''-'');
          r0 = (if r \<noteq> [] \<and> (hd r = CHR ''-'' \<or> hd r = CHR ''+'') then tl r else r);
          low = map to_lower (take 3 r0)
      in if low = ''inf'' then Some (FInf neg)
         else if low = ''nan'' then Some (FNan neg)
         else case (if take 2 low = ''0x'' then scan_mantissa is_xdigit (CHR ''p'') (drop 2 r0) else None) of
           Some (ds, fs, x) \<Rightarrow>
             (let y = x - 4 * int (length fs)
              in in_range f neg (xdigits_val (ds @ fs) * 2 ^ nat y) (2 ^ nat (- y)))
         | None \<Rightarrow> (case scan_mantissa is_digit (CHR ''e'') r0 of
             None \<Rightarrow> None
           | Some (ds, fs, x) \<Rightarrow>
               (let y = x - int (length fs)
                in in_range f neg (digits_val (ds @ fs) * 10 ^ nat y) (10 ^ nat (- y)))))"

text \<open>\<open>x < y\<close>: false when one is a NaN.\<close>

fun fp_less :: "fp \<Rightarrow> fp \<Rightarrow> bool" where
  "fp_less (FFin n1 m1 e1) (FFin n2 m2 e2) =
     (let k = min e1 e2; v1 = int (m1 * 2 ^ nat (e1 - k)); v2 = int (m2 * 2 ^ nat (e2 - k))
      in (if n1 then - v1 else v1) < (if n2 then - v2 else v2))"
| "fp_less (FInf n1) (FFin n2 m2 e2) = n1"
| "fp_less (FFin n1 m1 e1) (FInf n2) = (\<not> n2)"
| "fp_less (FInf n1) (FInf n2) = (n1 \<and> \<not> n2)"
| "fp_less (FNan n1) y = False"
| "fp_less x (FNan n2) = False"

definition fp_clamp :: "fp \<Rightarrow> fp \<Rightarrow> fp \<Rightarrow> fp" where
  "fp_clamp lo hi x = (if fp_less x lo then lo else if fp_less hi x then hi else x)"

section \<open>Sums, remainders and integers\<close>

definition fp_add :: "fmt \<Rightarrow> fp \<Rightarrow> fp \<Rightarrow> fp" where
  "fp_add f x y =
     (case (x, y) of
        (FNan s, _) \<Rightarrow> FNan s
      | (_, FNan s) \<Rightarrow> FNan s
      | (FInf s, FInf t) \<Rightarrow> if s = t then FInf s else FNan True
      | (FInf s, FFin _ _ _) \<Rightarrow> FInf s
      | (FFin _ _ _, FInf t) \<Rightarrow> FInf t
      | (FFin s m e, FFin t n d) \<Rightarrow>
          (let k = min e d;
               v = (if s then -1 else 1) * int (m * 2 ^ nat (e - k)) + (if t then -1 else 1) * int (n * 2 ^ nat (d - k))
           in if v = 0 then FFin (s \<and> t) 0 (emin f)
              else fp_round f (v < 0) (nat \<bar>v\<bar> * 2 ^ nat k) (2 ^ nat (- k))))"

definition fp_neg :: "fp \<Rightarrow> fp" where
  "fp_neg x = (case x of FNan s \<Rightarrow> FNan (\<not> s) | FInf s \<Rightarrow> FInf (\<not> s) | FFin s m e \<Rightarrow> FFin (\<not> s) m e)"

text \<open>\<open>std::fmod\<close> is exact: the remainder has the sign of the first argument.\<close>

definition fp_fmod :: "fmt \<Rightarrow> fp \<Rightarrow> fp \<Rightarrow> fp" where
  "fp_fmod f x y =
     (case (x, y) of
        (FNan s, _) \<Rightarrow> FNan s
      | (_, FNan s) \<Rightarrow> FNan s
      | (FInf s, _) \<Rightarrow> FNan True
      | (FFin s m e, FInf t) \<Rightarrow> x
      | (FFin s m e, FFin t n d) \<Rightarrow>
          if n = 0 then FNan True
          else (let k = min e d; r = (m * 2 ^ nat (e - k)) mod (n * 2 ^ nat (d - k))
                in fp_round f s (r * 2 ^ nat k) (2 ^ nat (- k))))"

text \<open>
  \<open>std::lround\<close>, halves away from zero; \<open>bad\<close> is what it returns for a NaN and an infinity, which the
  standard leaves open.
\<close>

definition fp_lround :: "int \<Rightarrow> fp \<Rightarrow> int" where
  "fp_lround bad x =
     (case x of
        FFin neg m e \<Rightarrow>
          (let a = m * 2 ^ nat e; b = 2 ^ nat (- e); v = int ((2 * a + b) div (2 * b)) in if neg then - v else v)
      | _ \<Rightarrow> bad)"

definition fp_floor :: "int \<Rightarrow> fp \<Rightarrow> int" where
  "fp_floor bad x =
     (case x of
        FFin neg m e \<Rightarrow> (let a = int (m * 2 ^ nat e); b = 2 ^ nat (- e) in (if neg then - a else a) div b)
      | _ \<Rightarrow> bad)"

section \<open>General notation\<close>

text \<open>
  \<open>stream << x\<close> without \<open>std::fixed\<close>, with a precision of \<open>p\<close> digits: the exact value rounded to \<open>p\<close>
  significant digits, ties to even, zeros at the end left out, and an exponent when it is below -4 or
  not below \<open>p\<close>.
\<close>

function tenths :: "nat \<Rightarrow> nat \<Rightarrow> nat" where
  "tenths a b = (if a = 0 \<or> b \<le> a then 0 else Suc (tenths (10 * a) b))"
  by pat_completeness auto
termination by (relation "measure (\<lambda>(a, b). b - a)") auto

declare tenths.simps [simp del]

definition dec_exp :: "nat \<Rightarrow> nat \<Rightarrow> int" where
  "dec_exp a b = (if b \<le> a then int (length (nat_str (a div b))) - 1 else - int (tenths a b))"

definition sig_digits :: "nat \<Rightarrow> nat \<Rightarrow> nat \<Rightarrow> nat \<times> int" where
  "sig_digits p a b =
     (let x = dec_exp a b; k = int p - 1 - x; d = rne (a * 10 ^ nat k) (b * 10 ^ nat (- k))
      in if d = 10 ^ p then (10 ^ (p - 1), x + 1) else (d, x))"

definition strip_zeros :: "string \<Rightarrow> string" where
  "strip_zeros ds = rev (dropWhile (\<lambda>c. c = CHR ''0'') (rev ds))"

definition with_point :: "string \<Rightarrow> string \<Rightarrow> string" where
  "with_point i fr = (let r = strip_zeros fr in if r = [] then i else i @ CHR ''.'' # r)"

definition fp_general :: "nat \<Rightarrow> fp \<Rightarrow> string" where
  "fp_general p x =
     (case x of
        FNan neg \<Rightarrow> (if neg then ''-nan'' else ''nan'')
      | FInf neg \<Rightarrow> (if neg then ''-inf'' else ''inf'')
      | FFin neg m e \<Rightarrow>
          (if neg then ''-'' else []) @
          (if m = 0 then ''0''
           else let (d, x) = sig_digits p (m * 2 ^ nat e) (2 ^ nat (- e)); ds = nat_str d in
             if x < -4 \<or> int p \<le> x
             then with_point (take 1 ds) (drop 1 ds) @ ''e'' @ (if x < 0 then ''-'' else ''+'')
                  @ (let es = nat_str (nat \<bar>x\<bar>) in replicate (2 - length es) (CHR ''0'') @ es)
             else if x < 0 then with_point ''0'' (replicate (nat (- x - 1)) (CHR ''0'') @ ds)
             else with_point (take (nat x + 1) ds) (drop (nat x + 1) ds)))"

end
