(* ===== verification/Controller.thy ===== *)
theory Controller
  imports Telemetry_Flow Ipc Net_Discovery Preview_Control Cpp_Numbers
begin

text \<open>
  \<open>src/openhd_glide/main.cpp\<close>: what the controller process does with the lines of its workers and of
  the network. The record \<open>world\<close> holds the objects the loop works on (the IPC server, the MAVLink bridge,
  the discovery service, the control state, the telemetry snapshot and the settings files); the answers
  of the system to one round are the record \<open>round_env\<close>. \<open>None\<close> is an exception nothing catches: it ends
  the process.
\<close>

section \<open>The map overlay's state\<close>

text \<open>\<open>GpuMapState\<close> of \<open>src/glide_flow/gpu_map_renderer.hpp\<close>.\<close>

record gpu_map =
  map_visible :: bool
  map_x :: fp
  map_y :: fp
  map_width :: fp
  map_height :: fp
  map_zoom :: fp
  map_pan_x :: fp
  map_pan_y :: fp
  map_latitude :: fp
  map_longitude :: fp
  map_heading :: fp
  map_home_valid :: bool
  map_home_latitude :: fp
  map_home_longitude :: fp

definition initial_map :: gpu_map where
  "initial_map =
     (let z = fp_zero f32; d = fp_zero f64 in
      \<lparr>map_visible = False, map_x = z, map_y = z, map_width = z, map_height = z, map_zoom = fp_of_int f64 15,
       map_pan_x = d, map_pan_y = d, map_latitude = d, map_longitude = d, map_heading = z, map_home_valid = False,
       map_home_latitude = d, map_home_longitude = d\<rparr>)"

definition starts_with :: "string \<Rightarrow> string \<Rightarrow> bool" where
  "starts_with prefix line \<longleftrightarrow> take (length prefix) line = prefix"

text \<open>
  The fields are extracted into the state one after the other: those before the first that cannot be
  read keep what was read when the line is refused.
\<close>

definition apply_gpu_map_ipc_line :: "gpu_map \<Rightarrow> string \<Rightarrow> bool \<times> gpu_map" where
  "apply_gpu_map_ipc_line g line =
     (if line = ''ui map hidden'' then (True, g\<lparr>map_visible := False\<rparr>)
      else if \<not> starts_with ''ui map state '' line then (False, g)
      else let st = istringstream (drop 13 line);
               (visible, st) = read_int 0 st;
               (x, st) = read_float f32 (map_x g) st; (y, st) = read_float f32 (map_y g) st;
               (w, st) = read_float f32 (map_width g) st; (h, st) = read_float f32 (map_height g) st;
               (zoom, st) = read_float f64 (map_zoom g) st;
               (pan_x, st) = read_float f64 (map_pan_x g) st; (pan_y, st) = read_float f64 (map_pan_y g) st;
               (lat, st) = read_float f64 (map_latitude g) st; (lon, st) = read_float f64 (map_longitude g) st;
               (heading, st) = read_float f32 (map_heading g) st; (home, st) = read_int 0 st;
               (home_lat, st) = read_float f64 (map_home_latitude g) st;
               (home_lon, st) = read_float f64 (map_home_longitude g) st;
               g1 = g\<lparr>map_x := x, map_y := y, map_width := w, map_height := h, map_zoom := zoom, map_pan_x := pan_x,
                      map_pan_y := pan_y, map_latitude := lat, map_longitude := lon, map_heading := heading,
                      map_home_latitude := home_lat, map_home_longitude := home_lon\<rparr>
           in if failbit st then (False, g1)
              else (True, g1\<lparr>map_visible := (visible \<noteq> 0), map_home_valid := (home \<noteq> 0)\<rparr>))"

section \<open>State\<close>

record control_state =
  fps_on :: bool
  coordinates_on :: bool
  compact_on :: bool
  top_bar_on :: bool
  layout :: string
  telemetry_connection :: string
  gpu_map :: gpu_map

definition initial_control :: "string \<Rightarrow> files \<Rightarrow> control_state" where
  "initial_control tmp fs =
     \<lparr>fps_on = True, coordinates_on = True, compact_on = False, top_bar_on = True, layout = osd_layout tmp fs,
      telemetry_connection = ''Disconnected'', gpu_map = initial_map\<rparr>"

record world =
  ipc :: server
  link :: bridge
  discovery :: service
  control :: control_state
  telemetry :: snapshot
  store :: files

record round_env =
  re_send :: "int \<Rightarrow> string \<Rightarrow> int"
  re_accepted :: "int list"
  re_received :: "int \<Rightarrow> Ipc.recv_answer list"
  re_link :: "Mavlink_Bridge.recv_answer list"
  re_link_send :: "bytes list \<Rightarrow> bytes \<Rightarrow> int"
  re_runtime :: bool
  re_resolve :: "string \<Rightarrow> string \<Rightarrow> candidate list option"
  re_destinations :: "string list"
  re_own :: "string list"
  re_now :: nat
  re_datagrams :: "datagram list"
  re_ip :: "string list \<Rightarrow> string"
  re_tmp :: string
  re_writable :: "string \<Rightarrow> bool"

definition send_to :: "round_env \<Rightarrow> int \<Rightarrow> string \<Rightarrow> world \<Rightarrow> world" where
  "send_to env client line w = w\<lparr>ipc := snd (server_send_line (re_send env) client line (ipc w))\<rparr>"

definition to_all :: "round_env \<Rightarrow> string \<Rightarrow> world \<Rightarrow> world" where
  "to_all env line w = w\<lparr>ipc := broadcast_line (re_send env) line (ipc w)\<rparr>"

definition send_lines :: "round_env \<Rightarrow> int \<Rightarrow> string list \<Rightarrow> world \<Rightarrow> world" where
  "send_lines env client ls w = foldl (\<lambda>w l. send_to env client l w) w ls"

definition broadcast_lines :: "round_env \<Rightarrow> string list \<Rightarrow> world \<Rightarrow> world" where
  "broadcast_lines env ls w = foldl (\<lambda>w l. to_all env l w) w ls"

section \<open>State lines\<close>

definition rgb_hex :: "u32 \<Rightarrow> string" where
  "rgb_hex rgb = (let h = hex_str (unat (rgb AND 0xFFFFFF)) in replicate (6 - length h) (CHR ''0'') @ h)"

definition flag :: "bool \<Rightarrow> string" where
  "flag b = (if b then ''1'' else ''0'')"

definition theme_keys :: "string list" where
  "theme_keys = [''bar_text'', ''bar_background'', ''primary'', ''secondary'']"

definition theme_line :: "string \<Rightarrow> files \<Rightarrow> string \<Rightarrow> string" where
  "theme_line tmp fs key = ''state theme '' @ key @ '' '' @ rgb_hex (theme_color tmp key fs)"

definition send_theme_state :: "round_env \<Rightarrow> int \<Rightarrow> world \<Rightarrow> world" where
  "send_theme_state env client w = send_lines env client (map (theme_line (re_tmp env) (store w)) theme_keys) w"

definition control_lines :: "control_state \<Rightarrow> string list" where
  "control_lines c =
     [''state fps '' @ flag (fps_on c), ''state coords '' @ flag (coordinates_on c),
      ''state compact '' @ flag (compact_on c), ''state topbar '' @ flag (top_bar_on c),
      ''state osd '' @ layout c, ''state telemetry '' @ telemetry_connection c]"

definition send_initial_control_state :: "round_env \<Rightarrow> int \<Rightarrow> world \<Rightarrow> world" where
  "send_initial_control_state env client w =
     send_theme_state env client (send_lines env client (control_lines (control w)) w)"

definition send_network_state :: "round_env \<Rightarrow> int \<Rightarrow> world \<Rightarrow> world" where
  "send_network_state env client w =
     send_lines env client (''state net idle'' # map peer_line (peers (discovery w))) w"

section \<open>Lines of the workers\<close>

text \<open>Each handler tells whether the line was its own.\<close>

definition handle_theme_line :: "round_env \<Rightarrow> string \<Rightarrow> world \<Rightarrow> (bool \<times> world) option" where
  "handle_theme_line env line w =
     (if line = ''get theme'' \<or> \<not> starts_with ''set theme '' line then Some (False, w)
      else let r = drop 10 line; key = takeWhile (\<lambda>c. c \<noteq> CHR '' '') r in
      if CHR '' '' \<notin> set r then Some (True, w)
      else let val = drop (length key + 1) r in
      if length val \<noteq> 6 then Some (True, w)
      else case stoul 16 val of
        None \<Rightarrow> None
      | Some v \<Rightarrow>
          (let fs = set_theme_color (re_tmp env) (re_writable env) key (ucast v) (store w)
           in Some (True, to_all env (theme_line (re_tmp env) fs key) (w\<lparr>store := fs\<rparr>))))"

definition handle_network_line :: "round_env \<Rightarrow> string \<Rightarrow> int \<Rightarrow> world \<Rightarrow> bool \<times> world" where
  "handle_network_line env line client w =
     (if line = ''get net'' then (True, send_network_state env client w)
      else if line = ''net scan'' then (True, w\<lparr>discovery := start_scan (re_now env) 2500 (discovery w)\<rparr>)
      else if starts_with ''net p2p '' line
      then (let (prefix, st) = read_token [] (istringstream line); (command, st) = read_token [] st;
                (role, st) = read_token [] st; (iface, st) = read_token [] st;
                result = fst (configure_point_to_point (re_ip env) iface role);
                w1 = to_all env (''state net p2p '' @ result) w
            in (True, if starts_with ''ok '' result
                      then w1\<lparr>discovery := start_scan (re_now env) 2500 (discovery w1)\<rparr> else w1))
      else (False, w))"

definition set_connection :: "round_env \<Rightarrow> string \<Rightarrow> world \<Rightarrow> world" where
  "set_connection env text w =
     to_all env (''state telemetry '' @ text) (w\<lparr>control := (control w)\<lparr>telemetry_connection := text\<rparr>\<rparr>)"

definition handle_telemetry_connection_line :: "round_env \<Rightarrow> string \<Rightarrow> int \<Rightarrow> world \<Rightarrow> bool \<times> world" where
  "handle_telemetry_connection_line env line client w =
     (if line = ''get telemetry connection''
      then (True, send_to env client (''state telemetry '' @ telemetry_connection (control w)) w)
      else if line = ''net telemetry disconnect''
      then (True, set_connection env ''Disconnected'' (w\<lparr>link := close_bridge (link w)\<rparr>))
      else if \<not> starts_with ''net telemetry connect '' line then (False, w)
      else let (net_word, st) = read_token [] (istringstream line); (telemetry_word, st) = read_token [] st;
               (connect_word, st) = read_token [] st; (protocol, st) = read_token [] st;
               (host, st) = read_token [] st;
               port = (if protocol = ''tcp'' then 5760 else fst (read_unsigned 32 0 st));
               attempt = ((protocol = ''tcp'' \<or> protocol = ''udp'') \<and> host \<noteq> [] \<and> 0 < port \<and> port \<le> 65535);
               (ok, b) = (if attempt
                 then connect_to (re_runtime env) (re_resolve env) (if protocol = ''tcp'' then Tcp else Udp) host
                        (nat port) (link w)
                 else (False, link w))
           in (True, set_connection env
                 (if ok then connection_description b else ''Error: '' @ Mavlink_Bridge.last_error b) (w\<lparr>link := b\<rparr>)))"

text \<open>The lines of one setting: its new value is stored, kept and told to every worker.\<close>

definition change_control :: "round_env \<Rightarrow> (control_state \<Rightarrow> control_state) \<Rightarrow> (files \<Rightarrow> files) \<Rightarrow> string \<Rightarrow> world \<Rightarrow> world" where
  "change_control env f put line w =
     to_all env line (w\<lparr>control := f (control w), store := put (store w)\<rparr>)"

definition handle_setting_line :: "round_env \<Rightarrow> string \<Rightarrow> world \<Rightarrow> world option" where
  "handle_setting_line env line w =
     (let tmp = re_tmp env; wr = re_writable env; on = (line \<noteq> [] \<and> last line = CHR ''1'') in
      if line = ''set fps 0'' \<or> line = ''set fps 1''
      then Some (change_control env (fps_on_update (\<lambda>_. on)) (set_fps_overlay_enabled tmp wr on) (''state fps '' @ flag on) w)
      else if line = ''set coords 0'' \<or> line = ''set coords 1''
      then Some (change_control env (coordinates_on_update (\<lambda>_. on)) (set_coordinates_overlay_enabled tmp wr on)
                   (''state coords '' @ flag on) w)
      else if line = ''set compact 0'' \<or> line = ''set compact 1''
      then Some (change_control env (compact_on_update (\<lambda>_. on)) (set_compact_readouts_enabled tmp wr on)
                   (''state compact '' @ flag on) w)
      else if line = ''set topbar 0'' \<or> line = ''set topbar 1''
      then Some (change_control env (top_bar_on_update (\<lambda>_. on)) (set_top_bar_enabled tmp wr on)
                   (''state topbar '' @ flag on) w)
      else if line \<in> {''set osd drone'', ''set osd rocket'', ''set osd rover'', ''set osd ship''}
      then Some (change_control env (layout_update (\<lambda>_. drop 8 line)) (set_osd_layout tmp wr (drop 8 line))
                   (''state osd '' @ drop 8 line) w)
      else None)"

definition handle_get_line :: "round_env \<Rightarrow> string \<Rightarrow> int \<Rightarrow> world \<Rightarrow> world option" where
  "handle_get_line env line client w =
     (let c = control w; answer = (\<lambda>l. Some (send_to env client l w)) in
      if line = ''get fps'' then answer (''state fps '' @ flag (fps_on c))
      else if line = ''get coords'' then answer (''state coords '' @ flag (coordinates_on c))
      else if line = ''get compact'' then answer (''state compact '' @ flag (compact_on c))
      else if line = ''get topbar'' then answer (''state topbar '' @ flag (top_bar_on c))
      else if line = ''get osd'' then answer (''state osd '' @ layout c)
      else if line = ''get theme'' then Some (send_theme_state env client w)
      else None)"

text \<open>
  One event of \<open>ipc_server.poll()\<close>. \<open>on_ui\<close> is what the process does with the control state at a line
  \<open>ui ...\<close>: \<open>poll_runtime_controls\<close> applies it to the map, the loops of the stacks do nothing.
\<close>

definition handle_event ::
  "(string \<Rightarrow> control_state \<Rightarrow> control_state) \<Rightarrow> round_env \<Rightarrow> int \<times> string \<Rightarrow> world \<Rightarrow> world option" where
  "handle_event on_ui env ev w =
     (let (client, line) = ev in
      if starts_with ''hello '' line
      then Some (send_network_state env client (send_initial_control_state env client w))
      else case handle_get_line env line client w of Some w1 \<Rightarrow> Some w1 | None \<Rightarrow>
      (case handle_telemetry_connection_line env line client w of (True, w1) \<Rightarrow> Some w1 | (False, w1) \<Rightarrow>
      (case handle_network_line env line client w1 of (True, w2) \<Rightarrow> Some w2 | (False, w2) \<Rightarrow>
      (case handle_setting_line env line w2 of Some w3 \<Rightarrow> Some w3 | None \<Rightarrow>
      (case handle_theme_line env line w2 of None \<Rightarrow> None | Some (True, w3) \<Rightarrow> Some w3 | Some (False, w3) \<Rightarrow>
       if starts_with ''mav '' line
       then Some (to_all env line (w3\<lparr>link := snd (handle_action_line (re_link_send env) line (link w3))\<rparr>))
       else if starts_with ''ui '' line then Some (to_all env line (w3\<lparr>control := on_ui line (control w3)\<rparr>))
       else if line = ''ping'' then Some (send_to env client ''pong'' w3)
       else Some w3)))))"

fun handle_events ::
  "(string \<Rightarrow> control_state \<Rightarrow> control_state) \<Rightarrow> round_env \<Rightarrow> (int \<times> string) list \<Rightarrow> world \<Rightarrow> world option" where
  "handle_events on_ui env [] w = Some w"
| "handle_events on_ui env (e # es) w =
     (case handle_event on_ui env e w of None \<Rightarrow> None | Some w1 \<Rightarrow> handle_events on_ui env es w1)"

section \<open>Rounds\<close>

definition poll_workers :: "(string \<Rightarrow> control_state \<Rightarrow> control_state) \<Rightarrow> round_env \<Rightarrow> world \<Rightarrow> world option" where
  "poll_workers on_ui env w =
     (let (events, s) = server_poll (re_accepted env) (re_received env) (ipc w)
      in handle_events on_ui env events (w\<lparr>ipc := s\<rparr>))"

definition take_telemetry :: "round_env \<Rightarrow> string \<Rightarrow> bool \<times> world \<Rightarrow> bool \<times> world" where
  "take_telemetry env line r =
     (let (seen, w) = r; ls = (if starts_with ''mav '' line then split_lines line else [])
      in (seen \<or> list_ex is_osd_telemetry_line ls,
          to_all env line (w\<lparr>telemetry := apply_lines (telemetry w) ls\<rparr>)))"

definition lost_connection :: "round_env \<Rightarrow> world \<Rightarrow> world" where
  "lost_connection env w =
     (if starts_with ''TCP '' (telemetry_connection (control w)) \<and> \<not> Mavlink_Bridge.running (link w)
      then set_connection env (''Error: '' @ Mavlink_Bridge.last_error (link w)) w else w)"

definition poll_link :: "round_env \<Rightarrow> world \<Rightarrow> string list \<times> world" where
  "poll_link env w = (let (ls, b) = Mavlink_Bridge.poll (re_link env) (link w) in (ls, w\<lparr>link := b\<rparr>))"

definition poll_discovery :: "round_env \<Rightarrow> world \<Rightarrow> world" where
  "poll_discovery env w =
     (let (ls, s) = poll_state_lines (re_destinations env) (re_own env) (re_now env) (re_datagrams env) (discovery w)
      in broadcast_lines env ls (w\<lparr>discovery := s\<rparr>))"

definition apply_map_line :: "string \<Rightarrow> control_state \<Rightarrow> control_state" where
  "apply_map_line line c = c\<lparr>gpu_map := snd (apply_gpu_map_ipc_line (gpu_map c) line)\<rparr>"

definition poll_runtime_controls :: "round_env \<Rightarrow> world \<Rightarrow> (bool \<times> world) option" where
  "poll_runtime_controls env w =
     (let (ls, w1) = poll_link env w;
          (seen, w2) = foldl (\<lambda>r l. take_telemetry env l r) (False, w1) ls;
          w3 = poll_discovery env (lost_connection env w2)
      in map_option (\<lambda>w4. (seen, w4)) (poll_workers apply_map_line env w3))"

text \<open>A round of the loop of \<open>run_preview_stack\<close> and of \<open>run_kms_stack\<close>, before they look at their children.\<close>

definition stack_round :: "round_env \<Rightarrow> world \<Rightarrow> world option" where
  "stack_round env w =
     (let (ls, w1) = poll_link env w
      in poll_workers (\<lambda>_ c. c) env (poll_discovery env (broadcast_lines env ls w1)))"

end
