(* ===== verification/Controller_Start.thy ===== *)
theory Controller_Start
  imports Controller
begin

text \<open>
  \<open>src/openhd_glide/main.cpp\<close>: the command line of the controller, the command lines it gives its
  workers, and the life of the worker stacks. \<open>None\<close> is an exception that ends the process.
\<close>

section \<open>Options\<close>

record options =
  preview_stack :: bool
  kms_stack :: bool
  kms_video_preview :: bool
  preview_width :: u32
  flow_height :: u32
  display_refresh_hz :: u32
  ui_width :: u32
  ui_height :: u32
  view_udp_port :: u16
  mavlink_udp_port :: u16
  view_udp_codec :: string
  view_plane_id :: int
  flow_plane_id :: int
  ui_plane_id :: int
  view_connector_id :: int
  ui_opacity :: fp
  preview_x :: int
  preview_y :: int
  ipc_socket :: string
  vertical_stack :: bool
  flow_overlay :: bool
  flow_fps :: fp
  present_fps :: fp
  atomic_kms :: bool
  vblank_wait :: bool
  native_cedar_video :: bool
  native_imxvpu_video :: bool
  native_rkmpp_video :: bool
  rkmpp_x20_force :: bool
  async_flow :: bool
  flow_debug_solid :: bool
  flow_static_scanout :: bool
  flow_primary_readback :: bool
  flow_render_scale :: fp
  ui_overlay :: bool
  ui_debug_color :: u32
  ui_buffer_path :: string
  writeback_record_path :: string
  writeback_record_frames :: u32
  writeback_record_every :: u32
  mavlink_udp :: bool
  ethernet_discover :: bool
  ethernet_p2p :: bool
  ethernet_p2p_role :: string
  ethernet_p2p_interface :: string

definition default_options :: options where
  "default_options =
    \<lparr>preview_stack = False, kms_stack = False, kms_video_preview = False, preview_width = 1280, flow_height = 720,
     display_refresh_hz = 0, ui_width = 760, ui_height = 720, view_udp_port = 5600, mavlink_udp_port = 14550,
     view_udp_codec = ''h264'', view_plane_id = - 1, flow_plane_id = - 1, ui_plane_id = - 1, view_connector_id = - 1,
     ui_opacity = fp_round f32 False 35 100, preview_x = 80, preview_y = 40, ipc_socket = ''/tmp/openhd-glide.sock'',
     vertical_stack = False, flow_overlay = True, flow_fps = fp_of_int f64 30, present_fps = fp_zero f64,
     atomic_kms = False, vblank_wait = False, native_cedar_video = False, native_imxvpu_video = False,
     native_rkmpp_video = False, rkmpp_x20_force = False, async_flow = True, flow_debug_solid = False,
     flow_static_scanout = False, flow_primary_readback = False, flow_render_scale = fp_of_int f64 1,
     ui_overlay = False, ui_debug_color = 0xCC0B1722, ui_buffer_path = ''/tmp/openhd-glide-ui.argb'',
     writeback_record_path = [], writeback_record_frames = 30, writeback_record_every = 6, mavlink_udp = True,
     ethernet_discover = False, ethernet_p2p = False, ethernet_p2p_role = ''ground'', ethernet_p2p_interface = []\<rparr>"

text \<open>An option without a value; an unknown argument changes nothing.\<close>

definition flag_option :: "string \<Rightarrow> options \<Rightarrow> options" where
  "flag_option a o' =
     (if a = ''--preview-stack'' then o'\<lparr>preview_stack := True\<rparr>
      else if a = ''--kms-stack'' \<or> a = ''--kmd-stack'' then o'\<lparr>kms_stack := True\<rparr>
      else if a = ''--kms-video-preview'' then o'\<lparr>kms_video_preview := True\<rparr>
      else if a = ''--vertical-stack'' then o'\<lparr>vertical_stack := True\<rparr>
      else if a = ''--native-cedar-video''
      then o'\<lparr>native_cedar_video := True, native_imxvpu_video := False, native_rkmpp_video := False\<rparr>
      else if a = ''--native-imxvpu-video''
      then o'\<lparr>native_imxvpu_video := True, native_cedar_video := False, native_rkmpp_video := False\<rparr>
      else if a = ''--native-rkmpp-video''
      then o'\<lparr>native_rkmpp_video := True, native_cedar_video := False, native_imxvpu_video := False\<rparr>
      else if a = ''--rkmpp-x20-force'' then o'\<lparr>rkmpp_x20_force := True\<rparr>
      else if a = ''--gstreamer-video''
      then o'\<lparr>native_cedar_video := False, native_imxvpu_video := False, native_rkmpp_video := False\<rparr>
      else if a = ''--no-flow'' then o'\<lparr>flow_overlay := False\<rparr>
      else if a = ''--atomic-kms'' then o'\<lparr>atomic_kms := True\<rparr>
      else if a = ''--vblank-wait'' then o'\<lparr>vblank_wait := True\<rparr>
      else if a = ''--no-vblank-wait'' then o'\<lparr>vblank_wait := False\<rparr>
      else if a = ''--async-flow'' then o'\<lparr>async_flow := True\<rparr>
      else if a = ''--sync-flow'' then o'\<lparr>async_flow := False\<rparr>
      else if a = ''--flow-debug-solid'' then o'\<lparr>flow_debug_solid := True\<rparr>
      else if a = ''--flow-static-scanout'' then o'\<lparr>flow_static_scanout := True\<rparr>
      else if a = ''--flow-primary-readback'' then o'\<lparr>flow_primary_readback := True\<rparr>
      else if a = ''--ui-overlay'' then o'\<lparr>ui_overlay := True\<rparr>
      else if a = ''--no-mavlink'' then o'\<lparr>mavlink_udp := False\<rparr>
      else if a = ''--ethernet-discover'' then o'\<lparr>ethernet_discover := True\<rparr>
      else o')"

text \<open>An option with the value \<open>v\<close>: the outer \<open>None\<close> when \<open>a\<close> takes no value.\<close>

definition value_option :: "string \<Rightarrow> string \<Rightarrow> options \<Rightarrow> options option option" where
  "value_option a v o' =
     (let num = (\<lambda>f. Some (map_option (\<lambda>n. f (ucast n)) (stoul 10 v)));
          int = (\<lambda>f. Some (map_option f (stoi v)));
          real = (\<lambda>fm lo hi f. Some (map_option (\<lambda>x. f (fp_clamp lo hi x)) (stod fm v))) in
      if a = ''--preview-width'' then num (\<lambda>n. o'\<lparr>preview_width := n\<rparr>)
      else if a = ''--ui-height'' then num (\<lambda>n. o'\<lparr>ui_height := n\<rparr>)
      else if a = ''--ui-width'' then num (\<lambda>n. o'\<lparr>ui_width := n\<rparr>)
      else if a = ''--flow-height'' then num (\<lambda>n. o'\<lparr>flow_height := n\<rparr>)
      else if a = ''--display-refresh-hz'' then num (\<lambda>n. o'\<lparr>display_refresh_hz := n\<rparr>)
      else if a = ''--view-udp-port'' then num (\<lambda>n. o'\<lparr>view_udp_port := ucast n\<rparr>)
      else if a = ''--mavlink-udp-port'' then num (\<lambda>n. o'\<lparr>mavlink_udp_port := ucast n\<rparr>)
      else if a = ''--view-udp-codec'' then Some (Some (o'\<lparr>view_udp_codec := map to_lower v\<rparr>))
      else if a = ''--view-plane-id'' then int (\<lambda>n. o'\<lparr>view_plane_id := n\<rparr>)
      else if a = ''--flow-plane-id'' then int (\<lambda>n. o'\<lparr>flow_plane_id := n\<rparr>)
      else if a = ''--ui-plane-id'' then int (\<lambda>n. o'\<lparr>ui_plane_id := n\<rparr>)
      else if a = ''--view-connector-id'' then int (\<lambda>n. o'\<lparr>view_connector_id := n\<rparr>)
      else if a = ''--preview-x'' then int (\<lambda>n. o'\<lparr>preview_x := n\<rparr>)
      else if a = ''--preview-y'' then int (\<lambda>n. o'\<lparr>preview_y := n\<rparr>)
      else if a = ''--ui-opacity''
      then real f32 (fp_round f32 False 5 100) (fp_of_int f32 1) (\<lambda>x. o'\<lparr>ui_opacity := x\<rparr>)
      else if a = ''--ipc-socket'' then Some (Some (o'\<lparr>ipc_socket := v\<rparr>))
      else if a = ''--flow-fps'' then real f64 (fp_zero f64) (fp_of_int f64 240) (\<lambda>x. o'\<lparr>flow_fps := x\<rparr>)
      else if a = ''--present-fps'' then real f64 (fp_zero f64) (fp_of_int f64 240) (\<lambda>x. o'\<lparr>present_fps := x\<rparr>)
      else if a = ''--flow-render-scale''
      then real f64 (fp_round f64 False 1 4) (fp_of_int f64 1) (\<lambda>x. o'\<lparr>flow_render_scale := x\<rparr>)
      else if a = ''--ui-debug-color'' then Some (map_option (\<lambda>n. o'\<lparr>ui_debug_color := ucast n\<rparr>) (stoul 0 v))
      else if a = ''--ui-buffer-path'' then Some (Some (o'\<lparr>ui_buffer_path := v\<rparr>))
      else if a = ''--writeback-record'' then Some (Some (o'\<lparr>writeback_record_path := v\<rparr>))
      else if a = ''--writeback-record-frames'' then num (\<lambda>n. o'\<lparr>writeback_record_frames := n\<rparr>)
      else if a = ''--writeback-record-every'' then num (\<lambda>n. o'\<lparr>writeback_record_every := n\<rparr>)
      else None)"

definition finish_options :: "options \<Rightarrow> options" where
  "finish_options o' =
     (if flow_primary_readback o' then o'\<lparr>flow_static_scanout := False, flow_render_scale := fp_of_int f64 1\<rparr> else o')"

text \<open>The arguments after the program name.\<close>

fun parse_arguments :: "string list \<Rightarrow> options \<Rightarrow> options option" where
  "parse_arguments [] o' = Some o'"
| "parse_arguments (a # rest) o' =
     (case rest of
        v # tail \<Rightarrow>
          (case value_option a v o' of
             Some None \<Rightarrow> None
           | Some (Some o1) \<Rightarrow> parse_arguments tail o1
           | None \<Rightarrow>
               (case tail of
                  v2 # tail2 \<Rightarrow>
                    if a = ''--ethernet-p2p''
                    then parse_arguments tail2
                           (o'\<lparr>ethernet_p2p := True, ethernet_p2p_role := v, ethernet_p2p_interface := v2\<rparr>)
                    else parse_arguments rest (flag_option a o')
                | [] \<Rightarrow> parse_arguments rest (flag_option a o')))
      | [] \<Rightarrow> Some (flag_option a o'))"

definition parse_options :: "string list \<Rightarrow> options option" where
  "parse_options args = map_option finish_options (parse_arguments args default_options)"

section \<open>Command lines of the workers\<close>

definition executable_dir :: "string \<Rightarrow> string" where
  "executable_dir argv0 = rev (dropWhile (\<lambda>c. c \<noteq> CHR ''/'' \<and> c \<noteq> CHR 0x5C) (rev argv0))"

definition sibling_executable :: "string \<Rightarrow> string \<Rightarrow> string" where
  "sibling_executable argv0 name = (if executable_dir argv0 = [] then name else executable_dir argv0 @ name)"

definition num_text :: "'a::len word \<Rightarrow> string" where
  "num_text w = nat_str (unat w)"

definition preview_args :: "string \<Rightarrow> options \<Rightarrow> bool \<Rightarrow> string list" where
  "preview_args exe o' ui =
     (let y = (if ui \<or> \<not> vertical_stack o' then preview_y o' else preview_y o' + sint (ui_height o')) in
      [exe, ''--preview'', ''--width'', num_text (if ui then ui_width o' else preview_width o'),
       ''--height'', num_text (if ui then ui_height o' else flow_height o'),
       ''--x'', int_str (preview_x o'), ''--y'', int_str y, ''--borderless'', ''--ipc-socket'', ipc_socket o']
      @ (if ui
         then [''--always-on-top'', ''--transparent-clear'', ''--opacity'', fp_fixed 6 (ui_opacity o')]
         else [''--udp-video'', ''--udp-port'', num_text (view_udp_port o'), ''--secondary-udp-port'',
               num_text (view_udp_port o' + 1), ''--udp-codec'', view_udp_codec o']))"

definition view_args :: "string \<Rightarrow> options \<Rightarrow> string list" where
  "view_args exe o' =
     [exe, ''--stay-alive'', ''--ipc-socket'', ipc_socket o']
     @ (if kms_stack o'
        then [''--udp-video'', ''--udp-port'', num_text (view_udp_port o'), ''--udp-codec'', view_udp_codec o'] else [])"

definition kms_flow_args :: "string \<Rightarrow> options \<Rightarrow> string list" where
  "kms_flow_args exe o' =
     [exe, ''--kms'', ''--stay-alive'', ''--width'', num_text (preview_width o'), ''--height'', num_text (flow_height o'),
      ''--ipc-socket'', ipc_socket o']
     @ (if display_refresh_hz o' \<noteq> 0 then [''--display-refresh-hz'', num_text (display_refresh_hz o')] else [])"

definition headless_ui_args :: "string \<Rightarrow> options \<Rightarrow> string list" where
  "headless_ui_args exe o' = [exe, ''--headless'', ''--ipc-socket'', ipc_socket o']"

section \<open>The stacks\<close>

datatype stack_kind = Preview_stack | Kms_stack

text \<open>
  What the system answers while a stack starts: the IPC socket, the sockets of the bridge and the
  discovery service, and the process id of each \<open>fork\<close>.
\<close>

record launch_env =
  le_listen :: listen_answers
  le_bridge :: Mavlink_Bridge.start_answers
  le_discovery :: Net_Discovery.start_answers
  le_tmp :: string
  le_writable :: "string \<Rightarrow> bool"
  le_view :: int
  le_flow :: int
  le_ui :: int

definition start_mavlink_bridge :: "Mavlink_Bridge.start_answers \<Rightarrow> options \<Rightarrow> bridge \<Rightarrow> bridge" where
  "start_mavlink_bridge a o' b =
     (if \<not> mavlink_udp o' then b
      else snd (Mavlink_Bridge.start a
        (Mavlink_Bridge.default_options\<lparr>opt_listen_port := unat (mavlink_udp_port o')\<rparr>) b))"

definition start_network_discovery :: "Net_Discovery.start_answers \<Rightarrow> options \<Rightarrow> service \<Rightarrow> service" where
  "start_network_discovery a o' s =
     snd (Net_Discovery.start a
       \<lparr>discovery_udp_port = 5620, video_udp_port = unat (view_udp_port o'), role = ''glide''\<rparr> s)"

definition store_defaults :: "stack_kind \<Rightarrow> string \<Rightarrow> (string \<Rightarrow> bool) \<Rightarrow> files \<Rightarrow> files" where
  "store_defaults k tmp wr fs =
     (let fs1 = set_fps_overlay_enabled tmp wr True fs;
          fs2 = (if k = Kms_stack then set_coordinates_overlay_enabled tmp wr True fs1 else fs1)
      in set_top_bar_enabled tmp wr True (set_compact_readouts_enabled tmp wr False fs2))"

text \<open>The processes started, with their arguments, and those sent \<open>SIGTERM\<close>, in order.\<close>

record processes =
  launched :: "(int \<times> string list) list"
  signalled :: "int list"

definition terminate_child :: "int \<Rightarrow> processes \<Rightarrow> processes" where
  "terminate_child pid p = (if 0 < pid then p\<lparr>signalled := signalled p @ [pid]\<rparr> else p)"

definition launch_child :: "int \<Rightarrow> string list \<Rightarrow> processes \<Rightarrow> processes" where
  "launch_child pid args p = (if 0 \<le> pid then p\<lparr>launched := launched p @ [(pid, args)]\<rparr> else p)"

definition stack_args :: "stack_kind \<Rightarrow> string \<Rightarrow> options \<Rightarrow> string list \<times> string list \<times> string list" where
  "stack_args k argv0 o' =
     (let ui = sibling_executable argv0 ''glide-ui''; flow = sibling_executable argv0 ''glide-flow'';
          view = sibling_executable argv0 ''glide-view'' in
      (view_args view o',
       if k = Kms_stack then kms_flow_args flow o' else preview_args flow o' False,
       if k = Kms_stack then headless_ui_args ui o' else preview_args ui o' True))"

text \<open>\<open>Inl\<close> the exit code, or the world the loop starts with.\<close>

definition start_stack ::
  "stack_kind \<Rightarrow> launch_env \<Rightarrow> string \<Rightarrow> options \<Rightarrow> files \<Rightarrow> (int + world) \<times> processes" where
  "start_stack k env argv0 o' fs =
     (let none = \<lparr>launched = [], signalled = []\<rparr>; (view, flow, ui) = stack_args k argv0 o';
          fs1 = store_defaults k (le_tmp env) (le_writable env) fs;
          (ok, s) = listen_on (le_listen env) (ipc_socket o') new_server in
      if \<not> ok then (Inl 1, none)
      else let b = start_mavlink_bridge (le_bridge env) o' new_bridge;
               d = start_network_discovery (le_discovery env) o' new_service;
               p1 = launch_child (le_view env) view none in
      if le_view env < 0 then (Inl 1, p1)
      else let p2 = launch_child (le_flow env) flow p1 in
      if le_flow env < 0 then (Inl 1, terminate_child (le_view env) p2)
      else let p3 = launch_child (le_ui env) ui p2 in
      if le_ui env < 0 then (Inl 1, terminate_child (le_flow env) (terminate_child (le_view env) p3))
      else (Inr \<lparr>ipc = s, link = b, discovery = d,
                 control = (initial_control (le_tmp env) fs1)\<lparr>telemetry_connection := connection_description b\<rparr>,
                 telemetry = initial_snapshot, store = fs1\<rparr>, p3))"

text \<open>
  The loop: each round gives the answers of the system and the result of \<open>waitpid\<close>; the list ends
  when a signal asked the process to stop.
\<close>

fun stack_loop :: "int list \<Rightarrow> (round_env \<times> int) list \<Rightarrow> world \<Rightarrow> world option" where
  "stack_loop children [] w = Some w"
| "stack_loop children ((env, exited) # rounds) w =
     (case stack_round env w of
        None \<Rightarrow> None
      | Some w1 \<Rightarrow> if exited \<in> set children \<or> exited < 0 then Some w1 else stack_loop children rounds w1)"

text \<open>The children a loop signals before it ends because one of them exited.\<close>

definition exit_signals :: "stack_kind \<Rightarrow> launch_env \<Rightarrow> int \<Rightarrow> int list" where
  "exit_signals k env exited =
     (let v = le_view env; f = le_flow env; u = le_ui env in
      if k = Kms_stack then (if exited \<in> {u, f, v} \<or> exited < 0 then [v, u, f] else [])
      else if exited = u then [v, f] else if exited = f then [v, u] else if exited = v then [f, u] else [])"

fun last_exit :: "int list \<Rightarrow> (round_env \<times> int) list \<Rightarrow> int" where
  "last_exit children [] = 0"
| "last_exit children ((env, exited) # rounds) =
     (if exited \<in> set children \<or> exited < 0 then exited else last_exit children rounds)"

definition run_stack ::
  "stack_kind \<Rightarrow> launch_env \<Rightarrow> string \<Rightarrow> options \<Rightarrow> files \<Rightarrow> (round_env \<times> int) list \<Rightarrow> (int \<times> processes) option" where
  "run_stack k env argv0 o' fs rounds =
     (case start_stack k env argv0 o' fs of
        (Inl code, p) \<Rightarrow> Some (code, p)
      | (Inr w, p) \<Rightarrow>
          (let children = [le_view env, le_flow env, le_ui env] in
           map_option
             (\<lambda>_. (0, fold terminate_child (exit_signals k env (last_exit children rounds) @
                        [le_view env, le_ui env, le_flow env]) p))
             (stack_loop children rounds w)))"

section \<open>The main program\<close>

text \<open>
  The modes of \<open>main\<close>, in the order in which it tries them; the point-to-point set-up and the scan
  end before the hardware is probed.
\<close>

datatype mode = P2p string string | Discover | Preview | Video_preview | Kms | Probe_only

definition mode_of :: "options \<Rightarrow> mode" where
  "mode_of o' =
     (if ethernet_p2p o' then P2p (ethernet_p2p_interface o') (ethernet_p2p_role o')
      else if ethernet_discover o' then Discover
      else if preview_stack o' then Preview
      else if kms_video_preview o' then Video_preview
      else if kms_stack o' then Kms else Probe_only)"

definition p2p_exit :: "(string list \<Rightarrow> string) \<Rightarrow> string \<Rightarrow> string \<Rightarrow> string \<times> int" where
  "p2p_exit env iface role' =
     (let result = fst (configure_point_to_point env iface role')
      in (result @ [CHR 0x0A], if starts_with ''ok '' result then 0 else 1))"

definition discover_output :: "peer list \<Rightarrow> string \<times> int" where
  "discover_output ps =
     (if ps = [] then (''no Glide peers found on the current subnet'' @ [CHR 0x0A], 1)
      else (concat (map (\<lambda>p. hostname p @ '' '' @ address p @ '':'' @ nat_str (video_port p) @ [CHR 0x0A]) ps), 0))"

end
