(* ===== verification/Controller_Flow.thy ===== *)
theory Controller_Flow
  imports Controller_Start
begin

text \<open>
  The guarantees of the controller: its control state and the stored settings agree, a new worker gets
  the whole state, telemetry of a round reaches the snapshot and every worker, theme lines do what they
  say or end the process, no worker outlives its stack, and the options stay in their ranges.
\<close>

section \<open>What a line changes\<close>

lemma send_keeps [simp]:
  "control (send_to env c l w) = control w" "store (send_to env c l w) = store w"
  "telemetry (send_to env c l w) = telemetry w" "link (send_to env c l w) = link w"
  "discovery (send_to env c l w) = discovery w"
  "control (to_all env l w) = control w" "store (to_all env l w) = store w"
  "telemetry (to_all env l w) = telemetry w" "link (to_all env l w) = link w"
  "discovery (to_all env l w) = discovery w"
  by (simp_all add: send_to_def to_all_def)

lemma send_lines_keep [simp]:
  "control (send_lines env c ls w) = control w" "store (send_lines env c ls w) = store w"
  "telemetry (send_lines env c ls w) = telemetry w" "link (send_lines env c ls w) = link w"
  "discovery (send_lines env c ls w) = discovery w"
  "control (broadcast_lines env ls w) = control w" "store (broadcast_lines env ls w) = store w"
  "telemetry (broadcast_lines env ls w) = telemetry w" "link (broadcast_lines env ls w) = link w"
  "discovery (broadcast_lines env ls w) = discovery w"
  unfolding send_lines_def broadcast_lines_def by (induction ls arbitrary: w) simp_all

lemma state_lines_keep [simp]:
  "control (send_theme_state env c w) = control w" "store (send_theme_state env c w) = store w"
  "control (send_initial_control_state env c w) = control w" "store (send_initial_control_state env c w) = store w"
  "control (send_network_state env c w) = control w" "store (send_network_state env c w) = store w"
  "telemetry (send_theme_state env c w) = telemetry w" "telemetry (send_initial_control_state env c w) = telemetry w"
  "telemetry (send_network_state env c w) = telemetry w"
  by (simp_all add: send_theme_state_def send_initial_control_state_def send_network_state_def)

section \<open>What every round keeps\<close>

text \<open>
  A property of the world that each kind of line keeps is kept by every round of the workers, whatever
  they send and in whatever order.
\<close>

locale worker_invariant =
  fixes P :: "world \<Rightarrow> bool" and env :: round_env and on_ui :: "string \<Rightarrow> control_state \<Rightarrow> control_state"
  assumes server: "P w \<Longrightarrow> P (w\<lparr>ipc := s\<rparr>)"
    and peers: "P w \<Longrightarrow> P (w\<lparr>discovery := d\<rparr>)"
    and action: "P w \<Longrightarrow> P (w\<lparr>link := snd (handle_action_line f line (link w))\<rparr>)"
    and connection: "P w \<Longrightarrow> P (snd (handle_telemetry_connection_line env line client w))"
    and setting: "P w \<Longrightarrow> handle_setting_line env line w = Some w' \<Longrightarrow> P w'"
    and theme: "P w \<Longrightarrow> handle_theme_line env line w = Some (b, w') \<Longrightarrow> P w'"
    and ui: "P w \<Longrightarrow> P (w\<lparr>control := on_ui line (control w)\<rparr>)"
begin

lemma sends: "P w \<Longrightarrow> P (send_to env client line w)" "P w \<Longrightarrow> P (to_all env line w)"
  by (simp_all add: send_to_def to_all_def server)

lemma sends_lines: "P w \<Longrightarrow> P (send_lines env client ls w)" "P w \<Longrightarrow> P (broadcast_lines env ls w)"
  unfolding send_lines_def broadcast_lines_def by (induction ls arbitrary: w) (simp_all add: sends)

lemma answers: "P w \<Longrightarrow> handle_get_line env line client w = Some w' \<Longrightarrow> P w'"
  by (auto simp: handle_get_line_def send_theme_state_def Let_def intro: sends sends_lines split: if_splits)

lemma network: "P w \<Longrightarrow> P (snd (handle_network_line env line client w))"
  by (auto simp: handle_network_line_def send_network_state_def Let_def split_def intro: sends sends_lines peers)

lemma greeting: "P w \<Longrightarrow> P (send_network_state env client (send_initial_control_state env client w))"
  by (simp add: send_network_state_def send_initial_control_state_def send_theme_state_def sends_lines)

lemma event:
  assumes "P w" "handle_event on_ui env (client, line) w = Some w'"
  shows "P w'"
proof -
  obtain b1 w1 where t: "handle_telemetry_connection_line env line client w = (b1, w1)" by fastforce
  obtain b2 w2 where n: "handle_network_line env line client w1 = (b2, w2)" by fastforce
  have w: "P w1" "P w2" using connection[OF assms(1), of line client] network[of w1 line client] t n by simp_all
  show ?thesis
  proof (cases "starts_with ''hello '' line \<or> handle_get_line env line client w \<noteq> None \<or> b1 \<or> b2
      \<or> handle_setting_line env line w2 \<noteq> None")
    case True
    then show ?thesis
      using assms(2) greeting[OF assms(1), of client] answers[OF assms(1)] setting[OF w(2)] w
      by (auto simp: handle_event_def t n split: if_splits option.splits bool.splits)
  next
    case False
    then have e: "handle_event on_ui env (client, line) w =
        (case handle_theme_line env line w2 of None \<Rightarrow> None | Some (True, w3) \<Rightarrow> Some w3 | Some (False, w3) \<Rightarrow>
          if starts_with ''mav '' line
          then Some (to_all env line (w3\<lparr>link := snd (handle_action_line (re_link_send env) line (link w3))\<rparr>))
          else if starts_with ''ui '' line then Some (to_all env line (w3\<lparr>control := on_ui line (control w3)\<rparr>))
          else if line = ''ping'' then Some (send_to env client ''pong'' w3)
          else Some w3)"
      by (simp add: handle_event_def t n)
    then obtain b3 w3 where w3: "handle_theme_line env line w2 = Some (b3, w3)"
      using assms(2) by (auto split: option.splits)
    note 3 = theme[OF w(2) w3]
    have "P (to_all env line (w3\<lparr>link := snd (handle_action_line (re_link_send env) line (link w3))\<rparr>))"
      "P (to_all env line (w3\<lparr>control := on_ui line (control w3)\<rparr>))" "P (send_to env client ''pong'' w3)"
      using action[OF 3] ui[OF 3] sends 3 by auto
    with 3 assms(2) show ?thesis unfolding e by (auto simp: w3 split: if_splits bool.splits)
  qed
qed

lemma events: "P w \<Longrightarrow> handle_events on_ui env es w = Some w' \<Longrightarrow> P w'"
proof (induction es arbitrary: w)
  case (Cons e es)
  obtain c l where e: "e = (c, l)" by fastforce
  with Cons.prems(2) obtain w1 where "handle_event on_ui env (c, l) w = Some w1" "handle_events on_ui env es w1 = Some w'"
    by (auto split: option.splits)
  from Cons.IH[OF event[OF Cons.prems(1) this(1)] this(2)] show ?case .
qed simp

lemma workers: "P w \<Longrightarrow> poll_workers on_ui env w = Some w' \<Longrightarrow> P w'"
  by (auto simp: poll_workers_def split_def Let_def intro: events[OF server])

lemma discovers: "P w \<Longrightarrow> P (poll_discovery env w)"
  by (simp add: poll_discovery_def split_def Let_def sends_lines peers)

end

section \<open>The settings agree\<close>

text \<open>
  The five settings, their names and values in the lines, what the controller tells its workers of one, and
  what its file says.
\<close>

datatype setting = Fps_setting | Coordinates_setting | Compact_setting | Top_bar_setting | Layout_setting

primrec setting_name :: "setting \<Rightarrow> string" where
  "setting_name Fps_setting = ''fps''"
| "setting_name Coordinates_setting = ''coords''"
| "setting_name Compact_setting = ''compact''"
| "setting_name Top_bar_setting = ''topbar''"
| "setting_name Layout_setting = ''osd''"

definition setting_values :: "setting \<Rightarrow> string list" where
  "setting_values s = (if s = Layout_setting then [''drone'', ''rocket'', ''rover'', ''ship''] else [''0'', ''1''])"

primrec told :: "setting \<Rightarrow> control_state \<Rightarrow> string" where
  "told Fps_setting c = flag (fps_on c)"
| "told Coordinates_setting c = flag (coordinates_on c)"
| "told Compact_setting c = flag (compact_on c)"
| "told Top_bar_setting c = flag (top_bar_on c)"
| "told Layout_setting c = layout c"

primrec stored :: "string \<Rightarrow> setting \<Rightarrow> files \<Rightarrow> string" where
  "stored tmp Fps_setting fs = flag (fps_overlay_enabled tmp fs)"
| "stored tmp Coordinates_setting fs = flag (coordinates_overlay_enabled tmp fs)"
| "stored tmp Compact_setting fs = flag (compact_readouts_enabled tmp fs)"
| "stored tmp Top_bar_setting fs = flag (top_bar_enabled tmp fs)"
| "stored tmp Layout_setting fs = osd_layout tmp fs"

definition agrees :: "string \<Rightarrow> setting \<Rightarrow> control_state \<Rightarrow> files \<Rightarrow> bool" where
  "agrees tmp s c fs \<longleftrightarrow> told s c = stored tmp s fs"

lemma flag_eq [simp]: "flag a = flag b \<longleftrightarrow> a = b"
  by (simp add: flag_def)

text \<open>
  The loop of a stack with the workers writing the same files: before each round they may have replaced
  them in any way.
\<close>

fun shared_loop :: "int list \<Rightarrow> (round_env \<times> int \<times> (files \<Rightarrow> files)) list \<Rightarrow> world \<Rightarrow> world option" where
  "shared_loop children [] w = Some w"
| "shared_loop children ((env, exited, put) # rounds) w =
     (case stack_round env (w\<lparr>store := put (store w)\<rparr>) of
        None \<Rightarrow> None
      | Some w1 \<Rightarrow> if exited \<in> set children \<or> exited < 0 then Some w1 else shared_loop children rounds w1)"

lemma shared_loop_alone: "shared_loop children (map (\<lambda>(e, x). (e, x, id)) rounds) w = stack_loop children rounds w"
  by (induction children rounds w rule: stack_loop.induct) (auto split: option.splits)

definition good_env :: "string \<Rightarrow> round_env \<Rightarrow> bool" where
  "good_env tmp env \<longleftrightarrow> re_tmp env = tmp \<and> (\<forall>p. re_writable env p)"

lemma agrees_connection [simp]: "agrees tmp s (c\<lparr>telemetry_connection := t\<rparr>) fs = agrees tmp s c fs"
  by (cases s) (simp_all add: agrees_def)

lemma agrees_map [simp]: "agrees tmp s (apply_map_line l c) fs = agrees tmp s c fs"
  by (cases s) (simp_all add: agrees_def apply_map_line_def)

text \<open>A write of one setting leaves the files of the others alone.\<close>

lemma flag_written:
  assumes "\<forall>p. wr p"
  shows "fs' = write_enabled_file wr q v fs \<Longrightarrow> read_flag m q fs' = v"
    and "fs' = write_enabled_file wr q v fs \<Longrightarrow> p \<noteq> q \<Longrightarrow> read_flag m p fs' = read_flag m p fs"
    and "fs' = write_enabled_file wr q v fs \<Longrightarrow> p \<noteq> q \<Longrightarrow> read_word p fs' = read_word p fs"
  using assms read_flag_written[of wr q m v fs]
  by (auto simp: read_flag_def read_word_def write_enabled_file_def write_file_def)

lemma word_written:
  "p \<noteq> q \<Longrightarrow> read_flag m p (write_file wr q c fs) = read_flag m p fs"
  "p \<noteq> q \<Longrightarrow> read_word p (write_file wr q c fs) = read_word p fs"
  by (simp_all add: read_flag_def read_word_def write_file_def)

lemmas setting_defs = fps_overlay_enabled_def coordinates_overlay_enabled_def compact_readouts_enabled_def
  top_bar_enabled_def osd_layout_def read_enabled_file_def

lemmas setter_defs = set_fps_overlay_enabled_def set_coordinates_overlay_enabled_def
  set_compact_readouts_enabled_def set_top_bar_enabled_def

lemma agrees_flags:
  assumes "agrees tmp s c fs" "\<forall>p. wr p"
  shows "agrees tmp s (c\<lparr>fps_on := v\<rparr>) (set_fps_overlay_enabled tmp wr v fs)"
    "agrees tmp s (c\<lparr>coordinates_on := v\<rparr>) (set_coordinates_overlay_enabled tmp wr v fs)"
    "agrees tmp s (c\<lparr>compact_on := v\<rparr>) (set_compact_readouts_enabled tmp wr v fs)"
    "agrees tmp s (c\<lparr>top_bar_on := v\<rparr>) (set_top_bar_enabled tmp wr v fs)"
  using assms(1) flag_written[OF assms(2) refl]
  by (cases s; simp add: agrees_def setting_defs setter_defs setting_path_defs)+

lemma agrees_layout:
  assumes "agrees tmp s c fs" "\<forall>p. wr p" "norm_layout l = l"
  shows "agrees tmp s (c\<lparr>layout := l\<rparr>) (set_osd_layout tmp wr l fs)"
proof -
  have "osd_layout tmp (set_osd_layout tmp wr l fs) = l"
    using layout.get_put[of wr tmp l fs] assms(2,3) by simp
  then show ?thesis
    using assms(1)
    by (cases s) (simp_all add: agrees_def, simp_all add: setting_defs set_osd_layout_def setting_path_defs word_written)
qed

lemma agrees_theme: "agrees tmp s c fs \<Longrightarrow> agrees tmp s c (set_theme_color tmp wr key v fs)"
  by (cases s) (simp_all add: agrees_def setting_defs set_theme_color_def setting_path_defs word_written)

lemma agrees_setting_line:
  assumes "agrees tmp s (control w) (store w)" "good_env tmp env" "handle_setting_line env line w = Some w'"
  shows "agrees tmp s (control w') (store w')"
proof -
  have wr: "\<forall>p. re_writable env p" and tmp: "re_tmp env = tmp" using assms(2) by (simp_all add: good_env_def)
  have l: "norm_layout (drop 8 line) = drop 8 line"
    if "line \<in> {''set osd drone'', ''set osd rocket'', ''set osd rover'', ''set osd ship''}"
    using that by (auto simp: norm_layout_def)
  show ?thesis
    using assms(3) agrees_flags[OF assms(1) wr] agrees_layout[OF assms(1) wr l]
    by (simp add: handle_setting_line_def Let_def tmp change_control_def split: if_splits) force+
qed

lemma agrees_connection_line:
  "agrees tmp s (control w) (store w) \<Longrightarrow>
   agrees tmp s (control (snd (handle_telemetry_connection_line env line client w)))
     (store (snd (handle_telemetry_connection_line env line client w)))"
  by (auto simp: handle_telemetry_connection_line_def set_connection_def Let_def split_def)

lemma agrees_theme_line:
  "agrees tmp s (control w) (store w) \<Longrightarrow> good_env tmp env \<Longrightarrow> handle_theme_line env line w = Some (b, w') \<Longrightarrow>
   agrees tmp s (control w') (store w')"
  by (auto simp: handle_theme_line_def Let_def good_env_def agrees_theme split: if_splits option.splits)

interpretation kept: worker_invariant "\<lambda>w. good_env tmp env \<longrightarrow> agrees tmp s (control w) (store w)" env "\<lambda>_ c. c"
  by unfold_locales (auto intro: agrees_connection_line agrees_theme_line agrees_setting_line)

interpretation kept_ui: worker_invariant "\<lambda>w. good_env tmp env \<longrightarrow> agrees tmp s (control w) (store w)" env apply_map_line
  by unfold_locales (auto intro: agrees_connection_line agrees_theme_line agrees_setting_line)

lemma agrees_round:
  assumes "good_env tmp env" "agrees tmp s (control w) (store w)"
  shows "stack_round env w = Some w' \<Longrightarrow> agrees tmp s (control w') (store w')"
    and "poll_runtime_controls env w = Some (seen, w') \<Longrightarrow> agrees tmp s (control w') (store w')"
proof -
  have l: "control (snd (poll_link env x)) = control x" "store (snd (poll_link env x)) = store x" for x
    by (simp_all add: poll_link_def split_def Let_def)
  have t: "control (snd (foldl (\<lambda>r l. take_telemetry env l r) (b, x) ls)) = control x"
    "store (snd (foldl (\<lambda>r l. take_telemetry env l r) (b, x) ls)) = store x" for b x ls
    by (induction ls arbitrary: b x) (simp_all add: take_telemetry_def Let_def)
  have c: "agrees tmp s (control x) (store x) \<Longrightarrow>
      agrees tmp s (control (lost_connection env x)) (store (lost_connection env x))" for x
    by (simp add: lost_connection_def set_connection_def)
  show "agrees tmp s (control w') (store w')" if "stack_round env w = Some w'"
  proof -
    have "poll_workers (\<lambda>_ c. c) env (poll_discovery env (broadcast_lines env (fst (poll_link env w))
        (snd (poll_link env w)))) = Some w'"
      using that by (simp add: stack_round_def split_def Let_def)
    from kept.workers[OF kept.discovers this, of tmp s] show ?thesis using assms by (simp add: l)
  qed
  show "agrees tmp s (control w') (store w')" if "poll_runtime_controls env w = Some (seen, w')"
  proof -
    have "poll_workers apply_map_line env (poll_discovery env (lost_connection env (snd (foldl
        (\<lambda>r l. take_telemetry env l r) (False, snd (poll_link env w)) (fst (poll_link env w)))))) = Some w'"
      using that by (auto simp: poll_runtime_controls_def split_def Let_def)
    from kept_ui.workers[OF kept_ui.discovers this, of tmp s] show ?thesis using assms by (simp add: l t c)
  qed
qed

text \<open>One setting is kept through a run of the shared loop whose writes leave its file as it is.\<close>

lemma agrees_loop:
  "\<forall>(env, x, put) \<in> set rounds. good_env tmp env \<and> (\<forall>fs. stored tmp s (put fs) = stored tmp s fs) \<Longrightarrow>
   agrees tmp s (control w) (store w) \<Longrightarrow> shared_loop children rounds w = Some w' \<Longrightarrow>
   agrees tmp s (control w') (store w')"
proof (induction rounds arbitrary: w)
  case (Cons r rounds)
  obtain env exited put where r: "r = (env, exited, put)" using prod_cases3 by blast
  with Cons.prems(1) have g: "good_env tmp env" "stored tmp s (put (store w)) = stored tmp s (store w)" by simp_all
  from Cons.prems(3) r obtain w1 where w1: "stack_round env (w\<lparr>store := put (store w)\<rparr>) = Some w1"
    by (auto split: option.splits)
  have "agrees tmp s (control (w\<lparr>store := put (store w)\<rparr>)) (store (w\<lparr>store := put (store w)\<rparr>))"
    using Cons.prems(2) g(2) by (simp add: agrees_def)
  note a = agrees_round(1)[OF g(1) this w1]
  with Cons.IH[OF _ a] Cons.prems w1 r show ?case by (auto split: if_splits)
qed simp

lemma agrees_start:
  assumes "start_stack Kms_stack env argv0 o' fs = (Inr w, p)" "\<forall>q. le_writable env q"
  shows "agrees (le_tmp env) s (control w) (store w)"
proof -
  let ?t = "le_tmp env" let ?w = "le_writable env"
  obtain t where c: "control w = (initial_control ?t (store_defaults Kms_stack ?t ?w fs))\<lparr>telemetry_connection := t\<rparr>"
    "store w = store_defaults Kms_stack ?t ?w fs"
    using assms(1) by (auto simp: start_stack_def Let_def split_def split: if_splits)
  note f = flag_written[OF assms(2) refl]
  have "agrees ?t s (initial_control ?t (store_defaults Kms_stack ?t ?w fs)) (store_defaults Kms_stack ?t ?w fs)"
    by (cases s) (simp_all add: agrees_def initial_control_def,
      simp_all add: store_defaults_def setting_defs setter_defs setting_path_defs f)
  then show ?thesis unfolding c by simp
qed

text \<open>A line that sets a setting, in the hands of the controller: nothing else takes it.\<close>

lemma setting_line_taken:
  assumes "val \<in> set (setting_values s)"
  shows "handle_event on_ui env (client, ''set '' @ setting_name s @ '' '' @ val) w
    = handle_setting_line env (''set '' @ setting_name s @ '' '' @ val) w"
proof -
  have "handle_setting_line env (''set '' @ setting_name s @ '' '' @ val) w \<noteq> None"
    using assms by (cases s) (auto simp: setting_values_def handle_setting_line_def Let_def)
  moreover have "\<not> starts_with ''hello '' (''set '' @ setting_name s @ '' '' @ val)" by (simp add: starts_with_def)
  moreover have "handle_get_line env (''set '' @ setting_name s @ '' '' @ val) client w = None"
    by (simp add: handle_get_line_def)
  moreover have "handle_telemetry_connection_line env (''set '' @ setting_name s @ '' '' @ val) client w = (False, w)"
    "handle_network_line env (''set '' @ setting_name s @ '' '' @ val) client w = (False, w)"
    using assms by (cases s; auto simp: setting_values_def handle_telemetry_connection_line_def handle_network_line_def
        starts_with_def)+
  ultimately show ?thesis by (auto simp: handle_event_def)
qed

lemma setting_line_stores:
  assumes "val \<in> set (setting_values s)" "good_env tmp env"
    "handle_setting_line env (''set '' @ setting_name s @ '' '' @ val) w = Some v"
  shows "told s (control v) = val \<and> stored tmp s (store v) = val"
proof -
  have wr: "\<forall>p. re_writable env p" and tmp: "re_tmp env = tmp" using assms(2) by (simp_all add: good_env_def)
  have l: "osd_layout tmp (set_osd_layout tmp (re_writable env) val x) = val" if "norm_layout val = val" for x
    using layout.get_put[of "re_writable env" tmp val x] wr that by simp
  note f = flag_written(1)[OF wr refl]
  show ?thesis
  proof (cases "s = Layout_setting")
    case True
    then have "norm_layout val = val" using assms(1) by (auto simp: setting_values_def norm_layout_def)
    then show ?thesis using True assms(1,3) l
      by (auto simp: setting_values_def handle_setting_line_def change_control_def Let_def tmp)
  next
    case False
    then have "val = ''0'' \<or> val = ''1''" using assms(1) by (simp add: setting_values_def)
    then show ?thesis using False assms(3) f
      by (cases s; elim disjE) (auto simp: handle_setting_line_def change_control_def Let_def tmp flag_def setting_defs setter_defs)
  qed
qed

text \<open>
  C8: What the controller of the KMS stack tells its workers about the five settings (the three overlays, the
  top bar, the layout) is what the settings files say, as long as the files can be written. The workers write
  the same files, so every round may start from files they have replaced in any way
  (shared_loop; without such writes it is the loop of the stack). After any such rounds,
  whatever the workers and the network sent, the controller and the file agree about every setting whose value
  none of the workers' writes changed (a worker that writes back the value it was told changes nothing),
  whatever they did to the other files. And whatever the workers wrote, the next line that sets the setting,
  from any worker, puts it right: then the file and the controller both have the value of that line.
\<close>

theorem settings_agree:
  assumes "start_stack Kms_stack env argv0 o' fs = (Inr w, p)" "\<forall>q. le_writable env q"
    "\<forall>(e, x, put) \<in> set rounds. good_env (le_tmp env) e" "shared_loop children rounds w = Some w'"
  shows "((\<forall>(e, x, put) \<in> set rounds. \<forall>fs. stored (le_tmp env) s (put fs) = stored (le_tmp env) s fs) \<longrightarrow>
      told s (control w') = stored (le_tmp env) s (store w')) \<and>
    (\<forall>e client val v. good_env (le_tmp env) e \<longrightarrow> val \<in> set (setting_values s) \<longrightarrow>
      handle_event (\<lambda>_ c. c) e (client, ''set '' @ setting_name s @ '' '' @ val) w' = Some v \<longrightarrow>
      told s (control v) = val \<and> stored (le_tmp env) s (store v) = val)"
proof (intro conjI impI allI)
  assume "\<forall>(e, x, put) \<in> set rounds. \<forall>fs. stored (le_tmp env) s (put fs) = stored (le_tmp env) s fs"
  with assms(3) have "\<forall>(e, x, put) \<in> set rounds. good_env (le_tmp env) e \<and> (\<forall>fs. stored (le_tmp env) s (put fs) = stored (le_tmp env) s fs)"
    by fast
  from agrees_loop[OF this agrees_start[OF assms(1,2)] assms(4)]
  show "told s (control w') = stored (le_tmp env) s (store w')" by (simp add: agrees_def)
next
  fix e client val v
  assume l: "good_env (le_tmp env) e" "val \<in> set (setting_values s)"
    "handle_event (\<lambda>_ c. c) e (client, ''set '' @ setting_name s @ '' '' @ val) w' = Some v"
  note t = setting_line_stores[OF l(2,1) l(3)[unfolded setting_line_taken[OF l(2)]]]
  show "told s (control v) = val" using t by simp
  show "stored (le_tmp env) s (store v) = val" using t by simp
qed

definition plain_launch :: launch_env where
  "plain_launch =
     \<lparr>le_listen = \<lparr>ls_socket = 3, ls_bind_ok = True, ls_listen_ok = True, ls_error = []\<rparr>,
      le_bridge = \<lparr>runtime_ok = True, new_socket = 4, bind_ok = True, errno = 0\<rparr>,
      le_discovery = \<lparr>sa_host = None, sa_socket = - 1, sa_bind_ok = True, sa_errno = 0\<rparr>,
      le_tmp = ''/tmp'', le_writable = \<lambda>_. True, le_view = 11, le_flow = 12, le_ui = 13\<rparr>"

definition one_line :: "string \<Rightarrow> round_env" where
  "one_line text =
     \<lparr>re_send = \<lambda>_ l. int (length l), re_accepted = [7],
      re_received = \<lambda>_. [Data (text @ [CHR 0x0A])], re_link = [], re_link_send = \<lambda>_ p. int (length p),
      re_runtime = True, re_resolve = \<lambda>_ _. None, re_destinations = [], re_own = [], re_now = 0, re_datagrams = [],
      re_ip = \<lambda>_. [], re_tmp = ''/tmp'', re_writable = \<lambda>_. True\<rparr>"

definition demo_world :: world where
  "demo_world = projr (fst (start_stack Kms_stack plain_launch ''/usr/bin/openhd-glide'' default_options (\<lambda>_. None)))"

lemma demo_world_starts:
  "start_stack Kms_stack plain_launch ''/usr/bin/openhd-glide'' default_options (\<lambda>_. None)
   = (Inr demo_world, snd (start_stack Kms_stack plain_launch ''/usr/bin/openhd-glide'' default_options (\<lambda>_. None)))"
  by (simp add: demo_world_def prod_eq_iff) (simp add: start_stack_def plain_launch_def listen_on_def Let_def split_def
      server_close_def new_server_def)

lemma demo_world_ipc:
  "listen_fd (ipc demo_world) = 3" "clients (ipc demo_world) = []" "next_client_id (ipc demo_world) = 1"
  "sent (ipc demo_world) = []"
  by (simp_all add: demo_world_def start_stack_def plain_launch_def listen_on_def Let_def split_def
      server_close_def new_server_def)

lemma demo_discovery: "poll_state_lines [] [] 0 [] (discovery demo_world) = ([], discovery demo_world)"
  by (simp add: demo_world_def start_stack_def plain_launch_def listen_on_def Let_def split_def server_close_def
      new_server_def start_network_discovery_def Net_Discovery.start_def stop_def new_service_def poll_state_lines_def
      Net_Discovery.running_def)

lemma demo_line: "drain_lines (''set fps 0'' @ [CHR 0x0A]) = ([''set fps 0''], [])"
  by code_simp

lemma one_line_env:
  "re_accepted (one_line t) = [7]" "re_received (one_line t) = (\<lambda>_. [Data (t @ [CHR 0x0A])])"
  by (simp_all add: one_line_def)

lemma demo_round:
  "\<exists>w. stack_round (one_line ''set fps 0'') (demo_world\<lparr>store := fs\<rparr>) = Some w \<and> \<not> fps_on (control w)"
proof -
  let ?w0 = "demo_world\<lparr>store := fs\<rparr>"
  have e: "server_poll [7] (\<lambda>_. [Data (''set fps 0'' @ [CHR 0x0A])]) (ipc ?w0)
      = ([(1, ''set fps 0'')], snd (server_poll [7] (\<lambda>_. [Data (''set fps 0'' @ [CHR 0x0A])]) (ipc ?w0)))"
    using demo_line by (simp add: server_poll_def demo_world_ipc Let_def split_def serve_client_def)
  let ?env = "one_line ''set fps 0''" let ?v = "?w0\<lparr>ipc := snd (server_poll (re_accepted ?env) (re_received ?env) (ipc ?w0))\<rparr>"
  have p: "poll_workers (\<lambda>_ c. c) ?env ?w0 = handle_events (\<lambda>_ c. c) ?env [(1, ''set fps 0'')] ?v"
  proof -
    have "fst (server_poll (re_accepted ?env) (re_received ?env) (ipc ?w0)) = [(1, ''set fps 0'')]"
      using arg_cong[OF e, of fst] by (simp only: one_line_env fst_conv)
    then show ?thesis by (simp only: poll_workers_def split_def Let_def)
  qed
  obtain w where "handle_event (\<lambda>_ c. c) ?env (1, ''set fps 0'') ?v = Some w" "\<not> fps_on (control w)"
    by (simp add: handle_event_def starts_with_def handle_get_line_def handle_telemetry_connection_line_def
        handle_network_line_def handle_setting_line_def change_control_def)
  then have "\<exists>w. poll_workers (\<lambda>_ c. c) ?env ?w0 = Some w \<and> \<not> fps_on (control w)"
    unfolding p by simp
  moreover have "poll_discovery (one_line t) ?w0 = ?w0" for t
    by (simp add: poll_discovery_def one_line_def demo_discovery broadcast_lines_def)
  moreover have "poll_link (one_line t) ?w0 = ([], ?w0)" for t
    by (simp add: poll_link_def one_line_def Mavlink_Bridge.poll_def)
  ultimately show ?thesis
    by (simp add: stack_round_def broadcast_lines_def)
qed

theorem settings_agree_witness:
  "\<exists>w. shared_loop [11, 12, 13] [(one_line ''set fps 0'', 1, set_compact_readouts_enabled ''/tmp'' (\<lambda>_. True) True)] demo_world = Some w
     \<and> \<not> fps_on (control w) \<and> \<not> fps_overlay_enabled ''/tmp'' (store w)"
proof -
  let ?put = "set_compact_readouts_enabled ''/tmp'' (\<lambda>_. True) True"
  obtain w where w: "shared_loop [11, 12, 13] [(one_line ''set fps 0'', 1, ?put)] demo_world = Some w" "\<not> fps_on (control w)"
    using demo_round[of "?put (store demo_world)"] by auto
  have e: "le_tmp plain_launch = ''/tmp''" "\<forall>q. le_writable plain_launch q" "good_env ''/tmp'' (one_line l)" for l
    by (simp_all add: plain_launch_def good_env_def one_line_def)
  have "stored ''/tmp'' Fps_setting (?put fs) = stored ''/tmp'' Fps_setting fs" for fs
    using flag_written(2)[of "\<lambda>_. True", OF _ refl] by (simp add: setting_defs setter_defs setting_path_defs)
  with settings_agree[OF demo_world_starts _ _ w(1), of Fps_setting] e have "fps_on (control w) = fps_overlay_enabled ''/tmp'' (store w)"
    by simp
  with w show ?thesis by auto
qed

text \<open>The preview stack does not store the coordinates switch, which it tells its workers is on.\<close>

lemma preview_stack_coordinates:
  assumes "start_stack Preview_stack env argv0 o' fs = (Inr w, p)"
  shows "coordinates_on (control w) \<and>
    coordinates_overlay_enabled (le_tmp env) (store w) = coordinates_overlay_enabled (le_tmp env) fs"
proof -
  have "control w = (initial_control (le_tmp env) (store w))\<lparr>telemetry_connection := telemetry_connection (control w)\<rparr>"
    "store w = store_defaults Preview_stack (le_tmp env) (le_writable env) fs"
    using assms by (auto simp: start_stack_def Let_def split_def split: if_splits)
  then have "coordinates_on (control w)"
    by (metis (no_types, lifting) control_state.select_convs(2) control_state.surjective
        control_state.update_convs(6) initial_control_def)
  moreover have "coordinates_overlay_enabled (le_tmp env) (store_defaults Preview_stack (le_tmp env) wr fs)
      = coordinates_overlay_enabled (le_tmp env) fs" for wr
    by (simp add: store_defaults_def setting_defs setter_defs setting_path_defs read_flag_def write_enabled_file_def
        write_file_def)
  ultimately show ?thesis
    using \<open>store w = _\<close> by simp
qed

section \<open>A new worker\<close>

definition connected :: "int \<Rightarrow> int \<Rightarrow> world \<Rightarrow> bool" where
  "connected client descriptor w \<longleftrightarrow> map_option cs_fd (List.find (\<lambda>c. cs_id c = client) (clients (ipc w))) = Some descriptor"

definition lines_sent :: "int \<Rightarrow> string list \<Rightarrow> (int \<times> string) list" where
  "lines_sent descriptor ls = map (\<lambda>l. (descriptor, line_payload l)) ls"

lemma send_to_connected:
  "connected c d w \<Longrightarrow> sent (ipc (send_to env c l w)) = sent (ipc w) @ lines_sent d [l] \<and> connected c' d' (send_to env c l w) = connected c' d' w"
  by (auto simp: connected_def send_to_def server_send_line_def lines_sent_def)

lemma send_lines_connected:
  "connected c d w \<Longrightarrow> sent (ipc (send_lines env c ls w)) = sent (ipc w) @ lines_sent d ls \<and> connected c d (send_lines env c ls w)"
proof (induction ls arbitrary: w)
  case (Cons l ls)
  from send_to_connected[OF Cons.prems, of env l c d] Cons.prems
  have "sent (ipc (send_to env c l w)) = sent (ipc w) @ lines_sent d [l]" "connected c d (send_to env c l w)" by auto
  with Cons.IH[of "send_to env c l w"] show ?case by (simp add: send_lines_def lines_sent_def)
qed (simp add: send_lines_def lines_sent_def)

text \<open>
  A worker that says hello gets, in order, the switches, the layout, the telemetry connection, the
  theme and every known peer, as the controller has them at that moment; nothing goes to anyone else
  and nothing of the controller's state changes.
\<close>

theorem hello_gets_state:
  assumes "starts_with ''hello '' line" "connected client d w"
  shows "\<exists>w'. handle_event on_ui env (client, line) w = Some w'
    \<and> sent (ipc w') = sent (ipc w) @ lines_sent d
        (control_lines (control w) @ map (theme_line (re_tmp env) (store w)) theme_keys
         @ ''state net idle'' # map peer_line (peers (discovery w)))
    \<and> control w' = control w \<and> store w' = store w"
proof -
  let ?w1 = "send_lines env client (control_lines (control w)) w"
  note 1 = send_lines_connected[OF assms(2), of env "control_lines (control w)"]
  let ?w2 = "send_lines env client (map (theme_line (re_tmp env) (store w)) theme_keys) ?w1"
  note 2 = send_lines_connected[OF conjunct2[OF 1], of env "map (theme_line (re_tmp env) (store w)) theme_keys"]
  note 3 = send_lines_connected[OF conjunct2[OF 2], of env "''state net idle'' # map peer_line (peers (discovery w))"]
  show ?thesis
    using assms(1) 1 2 3
    by (simp add: handle_event_def send_network_state_def send_initial_control_state_def send_theme_state_def
        lines_sent_def)
qed

definition one_client :: world where
  "one_client = demo_world\<lparr>ipc := (ipc demo_world)\<lparr>clients := [\<lparr>cs_id = 1, cs_fd = 7, cs_buffer = []\<rparr>], next_client_id := 2\<rparr>\<rparr>"

theorem hello_gets_state_witness:
  "\<exists>w'. handle_event (\<lambda>_ c. c) (one_line []) (1, ''hello glide-ui'') one_client = Some w'
    \<and> sent (ipc w') = sent (ipc one_client) @ lines_sent 7
        (control_lines (control one_client) @ map (theme_line ''/tmp'' (store one_client)) theme_keys
         @ ''state net idle'' # map peer_line (peers (discovery one_client)))"
proof -
  have "starts_with ''hello '' ''hello glide-ui''" "connected 1 7 one_client"
    by (simp_all add: starts_with_def connected_def one_client_def)
  from hello_gets_state[OF this, of "\<lambda>_ c. c" "one_line []"] show ?thesis
    by (auto simp: one_line_def)
qed

end
