(* ===== verification/Controller_Safety.thy ===== *)
theory Controller_Safety
  imports Controller_Flow
begin

text \<open>
  More guarantees of the controller: what theme lines do, how the telemetry of a round reaches the
  snapshot and the workers, that no worker is left running, and the ranges of the options.
\<close>

section \<open>Theme lines\<close>

lemma theme_line_parts:
  assumes "CHR '' '' \<notin> set key"
  shows "takeWhile (\<lambda>c. c \<noteq> CHR '' '') (key @ CHR '' '' # val) = key"
  by (rule takeWhile_append_stop) (use assms in auto)

lemma theme_line_value:
  assumes "CHR '' '' \<notin> set key" "length val = 6"
  shows "handle_theme_line env (''set theme '' @ key @ CHR '' '' # val) w =
     (case stoul 16 val of None \<Rightarrow> None
      | Some v \<Rightarrow> (let fs = set_theme_color (re_tmp env) (re_writable env) key (ucast v) (store w)
                   in Some (True, to_all env (theme_line (re_tmp env) fs key) (w\<lparr>store := fs\<rparr>))))"
  using assms
  by (simp add: handle_theme_line_def starts_with_def theme_line_parts Let_def split: option.split)

text \<open>Six hexadecimal digits are read as the number they are.\<close>

lemma digits_base_16: "digits_base 16 ds = xdigits_val ds"
  by (simp add: digits_base_def xdigits_val_def)

lemma xdigit_val_less: "is_xdigit c \<Longrightarrow> xdigit_val c < 16"
  by (auto simp: is_xdigit_def xdigit_val_def Let_def)

lemma xdigits_val_less: "\<forall>c \<in> set ds. is_xdigit c \<Longrightarrow> xdigits_val ds < 16 ^ length ds"
proof (induction ds rule: rev_induct)
  case (snoc d ds)
  then have "xdigits_val ds < 16 ^ length ds" "xdigit_val d < 16" by (simp_all add: xdigit_val_less)
  then show ?case by (simp add: xdigits_val_def)
qed (simp add: xdigits_val_def)

text \<open>No hexadecimal digit is white space, a sign, a NUL or an x.\<close>

lemma xdigit_plain:
  assumes "is_xdigit y"
  shows "\<not> is_space y \<and> y \<noteq> CHR ''-'' \<and> y \<noteq> CHR ''+'' \<and> y \<noteq> CHR 0x00 \<and> to_lower y \<noteq> CHR ''x''"
proof -
  have "to_lower y = CHR ''x'' \<Longrightarrow> y = CHR ''x'' \<or> y = CHR ''X''"
  proof -
    assume l: "to_lower y = CHR ''x''"
    have "(of_char (CHR ''x'') :: nat) = 120" by simp
    then have "of_char (to_lower y) = (120 :: nat)" using l by simp
    then have "of_char y = (120 :: nat) \<or> of_char y = (88 :: nat)"
      by (auto simp: to_lower_def Let_def split: if_splits)
    then have "of_char y = (of_char (CHR ''x'') :: nat) \<or> of_char y = (of_char (CHR ''X'') :: nat)" by simp
    then show ?thesis by (simp only: of_char_eq_iff)
  qed
  then show ?thesis
    using assms by (auto simp: is_xdigit_def is_space_def)
qed

lemma stoul_hex6:
  assumes "length val = 6" "list_all is_xdigit val"
  shows "stoul 16 val = Some (of_nat (xdigits_val val))"
proof -
  obtain a b c d e f where v: "val = [a, b, c, d, e, f]"
    using assms(1) by (auto simp: numeral_eq_Suc length_Suc_conv)
  have x: "\<forall>y \<in> set val. is_xdigit y" using assms(2) by (simp add: list_all_iff)
  have p: "\<forall>y \<in> set val. \<not> is_space y \<and> y \<noteq> CHR ''-'' \<and> y \<noteq> CHR ''+'' \<and> y \<noteq> CHR 0x00 \<and> to_lower y \<noteq> CHR ''x''"
    using x xdigit_plain by blast
  have "c_str val = val" using p by (simp add: c_str_def takeWhile_all)
  moreover have "takeWhile is_xdigit val = val" using x by (simp add: takeWhile_all)
  moreover have "xdigits_val val < 16 ^ length val" by (rule xdigits_val_less[OF x])
  ultimately show ?thesis
    using p v by (simp add: stoul_def number_base_def base_digit_def digits_base_16 Let_def)
qed

lemma theme_not_others:
  assumes "take 10 line = ''set theme ''"
  shows "\<not> starts_with ''hello '' line" "handle_get_line env line client w = None"
    "handle_telemetry_connection_line env line client w = (False, w)" "handle_network_line env line client w = (False, w)"
    "handle_setting_line env line w = None"
proof -
  obtain r where l: "line = ''set theme '' @ r"
    using assms by (metis append_take_drop_id)
  show "\<not> starts_with ''hello '' line" "handle_get_line env line client w = None"
    "handle_telemetry_connection_line env line client w = (False, w)" "handle_network_line env line client w = (False, w)"
    "handle_setting_line env line w = None"
    unfolding l
    by (simp_all add: starts_with_def handle_get_line_def handle_telemetry_connection_line_def
        handle_network_line_def handle_setting_line_def)
qed

lemma theme_event:
  assumes "CHR '' '' \<notin> set key" "length val = 6"
  shows "handle_event on_ui env (client, ''set theme '' @ key @ CHR '' '' # val) w =
     (case stoul 16 val of None \<Rightarrow> None
      | Some v \<Rightarrow> (let fs = set_theme_color (re_tmp env) (re_writable env) key (ucast v) (store w)
                   in Some (to_all env (theme_line (re_tmp env) fs key) (w\<lparr>store := fs\<rparr>))))"
proof -
  let ?l = "''set theme '' @ key @ CHR '' '' # val"
  have "take 10 ?l = ''set theme ''" by simp
  note n = theme_not_others[OF this]
  show ?thesis
    unfolding handle_event_def
    by (simp only: prod.case Let_def n if_False option.case bool.case theme_line_value[OF assms])
       (simp split: option.split)
qed

text \<open>
  A worker's theme line with six hexadecimal digits stores exactly that color, which every reader of
  the setting then gets, and tells it to every worker.
\<close>

theorem theme_line_stores:
  assumes "CHR '' '' \<notin> set key" "length val = 6" "list_all is_xdigit val" "re_writable env (theme_color_path (re_tmp env) key)"
  shows "\<exists>w'. handle_event on_ui env (client, ''set theme '' @ key @ CHR '' '' # val) w = Some w'
    \<and> theme_color (re_tmp env) key (store w') = of_nat (xdigits_val val)
    \<and> w' = to_all env (theme_line (re_tmp env) (store w') key) (w\<lparr>store := store w'\<rparr>)"
proof -
  have "xdigits_val val < 2 ^ 24"
    using xdigits_val_less[of val] assms(2,3) by (simp add: list_all_iff)
  note n = this
  have v1: "(ucast (of_nat (xdigits_val val) :: u64) :: u32) = of_nat (xdigits_val val)"
    using n by (simp add: word_unat_eq_iff unsigned_ucast_eq unsigned_of_nat take_bit_eq_mod)
  have "(of_nat (xdigits_val val) :: u32) AND 0xFFFFFF = take_bit 24 (of_nat (xdigits_val val))"
    by (simp add: take_bit_eq_mask mask_eq_exp_minus_1)
  also have "\<dots> = of_nat (xdigits_val val)"
    using n unfolding word_unat_eq_iff unsigned_take_bit_eq unsigned_of_nat by (simp add: take_bit_eq_mod)
  finally have v2: "(of_nat (xdigits_val val) :: u32) AND 0xFFFFFF = of_nat (xdigits_val val)" .
  let ?fs = "set_theme_color (re_tmp env) (re_writable env) key (of_nat (xdigits_val val)) (store w)"
  have "theme_color (re_tmp env) key ?fs = of_nat (xdigits_val val)"
    using theme.get_put[of "re_writable env" "re_tmp env" key] assms(4) v2 by simp
  then show ?thesis
    unfolding theme_event[OF assms(1,2)] by (simp add: stoul_hex6[OF assms(2,3)] v1 Let_def)
qed

theorem theme_line_stores_witness:
  "\<exists>w'. handle_event (\<lambda>_ c. c) (one_line []) (1, ''set theme primary 55a8FF'') demo_world = Some w'
    \<and> theme_color ''/tmp'' ''primary'' (store w') = 0x55A8FF"
proof -
  have "CHR '' '' \<notin> set ''primary''" "length ''55a8FF'' = 6" "list_all is_xdigit ''55a8FF''"
    "re_writable (one_line []) (theme_color_path (re_tmp (one_line [])) ''primary'')"
    "re_tmp (one_line []) = ''/tmp''" "xdigits_val ''55a8FF'' = 0x55A8FF"
    by (simp_all add: one_line_def is_xdigit_def xdigits_val_def xdigit_val_def)
  with theme_line_stores[of "''primary''" "''55a8FF''" "one_line []" "\<lambda>_ c. c" 1 demo_world] show ?thesis by auto
qed

text \<open>
  C36: One line of a worker can end the controller: a theme line whose six characters do not start a
  hexadecimal number raises the exception of \<open>std::stoul\<close>, and nothing catches it, neither in a
  round of a stack's loop nor in \<open>poll_runtime_controls\<close>.
\<close>

theorem theme_line_ends_process:
  assumes "CHR '' '' \<notin> set key" "length val = 6" "\<not> is_xdigit (hd val)" "\<not> is_space (hd val)"
    "hd val \<noteq> CHR ''-''" "hd val \<noteq> CHR ''+''"
    "server_poll (re_accepted env) (re_received env) (ipc w0) = (before @ (client, ''set theme '' @ key @ CHR '' '' # val) # after, s)"
    "handle_events on_ui env before (w0\<lparr>ipc := s\<rparr>) = Some w"
  shows "poll_workers on_ui env w0 = None"
proof -
  obtain c cs where v: "val = c # cs" using assms(2) by (cases val) auto
  have "c \<noteq> CHR ''0''" using assms(3) by (auto simp: v is_xdigit_def)
  then have "stoul 16 val = None"
    using assms(3-6)
    by (cases "c = CHR 0x00") (simp_all add: v stoul_def c_str_def number_base_def base_digit_def split_def Let_def)
  then have "handle_event on_ui env (client, ''set theme '' @ key @ CHR '' '' # val) w = None"
    unfolding theme_event[OF assms(1,2)] by simp
  moreover have "handle_events on_ui env (xs @ ys) u = Option.bind (handle_events on_ui env xs u) (handle_events on_ui env ys)"
    for xs ys u
    by (induction xs arbitrary: u) (auto split: option.splits)
  ultimately show ?thesis
    using assms(8) by (simp add: poll_workers_def assms(7))
qed

theorem theme_line_ends_process_witness:
  "poll_workers (\<lambda>_ c. c) (one_line ''set theme primary yellow'') demo_world = None"
proof -
  have d: "drain_lines (''set theme primary yellow'' @ [CHR 0x0A]) = ([''set theme primary yellow''], [])"
    by code_simp
  have "server_poll (re_accepted (one_line ''set theme primary yellow'')) (re_received (one_line ''set theme primary yellow''))
      (ipc demo_world) = ([] @ (1, ''set theme '' @ ''primary'' @ CHR '' '' # ''yellow'') # [],
      snd (server_poll [7] (\<lambda>_. [Data (''set theme primary yellow'' @ [CHR 0x0A])]) (ipc demo_world)))"
    using d by (simp add: one_line_env server_poll_def demo_world_ipc Let_def split_def serve_client_def)
  from theme_line_ends_process[OF _ _ _ _ _ _ this] show ?thesis
    by (simp add: is_xdigit_def is_space_def)
qed

end
