(* ===== verification/Controller_Rounds.thy ===== *)
theory Controller_Rounds
  imports Controller_Safety
begin

text \<open>
  Guarantees of the controller over whole rounds and runs: the telemetry of a round is in the snapshot
  and on every worker's socket, a TCP link that is shown is one that is open, no worker is left without
  its signal, and the options the modes read are in their ranges.
\<close>

section \<open>The telemetry of a round\<close>

lemma change_control_keeps [simp]:
  "telemetry (change_control env f put l w) = telemetry w" "link (change_control env f put l w) = link w"
  "control (change_control env f put l w) = f (control w)"
  by (simp_all add: change_control_def)

lemma setting_line_keeps:
  "case handle_setting_line env line w of None \<Rightarrow> True
   | Some w' \<Rightarrow> telemetry w' = telemetry w \<and> link w' = link w
      \<and> telemetry_connection (control w') = telemetry_connection (control w)"
  unfolding handle_setting_line_def Let_def if_distrib[of "case_option True _"] by simp

lemma setting_line_telemetry: "handle_setting_line env line w = Some w' \<Longrightarrow> telemetry w' = telemetry w"
  using setting_line_keeps[where env = env and line = line and w = w] by simp

lemma theme_line_telemetry: "handle_theme_line env line w = Some (b, w') \<Longrightarrow> telemetry w' = telemetry w"
  by (simp add: handle_theme_line_def Let_def split: if_splits option.splits) auto

lemma connection_line_telemetry: "telemetry (snd (handle_telemetry_connection_line env line client w)) = telemetry w"
  by (simp add: handle_telemetry_connection_line_def set_connection_def Let_def split_def)

interpretation telemetry_kept: worker_invariant "\<lambda>w. telemetry w = t" env on_ui
  by unfold_locales (simp_all add: setting_line_telemetry theme_line_telemetry connection_line_telemetry)

definition telemetry_lines :: "string list \<Rightarrow> string list" where
  "telemetry_lines ls = concat (map split_lines (filter (starts_with ''mav '') ls))"

lemma apply_lines_append: "apply_lines s (xs @ ys) = apply_lines (apply_lines s xs) ys"
  by (simp add: apply_lines_def)

lemma take_telemetry_fold:
  "foldl (\<lambda>r l. take_telemetry env l r) (seen, w) ls =
     (seen \<or> list_ex is_osd_telemetry_line (telemetry_lines ls),
      broadcast_lines env ls (w\<lparr>telemetry := apply_lines (telemetry w) (telemetry_lines ls)\<rparr>))"
proof (induction ls arbitrary: seen w)
  case (Cons l ls)
  have t: "to_all env l v\<lparr>telemetry := x\<rparr> = to_all env l (v\<lparr>telemetry := x\<rparr>)" for v x
    by (simp add: to_all_def)
  have tl: "telemetry_lines (l # ls) = (if starts_with ''mav '' l then split_lines l else []) @ telemetry_lines ls"
    by (simp add: telemetry_lines_def)
  show ?case
    unfolding tl foldl_Cons take_telemetry_def[of env l] prod.case Let_def Cons.IH apply_lines_append list_ex_append
    by (auto simp: broadcast_lines_def t)
qed (simp add: telemetry_lines_def apply_lines_def broadcast_lines_def)

text \<open>
  After a round of \<open>poll_runtime_controls\<close> the snapshot is the old one with every telemetry line
  that the bridge decoded in this round applied in order, and the round says that telemetry for the
  display arrived exactly when one of those lines is such a line; no line of a worker changes it.
\<close>

theorem round_takes_telemetry:
  "case poll_runtime_controls env w of None \<Rightarrow> True
   | Some (seen, w') \<Rightarrow>
       (let ls = telemetry_lines (fst (Mavlink_Bridge.poll (re_link env) (link w))) in
        telemetry w' = apply_lines (telemetry w) ls \<and> (seen \<longleftrightarrow> list_ex is_osd_telemetry_line ls))"
proof (cases "poll_runtime_controls env w")
  case (Some r)
  obtain seen w' where r: "r = (seen, w')" by fastforce
  note assms = Some[unfolded r]
  obtain ls w1 where p: "poll_link env w = (ls, w1)" by fastforce
  let ?v = "broadcast_lines env ls (w1\<lparr>telemetry := apply_lines (telemetry w1) (telemetry_lines ls)\<rparr>)"
  have d: "telemetry (poll_discovery env (lost_connection env x)) = telemetry x" for x
    by (simp add: poll_discovery_def lost_connection_def set_connection_def split_def Let_def)
  have w: "poll_workers apply_map_line env (poll_discovery env (lost_connection env ?v)) = Some w'"
    "seen = list_ex is_osd_telemetry_line (telemetry_lines ls)"
    using assms by (auto simp: poll_runtime_controls_def p take_telemetry_fold)
  have "telemetry w' = telemetry (poll_discovery env (lost_connection env ?v))"
    by (rule telemetry_kept.workers[OF refl w(1)])
  then have "telemetry w' = apply_lines (telemetry w1) (telemetry_lines ls)" unfolding d by simp
  moreover have "ls = fst (Mavlink_Bridge.poll (re_link env) (link w))" "telemetry w1 = telemetry w"
    using p by (auto simp: poll_link_def split_def Let_def)
  ultimately show ?thesis using w(2) by (simp add: Some r Let_def)
qed simp

section \<open>A TCP link that is shown is open\<close>

definition truthful :: "world \<Rightarrow> bool" where
  "truthful w \<longleftrightarrow> (starts_with ''TCP '' (telemetry_connection (control w)) \<longrightarrow> Mavlink_Bridge.running (link w))"

lemma description_truthful: "starts_with ''TCP '' (connection_description b) \<Longrightarrow> Mavlink_Bridge.running b"
  by (rule ccontr) (simp add: connection_description_def starts_with_def)

lemma send_packet_fd: "bridge.fd (snd (send_packet env mi ce pl b)) = bridge.fd b"
  by (simp add: send_packet_def Let_def)

lemma action_line_fd: "bridge.fd (snd (handle_action_line env line b)) = bridge.fd b"
  by (auto simp: handle_action_line_def send_param_ext_set_def send_param_set_def send_command_long_def
      send_packet_fd Let_def split_def split: option.splits)

lemma truthful_set_connection:
  "(starts_with ''TCP '' t \<Longrightarrow> Mavlink_Bridge.running (link w)) \<Longrightarrow> truthful (set_connection env t w)"
  by (simp add: truthful_def set_connection_def)

lemma truthful_same:
  assumes "truthful w" "telemetry_connection (control v) = telemetry_connection (control w)" "bridge.fd (link v) = bridge.fd (link w)"
  shows "truthful v"
  using assms by (simp add: truthful_def Mavlink_Bridge.running_def)

lemma truthful_lines:
  shows "truthful w \<Longrightarrow> handle_setting_line env line w = Some w' \<Longrightarrow> truthful w'"
    and "truthful w \<Longrightarrow> handle_theme_line env line w = Some (b, w') \<Longrightarrow> truthful w'"
    and "truthful w \<Longrightarrow> truthful (snd (handle_telemetry_connection_line env line client w))"
proof -
  show "truthful w'" if "truthful w" "handle_setting_line env line w = Some w'"
    by (rule truthful_same[OF that(1)]) (use that(2) setting_line_keeps[where env = env and line = line and w = w] in simp_all)
  show "truthful w'" if "truthful w" "handle_theme_line env line w = Some (b, w')"
    by (rule truthful_same[OF that(1)])
       (use that(2) in \<open>auto simp: handle_theme_line_def Let_def split: if_splits option.splits\<close>)
  show "truthful (snd (handle_telemetry_connection_line env line client w))" if "truthful w"
  proof -
    have "truthful (send_to env client l w)" for l by (rule truthful_same[OF that]) simp_all
    with that show ?thesis
      unfolding handle_telemetry_connection_line_def Let_def split_def
      by (auto intro!: truthful_set_connection description_truthful simp: starts_with_def split: if_splits)
  qed
qed

interpretation truth: worker_invariant truthful env apply_map_line
proof (unfold_locales, goal_cases)
  case (1 w s) show ?case by (rule truthful_same[OF 1]) simp_all
next
  case (2 w d) show ?case by (rule truthful_same[OF 2]) simp_all
next
  case (3 w f line) show ?case by (rule truthful_same[OF 3]) (simp_all add: action_line_fd)
next
  case (7 w line) show ?case by (rule truthful_same[OF 7]) (simp_all add: apply_map_line_def)
qed (blast intro: truthful_lines)+


text \<open>
  After a round of \<open>poll_runtime_controls\<close>, from any state and whatever the workers sent, a
  telemetry connection shown as TCP is one whose socket is open: a link the peer closed is reported in
  the round that sees it.
\<close>

theorem shown_tcp_is_open:
  "case poll_runtime_controls env w of None \<Rightarrow> True
   | Some (_, w') \<Rightarrow>
       if starts_with ''TCP '' (telemetry_connection (control w')) then Mavlink_Bridge.running (link w') else True"
proof (cases "poll_runtime_controls env w")
  case (Some r)
  obtain seen w' where r: "r = (seen, w')" by fastforce
  obtain v where v: "poll_workers apply_map_line env (poll_discovery env (lost_connection env v)) = Some w'"
    using Some r by (auto simp: poll_runtime_controls_def split_def Let_def)
  have "truthful (lost_connection env v)"
    by (cases "starts_with ''TCP '' (telemetry_connection (control v)) \<and> \<not> Mavlink_Bridge.running (link v)")
       (auto simp: lost_connection_def truthful_def set_connection_def starts_with_def)
  from truth.workers[OF truth.discovers[OF this] v] show ?thesis
    by (simp add: Some r truthful_def)
qed simp

text \<open>The loops of the stacks do not look at the link: without a worker's line the text stays as it is.\<close>

lemma stack_round_keeps_text:
  assumes "fst (server_poll (re_accepted env) (re_received env) s) = []"
    "s = ipc (poll_discovery env (broadcast_lines env (fst (poll_link env w)) (snd (poll_link env w))))"
  shows "\<exists>w'. stack_round env w = Some w' \<and> telemetry_connection (control w') = telemetry_connection (control w)
    \<and> link w' = snd (Mavlink_Bridge.poll (re_link env) (link w))"
  using assms
  by (auto simp: stack_round_def poll_workers_def poll_link_def poll_discovery_def split_def Let_def)

section \<open>No worker is left running\<close>

definition all_signalled :: "processes \<Rightarrow> bool" where
  "all_signalled p \<longleftrightarrow> {pid \<in> fst ` set (launched p). 0 < pid} \<subseteq> set (signalled p)"

lemma terminate_children:
  "launched (fold terminate_child ps p) = launched p"
  "set (signalled (fold terminate_child ps p)) = set (signalled p) \<union> {q \<in> set ps. 0 < q}"
  by (induction ps arbitrary: p) (auto simp: terminate_child_def)

lemma start_stack_processes:
  assumes "start_stack k env argv0 o' fs = (r, p)"
  shows "case r of Inl _ \<Rightarrow> all_signalled p | Inr _ \<Rightarrow> map fst (launched p) = [le_view env, le_flow env, le_ui env]"
  using assms
  by (auto simp: start_stack_def Let_def split_def all_signalled_def launch_child_def terminate_child_def
      split: if_splits)

text \<open>
  C35: When a stack ends, for a signal, because a worker exited or because it could not be started,
  every worker that was launched has been sent \<open>SIGTERM\<close>.
\<close>

theorem no_worker_left:
  "case run_stack k env argv0 o' fs rounds of None \<Rightarrow> True
   | Some (_, p) \<Rightarrow> {pid \<in> fst ` set (launched p). 0 < pid} \<subseteq> set (signalled p)"
proof -
  obtain r p where s: "start_stack k env argv0 o' fs = (r, p)" by fastforce
  show ?thesis
  proof (cases r)
    case (Inl code)
    then show ?thesis using start_stack_processes[OF s] by (simp add: s run_stack_def all_signalled_def)
  next
    case (Inr w)
    then have l: "map fst (launched p) = [le_view env, le_flow env, le_ui env]"
      using start_stack_processes[OF s] by (simp add: s)
    have "fst ` set (launched p) = {le_view env, le_flow env, le_ui env}"
      unfolding set_map[symmetric] l by simp
    then show ?thesis
      by (cases "stack_loop [le_view env, le_flow env, le_ui env] rounds w")
         (auto simp: run_stack_def s Inr terminate_children Let_def simp del: fold_append fold_simps)
  qed
qed

section \<open>The options\<close>

text \<open>A NaN is neither below nor above anything, so it stays as it is.\<close>

definition within :: "fp \<Rightarrow> fp \<Rightarrow> fp \<Rightarrow> bool" where
  "within lo hi x \<longleftrightarrow> \<not> fp_less x lo \<and> \<not> fp_less hi x"

lemma fp_less_irrefl: "\<not> fp_less x x"
  by (cases x) simp_all

lemma clamp_within: "\<not> fp_less hi lo \<Longrightarrow> within lo hi (fp_clamp lo hi x)"
  by (simp add: within_def fp_clamp_def fp_less_irrefl)

definition in_ranges :: "options \<Rightarrow> bool" where
  "in_ranges o' \<longleftrightarrow>
     within (fp_round f32 False 5 100) (fp_of_int f32 1) (ui_opacity o')
     \<and> within (fp_zero f64) (fp_of_int f64 240) (flow_fps o')
     \<and> within (fp_zero f64) (fp_of_int f64 240) (present_fps o')
     \<and> within (fp_round f64 False 1 4) (fp_of_int f64 1) (flow_render_scale o')"

definition one_decoder :: "options \<Rightarrow> bool" where
  "one_decoder o' \<longleftrightarrow> \<not> (native_cedar_video o' \<and> native_imxvpu_video o') \<and> \<not> (native_cedar_video o' \<and> native_rkmpp_video o')
     \<and> \<not> (native_imxvpu_video o' \<and> native_rkmpp_video o')"

lemma fp_constants:
  "fp_of_int f64 240 = FFin False (240 * 2 ^ 45) (- 45)" "fp_of_int f64 30 = FFin False (30 * 2 ^ 48) (- 48)"
  "fp_of_int f32 1 = FFin False (2 ^ 23) (- 23)" "fp_of_int f64 1 = FFin False (2 ^ 52) (- 52)"
  "fp_round f64 False 1 4 = FFin False (2 ^ 52) (- 54)" "fp_round f32 False 5 100 = FFin False 13421773 (- 28)"
  "fp_round f32 False 35 100 = FFin False 11744051 (- 25)" "fp_zero f64 = FFin False 0 (- 1074)"
  by (simp_all add: fp_of_int_def fp_round_def f32_def f64_def floor_log2_def bitlen.simps rne_def fp_zero_def Let_def)

lemma ranges_ordered:
  "\<not> fp_less (fp_of_int f32 1) (fp_round f32 False 5 100)" "\<not> fp_less (fp_of_int f64 240) (fp_zero f64)"
  "\<not> fp_less (fp_of_int f64 1) (fp_round f64 False 1 4)"
  unfolding fp_constants by (simp_all add: Let_def)

text \<open>What a chain of option tests keeps, shown for each of its ends.\<close>

definition keeps :: "(options \<Rightarrow> bool) \<Rightarrow> options option option \<Rightarrow> bool" where
  "keeps P r \<longleftrightarrow> (case r of Some (Some o1) \<Rightarrow> P o1 | _ \<Rightarrow> True)"

lemma keepsI:
  "keeps P x \<Longrightarrow> keeps P y \<Longrightarrow> keeps P (if c then x else y)" "keeps P None" "P o1 \<Longrightarrow> keeps P (Some (Some o1))"
  "(\<And>n. z = Some n \<Longrightarrow> P (f n)) \<Longrightarrow> keeps P (Some (map_option f z))"
  by (simp_all add: keeps_def split: option.split)

lemma if_keeps: "P x \<Longrightarrow> P y \<Longrightarrow> P (if c then x else y)"
  by simp

lemma flag_option_keeps:
  "in_ranges o' \<Longrightarrow> in_ranges (flag_option a o')" "one_decoder o' \<Longrightarrow> one_decoder (flag_option a o')"
  unfolding flag_option_def 
  by (intro if_keeps[where P = in_ranges]; simp add: in_ranges_def del: One_nat_def)
     (intro if_keeps[where P = one_decoder]; simp add: one_decoder_def)

lemma value_option_keeps:
  "in_ranges o' \<Longrightarrow> keeps in_ranges (value_option a v o')" "one_decoder o' \<Longrightarrow> keeps one_decoder (value_option a v o')"
  unfolding value_option_def Let_def
  by (intro keepsI; simp add: in_ranges_def one_decoder_def clamp_within ranges_ordered del: One_nat_def)+

text \<open>A property of the options that every option keeps holds after any command line.\<close>

locale option_invariant =
  fixes P :: "options \<Rightarrow> bool"
  assumes keeps_flag: "P o' \<Longrightarrow> P (flag_option a o')"
    and keeps_value: "P o' \<Longrightarrow> keeps P (value_option a v o')"
    and keeps_p2p: "P o' \<Longrightarrow> P (o'\<lparr>ethernet_p2p := True, ethernet_p2p_role := v, ethernet_p2p_interface := v2\<rparr>)"
begin

lemma parse: "P o' \<Longrightarrow> parse_arguments args o' = Some o1 \<Longrightarrow> P o1"
proof (induction "length args" arbitrary: args o' rule: less_induct)
  case less
  note ok = less.prems(1)
  show ?case
  proof (cases args)
    case (Cons a rest)
    note f = keeps_flag[OF ok, of a]
    show ?thesis
    proof (cases rest)
      case Nil
      then show ?thesis using less.prems(2) Cons f by simp
    next
      case r: (Cons v tail)
      have "length tail < length args" "length rest < length args" "length (tl tail) < length args"
        using Cons r by simp_all
      note IH = this[THEN less.hyps]
      have c: "parse_arguments args o' =
          (case value_option a v o' of
             Some None \<Rightarrow> None
           | Some (Some o2) \<Rightarrow> parse_arguments tail o2
           | None \<Rightarrow> if a = ''--ethernet-p2p'' \<and> tail \<noteq> []
               then parse_arguments (tl tail)
                 (o'\<lparr>ethernet_p2p := True, ethernet_p2p_role := v, ethernet_p2p_interface := hd tail\<rparr>)
               else parse_arguments rest (flag_option a o'))"
        unfolding Cons r by (simp split: option.split list.split)
      consider o2 where "value_option a v o' = Some (Some o2)" | "value_option a v o' = None"
        using less.prems(2) unfolding c by (auto split: option.splits)
      then show ?thesis
      proof cases
        case 1
        then have "P o2" using keeps_value[OF ok, of a v] by (simp add: keeps_def)
        from IH(1)[OF this] less.prems(2) show ?thesis unfolding c 1 by simp
      next
        case 2
        then show ?thesis
          using less.prems(2) IH(2)[OF f] IH(3)[OF keeps_p2p[OF ok]] unfolding c by (simp split: if_splits)
      qed
    qed
  qed (use less.prems in simp)
qed

end

interpretation ranges: option_invariant in_ranges
  proof (unfold_locales, erule flag_option_keeps, erule value_option_keeps)
qed (simp add: in_ranges_def)

interpretation decoders: option_invariant one_decoder
  proof (unfold_locales, erule flag_option_keeps, erule value_option_keeps)
qed (simp add: one_decoder_def)

text \<open>
  C40: Whatever the arguments, at most one native decoder is chosen, opacity, rates and scale are not
  outside their ranges (a NaN is not, and passes), and a read-back of the primary plane is never
  combined with a static scan-out or a scaled rendering.
\<close>

theorem options_in_range:
  "case parse_options args of None \<Rightarrow> True
   | Some o' \<Rightarrow> in_ranges o' \<and> one_decoder o'
       \<and> (if flow_primary_readback o' then \<not> flow_static_scanout o' \<and> flow_render_scale o' = fp_of_int f64 1 else True)"
proof -
  have d: "in_ranges default_options" "one_decoder default_options"
    unfolding in_ranges_def within_def default_options_def options.select_convs fp_constants
    by (simp_all add: one_decoder_def)
  have e: "within (fp_round f64 False 1 4) (fp_of_int f64 1) (fp_of_int f64 1)"
    unfolding within_def fp_constants by (simp add: Let_def)
  have f: "in_ranges (finish_options o')" "one_decoder (finish_options o')" if "in_ranges o'" "one_decoder o'" for o'
    using that e by (auto simp: finish_options_def in_ranges_def one_decoder_def simp del: One_nat_def)
  show ?thesis
    using f ranges.parse[OF d(1), of args] decoders.parse[OF d(2), of args]
    by (auto simp: parse_options_def finish_options_def split: option.split)
qed

end
