(* ===== verification/Ui_Settings.thy ===== *)
theory Ui_Settings
  imports Controller
begin

text \<open>
  \<open>src/glide_ui/main.cpp\<close>: the settings the user interface keeps. The device settings of
  \<open>/etc/default/openhd-glide\<close>, the color presets, and the files of the map and of the telemetry address.
  Files are those of theory \<open>Preview_Control\<close>; which paths can be written is an argument.
\<close>

section \<open>Text\<close>

definition is_blank :: "char \<Rightarrow> bool" where
  "is_blank c \<longleftrightarrow> c \<in> {CHR '' '', CHR 0x09, CHR 0x0D, CHR 0x0A}"

definition trim :: "string \<Rightarrow> string" where
  "trim v = rev (dropWhile is_blank (rev (dropWhile is_blank v)))"

definition contains :: "string \<Rightarrow> string \<Rightarrow> bool" where
  "contains p s \<longleftrightarrow> list_ex (\<lambda>i. take (length p) (drop i s) = p) [0..<length s + 1]"

definition file_lines :: "string \<Rightarrow> files \<Rightarrow> string list" where
  "file_lines p fs = (case fs p of None \<Rightarrow> [] | Some contents \<Rightarrow> split_lines contents)"

definition unlines :: "string list \<Rightarrow> string" where
  "unlines ls = concat (map (\<lambda>l. l @ [CHR 0x0A]) ls)"

section \<open>Device settings\<close>

record device =
  glide_width :: u32
  glide_height :: u32
  display_hz :: u32
  flow_rate :: u32
  flow_scale_percent :: u32

definition default_device :: device where
  "default_device = \<lparr>glide_width = 1920, glide_height = 1080, display_hz = 120, flow_rate = 60, flow_scale_percent = 50\<rparr>"

definition glide_config_path :: string where
  "glide_config_path = ''/etc/default/openhd-glide''"

definition format_flow_scale :: "u32 \<Rightarrow> string" where
  "format_flow_scale percent = fp_fixed 2 (fp_div_nat f64 (fp_of_int f64 (uint percent)) 100)"

definition parse_u32_or :: "string \<Rightarrow> u32 \<Rightarrow> u32" where
  "parse_u32_or v fallback =
     (let t = trim v in
      if t = [] then fallback else case stoul 10 t of None \<Rightarrow> fallback | Some n \<Rightarrow> ucast n)"

text \<open>\<open>bad\<close> is what \<open>std::lround\<close> returns for an infinity or a NaN.\<close>

definition parse_scale_percent_or :: "int \<Rightarrow> string \<Rightarrow> u32 \<Rightarrow> u32" where
  "parse_scale_percent_or bad v fallback =
     (let t = trim v in
      if t = [] then fallback
      else case stod f64 t of
        None \<Rightarrow> fallback
      | Some x \<Rightarrow> word_of_int (max 25 (min 100 (fp_lround bad (fp_mul f64 x (fp_of_int f64 100))))))"

definition split_setting :: "string \<Rightarrow> (string \<times> string) option" where
  "split_setting line =
     (if CHR ''='' \<notin> set line then None
      else let key = takeWhile (\<lambda>c. c \<noteq> CHR ''='') line
           in Some (trim key, trim (drop (length key + 1) line)))"

definition apply_setting :: "int \<Rightarrow> string \<Rightarrow> string \<Rightarrow> device \<Rightarrow> device" where
  "apply_setting bad key val d =
     (if key = ''GLIDE_WIDTH'' then d\<lparr>glide_width := parse_u32_or val (glide_width d)\<rparr>
      else if key = ''GLIDE_HEIGHT'' then d\<lparr>glide_height := parse_u32_or val (glide_height d)\<rparr>
      else if key = ''GLIDE_DISPLAY_HZ'' then d\<lparr>display_hz := parse_u32_or val (display_hz d)\<rparr>
      else if key = ''GLIDE_FLOW_FPS'' then d\<lparr>flow_rate := parse_u32_or val (flow_rate d)\<rparr>
      else if key = ''GLIDE_FLOW_RENDER_SCALE''
      then d\<lparr>flow_scale_percent := parse_scale_percent_or bad val (flow_scale_percent d)\<rparr>
      else d)"

definition apply_setting_line :: "int \<Rightarrow> device \<Rightarrow> string \<Rightarrow> device" where
  "apply_setting_line bad d line =
     (case split_setting line of None \<Rightarrow> d | Some (key, val) \<Rightarrow> apply_setting bad key val d)"

definition clamp_u32 :: "u32 \<Rightarrow> u32 \<Rightarrow> u32 \<Rightarrow> u32" where
  "clamp_u32 lo hi v = (if v < lo then lo else if hi < v then hi else v)"

definition load_device_settings :: "int \<Rightarrow> files \<Rightarrow> device \<Rightarrow> device" where
  "load_device_settings bad fs d =
     (let d1 = foldl (apply_setting_line bad) d (file_lines glide_config_path fs)
      in d1\<lparr>display_hz := clamp_u32 24 144 (display_hz d1), flow_rate := clamp_u32 15 120 (flow_rate d1),
            flow_scale_percent := clamp_u32 25 100 (flow_scale_percent d1)\<rparr>)"

definition resolution_presets :: "(u32 \<times> u32) list" where
  "resolution_presets = [(1920, 1080), (1600, 900), (1280, 720), (960, 540)]"

definition resolution_index_for_state :: "device \<Rightarrow> nat" where
  "resolution_index_for_state d =
     (let n = length (takeWhile (\<lambda>p. p \<noteq> (glide_width d, glide_height d)) resolution_presets)
      in if n < length resolution_presets then n else 0)"

fun write_or_replace_setting :: "string list \<Rightarrow> string \<Rightarrow> string \<Rightarrow> bool \<times> string list" where
  "write_or_replace_setting [] key val = (True, [key @ ''='' @ val])"
| "write_or_replace_setting (l # ls) key val =
     (if starts_with (key @ ''='') l
      then (if l = key @ ''='' @ val then (False, l # ls) else (True, (key @ ''='' @ val) # ls))
      else let (changed, rest) = write_or_replace_setting ls key val in (changed, l # rest))"

definition device_entries :: "device \<Rightarrow> (string \<times> string) list" where
  "device_entries d =
     [(''GLIDE_WIDTH'', nat_str (unat (glide_width d))), (''GLIDE_HEIGHT'', nat_str (unat (glide_height d))),
      (''GLIDE_DISPLAY_HZ'', nat_str (unat (display_hz d))), (''GLIDE_FLOW_FPS'', nat_str (unat (flow_rate d))),
      (''GLIDE_FLOW_RENDER_SCALE'', format_flow_scale (flow_scale_percent d))]"

text \<open>
  The lines go to a temporary file that is copied over the configuration; the service is restarted when
  the copy succeeded. The result tells whether it is.
\<close>

definition replace_all :: "string list \<Rightarrow> (string \<times> string) list \<Rightarrow> bool \<times> string list" where
  "replace_all ls entries =
     foldl (\<lambda>(changed, ls) (key, val). let (c, ls1) = write_or_replace_setting ls key val in (changed \<or> c, ls1))
       (False, ls) entries"

definition persist_device_settings :: "string \<Rightarrow> (string \<Rightarrow> bool) \<Rightarrow> device \<Rightarrow> files \<Rightarrow> bool \<times> files" where
  "persist_device_settings tmp wr d fs =
     (let (changed, ls) = replace_all (file_lines glide_config_path fs) (device_entries d) in
      if \<not> changed then (False, fs)
      else let temp = join_path tmp ''openhd-glide.default.tmp'';
               fs1 = write_file wr temp (unlines ls) fs;
               copied = (fs1 temp \<noteq> None \<and> wr glide_config_path);
               fs2 = (if copied then fs1(glide_config_path := fs1 temp) else fs1)
           in (copied, if wr temp then fs2(temp := None) else fs2))"

definition set_resolution :: "nat \<Rightarrow> device \<Rightarrow> device" where
  "set_resolution i d =
     (let p = resolution_presets ! min i (length resolution_presets - 1) in d\<lparr>glide_width := fst p, glide_height := snd p\<rparr>)"

section \<open>Color presets\<close>

definition color_presets :: "u32 list" where
  "color_presets = [0x000000, 0xffd447, 0xfff4d6, 0xebf5ff, 0x70f4ff, 0x55a8ff, 0x2456ff, 0x02070a, 0x0e1318]"

definition preset_rgb_for_index :: "nat \<Rightarrow> nat \<Rightarrow> u32" where
  "preset_rgb_for_index channel preset =
     (if preset = 0 then default_theme_color (theme_keys ! channel)
      else color_presets ! min preset (length color_presets - 1))"

definition preset_index_for_rgb :: "nat \<Rightarrow> u32 \<Rightarrow> nat" where
  "preset_index_for_rgb channel rgb =
     (let n = rgb AND 0xFFFFFF; i = length (takeWhile (\<lambda>c. c \<noteq> n) (tl color_presets)) + 1 in
      if n = default_theme_color (theme_keys ! channel) then 0
      else if i < length color_presets then i else 0)"

section \<open>Files of the map and of the telemetry address\<close>

definition config_file :: "string option \<Rightarrow> string option \<Rightarrow> string \<Rightarrow> string" where
  "config_file xdg home name =
     (case xdg of
        Some (c # cs) \<Rightarrow> join_path (join_path (c # cs) ''openhd-glide'') name
      | _ \<Rightarrow> (case home of
          Some (c # cs) \<Rightarrow> join_path (join_path (join_path (c # cs) ''.config'') ''openhd-glide'') name
        | _ \<Rightarrow> name))"

definition map_position_values :: "string list" where
  "map_position_values =
     [''top_left'', ''top'', ''top_right'', ''left'', ''right'', ''bottom_left'', ''bottom'', ''bottom_right'']"

definition map_position_index :: "string \<Rightarrow> nat" where
  "map_position_index v =
     (let n = length (takeWhile (\<lambda>p. p \<noteq> v) map_position_values)
      in if n < length map_position_values then n else 4)"

definition apply_map_setting :: "string \<times> bool \<Rightarrow> string \<Rightarrow> string \<times> bool" where
  "apply_map_setting m line =
     (if starts_with ''POSITION='' line
      then (let v = trim (drop 9 line) in if v \<in> set map_position_values then (v, snd m) else m)
      else if line = ''MAP_OPEN=1'' \<or> line = ''MAP_OPEN=0'' then (fst m, last line = CHR ''1'')
      else m)"

definition load_map_settings :: "string \<Rightarrow> files \<Rightarrow> string \<times> bool \<Rightarrow> string \<times> bool" where
  "load_map_settings p fs m = foldl apply_map_setting m (file_lines p fs)"

definition persist_map_settings :: "(string \<Rightarrow> bool) \<Rightarrow> string \<Rightarrow> string \<times> bool \<Rightarrow> files \<Rightarrow> files" where
  "persist_map_settings wr p m =
     write_file wr p (unlines [''POSITION='' @ fst m, ''MAP_OPEN='' @ flag (snd m)])"

definition load_telemetry_settings :: "string \<Rightarrow> files \<Rightarrow> string \<Rightarrow> string" where
  "load_telemetry_settings p fs host =
     foldl (\<lambda>h line. if starts_with ''TCP_IP='' line
                    then (let v = trim (drop 7 line) in if v \<noteq> [] \<and> \<not> list_ex is_blank v then v else h) else h)
       host (file_lines p fs)"

definition persist_telemetry_host :: "(string \<Rightarrow> bool) \<Rightarrow> string \<Rightarrow> string \<Rightarrow> files \<Rightarrow> files" where
  "persist_telemetry_host wr p host = write_file wr p (unlines [''TCP_IP='' @ host])"

end
