(* ===== verification/Ui_State.thy ===== *)
theory Ui_State
  imports Ui_Settings "HOL-Library.Signed_Division"
begin

text \<open>
  \<open>src/glide_ui/main.cpp\<close>: the state of the user interface, its panels and overlays. The record \<open>ui\<close> is
  \<open>UiState\<close>; of an LVGL object the model keeps whether the state points to it (\<open>ui_handles\<close>) and whether it
  exists (\<open>ui_live\<close>), and of a panel its rows with their texts and the action of their buttons. Colors,
  fonts and sizes of widgets are left out, except for the place of the map. \<open>None\<close> is an exception that
  ends the process.
\<close>

section \<open>State\<close>

datatype panel = Dashboard | Link | Video | Camera | Osd | Telemetry | Recording | System | Developer | Colors

definition all_panels :: "panel list" where
  "all_panels = [Dashboard, Link, Video, Camera, Osd, Telemetry, Recording, System, Developer, Colors]"

definition panel_index :: "panel \<Rightarrow> int" where
  "panel_index p = int (length (takeWhile (\<lambda>q. q \<noteq> p) all_panels))"

datatype overlay_mode = Menu | Minimap | Hidden

datatype handle =
  Panel_title | Panel_body | Fps_switch | Fps_label | Coordinates_switch | Coordinates_label | Compact_switch
| Compact_label | Top_bar_switch | Top_bar_label | Osd_dropdown | Osd_label | Map_position_dropdown
| Theme_dropdown nat | Theme_label nat | Resolution_dropdown | Resolution_label | Display_hz_slider
| Display_hz_label | Flow_fps_slider | Flow_fps_label | Flow_scale_slider | Flow_scale_label | Scan_bar
| Scan_percent | Telemetry_host_input | Minimap_home_label | Minimap_gps_label | Minimap_zoom_label
| Minimap_scale_label | Minimap_scale_bar | Nav_button nat

text \<open>A position is latitude, longitude and heading.\<close>

type_synonym position = "fp \<times> fp \<times> fp"

record minimap =
  mm_zoom :: fp
  mm_pan_x :: fp
  mm_pan_y :: fp
  mm_home :: "fp \<times> fp"
  mm_position :: position

record ui =
  ui_ipc :: client
  ui_sent :: "string list"
  ui_mavlink :: snapshot
  ui_fps :: bool
  ui_coordinates :: bool
  ui_coordinates_before_map :: bool
  ui_map_suppressed :: bool
  ui_compact :: bool
  ui_top_bar :: bool
  ui_layout :: string
  ui_telemetry_status :: string
  ui_telemetry_host :: string
  ui_map_position :: string
  ui_map_restore_open :: bool
  ui_map_expanded :: bool
  ui_map_inner :: "int \<times> int \<times> int \<times> int"
  ui_auto_connect :: bool
  ui_theme :: "u32 list"
  ui_advanced :: bool
  ui_focus_panel :: bool
  ui_rebuild_pending :: bool
  ui_mode :: overlay_mode
  ui_buffer :: bool
  ui_animate :: bool
  ui_selected_row :: int
  ui_row_count :: int
  ui_next_file_poll :: int
  ui_next_rebuild :: int
  ui_next_telemetry :: int
  ui_root :: bool
  ui_panel :: panel
  ui_handles :: "handle set"
  ui_live :: "handle set"
  ui_minimap :: "minimap option"
  ui_last_render :: int
  ui_path :: "position list"
  ui_home :: "(fp \<times> fp) option"
  ui_next_ipc :: int
  ui_device :: device
  ui_scanning :: bool
  ui_net_status :: string
  ui_peers :: "string list"
  ui_files :: files
  ui_restarts :: nat

definition new_ui :: "bool \<Rightarrow> files \<Rightarrow> ui" where
  "new_ui buffer fs =
    \<lparr>ui_ipc = new_client, ui_sent = [], ui_mavlink = initial_snapshot, ui_fps = True, ui_coordinates = True,
     ui_coordinates_before_map = True, ui_map_suppressed = False, ui_compact = False, ui_top_bar = True,
     ui_layout = ''drone'', ui_telemetry_status = ''Disconnected'', ui_telemetry_host = ''192.168.1.42'',
     ui_map_position = ''right'', ui_map_restore_open = False, ui_map_expanded = False, ui_map_inner = (0, 0, 0, 0),
     ui_auto_connect = False, ui_theme = map default_theme_color theme_keys, ui_advanced = False,
     ui_focus_panel = False, ui_rebuild_pending = False, ui_mode = Hidden, ui_buffer = buffer, ui_animate = False,
     ui_selected_row = 0, ui_row_count = 0, ui_next_file_poll = 0, ui_next_rebuild = 0, ui_next_telemetry = 0,
     ui_root = False, ui_panel = Dashboard, ui_handles = {}, ui_live = {}, ui_minimap = None, ui_last_render = 0,
     ui_path = [], ui_home = None, ui_next_ipc = 0, ui_device = default_device, ui_scanning = False,
     ui_net_status = ''Idle'', ui_peers = [], ui_files = fs, ui_restarts = 0\<rparr>"

text \<open>
  What the surroundings answer: directories and files, the size of the screen, where LVGL put the frame
  of the map, two environment variables, the text in the address field and the time in nanoseconds.
\<close>

record ui_env =
  ue_tmp :: string
  ue_writable :: "string \<Rightarrow> bool"
  ue_map_file :: string
  ue_telemetry_file :: string
  ue_bad :: int
  ue_width :: u32
  ue_height :: u32
  ue_frame :: "int \<times> int"
  ue_zoom :: "string option"
  ue_grid :: "string option"
  ue_host_text :: string
  ue_now :: int

definition ms :: "int \<Rightarrow> int" where
  "ms n = n * 1000000"

section \<open>Sending\<close>

definition ui_send :: "string \<Rightarrow> ui \<Rightarrow> ui" where
  "ui_send l u =
     (case snd (client_send_line (\<lambda>_. 0) l (ui_ipc u)) of
        None \<Rightarrow> u | Some p \<Rightarrow> u\<lparr>ui_sent := ui_sent u @ [p]\<rparr>)"

definition send_fps_state :: "ui_env \<Rightarrow> ui \<Rightarrow> ui" where
  "send_fps_state env u =
     ui_send (''set fps '' @ flag (ui_fps u))
       (u\<lparr>ui_files := set_fps_overlay_enabled (ue_tmp env) (ue_writable env) (ui_fps u) (ui_files u)\<rparr>)"

definition send_coordinates_state :: "ui_env \<Rightarrow> ui \<Rightarrow> ui" where
  "send_coordinates_state env u =
     ui_send (''set coords '' @ flag (ui_coordinates u))
       (u\<lparr>ui_files := set_coordinates_overlay_enabled (ue_tmp env) (ue_writable env) (ui_coordinates u) (ui_files u)\<rparr>)"

definition send_compact_readouts_state :: "ui_env \<Rightarrow> ui \<Rightarrow> ui" where
  "send_compact_readouts_state env u =
     ui_send (''set compact '' @ flag (ui_compact u))
       (u\<lparr>ui_files := set_compact_readouts_enabled (ue_tmp env) (ue_writable env) (ui_compact u) (ui_files u)\<rparr>)"

definition send_top_bar_state :: "ui_env \<Rightarrow> ui \<Rightarrow> ui" where
  "send_top_bar_state env u =
     ui_send (''set topbar '' @ flag (ui_top_bar u))
       (u\<lparr>ui_files := set_top_bar_enabled (ue_tmp env) (ue_writable env) (ui_top_bar u) (ui_files u)\<rparr>)"

definition send_osd_layout_state :: "ui_env \<Rightarrow> ui \<Rightarrow> ui" where
  "send_osd_layout_state env u =
     ui_send (''set osd '' @ ui_layout u)
       (u\<lparr>ui_files := set_osd_layout (ue_tmp env) (ue_writable env) (ui_layout u) (ui_files u)\<rparr>)"

definition send_theme_color :: "ui_env \<Rightarrow> nat \<Rightarrow> ui \<Rightarrow> ui" where
  "send_theme_color env i u =
     ui_send (''set theme '' @ theme_keys ! i @ '' '' @ rgb_hex (ui_theme u ! i))
       (u\<lparr>ui_files := set_theme_color (ue_tmp env) (ue_writable env) (theme_keys ! i) (ui_theme u ! i) (ui_files u)\<rparr>)"

definition send_openhd_param :: "string \<Rightarrow> string \<Rightarrow> string \<Rightarrow> ui \<Rightarrow> ui" where
  "send_openhd_param target param val = ui_send (format_action_set_param target param val)"

definition send_artosyn_action :: "string \<Rightarrow> ui \<Rightarrow> ui" where
  "send_artosyn_action param = send_openhd_param ''air'' param ''1''"

definition persist_device :: "ui_env \<Rightarrow> ui \<Rightarrow> ui" where
  "persist_device env u =
     (let (restart, fs) = persist_device_settings (ue_tmp env) (ue_writable env) (ui_device u) (ui_files u)
      in u\<lparr>ui_files := fs, ui_restarts := ui_restarts u + (if restart then 1 else 0)\<rparr>)"

definition persist_map :: "ui_env \<Rightarrow> ui \<Rightarrow> ui" where
  "persist_map env u =
     u\<lparr>ui_files := persist_map_settings (ue_writable env) (ue_map_file env)
                    (ui_map_position u, ui_map_restore_open u) (ui_files u)\<rparr>"

definition set_resolution_preset :: "ui_env \<Rightarrow> nat \<Rightarrow> ui \<Rightarrow> ui" where
  "set_resolution_preset env i u = persist_device env (u\<lparr>ui_device := set_resolution i (ui_device u)\<rparr>)"

section \<open>The map's position\<close>

definition current_flight_position :: "ui \<Rightarrow> position" where
  "current_flight_position u =
     (let s = ui_mavlink u; turn = fp_of_int f32 360 in
      (latitude_deg s, longitude_deg s,
       if attitude_valid s then fp_fmod f32 (fp_add f32 (yaw_degrees s) turn) turn else fp_zero f32))"

definition map_state_line :: "ui \<Rightarrow> minimap \<Rightarrow> string" where
  "map_state_line u m =
     (let (x, y, w, h) = ui_map_inner u; (lat, lon, heading) = current_flight_position u; num = fp_general 10;
          (home_lat, home_lon) = (case ui_home u of Some p \<Rightarrow> p | None \<Rightarrow> (fp_zero f64, fp_zero f64))
      in ''ui map state 1 '' @ int_str x @ '' '' @ int_str y @ '' '' @ int_str w @ '' '' @ int_str h @ '' ''
         @ num (mm_zoom m) @ '' '' @ num (mm_pan_x m) @ '' '' @ num (mm_pan_y m) @ '' ''
         @ num lat @ '' '' @ num lon @ '' '' @ num heading @ '' ''
         @ (if ui_home u \<noteq> None then ''1'' else ''0'') @ '' '' @ num home_lat @ '' '' @ num home_lon)"

definition send_gpu_map_state :: "ui \<Rightarrow> ui" where
  "send_gpu_map_state u =
     (if \<not> client_connected (ui_ipc u) then u
      else case ui_minimap u of
        Some m \<Rightarrow> if ui_buffer u \<and> ui_mode u = Minimap then ui_send (map_state_line u m) u
                  else ui_send ''ui map hidden'' u
      | None \<Rightarrow> ui_send ''ui map hidden'' u)"

section \<open>Rows of the panels\<close>

datatype click =
  Reset_link | Pair_link | Find_air_unit | Channel_width | Air_mcs | Tx_power | Pit_mode bool | Net_scan
| P2p string | Air_resolution | Camera_rotation | Intra_refresh bool | Air_recording nat | Connect_tcp
| Disconnect_telemetry | Show_messages

datatype row = Value string string | Button string click | Control string

definition artosyn_link :: "snapshot \<Rightarrow> bool" where
  "artosyn_link s \<longleftrightarrow> contains ''ARTOSYN'' (air_chipset s) \<or> contains ''ARTOSYN'' (ground_chipset s)"

definition radio_link_active :: "snapshot \<Rightarrow> bool" where
  "radio_link_active s \<longleftrightarrow> link_stats_valid s \<and> 0 < frequency_mhz s \<and> 0 < channel_width_mhz s
     \<and> fp_less (fp_zero f32) (link_bitrate_mbit s)"

definition wifi_channel_from_frequency :: "int \<Rightarrow> int" where
  "wifi_channel_from_frequency f =
     (if f = 2484 then 14
      else if 2412 \<le> f \<and> f \<le> 2472 then (f - 2407) div 5
      else if 5000 \<le> f \<and> f \<le> 7125 then (f - 5000) div 5 else 0)"

definition channel_label :: "snapshot \<Rightarrow> string" where
  "channel_label s =
     (let f = frequency_mhz s; c = wifi_channel_from_frequency f in
      if f \<le> 0 then ''Waiting''
      else if artosyn_link s then int_str f @ '' MHz''
      else if 0 < c then ''CH '' @ int_str c @ '' / '' @ int_str f @ '' MHz'' else int_str f @ '' MHz'')"

definition bandwidth_text :: "snapshot \<Rightarrow> string" where
  "bandwidth_text s = (if 0 < channel_width_mhz s then int_str (channel_width_mhz s) @ '' MHz'' else ''Waiting'')"

definition dashboard_rows :: "ui \<Rightarrow> row list" where
  "dashboard_rows u =
     (let s = ui_mavlink u; active = radio_link_active s; air = (air_alive s \<or> active) in
      [Value ''Link State''
         (if active then ''Connected'' else if air then ''AIR only'' else if ground_alive s then ''GND only'' else ''Searching''),
       Value ''Air Unit'' (if air_alive s then ''Online'' else if active then ''Linked'' else ''Waiting''),
       Value ''Channel'' (channel_label s), Value ''Bandwidth'' (bandwidth_text s)]
      @ (if artosyn_link s then [Button ''RESET ARTOSYN LINK'' Reset_link, Button ''PAIR ARTOSYN'' Pair_link]
         else [Button ''FIND AIR UNIT'' Find_air_unit]))"

definition link_rows :: "int \<Rightarrow> ui \<Rightarrow> row list" where
  "link_rows bad u =
     (let s = ui_mavlink u; art = artosyn_link s; stats = (\<lambda>t. if link_stats_valid s then t else ''Waiting'') in
      [Value ''Radio Link'' (if radio_link_active s then ''Active'' else ''Waiting''),
       Value (if art then ''Artosyn Adapter'' else ''Ground Adapter'') (if art then ''ARTOSYN'' else ground_chipset s),
       Value (if art then ''Frequency'' else ''Channel'') (channel_label s), Value ''Bandwidth'' (bandwidth_text s),
       Value ''Modulation'' (stats (''MCS '' @ int_str (mcs_index s))),
       Value ''Link Rate'' (stats (int_str (fp_lround bad (link_bitrate_mbit s)) @ '' Mbit/s'')),
       Value ''Link Quality'' (stats (int_str (rc_quality_percent s) @ ''%'')),
       Value ''TX Power'' (int_str (tx_power_mw s) @ '' mW''), Value ''Discovery'' (ui_net_status u)]
      @ (if ui_peers u = [] then [Value ''Peer'' ''None found''] else map (Value ''Peer'') (ui_peers u))
      @ [Button ''SCAN ETHERNET GLIDE'' Net_scan, Button ''P2P GROUND ETH0'' (P2p ''ground''),
         Button ''P2P AIR ETH0'' (P2p ''air'')]
      @ (if art then [Button ''RESET ARTOSYN LINK'' Reset_link, Button ''PAIR ARTOSYN'' Pair_link]
         else [Button ''CYCLE CHANNEL WIDTH'' Channel_width, Button ''CYCLE AIR MCS'' Air_mcs,
               Button ''CYCLE TX POWER'' Tx_power, Button ''PIT MODE ON'' (Pit_mode True),
               Button ''PIT MODE OFF'' (Pit_mode False)]))"

definition video_rows :: "ui \<Rightarrow> row list" where
  "video_rows u =
     [Control ''Resolution'', Control ''Display Hz'', Control ''Flow FPS'', Control ''Flow Scale'',
      Value ''Incoming'' (resolution_fps (ui_mavlink u)), Value ''Rotation'' (rotation (ui_mavlink u)),
      Value ''Codec'' ''H.264 RTP'', Value ''KMS Plane'' ''DMABUF scanout'']"

definition camera_rows :: "ui \<Rightarrow> row list" where
  "camera_rows u =
     [Value ''Camera'' (camera (ui_mavlink u)), Value ''Resolution/FPS'' (resolution_fps (ui_mavlink u)),
      Value ''Rotation'' (rotation (ui_mavlink u)), Button ''CYCLE AIR RESOLUTION/FPS'' Air_resolution,
      Button ''CYCLE CAMERA ROTATION'' Camera_rotation, Button ''INTRA REFRESH OFF'' (Intra_refresh False),
      Button ''INTRA REFRESH CYCLIC'' (Intra_refresh True)]"

text \<open>The buttons below the rows of the camera panel, which are no rows themselves.\<close>

definition siyi_controls :: "ui \<Rightarrow> string list list" where
  "siyi_controls u =
     (if siyi_active (ui_mavlink u)
      then [[''UP'', ''CENTER'', ''DOWN''], [''LEFT'', ''RIGHT''], [''ZOOM -'', ''ZOOM +''],
            [''FOCUS -'', ''AF'', ''FOCUS +''], [''PHOTO'', ''REC'', ''STOP REC'']] else [])"

definition osd_rows :: "row list" where
  "osd_rows = [Control ''Layout'', Control ''Top link bar'', Control ''Video FPS'', Control ''Coordinates'',
     Control ''Map position'', Control ''Speed/alt ladder'']"

definition telemetry_rows :: "int \<Rightarrow> ui \<Rightarrow> row list" where
  "telemetry_rows bad u =
     (let s = ui_mavlink u; whole = (\<lambda>x. int_str (fp_lround bad x)) in
      [Value ''FC'' (if fc_alive s then ''Online'' else ''Waiting''), Value ''Mode'' (flight_mode s),
       Value ''Armed'' (if armed s then ''Yes'' else ''No'')]
      @ (if attitude_valid s
         then [Value ''Roll/Pitch'' (whole (roll_degrees s) @ '' / '' @ whole (pitch_degrees s) @ '' deg'')] else [])
      @ (if altitude_valid s then [Value ''Altitude'' (whole (altitude_m s) @ '' m'')] else [])
      @ (if speed_valid s
         then [Value ''Ground Speed'' (whole (fp_mul f32 (ground_speed_mps s) (fp_round f32 False 36 10)) @ '' km/h'')] else [])
      @ (if battery_valid s
         then [Value ''Battery'' (int_str (battery_percent s) @ ''% / '' @ take 4 (fp_fixed 6 (voltage_v s)) @ '' V'')] else [])
      @ (if position_valid s
         then [Value ''Position'' (take 9 (fp_fixed 6 (latitude_deg s)) @ '', '' @ take 9 (fp_fixed 6 (longitude_deg s)))]
         else [])
      @ [Value ''Satellites'' (int_str (satellites s))]
      @ map (\<lambda>i. Value (''CH'' @ nat_str (i + 1)) (int_str (rc_channels s ! i) @ '' us'')) [0, 1, 2, 3])"

definition recording_rows :: "ui \<Rightarrow> row list" where
  "recording_rows u =
     [Value ''Recording'' (recording (ui_mavlink u)), Value ''Status'' (recording_status (ui_mavlink u)),
      Button ''AIR RECORDING OFF'' (Air_recording 0), Button ''AIR RECORDING ON'' (Air_recording 1),
      Button ''RECORD ON ARMING'' (Air_recording 2)]"

definition system_rows :: "ui \<Rightarrow> row list" where
  "system_rows u =
     [Value ''Air WiFi Mode'' (air_wifi_mode (ui_mavlink u)), Value ''Ground WiFi Mode'' (ground_wifi_mode (ui_mavlink u)),
      Value ''Air Hotspot'' (air_hotspot (ui_mavlink u)), Value ''Ground Hotspot'' (ground_hotspot (ui_mavlink u))]"

definition developer_rows :: "ui \<Rightarrow> row list" where
  "developer_rows u =
     (let s = ui_mavlink u in
      [Value ''Telemetry Link'' (ui_telemetry_status u), Button ''CONNECT TCP'' Connect_tcp,
       Button ''DISCONNECT TELEMETRY'' Disconnect_telemetry,
       Value ''Connection''
         (if air_alive s \<and> ground_alive s then ''Connected'' else if air_alive s then ''AIR only''
          else if ground_alive s then ''GND only'' else ''Not connected''),
       Value ''OpenHD Version'' (openhd_version s), Value ''Platform'' (platform s),
       Value ''Chipset GND'' (ground_chipset s), Value ''Chipset AIR'' (air_chipset s), Value ''Camera'' (camera s),
       Button (if ui_advanced u then ''HIDE MAVLINK MESSAGES'' else ''SHOW MAVLINK MESSAGES'') Show_messages]
      @ (if ui_advanced u then map (Value ''MAVLink'') (take (message_count s) (messages s)) else []))"

definition colors_rows :: "row list" where
  "colors_rows = map Control [''Font color'', ''Background color'', ''Primary color'', ''Secondary color'']"

definition panel_rows :: "int \<Rightarrow> ui \<Rightarrow> row list" where
  "panel_rows bad u =
     (case ui_panel u of
        Dashboard \<Rightarrow> dashboard_rows u | Link \<Rightarrow> link_rows bad u | Video \<Rightarrow> video_rows u | Camera \<Rightarrow> camera_rows u
      | Osd \<Rightarrow> osd_rows | Telemetry \<Rightarrow> telemetry_rows bad u | Recording \<Rightarrow> recording_rows u | System \<Rightarrow> system_rows u
      | Developer \<Rightarrow> developer_rows u | Colors \<Rightarrow> colors_rows)"

section \<open>Building\<close>

text \<open>The objects inside \<open>panel_body\<close> the state points to.\<close>

definition panel_handles :: "ui \<Rightarrow> handle set" where
  "panel_handles u =
     (case ui_panel u of
        Dashboard \<Rightarrow> if artosyn_link (ui_mavlink u) then {} else {Scan_bar, Scan_percent}
      | Video \<Rightarrow> {Resolution_label, Resolution_dropdown, Display_hz_slider, Display_hz_label, Flow_fps_slider,
                  Flow_fps_label, Flow_scale_slider, Flow_scale_label}
      | Osd \<Rightarrow> {Osd_label, Osd_dropdown, Top_bar_label, Top_bar_switch, Fps_label, Fps_switch, Coordinates_label,
                Coordinates_switch, Map_position_dropdown, Compact_label, Compact_switch}
      | Developer \<Rightarrow> {Telemetry_host_input}
      | Colors \<Rightarrow> {Theme_label 0, Theme_dropdown 0, Theme_label 1, Theme_dropdown 1, Theme_label 2, Theme_dropdown 2,
                  Theme_label 3, Theme_dropdown 3}
      | _ \<Rightarrow> {})"

definition cleared_handles :: "handle set" where
  "cleared_handles =
     {Fps_switch, Fps_label, Coordinates_switch, Coordinates_label, Compact_switch, Compact_label, Top_bar_switch,
      Top_bar_label, Osd_dropdown, Osd_label, Map_position_dropdown, Theme_dropdown 0, Theme_dropdown 1,
      Theme_dropdown 2, Theme_dropdown 3, Theme_label 0, Theme_label 1, Theme_label 2, Theme_label 3,
      Resolution_dropdown, Resolution_label, Display_hz_slider, Display_hz_label, Flow_fps_slider, Flow_fps_label,
      Flow_scale_slider, Flow_scale_label, Scan_bar, Scan_percent}"

text \<open>\<open>body\<close>: what lives inside \<open>panel_body\<close> and goes with \<open>lv_obj_clean\<close>.\<close>

definition body_handles :: "handle set" where
  "body_handles = insert Telemetry_host_input cleared_handles"

definition build_panel :: "int \<Rightarrow> ui \<Rightarrow> ui" where
  "build_panel bad u =
     u\<lparr>ui_handles := ui_handles u \<union> panel_handles u, ui_live := ui_live u \<union> panel_handles u,
       ui_row_count := ui_row_count u + int (length (panel_rows bad u))\<rparr>"

definition clear_panel :: "ui \<Rightarrow> ui" where
  "clear_panel u =
     u\<lparr>ui_live := ui_live u - body_handles, ui_handles := ui_handles u - cleared_handles, ui_row_count := 0,
       ui_selected_row := max 0 (ui_selected_row u)\<rparr>"

definition nav_handles :: "handle set" where
  "nav_handles = Nav_button ` {0, 1, 2, 3, 4, 5, 6, 7, 8, 9}"

definition build_sidebar :: "ui_env \<Rightarrow> ui \<Rightarrow> ui" where
  "build_sidebar env u =
     (let safe_width = sint (max (ue_width env) 220);
          u1 = u\<lparr>ui_root := True, ui_handles := ui_handles u \<union> nav_handles, ui_live := ui_live u \<union> nav_handles\<rparr> in
      if safe_width < 520
      then u1\<lparr>ui_handles := ui_handles u1 - {Panel_title, Panel_body}, ui_animate := False\<rparr>
      else (build_panel (ue_bad env) (clear_panel
             (u1\<lparr>ui_handles := ui_handles u1 \<union> {Panel_title, Panel_body},
                 ui_live := ui_live u1 \<union> {Panel_title, Panel_body}\<rparr>)))\<lparr>ui_animate := False\<rparr>)"

datatype align = Center | Right_mid | Top_left | Top_mid | Top_right | Left_mid | Bottom_left | Bottom_mid | Bottom_right

definition map_place :: "ui \<Rightarrow> align \<times> int \<times> int" where
  "map_place u =
     (if ui_map_expanded u then (Center, 0, 0)
      else if ui_map_position u = ''top_left'' then (Top_left, 20, 52)
      else if ui_map_position u = ''top'' then (Top_mid, 0, 52)
      else if ui_map_position u = ''top_right'' then (Top_right, - 20, 52)
      else if ui_map_position u = ''left'' then (Left_mid, 20, 0)
      else if ui_map_position u = ''bottom_left'' then (Bottom_left, 20, - 42)
      else if ui_map_position u = ''bottom'' then (Bottom_mid, 0, - 42)
      else if ui_map_position u = ''bottom_right'' then (Bottom_right, - 20, - 42)
      else (Right_mid, - 20, 0))"

definition map_size :: "bool \<Rightarrow> u32 \<Rightarrow> u32 \<Rightarrow> int \<times> int" where
  "map_size expanded width height =
     (let w = sint (max width 220); h = sint (max height 220); mw = clamp_int ((w - 40) sdiv 2) 180 360 in
      if expanded then (max 320 (w - 120), max 180 (h - 100))
      else (mw, min (max 100 ((mw * 9) sdiv 16)) (max 100 ((h - 40) sdiv 2))))"

definition fallback_home :: "fp \<times> fp" where
  "fallback_home = (fp_round f64 False 512373245 10000000, fp_round f64 False 71616353 10000000)"

definition new_minimap :: "int \<Rightarrow> (fp \<times> fp) option \<Rightarrow> position list \<Rightarrow> minimap" where
  "new_minimap zoom home flown =
     \<lparr>mm_zoom = fp_of_int f64 zoom, mm_pan_x = fp_zero f64, mm_pan_y = fp_zero f64,
      mm_home = (case home of None \<Rightarrow> fallback_home | Some h \<Rightarrow> h),
      mm_position = (if flown = [] then (fst fallback_home, snd fallback_home, fp_zero f32) else last flown)\<rparr>"

definition env_int :: "string option \<Rightarrow> int \<Rightarrow> int option" where
  "env_int v d = (case v of None \<Rightarrow> Some d | Some t \<Rightarrow> stoi t)"

definition minimap_handles :: "handle set" where
  "minimap_handles = {Minimap_home_label, Minimap_gps_label, Minimap_zoom_label, Minimap_scale_label, Minimap_scale_bar}"

definition build_minimap_card :: "ui_env \<Rightarrow> ui \<Rightarrow> ui option" where
  "build_minimap_card env u =
     (let (w, h) = map_size (ui_map_expanded u) (ue_width env) (ue_height env) in
      case (env_int (ue_zoom env) 15, env_int (ue_grid env) 5) of
        (Some zoom, Some _) \<Rightarrow>
          Some (send_gpu_map_state
            (u\<lparr>ui_root := True, ui_minimap := Some (new_minimap zoom (ui_home u) (ui_path u)),
               ui_map_inner := (fst (ue_frame env) + 2, snd (ue_frame env) + 2, w - 4, h - 4),
               ui_handles := ui_handles u \<union> minimap_handles, ui_live := ui_live u \<union> minimap_handles,
               ui_last_render := 0\<rparr>))
      | _ \<Rightarrow> None)"

definition build_overlay :: "ui_env \<Rightarrow> ui \<Rightarrow> ui option" where
  "build_overlay env u =
     (let u1 = u\<lparr>ui_minimap := None\<rparr> in
      case ui_mode u of
        Menu \<Rightarrow> Some (build_sidebar env u1)
      | Minimap \<Rightarrow> build_minimap_card env (u1\<lparr>ui_root := True\<rparr>)
      | Hidden \<Rightarrow> Some (send_gpu_map_state (u1\<lparr>ui_root := True\<rparr>)))"

definition invalidate_ui_handles :: "ui \<Rightarrow> ui" where
  "invalidate_ui_handles u = u\<lparr>ui_handles := {}, ui_row_count := 0\<rparr>"

definition rebuild_ui :: "ui_env \<Rightarrow> ui \<Rightarrow> ui option" where
  "rebuild_ui env u =
     (if \<not> ui_root u then Some u
      else map_option (\<lambda>v. v\<lparr>ui_rebuild_pending := False\<rparr>)
             (build_overlay env (invalidate_ui_handles (u\<lparr>ui_minimap := None, ui_live := {}\<rparr>))))"

definition set_active_panel :: "ui_env \<Rightarrow> panel \<Rightarrow> ui \<Rightarrow> ui option" where
  "set_active_panel env p u =
     (let u1 = u\<lparr>ui_panel := p, ui_rebuild_pending := False, ui_selected_row := 0, ui_focus_panel := False\<rparr> in
      if Panel_title \<notin> ui_handles u1 \<or> Panel_body \<notin> ui_handles u1 then rebuild_ui env u1
      else Some (build_panel (ue_bad env) (clear_panel u1)))"

end
