(* ===== verification/Ui_Keys.thy ===== *)
theory Ui_Keys
  imports Ui_State
begin

text \<open>
  \<open>src/glide_ui/main.cpp\<close>: what keys and buttons do. \<open>apply_terminal_key\<close> is the state machine of the
  overlays and of the rows that the keyboard reaches, \<open>click_button\<close> the action of a button, and
  \<open>poll_linux_keyboard\<close> turns the events of the input devices into keys.
\<close>

section \<open>Values that a button cycles through\<close>

definition resolution_fps_presets :: "string list" where
  "resolution_fps_presets = [''1920x1080@120'', ''1920x1080@60'', ''1280x720@120'', ''1280x720@60'', ''0x0@0'']"

definition next_resolution_fps_value :: "string \<Rightarrow> string" where
  "next_resolution_fps_value current =
     (let n = length (takeWhile (\<lambda>p. \<not> contains p current) resolution_fps_presets) in
      if n < length resolution_fps_presets
      then resolution_fps_presets ! ((n + 1) mod length resolution_fps_presets) else hd resolution_fps_presets)"

fun next_value_from :: "int \<Rightarrow> int \<Rightarrow> int list \<Rightarrow> int" where
  "next_value_from first current [] = first"
| "next_value_from first current (v # vs) =
     (if current = v then (case vs of [] \<Rightarrow> first | w # _ \<Rightarrow> w)
      else if current < v then v else next_value_from first current vs)"

definition next_value_in_cycle :: "int \<Rightarrow> int list \<Rightarrow> int" where
  "next_value_in_cycle current vs = next_value_from (hd vs) current vs"

definition next_rotation_value :: "string \<Rightarrow> int" where
  "next_rotation_value current = next_value_in_cycle (case stoi current of Some v \<Rightarrow> v | None \<Rightarrow> 0) [0, 90, 180, 270]"

definition next_channel_width_value :: "int \<Rightarrow> int" where
  "next_channel_width_value current = (if 40 \<le> current then 20 else 40)"

definition next_mcs_value :: "int \<Rightarrow> int" where
  "next_mcs_value current = (if 4 \<le> current then 0 else max 0 (current + 1))"

definition next_tx_power_value :: "int \<Rightarrow> int" where
  "next_tx_power_value current = next_value_in_cycle current [25, 200, 1200, 2000]"

section \<open>Buttons\<close>

definition scan_for_air_unit :: "ui \<Rightarrow> ui" where
  "scan_for_air_unit u =
     ui_send (format_action_command ''scan'' (''bands=openhd width='' @ int_str (channel_width_mhz (ui_mavlink u)))) u"

definition click_button :: "ui_env \<Rightarrow> click \<Rightarrow> ui \<Rightarrow> ui option" where
  "click_button env c u =
     (let s = ui_mavlink u in
      case c of
        Reset_link \<Rightarrow> Some (send_artosyn_action ''AR_RESET_CMD'' u)
      | Pair_link \<Rightarrow> Some (send_artosyn_action ''AR_PAIR_CMD'' u)
      | Find_air_unit \<Rightarrow> Some (scan_for_air_unit u)
      | Channel_width \<Rightarrow>
          Some (send_openhd_param ''air'' ''WB_CHANNEL_W'' (int_str (next_channel_width_value (channel_width_mhz s))) u)
      | Air_mcs \<Rightarrow> Some (send_openhd_param ''air'' ''WB_MCS_INDEX'' (int_str (next_mcs_value (mcs_index s))) u)
      | Tx_power \<Rightarrow> Some (send_openhd_param ''air'' ''TX_POWER_MW'' (int_str (next_tx_power_value (tx_power_mw s))) u)
      | Pit_mode on \<Rightarrow> Some (send_openhd_param ''air'' ''WB_PIT_MODE'' (flag on) u)
      | Net_scan \<Rightarrow>
          set_active_panel env Link
            (ui_send ''net scan'' (u\<lparr>ui_scanning := True, ui_net_status := ''Scanning'', ui_peers := []\<rparr>))
      | P2p role' \<Rightarrow> Some (ui_send (''net p2p '' @ role' @ '' eth0'') u)
      | Air_resolution \<Rightarrow>
          Some (send_openhd_param ''camera1'' ''RESOLUTION_FPS'' (next_resolution_fps_value (resolution_fps s)) u)
      | Camera_rotation \<Rightarrow>
          Some (send_openhd_param ''camera1'' ''ROTATION_DEG'' (int_str (next_rotation_value (rotation s))) u)
      | Intra_refresh on \<Rightarrow> Some (send_openhd_param ''camera1'' ''INTRA_REFRESH'' (flag on) u)
      | Air_recording n \<Rightarrow> Some (send_openhd_param ''camera1'' ''AIR_RECORDING_E'' (nat_str n) u)
      | Connect_tcp \<Rightarrow>
          if Telemetry_host_input \<notin> ui_handles u then Some u
          else (let host = trim (ue_host_text env); u1 = u\<lparr>ui_telemetry_host := host\<rparr> in
                if host = [] then Some u1
                else Some (ui_send (''net telemetry connect tcp '' @ host)
                  (u1\<lparr>ui_files := persist_telemetry_host (ue_writable env) (ue_telemetry_file env) host (ui_files u1),
                      ui_auto_connect := True, ui_next_telemetry := ue_now env + ms 3000,
                      ui_telemetry_status := ''Connecting...''\<rparr>)))
      | Disconnect_telemetry \<Rightarrow> Some (ui_send ''net telemetry disconnect'' (u\<lparr>ui_auto_connect := False\<rparr>))
      | Show_messages \<Rightarrow> set_active_panel env Developer (u\<lparr>ui_advanced := \<not> ui_advanced u\<rparr>))"

text \<open>The control of one row of the panels \<open>Osd\<close>, \<open>Video\<close> and \<open>Colors\<close> was changed to \<open>v\<close>.\<close>

datatype change = Layout_to nat | Top_bar_to bool | Fps_to bool | Coordinates_to bool | Map_position_to nat
| Compact_to bool | Theme_to nat nat | Resolution_to nat | Hz_to u32 bool | Rate_to u32 bool | Scale_to u32 bool

definition layout_of :: "nat \<Rightarrow> string" where
  "layout_of n = (if n = 1 then ''rocket'' else if n = 2 then ''rover'' else if n = 3 then ''ship'' else ''drone'')"

definition change_control_row :: "ui_env \<Rightarrow> change \<Rightarrow> ui \<Rightarrow> ui" where
  "change_control_row env c u =
     (let released = (\<lambda>b v. if b then persist_device env v else v) in
      case c of
        Layout_to n \<Rightarrow> send_osd_layout_state env (u\<lparr>ui_layout := layout_of n\<rparr>)
      | Top_bar_to b \<Rightarrow> send_top_bar_state env (u\<lparr>ui_top_bar := b\<rparr>)
      | Fps_to b \<Rightarrow> send_fps_state env (u\<lparr>ui_fps := b\<rparr>)
      | Coordinates_to b \<Rightarrow> send_coordinates_state env (u\<lparr>ui_coordinates := b\<rparr>)
      | Map_position_to n \<Rightarrow>
          persist_map env (u\<lparr>ui_map_position := map_position_values ! min n (length map_position_values - 1)\<rparr>)
      | Compact_to b \<Rightarrow> send_compact_readouts_state env (u\<lparr>ui_compact := b\<rparr>)
      | Theme_to i n \<Rightarrow> send_theme_color env i (u\<lparr>ui_theme := (ui_theme u)[i := preset_rgb_for_index i n]\<rparr>)
      | Resolution_to n \<Rightarrow> set_resolution_preset env n u
      | Hz_to v b \<Rightarrow> released b (u\<lparr>ui_device := (ui_device u)\<lparr>display_hz := v\<rparr>\<rparr>)
      | Rate_to v b \<Rightarrow> released b (u\<lparr>ui_device := (ui_device u)\<lparr>flow_rate := v\<rparr>\<rparr>)
      | Scale_to v b \<Rightarrow> released b (u\<lparr>ui_device := (ui_device u)\<lparr>flow_scale_percent := v\<rparr>\<rparr>))"

definition is_siyi_continuous_control :: "string \<Rightarrow> bool" where
  "is_siyi_continuous_control c \<longleftrightarrow>
     c \<in> {''UP'', ''DOWN'', ''LEFT'', ''RIGHT'', ''ZOOM -'', ''ZOOM +'', ''FOCUS -'', ''FOCUS +''}"

definition siyi_command :: "string \<Rightarrow> bool \<Rightarrow> string" where
  "siyi_command c release' =
     (if release'
      then (if c \<in> {''UP'', ''DOWN'', ''LEFT'', ''RIGHT''} then ''siyi-gimbal-stop''
            else if c \<in> {''ZOOM -'', ''ZOOM +''} then ''siyi-zoom-stop''
            else if c \<in> {''FOCUS -'', ''FOCUS +''} then ''siyi-focus-stop'' else [])
      else if c = ''UP'' then ''siyi-gimbal-up'' else if c = ''DOWN'' then ''siyi-gimbal-down''
      else if c = ''LEFT'' then ''siyi-gimbal-left'' else if c = ''RIGHT'' then ''siyi-gimbal-right''
      else if c = ''CENTER'' then ''siyi-gimbal-center'' else if c = ''ZOOM -'' then ''siyi-zoom-out''
      else if c = ''ZOOM +'' then ''siyi-zoom-in'' else if c = ''FOCUS -'' then ''siyi-focus-near''
      else if c = ''FOCUS +'' then ''siyi-focus-far'' else if c = ''AF'' then ''siyi-autofocus''
      else if c = ''PHOTO'' then ''siyi-photo'' else if c = ''REC'' then ''siyi-record-start''
      else if c = ''STOP REC'' then ''siyi-record-stop'' else [])"

definition send_siyi_control :: "string \<Rightarrow> bool \<Rightarrow> ui \<Rightarrow> ui" where
  "send_siyi_control c release' u =
     (let command = siyi_command c release' in
      if command = [] then u else ui_send (format_action_command command []) u)"

datatype press = Pressed | Released | Press_lost | Clicked

definition siyi_event :: "string \<Rightarrow> press \<Rightarrow> ui \<Rightarrow> ui" where
  "siyi_event c e u =
     (if is_siyi_continuous_control c
      then (case e of Pressed \<Rightarrow> send_siyi_control c False u | Released \<Rightarrow> send_siyi_control c True u
            | Press_lost \<Rightarrow> send_siyi_control c True u | Clicked \<Rightarrow> u)
      else if e = Clicked then send_siyi_control c False u else u)"

section \<open>Overlays\<close>

definition suppress_coordinates :: "ui_env \<Rightarrow> ui \<Rightarrow> ui" where
  "suppress_coordinates env u =
     (if ui_map_suppressed u then u
      else let u1 = persist_map env (u\<lparr>ui_coordinates_before_map := ui_coordinates u, ui_map_suppressed := True,
                                       ui_map_restore_open := True\<rparr>)
           in if ui_coordinates u1 then send_coordinates_state env (u1\<lparr>ui_coordinates := False\<rparr>) else u1)"

definition restore_coordinates :: "ui_env \<Rightarrow> ui \<Rightarrow> ui" where
  "restore_coordinates env u =
     (if \<not> ui_map_suppressed u then u
      else let u1 = persist_map env (u\<lparr>ui_map_suppressed := False, ui_map_restore_open := False, ui_map_expanded := False\<rparr>)
           in if ui_coordinates u1 \<noteq> ui_coordinates_before_map u1
              then send_coordinates_state env (u1\<lparr>ui_coordinates := ui_coordinates_before_map u1\<rparr>) else u1)"

definition leave_map :: "ui_env \<Rightarrow> ui \<Rightarrow> ui" where
  "leave_map env u = (if ui_mode u = Minimap then restore_coordinates env u else u)"

definition show_menu :: "ui_env \<Rightarrow> ui \<Rightarrow> ui option" where
  "show_menu env u =
     (if ui_mode u = Menu then Some u
      else rebuild_ui env ((leave_map env u)\<lparr>ui_mode := Menu, ui_animate := True, ui_focus_panel := False\<rparr>))"

definition hide_overlay :: "ui_env \<Rightarrow> ui \<Rightarrow> ui option" where
  "hide_overlay env u =
     (if ui_mode u = Hidden then Some u
      else rebuild_ui env ((leave_map env u)\<lparr>ui_mode := Hidden, ui_focus_panel := False\<rparr>))"

definition cycle_overlay_from_menu_key :: "ui_env \<Rightarrow> ui \<Rightarrow> ui option" where
  "cycle_overlay_from_menu_key env u = (if ui_mode u = Menu then hide_overlay env u else show_menu env u)"

definition cycle_overlay_from_map_key :: "ui_env \<Rightarrow> ui \<Rightarrow> ui option" where
  "cycle_overlay_from_map_key env u =
     (let u1 = (if ui_mode u = Minimap then (restore_coordinates env u)\<lparr>ui_mode := Hidden\<rparr>
                else (suppress_coordinates env u)\<lparr>ui_mode := Minimap\<rparr>)
      in rebuild_ui env (u1\<lparr>ui_focus_panel := False\<rparr>))"

text \<open>\<open>MinimapWidget::set_zoom\<close>: kept within 13 and 18, and changed only by a thousandth or more.\<close>

definition set_zoom :: "fp \<Rightarrow> minimap \<Rightarrow> minimap" where
  "set_zoom z m =
     (let c = fp_clamp (fp_of_int f64 13) (fp_of_int f64 18) z;
          d = fp_add f64 (mm_zoom m) (fp_neg c);
          small = fp_less (case d of FFin _ n e \<Rightarrow> FFin False n e | FInf _ \<Rightarrow> FInf False | FNan b \<Rightarrow> FNan b)
                    (fp_round f64 False 1 1000)
      in if small then m else m\<lparr>mm_zoom := c\<rparr>)"

definition zoom_by :: "fp \<Rightarrow> minimap \<Rightarrow> ui \<Rightarrow> ui" where
  "zoom_by step m u = send_gpu_map_state (u\<lparr>ui_minimap := Some (set_zoom (fp_add f64 (mm_zoom m) step) m)\<rparr>)"

section \<open>Keys\<close>

definition next_layout :: "string \<Rightarrow> string" where
  "next_layout l =
     (if l = ''drone'' then ''rocket'' else if l = ''rocket'' then ''rover'' else if l = ''rover'' then ''ship'' else ''drone'')"

definition set_device :: "ui_env \<Rightarrow> device \<Rightarrow> ui \<Rightarrow> ui" where
  "set_device env d u = persist_device env (u\<lparr>ui_device := d\<rparr>)"

text \<open>\<open>enter\<close> on the selected row of the panel.\<close>

definition enter_row :: "ui_env \<Rightarrow> ui \<Rightarrow> ui option" where
  "enter_row env u =
     (let r = ui_selected_row u; s = ui_mavlink u; d = ui_device u; param = send_openhd_param in
      case ui_panel u of
        Dashboard \<Rightarrow>
          Some (if r = 4 then (if artosyn_link s then send_artosyn_action ''AR_RESET_CMD'' u else scan_for_air_unit u)
                else if r = 5 \<and> artosyn_link s then send_artosyn_action ''AR_PAIR_CMD'' u else u)
      | Link \<Rightarrow>
          Some (if r = 4 then param ''air'' ''WB_CHANNEL_W'' (int_str (next_channel_width_value (channel_width_mhz s))) u
                else if r = 5 then param ''air'' ''WB_MCS_INDEX'' (int_str (next_mcs_value (mcs_index s))) u
                else if r = 6 then param ''air'' ''TX_POWER_MW'' (int_str (next_tx_power_value (tx_power_mw s))) u
                else if r = 7 then param ''air'' ''WB_PIT_MODE'' ''1'' u
                else if r = 8 then param ''air'' ''WB_PIT_MODE'' ''0'' u else u)
      | Video \<Rightarrow>
          Some (if r = 0 then set_resolution_preset env ((resolution_index_for_state d + 1) mod length resolution_presets) u
                else if r = 1
                then set_device env (d\<lparr>display_hz := (if 120 \<le> display_hz d then 60 else if 100 \<le> display_hz d then 120 else 100)\<rparr>) u
                else if r = 2 then set_device env (d\<lparr>flow_rate := (if 60 \<le> flow_rate d then 30 else 60)\<rparr>) u
                else if r = 3
                then set_device env (d\<lparr>flow_scale_percent := (if 100 \<le> flow_scale_percent d then 25 else flow_scale_percent d + 25)\<rparr>) u
                else u)
      | Osd \<Rightarrow>
          Some (if r = 0 then send_osd_layout_state env (u\<lparr>ui_layout := next_layout (ui_layout u)\<rparr>)
                else if r = 1 then send_top_bar_state env (u\<lparr>ui_top_bar := \<not> ui_top_bar u\<rparr>)
                else if r = 2 then send_fps_state env (u\<lparr>ui_fps := \<not> ui_fps u\<rparr>)
                else if r = 3 then send_coordinates_state env (u\<lparr>ui_coordinates := \<not> ui_coordinates u\<rparr>)
                else if r = 4
                then persist_map env (u\<lparr>ui_map_position := map_position_values
                       ! ((map_position_index (ui_map_position u) + 1) mod length map_position_values)\<rparr>)
                else if r = 5 then send_compact_readouts_state env (u\<lparr>ui_compact := \<not> ui_compact u\<rparr>) else u)
      | Colors \<Rightarrow>
          Some (if 0 \<le> r \<and> r \<le> 1
                then (let i = nat r; next_preset = (preset_index_for_rgb i (ui_theme u ! i) + 1) mod length color_presets
                      in send_theme_color env i (u\<lparr>ui_theme := (ui_theme u)[i := preset_rgb_for_index i next_preset]\<rparr>))
                else u)
      | Camera \<Rightarrow>
          Some (if r = 3 then param ''camera1'' ''RESOLUTION_FPS'' (next_resolution_fps_value (resolution_fps s)) u
                else if r = 4 then param ''camera1'' ''ROTATION_DEG'' (int_str (next_rotation_value (rotation s))) u
                else if r = 5 then param ''camera1'' ''INTRA_REFRESH'' ''0'' u
                else if r = 6 then param ''camera1'' ''INTRA_REFRESH'' ''1'' u else u)
      | Recording \<Rightarrow>
          Some (if r = 2 then param ''camera1'' ''AIR_RECORDING_E'' ''0'' u
                else if r = 3 then param ''camera1'' ''AIR_RECORDING_E'' ''1'' u
                else if r = 4 then param ''camera1'' ''AIR_RECORDING_E'' ''2'' u else u)
      | Developer \<Rightarrow> if r = 5 then rebuild_ui env (u\<lparr>ui_advanced := \<not> ui_advanced u\<rparr>) else Some u
      | _ \<Rightarrow> Some u)"

definition panel_at :: "int \<Rightarrow> panel" where
  "panel_at i = all_panels ! nat i"

text \<open>The keys of the open menu.\<close>

definition menu_key :: "ui_env \<Rightarrow> string \<Rightarrow> ui \<Rightarrow> ui option" where
  "menu_key env key u =
     (if key = ''up''
      then (if ui_focus_panel u then rebuild_ui env (u\<lparr>ui_selected_row := max 0 (ui_selected_row u - 1)\<rparr>)
            else set_active_panel env (panel_at (max 0 (panel_index (ui_panel u) - 1))) u)
      else if key = ''down''
      then (if ui_focus_panel u
            then rebuild_ui env (u\<lparr>ui_selected_row := min (max 0 (ui_row_count u - 1)) (ui_selected_row u + 1)\<rparr>)
            else set_active_panel env (panel_at (min 9 (panel_index (ui_panel u) + 1))) u)
      else if key = ''left'' \<or> key = ''back''
      then (if ui_focus_panel u then rebuild_ui env (u\<lparr>ui_focus_panel := False\<rparr>) else hide_overlay env u)
      else if key = ''right'' \<or> key = ''enter'' \<and> \<not> ui_focus_panel u
      then rebuild_ui env (u\<lparr>ui_focus_panel := True, ui_selected_row := 0\<rparr>)
      else if key = ''enter'' then enter_row env u
      else Some u)"

definition zoom_in_keys :: "string list" where
  "zoom_in_keys = [''+'', ''='', ''>'', ''right'', ''zoom-in'']"

definition zoom_out_keys :: "string list" where
  "zoom_out_keys = [''-'', ''_'', ''<'', ''left'', ''zoom-out'']"

definition quarter :: "bool \<Rightarrow> fp" where
  "quarter neg = fp_round f64 neg 1 4"

definition apply_key_name :: "ui_env \<Rightarrow> string \<Rightarrow> ui \<Rightarrow> ui option" where
  "apply_key_name env key u =
     (let on_map = (ui_mode u = Minimap) in
      if key = ''m'' \<or> key = ''menu'' then cycle_overlay_from_menu_key env u
      else if key = ''n'' \<or> key = ''map'' then cycle_overlay_from_map_key env u
      else if key \<in> set zoom_in_keys \<and> on_map \<and> ui_minimap u \<noteq> None
      then Some (zoom_by (quarter False) (the (ui_minimap u)) u)
      else if key \<in> set zoom_out_keys \<and> on_map \<and> ui_minimap u \<noteq> None
      then Some (zoom_by (quarter True) (the (ui_minimap u)) u)
      else if key = ''enter'' \<and> on_map then rebuild_ui env (u\<lparr>ui_map_expanded := \<not> ui_map_expanded u\<rparr>)
      else if ui_mode u = Hidden \<and> key = ''enter'' then show_menu env u
      else if ui_mode u \<noteq> Menu then Some u
      else menu_key env key u)"

definition apply_terminal_key :: "ui_env \<Rightarrow> string \<Rightarrow> ui \<Rightarrow> ui option" where
  "apply_terminal_key env line u =
     (if line = ''ui show'' \<or> line = ''ui menu'' then show_menu env u
      else if line = ''ui hide'' \<or> line = ''ui close'' then hide_overlay env u
      else if line = ''ui toggle'' then cycle_overlay_from_menu_key env u
      else if \<not> starts_with ''ui key '' line then Some u
      else apply_key_name env (drop 7 line) u)"

definition dispatch_key :: "ui_env \<Rightarrow> string \<Rightarrow> ui \<Rightarrow> ui option" where
  "dispatch_key env key = apply_terminal_key env (''ui key '' @ key)"

section \<open>The keyboard\<close>

text \<open>Key codes of \<open>linux/input-event-codes.h\<close>; \<open>down\<close> the codes of the keys that are down.\<close>

definition linux_key_name :: "nat \<Rightarrow> nat set \<Rightarrow> string" where
  "linux_key_name code down =
     (let shift = (42 \<in> down \<or> 54 \<in> down) in
      if code = 103 then ''up'' else if code = 108 then ''down'' else if code = 105 then ''left''
      else if code = 106 then ''right'' else if code \<in> {28, 96, 57} then ''enter''
      else if code \<in> {1, 14} then ''back'' else if code \<in> {50, 139} then ''m'' else if code = 49 then ''n''
      else if code \<in> {13, 78} then ''+'' else if code \<in> {12, 74} then ''-''
      else if code = 86 then (if shift then ''>'' else ''<'')
      else if code = 51 then (if shift then ''<'' else []) else if code = 52 then (if shift then ''>'' else [])
      else [])"

text \<open>An event is its type, code and value; type 1 is \<open>EV_KEY\<close>.\<close>

type_synonym key_event = "nat \<times> nat \<times> int"

fun key_events :: "key_event list \<Rightarrow> nat set \<Rightarrow> string list \<times> nat set" where
  "key_events [] down = ([], down)"
| "key_events ((ty, code, v) # es) down =
     (if ty \<noteq> 1 \<or> 768 \<le> code then key_events es down
      else if v = 0 then key_events es (down - {code})
      else if v \<noteq> 1 \<or> code \<in> down then key_events es down
      else let down1 = insert code down; key = linux_key_name code down1; (keys, down2) = key_events es down1
           in (if key = [] then keys else key # keys, down2))"

fun dispatch_keys :: "ui_env \<Rightarrow> string list \<Rightarrow> ui \<Rightarrow> ui option" where
  "dispatch_keys env [] u = Some u"
| "dispatch_keys env (k # ks) u =
     (case dispatch_key env k u of None \<Rightarrow> None | Some v \<Rightarrow> dispatch_keys env ks v)"

definition poll_linux_keyboard :: "ui_env \<Rightarrow> key_event list \<Rightarrow> nat set \<times> ui \<Rightarrow> (nat set \<times> ui) option" where
  "poll_linux_keyboard env es s =
     (let (down, u) = s; (keys, down1) = key_events es down
      in map_option (\<lambda>v. (down1, v)) (dispatch_keys env keys u))"

text \<open>The characters and keys of an LVGL keyboard event.\<close>

datatype lv_key = Lv_char char | Lv_up | Lv_down | Lv_left | Lv_right | Lv_esc | Lv_backspace | Lv_enter

definition lv_key_name :: "lv_key \<Rightarrow> string" where
  "lv_key_name k =
     (case k of
        Lv_char c \<Rightarrow>
          if c \<in> {CHR ''m'', CHR ''M''} then ''m'' else if c \<in> {CHR ''n'', CHR ''N''} then ''n''
          else if c \<in> {CHR ''+'', CHR ''=''} then ''+'' else if c \<in> {CHR ''-'', CHR ''_''} then ''-''
          else if c = CHR ''<'' then ''<'' else if c = CHR ''>'' then ''>'' else []
      | Lv_up \<Rightarrow> ''up'' | Lv_down \<Rightarrow> ''down'' | Lv_left \<Rightarrow> ''left'' | Lv_right \<Rightarrow> ''right''
      | Lv_esc \<Rightarrow> ''back'' | Lv_backspace \<Rightarrow> ''back'' | Lv_enter \<Rightarrow> ''enter'')"

definition keyboard_event :: "ui_env \<Rightarrow> lv_key \<Rightarrow> ui \<Rightarrow> ui option" where
  "keyboard_event env k u = (if lv_key_name k = [] then Some u else dispatch_key env (lv_key_name k) u)"

end
