(* ===== verification/Ui_Loop.thy ===== *)
theory Ui_Loop
  imports Ui_Keys
begin

text \<open>
  \<open>src/glide_ui/main.cpp\<close>: the loop of the user interface. Its lines from the controller, the control
  files it reads while the controller is gone, the flight path and the map that follows the position.
  Answers of the system calls, the cosine and the hypotenuse are arguments.
\<close>

section \<open>Lines of the controller\<close>

definition update_theme :: "string \<Rightarrow> u32 \<Rightarrow> u32 list \<Rightarrow> u32 list" where
  "update_theme key rgb ts =
     (let i = length (takeWhile (\<lambda>k. k \<noteq> key) theme_keys) in if i < length theme_keys then ts[i := rgb] else ts)"

definition apply_theme_state_line :: "ui_env \<Rightarrow> string \<Rightarrow> ui \<Rightarrow> (bool \<times> ui) option" where
  "apply_theme_state_line env line u =
     (if \<not> starts_with ''state theme '' line then Some (False, u)
      else let r = drop 12 line; key = takeWhile (\<lambda>c. c \<noteq> CHR '' '') r; val = drop (length key + 1) r in
      if CHR '' '' \<notin> set r \<or> length val \<noteq> 6 then Some (True, u)
      else case stoul 16 val of
        None \<Rightarrow> None
      | Some v \<Rightarrow>
          if key \<in> set theme_keys
          then Some (True, u\<lparr>ui_theme := update_theme key (ucast v) (ui_theme u),
                 ui_files := set_theme_color (ue_tmp env) (ue_writable env) key (ucast v) (ui_files u)\<rparr>)
          else Some (True, u))"

definition initial_requests :: "string \<Rightarrow> string list" where
  "initial_requests backend =
     [''hello glide-ui'', ''status glide-ui ready '' @ backend, ''get fps'', ''get coords'', ''get compact'',
      ''get topbar'', ''get osd'', ''get theme'', ''get net'', ''get telemetry connection'']"

definition ui_send_all :: "string list \<Rightarrow> ui \<Rightarrow> ui" where
  "ui_send_all ls u = foldl (\<lambda>v l. ui_send l v) u ls"

definition send_initial_ipc_requests :: "string \<Rightarrow> ui \<Rightarrow> ui" where
  "send_initial_ipc_requests backend = ui_send_all (initial_requests backend)"

definition add_peer :: "string \<Rightarrow> ui \<Rightarrow> ui" where
  "add_peer line u =
     (let st = istringstream line; (_, st) = read_token [] st; (_, st) = read_token [] st; (_, st) = read_token [] st;
          (addr, st) = read_token [] st; (host, st) = read_token [] st; (port, st) = read_token [] st;
          shown = (if host = [] then addr else host @ '' '' @ addr @ '':'' @ port) in
      if addr = [] then u
      else u\<lparr>ui_peers := (if shown \<in> set (ui_peers u) then ui_peers u else ui_peers u @ [shown]),
             ui_net_status := ''Peer found''\<rparr>)"

definition apply_network_state_line :: "string \<Rightarrow> ui \<Rightarrow> bool \<times> ui" where
  "apply_network_state_line line u =
     (if starts_with ''state telemetry '' line then (True, u\<lparr>ui_telemetry_status := drop 16 line\<rparr>)
      else if line = ''state net idle'' then (True, u\<lparr>ui_scanning := False, ui_net_status := ''Idle''\<rparr>)
      else if line = ''state net scanning''
      then (True, u\<lparr>ui_scanning := True, ui_net_status := ''Scanning'', ui_peers := []\<rparr>)
      else if starts_with ''state net peer '' line then (True, add_peer line u)
      else if starts_with ''state net done '' line
      then (True, u\<lparr>ui_scanning := False, ui_net_status := (if ui_peers u = [] then ''No peers'' else ''Ready'')\<rparr>)
      else if starts_with ''state net p2p '' line then (True, u\<lparr>ui_net_status := drop 14 line\<rparr>)
      else (False, u))"

definition panel_uses_mavlink :: "panel \<Rightarrow> bool" where
  "panel_uses_mavlink p \<longleftrightarrow> p \<in> {Dashboard, Link, Video, Camera, Telemetry, Recording, System}"

definition panel_uses_network :: "panel \<Rightarrow> bool" where
  "panel_uses_network p \<longleftrightarrow> p \<in> {Link, System, Developer}"

definition request_panel_rebuild :: "int \<Rightarrow> ui \<Rightarrow> ui" where
  "request_panel_rebuild now u =
     u\<lparr>ui_rebuild_pending := True, ui_next_rebuild := (if ui_next_rebuild u \<le> now then now + ms 100 else ui_next_rebuild u)\<rparr>"

definition refresh_panel :: "(panel \<Rightarrow> bool) \<Rightarrow> int \<Rightarrow> ui \<Rightarrow> ui" where
  "refresh_panel uses now u =
     (if ui_mode u = Menu \<and> uses (ui_panel u) then request_panel_rebuild now u else u)"

text \<open>A setting the controller reports. It is written only when it is new.\<close>

definition apply_setting_state :: "ui_env \<Rightarrow> string \<Rightarrow> ui \<Rightarrow> ui option" where
  "apply_setting_state env line u =
     (let on = (line \<noteq> [] \<and> last line = CHR ''1''); t = ue_tmp env; w = ue_writable env in
      if line = ''state fps 0'' \<or> line = ''state fps 1''
      then Some (if ui_fps u = on then u else u\<lparr>ui_fps := on, ui_files := set_fps_overlay_enabled t w on (ui_files u)\<rparr>)
      else if line = ''state coords 0'' \<or> line = ''state coords 1''
      then Some (if ui_coordinates u = on then u
                 else u\<lparr>ui_coordinates := on, ui_files := set_coordinates_overlay_enabled t w on (ui_files u)\<rparr>)
      else if line = ''state compact 0'' \<or> line = ''state compact 1''
      then Some (if ui_compact u = on then u
                 else u\<lparr>ui_compact := on, ui_files := set_compact_readouts_enabled t w on (ui_files u)\<rparr>)
      else if line = ''state topbar 0'' \<or> line = ''state topbar 1''
      then Some (if ui_top_bar u = on then u else u\<lparr>ui_top_bar := on, ui_files := set_top_bar_enabled t w on (ui_files u)\<rparr>)
      else if line = ''state osd drone'' \<or> line = ''state osd rocket'' \<or> line = ''state osd rover'' \<or> line = ''state osd ship''
      then Some (if ui_layout u = drop 10 line then u
                 else u\<lparr>ui_layout := drop 10 line, ui_files := set_osd_layout t w (drop 10 line) (ui_files u)\<rparr>)
      else None)"

definition ui_line :: "ui_env \<Rightarrow> string \<Rightarrow> ui \<Rightarrow> ui option" where
  "ui_line env line u =
     (case apply_setting_state env line u of
        Some v \<Rightarrow> Some v
      | None \<Rightarrow> (case apply_theme_state_line env line u of
          None \<Rightarrow> None
        | Some (True, v) \<Rightarrow> Some v
        | Some (False, v) \<Rightarrow>
            (case apply_network_state_line line v of
               (True, v1) \<Rightarrow> Some (refresh_panel panel_uses_network (ue_now env) v1)
             | (False, v1) \<Rightarrow>
                 (case apply_ipc_line (ui_mavlink v1) line of
                    (True, s) \<Rightarrow> Some (refresh_panel panel_uses_mavlink (ue_now env) (v1\<lparr>ui_mavlink := s\<rparr>))
                  | (False, s) \<Rightarrow> apply_terminal_key env line (v1\<lparr>ui_mavlink := s\<rparr>)))))"

fun ui_lines :: "ui_env \<Rightarrow> string list \<Rightarrow> ui \<Rightarrow> ui option" where
  "ui_lines env [] u = Some u"
| "ui_lines env (l # ls) u = (case ui_line env l u of None \<Rightarrow> None | Some v \<Rightarrow> ui_lines env ls v)"

section \<open>Connection and control files\<close>

text \<open>\<open>sock\<close> is the socket and whether it connects.\<close>

definition connect_ipc_if_needed :: "int \<Rightarrow> int \<times> bool \<Rightarrow> ui \<Rightarrow> bool \<times> ui" where
  "connect_ipc_if_needed now sock u =
     (if client_connected (ui_ipc u) then (True, u)
      else if now < ui_next_ipc u then (False, u)
      else case client_connect_to (fst sock) (snd sock) (ui_ipc u) of
        (False, c) \<Rightarrow> (False, u\<lparr>ui_next_ipc := now + ms 500, ui_ipc := c\<rparr>)
      | (True, c) \<Rightarrow> (True, send_initial_ipc_requests ''lvgl-buffer'' (u\<lparr>ui_next_ipc := now + ms 500, ui_ipc := c\<rparr>)))"

definition key_file :: "string \<Rightarrow> string" where
  "key_file tmp = join_path tmp ''openhd-glide-ui.key''"

definition key_file_lines :: "string \<Rightarrow> files \<Rightarrow> string list" where
  "key_file_lines tmp fs =
     filter (\<lambda>l. l \<noteq> []) (map strip_cr (file_lines (key_file tmp) fs))"

fun terminal_keys :: "ui_env \<Rightarrow> string list \<Rightarrow> ui \<Rightarrow> ui option" where
  "terminal_keys env [] u = Some u"
| "terminal_keys env (l # ls) u =
     (case apply_terminal_key env (if starts_with ''ui key '' l then l else ''ui key '' @ l) u of
        None \<Rightarrow> None | Some v \<Rightarrow> terminal_keys env ls v)"

definition poll_local_key_file :: "ui_env \<Rightarrow> ui \<Rightarrow> ui option" where
  "poll_local_key_file env u =
     (if ui_files u (key_file (ue_tmp env)) = None then Some u
      else terminal_keys env (key_file_lines (ue_tmp env) (ui_files u))
             (u\<lparr>ui_files := write_file (ue_writable env) (key_file (ue_tmp env)) [] (ui_files u)\<rparr>))"

definition read_control_files :: "ui_env \<Rightarrow> ui \<Rightarrow> ui" where
  "read_control_files env u =
     (let t = ue_tmp env; fs = ui_files u in
      u\<lparr>ui_fps := fps_overlay_enabled t fs, ui_coordinates := coordinates_overlay_enabled t fs,
        ui_compact := compact_readouts_enabled t fs, ui_top_bar := top_bar_enabled t fs, ui_layout := osd_layout t fs,
        ui_theme := map (\<lambda>k. theme_color t k fs) theme_keys\<rparr>)"

definition poll_files :: "ui_env \<Rightarrow> ui \<Rightarrow> ui option" where
  "poll_files env u =
     (if ue_now env < ui_next_file_poll u then Some u
      else poll_local_key_file env (read_control_files env (u\<lparr>ui_next_file_poll := ue_now env + ms 250\<rparr>)))"

definition reconnect_telemetry :: "int \<Rightarrow> ui \<Rightarrow> ui" where
  "reconnect_telemetry now u =
     (if ui_auto_connect u \<and> client_connected (ui_ipc u) \<and> \<not> starts_with ''TCP '' (ui_telemetry_status u)
         \<and> ui_next_telemetry u \<le> now
      then ui_send (''net telemetry connect tcp '' @ ui_telemetry_host u)
             (u\<lparr>ui_next_telemetry := now + ms 3000, ui_telemetry_status := ''Connecting...''\<rparr>)
      else u)"

definition poll_ipc :: "ui_env \<Rightarrow> int \<times> bool \<Rightarrow> recv_answer list \<Rightarrow> ui \<Rightarrow> ui option" where
  "poll_ipc env sock received u =
     (case connect_ipc_if_needed (ue_now env) sock u of
        (False, v) \<Rightarrow> poll_files env v
      | (True, v) \<Rightarrow>
          (let (lines, c) = client_poll_lines received (ui_ipc v) in
           case ui_lines env lines (v\<lparr>ui_ipc := c\<rparr>) of
             None \<Rightarrow> None
           | Some v1 \<Rightarrow>
               map_option (reconnect_telemetry (ue_now env))
                 (if ui_rebuild_pending v1 \<and> ui_next_rebuild v1 \<le> ue_now env
                  then set_active_panel env (ui_panel v1) v1 else Some v1)))"

section \<open>The flight path\<close>

text \<open>\<open>cosine\<close> and \<open>hyp\<close> are \<open>std::cos\<close> and \<open>std::hypot\<close>.\<close>

definition fp_half :: fp where
  "fp_half = fp_round f64 False 1 2"

definition fp_ge :: "fp \<Rightarrow> fp \<Rightarrow> bool" where
  "fp_ge x y \<longleftrightarrow> (case (x, y) of (FNan _, _) \<Rightarrow> False | (_, FNan _) \<Rightarrow> False | _ \<Rightarrow> \<not> fp_less x y)"

definition moved :: "(fp \<Rightarrow> fp) \<Rightarrow> (fp \<Rightarrow> fp \<Rightarrow> fp) \<Rightarrow> position \<Rightarrow> position \<Rightarrow> bool" where
  "moved cosine hyp p q =
     (let (lat1, lon1, _) = p; (lat2, lon2, _) = q;
          scale = fp_of_int f64 111320;
          pi' = fp_round f64 False 314159265358979323846 100000000000000000000;
          mean = fp_div_nat f64 (fp_mul f64 (fp_mul f64 (fp_add f64 lat1 lat2) fp_half) pi') 180;
          north = fp_mul f64 (fp_add f64 lat2 (fp_neg lat1)) scale;
          east = fp_mul f64 (fp_mul f64 (fp_add f64 lon2 (fp_neg lon1)) scale) (cosine mean)
      in fp_ge (hyp north east) (fp_of_int f64 2))"

definition keep_2000 :: "'a list \<Rightarrow> 'a list" where
  "keep_2000 ps = (if 2000 < length ps then drop 500 ps else ps)"

definition record_flight_position :: "(fp \<Rightarrow> fp) \<Rightarrow> (fp \<Rightarrow> fp \<Rightarrow> fp) \<Rightarrow> ui \<Rightarrow> ui" where
  "record_flight_position cosine hyp u =
     (if \<not> position_valid (ui_mavlink u) then u
      else let p = current_flight_position u;
               u1 = (if ui_home u = None then u\<lparr>ui_home := Some (fst p, fst (snd p))\<rparr> else u) in
      if ui_path u1 \<noteq> [] \<and> \<not> moved cosine hyp (last (ui_path u1)) p then u1
      else u1\<lparr>ui_path := keep_2000 (ui_path u1 @ [p])\<rparr>)"

section \<open>The map follows the position\<close>

definition update_minimap :: "int \<Rightarrow> ui \<Rightarrow> ui" where
  "update_minimap now u =
     (case ui_minimap u of
        None \<Rightarrow> u
      | Some m \<Rightarrow>
          if ui_mode u \<noteq> Minimap \<or> (ui_last_render u \<noteq> 0 \<and> now - ui_last_render u < ms 100) then u
          else let m1 = (if position_valid (ui_mavlink u)
                         then m\<lparr>mm_home := (case ui_home u of Some h \<Rightarrow> h | None \<Rightarrow> (fp_zero f64, fp_zero f64)),
                                mm_position := current_flight_position u\<rparr>
                         else m)
               in (send_gpu_map_state (u\<lparr>ui_minimap := Some m1\<rparr>))\<lparr>ui_last_render := now\<rparr>)"

section \<open>Rounds\<close>

text \<open>
  What \<open>global_sdl_key_watch\<close> adds to the zoom of the map in the window of the preview: the turn of the mouse
  wheel, and a step for the keys for greater and less, by their key or by the place of the key, with or without shift.
\<close>

datatype sdl_key = Greater_key | Period_key | Less_key | Comma_key | Other_key

datatype sdl_event = Wheel int | Key_down sdl_key bool bool bool

definition sdl_zoom_step :: "sdl_event \<Rightarrow> int" where
  "sdl_zoom_step e =
     (case e of Wheel y \<Rightarrow> y
      | Key_down key nonus_backslash shift repeated \<Rightarrow>
          if repeated then 0
          else if key = Greater_key \<or> key = Period_key \<and> shift then 1
          else if key = Less_key \<or> nonus_backslash then (if shift then 1 else - 1)
          else if key = Comma_key \<and> shift then - 1 else 0)"

text \<open>The steps of one round, which count only while the preview shows the map.\<close>

definition sdl_zoom :: "int \<Rightarrow> ui \<Rightarrow> ui" where
  "sdl_zoom steps u =
     (if ui_buffer u \<or> ui_mode u \<noteq> Minimap \<or> steps = 0 then u
      else case ui_minimap u of None \<Rightarrow> u | Some m \<Rightarrow> zoom_by (quarter (steps < 0)) m u)"

text \<open>
  What LVGL delivers in a round: a button, a control, a button of the SIYI camera, a button of the
  sidebar or a key of an LVGL keyboard. Only the open menu has widgets.
\<close>

datatype ui_event = Row_button click | Changed change | Siyi string press | Nav panel | Typed lv_key

fun clicks :: "row list \<Rightarrow> click list" where
  "clicks [] = []"
| "clicks (Button t c # rs) = c # clicks rs"
| "clicks (_ # rs) = clicks rs"

definition offered :: "change \<Rightarrow> bool" where
  "offered c = (case c of Theme_to i _ \<Rightarrow> i < length theme_keys | _ \<Rightarrow> True)"

definition ui_event :: "ui_env \<Rightarrow> ui_event \<Rightarrow> ui \<Rightarrow> ui option" where
  "ui_event env e u =
     (case e of
        Row_button c \<Rightarrow>
          if ui_mode u = Menu \<and> c \<in> set (clicks (panel_rows (ue_bad env) u)) then click_button env c u
          else Some u
      | Changed c \<Rightarrow> Some (if ui_mode u = Menu \<and> offered c then change_control_row env c u else u)
      | Siyi c p \<Rightarrow> Some (if ui_mode u = Menu then siyi_event c p u else u)
      | Nav p \<Rightarrow> if ui_mode u = Menu then set_active_panel env p u else Some u
      | Typed k \<Rightarrow> keyboard_event env k u)"

fun ui_events :: "ui_env \<Rightarrow> ui_event list \<Rightarrow> ui \<Rightarrow> ui option" where
  "ui_events env [] u = Some u"
| "ui_events env (e # es) u = (case ui_event env e u of None \<Rightarrow> None | Some v \<Rightarrow> ui_events env es v)"

record ui_round =
  ur_env :: ui_env
  ur_keys :: "key_event list"
  ur_socket :: "int \<times> bool"
  ur_received :: "recv_answer list"
  ur_cos :: "fp \<Rightarrow> fp"
  ur_hyp :: "fp \<Rightarrow> fp \<Rightarrow> fp"
  ur_sdl :: "sdl_event list"
  ur_events :: "ui_event list"

definition ui_step :: "ui_round \<Rightarrow> nat set \<times> ui \<Rightarrow> (nat set \<times> ui) option" where
  "ui_step r s =
     (case (if ui_buffer (snd s) then poll_linux_keyboard (ur_env r) (ur_keys r) s else Some s) of
        None \<Rightarrow> None
      | Some (down, u1) \<Rightarrow>
          (case poll_ipc (ur_env r) (ur_socket r) (ur_received r) u1 of
             None \<Rightarrow> None
           | Some u2 \<Rightarrow>
               (let u3 = sdl_zoom (sum_list (map sdl_zoom_step (ur_sdl r))) (record_flight_position (ur_cos r) (ur_hyp r) u2) in
                if ui_buffer u3 \<and> ui_mode u3 = Hidden then Some (down, u3)
                else map_option (\<lambda>v. (down, v))
                       (ui_events (ur_env r) (ur_events r) (update_minimap (ue_now (ur_env r)) u3)))))"

fun ui_run :: "ui_round list \<Rightarrow> nat set \<times> ui \<Rightarrow> (nat set \<times> ui) option" where
  "ui_run [] s = Some s"
| "ui_run (r # rs) s = (case ui_step r s of None \<Rightarrow> None | Some t \<Rightarrow> ui_run rs t)"

section \<open>Start\<close>

definition load_ui :: "ui_env \<Rightarrow> bool \<Rightarrow> files \<Rightarrow> ui" where
  "load_ui env buffer fs =
     (let u = read_control_files env (new_ui buffer fs);
          (pos, open_map) = load_map_settings (ue_map_file env) fs (ui_map_position u, ui_map_restore_open u) in
      u\<lparr>ui_device := load_device_settings (ue_bad env) fs (ui_device u),
        ui_telemetry_host := load_telemetry_settings (ue_telemetry_file env) fs (ui_telemetry_host u),
        ui_map_position := pos, ui_map_restore_open := open_map\<rparr>)"

definition ui_start :: "ui_env \<Rightarrow> bool \<Rightarrow> int \<times> bool \<Rightarrow> files \<Rightarrow> ui option" where
  "ui_start env buffer sock fs =
     (let u = load_ui env buffer fs;
          (ok, c) = client_connect_to (fst sock) (snd sock) (ui_ipc u);
          u1 = u\<lparr>ui_ipc := c\<rparr>;
          u2 = (if ok then send_initial_ipc_requests (if buffer then ''lvgl-buffer'' else ''lvgl-sdl'') u1 else u1);
          u3 = (if ui_map_restore_open u2 then suppress_coordinates env (u2\<lparr>ui_mode := Minimap\<rparr>) else u2)
      in build_overlay env u3)"

end
