(* ===== verification/Ui_Flow.thy ===== *)
theory Ui_Flow
  imports Ui_Loop
begin

text \<open>
  Invariants of the user interface. Locale \<open>ui_invariant\<close> is the contract of a property of the state: it
  names the few ways in which the handlers touch the state, and shows that a property that each of them
  keeps holds after every run of the loop, whatever keys, lines and clicks arrive.
\<close>

section \<open>What the handlers touch\<close>

definition sent_after :: "string \<Rightarrow> ui \<Rightarrow> string list" where
  "sent_after l u = (if client_connected (ui_ipc u) then ui_sent u @ [line_payload l] else ui_sent u)"

lemma ui_send_eq: "ui_send l u = u\<lparr>ui_sent := sent_after l u\<rparr>"
  by (simp add: ui_send_def client_send_line_def sent_after_def client_connected_def)

text \<open>The part of the state that no invariant speaks of.\<close>

definition core :: "ui \<Rightarrow> ui" where
  "core u = u\<lparr>ui_ipc := new_client, ui_sent := [], ui_mavlink := initial_snapshot, ui_telemetry_status := [],
     ui_telemetry_host := [], ui_map_inner := (0, 0, 0, 0), ui_auto_connect := False, ui_advanced := False,
     ui_focus_panel := False, ui_rebuild_pending := False, ui_animate := False, ui_next_file_poll := 0,
     ui_next_rebuild := 0, ui_next_telemetry := 0, ui_last_render := 0, ui_next_ipc := 0, ui_device := default_device,
     ui_scanning := False, ui_net_status := [], ui_peers := [], ui_selected_row := 0, ui_restarts := 0\<rparr>"

lemma core_quiet [simp]:
  "core (u\<lparr>ui_ipc := x0\<rparr>) = core u"
  "core (u\<lparr>ui_sent := x1\<rparr>) = core u"
  "core (u\<lparr>ui_mavlink := x2\<rparr>) = core u"
  "core (u\<lparr>ui_telemetry_status := x3\<rparr>) = core u"
  "core (u\<lparr>ui_telemetry_host := x4\<rparr>) = core u"
  "core (u\<lparr>ui_map_inner := x5\<rparr>) = core u"
  "core (u\<lparr>ui_auto_connect := x6\<rparr>) = core u"
  "core (u\<lparr>ui_advanced := x7\<rparr>) = core u"
  "core (u\<lparr>ui_focus_panel := x8\<rparr>) = core u"
  "core (u\<lparr>ui_rebuild_pending := x9\<rparr>) = core u"
  "core (u\<lparr>ui_animate := x10\<rparr>) = core u"
  "core (u\<lparr>ui_next_file_poll := x11\<rparr>) = core u"
  "core (u\<lparr>ui_next_rebuild := x12\<rparr>) = core u"
  "core (u\<lparr>ui_next_telemetry := x13\<rparr>) = core u"
  "core (u\<lparr>ui_last_render := x14\<rparr>) = core u"
  "core (u\<lparr>ui_next_ipc := x15\<rparr>) = core u"
  "core (u\<lparr>ui_device := x16\<rparr>) = core u"
  "core (u\<lparr>ui_scanning := x17\<rparr>) = core u"
  "core (u\<lparr>ui_net_status := x18\<rparr>) = core u"
  "core (u\<lparr>ui_peers := x19\<rparr>) = core u"
  "core (u\<lparr>ui_selected_row := x20\<rparr>) = core u"
  "core (u\<lparr>ui_restarts := x21\<rparr>) = core u"
  by (simp_all add: core_def)

lemma core_send [simp]: "core (ui_send l u) = core u" "core (send_openhd_param t p v u) = core u"
    "core (send_artosyn_action p u) = core u" "core (scan_for_air_unit u) = core u"
  by (simp_all add: ui_send_eq send_openhd_param_def send_artosyn_action_def scan_for_air_unit_def)

lemma core_map_state [simp]: "core (send_gpu_map_state u) = core u"
  by (simp add: send_gpu_map_state_def split: option.splits)

lemma core_send_all [simp]: "core (ui_send_all ls u) = core u"
  unfolding ui_send_all_def by (induction ls arbitrary: u) simp_all

lemma core_requests [simp]: "core (send_initial_ipc_requests b u) = core u"
  by (simp add: send_initial_ipc_requests_def)

lemma core_network: "core (snd (apply_network_state_line line u)) = core u"
  by (simp add: apply_network_state_line_def add_peer_def Let_def split_def)

lemma core_refresh [simp]: "core (refresh_panel p now u) = core u"
  by (simp add: refresh_panel_def request_panel_rebuild_def)

lemma core_connect: "core (snd (connect_ipc_if_needed now sock u)) = core u"
  by (simp add: connect_ipc_if_needed_def split: prod.split bool.split)

lemma core_reconnect [simp]: "core (reconnect_telemetry now u) = core u"
  by (simp add: reconnect_telemetry_def)

lemma core_siyi [simp]: "core (send_siyi_control c b u) = core u" "core (siyi_event c e u) = core u"
  by (simp_all add: siyi_event_def send_siyi_control_def Let_def split: press.splits)

section \<open>The contract of an invariant\<close>

definition layouts :: "string list" where
  "layouts = [''drone'', ''rocket'', ''rover'', ''ship'']"

locale ui_invariant =
  fixes P :: "ui \<Rightarrow> bool" and good :: "ui_env \<Rightarrow> bool"
  assumes quiet: "P u \<Longrightarrow> core v = core u \<Longrightarrow> P v"
    and layout: "good env \<Longrightarrow> P u \<Longrightarrow> l \<in> set layouts \<Longrightarrow>
      P (u\<lparr>ui_layout := l, ui_files := set_osd_layout (ue_tmp env) (ue_writable env) l (ui_files u)\<rparr>)"
    and top_bar: "good env \<Longrightarrow> P u \<Longrightarrow>
      P (u\<lparr>ui_top_bar := b, ui_files := set_top_bar_enabled (ue_tmp env) (ue_writable env) b (ui_files u)\<rparr>)"
    and fps: "good env \<Longrightarrow> P u \<Longrightarrow>
      P (u\<lparr>ui_fps := b, ui_files := set_fps_overlay_enabled (ue_tmp env) (ue_writable env) b (ui_files u)\<rparr>)"
    and coordinates: "good env \<Longrightarrow> P u \<Longrightarrow>
      P (u\<lparr>ui_coordinates := b, ui_files := set_coordinates_overlay_enabled (ue_tmp env) (ue_writable env) b (ui_files u)\<rparr>)"
    and compact: "good env \<Longrightarrow> P u \<Longrightarrow>
      P (u\<lparr>ui_compact := b, ui_files := set_compact_readouts_enabled (ue_tmp env) (ue_writable env) b (ui_files u)\<rparr>)"
    and theme: "good env \<Longrightarrow> P u \<Longrightarrow> i < length theme_keys \<Longrightarrow>
      P (u\<lparr>ui_theme := (ui_theme u)[i := rgb],
           ui_files := set_theme_color (ue_tmp env) (ue_writable env) (theme_keys ! i) rgb (ui_files u)\<rparr>)"
    and themed: "P u \<Longrightarrow> length (ui_theme u) = length theme_keys"
    and device: "good env \<Longrightarrow> P u \<Longrightarrow> P (persist_device env u)"
    and host: "good env \<Longrightarrow> P u \<Longrightarrow>
      P (u\<lparr>ui_files := persist_telemetry_host (ue_writable env) (ue_telemetry_file env) h (ui_files u)\<rparr>)"
    and map_at: "good env \<Longrightarrow> P u \<Longrightarrow> i < length map_position_values \<Longrightarrow>
      P (persist_map env (u\<lparr>ui_map_position := map_position_values ! i\<rparr>))"
    and close_map: "good env \<Longrightarrow> P u \<Longrightarrow> m \<noteq> Minimap \<Longrightarrow>
      core w = core ((leave_map env u)\<lparr>ui_mode := m\<rparr>) \<Longrightarrow> rebuild_ui env w = Some v \<Longrightarrow> P v"
    and open_map: "good env \<Longrightarrow> P u \<Longrightarrow> ui_mode u \<noteq> Minimap \<Longrightarrow>
      core w = core ((suppress_coordinates env u)\<lparr>ui_mode := Minimap\<rparr>) \<Longrightarrow> rebuild_ui env w = Some v \<Longrightarrow> P v"
    and expanded: "good env \<Longrightarrow> P u \<Longrightarrow> ui_mode u = Minimap \<Longrightarrow>
      rebuild_ui env (u\<lparr>ui_map_expanded := b\<rparr>) = Some v \<Longrightarrow> P v"
    and rebuilt: "good env \<Longrightarrow> P u \<Longrightarrow> rebuild_ui env u = Some v \<Longrightarrow> P v"
    and panel: "good env \<Longrightarrow> P u \<Longrightarrow> set_active_panel env p u = Some v \<Longrightarrow> P v"
    and zoomed: "P u \<Longrightarrow> ui_minimap u \<noteq> None \<Longrightarrow> P (u\<lparr>ui_minimap := Some mm\<rparr>)"
    and homed: "P u \<Longrightarrow> P (u\<lparr>ui_home := home\<rparr>)"
    and flown: "P u \<Longrightarrow> P (u\<lparr>ui_path := keep_2000 (ui_path u @ [place])\<rparr>)"
    and files_read: "good env \<Longrightarrow> P u \<Longrightarrow> P (read_control_files env u)"
    and keys_read: "good env \<Longrightarrow> P u \<Longrightarrow>
      P (u\<lparr>ui_files := write_file (ue_writable env) (key_file (ue_tmp env)) [] (ui_files u)\<rparr>)"
begin

lemma sent: "P u \<Longrightarrow> P (ui_send l u)" "P u \<Longrightarrow> P (send_openhd_param t p x u)" "P u \<Longrightarrow> P (send_artosyn_action p u)"
    "P u \<Longrightarrow> P (scan_for_air_unit u)" "P u \<Longrightarrow> P (send_gpu_map_state u)"
  by (erule quiet, simp)+

lemma switched:
  assumes "good env" "P u"
  shows "P (send_top_bar_state env (u\<lparr>ui_top_bar := b\<rparr>))" "P (send_fps_state env (u\<lparr>ui_fps := b\<rparr>))"
    "P (send_coordinates_state env (u\<lparr>ui_coordinates := b\<rparr>))" "P (send_compact_readouts_state env (u\<lparr>ui_compact := b\<rparr>))"
    "l \<in> set layouts \<Longrightarrow> P (send_osd_layout_state env (u\<lparr>ui_layout := l\<rparr>))"
    "i < length theme_keys \<Longrightarrow> P (send_theme_color env i (u\<lparr>ui_theme := (ui_theme u)[i := rgb]\<rparr>))"
  using top_bar[OF assms] fps[OF assms] coordinates[OF assms] compact[OF assms] layout[OF assms] theme[OF assms]
    themed[OF assms(2)]
  by (auto simp: send_top_bar_state_def send_fps_state_def send_coordinates_state_def send_compact_readouts_state_def
      send_osd_layout_state_def send_theme_color_def intro!: sent)

lemma stored:
  assumes "good env" "P u"
  shows "P (persist_device env (u\<lparr>ui_device := d\<rparr>))"
  by (rule device[OF assms(1)]) (rule quiet[OF assms(2)], simp)

lemma changed:
  assumes "good env" "P u" "offered c"
  shows "P (change_control_row env c u)"
proof -
  have d: "P (u\<lparr>ui_device := d\<rparr>)" for d by (rule quiet[OF assms(2)]) simp
  have l: "layout_of n \<in> set layouts" for n by (simp add: layout_of_def layouts_def)
  have n: "min n (length map_position_values - 1) < length map_position_values" for n by (simp add: map_position_values_def)
  show ?thesis
    using switched[OF assms(1,2)] l stored[OF assms(1,2)] map_at[OF assms(1,2) n] d assms(3)
    by (cases c) (simp_all add: change_control_row_def set_resolution_preset_def offered_def del: One_nat_def)
qed

lemma clicked:
  assumes "good env" "P u" "click_button env c u = Some v"
  shows "P v"
proof -
  have q: "P (ui_send ''net scan'' (u\<lparr>ui_scanning := True, ui_net_status := ''Scanning'', ui_peers := []\<rparr>))"
    "P (u\<lparr>ui_advanced := b\<rparr>)" "P (ui_send ''net telemetry disconnect'' (u\<lparr>ui_auto_connect := False\<rparr>))"
    "P (u\<lparr>ui_telemetry_host := h\<rparr>)" for b h
    by (rule quiet[OF assms(2)], simp)+
  have h: "P (ui_send l (u\<lparr>ui_telemetry_host := h,
       ui_files := persist_telemetry_host (ue_writable env) (ue_telemetry_file env) h (ui_files u),
       ui_auto_connect := True, ui_next_telemetry := n, ui_telemetry_status := t\<rparr>))" for l h n t
    by (rule quiet[OF host[OF assms(1) q(4)[of h], of h]]) simp
  show ?thesis
    using assms(3) sent[OF assms(2)] q h panel[OF assms(1) q(1)] panel[OF assms(1) q(2)] assms(2)
    by (cases c) (auto simp: click_button_def Let_def split: if_splits)
qed

lemma entered:
  assumes "good env" "P u" "enter_row env u = Some v"
  shows "P v"
proof -
  have l: "next_layout x \<in> set layouts" for x by (simp add: next_layout_def layouts_def)
  have n: "n mod length map_position_values < length map_position_values" for n by (simp add: map_position_values_def)
  have c: "0 \<le> i \<Longrightarrow> i \<le> 1 \<Longrightarrow> nat i < length theme_keys" for i by (simp add: theme_keys_def)
  have d: "P (set_device env x u)" "P (set_resolution_preset env k u)" for x k
    by (simp_all add: set_device_def set_resolution_preset_def stored[OF assms(1,2)])
  have r: "P (u\<lparr>ui_advanced := b\<rparr>)" for b by (rule quiet[OF assms(2)]) simp
  show ?thesis
    using assms(3) sent[OF assms(2)] switched[OF assms(1,2)] d map_at[OF assms(1,2) n] l c rebuilt[OF assms(1) r] assms(2)
    by (cases "ui_panel u") (auto simp: enter_row_def Let_def split: if_splits)
qed

lemma menu_keyed:
  assumes "good env" "P u" "menu_key env key u = Some v"
    and hidden: "\<And>w. hide_overlay env u = Some w \<Longrightarrow> P w"
  shows "P v"
proof -
  have q: "P (u\<lparr>ui_selected_row := i\<rparr>)" "P (u\<lparr>ui_focus_panel := b\<rparr>)" "P (u\<lparr>ui_focus_panel := b, ui_selected_row := i\<rparr>)" for i b
    by (rule quiet[OF assms(2)], simp)+
  show ?thesis
    using assms(3) rebuilt[OF assms(1) q(1)] rebuilt[OF assms(1) q(2)] rebuilt[OF assms(1) q(3)]
      panel[OF assms(1,2)] entered[OF assms(1,2)] hidden assms(2)
    unfolding menu_key_def by (simp split: if_split_asm)
qed

lemma overlaid:
  assumes "good env" "P u"
  shows "show_menu env u = Some v \<Longrightarrow> P v" "hide_overlay env u = Some v \<Longrightarrow> P v"
    "cycle_overlay_from_map_key env u = Some v \<Longrightarrow> P v"
proof -
  have c: "core (x\<lparr>ui_mode := m, ui_animate := a, ui_focus_panel := f\<rparr>) = core (x\<lparr>ui_mode := m\<rparr>)"
    "core (x\<lparr>ui_mode := m, ui_focus_panel := f\<rparr>) = core (x\<lparr>ui_mode := m\<rparr>)" for x m a f
    by (simp_all add: core_def)
  show "show_menu env u = Some v \<Longrightarrow> P v"
    using close_map[OF assms, of Menu, OF _ c(1)] assms(2) by (auto simp: show_menu_def split: if_splits)
  show "hide_overlay env u = Some v \<Longrightarrow> P v"
    using close_map[OF assms, of Hidden, OF _ c(2)] assms(2) by (auto simp: hide_overlay_def split: if_splits)
  show "cycle_overlay_from_map_key env u = Some v \<Longrightarrow> P v"
    using close_map[OF assms, of Hidden, OF _ c(2)] open_map[OF assms _ c(2)]
    by (simp add: cycle_overlay_from_map_key_def leave_map_def split: if_split_asm)
qed

lemma keyed:
  assumes "good env" "P u" "apply_key_name env key u = Some v"
  shows "P v"
proof -
  have z: "ui_minimap u \<noteq> None \<Longrightarrow> P (zoom_by x m u)" for x m
    unfolding zoom_by_def by (rule sent(5)) (rule zoomed[OF assms(2)])
  have m: "menu_key env key u = Some v \<Longrightarrow> P v" by (rule menu_keyed[OF assms(1,2) _ overlaid(2)[OF assms(1,2)]])
  show ?thesis
    using assms(3) overlaid[OF assms(1,2)] z m expanded[OF assms(1,2)] assms(2)
    by (auto simp: apply_key_name_def cycle_overlay_from_menu_key_def Let_def split: if_split_asm)
qed

lemma terminal:
  assumes "good env" "P u" "apply_terminal_key env line u = Some v"
  shows "P v"
  using assms(3) overlaid[OF assms(1,2)] keyed[OF assms(1,2)] assms(2)
  by (simp add: apply_terminal_key_def cycle_overlay_from_menu_key_def split: if_split_asm)

lemma keys:
  assumes "good env" "P u" "dispatch_keys env ks u = Some v"
  shows "P v"
  using assms(2,3)
  by (induction ks arbitrary: u) (auto simp: dispatch_key_def split: option.splits dest: terminal[OF assms(1)])

lemma file_keys:
  assumes "good env" "P u" "terminal_keys env ls u = Some v"
  shows "P v"
  using assms(2,3) by (induction ls arbitrary: u) (auto split: option.splits if_splits dest: terminal[OF assms(1)])

lemma reported:
  assumes "good env" "P u" "apply_setting_state env line u = Some v"
  shows "P v"
proof -
  note l = layout[OF assms(1,2), unfolded layouts_def]
  have "pred_option P (apply_setting_state env line u)"
    using fps[OF assms(1,2)] coordinates[OF assms(1,2)] compact[OF assms(1,2)] top_bar[OF assms(1,2)]
      l[of "''drone''"] l[of "''rocket''"] l[of "''rover''"] l[of "''ship''"] assms(2)
    by (simp add: apply_setting_state_def Let_def)
  with assms(3) show ?thesis by simp
qed

lemma colored:
  assumes "good env" "P u" "apply_theme_state_line env line u = Some (b, v)"
  shows "P v"
proof -
  have i: "length (takeWhile (\<lambda>k. k \<noteq> key) theme_keys) < length theme_keys
      \<and> theme_keys ! length (takeWhile (\<lambda>k. k \<noteq> key) theme_keys) = key" if "key \<in> set theme_keys" for key
    using that by (auto simp: theme_keys_def)
  have t: "key \<in> set theme_keys \<Longrightarrow> P (u\<lparr>ui_theme := update_theme key rgb (ui_theme u),
      ui_files := set_theme_color (ue_tmp env) (ue_writable env) key rgb (ui_files u)\<rparr>)" for key rgb
    using theme[OF assms(1,2), of "length (takeWhile (\<lambda>k. k \<noteq> key) theme_keys)" rgb] i[of key]
    by (simp add: update_theme_def Let_def)
  show ?thesis
    using assms(3) t assms(2) by (auto simp: apply_theme_state_line_def Let_def split: if_splits option.splits)
qed

lemma lined:
  assumes "good env" "P u" "ui_line env line u = Some v"
  shows "P v"
proof (cases "apply_setting_state env line u")
  case None
  then obtain b w where w: "apply_theme_state_line env line u = Some (b, w)"
    using assms(3) by (auto simp: ui_line_def split: option.splits)
  note P = colored[OF assms(1,2) w]
  obtain c w1 where n: "apply_network_state_line line w = (c, w1)" by fastforce
  have P1: "P w1" using quiet[OF P core_network, of line] n by simp
  obtain d sn where sn: "apply_ipc_line (ui_mavlink w1) line = (d, sn)" by fastforce
  have P2: "P (w1\<lparr>ui_mavlink := sn\<rparr>)" "P (refresh_panel q t w1)" "P (refresh_panel q t (w1\<lparr>ui_mavlink := sn\<rparr>))" for q t
    by (rule quiet[OF P1], simp)+
  show ?thesis
    using assms(3) None w P n P2 sn terminal[OF assms(1) P2(1)]
    by (auto simp: ui_line_def split: bool.splits)
qed (use assms reported in \<open>auto simp: ui_line_def\<close>)

lemma lines:
  assumes "good env" "P u" "ui_lines env ls u = Some v"
  shows "P v"
  using assms(2,3) by (induction ls arbitrary: u) (auto split: option.splits dest: lined[OF assms(1)])

lemma polled:
  assumes g: "good env" and "P u" "poll_ipc env sock received u = Some v"
  shows "P v"
proof -
  obtain b w where w: "connect_ipc_if_needed (ue_now env) sock u = (b, w)" by fastforce
  have P: "P w" using quiet[OF assms(2) core_connect, of "ue_now env" sock] w by simp
  show ?thesis
  proof (cases b)
    case True
    obtain ls c where ls: "client_poll_lines received (ui_ipc w) = (ls, c)" by fastforce
    then obtain x where x: "ui_lines env ls (w\<lparr>ui_ipc := c\<rparr>) = Some x"
      using assms(3) by (auto simp: poll_ipc_def w True split: option.splits)
    have Px: "P x" by (rule lines[OF g _ x]) (rule quiet[OF P], simp)
    have r: "P (reconnect_telemetry t y)" if "P y" for y t by (rule quiet[OF that]) simp
    show ?thesis
      using assms(3) r[OF Px] r[OF panel[OF g Px]] by (auto simp: poll_ipc_def w True ls x split: if_splits)
  next
    case False
    have f: "P (read_control_files env (w\<lparr>ui_next_file_poll := t\<rparr>))" for t
      by (rule files_read[OF g]) (rule quiet[OF P], simp)
    show ?thesis
      using assms(3) P file_keys[OF g keys_read[OF g f]] f
      by (auto simp: poll_ipc_def w False poll_files_def poll_local_key_file_def split: if_splits)
  qed
qed

lemma flew: "P u \<Longrightarrow> P (record_flight_position cosine hyp u)"
proof -
  assume P: "P u"
  then have "P (if ui_home u = None then u\<lparr>ui_home := Some h\<rparr> else u)" for h by (simp add: homed)
  then show ?thesis using P flown by (simp add: record_flight_position_def Let_def)
qed

lemma followed: "P u \<Longrightarrow> P (update_minimap now u)"
proof -
  assume P: "P u"
  have "P ((send_gpu_map_state w)\<lparr>ui_last_render := t\<rparr>)" if "P w" for w t by (rule quiet[OF that]) simp
  then show ?thesis using P zoomed by (auto simp: update_minimap_def Let_def split: option.split)
qed

lemma evented:
  assumes "good env" "P u" "ui_event env e u = Some v"
  shows "P v"
proof -
  have q: "P (siyi_event c k u)" for c k by (rule quiet[OF assms(2)]) simp
  show ?thesis
  using assms(3) clicked[OF assms(1,2)] changed[OF assms(1,2)] panel[OF assms(1,2)] terminal[OF assms(1,2)] assms(2) q
    by (cases e) (auto simp: ui_event_def keyboard_event_def dispatch_key_def split: if_split_asm)
qed

lemma events:
  assumes "good env" "P u" "ui_events env es u = Some v"
  shows "P v"
  using assms(2,3) by (induction es arbitrary: u) (auto split: option.splits dest: evented[OF assms(1)])

lemma stepped:
  assumes g: "good (ur_env r)" and "P (snd s)" "ui_step r s = Some t"
  shows "P (snd t)"
proof -
  obtain d u1 where 1: "(if ui_buffer (snd s) then poll_linux_keyboard (ur_env r) (ur_keys r) s else Some s) = Some (d, u1)"
    using assms(3) by (fastforce simp: ui_step_def split: option.splits)
  have P1: "P u1"
    using 1 assms(2) keys[OF g] by (auto simp: poll_linux_keyboard_def split_def Let_def split: if_splits)
  obtain u2 where 2: "poll_ipc (ur_env r) (ur_socket r) (ur_received r) u1 = Some u2"
    using assms(3) 1 by (auto simp: ui_step_def split: option.splits)
  have z: "P (sdl_zoom n w)" if "P w" for n w
    using that sent(5)[OF zoomed[OF that]] by (auto simp: sdl_zoom_def zoom_by_def split: option.split)
  note P3 = z[OF flew[OF polled[OF g P1 2], of "ur_cos r" "ur_hyp r"], of "sum_list (map sdl_zoom_step (ur_sdl r))"]
  show ?thesis
    using assms(3) P3 events[OF g followed[OF P3]] by (auto simp: ui_step_def 1 2 Let_def split: if_splits)
qed

theorem run: "P (snd s) \<Longrightarrow> list_all (\<lambda>r. good (ur_env r)) rs \<Longrightarrow> ui_run rs s = Some t \<Longrightarrow> P (snd t)"
  by (induction rs arbitrary: s) (auto split: option.splits dest: stepped)

end

end
