(* ===== verification/Ui_Device.thy ===== *)
theory Ui_Device
  imports Ui_Settings
begin

text \<open>
  The device settings are read back as they were written. The render scale goes through a \<open>double\<close>: the
  percentage divided by 100, written with two decimals, read again, multiplied by 100 and rounded.
\<close>

section \<open>The render scale\<close>

lemma floor_log2_lower:
  assumes "0 < a" and "0 < b"
  shows "b * 2 ^ nat (floor_log2 a b) \<le> a * 2 ^ nat (- floor_log2 a b)"
proof -
  define e where "e = int (bitlen a) - int (bitlen b)"
  show ?thesis
  proof (cases "b * 2 ^ nat e \<le> a * 2 ^ nat (- e)")
    case True
    then show ?thesis by (simp add: floor_log2_def e_def Let_def)
  next
    case False
    then have L: "floor_log2 a b = e - 1" by (simp add: floor_log2_def e_def Let_def)
    have ab: "b < 2 ^ bitlen b" "2 ^ (bitlen a - 1) \<le> a" "0 < bitlen a"
      using bitlen_bounds[of a] bitlen_bounds[of b] assms by (auto intro: gr0I)
    have "b * 2 ^ nat (e - 1) \<le> 2 ^ bitlen b * 2 ^ nat (e - 1)" using ab(1) by simp
    also have "\<dots> = 2 ^ (bitlen a - 1) * 2 ^ nat (1 - e)"
    proof -
      have "bitlen b + nat (e - 1) = bitlen a - 1 + nat (1 - e)" using ab(3) by (auto simp: e_def)
      then show ?thesis by (metis power_add)
    qed
    also have "\<dots> \<le> a * 2 ^ nat (1 - e)" using ab(2) by simp
    finally show ?thesis by (simp add: L)
  qed
qed

text \<open>A quotient that is not subnormal has a full significand.\<close>

lemma fp_round_normal:
  assumes "0 < a" "0 < b" "0 < prec f" "emin f \<le> floor_log2 a b - int (prec f - 1)" "fp_round f neg a b = FFin n m e"
  shows "2 ^ (prec f - 1) \<le> m"
proof -
  define L where "L = floor_log2 a b"
  define E where "E = L - int (prec f - 1)"
  define q where "q = rne (a * 2 ^ nat (- E)) (b * 2 ^ nat E)"
  have E: "max (emin f) (floor_log2 a b - int (prec f - 1)) = E" using assms(4) by (simp add: E_def L_def)
  have s: "(b * 2 ^ nat E) * 2 ^ (prec f - 1) \<le> a * 2 ^ nat (- E)"
  proof -
    have l: "b * 2 ^ nat L \<le> a * 2 ^ nat (- L)" using floor_log2_lower[OF assms(1,2)] by (simp add: L_def)
    show ?thesis
    proof (cases "0 \<le> E")
      case True
      then have "nat L = nat E + (prec f - 1)" "nat (- E) = 0" "nat (- L) = 0" by (auto simp: E_def)
      with l show ?thesis by (simp add: power_add mult.assoc)
    next
      case False
      have "b * 2 ^ nat L * 2 ^ (nat (- E) - nat (- L)) \<le> a * 2 ^ nat (- L) * 2 ^ (nat (- E) - nat (- L))" using l by simp
      moreover have "nat L + (nat (- E) - nat (- L)) = prec f - 1" "nat (- L) + (nat (- E) - nat (- L)) = nat (- E)"
        using False by (auto simp: E_def)
      ultimately show ?thesis using False by (simp add: mult.assoc flip: power_add)
    qed
  qed
  have "2 ^ (prec f - 1) \<le> q"
  proof -
    have "2 ^ (prec f - 1) \<le> (a * 2 ^ nat (- E)) div (b * 2 ^ nat E)"
      using div_le_mono[OF s, of "b * 2 ^ nat E"] assms(2) by simp
    also have "\<dots> \<le> q" by (simp add: q_def rne_def Let_def)
    finally show ?thesis .
  qed
  then show ?thesis
    using assms(1,3,5) unfolding fp_round_def Let_def E q_def[symmetric] by (auto split: if_split_asm)
qed

lemma in_range_quotient:
  assumes "0 < a" "a < 100 * 2 ^ k" "k < 20"
  shows "\<exists>m K. in_range f64 False a 100 = Some (FFin False m (- int K)) \<and> 52 \<le> K + k
    \<and> 2 * \<bar>int m * 100 - int a * 2 ^ K\<bar> \<le> 100"
proof -
  obtain m K where r: "fp_round f64 False a 100 = FFin False m (- int K)" "52 \<le> K + k"
    "2 * \<bar>int m * 100 - int a * 2 ^ K\<bar> \<le> 100"
    using fp_round_small[of a 100 k f64 False] assms by (auto simp: f64_def)
  have "bitlen 100 = 7" by (simp add: bitlen.simps)
  then have "emin f64 \<le> floor_log2 a 100 - int (prec f64 - 1)"
    by (simp add: floor_log2_def f64_def Let_def)
  from fp_round_normal[OF assms(1) _ _ this r(1)] have "2 ^ (prec f64 - 1) \<le> m" by (simp add: f64_def)
  with r show ?thesis by (simp add: in_range_def)
qed

lemma percent_written:
  assumes "0 < p" "p \<le> 124"
  shows "fp_fixed 2 (fp_div_nat f64 (fp_of_int f64 (int p)) 100) = dec_fixed 2 p"
proof -
  obtain K where K: "fp_of_int f64 (int p) = FFin False (p * 2 ^ K) (- int K)"
    using fp_of_int_exact[of "int p" 7 f64] assms by (auto simp: f64_def)
  obtain m J where r: "fp_round f64 False (p * 2 ^ K) (100 * 2 ^ K) = FFin False m (- int J)" "50 \<le> J"
    "2 * \<bar>int m * (100 * 2 ^ K) - int p * 2 ^ K * 2 ^ J\<bar> \<le> 100 * 2 ^ K"
    using fp_round_small[of "p * 2 ^ K" "100 * 2 ^ K" 1 f64 False] assms by (auto simp: f64_def)
  have "2 * \<bar>int m * 100 - int p * 2 ^ J\<bar> \<le> 100"
  proof -
    have "2 ^ K * (2 * \<bar>int m * 100 - int p * 2 ^ J\<bar>) = 2 * \<bar>2 ^ K * (int m * 100 - int p * 2 ^ J)\<bar>"
      by (simp add: abs_mult)
    also have "\<dots> \<le> 2 ^ K * 100" using r(3) by (simp add: algebra_simps)
    finally show ?thesis by simp
  qed
  moreover have "(100::int) < 2 ^ J"
    using power_increasing[OF r(2), of "2::int"] by simp
  ultimately have "2 * \<bar>int (m * 10 ^ 2) - int p * int (2 ^ J)\<bar> < int (2 ^ J)" by simp
  then have "rne (m * 10 ^ 2) (2 ^ J) = p" by (intro rne_unique) simp_all
  then show ?thesis by (simp add: fp_fixed_def fp_div_nat_def K r(1))
qed

lemma percent_rounded:
  assumes "0 < p" "p \<le> 124" "2 * \<bar>int m * 100 - int p * 2 ^ K\<bar> \<le> 100" "50 \<le> K"
  shows "fp_lround bad (fp_mul f64 (FFin False m (- int K)) (fp_of_int f64 100)) = int p"
proof -
  obtain J where J: "fp_of_int f64 100 = FFin False (100 * 2 ^ J) (- int J)"
    using fp_of_int_exact[of 100 7 f64] by (auto simp: f64_def)
  have "(2::int) ^ 50 \<le> 2 ^ K" by (rule power_increasing[OF assms(4)]) simp
  then have K: "(100000::int) \<le> 2 ^ K" by simp
  have close: "a \<le> b + 50 \<and> b \<le> a + 50" if "2 * \<bar>a - b\<bar> \<le> 100" for a b :: int using that by arith
  note m = close[OF assms(3)]
  have p: "2 ^ K \<le> int p * 2 ^ K" "int p * 2 ^ K \<le> 124 * 2 ^ K" using assms(1,2) by simp_all
  have "0 < int m" using m p K by linarith
  moreover have "int m * 100 < 128 * 2 ^ K" using m p K by linarith
  ultimately have pos: "0 < m" "int (m * 100) < int (128 * 2 ^ K)" by simp_all
  have q: "fp_mul f64 (FFin False m (- int K)) (FFin False (100 * 2 ^ J) (- int J))
      = fp_round f64 False (m * (100 * 2 ^ J)) (2 ^ (K + J))"
    by (simp add: fp_mul_def nat_add_distrib)
  have "m * (100 * 2 ^ J) < 2 ^ (K + J) * 2 ^ 7"
    using pos(2) unfolding of_nat_less_iff by (simp add: power_add)
  then obtain n I where r: "fp_round f64 False (m * (100 * 2 ^ J)) (2 ^ (K + J)) = FFin False n (- int I)" "45 \<le> I"
    "2 * \<bar>int n * 2 ^ (K + J) - int (m * (100 * 2 ^ J)) * 2 ^ I\<bar> \<le> 2 ^ (K + J)"
    using fp_round_small[of "m * (100 * 2 ^ J)" "2 ^ (K + J)" 7 f64 False] pos(1) by (auto simp: f64_def)
  have "2 * \<bar>int n * 2 ^ K - int m * 100 * 2 ^ I\<bar> \<le> 2 ^ K"
  proof -
    have "2 ^ J * (2 * \<bar>int n * 2 ^ K - int m * 100 * 2 ^ I\<bar>) = 2 * \<bar>2 ^ J * (int n * 2 ^ K - int m * 100 * 2 ^ I)\<bar>"
      by (simp add: abs_mult)
    also have "\<dots> \<le> 2 ^ J * 2 ^ K" using r(3) by (simp add: algebra_simps power_add)
    finally show ?thesis by simp
  qed
  moreover have "\<bar>int m * 100 * 2 ^ I - int p * 2 ^ K * 2 ^ I\<bar> \<le> 50 * 2 ^ I"
  proof -
    have "\<bar>int m * 100 * 2 ^ I - int p * 2 ^ K * 2 ^ I\<bar> = \<bar>int m * 100 - int p * 2 ^ K\<bar> * 2 ^ I"
      by (simp add: abs_mult flip: left_diff_distrib)
    also have "\<dots> \<le> 50 * 2 ^ I" by (rule mult_right_mono) (use assms(3) in simp_all)
    finally show ?thesis .
  qed
  moreover have "2 * \<bar>a - c\<bar> \<le> k + 100 * i" if "2 * \<bar>a - b\<bar> \<le> k" "\<bar>b - c\<bar> \<le> 50 * i" for a b c i k :: int
  proof -
    have step: "x \<le> y + z \<Longrightarrow> 2 * y \<le> k \<Longrightarrow> z \<le> 50 * i \<Longrightarrow> 2 * x \<le> k + 100 * i" for x y z :: int by linarith
    have "\<bar>a - c\<bar> \<le> \<bar>a - b\<bar> + \<bar>b - c\<bar>" using abs_triangle_ineq[of "a - b" "b - c"] by simp
    from step[OF this that] show ?thesis .
  qed
  ultimately have d: "2 * \<bar>int n * 2 ^ K - int p * 2 ^ K * 2 ^ I\<bar> \<le> 2 ^ K + 100 * 2 ^ I" by blast
  have big: "2 ^ K + 100 * (2::int) ^ I < 2 ^ K * 2 ^ I"
  proof -
    have "(2::int) ^ 45 \<le> 2 ^ I" by (rule power_increasing[OF r(2)]) simp
    then have I: "(2::int) \<le> 2 ^ I" by simp
    have "2 ^ K * (2::int) \<le> 2 ^ K * 2 ^ I" by (rule mult_left_mono[OF I]) simp
    moreover have "(200::int) * 2 ^ I < 2 ^ K * 2 ^ I" using K by (intro mult_strict_right_mono) simp_all
    ultimately show ?thesis by linarith
  qed
  have "int n * 2 ^ K - int p * 2 ^ K * 2 ^ I = 2 ^ K * (int n - int p * 2 ^ I)" by (simp add: algebra_simps)
  then have "2 ^ K * (2 * \<bar>int n - int p * 2 ^ I\<bar>) = 2 * \<bar>int n * 2 ^ K - int p * 2 ^ K * 2 ^ I\<bar>"
    by (simp add: abs_mult)
  with d big have "2 ^ K * (2 * \<bar>int n - int p * 2 ^ I\<bar>) < 2 ^ K * 2 ^ I" by linarith
  then have c: "2 * \<bar>int n - int p * 2 ^ I\<bar> < 2 ^ I" by simp
  have nat_close: "2 * i * p \<le> 2 * n + i \<and> 2 * n + i < 2 * i * Suc p" if "2 * \<bar>int n - int (p * i)\<bar> < int i" for i
  proof -
    have "2 * (p * i) \<le> 2 * n + i" "2 * n + i < 2 * (p * i) + 2 * i" using that by arith+
    then show ?thesis by (simp add: algebra_simps)
  qed
  have "(2 * n + 2 ^ I) div (2 * 2 ^ I) = p"
    using nat_close[of "2 ^ I"] c by (intro div_nat_eqI) simp_all
  then show ?thesis by (simp add: J q r(1) fp_lround_def Let_def)
qed

lemma trim_plain: "\<forall>c \<in> set v. \<not> is_blank c \<Longrightarrow> trim v = v"
proof -
  assume v: "\<forall>c \<in> set v. \<not> is_blank c"
  then have "dropWhile is_blank v = v" "dropWhile is_blank (rev v) = rev v"
    by (auto simp: dropWhile_eq_self_iff) (metis hd_in_set set_rev Nil_is_rev_conv)+
  then show ?thesis by (simp add: trim_def)
qed

lemma digit_char_01: "digit_char 0 = CHR ''0''" "digit_char 1 = CHR ''1''"
  by code_simp+

lemma stod_percent:
  assumes "0 < p" "p \<le> 124"
  shows "stod f64 (dec_fixed 2 p) = in_range f64 False p 100"
proof -
  define fs where "fs = replicate (2 - length (nat_str (p mod 100))) (CHR ''0'') @ nat_str (p mod 100)"
  have fs: "\<forall>c \<in> set fs. is_digit c" using nat_str_digits[of "p mod 100"] by (auto simp: fs_def is_digit_def)
  have "length (nat_str (p mod 100)) \<le> 2" by (rule length_nat_str) simp_all
  then have len: "length fs = 2" by (simp add: fs_def)
  have "p div 100 = (if 100 \<le> p then 1 else 0)" using assms(2) by (auto intro: div_nat_eqI)
  then have c: "nat_str (p div 100) = [if 100 \<le> p then CHR ''1'' else CHR ''0'']"
    by (simp add: nat_str.simps digit_char_01 digit_char_01[simplified])
  then have t: "dec_fixed 2 p = (if 100 \<le> p then CHR ''1'' else CHR ''0'') # CHR ''.'' # fs"
    by (simp add: dec_fixed_def fs_def Let_def)
  have val: "digits_val ((if 100 \<le> p then CHR ''1'' else CHR ''0'') # fs) = p"
  proof -
    have "digits_val (nat_str (p div 100) @ fs) = p"
      using len by (simp only: digits_val_append) (simp add: fs_def digits_val_append flip: power_add)
    then show ?thesis by (simp add: c)
  qed
  have nul: "\<forall>x \<in> set fs. x \<noteq> CHR 0x00" using fs by (auto simp: is_digit_def)
  have tw: "takeWhile is_digit fs = fs" "dropWhile is_digit fs = []" "takeWhile (\<lambda>x. x \<noteq> CHR 0x00) fs = fs"
    using fs nul by (simp_all add: takeWhile_all)
  have d: "is_digit CHR ''0''" "is_digit CHR ''1''" "\<not> is_digit CHR ''.''" "\<not> is_space CHR ''0''" "\<not> is_space CHR ''1''"
    "to_lower CHR ''0'' = CHR ''0''" "to_lower CHR ''1'' = CHR ''1''" "to_lower CHR ''.'' = CHR ''.''"
    by (simp_all add: is_digit_def is_space_def to_lower_def)
  show ?thesis
    unfolding t using val len by (auto simp: stod_def c_str_def scan_mantissa_def tw d Let_def)
qed

lemma percent_read_back:
  assumes "25 \<le> p" "p \<le> (124 :: u32)"
  shows "parse_scale_percent_or bad (format_flow_scale p) fallback = clamp_u32 25 100 p" "trim (format_flow_scale p) = format_flow_scale p"
proof -
  define n where "n = unat p"
  have n: "0 < n" "n \<le> 124" "25 \<le> n" using assms by (simp_all add: n_def word_le_nat_alt)
  have w: "format_flow_scale p = dec_fixed 2 n"
    using percent_written[OF n(1,2)] by (simp add: format_flow_scale_def n_def)
  obtain m K where r: "in_range f64 False n 100 = Some (FFin False m (- int K))" "52 \<le> K + 2"
    "2 * \<bar>int m * 100 - int n * 2 ^ K\<bar> \<le> 100"
    using in_range_quotient[of n 2] n by auto
  have "\<forall>c \<in> set (dec_fixed 2 n). \<not> is_blank c"
    using dec_fixed_no_space[of 2 n] by (auto simp: is_blank_def is_space_def)
  then have t: "trim (dec_fixed 2 n) = dec_fixed 2 n" by (rule trim_plain)
  have "dec_fixed 2 n \<noteq> []" by (simp add: dec_fixed_def Let_def)
  moreover have "fp_lround bad (fp_mul f64 (FFin False m (- int K)) (fp_of_int f64 100)) = int n"
    using percent_rounded[OF n(1,2) r(3)] r(2) by simp
  ultimately have "parse_scale_percent_or bad (format_flow_scale p) fallback = word_of_int (max 25 (min 100 (int n)))"
    using stod_percent[OF n(1,2)] r(1) by (simp add: parse_scale_percent_or_def w t Let_def)
  moreover have "word_of_int (int n) = p" by (simp add: n_def)
  moreover have "p > 100 \<longleftrightarrow> 100 < n" by (simp add: n_def word_less_nat_alt)
  ultimately show "parse_scale_percent_or bad (format_flow_scale p) fallback = clamp_u32 25 100 p"
    using n(3) assms(1) by (cases "100 < n") (auto simp: clamp_u32_def max_def min_def)
  show "trim (format_flow_scale p) = format_flow_scale p" by (simp add: w t)
qed

section \<open>Lines of a file\<close>

lemma lines_from_unlines:
  "CHR 0x0A \<notin> set l \<Longrightarrow> lines_from acc (l @ CHR 0x0A # r) = (acc @ l) # lines_from [] r"
  by (induction l arbitrary: acc) auto

lemma split_unlines: "\<forall>l \<in> set ls. CHR 0x0A \<notin> set l \<Longrightarrow> split_lines (unlines ls) = ls"
  by (induction ls) (simp_all add: unlines_def split_lines_def lines_from_unlines)

lemma lines_from_clean: "CHR 0x0A \<notin> set acc \<Longrightarrow> l \<in> set (lines_from acc s) \<Longrightarrow> CHR 0x0A \<notin> set l"
proof (induction s arbitrary: acc)
  case (Cons c s)
  then show ?case using Cons.IH[of "[]"] Cons.IH[of "acc @ [c]"] by (auto split: if_splits)
qed (auto split: if_splits)

lemma file_lines_clean: "l \<in> set (file_lines p fs) \<Longrightarrow> CHR 0x0A \<notin> set l"
  by (auto simp: file_lines_def split_lines_def split: option.splits dest: lines_from_clean[rotated])

section \<open>Lines of a setting\<close>

definition key_of :: "string \<Rightarrow> string option" where
  "key_of l = map_option fst (split_setting l)"

definition lines_of :: "string \<Rightarrow> string list \<Rightarrow> string list" where
  "lines_of k ls = filter (\<lambda>l. key_of l = Some k) ls"

definition plain_key :: "string \<Rightarrow> bool" where
  "plain_key k \<longleftrightarrow> (\<forall>c \<in> set k. \<not> is_blank c \<and> c \<noteq> CHR ''='')"

lemma split_plain: "plain_key k \<Longrightarrow> split_setting (k @ CHR ''='' # v) = Some (k, trim v)"
proof -
  assume k: "plain_key k"
  then have "takeWhile (\<lambda>c. c \<noteq> CHR ''='') (k @ CHR ''='' # v) = k" by (auto simp: plain_key_def takeWhile_append)
  moreover have "trim k = k" using k by (intro trim_plain) (simp add: plain_key_def)
  ultimately show ?thesis by (simp add: split_setting_def)
qed

lemma starts_with_split: "starts_with p l \<Longrightarrow> l = p @ drop (length p) l"
  by (metis starts_with_def append_take_drop_id)

lemma key_of_prefix: "plain_key k \<Longrightarrow> starts_with (k @ ''='') l \<Longrightarrow> key_of l = Some k"
  using split_plain[of k "drop (length k + 1) l"] starts_with_split[of "k @ ''=''" l] by (simp add: key_of_def)

lemma key_of_new: "plain_key k \<Longrightarrow> key_of (k @ ''='' @ v) = Some k"
  using split_plain[of k v] by (simp add: key_of_def)

lemma write_hit:
  "starts_with (k @ ''='') l \<Longrightarrow> snd (write_or_replace_setting (l # ls) k v) = (k @ ''='' @ v) # ls"
  by simp

lemma write_miss:
  "\<not> starts_with (k @ ''='') l \<Longrightarrow>
   snd (write_or_replace_setting (l # ls) k v) = l # snd (write_or_replace_setting ls k v)"
  by (simp add: split_def Let_def)

declare write_or_replace_setting.simps(2) [simp del]

text \<open>A predicate of lines that is false for those of the key sees no difference.\<close>

lemma written_filter:
  assumes "plain_key k" "\<And>l. key_of l = Some k \<Longrightarrow> \<not> P l"
  shows "filter P (snd (write_or_replace_setting ls k v)) = filter P ls"
proof (induction ls)
  case (Cons l ls)
  then show ?case
    using assms(2) key_of_prefix[OF assms(1), of l] key_of_new[OF assms(1), of v] write_hit[of k l ls v] write_miss[of k l ls v]
    by (cases "starts_with (k @ ''='') l") simp_all
qed (use assms(2) key_of_new[OF assms(1), of v] in simp)

lemma written_other:
  assumes "plain_key k" "k' \<noteq> k"
  shows "lines_of k' (snd (write_or_replace_setting ls k v)) = lines_of k' ls"
  unfolding lines_of_def by (rule written_filter[OF assms(1)]) (use assms(2) in auto)

lemma written_rest:
  assumes "plain_key k" "k \<in> K"
  shows "filter (\<lambda>l. key_of l \<notin> Some ` K) (snd (write_or_replace_setting ls k v)) = filter (\<lambda>l. key_of l \<notin> Some ` K) ls"
  by (rule written_filter[OF assms(1)]) (use assms(2) in auto)

lemma written_last:
  assumes "plain_key k" "length (lines_of k ls) \<le> 1"
  shows "lines_of k (snd (write_or_replace_setting ls k v)) \<noteq> [] \<and>
    last (lines_of k (snd (write_or_replace_setting ls k v))) = k @ ''='' @ v"
  using assms(2)
proof (induction ls)
  case Nil
  then show ?case using key_of_new[OF assms(1), of v] by (simp add: lines_of_def)
next
  case (Cons l ls)
  show ?case
  proof (cases "starts_with (k @ ''='') l")
    case True
    note k = key_of_prefix[OF assms(1) True]
    then have "lines_of k ls = []" using Cons.prems by (simp add: lines_of_def)
    then show ?thesis unfolding write_hit[OF True] using key_of_new[OF assms(1), of v] by (simp add: lines_of_def)
  next
    case False
    have "length (lines_of k ls) \<le> 1" using Cons.prems by (auto simp: lines_of_def split: if_splits)
    from Cons.IH[OF this] show ?thesis unfolding write_miss[OF False] by (auto simp: lines_of_def)
  qed
qed

lemma written_unchanged: "\<not> fst (write_or_replace_setting ls k v) \<Longrightarrow> snd (write_or_replace_setting ls k v) = ls"
  by (induction ls) (auto simp: write_or_replace_setting.simps split_def Let_def split: if_splits)

section \<open>All settings\<close>

definition device_keys :: "string list" where
  "device_keys = [''GLIDE_WIDTH'', ''GLIDE_HEIGHT'', ''GLIDE_DISPLAY_HZ'', ''GLIDE_FLOW_FPS'', ''GLIDE_FLOW_RENDER_SCALE'']"

lemma device_keys: "map fst (device_entries d) = device_keys" "distinct device_keys" "\<forall>k \<in> set device_keys. plain_key k"
  by (simp_all add: device_entries_def device_keys_def plain_key_def is_blank_def)

definition write_entry :: "bool \<times> string list \<Rightarrow> string \<times> string \<Rightarrow> bool \<times> string list" where
  "write_entry s e = (let (c, ls) = write_or_replace_setting (snd s) (fst e) (snd e) in (fst s \<or> c, ls))"

lemma replace_all_eq: "replace_all ls es = foldl write_entry (False, ls) es"
  by (simp add: replace_all_def write_entry_def[abs_def] split_def Let_def)

lemma write_entry_simps:
  "snd (write_entry s e) = snd (write_or_replace_setting (snd s) (fst e) (snd e))"
  "fst (write_entry s e) \<longleftrightarrow> fst s \<or> fst (write_or_replace_setting (snd s) (fst e) (snd e))"
  by (simp_all add: write_entry_def split_def Let_def)

lemma entries_other:
  assumes "\<forall>k \<in> fst ` set es. plain_key k" "k' \<notin> fst ` set es"
  shows "lines_of k' (snd (foldl write_entry s es)) = lines_of k' (snd s)"
  using assms by (induction es arbitrary: s) (auto simp: write_entry_simps written_other)

lemma entries_rest:
  assumes "\<forall>k \<in> fst ` set es. plain_key k" "fst ` set es \<subseteq> K"
  shows "filter (\<lambda>l. key_of l \<notin> Some ` K) (snd (foldl write_entry s es)) = filter (\<lambda>l. key_of l \<notin> Some ` K) (snd s)"
  using assms by (induction es arbitrary: s) (auto simp: write_entry_simps written_rest)

lemma entries_last:
  assumes "\<forall>k \<in> fst ` set es. plain_key k" "distinct (map fst es)" "(k, v) \<in> set es"
    "\<forall>k \<in> fst ` set es. length (lines_of k (snd s)) \<le> 1"
  shows "lines_of k (snd (foldl write_entry s es)) \<noteq> [] \<and> last (lines_of k (snd (foldl write_entry s es))) = k @ ''='' @ v"
  using assms
proof (induction es arbitrary: s)
  case (Cons e es)
  obtain j w where e: "e = (j, w)" by fastforce
  show ?case
  proof (cases "(k, v) = e")
    case True
    then have k: "k \<notin> fst ` set es" "j = k" "w = v" using Cons.prems(2) e by auto
    show ?thesis
      using entries_other[OF _ k(1), of "write_entry s e"] written_last[of k "snd s" v] Cons.prems(1,4) k(2,3)
      by (simp add: e write_entry_simps)
  next
    case False
    then have kv: "(k, v) \<in> set es" using Cons.prems(3) by simp
    have "length (lines_of i (snd (write_entry s e))) \<le> 1" if "i \<in> fst ` set es" for i
    proof -
      have "i \<noteq> j" using Cons.prems(2) that e by auto
      then show ?thesis using Cons.prems(1,4) that e by (auto simp: write_entry_simps written_other)
    qed
    with Cons.IH[OF _ _ kv, of "write_entry s e"] Cons.prems(1,2) show ?thesis by simp
  qed
qed simp

lemma entries_unchanged: "\<not> fst (foldl write_entry s es) \<Longrightarrow> snd (foldl write_entry s es) = snd s \<and> \<not> fst s"
proof (induction es arbitrary: s)
  case (Cons e es)
  from Cons.IH[of "write_entry s e"] Cons.prems have "snd (foldl write_entry (write_entry s e) es) = snd (write_entry s e)"
    "\<not> fst (write_entry s e)" by simp_all
  then show ?case using written_unchanged by (auto simp: write_entry_simps)
qed simp

section \<open>Reading\<close>

text \<open>A field of the settings depends on the lines of its key only.\<close>

definition value_of :: "string \<Rightarrow> string" where
  "value_of l = (case split_setting l of None \<Rightarrow> [] | Some (_, v) \<Rightarrow> v)"

lemma applied_field:
  assumes "\<And>key v d. get (apply_setting bad key v d) = (if key = k then parse v (get d) else get d)"
  shows "get (foldl (apply_setting_line bad) d ls) = foldl (\<lambda>x l. parse (value_of l) x) (get d) (lines_of k ls)"
proof (induction ls arbitrary: d)
  case (Cons l ls)
  then show ?case
    using assms by (auto simp: lines_of_def key_of_def value_of_def apply_setting_line_def split: option.splits)
qed (simp add: lines_of_def)

lemma applied_last:
  assumes "\<And>key v d. get (apply_setting bad key v d) = (if key = k then parse v (get d) else get d)"
    and "plain_key k" "lines_of k ls \<noteq> []" "last (lines_of k ls) = k @ ''='' @ v" "\<And>x. parse (trim v) x = y"
  shows "get (foldl (apply_setting_line bad) d ls) = y"
proof -
  have "lines_of k ls = butlast (lines_of k ls) @ [k @ ''='' @ v]" using assms(3,4) by (metis append_butlast_last_id)
  moreover have "value_of (k @ ''='' @ v) = trim v" using split_plain[OF assms(2), of v] by (simp add: value_of_def)
  ultimately show ?thesis
    using applied_field[where get = get and parse = parse, OF assms(1), of d ls] assms(5)
    by (metis (no_types, lifting) foldl_Cons foldl_Nil foldl_append)
qed

lemma digits_base_10: "\<forall>c \<in> set ds. is_digit c \<Longrightarrow> digits_base 10 ds = digits_val ds"
proof -
  assume d: "\<forall>c \<in> set ds. is_digit c"
  have x: "xdigit_val c = digit_val c" if "is_digit c" for c
    using that by (simp add: xdigit_val_def digit_val_def is_digit_def Let_def)
  have "foldl (\<lambda>v c. 10 * v + xdigit_val c) n ds = foldl (\<lambda>v c. 10 * v + digit_val c) n ds" for n
    using d by (induction ds arbitrary: n) (simp_all add: x)
  then show ?thesis by (simp add: digits_base_def digits_val_def)
qed

lemma nat_str_plain: "c \<in> set (nat_str n) \<Longrightarrow> is_digit c \<and> \<not> is_space c \<and> \<not> is_blank c \<and> c \<noteq> CHR 0x00"
  using nat_str_digits[of n] by (auto simp: is_digit_def is_space_def is_blank_def)

lemma stoul_nat_str: "n < 2 ^ 64 \<Longrightarrow> stoul 10 (nat_str n) = Some (of_nat n)"
proof -
  assume n: "n < 2 ^ 64"
  have "c_str (nat_str n) = nat_str n" using nat_str_plain[of _ n] by (simp add: c_str_def takeWhile_all)
  moreover have "dropWhile is_space (nat_str n) = nat_str n"
    using nat_str_plain[of "hd (nat_str n)" n] by (simp add: dropWhile_eq_self_iff)
  moreover have "hd (nat_str n) \<noteq> CHR ''-''" "hd (nat_str n) \<noteq> CHR ''+''" using nat_str_hd_digit[of n] by auto
  moreover have tw: "takeWhile is_digit (nat_str n) = nat_str n" using nat_str_digits[of n] by (simp add: takeWhile_all)
  ultimately show ?thesis
    using n digits_base_10[OF nat_str_digits, of n] by (simp add: stoul_def number_base_def base_digit_def Let_def tw del: takeWhile_eq_all_conv)
qed

lemma number_read_back: "parse_u32_or (trim (nat_str (unat v))) x = v"
proof -
  have t: "trim (nat_str (unat v)) = nat_str (unat v)" using nat_str_plain by (intro trim_plain) blast
  have "unat v < 2 ^ 64" by (rule order.strict_trans2[OF unsigned_less]) simp
  moreover have "ucast (word_of_nat (unat v) :: u64) = v" by transfer simp
  ultimately show ?thesis by (simp add: parse_u32_or_def t stoul_nat_str Let_def)
qed

text \<open>What the start cuts the settings to.\<close>

definition within :: "device \<Rightarrow> device" where
  "within d = d\<lparr>display_hz := clamp_u32 24 144 (display_hz d), flow_rate := clamp_u32 15 120 (flow_rate d),
     flow_scale_percent := clamp_u32 25 100 (flow_scale_percent d)\<rparr>"

definition in_bounds :: "device \<Rightarrow> bool" where
  "in_bounds d \<longleftrightarrow> 24 \<le> display_hz d \<and> display_hz d \<le> 144 \<and> 15 \<le> flow_rate d \<and> flow_rate d \<le> 120
     \<and> 25 \<le> flow_scale_percent d \<and> flow_scale_percent d \<le> 100"

lemma load_written:
  assumes "\<And>k v. (k, v) \<in> set (device_entries d) \<Longrightarrow>
      lines_of k (file_lines glide_config_path fs) \<noteq> [] \<and> last (lines_of k (file_lines glide_config_path fs)) = k @ ''='' @ v"
    and "25 \<le> flow_scale_percent d" "flow_scale_percent d \<le> 124"
  shows "load_device_settings bad fs d0 = within d"
proof -
  define d1 where "d1 = foldl (apply_setting_line bad) d0 (file_lines glide_config_path fs)"
  have k: "plain_key ''GLIDE_WIDTH''" "plain_key ''GLIDE_HEIGHT''" "plain_key ''GLIDE_DISPLAY_HZ''" "plain_key ''GLIDE_FLOW_FPS''"
    "plain_key ''GLIDE_FLOW_RENDER_SCALE''" using device_keys(3) by (simp_all add: device_keys_def)
  have e: "(''GLIDE_WIDTH'', nat_str (unat (glide_width d))) \<in> set (device_entries d)"
    "(''GLIDE_HEIGHT'', nat_str (unat (glide_height d))) \<in> set (device_entries d)"
    "(''GLIDE_DISPLAY_HZ'', nat_str (unat (display_hz d))) \<in> set (device_entries d)"
    "(''GLIDE_FLOW_FPS'', nat_str (unat (flow_rate d))) \<in> set (device_entries d)"
    "(''GLIDE_FLOW_RENDER_SCALE'', format_flow_scale (flow_scale_percent d)) \<in> set (device_entries d)"
    by (simp_all add: device_entries_def)
  note l = assms(1)[OF e(1)] assms(1)[OF e(2)] assms(1)[OF e(3)] assms(1)[OF e(4)] assms(1)[OF e(5)]
  have w: "glide_width d1 = glide_width d"
    unfolding d1_def by (rule applied_last[where get = glide_width and parse = parse_u32_or, OF _ k(1) conjunct1[OF l(1)] conjunct2[OF l(1)] number_read_back])
      (simp add: apply_setting_def)
  have h: "glide_height d1 = glide_height d"
    unfolding d1_def by (rule applied_last[where get = glide_height and parse = parse_u32_or, OF _ k(2) conjunct1[OF l(2)] conjunct2[OF l(2)] number_read_back])
      (simp add: apply_setting_def)
  have z: "display_hz d1 = display_hz d"
    unfolding d1_def by (rule applied_last[where get = display_hz and parse = parse_u32_or, OF _ k(3) conjunct1[OF l(3)] conjunct2[OF l(3)] number_read_back])
      (simp add: apply_setting_def)
  have r: "flow_rate d1 = flow_rate d"
    unfolding d1_def by (rule applied_last[where get = flow_rate and parse = parse_u32_or, OF _ k(4) conjunct1[OF l(4)] conjunct2[OF l(4)] number_read_back])
      (simp add: apply_setting_def)
  have p: "parse_scale_percent_or bad (trim (format_flow_scale (flow_scale_percent d))) x = clamp_u32 25 100 (flow_scale_percent d)" for x
    using percent_read_back(1)[of "flow_scale_percent d" bad x] percent_read_back(2)[of "flow_scale_percent d"] assms(2,3) by simp
  have s: "flow_scale_percent d1 = clamp_u32 25 100 (flow_scale_percent d)"
    unfolding d1_def by (rule applied_last[where get = flow_scale_percent and parse = "parse_scale_percent_or bad", OF _ k(5) conjunct1[OF l(5)] conjunct2[OF l(5)] p])
      (simp add: apply_setting_def)
  have c: "clamp_u32 25 100 (clamp_u32 25 100 x) = clamp_u32 25 100 x" for x
    by (auto simp: clamp_u32_def)
  show ?thesis
    unfolding load_device_settings_def Let_def d1_def[symmetric] z r s c
    by (rule device.equality) (simp_all add: w h within_def)
qed

lemma within_bounds: "in_bounds d \<Longrightarrow> within d = d"
  by (auto simp: in_bounds_def within_def clamp_u32_def)

section \<open>Properties\<close>

lemma entries_clean: "(k, v) \<in> set (device_entries d) \<Longrightarrow> CHR 0x0A \<notin> set (k @ ''='' @ v)"
proof -
  have "CHR 0x0A \<notin> set (nat_str n)" for n using nat_str_plain[of "CHR 0x0A" n] by (auto simp: is_space_def)
  moreover have "CHR 0x0A \<notin> set (format_flow_scale p)" for p
  proof -
    have "CHR 0x0A \<notin> set (dec_fixed 2 n)" for n using dec_fixed_no_space[of 2 n] by (auto simp: is_space_def)
    then show ?thesis by (auto simp: format_flow_scale_def fp_fixed_def split: fp.split)
  qed
  ultimately show "(k, v) \<in> set (device_entries d) \<Longrightarrow> CHR 0x0A \<notin> set (k @ ''='' @ v)"
    by (auto simp: device_entries_def)
qed

lemma entries_no_newline:
  assumes "\<forall>(k, v) \<in> set es. CHR 0x0A \<notin> set (k @ ''='' @ v)" "\<forall>l \<in> set (snd s). CHR 0x0A \<notin> set l"
  shows "\<forall>l \<in> set (snd (foldl write_entry s es)). CHR 0x0A \<notin> set l"
proof -
  have w: "\<forall>l \<in> set (snd (write_or_replace_setting ls k v)). CHR 0x0A \<notin> set l"
    if "CHR 0x0A \<notin> set (k @ ''='' @ v)" "\<forall>l \<in> set ls. CHR 0x0A \<notin> set l" for ls k v
    using that(2)
  proof (induction ls)
    case Nil
    then show ?case using that(1) by simp
  next
    case (Cons l ls)
    then show ?case using that(1) write_hit[of k l ls v] write_miss[of k l ls v] by (cases "starts_with (k @ ''='') l") simp_all
  qed
  show ?thesis
    using assms
  proof (induction es arbitrary: s)
    case (Cons e es)
    obtain k v where e: "e = (k, v)" by fastforce
    have "CHR 0x0A \<notin> set (k @ ''='' @ v)" using Cons.prems(1) unfolding e by simp
    from w[OF this Cons.prems(2)] have c: "\<forall>l \<in> set (snd (write_entry s e)). CHR 0x0A \<notin> set l"
      by (simp only: write_entry_simps e fst_conv snd_conv)
    have "\<forall>(k, v) \<in> set es. CHR 0x0A \<notin> set (k @ ''='' @ v)" using Cons.prems(1) by simp
    from Cons.IH[OF this c] show ?case unfolding foldl_Cons .
  qed simp
qed

text \<open>C13: the device settings survive a restart. When the configuration file and the temporary file can be
  written and the file has at most one line for each of the five keys, then after the user interface has
  stored its settings the next start loads them, whatever it had before, each cut to its range (24 to 144 Hz,
  15 to 120 frames per second, a render scale of 25 to 100 percent), so exactly these when they are in range.
  This covers every render scale that the slider and the enter key give, 25 to 124 percent: enter adds 25 to
  any scale below 100, so from 80 it shows and stores 105 percent, and the next start has 100. The lines of
  the file that belong to other keys and the comments stay, in their order; and when nothing has changed the
  file is left alone and the service is not restarted.\<close>

theorem device_settings_survive:
  assumes "25 \<le> flow_scale_percent d" "flow_scale_percent d \<le> 124" "\<And>k. k \<in> set device_keys \<Longrightarrow> length (lines_of k (file_lines glide_config_path fs)) \<le> 1"
    "\<And>p. wr p" "join_path tmp ''openhd-glide.default.tmp'' \<noteq> glide_config_path"
    "persist_device_settings tmp wr d fs = (restart, fs')"
  shows "load_device_settings bad fs' d0 = within d \<and> (in_bounds d \<longrightarrow> load_device_settings bad fs' d0 = d) \<and>
    filter (\<lambda>l. key_of l \<notin> Some ` set device_keys) (file_lines glide_config_path fs')
      = filter (\<lambda>l. key_of l \<notin> Some ` set device_keys) (file_lines glide_config_path fs) \<and>
    (\<not> restart \<longrightarrow> fs' = fs)"
proof -
  let ?old = "file_lines glide_config_path fs" and ?new = "snd (foldl write_entry (False, file_lines glide_config_path fs) (device_entries d))"
  have k: "\<forall>k \<in> fst ` set (device_entries d). plain_key k" "distinct (map fst (device_entries d))"
    "fst ` set (device_entries d) = set device_keys"
    using device_keys(1)[of d] device_keys(2,3) by (metis (mono_tags) list.set_map)+
  have last: "lines_of i ?new \<noteq> [] \<and> last (lines_of i ?new) = i @ ''='' @ v" if "(i, v) \<in> set (device_entries d)" for i v
    by (rule entries_last[OF k(1,2) that]) (use assms(3) k(3) in auto)
  have rest: "filter (\<lambda>l. key_of l \<notin> Some ` set device_keys) ?new = filter (\<lambda>l. key_of l \<notin> Some ` set device_keys) ?old"
    using entries_rest[OF k(1), of "set device_keys" "(False, ?old)"] k(3) by simp
  have lines: "file_lines glide_config_path fs' = ?new \<and> (\<not> restart \<longrightarrow> fs' = fs)"
  proof (cases "fst (foldl write_entry (False, ?old) (device_entries d))")
    case False
    then show ?thesis using entries_unchanged[OF False] assms(6)
      by (simp add: persist_device_settings_def replace_all_eq split_def Let_def)
  next
    case True
    have "\<forall>l \<in> set ?new. CHR 0x0A \<notin> set l"
      by (rule entries_no_newline) (use entries_clean file_lines_clean in auto)
    then have "split_lines (unlines ?new) = ?new" by (rule split_unlines)
    then show ?thesis using True assms(4,5,6)
      by (auto simp: persist_device_settings_def replace_all_eq split_def Let_def write_file_def file_lines_def)
  qed
  show ?thesis using load_written[of d fs' bad d0] last rest lines assms(1,2) within_bounds[of d] by simp
qed

text \<open>A configuration with a comment, one known and one foreign line.\<close>

definition demo_config :: files where
  "demo_config = [glide_config_path \<mapsto> unlines [''# screen'', ''GLIDE_WIDTH = 1920'', ''OTHER=1'']]"

theorem device_settings_survive_witness:
  "load_device_settings 0 (snd (persist_device_settings ''/tmp'' (\<lambda>_. True) (set_resolution 2 default_device) demo_config))
     default_device = set_resolution 2 default_device \<and>
   load_device_settings 0 (snd (persist_device_settings ''/tmp'' (\<lambda>_. True) (default_device\<lparr>flow_scale_percent := 105\<rparr>) demo_config))
     default_device = default_device\<lparr>flow_scale_percent := 100\<rparr>"
proof -
  have "list_all (\<lambda>k. length (lines_of k (file_lines glide_config_path demo_config)) \<le> 1) device_keys" by code_simp
  then have k: "k \<in> set device_keys \<Longrightarrow> length (lines_of k (file_lines glide_config_path demo_config)) \<le> 1" for k
    by (simp only: list_all_iff)
  have "in_bounds (set_resolution 2 default_device)" "flow_scale_percent (set_resolution 2 default_device) = 50"
    by (simp_all add: in_bounds_def set_resolution_def default_device_def Let_def)
  moreover have "within (default_device\<lparr>flow_scale_percent := 105\<rparr>) = default_device\<lparr>flow_scale_percent := 100\<rparr>"
    by (simp add: within_def default_device_def clamp_u32_def)
  moreover have "join_path ''/tmp'' ''openhd-glide.default.tmp'' \<noteq> glide_config_path"
    by (simp add: join_path_def glide_config_path_def)
  ultimately show ?thesis
    using device_settings_survive[OF _ _ k _ _ surjective_pairing, of "set_resolution 2 default_device" "\<lambda>_. True" "''/tmp''" 0 default_device]
      device_settings_survive[OF _ _ k _ _ surjective_pairing, of "default_device\<lparr>flow_scale_percent := 105\<rparr>" "\<lambda>_. True" "''/tmp''" 0 default_device]
    by (simp add: within_bounds)
qed

end
