(* ===== verification/Ui_Invariants.thy ===== *)
theory Ui_Invariants
  imports Ui_Flow Ui_Device
begin

text \<open>
  The invariants of the user interface as interpretations of \<open>ui_invariant\<close>: the map and the coordinates,
  the pointers to widgets, and the files that hold the settings.
\<close>

section \<open>Invariants of the settings\<close>

definition settings_core :: "ui \<Rightarrow> ui" where
  "settings_core u = (core u)\<lparr>ui_root := False, ui_panel := Dashboard, ui_handles := {}, ui_live := {},
     ui_row_count := 0, ui_minimap := None\<rparr>"

lemma settings_core_of_core: "core v = core u \<Longrightarrow> settings_core v = settings_core u"
  by (simp add: settings_core_def)

lemma settings_core_widgets [simp]:
  "settings_core (u\<lparr>ui_root := x1\<rparr>) = settings_core u" "settings_core (u\<lparr>ui_panel := x2\<rparr>) = settings_core u"
  "settings_core (u\<lparr>ui_handles := x3\<rparr>) = settings_core u" "settings_core (u\<lparr>ui_live := x4\<rparr>) = settings_core u"
  "settings_core (u\<lparr>ui_row_count := x5\<rparr>) = settings_core u" "settings_core (u\<lparr>ui_minimap := x6\<rparr>) = settings_core u"
  by (simp_all add: settings_core_def core_def)

lemma settings_core_quiet [simp]:
  "settings_core (u\<lparr>ui_animate := x1\<rparr>) = settings_core u" "settings_core (u\<lparr>ui_selected_row := x2\<rparr>) = settings_core u"
  "settings_core (u\<lparr>ui_map_inner := x3\<rparr>) = settings_core u" "settings_core (u\<lparr>ui_last_render := x4\<rparr>) = settings_core u"
  "settings_core (u\<lparr>ui_rebuild_pending := x5\<rparr>) = settings_core u" "settings_core (u\<lparr>ui_focus_panel := x6\<rparr>) = settings_core u"
  "settings_core (send_gpu_map_state u) = settings_core u"
  by (simp_all add: settings_core_def)

lemma frame_panel [simp]:
  "settings_core (build_panel bad u) = settings_core u" "settings_core (clear_panel u) = settings_core u"
  "settings_core (build_sidebar env u) = settings_core u"
  by (simp_all add: build_panel_def clear_panel_def build_sidebar_def Let_def)

lemma frame_card: "build_minimap_card env u = Some v \<Longrightarrow> settings_core v = settings_core u"
  by (auto simp: build_minimap_card_def split_def Let_def split: option.splits)

lemma frame_overlay: "build_overlay env u = Some v \<Longrightarrow> settings_core v = settings_core u"
  by (auto simp: build_overlay_def Let_def split: overlay_mode.splits dest: frame_card)

lemma frame_rebuild: "rebuild_ui env u = Some v \<Longrightarrow> settings_core v = settings_core u"
  by (auto simp: rebuild_ui_def invalidate_ui_handles_def split: if_splits dest: frame_overlay)

lemma frame_active: "set_active_panel env p u = Some v \<Longrightarrow> settings_core v = settings_core u"
  by (auto simp: set_active_panel_def Let_def split: if_splits dest: frame_rebuild)

locale settings_invariant =
  fixes P :: "ui \<Rightarrow> bool" and good :: "ui_env \<Rightarrow> bool"
  assumes same: "P u \<Longrightarrow> settings_core v = settings_core u \<Longrightarrow> P v"
    and layout: "good env \<Longrightarrow> P u \<Longrightarrow> l \<in> set layouts \<Longrightarrow>
      P (u\<lparr>ui_layout := l, ui_files := set_osd_layout (ue_tmp env) (ue_writable env) l (ui_files u)\<rparr>)"
    and top_bar: "good env \<Longrightarrow> P u \<Longrightarrow>
      P (u\<lparr>ui_top_bar := b, ui_files := set_top_bar_enabled (ue_tmp env) (ue_writable env) b (ui_files u)\<rparr>)"
    and fps: "good env \<Longrightarrow> P u \<Longrightarrow>
      P (u\<lparr>ui_fps := b, ui_files := set_fps_overlay_enabled (ue_tmp env) (ue_writable env) b (ui_files u)\<rparr>)"
    and coordinates: "good env \<Longrightarrow> P u \<Longrightarrow>
      P (u\<lparr>ui_coordinates := b, ui_files := set_coordinates_overlay_enabled (ue_tmp env) (ue_writable env) b (ui_files u)\<rparr>)"
    and compact: "good env \<Longrightarrow> P u \<Longrightarrow>
      P (u\<lparr>ui_compact := b, ui_files := set_compact_readouts_enabled (ue_tmp env) (ue_writable env) b (ui_files u)\<rparr>)"
    and theme: "good env \<Longrightarrow> P u \<Longrightarrow> i < length theme_keys \<Longrightarrow>
      P (u\<lparr>ui_theme := (ui_theme u)[i := rgb],
           ui_files := set_theme_color (ue_tmp env) (ue_writable env) (theme_keys ! i) rgb (ui_files u)\<rparr>)"
    and themed: "P u \<Longrightarrow> length (ui_theme u) = length theme_keys"
    and device: "good env \<Longrightarrow> P u \<Longrightarrow> P (persist_device env u)"
    and host: "good env \<Longrightarrow> P u \<Longrightarrow>
      P (u\<lparr>ui_files := persist_telemetry_host (ue_writable env) (ue_telemetry_file env) h (ui_files u)\<rparr>)"
    and map_at: "good env \<Longrightarrow> P u \<Longrightarrow> i < length map_position_values \<Longrightarrow>
      P (persist_map env (u\<lparr>ui_map_position := map_position_values ! i\<rparr>))"
    and closed: "good env \<Longrightarrow> P u \<Longrightarrow> m \<noteq> Minimap \<Longrightarrow> P ((leave_map env u)\<lparr>ui_mode := m\<rparr>)"
    and opened: "good env \<Longrightarrow> P u \<Longrightarrow> ui_mode u \<noteq> Minimap \<Longrightarrow>
      P ((suppress_coordinates env u)\<lparr>ui_mode := Minimap\<rparr>)"
    and stretched: "P u \<Longrightarrow> ui_mode u = Minimap \<Longrightarrow> P (u\<lparr>ui_map_expanded := b\<rparr>)"
    and homed: "P u \<Longrightarrow> P (u\<lparr>ui_home := home\<rparr>)"
    and flown: "P u \<Longrightarrow> P (u\<lparr>ui_path := keep_2000 (ui_path u @ [place])\<rparr>)"
    and files_read: "good env \<Longrightarrow> P u \<Longrightarrow> P (read_control_files env u)"
    and keys_read: "good env \<Longrightarrow> P u \<Longrightarrow>
      P (u\<lparr>ui_files := write_file (ue_writable env) (key_file (ue_tmp env)) [] (ui_files u)\<rparr>)"
begin

lemma rebuilt_same: "P u \<Longrightarrow> core w = core u \<Longrightarrow> rebuild_ui env w = Some v \<Longrightarrow> P v"
  using same[of u v] frame_rebuild[of env w v] settings_core_of_core[of w u] by simp

end

sublocale settings_invariant \<subseteq> whole: ui_invariant P good
proof (unfold_locales, goal_cases)
  case 1 then show ?case using same settings_core_of_core by blast
next
  case 2 then show ?case by (rule layout)
next
  case 3 then show ?case by (rule top_bar)
next
  case 4 then show ?case by (rule fps)
next
  case 5 then show ?case by (rule coordinates)
next
  case 6 then show ?case by (rule compact)
next
  case 7 then show ?case by (rule theme)
next
  case 8 then show ?case by (rule themed)
next
  case 9 then show ?case by (rule device)
next
  case 10 then show ?case by (rule host)
next
  case 11 then show ?case by (rule map_at)
next
  case 12 from 12 closed rebuilt_same show ?case by blast
next
  case 13 from 13 opened rebuilt_same show ?case by blast
next
  case 14 from 14 stretched rebuilt_same show ?case by blast
next
  case 15 from 15 rebuilt_same show ?case by blast
next
  case 16 then show ?case using same frame_active by blast
next
  case 17 then show ?case using same by simp
next
  case 18 then show ?case by (rule homed)
next
  case 19 then show ?case by (rule flown)
next
  case 20 then show ?case by (rule files_read)
next
  case 21 then show ?case by (rule keys_read)
qed

section \<open>The map and the coordinates\<close>

definition well_formed :: "ui \<Rightarrow> bool" where
  "well_formed u \<longleftrightarrow>
     (ui_map_suppressed u \<longleftrightarrow> ui_mode u = Minimap) \<and> (ui_map_restore_open u \<longleftrightarrow> ui_mode u = Minimap) \<and>
     (ui_map_expanded u \<longrightarrow> ui_mode u = Minimap) \<and> length (ui_theme u) = length theme_keys \<and>
     ui_layout u \<in> set layouts \<and> ui_map_position u \<in> set map_position_values \<and> length (ui_path u) \<le> 2000"

lemma well_formed_core: "settings_core v = settings_core u \<Longrightarrow> well_formed u = well_formed v"
proof -
  have "well_formed (settings_core u) = well_formed u" for u
    by (simp add: well_formed_def settings_core_def core_def)
  then show "settings_core v = settings_core u \<Longrightarrow> well_formed u = well_formed v" by metis
qed

lemma layout_read: "osd_layout tmp fs \<in> set layouts"
  by (simp add: osd_layout_def layouts_def Let_def)

interpretation map_flags: settings_invariant well_formed "\<lambda>_. True"
proof (unfold_locales, goal_cases)
  case 1 then show ?case using well_formed_core by blast
qed (auto simp: well_formed_def persist_device_def persist_map_def split_def leave_map_def suppress_coordinates_def
    restore_coordinates_def send_coordinates_state_def ui_send_eq read_control_files_def layout_read keep_2000_def Let_def)

section \<open>Pointers to widgets\<close>

text \<open>
  The state points to widgets that exist. The one pointer that may be left behind is that of the address
  field, and not while its panel is shown.
\<close>

definition pointers_ok :: "ui \<Rightarrow> bool" where
  "pointers_ok u \<longleftrightarrow> ui_root u \<and> length (ui_theme u) = length theme_keys
     \<and> ui_handles u \<subseteq> ui_live u \<union> (if ui_panel u = Developer then {} else {Telemetry_host_input})
     \<and> (Panel_body \<in> ui_handles u \<longrightarrow> ui_mode u = Menu) \<and> (ui_minimap u \<noteq> None \<longleftrightarrow> ui_mode u = Minimap)"

lemma pointers_core: "core v = core u \<Longrightarrow> pointers_ok u = pointers_ok v"
proof -
  have "pointers_ok (core u) = pointers_ok u" for u
    by (simp add: pointers_ok_def core_def)
  then show "core v = core u \<Longrightarrow> pointers_ok u = pointers_ok v" by metis
qed

lemma panel_handles_of: "Telemetry_host_input \<in> panel_handles u \<Longrightarrow> ui_panel u = Developer"
  by (auto simp: panel_handles_def split: panel.splits if_splits)

lemma pointers_cleared: "ui_handles u \<subseteq> ui_live u \<union> {Telemetry_host_input} \<Longrightarrow>
    ui_handles (clear_panel u) \<subseteq> ui_live (clear_panel u) \<union> {Telemetry_host_input}"
  by (auto simp: clear_panel_def body_handles_def)

lemma pointers_panel:
  assumes "ui_root u" "length (ui_theme u) = length theme_keys" "ui_handles u \<subseteq> ui_live u \<union> {Telemetry_host_input}"
    "ui_mode u = Menu" "ui_minimap u = None"
  shows "pointers_ok (build_panel bad (clear_panel u))"
proof -
  have c: "ui_handles (clear_panel u) \<subseteq> ui_live (clear_panel u) \<union> {Telemetry_host_input}"
    by (rule pointers_cleared[OF assms(3)])
  moreover have "ui_panel (clear_panel u) = Developer \<Longrightarrow> Telemetry_host_input \<in> panel_handles (clear_panel u)"
    by (simp add: panel_handles_def)
  moreover have "ui_root (clear_panel u)" "ui_theme (clear_panel u) = ui_theme u" "ui_mode (clear_panel u) = Menu"
      "ui_minimap (clear_panel u) = None" by (simp_all add: clear_panel_def assms)
  ultimately show ?thesis using assms(2) by (auto simp: pointers_ok_def build_panel_def)
qed

lemma pointers_built:
  assumes "ui_handles w = {}" "length (ui_theme w) = length theme_keys" "build_overlay env w = Some v"
  shows "pointers_ok v"
proof -
  have s: "pointers_ok (build_sidebar env u)"
    if "ui_handles u = {}" "ui_mode u = Menu" "ui_minimap u = None" "length (ui_theme u) = length theme_keys" for u
  proof -
    have "pointers_ok ((build_panel (ue_bad env) (clear_panel x))\<lparr>ui_animate := False\<rparr>) =
        pointers_ok (build_panel (ue_bad env) (clear_panel x))" for x
      by (rule pointers_core) simp
    moreover have "pointers_ok (build_panel (ue_bad env) (clear_panel x))"
      if "ui_root x" "ui_theme x = ui_theme u" "ui_handles x \<subseteq> ui_live x" "ui_mode x = Menu" "ui_minimap x = None" for x
      by (rule pointers_panel) (use that \<open>length (ui_theme u) = length theme_keys\<close> in auto)
    ultimately show ?thesis
      using that by (auto simp: build_sidebar_def Let_def) (auto simp: pointers_ok_def nav_handles_def)
  qed
  have p: "pointers_ok (send_gpu_map_state x) = pointers_ok x" for x by (rule pointers_core) simp
  show ?thesis
    using assms s
    by (auto simp: build_overlay_def build_minimap_card_def Let_def split_def p
        split: overlay_mode.splits option.splits) (auto simp: pointers_ok_def minimap_handles_def)
qed

lemma pointers_rebuilt:
  assumes "ui_root w" "length (ui_theme w) = length theme_keys" "rebuild_ui env w = Some v"
  shows "pointers_ok v"
proof -
  obtain x where x: "build_overlay env (invalidate_ui_handles (w\<lparr>ui_minimap := None, ui_live := {}\<rparr>)) = Some x"
    "v = x\<lparr>ui_rebuild_pending := False\<rparr>"
    using assms(1,3) by (auto simp: rebuild_ui_def)
  have "pointers_ok x" by (rule pointers_built[OF _ _ x(1)]) (use assms(2) in \<open>simp_all add: invalidate_ui_handles_def\<close>)
  then show ?thesis using pointers_core[of v x] x(2) by simp
qed

lemma pointers_active:
  assumes "pointers_ok u" "set_active_panel env p u = Some v"
  shows "pointers_ok v"
proof -
  let ?u = "u\<lparr>ui_panel := p, ui_rebuild_pending := False, ui_selected_row := 0, ui_focus_panel := False\<rparr>"
  have "pointers_ok (build_panel (ue_bad env) (clear_panel ?u))" if "Panel_body \<in> ui_handles u"
    by (rule pointers_panel) (use assms(1) that in \<open>auto simp: pointers_ok_def split: if_splits\<close>)
  then show ?thesis
    using assms pointers_rebuilt[of ?u env v] by (auto simp: set_active_panel_def Let_def pointers_ok_def split: if_splits)
qed

lemma core_exact:
  assumes "core v = core u"
  shows "ui_root v = ui_root u" "ui_theme v = ui_theme u"
proof -
  have "ui_root (core w) = ui_root w" "ui_theme (core w) = ui_theme w" for w by (simp_all add: core_def)
  then show "ui_root v = ui_root u" "ui_theme v = ui_theme u" using assms by metis+
qed

lemma map_ops_root:
  "ui_root (leave_map env u) = ui_root u" "ui_theme (leave_map env u) = ui_theme u"
  "ui_root (suppress_coordinates env u) = ui_root u" "ui_theme (suppress_coordinates env u) = ui_theme u"
  by (simp_all add: leave_map_def restore_coordinates_def suppress_coordinates_def persist_map_def Let_def
      send_coordinates_state_def ui_send_eq)

interpretation pointers: ui_invariant pointers_ok "\<lambda>_. True"
proof (unfold_locales, goal_cases)
  case 1 then show ?case using pointers_core by blast
next
  case (12 env u m w v) then show ?case
    using pointers_rebuilt[of w env v] core_exact[OF 12(4)] by (simp add: pointers_ok_def map_ops_root)
next
  case (13 env u w v) then show ?case
    using pointers_rebuilt[of w env v] core_exact[OF 13(4)] by (simp add: pointers_ok_def map_ops_root)
next
  case (14 env u b v) then show ?case using pointers_rebuilt[of "u\<lparr>ui_map_expanded := b\<rparr>" env v] by (simp add: pointers_ok_def)
next
  case (15 env u v)
  from 15(2) have "ui_root u" "length (ui_theme u) = length theme_keys" by (simp_all add: pointers_ok_def)
  from pointers_rebuilt[OF this 15(3)] show ?case .
next
  case 16 then show ?case using pointers_active by blast
qed (auto simp: pointers_ok_def persist_device_def persist_map_def split_def read_control_files_def Let_def)

section \<open>The file of the map\<close>

lemma map_line_position: "apply_map_setting m (''POSITION='' @ p) = (if trim p \<in> set map_position_values then (trim p, snd m) else m)"
  by (simp add: apply_map_setting_def starts_with_def Let_def)

lemma map_line_open: "apply_map_setting m (''MAP_OPEN='' @ flag b) = (fst m, b)"
  by (cases b) (simp_all add: apply_map_setting_def starts_with_def flag_def)

lemma map_positions_plain: "p \<in> set map_position_values \<Longrightarrow> trim p = p \<and> CHR 0x0A \<notin> set p"
  by (auto simp: map_position_values_def trim_def is_blank_def)

definition map_norm :: "nat \<times> bool \<Rightarrow> string \<times> bool" where
  "map_norm v = (map_position_values ! min (fst v) 7, snd v)"

lemma load_map_written:
  assumes "pos \<in> set map_position_values" "w p"
  shows "load_map_settings p (persist_map_settings w p (pos, b) fs) m = (pos, b)"
proof -
  have "split_lines (unlines [''POSITION='' @ pos, ''MAP_OPEN='' @ flag b]) = [''POSITION='' @ pos, ''MAP_OPEN='' @ flag b]"
    using map_positions_plain[OF assms(1)] by (intro split_unlines) (auto simp: flag_def)
  then show ?thesis
    using assms map_positions_plain[OF assms(1)] map_line_position[of m pos] map_line_open[of "(pos, snd m)" b]
    by (simp add: load_map_settings_def persist_map_settings_def write_file_def file_lines_def)
qed

interpretation map_file: stored_setting p "\<lambda>fs. map_prod map_position_index id (load_map_settings p fs (''right'', False))"
  "\<lambda>w v. persist_map_settings w p (map_norm v)" "\<lambda>v. (min (fst v) 7, snd v)" for p
proof (unfold_locales, goal_cases)
  case (1 w v fs)
  have "min (fst v) 7 < length map_position_values" by (simp add: map_position_values_def)
  then have "map_position_values ! min (fst v) 7 \<in> set map_position_values" by (rule nth_mem)
  moreover have "list_all (\<lambda>i. map_position_index (map_position_values ! i) = i) [0..<8]" by code_simp
  then have "map_position_index (map_position_values ! min (fst v) 7) = min (fst v) 7" by (simp add: list_all_iff)
  ultimately show ?case using load_map_written[where w = w, OF _ 1] by (simp add: map_norm_def)
qed (auto simp: load_map_settings_def file_lines_def persist_map_settings_def write_file_def)

section \<open>The files say what the interface shows\<close>

text \<open>What a start would read, and what the interface shows. A theme color counts by its 24 color bits.\<close>

definition stored_view :: "string \<Rightarrow> string \<Rightarrow> files \<Rightarrow> (bool \<times> bool \<times> bool \<times> bool) \<times> string \<times> u32 list \<times> string \<times> bool" where
  "stored_view tmp mf fs =
     ((fps_overlay_enabled tmp fs, coordinates_overlay_enabled tmp fs, compact_readouts_enabled tmp fs, top_bar_enabled tmp fs),
      osd_layout tmp fs, map (\<lambda>k. theme_color tmp k fs AND 0xFFFFFF) theme_keys, load_map_settings mf fs (''right'', False))"

definition shown_view :: "ui \<Rightarrow> (bool \<times> bool \<times> bool \<times> bool) \<times> string \<times> u32 list \<times> string \<times> bool" where
  "shown_view u =
     ((ui_fps u, ui_coordinates u, ui_compact u, ui_top_bar u), ui_layout u, map (\<lambda>c. c AND 0xFFFFFF) (ui_theme u),
      ui_map_position u, ui_map_restore_open u)"

definition setting_paths :: "string \<Rightarrow> string set" where
  "setting_paths tmp = {fps_control_path tmp, coordinates_control_path tmp, compact_readouts_control_path tmp,
     top_bar_control_path tmp, osd_layout_control_path tmp} \<union> theme_color_path tmp ` set theme_keys"

definition separate_env :: "string \<Rightarrow> string \<Rightarrow> ui_env \<Rightarrow> bool" where
  "separate_env tmp mf env \<longleftrightarrow> ue_tmp env = tmp \<and> ue_map_file env = mf \<and> (\<forall>p. ue_writable env p) \<and>
     (\<forall>n. mf \<noteq> join_path tmp n) \<and> ue_telemetry_file env \<notin> insert mf (setting_paths tmp) \<and>
     glide_config_path \<notin> insert mf (setting_paths tmp)"

text \<open>Each part of the view depends on its own file.\<close>

lemma view_parts:
  assumes "\<And>p. p \<noteq> q \<Longrightarrow> fs' p = fs p"
  shows "q \<noteq> fps_control_path tmp \<Longrightarrow> fps_overlay_enabled tmp fs' = fps_overlay_enabled tmp fs"
    "q \<noteq> coordinates_control_path tmp \<Longrightarrow> coordinates_overlay_enabled tmp fs' = coordinates_overlay_enabled tmp fs"
    "q \<noteq> compact_readouts_control_path tmp \<Longrightarrow> compact_readouts_enabled tmp fs' = compact_readouts_enabled tmp fs"
    "q \<noteq> top_bar_control_path tmp \<Longrightarrow> top_bar_enabled tmp fs' = top_bar_enabled tmp fs"
    "q \<noteq> osd_layout_control_path tmp \<Longrightarrow> osd_layout tmp fs' = osd_layout tmp fs"
    "q \<noteq> theme_color_path tmp k \<Longrightarrow> theme_color tmp k fs' = theme_color tmp k fs"
    "q \<noteq> mf \<Longrightarrow> load_map_settings mf fs' m = load_map_settings mf fs m"
proof -
  show "q \<noteq> fps_control_path tmp \<Longrightarrow> fps_overlay_enabled tmp fs' = fps_overlay_enabled tmp fs"
    by (rule fps.get_local, rule assms, simp)
  show "q \<noteq> coordinates_control_path tmp \<Longrightarrow> coordinates_overlay_enabled tmp fs' = coordinates_overlay_enabled tmp fs"
    by (rule coordinates.get_local, rule assms, simp)
  show "q \<noteq> compact_readouts_control_path tmp \<Longrightarrow> compact_readouts_enabled tmp fs' = compact_readouts_enabled tmp fs"
    by (rule compact.get_local, rule assms, simp)
  show "q \<noteq> top_bar_control_path tmp \<Longrightarrow> top_bar_enabled tmp fs' = top_bar_enabled tmp fs"
    by (rule top_bar.get_local, rule assms, simp)
  show "q \<noteq> osd_layout_control_path tmp \<Longrightarrow> osd_layout tmp fs' = osd_layout tmp fs"
    by (rule layout.get_local, rule assms, simp)
  show "q \<noteq> theme_color_path tmp k \<Longrightarrow> theme_color tmp k fs' = theme_color tmp k fs"
    by (rule theme.get_local, rule assms, simp)
  show "q \<noteq> mf \<Longrightarrow> load_map_settings mf fs' m = load_map_settings mf fs m"
    by (simp add: load_map_settings_def file_lines_def assms[of mf])
qed

lemma view_elsewhere:
  assumes "\<And>p. p \<noteq> q \<Longrightarrow> fs' p = fs p" "q \<notin> insert mf (setting_paths tmp)"
  shows "stored_view tmp mf fs' = stored_view tmp mf fs"
proof -
  have "theme_color tmp k fs' = theme_color tmp k fs" if "k \<in> set theme_keys" for k
    by (rule view_parts(6)[where q = q, OF assms(1)]) (use assms(2) that in \<open>auto simp: setting_paths_def\<close>)
  then have "map (\<lambda>k. theme_color tmp k fs' AND 0xFFFFFF) theme_keys = map (\<lambda>k. theme_color tmp k fs AND 0xFFFFFF) theme_keys"
    by simp
  then show ?thesis
    using view_parts(1-5,7)[where q = q and fs = fs and fs' = fs', OF assms(1)] assms(2)
    by (simp add: stored_view_def setting_paths_def)
qed

definition kept_in_files :: "string \<Rightarrow> string \<Rightarrow> ui \<Rightarrow> bool" where
  "kept_in_files tmp mf u \<longleftrightarrow> stored_view tmp mf (ui_files u) = shown_view u \<and> length (ui_theme u) = length theme_keys
     \<and> ui_map_position u \<in> set map_position_values"

lemma path_not_theme:
  "fps_control_path tmp \<noteq> theme_color_path tmp k" "coordinates_control_path tmp \<noteq> theme_color_path tmp k"
  "compact_readouts_control_path tmp \<noteq> theme_color_path tmp k" "top_bar_control_path tmp \<noteq> theme_color_path tmp k"
  "osd_layout_control_path tmp \<noteq> theme_color_path tmp k" "theme_color_path tmp k = theme_color_path tmp k' \<longleftrightarrow> k = k'"
  by (simp_all add: setting_path_defs)

lemma setter_elsewhere:
  "p \<noteq> fps_control_path tmp \<Longrightarrow> set_fps_overlay_enabled tmp wr x fs p = fs p"
  "p \<noteq> coordinates_control_path tmp \<Longrightarrow> set_coordinates_overlay_enabled tmp wr x fs p = fs p"
  "p \<noteq> compact_readouts_control_path tmp \<Longrightarrow> set_compact_readouts_enabled tmp wr x fs p = fs p"
  "p \<noteq> top_bar_control_path tmp \<Longrightarrow> set_top_bar_enabled tmp wr x fs p = fs p"
  "p \<noteq> osd_layout_control_path tmp \<Longrightarrow> set_osd_layout tmp wr y fs p = fs p"
  "p \<noteq> theme_color_path tmp k \<Longrightarrow> set_theme_color tmp wr k c fs p = fs p"
  "p \<noteq> mf \<Longrightarrow> persist_map_settings wr mf m fs p = fs p"
  by (simp_all add: fps.put_frame coordinates.put_frame compact.put_frame top_bar.put_frame layout.put_frame theme.put_frame
      persist_map_settings_def write_file_def)

lemma setting_written:
  assumes "\<And>p. wr p" "\<And>n. mf \<noteq> join_path tmp n" "stored_view tmp mf fs = ((a, b, c, d), l, t, m)"
  shows "stored_view tmp mf (set_fps_overlay_enabled tmp wr x fs) = ((x, b, c, d), l, t, m)"
    "stored_view tmp mf (set_coordinates_overlay_enabled tmp wr x fs) = ((a, x, c, d), l, t, m)"
    "stored_view tmp mf (set_compact_readouts_enabled tmp wr x fs) = ((a, b, x, d), l, t, m)"
    "stored_view tmp mf (set_top_bar_enabled tmp wr x fs) = ((a, b, c, x), l, t, m)"
    "stored_view tmp mf (set_osd_layout tmp wr y fs) = ((a, b, c, d), norm_layout y, t, m)"
    "i < length theme_keys \<Longrightarrow>
      stored_view tmp mf (set_theme_color tmp wr (theme_keys ! i) rgb fs) = ((a, b, c, d), l, t[i := rgb AND 0xFFFFFF], m)"
    "pos \<in> set map_position_values \<Longrightarrow>
      stored_view tmp mf (persist_map_settings wr mf (pos, op) fs) = ((a, b, c, d), l, t, pos, op)"
proof -
  have mf: "fps_control_path tmp \<noteq> mf" "coordinates_control_path tmp \<noteq> mf" "compact_readouts_control_path tmp \<noteq> mf"
    "top_bar_control_path tmp \<noteq> mf" "osd_layout_control_path tmp \<noteq> mf" "theme_color_path tmp k \<noteq> mf" for k
    using assms(2) by (simp_all add: setting_path_defs) metis+
  note ne = path_not_theme mf[symmetric] path_not_theme(1-5)[symmetric] mf
  note v = assms(3)[unfolded stored_view_def, symmetric]
  have other: "fps_control_path tmp \<noteq> coordinates_control_path tmp" "fps_control_path tmp \<noteq> compact_readouts_control_path tmp"
    "fps_control_path tmp \<noteq> top_bar_control_path tmp" "fps_control_path tmp \<noteq> osd_layout_control_path tmp"
    "coordinates_control_path tmp \<noteq> compact_readouts_control_path tmp" "coordinates_control_path tmp \<noteq> top_bar_control_path tmp"
    "coordinates_control_path tmp \<noteq> osd_layout_control_path tmp" "compact_readouts_control_path tmp \<noteq> top_bar_control_path tmp"
    "compact_readouts_control_path tmp \<noteq> osd_layout_control_path tmp" "top_bar_control_path tmp \<noteq> osd_layout_control_path tmp"
    by (simp_all add: setting_path_defs)
  show "stored_view tmp mf (set_fps_overlay_enabled tmp wr x fs) = ((x, b, c, d), l, t, m)"
    using v view_parts[of _ "set_fps_overlay_enabled tmp wr x fs" fs, OF setter_elsewhere(1)] fps.get_put[of wr tmp x fs] assms(1)
    by (simp add: stored_view_def ne other)
  show "stored_view tmp mf (set_coordinates_overlay_enabled tmp wr x fs) = ((a, x, c, d), l, t, m)"
    using v view_parts[of _ "set_coordinates_overlay_enabled tmp wr x fs" fs, OF setter_elsewhere(2)]
      coordinates.get_put[of wr tmp x fs] assms(1)
    by (simp add: stored_view_def ne other other[symmetric])
  show "stored_view tmp mf (set_compact_readouts_enabled tmp wr x fs) = ((a, b, x, d), l, t, m)"
    using v view_parts[of _ "set_compact_readouts_enabled tmp wr x fs" fs, OF setter_elsewhere(3)]
      compact.get_put[of wr tmp x fs] assms(1)
    by (simp add: stored_view_def ne other other[symmetric])
  show "stored_view tmp mf (set_top_bar_enabled tmp wr x fs) = ((a, b, c, x), l, t, m)"
    using v view_parts[of _ "set_top_bar_enabled tmp wr x fs" fs, OF setter_elsewhere(4)]
      top_bar.get_put[of wr tmp x fs] assms(1)
    by (simp add: stored_view_def ne other other[symmetric])
  show "stored_view tmp mf (set_osd_layout tmp wr y fs) = ((a, b, c, d), norm_layout y, t, m)"
    using v view_parts[of _ "set_osd_layout tmp wr y fs" fs, OF setter_elsewhere(5)]
      layout.get_put[of wr tmp y fs] assms(1)
    by (simp add: stored_view_def ne other other[symmetric])
  show "stored_view tmp mf (persist_map_settings wr mf (pos, op) fs) = ((a, b, c, d), l, t, pos, op)"
    if "pos \<in> set map_position_values"
    using v view_parts[of _ "persist_map_settings wr mf (pos, op) fs" fs, OF setter_elsewhere(7)]
      load_map_written[OF that, of wr mf op fs "(''right'', False)"] assms(1)
    by (simp add: stored_view_def ne)
  show "stored_view tmp mf (set_theme_color tmp wr (theme_keys ! i) rgb fs) = ((a, b, c, d), l, t[i := rgb AND 0xFFFFFF], m)"
    if i: "i < length theme_keys"
  proof -
    let ?fs = "set_theme_color tmp wr (theme_keys ! i) rgb fs"
    have t: "t = map (\<lambda>k. theme_color tmp k fs AND 0xFFFFFF) theme_keys" using v by simp
    have "map (\<lambda>k. theme_color tmp k ?fs AND 0xFFFFFF) theme_keys = t[i := rgb AND 0xFFFFFF]"
    proof (rule nth_equalityI)
      fix n assume n: "n < length (map (\<lambda>k. theme_color tmp k ?fs AND 0xFFFFFF) theme_keys)"
      have d: "theme_keys ! n = theme_keys ! i \<longleftrightarrow> n = i"
        using n i nth_eq_iff_index_eq[of theme_keys n i] by (simp add: theme_keys_def)
      show "map (\<lambda>k. theme_color tmp k ?fs AND 0xFFFFFF) theme_keys ! n = t[i := rgb AND 0xFFFFFF] ! n"
      proof (cases "n = i")
        case True
        then show ?thesis using i theme.get_put[of wr tmp "theme_keys ! i" rgb fs] assms(1) by (simp add: t and.assoc)
      next
        case False
        have "theme_color tmp (theme_keys ! n) ?fs = theme_color tmp (theme_keys ! n) fs"
          by (rule view_parts(6)[where q = "theme_color_path tmp (theme_keys ! i)"])
            (use False d in \<open>simp_all add: setter_elsewhere path_not_theme\<close>)
        then show ?thesis using n False by (simp add: t)
      qed
    qed (simp add: t)
    then show ?thesis
      using v view_parts[of _ ?fs fs, OF setter_elsewhere(6)] by (simp add: stored_view_def ne)
  qed
qed

lemma stored_view_local:
  assumes "\<And>p. p \<in> insert mf (setting_paths tmp) \<Longrightarrow> fs' p = fs p"
  shows "stored_view tmp mf fs' = stored_view tmp mf fs"
proof -
  have "fps_overlay_enabled tmp fs' = fps_overlay_enabled tmp fs" by (rule fps.get_local, rule assms, simp add: setting_paths_def)
  moreover have "coordinates_overlay_enabled tmp fs' = coordinates_overlay_enabled tmp fs"
    by (rule coordinates.get_local, rule assms, simp add: setting_paths_def)
  moreover have "compact_readouts_enabled tmp fs' = compact_readouts_enabled tmp fs"
    by (rule compact.get_local, rule assms, simp add: setting_paths_def)
  moreover have "top_bar_enabled tmp fs' = top_bar_enabled tmp fs" by (rule top_bar.get_local, rule assms, simp add: setting_paths_def)
  moreover have "osd_layout tmp fs' = osd_layout tmp fs" by (rule layout.get_local, rule assms, simp add: setting_paths_def)
  moreover have "\<forall>k \<in> set theme_keys. theme_color tmp k fs' = theme_color tmp k fs"
    by (intro ballI, rule theme.get_local, rule assms, simp add: setting_paths_def)
  moreover have "fs' mf = fs mf" by (rule assms) simp
  ultimately show ?thesis by (simp add: stored_view_def load_map_settings_def file_lines_def)
qed

lemma join_path_not_setting:
  "join_path tmp ''openhd-glide.default.tmp'' \<notin> setting_paths tmp" "key_file tmp \<notin> setting_paths tmp"
  by (auto simp: setting_paths_def setting_path_defs key_file_def)

lemma kept_core: "settings_core v = settings_core u \<Longrightarrow> kept_in_files tmp mf u = kept_in_files tmp mf v"
proof -
  have "kept_in_files tmp mf (settings_core u) = kept_in_files tmp mf u" for u
    by (simp add: kept_in_files_def shown_view_def settings_core_def core_def)
  then show "settings_core v = settings_core u \<Longrightarrow> kept_in_files tmp mf u = kept_in_files tmp mf v" by metis
qed

lemma kept_files:
  assumes "kept_in_files tmp mf u" "\<And>p. p \<in> insert mf (setting_paths tmp) \<Longrightarrow> fs' p = ui_files u p"
  shows "kept_in_files tmp mf (u\<lparr>ui_files := fs'\<rparr>)"
  using assms(1) stored_view_local[of mf tmp fs' "ui_files u", OF assms(2)] by (simp add: kept_in_files_def shown_view_def)

lemma kept_device:
  assumes "separate_env tmp mf env" "kept_in_files tmp mf u"
  shows "kept_in_files tmp mf (persist_device env u)"
proof -
  define fs' where "fs' = snd (persist_device_settings (ue_tmp env) (ue_writable env) (ui_device u) (ui_files u))"
  have "fs' p = ui_files u p" if "p \<in> insert mf (setting_paths tmp)" for p
  proof -
    have "mf \<noteq> join_path tmp ''openhd-glide.default.tmp''" using assms(1) by (simp add: separate_env_def)
    from this this[symmetric] have "p \<noteq> join_path tmp ''openhd-glide.default.tmp''" "p \<noteq> glide_config_path"
      using assms(1) that join_path_not_setting(1)[of tmp] by (auto simp: separate_env_def)
    then show ?thesis
      using assms(1) by (simp add: fs'_def persist_device_settings_def split_def Let_def write_file_def separate_env_def)
  qed
  from kept_files[OF assms(2) this] have "kept_in_files tmp mf (u\<lparr>ui_files := fs'\<rparr>)" .
  moreover have "settings_core (persist_device env u) = settings_core (u\<lparr>ui_files := fs'\<rparr>)"
    by (simp add: persist_device_def fs'_def split_def Let_def settings_core_def)
  ultimately show ?thesis using kept_core by blast
qed

lemma kept_map:
  assumes "separate_env tmp mf env" "kept_in_files tmp mf u" "pos \<in> set map_position_values"
  shows "kept_in_files tmp mf (persist_map env (u\<lparr>ui_map_position := pos, ui_map_restore_open := b\<rparr>))"
  using assms setting_written(7)[of "ue_writable env" mf tmp "ui_files u", OF _ _ _ assms(3)]
  by (simp add: kept_in_files_def shown_view_def separate_env_def persist_map_def)

lemma kept_map_flags:
  assumes "separate_env tmp mf env" "kept_in_files tmp mf u"
  shows "kept_in_files tmp mf (persist_map env (u\<lparr>ui_map_suppressed := x, ui_map_restore_open := b, ui_map_expanded := e\<rparr>))"
    "kept_in_files tmp mf (persist_map env (u\<lparr>ui_coordinates_before_map := y, ui_map_suppressed := x, ui_map_restore_open := b\<rparr>))"
  using assms setting_written(7)[of "ue_writable env" mf tmp "ui_files u" _ _ _ _ _ _ _ "ui_map_position u"]
  by (simp_all add: kept_in_files_def shown_view_def separate_env_def persist_map_def)

lemma kept_coordinates:
  assumes "separate_env tmp mf env" "kept_in_files tmp mf u"
  shows "kept_in_files tmp mf (u\<lparr>ui_coordinates := b, ui_files := set_coordinates_overlay_enabled tmp (ue_writable env) b (ui_files u)\<rparr>)"
  using assms setting_written(2)[of "ue_writable env" mf tmp "ui_files u"]
  by (simp add: kept_in_files_def shown_view_def separate_env_def)

lemma kept_flags: "kept_in_files tmp mf (u\<lparr>ui_map_suppressed := x1\<rparr>) = kept_in_files tmp mf u"
  "kept_in_files tmp mf (u\<lparr>ui_map_expanded := x2\<rparr>) = kept_in_files tmp mf u"
  "kept_in_files tmp mf (u\<lparr>ui_mode := x3\<rparr>) = kept_in_files tmp mf u"
  "kept_in_files tmp mf (u\<lparr>ui_coordinates_before_map := x4\<rparr>) = kept_in_files tmp mf u"
  "kept_in_files tmp mf (ui_send l u) = kept_in_files tmp mf u"
  by (simp_all add: kept_in_files_def shown_view_def ui_send_eq)

interpretation files_tell: settings_invariant "kept_in_files tmp mf" "separate_env tmp mf" for tmp mf
proof (unfold_locales, goal_cases)
  case 1 then show ?case using kept_core by blast
next
  case (2 env u l)
  then have "norm_layout l = l" by (auto simp: layouts_def norm_layout_def)
  with 2 setting_written(5)[of "ue_writable env" mf tmp "ui_files u"] show ?case
    by (simp add: kept_in_files_def shown_view_def separate_env_def)
next
  case (3 env u b)
  with setting_written(4)[of "ue_writable env" mf tmp "ui_files u"] show ?case
    by (simp add: kept_in_files_def shown_view_def separate_env_def)
next
  case (4 env u b)
  with setting_written(1)[of "ue_writable env" mf tmp "ui_files u"] show ?case
    by (simp add: kept_in_files_def shown_view_def separate_env_def)
next
  case (5 env u b)
  with setting_written(2)[of "ue_writable env" mf tmp "ui_files u"] show ?case
    by (simp add: kept_in_files_def shown_view_def separate_env_def)
next
  case (6 env u b)
  with setting_written(3)[of "ue_writable env" mf tmp "ui_files u"] show ?case
    by (simp add: kept_in_files_def shown_view_def separate_env_def)
next
  case (7 env u i rgb)
  with setting_written(6)[of "ue_writable env" mf tmp "ui_files u"] show ?case
    by (simp add: kept_in_files_def shown_view_def separate_env_def map_update)
next
  case 8 then show ?case by (simp add: kept_in_files_def)
next
  case 9 then show ?case by (rule kept_device)
next
  case (10 env u h)
  then show ?case by (intro kept_files) (auto simp: persist_telemetry_host_def write_file_def separate_env_def)
next
  case (11 env u i)
  then show ?case using kept_map[OF 11(1,2), of "map_position_values ! i" "ui_map_restore_open u"] by simp
next
  case (12 env u m)
  have t: "ue_tmp env = tmp" using 12(1) by (simp add: separate_env_def)
  show ?case
    using 12(2) kept_map_flags(1)[OF 12(1,2)] kept_coordinates[OF 12(1) kept_map_flags(1)[OF 12(1,2)]]
    by (simp add: leave_map_def restore_coordinates_def Let_def kept_flags send_coordinates_state_def t)
next
  case (13 env u)
  have t: "ue_tmp env = tmp" using 13(1) by (simp add: separate_env_def)
  show ?case
    using 13(2) kept_map_flags(2)[OF 13(1,2)] kept_coordinates[OF 13(1) kept_map_flags(2)[OF 13(1,2)]]
    by (simp add: suppress_coordinates_def Let_def kept_flags send_coordinates_state_def t)
next
  case 14 then show ?case by (simp add: kept_flags)
next
  case (17 env u)
  then show ?case
    by (simp add: kept_in_files_def shown_view_def stored_view_def read_control_files_def separate_env_def Let_def comp_def)
next
  case (18 env u)
  have "mf \<noteq> key_file tmp" using 18(1) by (simp add: separate_env_def key_file_def)
  from this this[symmetric] 18 show ?case
    by (intro kept_files) (use join_path_not_setting(2)[of tmp] in \<open>auto simp: write_file_def separate_env_def\<close>)
qed (simp_all add: kept_in_files_def shown_view_def)

end
