(* ===== verification/Ui_Properties.thy ===== *)
theory Ui_Properties
  imports Ui_Invariants Controller_Safety
begin

text \<open>
  What the user interface promises: runs of its loop keep the map, the coordinates, the pointers and the
  files consistent, keys do what the buttons of the selected row do, and the interface shows what the
  controller tells it.
\<close>

section \<open>Runs from a start\<close>

lemma loaded_form: "load_ui env buffer fs = u \<Longrightarrow> ui_mode u = Hidden \<and> \<not> ui_map_suppressed u \<and> \<not> ui_map_expanded u
    \<and> ui_handles u = {} \<and> length (ui_theme u) = length theme_keys \<and> ui_layout u \<in> set layouts \<and> ui_path u = []
    \<and> ui_files u = fs"
  by (auto simp: load_ui_def read_control_files_def new_ui_def Let_def split_def layout_read)

lemma loaded_position: "ui_map_position (load_ui env buffer fs) \<in> set map_position_values"
proof -
  have k: "fst (apply_map_setting m l) \<in> set map_position_values" if "fst m \<in> set map_position_values" for m l
    using that by (auto simp: apply_map_setting_def Let_def)
  have "fst (foldl apply_map_setting m ls) \<in> set map_position_values" if "fst m \<in> set map_position_values" for m ls
    using that by (induction ls arbitrary: m) (simp_all add: k)
  then have "fst (load_map_settings p fs m) \<in> set map_position_values" if "fst m \<in> set map_position_values" for p fs m
    using that by (simp add: load_map_settings_def)
  then show ?thesis by (simp add: load_ui_def Let_def split_def read_control_files_def new_ui_def map_position_values_def)
qed

text \<open>What the start hands to \<open>build_overlay\<close>.\<close>

lemma started:
  assumes "ui_start env buffer sock fs = Some u"
  obtains w v where "core w = core (load_ui env buffer fs)" "build_overlay env v = Some u"
    "v = (if ui_map_restore_open w then suppress_coordinates env (w\<lparr>ui_mode := Minimap\<rparr>) else w)"
proof -
  obtain ok c where c: "client_connect_to (fst sock) (snd sock) (ui_ipc (load_ui env buffer fs)) = (ok, c)" by fastforce
  define w where "w = (if ok then send_initial_ipc_requests (if buffer then ''lvgl-buffer'' else ''lvgl-sdl'')
      ((load_ui env buffer fs)\<lparr>ui_ipc := c\<rparr>) else (load_ui env buffer fs)\<lparr>ui_ipc := c\<rparr>)"
  have "core w = core (load_ui env buffer fs)" by (simp add: w_def)
  moreover have "build_overlay env (if ui_map_restore_open w then suppress_coordinates env (w\<lparr>ui_mode := Minimap\<rparr>) else w) = Some u"
    using assms[unfolded ui_start_def Let_def c prod.case, folded w_def] by simp
  ultimately show ?thesis using that by blast
qed

lemma core_fields:
  assumes "core w = core u"
  shows "ui_mode w = ui_mode u" "ui_map_suppressed w = ui_map_suppressed u" "ui_map_expanded w = ui_map_expanded u"
    "ui_handles w = ui_handles u" "ui_theme w = ui_theme u" "ui_layout w = ui_layout u" "ui_path w = ui_path u"
    "ui_map_position w = ui_map_position u" "ui_map_restore_open w = ui_map_restore_open u"
proof -
  have "ui_mode (core x) = ui_mode x" "ui_map_suppressed (core x) = ui_map_suppressed x"
    "ui_map_expanded (core x) = ui_map_expanded x" "ui_handles (core x) = ui_handles x" "ui_theme (core x) = ui_theme x"
    "ui_layout (core x) = ui_layout x" "ui_path (core x) = ui_path x" "ui_map_position (core x) = ui_map_position x"
    "ui_map_restore_open (core x) = ui_map_restore_open x" for x
    by (simp_all add: core_def)
  then show "ui_mode w = ui_mode u" "ui_map_suppressed w = ui_map_suppressed u" "ui_map_expanded w = ui_map_expanded u"
    "ui_handles w = ui_handles u" "ui_theme w = ui_theme u" "ui_layout w = ui_layout u" "ui_path w = ui_path u"
    "ui_map_position w = ui_map_position u" "ui_map_restore_open w = ui_map_restore_open u"
    using assms by metis+
qed

lemma suppressed_form: "suppress_coordinates env u = v \<Longrightarrow> \<not> ui_map_suppressed u \<Longrightarrow>
    ui_map_suppressed v \<and> ui_map_restore_open v \<and> ui_mode v = ui_mode u \<and> ui_map_expanded v = ui_map_expanded u
    \<and> ui_handles v = ui_handles u \<and> ui_theme v = ui_theme u \<and> ui_layout v = ui_layout u \<and> ui_path v = ui_path u
    \<and> ui_map_position v = ui_map_position u \<and> \<not> ui_coordinates v \<and> ui_coordinates_before_map v = ui_coordinates u"
  by (cases "ui_coordinates u") (auto simp: suppress_coordinates_def persist_map_def send_coordinates_state_def ui_send_eq Let_def)

lemma ui_start_ok:
  assumes "ui_start env buffer sock fs = Some u"
  shows "well_formed u" "pointers_ok u"
proof -
  obtain w v where w: "core w = core (load_ui env buffer fs)" "build_overlay env v = Some u"
    "v = (if ui_map_restore_open w then suppress_coordinates env (w\<lparr>ui_mode := Minimap\<rparr>) else w)"
    using started[OF assms] .
  note c = core_fields[OF w(1)] and l = loaded_form[OF refl, of env buffer fs] loaded_position[of env buffer fs]
  have h: "ui_handles v = {}" "length (ui_theme v) = length theme_keys" "well_formed v"
    using c l suppressed_form[of env "w\<lparr>ui_mode := Minimap\<rparr>" v] w(3)
    by (auto simp: well_formed_def)
  show "pointers_ok u" by (rule pointers_built[OF h(1,2) w(2)])
  show "well_formed u" using well_formed_core[OF frame_overlay[OF w(2)]] h(3) by simp
qed


section \<open>A run\<close>

text \<open>A screen, no controller, writable files, and a round in which the key n goes down.\<close>

definition demo_env :: ui_env where
  "demo_env = \<lparr>ue_tmp = ''/tmp'', ue_writable = \<lambda>_. True, ue_map_file = ''/root/.config/openhd-glide/map.conf'',
     ue_telemetry_file = ''/root/.config/openhd-glide/telemetry.conf'', ue_bad = 0, ue_width = 1920, ue_height = 1080,
     ue_frame = (1540, 440), ue_zoom = None, ue_grid = None, ue_host_text = ''192.168.1.7'', ue_now = ms 1000\<rparr>"

definition demo_keys :: ui_round where
  "demo_keys = \<lparr>ur_env = demo_env, ur_keys = [(1, 49, 1)], ur_socket = (- 1, False), ur_received = [],
     ur_cos = id, ur_hyp = (\<lambda>x _. x), ur_sdl = [], ur_events = []\<rparr>"

definition demo_ui :: ui where
  "demo_ui = the (ui_start demo_env True (- 1, False) (\<lambda>_. None))"

lemma demo_loaded: "ui_map_restore_open (load_ui demo_env True (\<lambda>_. None)) = False"
  "ui_ipc (load_ui demo_env True (\<lambda>_. None)) = new_client" "ui_buffer (load_ui demo_env True (\<lambda>_. None))"
  "ui_mode (load_ui demo_env True (\<lambda>_. None)) = Hidden" "ui_mavlink (load_ui demo_env True (\<lambda>_. None)) = initial_snapshot"
  "ui_next_ipc (load_ui demo_env True (\<lambda>_. None)) = 0" "ui_next_file_poll (load_ui demo_env True (\<lambda>_. None)) = 0"
  "ui_files (load_ui demo_env True (\<lambda>_. None)) = (\<lambda>_. None)" "\<not> ui_map_suppressed (load_ui demo_env True (\<lambda>_. None))"
  "ui_coordinates (load_ui demo_env True (\<lambda>_. None))" "ui_peers (load_ui demo_env True (\<lambda>_. None)) = []"
  by (simp_all add: coordinates_overlay_enabled_def read_enabled_file_def read_flag_def load_ui_def new_ui_def read_control_files_def Let_def split_def load_map_settings_def file_lines_def)

lemma demo_started: "ui_start demo_env True (- 1, False) (\<lambda>_. None) = Some demo_ui"
  "ui_mode demo_ui = Hidden" "ui_root demo_ui" "ui_buffer demo_ui" "\<not> client_connected (ui_ipc demo_ui)"
  "ui_next_ipc demo_ui = 0" "ui_next_file_poll demo_ui = 0" "ui_files demo_ui = (\<lambda>_. None)" "ui_mavlink demo_ui = initial_snapshot"
  "\<not> ui_map_suppressed demo_ui" "ui_coordinates demo_ui" "ui_peers demo_ui = []"
  unfolding demo_ui_def
  by (simp_all add: ui_start_def demo_loaded client_connect_to_def client_close_def new_client_def build_overlay_def
      send_gpu_map_state_def client_connected_def Let_def)

definition demo_same :: "ui \<Rightarrow> ui \<Rightarrow> bool" where
  "demo_same u v \<longleftrightarrow> ui_root v = ui_root u \<and> ui_buffer v = ui_buffer u \<and> ui_ipc v = ui_ipc u \<and> ui_next_ipc v = ui_next_ipc u
     \<and> ui_next_file_poll v = ui_next_file_poll u \<and> ui_mavlink v = ui_mavlink u
     \<and> ui_files v (key_file ''/tmp'') = ui_files u (key_file ''/tmp'')"

lemma unconnected: "\<not> client_connected (ui_ipc u) \<Longrightarrow> ui_send l u = u" "\<not> client_connected (ui_ipc u) \<Longrightarrow> send_gpu_map_state u = u"
  by (simp_all add: ui_send_eq sent_after_def send_gpu_map_state_def)

lemma demo_card:
  assumes "\<not> client_connected (ui_ipc u)" "ui_root u"
  shows "\<exists>v. build_minimap_card demo_env u = Some v \<and> demo_same u v \<and> ui_mode v = ui_mode u
    \<and> Minimap_zoom_label \<in> ui_handles v"
  using assms by (simp add: minimap_handles_def build_minimap_card_def demo_env_def env_int_def unconnected demo_same_def split_def Let_def)

lemma demo_rebuild:
  assumes "\<not> client_connected (ui_ipc u)" "ui_root u" "ui_mode u = Minimap"
  shows "\<exists>v. rebuild_ui demo_env u = Some v \<and> demo_same u v \<and> ui_mode v = Minimap \<and> Minimap_zoom_label \<in> ui_handles v"
proof -
  let ?w = "invalidate_ui_handles (u\<lparr>ui_minimap := None, ui_live := {}\<rparr>)\<lparr>ui_minimap := None, ui_root := True\<rparr>"
  have w: "\<not> client_connected (ui_ipc ?w)" "ui_root ?w" "ui_mode ?w = Minimap" "demo_same u ?w"
    using assms by (simp_all add: invalidate_ui_handles_def demo_same_def)
  obtain v where v: "build_minimap_card demo_env ?w = Some v" "demo_same ?w v" "ui_mode v = ui_mode ?w" "Minimap_zoom_label \<in> ui_handles v"
    using demo_card[OF w(1,2)] by blast
  have "rebuild_ui demo_env u = Some (v\<lparr>ui_rebuild_pending := False\<rparr>)"
    using assms(2) w(3) v(1) by (simp add: rebuild_ui_def build_overlay_def Let_def)
  then show ?thesis using v w by (simp add: demo_same_def)
qed

lemma demo_map_opens:
  assumes "\<not> client_connected (ui_ipc u)" "ui_root u" "ui_mode u \<noteq> Minimap" "ui_coordinates u"
  shows "\<exists>v. cycle_overlay_from_map_key demo_env u = Some v \<and> demo_same u v \<and> ui_mode v = Minimap \<and> Minimap_zoom_label \<in> ui_handles v"
proof -
  let ?w = "((suppress_coordinates demo_env u)\<lparr>ui_mode := Minimap\<rparr>)\<lparr>ui_focus_panel := False\<rparr>"
  have p: "ue_map_file demo_env \<noteq> key_file ''/tmp''" "coordinates_control_path ''/tmp'' \<noteq> key_file ''/tmp''" "ue_tmp demo_env = ''/tmp''"
    by (simp_all add: demo_env_def key_file_def coordinates_control_path_def join_path_def)
  have s: "demo_same u ?w" using assms(4) p p(1,2)[symmetric]
    by (simp add: persist_map_settings_def write_file_def set_coordinates_overlay_enabled_def write_enabled_file_def suppress_coordinates_def persist_map_def send_coordinates_state_def ui_send_eq Let_def demo_same_def)
  then have "\<not> client_connected (ui_ipc ?w)" "ui_root ?w" using assms(1,2) by (simp_all add: demo_same_def)
  then obtain v where v: "rebuild_ui demo_env ?w = Some v" "demo_same ?w v" "ui_mode v = Minimap" "Minimap_zoom_label \<in> ui_handles v"
    using demo_rebuild[of ?w] by auto
  then show ?thesis
    using s assms(3) by (simp add: cycle_overlay_from_map_key_def Let_def demo_same_def)
qed

lemma demo_poll:
  assumes "\<not> client_connected (ui_ipc u)" "ui_next_ipc u = 0" "ui_next_file_poll u = 0" "ui_files u (key_file ''/tmp'') = None"
  shows "\<exists>v. poll_ipc demo_env (- 1, False) [] u = Some v \<and> ui_mode v = ui_mode u \<and> ui_mavlink v = ui_mavlink u \<and> ui_buffer v = ui_buffer u
    \<and> ui_handles v = ui_handles u"
  using assms
  by (simp add: poll_ipc_def connect_ipc_if_needed_def demo_env_def ms_def client_connect_to_def poll_files_def
      poll_local_key_file_def read_control_files_def Let_def)

lemma demo_run: "\<exists>d v. ui_run [demo_keys] ({}, demo_ui) = Some (d, v) \<and> ui_mode v = Minimap
    \<and> Minimap_zoom_label \<in> ui_handles v"
proof -
  obtain v where v: "cycle_overlay_from_map_key demo_env demo_ui = Some v" "demo_same demo_ui v" "ui_mode v = Minimap"
    "Minimap_zoom_label \<in> ui_handles v"
    using demo_map_opens[of demo_ui] demo_started by auto
  have k: "poll_linux_keyboard demo_env [(1, 49, 1)] ({}, demo_ui) = Some ({49}, v)"
    using v(1) by (simp add: poll_linux_keyboard_def linux_key_name_def dispatch_key_def apply_terminal_key_def
        apply_key_name_def starts_with_def Let_def)
  have "ui_files v (key_file ''/tmp'') = None" using v(2) demo_started by (simp add: demo_same_def)
  then obtain w where w: "poll_ipc demo_env (- 1, False) [] v = Some w" "ui_mode w = Minimap" "ui_mavlink w = initial_snapshot" "ui_buffer w"
    "Minimap_zoom_label \<in> ui_handles w"
    using demo_poll[of v] v demo_started by (auto simp: demo_same_def)
  have "record_flight_position c h w = w" for c h using w(3) by (simp add: record_flight_position_def initial_snapshot_def)
  then have "ui_step demo_keys ({}, demo_ui) = Some ({49}, update_minimap (ms 1000) w)"
    using k w demo_started by (simp add: sdl_zoom_def ui_step_def demo_keys_def Let_def) (simp add: demo_env_def)
  moreover have "ui_mode (update_minimap t w) = Minimap" "ui_handles (update_minimap t w) = ui_handles w" for t
    using w(2) by (simp_all add: update_minimap_def send_gpu_map_state_def ui_send_eq Let_def split: option.split)
  ultimately show ?thesis using w(5) by simp
qed

text \<open>A line that opens or leaves the map, from any well-formed state.\<close>

lemma map_line_step:
  assumes "well_formed u" "apply_terminal_key env line u = Some v"
  shows "(ui_mode u \<noteq> Minimap \<longrightarrow> line \<in> {''ui key n'', ''ui key map''} \<longrightarrow>
      ui_mode v = Minimap \<and> \<not> ui_coordinates v \<and> ui_coordinates_before_map v = ui_coordinates u) \<and>
    (ui_mode u = Minimap \<longrightarrow>
      line \<in> {''ui key n'', ''ui key map'', ''ui key m'', ''ui key menu'', ''ui hide'', ''ui close'', ''ui show'', ''ui menu'', ''ui toggle''} \<longrightarrow>
      ui_mode v \<noteq> Minimap \<and> ui_coordinates v = ui_coordinates_before_map u)"
proof (intro conjI impI)
  have f: "ui_mode x = ui_mode y \<and> ui_coordinates x = ui_coordinates y \<and> ui_coordinates_before_map x = ui_coordinates_before_map y"
    if "rebuild_ui env y = Some x" for x y
  proof -
    have "ui_mode (settings_core z) = ui_mode z \<and> ui_coordinates (settings_core z) = ui_coordinates z \<and>
        ui_coordinates_before_map (settings_core z) = ui_coordinates_before_map z" for z
      by (simp add: settings_core_def core_def)
    then show ?thesis using frame_rebuild[OF that] by metis
  qed
  {
    assume "ui_mode u \<noteq> Minimap" "line \<in> {''ui key n'', ''ui key map''}"
    moreover from this(1) have "\<not> ui_map_suppressed u" using assms(1) by (simp add: well_formed_def)
    ultimately show "ui_mode v = Minimap" "\<not> ui_coordinates v" "ui_coordinates_before_map v = ui_coordinates u"
      using assms(2) suppressed_form[OF refl, of u env]
      by (auto simp: apply_terminal_key_def starts_with_def apply_key_name_def cycle_overlay_from_map_key_def Let_def dest!: f)
  }
  have r: "ui_coordinates (leave_map env u) = ui_coordinates_before_map u" if "ui_mode u = Minimap"
    using that assms(1)
    by (auto simp: leave_map_def restore_coordinates_def well_formed_def persist_map_def send_coordinates_state_def ui_send_eq Let_def)
  {
    assume "ui_mode u = Minimap" and l: "line \<in> {''ui key n'', ''ui key map'', ''ui key m'', ''ui key menu'', ''ui hide'', ''ui close'', ''ui show'', ''ui menu'', ''ui toggle''}"
    then show "ui_mode v \<noteq> Minimap" "ui_coordinates v = ui_coordinates_before_map u"
      using assms(2) r
      by (auto simp: apply_terminal_key_def starts_with_def apply_key_name_def cycle_overlay_from_map_key_def
          cycle_overlay_from_menu_key_def show_menu_def hide_overlay_def leave_map_def Let_def dest!: f)
  }
qed

text \<open>C9: in every run of the user interface, whatever keys, clicks and lines arrive, the mark that the
  coordinates overlay is suppressed and the mark that the map is to be reopened are set exactly while the map
  is shown, only a shown map is expanded, the layout and the place of the map are known ones, and the flight
  path has at most 2000 positions. From every state that is reached, the map key (the line
  \<open>ui key n\<close> or \<open>ui key map\<close>) opens the map with the coordinates overlay switched off and keeps the switch it had; and from a shown map
  the map key, the menu key and the lines that hide the overlay or show the menu leave the map with the
  overlay as it was kept. (While the map is shown, the line \<open>state coords 1\<close> can switch the overlay on again;
  leaving the map then still brings back the kept switch.)\<close>

theorem map_flags_consistent:
  assumes "ui_start env buffer sock fs = Some u0" "ui_run rs (down, u0) = Some (down', u)"
  shows "(ui_map_suppressed u \<longleftrightarrow> ui_mode u = Minimap) \<and> (ui_map_restore_open u \<longleftrightarrow> ui_mode u = Minimap) \<and>
    (ui_map_expanded u \<longrightarrow> ui_mode u = Minimap) \<and> ui_layout u \<in> set layouts \<and>
    ui_map_position u \<in> set map_position_values \<and> length (ui_path u) \<le> 2000 \<and>
    (\<forall>env' line v. apply_terminal_key env' line u = Some v \<longrightarrow>
      (ui_mode u \<noteq> Minimap \<longrightarrow> line \<in> {''ui key n'', ''ui key map''} \<longrightarrow>
        ui_mode v = Minimap \<and> \<not> ui_coordinates v \<and> ui_coordinates_before_map v = ui_coordinates u) \<and>
      (ui_mode u = Minimap \<longrightarrow>
        line \<in> {''ui key n'', ''ui key map'', ''ui key m'', ''ui key menu'', ''ui hide'', ''ui close'', ''ui show'', ''ui menu'', ''ui toggle''} \<longrightarrow>
        ui_mode v \<noteq> Minimap \<and> ui_coordinates v = ui_coordinates_before_map u))"
proof -
  have w: "well_formed u"
    using map_flags.whole.run[of "(down, u0)" rs "(down', u)"] assms(2) ui_start_ok(1)[OF assms(1)]
    by (simp add: list_all_iff)
  then show ?thesis using map_line_step[OF w] by (simp add: well_formed_def)
qed

theorem map_flags_consistent_witness:
  "(\<exists>d v. ui_run [demo_keys] ({}, demo_ui) = Some (d, v) \<and> ui_map_suppressed v \<and> ui_map_restore_open v) \<and>
   (\<exists>v. apply_terminal_key demo_env ''ui key n'' demo_ui = Some v \<and> \<not> ui_coordinates v \<and> ui_coordinates_before_map v)"
proof
  obtain d v where v: "ui_run [demo_keys] ({}, demo_ui) = Some (d, v)" "ui_mode v = Minimap" using demo_run by auto
  with map_flags_consistent[OF demo_started(1) v(1)]
  show "\<exists>d v. ui_run [demo_keys] ({}, demo_ui) = Some (d, v) \<and> ui_map_suppressed v \<and> ui_map_restore_open v" by auto
  obtain v where "cycle_overlay_from_map_key demo_env demo_ui = Some v"
    using demo_map_opens[of demo_ui] demo_started by auto
  then have v: "apply_terminal_key demo_env ''ui key n'' demo_ui = Some v"
    by (simp add: apply_terminal_key_def starts_with_def apply_key_name_def Let_def)
  have "ui_run [] ({}, demo_ui) = Some ({}, demo_ui)" by simp
  from map_flags_consistent[OF demo_started(1) this] v demo_started
  show "\<exists>v. apply_terminal_key demo_env ''ui key n'' demo_ui = Some v \<and> \<not> ui_coordinates v \<and> ui_coordinates_before_map v"
    by auto
qed

text \<open>C11: a pointer to a widget never outlives the widget. In every run each widget that the state points to
  exists, except that the pointer to the address field may be left behind when another panel than the
  developer's is shown, where nothing uses it; and the map widget exists exactly while the map is shown.\<close>

theorem no_dangling_widget:
  assumes "ui_start env buffer sock fs = Some u0" "ui_run rs (down, u0) = Some (down', u)"
  shows "ui_handles u \<subseteq> ui_live u \<union> (if ui_panel u = Developer then {} else {Telemetry_host_input}) \<and>
    (ui_minimap u \<noteq> None \<longleftrightarrow> ui_mode u = Minimap)"
  using pointers.run[of "(down, u0)" rs "(down', u)"] assms(2) ui_start_ok(2)[OF assms(1)]
  by (auto simp: pointers_ok_def list_all_iff split: if_splits)

theorem no_dangling_widget_witness:
  "\<exists>d v. ui_run [demo_keys] ({}, demo_ui) = Some (d, v) \<and> Minimap_zoom_label \<in> ui_live v"
proof -
  obtain d v where v: "ui_run [demo_keys] ({}, demo_ui) = Some (d, v)" "Minimap_zoom_label \<in> ui_handles v" using demo_run by auto
  with no_dangling_widget[OF demo_started(1) v(1)] show ?thesis by (auto split: if_splits)
qed









section \<open>Keys and buttons\<close>

text \<open>What a key does on a row of the on-screen display panel is the change of its control.\<close>

definition osd_change :: "int \<Rightarrow> ui \<Rightarrow> change" where
  "osd_change r u =
     (if r = 0 then Layout_to (if ui_layout u = ''drone'' then 1 else if ui_layout u = ''rocket'' then 2 else if ui_layout u = ''rover'' then 3 else 0)
      else if r = 1 then Top_bar_to (\<not> ui_top_bar u) else if r = 2 then Fps_to (\<not> ui_fps u)
      else if r = 3 then Coordinates_to (\<not> ui_coordinates u)
      else if r = 4 then Map_position_to ((map_position_index (ui_map_position u) + 1) mod 8) else Compact_to (\<not> ui_compact u))"

text \<open>C14: in the panels of the dashboard, the camera and the recording, enter on the selected row does exactly
  what a click on the button of that row does, and nothing on a row without a button; in the panel of the
  on-screen display it does what the control of the row does when it is switched or moved to the next choice.\<close>

theorem keys_act_as_buttons:
  assumes "0 \<le> ui_selected_row u" "ui_selected_row u < int (length (panel_rows (ue_bad env) u))"
  shows "(ui_panel u \<in> {Dashboard, Camera, Recording} \<longrightarrow>
      enter_row env u = (case panel_rows (ue_bad env) u ! nat (ui_selected_row u) of Button t c \<Rightarrow> click_button env c u | _ \<Rightarrow> Some u)) \<and>
    (ui_panel u = Osd \<longrightarrow> enter_row env u = Some (change_control_row env (osd_change (ui_selected_row u) u) u))"
proof -
  define n where "n = nat (ui_selected_row u)"
  then have r: "ui_selected_row u = int n" using assms(1) by simp
  have digits: "nat_str 0 = ''0''" "nat_str (Suc 0) = ''1''" "nat_str 1 = ''1''" "nat_str 2 = ''2''"
    by code_simp+
  have five: "n < 5 \<Longrightarrow> n = 0 \<or> n = 1 \<or> n = 2 \<or> n = 3 \<or> n = 4" by auto
  have six: "n < 6 \<Longrightarrow> n = 0 \<or> n = 1 \<or> n = 2 \<or> n = 3 \<or> n = 4 \<or> n = 5" by auto
  have seven: "n < 7 \<Longrightarrow> n = 0 \<or> n = 1 \<or> n = 2 \<or> n = 3 \<or> n = 4 \<or> n = 5 \<or> n = 6" by auto
  let ?button = "case panel_rows (ue_bad env) u ! nat (ui_selected_row u) of Button t c \<Rightarrow> click_button env c u | _ \<Rightarrow> Some u"
  show ?thesis
  proof (intro conjI impI)
    assume "ui_panel u \<in> {Dashboard, Camera, Recording}"
    then consider "ui_panel u = Dashboard" "artosyn_link (ui_mavlink u)" | "ui_panel u = Dashboard" "\<not> artosyn_link (ui_mavlink u)"
      | "ui_panel u = Camera" | "ui_panel u = Recording" by auto
    then show "enter_row env u = ?button"
    proof cases
      case 1
      with assms(2) have "n < 6" by (simp add: r panel_rows_def dashboard_rows_def Let_def)
      from six[OF this] 1 show ?thesis
        by (elim disjE) (simp_all add: r enter_row_def panel_rows_def dashboard_rows_def click_button_def Let_def)
    next
      case 2
      with assms(2) have "n < 5" by (simp add: r panel_rows_def dashboard_rows_def Let_def)
      from five[OF this] 2 show ?thesis
        by (elim disjE) (simp_all add: r enter_row_def panel_rows_def dashboard_rows_def click_button_def Let_def)
    next
      case 3
      with assms(2) have "n < 7" by (simp add: r panel_rows_def camera_rows_def)
      from seven[OF this] 3 show ?thesis
        by (elim disjE) (simp_all add: r enter_row_def panel_rows_def camera_rows_def click_button_def flag_def Let_def)
    next
      case 4
      with assms(2) have "n < 5" by (simp add: r panel_rows_def recording_rows_def)
      from five[OF this] 4 show ?thesis
        by (elim disjE) (simp_all add: r enter_row_def panel_rows_def recording_rows_def click_button_def digits Let_def)
    qed
  next
    assume p: "ui_panel u = Osd"
    with assms(2) have "n < 6" by (simp add: r panel_rows_def osd_rows_def)
    from six[OF this] p show "enter_row env u = Some (change_control_row env (osd_change (ui_selected_row u) u) u)"
      by (elim disjE) (simp_all add: r enter_row_def osd_change_def change_control_row_def next_layout_def layout_of_def
          map_position_values_def min_def Let_def)
  qed
qed

definition demo_row :: "panel \<Rightarrow> int \<Rightarrow> ui" where
  "demo_row p r = demo_ui\<lparr>ui_panel := p, ui_selected_row := r\<rparr>"

theorem keys_act_as_buttons_witness:
  "enter_row demo_env (demo_row Camera 4) = click_button demo_env Camera_rotation (demo_row Camera 4)"
proof -
  have "length (panel_rows (ue_bad demo_env) (demo_row Camera 4)) = 7" "ui_panel (demo_row Camera 4) = Camera"
    "panel_rows (ue_bad demo_env) (demo_row Camera 4) ! 4 = Button ''CYCLE CAMERA ROTATION'' Camera_rotation"
    "ui_selected_row (demo_row Camera 4) = 4"
    by (simp_all add: panel_rows_def demo_row_def camera_rows_def)
  with keys_act_as_buttons[of "demo_row Camera 4" demo_env] show ?thesis by simp
qed

text \<open>The enter key keeps the render scale within what \<open>device_settings_survive\<close> covers.\<close>

lemma enter_keeps_scale:
  assumes "25 \<le> flow_scale_percent (ui_device u)" "flow_scale_percent (ui_device u) \<le> 124" "ui_panel u = Video"
    "ui_selected_row u = 3" "enter_row env u = Some v"
  shows "25 \<le> flow_scale_percent (ui_device v) \<and> flow_scale_percent (ui_device v) \<le> 124"
proof -
  have "flow_scale_percent (ui_device v)
      = (if 100 \<le> flow_scale_percent (ui_device u) then 25 else flow_scale_percent (ui_device u) + 25)"
    using assms(3-5) by (auto simp: enter_row_def set_device_def persist_device_def split_def Let_def)
  with assms(1,2) show ?thesis by (simp add: word_le_nat_alt unat_word_ariths split: if_splits)
qed

text \<open>On the link panel the keyboard acts on the wrong rows. Rows 4 to 8, where enter changes the channel
  width, the rate, the transmit power and the pit mode of the air unit, show values that nothing can be done
  with; and on the rows of the buttons, however many peers are listed, enter sends nothing.\<close>

theorem link_keys_misplaced:
  assumes "ui_panel u = Link"
  shows "(\<forall>r \<in> {4..8}. \<exists>t v. panel_rows bad u ! r = Value t v) \<and>
    (\<forall>r. 0 \<le> r \<and> nat r < length (panel_rows bad u) \<and> (\<exists>t c. panel_rows bad u ! nat r = Button t c) \<and> ui_selected_row u = r \<longrightarrow>
       enter_row env u = Some u)"
proof -
  let ?a = "take 9 (panel_rows bad u)"
  have a: "length ?a = 9" "\<forall>x \<in> set ?a. \<exists>t v. x = Value t v"
    using assms by (auto simp: panel_rows_def link_rows_def Let_def)
  then have v: "\<exists>t v. panel_rows bad u ! n = Value t v" if "n < 9" for n
    using that nth_mem[of n ?a] by (metis nth_take)
  show ?thesis
  proof (intro conjI allI impI ballI)
    fix r :: nat assume "r \<in> {4..8}"
    then show "\<exists>t v. panel_rows bad u ! r = Value t v" by (intro v) simp
  next
    fix r assume r: "0 \<le> r \<and> nat r < length (panel_rows bad u) \<and> (\<exists>t c. panel_rows bad u ! nat r = Button t c) \<and> ui_selected_row u = r"
    then have "\<not> nat r < 9" using v[of "nat r"] by auto
    then show "enter_row env u = Some u" using r assms by (simp add: enter_row_def Let_def)
  qed
qed

theorem link_keys_misplaced_witness:
  "enter_row demo_env (demo_row Link 10) = Some (demo_row Link 10) \<and>
   panel_rows 0 (demo_row Link 10) ! 10 = Button ''SCAN ETHERNET GLIDE'' Net_scan"
proof -
  have "ui_panel (demo_row Link 10) = Link" by (simp add: demo_row_def)
  moreover have "nat 10 < length (panel_rows 0 (demo_row Link 10))" "panel_rows 0 (demo_row Link 10) ! 10 = Button ''SCAN ETHERNET GLIDE'' Net_scan"
    using demo_started by (simp_all add: panel_rows_def demo_row_def link_rows_def Let_def nth_append)
  moreover have "ui_selected_row (demo_row Link 10) = 10" by (simp add: demo_row_def)
  ultimately show ?thesis using link_keys_misplaced[of "demo_row Link 10" 0 demo_env] by auto
qed

section \<open>The controller and the interface\<close>

lemma ui_line_setting: "apply_setting_state env line u = Some v \<Longrightarrow> ui_line env line u = Some v"
  by (simp add: ui_line_def)

lemma state_lines:
  "ui_line env (''state fps '' @ flag b) u = Some (if ui_fps u = b then u else u\<lparr>ui_fps := b, ui_files := set_fps_overlay_enabled (ue_tmp env) (ue_writable env) b (ui_files u)\<rparr>)"
  "ui_line env (''state coords '' @ flag b) u = Some (if ui_coordinates u = b then u else u\<lparr>ui_coordinates := b, ui_files := set_coordinates_overlay_enabled (ue_tmp env) (ue_writable env) b (ui_files u)\<rparr>)"
  "ui_line env (''state compact '' @ flag b) u = Some (if ui_compact u = b then u else u\<lparr>ui_compact := b, ui_files := set_compact_readouts_enabled (ue_tmp env) (ue_writable env) b (ui_files u)\<rparr>)"
  "ui_line env (''state topbar '' @ flag b) u = Some (if ui_top_bar u = b then u else u\<lparr>ui_top_bar := b, ui_files := set_top_bar_enabled (ue_tmp env) (ue_writable env) b (ui_files u)\<rparr>)"
  by (rule ui_line_setting, cases b, simp add: apply_setting_state_def flag_def Let_def,
      simp add: apply_setting_state_def flag_def Let_def)+

lemma layout_line:
  assumes "l \<in> set layouts"
  shows "ui_line env (''state osd '' @ l) u = Some (if ui_layout u = l then u else u\<lparr>ui_layout := l, ui_files := set_osd_layout (ue_tmp env) (ue_writable env) l (ui_files u)\<rparr>)"
proof -
  have "l = ''drone'' \<or> l = ''rocket'' \<or> l = ''rover'' \<or> l = ''ship''" using assms by (simp add: layouts_def)
  then show ?thesis by (elim disjE) (rule ui_line_setting, simp add: apply_setting_state_def Let_def)+
qed

lemma connection_line: "ui_line env (''state telemetry '' @ t) u = Some (refresh_panel panel_uses_network (ue_now env) (u\<lparr>ui_telemetry_status := t\<rparr>))"
  by (simp add: ui_line_def apply_setting_state_def apply_theme_state_line_def apply_network_state_line_def starts_with_def)

lemma rgb_hex_digits: "length (rgb_hex c) = 6 \<and> list_all is_xdigit (rgb_hex c) \<and> xdigits_val (rgb_hex c) = unat (c AND 0xFFFFFF)"
proof -
  have "c AND 0xFFFFFF = take_bit 24 c" by (simp add: take_bit_eq_mask mask_eq_exp_minus_1)
  then have n: "unat (c AND 0xFFFFFF) < 16 ^ 6"
    using take_bit_nat_less_exp[of 24 "unat c"] by (simp add: unsigned_take_bit_eq)
  then show ?thesis
    using length_hex_str[OF _ n] hex_str_xdigits[of "unat (c AND 0xFFFFFF)"]
    by (auto simp: rgb_hex_def xdigits_val_append is_xdigit_def list_all_iff Let_def)
qed

lemma theme_line_read:
  assumes "key \<in> set theme_keys"
  shows "\<exists>fs'. ui_line env (theme_line tmp fs key) u
    = Some (u\<lparr>ui_theme := update_theme key (theme_color tmp key fs AND 0xFFFFFF) (ui_theme u), ui_files := fs'\<rparr>)"
proof -
  let ?h = "rgb_hex (theme_color tmp key fs)" and ?l = "theme_line tmp fs key"
  have k: "CHR '' '' \<notin> set key" using assms by (auto simp: theme_keys_def)
  have l: "?l = ''state theme '' @ key @ CHR '' '' # ?h" by (simp add: theme_line_def)
  have t: "takeWhile (\<lambda>c. c \<noteq> CHR '' '') (key @ CHR '' '' # ?h) = key" using k by (simp add: takeWhile_append)
  have h: "stoul 16 ?h = Some (of_nat (unat (theme_color tmp key fs AND 0xFFFFFF)))"
    using stoul_hex6[of ?h] rgb_hex_digits[of "theme_color tmp key fs"] by simp
  have u: "ucast (of_nat (unat x) :: u64) = x" for x :: u32 by transfer simp
  have n: "apply_setting_state env ?l u = None" unfolding l by (simp add: apply_setting_state_def Let_def)
  have "apply_theme_state_line env ?l u = Some (True, u\<lparr>ui_theme := update_theme key (theme_color tmp key fs AND 0xFFFFFF) (ui_theme u),
      ui_files := set_theme_color (ue_tmp env) (ue_writable env) key (theme_color tmp key fs AND 0xFFFFFF) (ui_files u)\<rparr>)"
    unfolding l using t h u assms rgb_hex_digits[of "theme_color tmp key fs"]
    by (simp add: apply_theme_state_line_def starts_with_def Let_def)
  then show ?thesis using n by (auto simp: ui_line_def)
qed

text \<open>What the interface shows of the controller's state.\<close>

definition shows_control :: "control_state \<Rightarrow> ui \<Rightarrow> bool" where
  "shows_control c u \<longleftrightarrow> ui_fps u = fps_on c \<and> ui_coordinates u = coordinates_on c \<and> ui_compact u = compact_on c
     \<and> ui_top_bar u = top_bar_on c \<and> ui_layout u = layout c \<and> ui_telemetry_status u = telemetry_connection c"

lemma ui_lines_append: "ui_lines env (xs @ ys) u = Option.bind (ui_lines env xs u) (ui_lines env ys)"
  by (induction xs arbitrary: u) (auto split: option.splits)

lemma refresh_keeps: "shows_control c (refresh_panel p t u) = shows_control c u" "ui_theme (refresh_panel p t u) = ui_theme u"
  by (simp_all add: refresh_panel_def request_panel_rebuild_def shows_control_def)

lemma control_told:
  assumes "layout c \<in> set layouts"
  shows "\<exists>v. ui_lines env (control_lines c) u = Some v \<and> shows_control c v \<and> length (ui_theme v) = length (ui_theme u)"
proof -
  let ?s = "\<lambda>b x. if b then x else (x :: ui)"
  show ?thesis
    using assms
    by (simp add: control_lines_def state_lines layout_line connection_line refresh_keeps del: append_Cons)
      (simp add: shows_control_def)
qed

lemma theme_told:
  assumes "length (ui_theme u) = length theme_keys"
  shows "\<exists>v. ui_lines env (map (theme_line tmp fs) theme_keys) u = Some v \<and> shows_control c v = shows_control c u
    \<and> ui_theme v = map (\<lambda>k. theme_color tmp k fs AND 0xFFFFFF) theme_keys"
proof -
  let ?col = "\<lambda>k. theme_color tmp k fs AND 0xFFFFFF"
  have told: "\<exists>v. ui_lines env (map (theme_line tmp fs) ks) u = Some v \<and> shows_control c v = shows_control c u
      \<and> ui_theme v = foldl (\<lambda>t k. update_theme k (?col k) t) (ui_theme u) ks" if "set ks \<subseteq> set theme_keys" for ks u
    using that
  proof (induction ks arbitrary: u)
    case (Cons k ks)
    then obtain fs' where l: "ui_line env (theme_line tmp fs k) u
        = Some (u\<lparr>ui_theme := update_theme k (?col k) (ui_theme u), ui_files := fs'\<rparr>)"
      using theme_line_read[of k] by force
    have "shows_control c (u\<lparr>ui_theme := t, ui_files := fs'\<rparr>) = shows_control c u" for t by (simp add: shows_control_def)
    with l Cons.IH[of "u\<lparr>ui_theme := update_theme k (?col k) (ui_theme u), ui_files := fs'\<rparr>"] Cons.prems show ?case by simp
  qed simp
  obtain w x y z where t: "ui_theme u = [w, x, y, z]"
    using assms by (auto simp: theme_keys_def length_Suc_conv)
  have "foldl (\<lambda>t k. update_theme k (f k) t) [w, x, y, z] theme_keys = map f theme_keys" for f
    by (simp add: theme_keys_def update_theme_def Let_def)
  with told[of theme_keys u] t show ?thesis by simp
qed

lemma network_told:
  "\<exists>v. ui_lines env (''state net idle'' # map peer_line ps) u = Some v \<and> shows_control c v = shows_control c u \<and> ui_theme v = ui_theme u"
proof -
  have i: "\<exists>v. ui_line env ''state net idle'' u = Some v \<and> shows_control c v = shows_control c u \<and> ui_theme v = ui_theme u" for u
    by (simp add: ui_line_def apply_setting_state_def apply_theme_state_line_def apply_network_state_line_def starts_with_def
        refresh_keeps Let_def) (simp add: shows_control_def)
  have p: "\<exists>v. ui_line env (peer_line q) u = Some v \<and> shows_control c v = shows_control c u \<and> ui_theme v = ui_theme u" for q u
    by (simp add: peer_line_def ui_line_def apply_setting_state_def apply_theme_state_line_def apply_network_state_line_def
        starts_with_def refresh_keeps add_peer_def split_def Let_def) (simp add: shows_control_def)
  have "\<exists>v. ui_lines env (map peer_line ps) u = Some v \<and> shows_control c v = shows_control c u \<and> ui_theme v = ui_theme u" for u
  proof (induction ps arbitrary: u)
    case (Cons q ps)
    from p[of q u] obtain v where v: "ui_line env (peer_line q) u = Some v" "shows_control c v = shows_control c u" "ui_theme v = ui_theme u" by blast
    with Cons.IH[of v] show ?case by auto
  qed simp
  with i[of u] show ?thesis by fastforce
qed

text \<open>C12: after its hello a user interface shows what the controller has. The controller answers the hello of a
  connected worker with lines that the interface reads without an exception, and then its switches, its
  layout, its telemetry connection and its four colors are those of the controller, whatever they were.\<close>

theorem hello_syncs_ui:
  assumes "connected client d w" "layout (control w) \<in> set layouts" "length (ui_theme u) = length theme_keys"
  shows "\<exists>w' ls v. handle_event on_ui env (client, ''hello glide-ui'') w = Some w' \<and>
    sent (ipc w') = sent (ipc w) @ lines_sent d ls \<and> ui_lines uenv ls u = Some v \<and> shows_control (control w') v \<and>
    ui_theme v = map (\<lambda>k. theme_color (re_tmp env) k (store w') AND 0xFFFFFF) theme_keys"
proof -
  let ?t = "map (theme_line (re_tmp env) (store w)) theme_keys" and ?n = "''state net idle'' # map peer_line (peers (discovery w))"
  have "starts_with ''hello '' ''hello glide-ui''" by (simp add: starts_with_def)
  from hello_gets_state[OF this assms(1)] obtain w' where w':
    "handle_event on_ui env (client, ''hello glide-ui'') w = Some w'" "control w' = control w" "store w' = store w"
    "sent (ipc w') = sent (ipc w) @ lines_sent d (control_lines (control w) @ ?t @ ?n)" by blast
  obtain v1 where 1: "ui_lines uenv (control_lines (control w)) u = Some v1" "shows_control (control w) v1" "length (ui_theme v1) = length theme_keys"
    using control_told[OF assms(2), of uenv u] assms(3) by auto
  obtain v2 where 2: "ui_lines uenv ?t v1 = Some v2" "shows_control (control w) v2"
    "ui_theme v2 = map (\<lambda>k. theme_color (re_tmp env) k (store w) AND 0xFFFFFF) theme_keys"
    using theme_told[OF 1(3), of uenv "re_tmp env" "store w" "control w"] 1(2) by blast
  obtain v3 where 3: "ui_lines uenv ?n v2 = Some v3" "shows_control (control w) v3" "ui_theme v3 = ui_theme v2"
    using network_told[of uenv "peers (discovery w)" v2 "control w"] 2(2) by blast
  have "ui_lines uenv (control_lines (control w) @ ?t @ ?n) u = Some v3"
    by (simp only: ui_lines_append 1(1) 2(1) 3(1) bind.bind_lunit)
  with w' 3 2 show ?thesis by metis
qed

theorem hello_syncs_ui_witness:
  "\<exists>w' v. handle_event (\<lambda>_ c. c) (one_line []) (1, ''hello glide-ui'') one_client = Some w' \<and> shows_control (control w') v"
proof -
  have "connected 1 7 one_client" by (simp add: connected_def one_client_def)
  moreover have "layout (control one_client) \<in> set layouts"
    using layout_read
    by (simp add: one_client_def demo_world_def start_stack_def plain_launch_def listen_on_def Let_def split_def
        server_close_def new_server_def initial_control_def)
  moreover have "length (ui_theme demo_ui) = length theme_keys" using ui_start_ok(2)[OF demo_started(1)] by (simp add: pointers_ok_def)
  ultimately show ?thesis using hello_syncs_ui[of 1 7 one_client demo_ui "\<lambda>_ c. c" "one_line []" demo_env] by blast
qed

section \<open>Exceptions\<close>

definition env_ok :: "ui_env \<Rightarrow> bool" where
  "env_ok env \<longleftrightarrow> env_int (ue_zoom env) 15 \<noteq> None \<and> env_int (ue_grid env) 5 \<noteq> None"

lemma rebuild_some: "env_ok env \<Longrightarrow> rebuild_ui env u \<noteq> None" "env_ok env \<Longrightarrow> set_active_panel env p u \<noteq> None"
proof -
  show r: "env_ok env \<Longrightarrow> rebuild_ui env u \<noteq> None" for u
    by (auto simp: rebuild_ui_def build_overlay_def build_minimap_card_def env_ok_def Let_def split_def
        split: overlay_mode.splits option.splits)
  show "env_ok env \<Longrightarrow> set_active_panel env p u \<noteq> None"
    using r by (simp add: set_active_panel_def Let_def)
qed

lemma entered_some: "env_ok env \<Longrightarrow> enter_row env u \<noteq> None"
  using rebuild_some(1)[of env] by (cases "ui_panel u") (simp_all add: enter_row_def Let_def)

lemma key_some: "env_ok env \<Longrightarrow> apply_terminal_key env line u \<noteq> None"
  using rebuild_some[of env] entered_some[of env]
  by (simp add: apply_terminal_key_def show_menu_def hide_overlay_def cycle_overlay_from_menu_key_def apply_key_name_def
      cycle_overlay_from_map_key_def menu_key_def Let_def)

text \<open>C15: the one line from the controller's socket that ends the user interface is a theme line whose color
  of six characters does not start with a hexadecimal number: \<open>std::stoul\<close> throws and nothing catches it. Every
  other line is taken, as long as the two environment variables of the map are numbers or not set.\<close>

theorem only_bad_color_ends_ui:
  assumes "env_ok env"
  shows "ui_line env line u = None \<longleftrightarrow>
    (\<exists>key val. line = ''state theme '' @ key @ '' '' @ val \<and> CHR '' '' \<notin> set key \<and> length val = 6 \<and> stoul 16 val = None)"
proof
  assume none: "ui_line env line u = None"
  then have "apply_setting_state env line u = None" by (auto simp: ui_line_def split: option.splits)
  note n = none[unfolded ui_line_def this option.case]
  have "apply_theme_state_line env line u = None"
  proof (rule ccontr)
    assume "apply_theme_state_line env line u \<noteq> None"
    then obtain b v where "apply_theme_state_line env line u = Some (b, v)" by auto
    then show False using n key_some[OF assms, of line] by (simp split: bool.splits prod.splits) (metis option.distinct(1))
  qed
  then have t: "starts_with ''state theme '' line" "CHR '' '' \<in> set (drop 12 line)"
    "length (drop (length (takeWhile (\<lambda>c. c \<noteq> CHR '' '') (drop 12 line)) + 1) (drop 12 line)) = 6"
    "stoul 16 (drop (length (takeWhile (\<lambda>c. c \<noteq> CHR '' '') (drop 12 line)) + 1) (drop 12 line)) = None"
    by (auto simp: apply_theme_state_line_def Let_def split: if_splits option.splits)
  define r key val where "r = drop 12 line" and "key = takeWhile (\<lambda>c. c \<noteq> CHR '' '') r" and "val = drop (length key + 1) r"
  have "r = key @ dropWhile (\<lambda>c. c \<noteq> CHR '' '') r" by (simp add: key_def)
  moreover have "dropWhile (\<lambda>c. c \<noteq> CHR '' '') r \<noteq> []" using t(2) by (auto simp: r_def dropWhile_eq_Nil_conv)
  moreover have "hd (dropWhile (\<lambda>c. c \<noteq> CHR '' '') r) = CHR '' ''" using hd_dropWhile[OF calculation(2)] by simp
  ultimately have "r = key @ CHR '' '' # tl (dropWhile (\<lambda>c. c \<noteq> CHR '' '') r)" by (metis list.collapse)
  then have r: "r = key @ '' '' @ val" by (metis (no_types, lifting) One_nat_def add.right_neutral add_Suc_right append_Cons append_Nil append_eq_conv_conj length_Cons list.size(3) drop_Suc_Cons drop_append val_def diff_add_inverse drop0 drop_all le_add1)
  moreover have "line = ''state theme '' @ r" using starts_with_split[OF t(1)] by (simp add: r_def eval_nat_numeral)
  moreover have "CHR '' '' \<notin> set key" by (auto simp: key_def dest: set_takeWhileD)
  moreover have "length val = 6" "stoul 16 val = None" using t(3,4) by (simp_all only: val_def key_def r_def)
  ultimately show "\<exists>key val. line = ''state theme '' @ key @ '' '' @ val \<and> CHR '' '' \<notin> set key \<and> length val = 6 \<and> stoul 16 val = None"
    by blast
next
  assume "\<exists>key val. line = ''state theme '' @ key @ '' '' @ val \<and> CHR '' '' \<notin> set key \<and> length val = 6 \<and> stoul 16 val = None"
  then obtain key val where l: "line = ''state theme '' @ key @ '' '' @ val" "CHR '' '' \<notin> set key" "length val = 6" "stoul 16 val = None" by auto
  have "takeWhile (\<lambda>c. c \<noteq> CHR '' '') (key @ CHR '' '' # val) = key" using l(2) by (simp add: takeWhile_append)
  then have "apply_theme_state_line env line u = None" using l by (simp add: apply_theme_state_line_def starts_with_def Let_def)
  moreover have "apply_setting_state env line u = None" unfolding l(1) by (simp add: apply_setting_state_def Let_def)
  ultimately show "ui_line env line u = None" by (simp add: ui_line_def)
qed

theorem only_bad_color_ends_ui_witness: "ui_line demo_env ''state theme primary yellow'' demo_ui = None"
proof -
  have "env_ok demo_env" by (simp add: env_ok_def demo_env_def env_int_def)
  moreover have "stoul 16 ''yellow'' = None" by code_simp
  moreover have "''state theme primary yellow'' = ''state theme '' @ ''primary'' @ '' '' @ ''yellow''" by simp
  moreover have "CHR '' '' \<notin> set ''primary''" "length ''yellow'' = 6" by simp_all
  ultimately show ?thesis using only_bad_color_ends_ui[of demo_env "''state theme primary yellow''" demo_ui] by blast
qed

section \<open>Reconnecting\<close>

text \<open>The part of a round that keeps the connection: a time, what the socket does and what is received.\<close>

definition connection_round :: "int \<times> (int \<times> bool) \<times> recv_answer list \<Rightarrow> ui \<Rightarrow> ui" where
  "connection_round r u =
     (let (now, sock, received) = r; (ok, v) = connect_ipc_if_needed now sock u in
      if ok then v\<lparr>ui_ipc := snd (client_poll_lines received (ui_ipc v))\<rparr> else v)"

lemma next_attempt:
  assumes "ui_next_ipc u \<le> t + ms 500" "now \<le> t"
  shows "ui_next_ipc (connection_round (now, sock, received) u) \<le> t + ms 500"
proof -
  have s: "ui_next_ipc (ui_send_all ls w) = ui_next_ipc w" for ls w
    unfolding ui_send_all_def by (induction ls arbitrary: w) (simp_all add: ui_send_eq)
  show ?thesis
    using assms s by (auto simp: connection_round_def connect_ipc_if_needed_def send_initial_ipc_requests_def Let_def split: prod.split bool.split)
qed

text \<open>The interface finds the controller again. Whatever happened to the connection in rounds up to the time
  \<open>t\<close>, in the first round at least 500 ms later in which the controller's socket accepts, the interface is
  connected, and the requests of a new worker are what it sent first.\<close>

theorem controller_found_again:
  assumes "\<forall>r \<in> set rs. fst r \<le> t" "u = fold connection_round rs (new_ui buffer fs)" "t \<ge> 0"
    "\<not> client_connected (ui_ipc u)" "t + ms 500 \<le> now" "0 \<le> sock"
  shows "\<exists>v. connect_ipc_if_needed now (sock, True) u = (True, v) \<and> client_connected (ui_ipc v) \<and>
    ui_sent v = ui_sent u @ map line_payload (initial_requests ''lvgl-buffer'')"
proof -
  have n: "ui_next_ipc (fold connection_round xs w) \<le> t + ms 500" if "\<forall>r \<in> set xs. fst r \<le> t" "ui_next_ipc w \<le> t + ms 500" for xs w
    using that
  proof (induction xs arbitrary: w)
    case (Cons r xs)
    obtain a b c where r: "r = (a, b, c)" by (cases r) auto
    have "ui_next_ipc (connection_round r w) \<le> t + ms 500" using next_attempt[OF Cons.prems(2), of a b c] Cons.prems(1) r by simp
    with Cons.IH Cons.prems(1) show ?case by simp
  qed simp
  have "ui_next_ipc u \<le> now"
    using n[OF assms(1), of "new_ui buffer fs"] assms(2,3,5) by (simp add: new_ui_def ms_def)
  moreover have s: "ui_sent (ui_send_all ls w) = ui_sent w @ map line_payload ls \<and> ui_ipc (ui_send_all ls w) = ui_ipc w"
    if "client_connected (ui_ipc w)" for ls w
    using that unfolding ui_send_all_def by (induction ls arbitrary: w) (simp_all add: ui_send_eq sent_after_def)
  moreover have "client_connect_to sock True (ui_ipc u) = (True, (client_close (ui_ipc u))\<lparr>cl_fd := sock\<rparr>)"
    using assms(6) by (simp add: client_connect_to_def Let_def)
  ultimately show ?thesis
    using assms(4,6) s[of "u\<lparr>ui_next_ipc := now + ms 500, ui_ipc := (client_close (ui_ipc u))\<lparr>cl_fd := sock\<rparr>\<rparr>" "initial_requests ''lvgl-buffer''"]
    by (simp add: connect_ipc_if_needed_def send_initial_ipc_requests_def client_connected_def)
qed

theorem controller_found_again_witness:
  "\<exists>v. connect_ipc_if_needed (ms 700) (7, True) (connection_round (ms 200, (- 1, False), []) (new_ui True (\<lambda>_. None))) = (True, v)
     \<and> client_connected (ui_ipc v)"
proof -
  let ?u = "connection_round (ms 200, (- 1, False), []) (new_ui True (\<lambda>_. None))"
  have "\<not> client_connected (ui_ipc ?u)"
    by (simp add: connection_round_def connect_ipc_if_needed_def new_ui_def ms_def client_connected_def new_client_def
        client_connect_to_def client_close_def Let_def)
  with controller_found_again[of "[(ms 200, (- 1, False), [])]" "ms 200" ?u True "\<lambda>_. None" "ms 700" 7] show ?thesis
    by (auto simp: ms_def)
qed

end
