(* ===== verification/Worker_Options.thy ===== *)
theory Worker_Options
  imports Controller_Rounds Ui_Device
begin

text \<open>
  The command lines of the workers: \<open>parse_options\<close> of \<open>src/glide_flow/main.cpp\<close>,
  \<open>src/glide_view/main.cpp\<close> and \<open>src/glide_ui/main.cpp\<close>, and that each worker reads the command line
  that the controller builds for it. \<open>None\<close> is an exception that ends the process.
\<close>

section \<open>The loop over the arguments\<close>

text \<open>
  All three parsers walk over the arguments with one chain of comparisons: \<open>val\<close> is the part of the
  chain with a value, which needs an argument behind it, \<open>flg\<close> the rest.
\<close>

fun parse_with :: "(string \<Rightarrow> 'o \<Rightarrow> 'o) \<Rightarrow> (string \<Rightarrow> string \<Rightarrow> 'o \<Rightarrow> 'o option option) \<Rightarrow> string list \<Rightarrow> 'o \<Rightarrow> 'o option" where
  "parse_with flg val [] o' = Some o'"
| "parse_with flg val (a # rest) o' =
     (case rest of
        v # tail \<Rightarrow>
          (case val a v o' of
             None \<Rightarrow> parse_with flg val rest (flg a o')
           | Some None \<Rightarrow> None
           | Some (Some o1) \<Rightarrow> parse_with flg val tail o1)
      | [] \<Rightarrow> Some (flg a o'))"

lemma parse_flag: "(\<And>v. val a v o' = None) \<Longrightarrow> parse_with flg val (a # rest) o' = parse_with flg val rest (flg a o')"
  by (cases rest) auto

lemma parse_value: "val a v o' = Some (Some o1) \<Longrightarrow> parse_with flg val (a # v # rest) o' = parse_with flg val rest o1"
  by simp

section \<open>glide-flow\<close>

record flow_options =
  fo_surface :: "u32 \<times> u32"
  fo_x :: int
  fo_y :: int
  fo_render_gles :: bool
  fo_preview :: bool
  fo_kms :: bool
  fo_stay_alive :: bool
  fo_positioned :: bool
  fo_borderless :: bool
  fo_udp_video :: bool
  fo_udp_port :: u16
  fo_secondary_udp_port :: u16
  fo_udp_codec :: string
  fo_secondary_udp_codec :: string
  fo_ui_buffer_path :: string
  fo_display_refresh_hz :: u32
  fo_ipc_socket :: string

definition default_flow_options :: flow_options where
  "default_flow_options =
    \<lparr>fo_surface = (1920, 1080), fo_x = 0, fo_y = 0, fo_render_gles = False, fo_preview = False, fo_kms = False,
     fo_stay_alive = False, fo_positioned = False, fo_borderless = False, fo_udp_video = False, fo_udp_port = 5600,
     fo_secondary_udp_port = 5601, fo_udp_codec = ''h264'', fo_secondary_udp_codec = [], fo_ui_buffer_path = [],
     fo_display_refresh_hz = 0, fo_ipc_socket = ''/tmp/openhd-glide.sock''\<rparr>"

text \<open>The size has a pass of its own, which knows no other option and so also looks at their values.\<close>

fun parse_surface_size :: "string list \<Rightarrow> u32 \<times> u32 \<Rightarrow> (u32 \<times> u32) option" where
  "parse_surface_size (a # v # rest) s =
     (if a = ''--width''
      then (case stoul 10 v of None \<Rightarrow> None | Some n \<Rightarrow> parse_surface_size rest (ucast n, snd s))
      else if a = ''--height''
      then (case stoul 10 v of None \<Rightarrow> None | Some n \<Rightarrow> parse_surface_size rest (fst s, ucast n))
      else parse_surface_size (v # rest) s)"
| "parse_surface_size [a] s = Some s"
| "parse_surface_size [] s = Some s"

definition flow_flag :: "string \<Rightarrow> flow_options \<Rightarrow> flow_options" where
  "flow_flag a o' =
     (if a = ''--render-gles'' then o'\<lparr>fo_render_gles := True\<rparr>
      else if a = ''--preview'' then o'\<lparr>fo_preview := True, fo_render_gles := True\<rparr>
      else if a = ''--kms'' \<or> a = ''--kmd'' then o'\<lparr>fo_kms := True\<rparr>
      else if a = ''--stay-alive'' then o'\<lparr>fo_stay_alive := True\<rparr>
      else if a = ''--borderless'' then o'\<lparr>fo_borderless := True\<rparr>
      else if a = ''--udp-video'' then o'\<lparr>fo_udp_video := True\<rparr>
      else o')"

definition flow_value :: "string \<Rightarrow> string \<Rightarrow> flow_options \<Rightarrow> flow_options option option" where
  "flow_value a v o' =
     (if a = ''--x'' then Some (map_option (\<lambda>n. o'\<lparr>fo_x := n, fo_positioned := True\<rparr>) (stoi v))
      else if a = ''--y'' then Some (map_option (\<lambda>n. o'\<lparr>fo_y := n, fo_positioned := True\<rparr>) (stoi v))
      else if a = ''--udp-port''
      then Some (map_option (\<lambda>n. o'\<lparr>fo_udp_port := ucast n, fo_udp_video := True\<rparr>) (stoul 10 v))
      else if a = ''--secondary-udp-port''
      then Some (map_option (\<lambda>n. o'\<lparr>fo_secondary_udp_port := ucast n, fo_udp_video := True\<rparr>) (stoul 10 v))
      else if a = ''--udp-codec'' then Some (Some (o'\<lparr>fo_udp_codec := v, fo_udp_video := True\<rparr>))
      else if a = ''--secondary-udp-codec'' then Some (Some (o'\<lparr>fo_secondary_udp_codec := v\<rparr>))
      else if a = ''--ui-buffer-path'' then Some (Some (o'\<lparr>fo_ui_buffer_path := v\<rparr>))
      else if a = ''--display-refresh-hz''
      then Some (map_option (\<lambda>n. o'\<lparr>fo_display_refresh_hz := ucast n\<rparr>) (stoul 10 v))
      else if a = ''--ipc-socket'' then Some (Some (o'\<lparr>fo_ipc_socket := v\<rparr>))
      else None)"

text \<open>The arguments after the program name.\<close>

definition parse_flow_options :: "string list \<Rightarrow> flow_options option" where
  "parse_flow_options args =
     (case parse_surface_size args (1920, 1080) of
        None \<Rightarrow> None
      | Some s \<Rightarrow> parse_with flow_flag flow_value args (default_flow_options\<lparr>fo_surface := s\<rparr>))"

section \<open>glide-view\<close>

record view_options =
  vo_ipc_socket :: string
  vo_udp_port :: u16
  vo_plane_id :: "int option"
  vo_connector_id :: "int option"
  vo_stay_alive :: bool
  vo_udp_video :: bool
  vo_display :: bool
  vo_udp_codec :: string

definition default_view_options :: view_options where
  "default_view_options =
    \<lparr>vo_ipc_socket = ''/tmp/openhd-glide.sock'', vo_udp_port = 5600, vo_plane_id = None, vo_connector_id = None,
     vo_stay_alive = False, vo_udp_video = False, vo_display = False, vo_udp_codec = ''h264''\<rparr>"

definition view_flag :: "string \<Rightarrow> view_options \<Rightarrow> view_options" where
  "view_flag a o' =
     (if a = ''--stay-alive'' then o'\<lparr>vo_stay_alive := True\<rparr>
      else if a = ''--udp-video'' then o'\<lparr>vo_udp_video := True\<rparr>
      else if a = ''--display'' then o'\<lparr>vo_display := True, vo_udp_video := True\<rparr>
      else o')"

definition view_value :: "string \<Rightarrow> string \<Rightarrow> view_options \<Rightarrow> view_options option option" where
  "view_value a v o' =
     (if a = ''--ipc-socket'' then Some (Some (o'\<lparr>vo_ipc_socket := v\<rparr>))
      else if a = ''--udp-codec'' then Some (Some (o'\<lparr>vo_udp_codec := map to_lower v\<rparr>))
      else if a = ''--udp-port''
      then Some (map_option (\<lambda>n. o'\<lparr>vo_udp_port := ucast n, vo_udp_video := True\<rparr>) (stoul 10 v))
      else if a = ''--plane-id''
      then Some (map_option (\<lambda>n. o'\<lparr>vo_plane_id := Some n, vo_udp_video := True\<rparr>) (stoi v))
      else if a = ''--connector-id''
      then Some (map_option (\<lambda>n. o'\<lparr>vo_connector_id := Some n, vo_udp_video := True\<rparr>) (stoi v))
      else None)"

definition parse_view_options :: "string list \<Rightarrow> view_options option" where
  "parse_view_options args = parse_with view_flag view_value args default_view_options"

section \<open>glide-ui\<close>

record ui_options =
  uo_width :: u32
  uo_height :: u32
  uo_x :: int
  uo_y :: int
  uo_opacity :: fp
  uo_preview :: bool
  uo_positioned :: bool
  uo_borderless :: bool
  uo_always_on_top :: bool
  uo_transparent_clear :: bool
  uo_headless :: bool
  uo_buffer :: bool
  uo_buffer_path :: string
  uo_ipc_socket :: string

definition default_ui_options :: ui_options where
  "default_ui_options =
    \<lparr>uo_width = 760, uo_height = 720, uo_x = 0, uo_y = 0, uo_opacity = fp_of_int f32 1, uo_preview = False,
     uo_positioned = False, uo_borderless = False, uo_always_on_top = False, uo_transparent_clear = False,
     uo_headless = False, uo_buffer = False, uo_buffer_path = ''/tmp/openhd-glide-ui.argb'',
     uo_ipc_socket = ''/tmp/openhd-glide.sock''\<rparr>"

definition ui_flag :: "string \<Rightarrow> ui_options \<Rightarrow> ui_options" where
  "ui_flag a o' =
     (if a = ''--preview'' then o'\<lparr>uo_preview := True\<rparr>
      else if a = ''--headless'' \<or> a = ''--device'' then o'\<lparr>uo_headless := True\<rparr>
      else if a = ''--borderless'' then o'\<lparr>uo_borderless := True\<rparr>
      else if a = ''--always-on-top'' then o'\<lparr>uo_always_on_top := True\<rparr>
      else if a = ''--transparent-clear'' then o'\<lparr>uo_transparent_clear := True\<rparr>
      else if a = ''--buffer'' then o'\<lparr>uo_buffer := True\<rparr>
      else o')"

definition ui_value :: "string \<Rightarrow> string \<Rightarrow> ui_options \<Rightarrow> ui_options option option" where
  "ui_value a v o' =
     (if a = ''--width'' then Some (map_option (\<lambda>n. o'\<lparr>uo_width := ucast n\<rparr>) (stoul 10 v))
      else if a = ''--height'' then Some (map_option (\<lambda>n. o'\<lparr>uo_height := ucast n\<rparr>) (stoul 10 v))
      else if a = ''--x'' then Some (map_option (\<lambda>n. o'\<lparr>uo_x := n, uo_positioned := True\<rparr>) (stoi v))
      else if a = ''--y'' then Some (map_option (\<lambda>n. o'\<lparr>uo_y := n, uo_positioned := True\<rparr>) (stoi v))
      else if a = ''--opacity''
      then Some (map_option (\<lambda>x. o'\<lparr>uo_opacity := fp_clamp (fp_round f32 False 5 100) (fp_of_int f32 1) x\<rparr>) (stod f32 v))
      else if a = ''--buffer-path'' then Some (Some (o'\<lparr>uo_buffer_path := v\<rparr>))
      else if a = ''--ipc-socket'' then Some (Some (o'\<lparr>uo_ipc_socket := v\<rparr>))
      else None)"

definition parse_ui_options :: "string list \<Rightarrow> ui_options option" where
  "parse_ui_options args = parse_with ui_flag ui_value args default_ui_options"

text \<open>The build without LVGL only looks for the socket.\<close>

fun parse_headless_options :: "string list \<Rightarrow> string \<Rightarrow> string" where
  "parse_headless_options (a # v # rest) s =
     (if a = ''--ipc-socket'' then parse_headless_options rest v else parse_headless_options (v # rest) s)"
| "parse_headless_options [a] s = s"
| "parse_headless_options [] s = s"

section \<open>The controller's command lines are understood\<close>

lemma to_lower_idem [simp]: "to_lower (to_lower c) = to_lower c"
  by (cases c) (auto simp: to_lower_def Let_def)

lemma stoi_range: "stoi s = Some n \<Longrightarrow> - 2147483648 \<le> n \<and> n \<le> 2147483647"
  by (auto simp: stoi_def Let_def split: if_splits prod.splits)

lemma ucast_stoul [simp]:
  "stoul 10 (num_text (w :: u32)) = Some (ucast w)" "stoul 10 (num_text (p :: u16)) = Some (ucast p)"
  using stoul_nat_str[of "unat w"] stoul_nat_str[of "unat p"] word_u32_less[of w] word_u16_less[of p]
  by (simp_all add: num_text_def)

lemma narrow_back [simp]: "ucast (ucast (w :: u32) :: u64) = w" "ucast (ucast (p :: u16) :: u64) = p"
  by (transfer; simp)+

lemma no_option [simp]:
  "num_text w \<noteq> CHR ''-'' # s" "int_str i \<noteq> CHR ''-'' # CHR ''-'' # s"
proof -
  have d: "nat_str n \<noteq> CHR ''-'' # r" for n r
    using nat_str_digits[of n] by (auto simp: is_digit_def)
  then show "num_text w \<noteq> CHR ''-'' # s" by (simp add: num_text_def)
  show "int_str i \<noteq> CHR ''-'' # CHR ''-'' # s" using d by (simp add: int_str_def)
qed

definition lowered :: "options \<Rightarrow> bool" where
  "lowered o' \<longleftrightarrow> map to_lower (view_udp_codec o') = view_udp_codec o' \<and>
     - 2147483648 \<le> preview_x o' \<and> preview_x o' \<le> 2147483647 \<and> - 2147483648 \<le> preview_y o' \<and> preview_y o' \<le> 2147483647"

interpretation texts: option_invariant lowered
proof
  fix o' a v v2 assume ok: "lowered o'"
  show "lowered (flag_option a o')"
    unfolding flag_option_def by (intro if_keeps[where P = lowered]) (use ok in \<open>simp_all add: lowered_def\<close>)
  show "keeps lowered (value_option a v o')"
    unfolding value_option_def Let_def
    by (intro keepsI) (use ok in \<open>simp_all add: lowered_def stoi_range\<close>)
  show "lowered (o'\<lparr>ethernet_p2p := True, ethernet_p2p_role := v, ethernet_p2p_interface := v2\<rparr>)"
    using ok by (simp add: lowered_def)
qed

lemmas option_values = flow_flag_def flow_value_def view_flag_def view_value_def ui_flag_def ui_value_def

lemma parse_surface_skip:
  "a \<notin> {''--width'', ''--height''} \<Longrightarrow> rest \<noteq> [] \<Longrightarrow> parse_surface_size (a # rest) s = parse_surface_size rest s"
  by (cases rest) auto

text \<open>The hypothesis on the socket is needed: the pass for the size would take such a name for its option.\<close>

definition plain_socket :: "options \<Rightarrow> bool" where
  "plain_socket o' \<longleftrightarrow> ipc_socket o' \<notin> {''--width'', ''--height''}"

lemma kms_flow_reads:
  assumes "plain_socket o'"
  shows "parse_flow_options (tl (kms_flow_args exe o')) =
      Some (default_flow_options\<lparr>fo_surface := (preview_width o', flow_height o'), fo_kms := True, fo_stay_alive := True,
        fo_ipc_socket := ipc_socket o', fo_display_refresh_hz := display_refresh_hz o'\<rparr>)"
proof -
  define hz where "hz = (if display_refresh_hz o' \<noteq> 0 then [''--display-refresh-hz'', num_text (display_refresh_hz o')] else [])"
  have "parse_surface_size (''--ipc-socket'' # ipc_socket o' # hz) (preview_width o', flow_height o') = Some (preview_width o', flow_height o')"
    using assms by (simp add: hz_def plain_socket_def)
  moreover have "parse_with flow_flag flow_value hz (default_flow_options\<lparr>fo_surface := (preview_width o', flow_height o'),
      fo_kms := True, fo_stay_alive := True, fo_ipc_socket := ipc_socket o'\<rparr>)
    = Some (default_flow_options\<lparr>fo_surface := (preview_width o', flow_height o'), fo_kms := True, fo_stay_alive := True,
        fo_ipc_socket := ipc_socket o', fo_display_refresh_hz := display_refresh_hz o'\<rparr>)"
    by (simp add: hz_def flow_value_def default_flow_options_def)
  ultimately show ?thesis
    unfolding kms_flow_args_def hz_def[symmetric] parse_flow_options_def
    by (simp add: flow_flag_def flow_value_def)
qed

lemma view_reads:
  assumes "map to_lower (view_udp_codec o') = view_udp_codec o'"
  shows "parse_view_options (tl (view_args exe o')) =
      Some (default_view_options\<lparr>vo_stay_alive := True, vo_ipc_socket := ipc_socket o', vo_udp_video := kms_stack o',
        vo_udp_port := (if kms_stack o' then view_udp_port o' else 5600),
        vo_udp_codec := (if kms_stack o' then view_udp_codec o' else ''h264'')\<rparr>)"
  using assms by (cases "kms_stack o'")
    (simp_all add: view_args_def parse_view_options_def view_flag_def view_value_def default_view_options_def)

lemma headless_ui_reads:
  "parse_ui_options (tl (headless_ui_args exe o')) =
     Some (default_ui_options\<lparr>uo_headless := True, uo_ipc_socket := ipc_socket o'\<rparr>)"
  by (simp add: headless_ui_args_def parse_ui_options_def ui_flag_def ui_value_def)

lemma preview_flow_reads:
  assumes "lowered o'" "plain_socket o'" "y = (if vertical_stack o' then preview_y o' + sint (ui_height o') else preview_y o')"
    "- 2147483648 \<le> y" "y \<le> 2147483647"
  shows "parse_flow_options (tl (preview_args exe o' False)) =
      Some (default_flow_options\<lparr>fo_surface := (preview_width o', flow_height o'), fo_x := preview_x o', fo_y := y,
        fo_render_gles := True, fo_preview := True, fo_positioned := True, fo_borderless := True, fo_udp_video := True,
        fo_udp_port := view_udp_port o', fo_secondary_udp_port := view_udp_port o' + 1, fo_udp_codec := view_udp_codec o',
        fo_ipc_socket := ipc_socket o'\<rparr>)"
proof -
  have y: "(if False \<or> \<not> vertical_stack o' then preview_y o' else preview_y o' + sint (ui_height o')) = y"
    using assms(3) by simp
  show ?thesis
    using assms(1,2,4,5)
    unfolding preview_args_def y Let_def parse_flow_options_def
    by (simp add: flow_flag_def flow_value_def lowered_def default_flow_options_def plain_socket_def stoi_int_str)
qed

lemma preview_ui_reads:
  assumes "lowered o'" "stod f32 (fp_fixed 6 (ui_opacity o')) = Some x"
  shows "parse_ui_options (tl (preview_args exe o' True)) =
      Some (default_ui_options\<lparr>uo_width := ui_width o', uo_height := ui_height o', uo_x := preview_x o', uo_y := preview_y o',
        uo_opacity := fp_clamp (fp_round f32 False 5 100) (fp_of_int f32 1) x, uo_preview := True, uo_positioned := True,
        uo_borderless := True, uo_always_on_top := True, uo_transparent_clear := True, uo_ipc_socket := ipc_socket o'\<rparr>)"
  using assms unfolding preview_args_def Let_def parse_ui_options_def
  by (simp add: ui_flag_def ui_value_def lowered_def default_ui_options_def stoi_int_str)

text \<open>
  C16: the workers read what the controller means. For the options of any command line of the controller,
  the arguments it gives to glide-view, to glide-flow in both stacks and to the headless glide-ui are read
  without an exception, as the size, the place, the socket, the ports and the codec of the controller, and
  nothing else changes; provided that the socket is not named like the size options and that the place
  below the menu is an int.
\<close>

theorem workers_understand:
  assumes "parse_options args = Some o'" "plain_socket o'"
    "y = (if vertical_stack o' then preview_y o' + sint (ui_height o') else preview_y o')"
    "- 2147483648 \<le> y" "y \<le> 2147483647"
  shows "parse_flow_options (tl (kms_flow_args exe o')) =
      Some (default_flow_options\<lparr>fo_surface := (preview_width o', flow_height o'), fo_kms := True, fo_stay_alive := True,
        fo_ipc_socket := ipc_socket o', fo_display_refresh_hz := display_refresh_hz o'\<rparr>) \<and>
    parse_view_options (tl (view_args exe o')) =
      Some (default_view_options\<lparr>vo_stay_alive := True, vo_ipc_socket := ipc_socket o', vo_udp_video := kms_stack o',
        vo_udp_port := (if kms_stack o' then view_udp_port o' else 5600),
        vo_udp_codec := (if kms_stack o' then view_udp_codec o' else ''h264'')\<rparr>) \<and>
    parse_ui_options (tl (headless_ui_args exe o')) =
      Some (default_ui_options\<lparr>uo_headless := True, uo_ipc_socket := ipc_socket o'\<rparr>) \<and>
    parse_flow_options (tl (preview_args exe o' False)) =
      Some (default_flow_options\<lparr>fo_surface := (preview_width o', flow_height o'), fo_x := preview_x o', fo_y := y,
        fo_render_gles := True, fo_preview := True, fo_positioned := True, fo_borderless := True, fo_udp_video := True,
        fo_udp_port := view_udp_port o', fo_secondary_udp_port := view_udp_port o' + 1, fo_udp_codec := view_udp_codec o',
        fo_ipc_socket := ipc_socket o'\<rparr>)"
proof -
  have "lowered default_options" by (simp add: lowered_def default_options_def) code_simp
  then have "lowered o'"
    using assms(1) texts.parse[of default_options args] by (auto simp: parse_options_def finish_options_def lowered_def)
  then show ?thesis
    using kms_flow_reads[OF assms(2)] view_reads headless_ui_reads preview_flow_reads[OF _ assms(2-5)]
    by (simp add: lowered_def)
qed

theorem workers_understand_witness:
  "parse_options [''--kms-stack'', ''--view-udp-codec'', ''H265''] \<noteq> None \<and>
   (\<exists>o'. parse_view_options (tl (view_args ''glide-view'' o')) =
      Some (default_view_options\<lparr>vo_stay_alive := True, vo_udp_video := True, vo_udp_codec := ''h265''\<rparr>))"
proof -
  define o' where "o' = default_options\<lparr>kms_stack := True, view_udp_codec := ''h265''\<rparr>"
  have l: "to_lower CHR ''H'' = CHR ''h''" "to_lower CHR ''2'' = CHR ''2''" "to_lower CHR ''6'' = CHR ''6''"
    "to_lower CHR ''5'' = CHR ''5''" by code_simp+
  have p: "parse_options [''--kms-stack'', ''--view-udp-codec'', ''H265''] = Some o'"
    by (simp add: parse_options_def value_option_def flag_option_def finish_options_def default_options_def l o'_def Let_def)
  have s: "plain_socket o'" by (simp add: plain_socket_def o'_def default_options_def)
  have "parse_view_options (tl (view_args ''glide-view'' o')) =
      Some (default_view_options\<lparr>vo_stay_alive := True, vo_udp_video := True, vo_udp_codec := ''h265''\<rparr>)"
    using workers_understand[OF p s, of 40 "''glide-view''"] by (simp add: o'_def default_options_def default_view_options_def)
  then show ?thesis using p by blast
qed

end
