(* ===== verification/Flow_Process.thy ===== *)
theory Flow_Process
  imports Worker_Options Ui_Loop
begin

text \<open>
  \<open>src/glide_flow/main.cpp\<close>: the process that draws the on-screen display. Its lines, keys and settings,
  the time the telemetry counts as present, the video streams it switches between and what it draws in a
  frame; the texts of \<open>src/glide_flow/link_overview.cpp\<close>, \<open>speed_widget.cpp\<close>, \<open>altitude_widget.cpp\<close>; and
  \<open>FpsCounter\<close>. Where and how the widgets are drawn is not modelled. \<open>None\<close> is an exception that ends the process.
\<close>

section \<open>The frame counter\<close>

record fps_counter =
  fc_window_start :: int
  fc_frames :: u32
  fc_latest :: fp

definition new_fps_counter :: "int \<Rightarrow> fps_counter" where
  "new_fps_counter now = \<lparr>fc_window_start = now, fc_frames = 0, fc_latest = fp_zero f64\<rparr>"

text \<open>Times are counts of nanoseconds; \<open>n / (t / 10^9)\<close> is computed with two roundings.\<close>

definition fp_div :: "fmt \<Rightarrow> fp \<Rightarrow> fp \<Rightarrow> fp" where
  "fp_div f x y =
     (case (x, y) of
        (FFin s m e, FFin t n d) \<Rightarrow>
          if n = 0 then (if m = 0 then FNan True else FInf (s \<noteq> t))
          else fp_round f (s \<noteq> t) (m * 2 ^ nat (e - min e d)) (n * 2 ^ nat (d - min e d))
      | (FNan s, _) \<Rightarrow> FNan s
      | (_, FNan s) \<Rightarrow> FNan s
      | (FInf s, FInf t) \<Rightarrow> FNan True
      | (FInf s, FFin t _ _) \<Rightarrow> FInf (s \<noteq> t)
      | (FFin s _ _, FInf t) \<Rightarrow> FFin (s \<noteq> t) 0 (emin f))"

definition fps_frame :: "int \<Rightarrow> fps_counter \<Rightarrow> fp option \<times> fps_counter" where
  "fps_frame now c =
     (let n = fc_frames c + 1; elapsed = now - fc_window_start c in
      if elapsed < ms 1000 then (None, c\<lparr>fc_frames := n\<rparr>)
      else let seconds = fp_div_nat f64 (fp_of_int f64 elapsed) 1000000000;
               rate = fp_div f64 (fp_of_int f64 (uint n)) seconds
           in (Some rate, \<lparr>fc_window_start = now, fc_frames = 0, fc_latest = rate\<rparr>))"

section \<open>What the link overview shows\<close>

record link_sample =
  ls_rssi :: int
  ls_txc_temp :: int
  ls_mcs :: int
  ls_downlink_quality :: int
  ls_frequency :: int
  ls_channel_width :: int
  ls_bitrate :: fp
  ls_recording :: bool
  ls_uplink_ok :: bool
  ls_rc_quality :: int
  ls_ground_voltage :: fp
  ls_ground_mah :: int
  ls_air_voltage :: fp
  ls_air_current :: fp
  ls_air_speed :: fp
  ls_height :: fp
  ls_home_distance :: fp
  ls_total_distance :: fp
  ls_wind_speed :: fp
  ls_wind_direction :: fp
  ls_latitude :: fp
  ls_longitude :: fp
  ls_mah_per_km :: fp
  ls_satellites :: int
  ls_show_coordinates :: bool
  ls_flight_time :: int
  ls_armed :: bool
  ls_flight_mode :: "string option"

text \<open>The fields that no message fills keep the default values of the structure.\<close>

definition link_sample_from_mavlink :: "snapshot \<Rightarrow> bool \<Rightarrow> link_sample" where
  "link_sample_from_mavlink s coordinates =
     (let z = fp_zero f32; d = fp_zero f64 in
      \<lparr>ls_rssi = link_rssi_dbm s, ls_txc_temp = link_txc_temp_c s, ls_mcs = mcs_index s,
       ls_downlink_quality = link_quality_percent s, ls_frequency = frequency_mhz s,
       ls_channel_width = channel_width_mhz s, ls_bitrate = link_bitrate_mbit s, ls_recording = False,
       ls_uplink_ok = False, ls_rc_quality = rc_quality_percent s, ls_ground_voltage = z, ls_ground_mah = 0,
       ls_air_voltage = (if battery_valid s then voltage_v s else z), ls_air_current = z,
       ls_air_speed = (if speed_valid s
                       then (if fp_less z (airspeed_mps s) then airspeed_mps s else ground_speed_mps s) else z),
       ls_height = (if altitude_valid s then altitude_m s else z), ls_home_distance = z, ls_total_distance = z,
       ls_wind_speed = z, ls_wind_direction = z,
       ls_latitude = (if position_valid s then latitude_deg s else d),
       ls_longitude = (if position_valid s then longitude_deg s else d), ls_mah_per_km = z,
       ls_satellites = satellites s, ls_show_coordinates = (coordinates \<and> position_valid s), ls_flight_time = 0,
       ls_armed = armed s, ls_flight_mode = (if flight_mode s \<noteq> ''N/A'' then Some (flight_mode s) else None)\<rparr>)"

definition invalid_or_int_text :: "int \<Rightarrow> string \<Rightarrow> string" where
  "invalid_or_int_text v suffix' = (if v \<le> - 127 then ''N/A'' else int_str v @ suffix')"

definition channel_text :: "int \<Rightarrow> int \<Rightarrow> string" where
  "channel_text f w =
     (if 10 < f then int_str f @ '' MHz'' else ''FREQ N/A'') @
     (if w = 40 \<or> w = 20 then '' BW'' @ int_str w else '' BW N/A'')"

text \<open>\<open>std::round\<close> of a float, then the conversion to \<open>int\<close>.\<close>

definition bitrate_mcs_text :: "int \<Rightarrow> fp \<Rightarrow> int \<Rightarrow> string" where
  "bitrate_mcs_text bad rate mcs =
     (if fp_ge (fp_zero f32) rate \<or> mcs < 0 then ''RATE N/A''
      else (if fp_less rate (fp_of_int f32 10) then fp_fixed 1 rate else int_str (fp_lround bad rate))
           @ '' MBit/s ['' @ int_str mcs @ '']'')"

datatype quality = Good_quality | Warn_quality | Bad_quality

definition quality_color :: "int \<Rightarrow> quality" where
  "quality_color v = (if 60 < v then Good_quality else if 20 \<le> v then Warn_quality else Bad_quality)"

text \<open>The eight blocks of a quality bar: the color of the active ones, \<open>None\<close> for the others.\<close>

definition skew_blocks :: "int \<Rightarrow> quality option list" where
  "skew_blocks v = map (\<lambda>i. if (i + 1) * 10 \<le> v then Some (quality_color v) else None) [0, 1, 2, 3, 4, 5, 6, 7]"

definition distance_text :: "int \<Rightarrow> fp \<Rightarrow> string" where
  "distance_text bad m =
     (if fp_ge m (fp_of_int f32 1000) then fp_fixed 1 (fp_div_nat f32 m 1000) @ ''km''
      else int_str (fp_lround bad (fp_max_zero f32 m)) @ ''m'')"

definition kmh :: "int \<Rightarrow> fp \<Rightarrow> int" where
  "kmh bad v = fp_lround bad (fp_mul f32 (fp_max_zero f32 v) (fp_round f32 False 36 10))"

definition kmh_text :: "int \<Rightarrow> fp \<Rightarrow> string" where
  "kmh_text bad v = int_str (kmh bad v) @ ''km/h''"

definition flight_time_text :: "int \<Rightarrow> string" where
  "flight_time_text duration =
     (let t = max 0 duration; s = t mod 60 in
      int_str (t div 60) @ '':'' @ (if s < 10 then ''0'' else []) @ int_str s)"

definition primary_bottom_slots :: "link_sample \<Rightarrow> (string \<times> string) list" where
  "primary_bottom_slots s =
     [(''G'', fp_fixed 1 (ls_ground_voltage s) @ ''V''),
      (''A'', fp_fixed 1 (ls_air_voltage s) @ ''V '' @ fp_fixed 1 (ls_air_current s) @ ''A''),
      (''E'', fp_fixed 1 (ls_mah_per_km s) @ ''mAh/km'')]"

definition secondary_bottom_slots :: "int \<Rightarrow> link_sample \<Rightarrow> (string \<times> string) list" where
  "secondary_bottom_slots bad s =
     [(''W'', kmh_text bad (ls_wind_speed s)), (''H'', distance_text bad (ls_home_distance s)),
      (''D'', distance_text bad (ls_total_distance s))]"

definition bottom_slot_text :: "string \<times> string \<Rightarrow> string option" where
  "bottom_slot_text slot =
     (if snd slot = [] \<or> snd slot = ''N/A'' then None
      else Some (if fst slot = [] then snd slot else fst slot @ snd slot))"

text \<open>The text before and after the decimal point.\<close>

definition coordinate_parts :: "fp \<Rightarrow> string \<times> string" where
  "coordinate_parts v =
     (let t = fp_fixed 5 v in (takeWhile (\<lambda>c. c \<noteq> CHR ''.'') t, drop 1 (dropWhile (\<lambda>c. c \<noteq> CHR ''.'') t)))"

definition gps_texts :: "link_sample \<Rightarrow> string list" where
  "gps_texts s =
     (let (lat, lat_fraction) = coordinate_parts (ls_latitude s); (lon, lon_fraction) = coordinate_parts (ls_longitude s) in
      if ls_show_coordinates s
      then [int_str (ls_satellites s), ''LAT'', ''LON'', lat, lon, ''.'', ''.'', lat_fraction, lon_fraction] else [])"

definition top_texts :: "int \<Rightarrow> link_sample \<Rightarrow> string list" where
  "top_texts bad s =
     [invalid_or_int_text (ls_rssi s) [] @ '' DBM '' @ invalid_or_int_text (ls_txc_temp s) ''C'',
      if ls_uplink_ok s then ''UP'' else ''NO'', channel_text (ls_frequency s) (ls_channel_width s),
      bitrate_mcs_text bad (ls_bitrate s) (ls_mcs s)]"

definition bottom_texts :: "int \<Rightarrow> link_sample \<Rightarrow> string list" where
  "bottom_texts bad s =
     gps_texts s
     @ [case ls_flight_mode s of None \<Rightarrow> ''MANUAL'' | Some m \<Rightarrow> m, flight_time_text (ls_flight_time s)]
     @ List.map_filter bottom_slot_text (primary_bottom_slots s)
     @ List.map_filter bottom_slot_text (secondary_bottom_slots bad s)"

definition speed_text :: "int \<Rightarrow> fp \<Rightarrow> string" where
  "speed_text bad v = int_str (kmh bad v) @ (if kmh bad v < 999 then '' km/h'' else [])"

definition compact_speed_text :: "int \<Rightarrow> fp \<Rightarrow> string" where
  "compact_speed_text bad v = int_str (kmh bad v)"

definition altitude_text :: "int \<Rightarrow> fp \<Rightarrow> string" where
  "altitude_text bad v = int_str (fp_lround bad v) @ (if fp_less v (fp_of_int f32 999) then '' m'' else [])"

definition compact_altitude_text :: "int \<Rightarrow> fp \<Rightarrow> string" where
  "compact_altitude_text bad v = int_str (fp_lround bad v)"

section \<open>State\<close>

record flow =
  fl_options :: flow_options
  fl_ipc :: client
  fl_sent :: "string list"
  fl_mavlink :: snapshot
  fl_coordinates :: bool
  fl_compact :: bool
  fl_top_bar :: bool
  fl_seen :: bool
  fl_last :: int
  fl_layout :: string
  fl_theme :: "u32 list"
  fl_map :: gpu_map
  fl_active :: nat
  fl_video :: "u32 \<times> u32"
  fl_fps :: fps_counter
  fl_files :: files

text \<open>What the system answers in a round: the keys of the preview window, the data on the socket, the time, the video frame.\<close>

record flow_round =
  fr_tmp :: string
  fr_writable :: "string \<Rightarrow> bool"
  fr_open :: bool
  fr_keys :: "string list"
  fr_recv :: "recv_answer list"
  fr_now :: int
  fr_video_ok :: bool
  fr_frame :: "(u32 \<times> u32) option"
  fr_uploaded :: bool
  fr_surface :: "u32 \<times> u32"

definition flow_send :: "string \<Rightarrow> flow \<Rightarrow> flow" where
  "flow_send l f =
     (case snd (client_send_line (\<lambda>_. 0) l (fl_ipc f)) of
        None \<Rightarrow> f | Some p \<Rightarrow> f\<lparr>fl_sent := fl_sent f @ [p]\<rparr>)"

definition load_theme :: "string \<Rightarrow> files \<Rightarrow> u32 list" where
  "load_theme tmp fs = map (\<lambda>k. theme_color tmp k fs) theme_keys"

definition toggle_video_stream :: "flow \<Rightarrow> flow" where
  "toggle_video_stream f =
     (if \<not> fo_udp_video (fl_options f) then f
      else f\<lparr>fl_active := (if fl_active f = 0 then 1 else 0), fl_video := (0, 0)\<rparr>)"

text \<open>\<open>apply_theme_line\<close>: whether the line is one, and the files.\<close>

definition apply_theme_line :: "string \<Rightarrow> (string \<Rightarrow> bool) \<Rightarrow> string \<Rightarrow> files \<Rightarrow> (bool \<times> files) option" where
  "apply_theme_line tmp wr line fs =
     (if \<not> starts_with ''state theme '' line then Some (False, fs)
      else let r = drop 12 line; key = takeWhile (\<lambda>c. c \<noteq> CHR '' '') r; val = drop (length key + 1) r in
      if CHR '' '' \<notin> set r \<or> length val \<noteq> 6 then Some (True, fs)
      else map_option (\<lambda>v. (True, set_theme_color tmp wr key (ucast v) fs)) (stoul 16 val))"

section \<open>Lines\<close>

definition telemetry_line :: "int \<Rightarrow> flow \<Rightarrow> string \<Rightarrow> flow" where
  "telemetry_line now f line =
     (let (applied, s) = apply_ipc_line (fl_mavlink f) line; f1 = f\<lparr>fl_mavlink := s\<rparr> in
      if applied \<and> is_osd_telemetry_line line then f1\<lparr>fl_seen := True, fl_last := now\<rparr> else f1)"

definition flow_line :: "flow_round \<Rightarrow> string \<Rightarrow> flow \<Rightarrow> flow option" where
  "flow_line r line f =
     (let on = (line \<noteq> [] \<and> last line = CHR ''1''); t = fr_tmp r; w = fr_writable r in
      if line = ''ui key space'' then Some (toggle_video_stream f)
      else let (mapped, m) = apply_gpu_map_ipc_line (fl_map f) line; f = f\<lparr>fl_map := m\<rparr> in
      if mapped then Some f
      else if line = ''state coords 0'' \<or> line = ''state coords 1''
      then Some (f\<lparr>fl_coordinates := on, fl_files := set_coordinates_overlay_enabled t w on (fl_files f)\<rparr>)
      else if line = ''state compact 0'' \<or> line = ''state compact 1''
      then Some (f\<lparr>fl_compact := on, fl_files := set_compact_readouts_enabled t w on (fl_files f)\<rparr>)
      else if line = ''state topbar 0'' \<or> line = ''state topbar 1''
      then Some (f\<lparr>fl_top_bar := on, fl_files := set_top_bar_enabled t w on (fl_files f)\<rparr>)
      else if line \<in> {''state osd drone'', ''state osd rocket'', ''state osd rover'', ''state osd ship''}
      then Some (f\<lparr>fl_layout := drop 10 line, fl_files := set_osd_layout t w (drop 10 line) (fl_files f)\<rparr>)
      else case apply_theme_line t w line (fl_files f) of
        None \<Rightarrow> None
      | Some (True, fs) \<Rightarrow> Some (f\<lparr>fl_files := fs, fl_theme := load_theme t fs\<rparr>)
      | Some (False, fs) \<Rightarrow> Some (foldl (telemetry_line (fr_now r)) f (split_lines line)))"

fun flow_lines :: "flow_round \<Rightarrow> string list \<Rightarrow> flow \<Rightarrow> flow option" where
  "flow_lines r [] f = Some f"
| "flow_lines r (l # ls) f = (case flow_line r l f of None \<Rightarrow> None | Some f1 \<Rightarrow> flow_lines r ls f1)"

section \<open>Rounds\<close>

definition preview_key :: "string \<Rightarrow> flow \<Rightarrow> flow" where
  "preview_key k f =
     (if k = ''space'' \<and> fo_udp_video (fl_options f) then toggle_video_stream f
      else if client_connected (fl_ipc f) then flow_send (''ui key '' @ k) f else f)"

definition read_flow_controls :: "flow_round \<Rightarrow> flow \<Rightarrow> flow" where
  "read_flow_controls r f =
     (let t = fr_tmp r; fs = fl_files f in
      f\<lparr>fl_coordinates := coordinates_overlay_enabled t fs, fl_compact := compact_readouts_enabled t fs,
        fl_top_bar := top_bar_enabled t fs, fl_layout := osd_layout t fs, fl_theme := load_theme t fs\<rparr>)"

definition flow_poll :: "flow_round \<Rightarrow> flow \<Rightarrow> flow option" where
  "flow_poll r f =
     (if client_connected (fl_ipc f)
      then let (ls, c) = client_poll_lines (fr_recv r) (fl_ipc f) in flow_lines r ls (f\<lparr>fl_ipc := c\<rparr>)
      else Some (read_flow_controls r f))"

text \<open>Telemetry counts as present for 1500 ms; the time 0 stands for none yet.\<close>

definition telemetry_timeout :: "int \<Rightarrow> flow \<Rightarrow> flow" where
  "telemetry_timeout now f = (if fl_last f \<noteq> 0 \<and> ms 1500 \<le> now - fl_last f then f\<lparr>fl_seen := False\<rparr> else f)"

definition flow_frame_rate :: "int \<Rightarrow> flow \<Rightarrow> flow" where
  "flow_frame_rate now f =
     (let (rate, c) = fps_frame now (fl_fps f); f1 = f\<lparr>fl_fps := c\<rparr> in
      case rate of
        None \<Rightarrow> f1
      | Some x \<Rightarrow> if client_connected (fl_ipc f1) then flow_send (''status glide-flow fps '' @ fp_fixed 6 x) f1 else f1)"

datatype widget =
  Connecting | Top_bar link_sample | Bottom_bar link_sample | Rocket | Rover fp fp | Ship fp | Horizon fp fp
| Speed fp bool | Altitude fp bool

definition flow_widgets :: "flow \<Rightarrow> widget list" where
  "flow_widgets f =
     (let s = fl_mavlink f; z = fp_zero f32; sample = link_sample_from_mavlink s (fl_coordinates f);
          top = (if fl_top_bar f then [Top_bar sample] else []); turn = (if attitude_valid s then yaw_degrees s else z) in
      if \<not> fl_seen f then [Connecting]
      else if fl_layout f = ''rocket'' then top @ [Rocket]
      else if fl_layout f = ''rover''
      then top @ [Bottom_bar sample,
                  Rover (if speed_valid s then fp_mul f32 (ground_speed_mps s) (fp_round f32 False 36 10) else z) turn]
      else if fl_layout f = ''ship'' then top @ [Bottom_bar sample, Ship turn]
      else top @ [Bottom_bar sample,
                  Horizon (if attitude_valid s then roll_degrees s else z) (if attitude_valid s then pitch_degrees s else z),
                  Speed (if speed_valid s then ground_speed_mps s else z) (fl_compact f),
                  Altitude (if altitude_valid s then altitude_m s else z) (fl_compact f)])"

text \<open>The first size of a decoded frame that was uploaded; \<open>None\<close> when the upload failed and the loop ends.\<close>

definition take_video_frame :: "flow_round \<Rightarrow> flow \<Rightarrow> flow option" where
  "take_video_frame r f =
     (case fr_frame r of
        None \<Rightarrow> Some f
      | Some size' \<Rightarrow> if fr_uploaded r then Some (f\<lparr>fl_video := size'\<rparr>) else None)"

datatype outcome = Running flow "widget list" | Stopped flow | Uncaught

text \<open>A round of the loop; \<open>available\<close> tells whether the renderer works.\<close>

definition flow_step :: "bool \<Rightarrow> flow_round \<Rightarrow> flow \<Rightarrow> outcome" where
  "flow_step available r f =
     (if fo_preview (fl_options f) \<and> \<not> fr_open r then Stopped f
      else case flow_poll r (foldl (\<lambda>f k. preview_key k f) f (fr_keys r)) of
        None \<Rightarrow> Uncaught
      | Some f1 \<Rightarrow>
          (let f2 = telemetry_timeout (fr_now r) f1;
               f3 = (if fo_preview (fl_options f2)
                     then f2\<lparr>fl_options := (fl_options f2)\<lparr>fo_surface := fr_surface r\<rparr>\<rparr> else f2) in
           if \<not> fr_video_ok r then Stopped f3
           else let f4 = flow_frame_rate (fr_now r) f3 in
           if fo_render_gles (fl_options f4) \<and> available
           then (case take_video_frame r f4 of None \<Rightarrow> Stopped f4 | Some f5 \<Rightarrow> Running f5 (flow_widgets f5))
           else Running f4 []))"

fun flow_run :: "bool \<Rightarrow> flow_round list \<Rightarrow> flow \<Rightarrow> flow option" where
  "flow_run available [] f = Some f"
| "flow_run available (r # rs) f =
     (case flow_step available r f of Running f1 _ \<Rightarrow> flow_run available rs f1 | _ \<Rightarrow> None)"

definition flow_start :: "flow_options \<Rightarrow> string \<Rightarrow> int \<times> bool \<Rightarrow> int \<Rightarrow> files \<Rightarrow> flow" where
  "flow_start o' tmp sock now fs =
     (let o1 = (if fo_secondary_udp_codec o' = [] then o'\<lparr>fo_secondary_udp_codec := fo_udp_codec o'\<rparr> else o');
          o2 = (if fo_kms o1 then o1\<lparr>fo_render_gles := True\<rparr> else o1);
          (ok, c) = client_connect_to (fst sock) (snd sock) new_client;
          f = \<lparr>fl_options = o2, fl_ipc = c, fl_sent = [], fl_mavlink = initial_snapshot,
               fl_coordinates = coordinates_overlay_enabled tmp fs, fl_compact = compact_readouts_enabled tmp fs,
               fl_top_bar = top_bar_enabled tmp fs, fl_seen = False, fl_last = 0, fl_layout = osd_layout tmp fs,
               fl_theme = load_theme tmp fs, fl_map = initial_map, fl_active = 0, fl_video = (0, 0),
               fl_fps = new_fps_counter now, fl_files = fs\<rparr>
      in if ok then flow_send ''status glide-flow ready'' (flow_send ''hello glide-flow'' f) else f)"

end
