(* ===== verification/Flow_Properties.thy ===== *)
theory Flow_Properties
  imports Flow_Process
begin

text \<open>
  What the display process guarantees: when the telemetry counts as present, and what a lost controller
  means for it.
\<close>

section \<open>Lines\<close>

lemma lines_from_plain: "newline \<notin> set l \<Longrightarrow> lines_from acc l = (if acc @ l = [] then [] else [acc @ l])"
  by (induction l arbitrary: acc) (auto simp: newline_def)

lemma drained_plain: "l \<in> set (fst (drain_lines b)) \<Longrightarrow> newline \<notin> set l"
proof (induction b arbitrary: l rule: length_induct)
  case (1 b)
  show ?case
  proof (cases "newline \<in> set b")
    case True
    then obtain k r where b: "b = k @ newline # r" "newline \<notin> set k" by (rule first_line)
    have "newline \<notin> set (strip_cr k)" using b(2) by (auto simp: strip_cr_def dest: in_set_butlastD)
    moreover have "length r < length b" using b(1) by simp
    then have "x \<in> set (fst (drain_lines r)) \<Longrightarrow> newline \<notin> set x" for x using 1(1) by blast
    ultimately show ?thesis using 1(2) b by (auto simp: drain_lines_line)
  qed (use 1 in \<open>simp add: drain_lines_none\<close>)
qed

lemma polled_plain: "l \<in> set (fst (client_poll_lines as c)) \<Longrightarrow> newline \<notin> set l"
  by (auto simp: client_poll_lines_def Let_def split: if_splits prod.splits dest: arg_cong[of _ _ fst] drained_plain)
     (metis drained_plain fst_conv)+

lemma first_token: "word_text w \<Longrightarrow> fst (read_token [] (istringstream (w @ CHR '' '' # r))) = w"
  using read_token_word[of w "CHR '' '' # r" "[]"] istringstream_stream_at[of "w @ CHR '' '' # r"] by simp

lemma osd_is_mav:
  "is_osd_telemetry_line line \<Longrightarrow> fst (read_token [] (istringstream line)) = ''mav''"
  by (auto simp: is_osd_telemetry_line_def Let_def split: prod.splits if_splits)

lemma osd_not_early:
  assumes "is_osd_telemetry_line line" "starts_with (w @ '' '') line" "word_text w"
  shows "w = ''mav''"
proof -
  have "line = w @ CHR '' '' # drop (length w + 1) line"
    using assms(2) append_take_drop_id[of "length w + 1" line] by (simp add: starts_with_def)
  then have "fst (read_token [] (istringstream line)) = w" by (metis first_token assms(3))
  then show ?thesis using osd_is_mav[OF assms(1)] by simp
qed

lemma osd_line_kinds:
  assumes "is_osd_telemetry_line line"
  shows "\<not> starts_with ''state '' line" "\<not> starts_with ''ui '' line"
  using osd_not_early[OF assms, of "''state''"] osd_not_early[OF assms, of "''ui''"] by (auto simp: word_text_def is_space_def)

lemma starts_with_longer: "starts_with (p @ q) l \<Longrightarrow> starts_with p l"
  by (metis append_eq_conv_conj append_take_drop_id append.assoc starts_with_def)

lemma osd_applied: "is_osd_telemetry_line line \<Longrightarrow> fst (apply_ipc_line s line)"
  by (auto simp: is_osd_telemetry_line_def apply_ipc_line_def apply_key_def Let_def split: prod.splits if_splits)

definition tells_telemetry :: "string list \<Rightarrow> bool" where
  "tells_telemetry ls \<longleftrightarrow> list_ex is_osd_telemetry_line ls"

lemma flow_line_osd:
  assumes "is_osd_telemetry_line line" "newline \<notin> set line"
  shows "flow_line r line f = Some (telemetry_line (fr_now r) f line)"
proof -
  note k = osd_line_kinds[OF assms(1)]
  have ne: "line \<noteq> []" using osd_is_mav[OF assms(1)] by (auto simp: istringstream_def read_token_def sentry_def good_def Let_def)
  have s: "starts_with ''state '' (''state '' @ x)" "starts_with ''ui '' (''ui '' @ x)" for x by (simp_all add: starts_with_def)
  have u: "line \<noteq> ''ui key space''" "line \<noteq> ''ui map hidden''" "line \<noteq> ''state coords 0''" "line \<noteq> ''state coords 1''"
    "line \<noteq> ''state compact 0''" "line \<noteq> ''state compact 1''" "line \<noteq> ''state topbar 0''" "line \<noteq> ''state topbar 1''"
    "line \<notin> {''state osd drone'', ''state osd rocket'', ''state osd rover'', ''state osd ship''}"
    using k by (auto simp: starts_with_def)
  have m: "\<not> starts_with ''ui map state '' line" "\<not> starts_with ''state theme '' line"
    using k starts_with_longer[of "''ui ''" "''map state ''" line] starts_with_longer[of "''state ''" "''theme ''" line] by auto
  have "split_lines line = [line]" using assms(2) ne by (simp add: split_lines_def lines_from_plain)
  then show ?thesis using u m by (simp add: flow_line_def apply_gpu_map_ipc_line_def apply_theme_line_def)
qed

text \<open>What a line does to the time of the last telemetry, and that it keeps the socket and the options.\<close>

definition kept :: "flow \<Rightarrow> flow_options \<times> client" where
  "kept f = (fl_options f, fl_ipc f)"

definition heard :: "flow \<Rightarrow> bool \<times> int" where
  "heard f = (fl_seen f, fl_last f)"

lemma flow_line_heard:
  assumes "flow_line r line f = Some f'" "newline \<notin> set line"
  shows "heard f' = (if is_osd_telemetry_line line then (True, fr_now r) else heard f)" "kept f' = kept f"
proof -
  have t: "kept (telemetry_line n g l) = kept g" "heard (telemetry_line n g l) = (if is_osd_telemetry_line l then (True, n) else heard g)" for n g l
    using osd_applied[of l "fl_mavlink g"] by (auto simp: telemetry_line_def kept_def heard_def Let_def split: prod.split)
  have g: "kept (toggle_video_stream g) = kept g" "heard (toggle_video_stream g) = heard g" for g
    by (simp_all add: toggle_video_stream_def kept_def heard_def)
  define P where "P = (\<lambda>g. kept g = kept f \<and> (\<not> is_osd_telemetry_line line \<longrightarrow> heard g = heard f))"
  have pif: "pred_option P x \<Longrightarrow> pred_option P y \<Longrightarrow> pred_option P (if c then x else y)" for x y c by simp
  have pm: "P (f\<lparr>fl_map := m, fl_coordinates := b, fl_files := fs\<rparr>)" "P (f\<lparr>fl_map := m, fl_compact := b, fl_files := fs\<rparr>)"
    "P (f\<lparr>fl_map := m, fl_top_bar := b, fl_files := fs\<rparr>)" "P (f\<lparr>fl_map := m, fl_layout := lo, fl_files := fs\<rparr>)"
    "P (f\<lparr>fl_map := m, fl_files := fs, fl_theme := th\<rparr>)" "P (f\<lparr>fl_map := m\<rparr>)" "P (toggle_video_stream f)"
    "P (telemetry_line n (f\<lparr>fl_map := m\<rparr>) line)" for m b fs lo th n
    by (simp_all add: P_def g t) (simp_all add: kept_def heard_def)
  have "pred_option P (flow_line r line f)"
    unfolding flow_line_def split_lines_def lines_from_plain[OF assms(2)] Let_def append_Nil split_beta
    by (intro pif) (simp_all add: pm split: option.split bool.split)
  then have "kept f' = kept f \<and> (\<not> is_osd_telemetry_line line \<longrightarrow> heard f' = heard f)"
    using assms(1) by (simp add: P_def)
  moreover have "heard f' = (True, fr_now r)" if "is_osd_telemetry_line line"
    using assms that t(2)[of "fr_now r" f line] by (auto simp: flow_line_osd)
  ultimately show "heard f' = (if is_osd_telemetry_line line then (True, fr_now r) else heard f)" "kept f' = kept f"
    by auto
qed

lemma flow_lines_heard:
  "flow_lines r ls f = Some f' \<Longrightarrow> \<forall>l \<in> set ls. newline \<notin> set l \<Longrightarrow>
     heard f' = (if tells_telemetry ls then (True, fr_now r) else heard f) \<and> kept f' = kept f"
  by (induction ls arbitrary: f) (auto simp: tells_telemetry_def flow_line_heard split: option.splits)

section \<open>Rounds\<close>

definition lines_of_round :: "flow_round \<Rightarrow> flow \<Rightarrow> string list" where
  "lines_of_round r f = fst (client_poll_lines (fr_recv r) (fl_ipc f))"

lemma preview_keys_kept: "kept (foldl (\<lambda>f k. preview_key k f) f ks) = kept f" "heard (foldl (\<lambda>f k. preview_key k f) f ks) = heard f"
proof -
  have "kept (preview_key k g) = kept g \<and> heard (preview_key k g) = heard g" for k g
    by (auto simp: preview_key_def toggle_video_stream_def flow_send_def kept_def heard_def split: option.split)
  then show "kept (foldl (\<lambda>f k. preview_key k f) f ks) = kept f" "heard (foldl (\<lambda>f k. preview_key k f) f ks) = heard f"
    by (induction ks arbitrary: f) simp_all
qed

lemma flow_frame_rate_heard: "heard (flow_frame_rate now f) = heard f" "fl_ipc (flow_frame_rate now f) = fl_ipc f"
  "fl_mavlink (flow_frame_rate now f) = fl_mavlink f"
  by (auto simp: flow_frame_rate_def flow_send_def heard_def Let_def split: option.split prod.split)

text \<open>The time of the last telemetry after a round, and whether it counts as present.\<close>

definition present_at :: "int \<Rightarrow> bool \<times> int \<Rightarrow> bool \<times> int" where
  "present_at now h = (if snd h \<noteq> 0 \<and> ms 1500 \<le> now - snd h then (False, snd h) else h)"

lemma poll_not_connected: "\<not> client_connected c \<Longrightarrow> client_poll_lines as c = ([], c)"
  by (simp add: client_poll_lines_def client_connected_def)

lemma flow_step_heard:
  assumes "flow_step av r f = Running f' ws"
  shows "heard f' = present_at (fr_now r) (if tells_telemetry (lines_of_round r f) then (True, fr_now r) else heard f)"
    "fl_ipc f' = snd (client_poll_lines (fr_recv r) (fl_ipc f))"
proof -
  define g where "g = foldl (\<lambda>f k. preview_key k f) f (fr_keys r)"
  have g: "fl_ipc g = fl_ipc f" "heard g = heard f" using preview_keys_kept[of f "fr_keys r"] by (simp_all add: g_def kept_def)
  obtain f1 where f1: "flow_poll r g = Some f1"
    using assms by (auto simp: flow_step_def g_def split: if_splits option.splits)
  have "heard f1 = (if tells_telemetry (lines_of_round r f) then (True, fr_now r) else heard f) \<and>
      fl_ipc f1 = snd (client_poll_lines (fr_recv r) (fl_ipc f))"
  proof (cases "client_connected (fl_ipc f)")
    case True
    obtain ls c where p: "client_poll_lines (fr_recv r) (fl_ipc f) = (ls, c)" by fastforce
    then have "\<forall>l \<in> set ls. newline \<notin> set l" using polled_plain[of _ "fr_recv r" "fl_ipc f"] by auto
    moreover have "flow_lines r ls (g\<lparr>fl_ipc := c\<rparr>) = Some f1" using f1 True g p by (simp add: flow_poll_def)
    ultimately show ?thesis
      using flow_lines_heard[of r ls "g\<lparr>fl_ipc := c\<rparr>" f1] g p by (auto simp: lines_of_round_def kept_def heard_def)
  next
    case False
    then show ?thesis
      using f1 g by (auto simp: flow_poll_def read_flow_controls_def poll_not_connected lines_of_round_def tells_telemetry_def
          heard_def Let_def)
  qed
  moreover have "heard f' = heard (telemetry_timeout (fr_now r) f1) \<and> fl_ipc f' = fl_ipc f1"
    using assms f1 flow_frame_rate_heard[of "fr_now r"]
    by (auto simp: flow_step_def g_def[symmetric] Let_def take_video_frame_def telemetry_timeout_def heard_def
        split: if_splits option.splits)
  moreover have "heard (telemetry_timeout n g) = present_at n (heard g)" for n g
    by (simp add: telemetry_timeout_def heard_def present_at_def)
  ultimately show "heard f' = present_at (fr_now r) (if tells_telemetry (lines_of_round r f) then (True, fr_now r) else heard f)"
    "fl_ipc f' = snd (client_poll_lines (fr_recv r) (fl_ipc f))" by auto
qed

section \<open>Presence of the telemetry\<close>

text \<open>When the last round was in which a line of telemetry came, \<open>0\<close> without any.\<close>

fun last_heard :: "bool \<Rightarrow> flow_round list \<Rightarrow> flow \<Rightarrow> int \<Rightarrow> int" where
  "last_heard av [] f t = t"
| "last_heard av (r # rs) f t =
     (case flow_step av r f of
        Running f1 _ \<Rightarrow> last_heard av rs f1 (if tells_telemetry (lines_of_round r f) then fr_now r else t)
      | _ \<Rightarrow> t)"

definition presence_ok :: "int \<Rightarrow> flow \<Rightarrow> bool" where
  "presence_ok now f \<longleftrightarrow> (fl_seen f \<longleftrightarrow> fl_last f \<noteq> 0 \<and> now - fl_last f < ms 1500)"

lemma presence_step:
  assumes "flow_step av r f = Running f' ws" "presence_ok t f" "t \<le> fr_now r" "0 < fr_now r"
  shows "presence_ok (fr_now r) f'"
    "fl_last f' = (if tells_telemetry (lines_of_round r f) then fr_now r else fl_last f)"
  using flow_step_heard(1)[OF assms(1)] assms(2-4)
  by (auto simp: presence_ok_def heard_def present_at_def ms_def split: if_splits)

lemma presence_run:
  assumes "flow_run av rs f = Some f'" "presence_ok t f" "sorted (t # map fr_now rs)" "\<forall>r \<in> set rs. 0 < fr_now r"
  shows "presence_ok (last (t # map fr_now rs)) f' \<and> fl_last f' = last_heard av rs f (fl_last f)"
  using assms
proof (induction rs arbitrary: f t)
  case (Cons r rs)
  obtain f1 ws where s: "flow_step av r f = Running f1 ws"
    using Cons.prems(1) by (auto split: outcome.splits)
  have "presence_ok (fr_now r) f1"
    "fl_last f1 = (if tells_telemetry (lines_of_round r f) then fr_now r else fl_last f)"
    using presence_step[OF s Cons.prems(2)] Cons.prems(3,4) by simp_all
  then show ?case using Cons.IH[of f1 "fr_now r"] Cons.prems s by simp
qed simp

text \<open>
  C17: telemetry counts as present for 1500 ms. In every run of the display process with a clock that does
  not go back, after each round the widgets are drawn exactly when a line of flight telemetry came less
  than 1500 ms ago, and otherwise only the sign that it is connecting.
\<close>

theorem telemetry_present_1500ms:
  assumes "f0 = flow_start o' tmp sock t0 fs" "flow_run av rs f0 = Some f" "rs \<noteq> []"
    "sorted (map fr_now rs)" "\<forall>r \<in> set rs. 0 < fr_now r"
  shows "flow_widgets f = [Connecting] \<longleftrightarrow>
    \<not> (last_heard av rs f0 0 \<noteq> 0 \<and> fr_now (last rs) - last_heard av rs f0 0 < ms 1500)"
proof -
  have "fl_last f0 = 0" "\<not> fl_seen f0"
    unfolding assms(1) by (auto simp: flow_start_def flow_send_def Let_def split: prod.split option.split)
  moreover from this have "presence_ok 0 f0" by (simp add: presence_ok_def)
  ultimately have "presence_ok (last (0 # map fr_now rs)) f \<and> fl_last f = last_heard av rs f0 0"
    using presence_run[OF assms(2), of 0] assms(4,5) by (auto simp: less_imp_le)
  moreover have "flow_widgets f = [Connecting] \<longleftrightarrow> \<not> fl_seen f" by (auto simp: flow_widgets_def Let_def)
  ultimately show ?thesis using assms(3) by (auto simp: presence_ok_def last_map)
qed

text \<open>
  C18: the display does not come back. Once its connection to the controller has ended, before or after any
  telemetry, it is never made again: in every later round it takes no line and sends nothing, and its telemetry
  stays as it was, whatever the controller does. From 1500 ms after the last telemetry on, and from the start
  when there was none, it shows that it is connecting.
\<close>

theorem flow_never_reconnects:
  assumes "\<not> client_connected (fl_ipc f0)" "flow_run av rs f0 = Some f"
  shows "\<not> client_connected (fl_ipc f) \<and> fl_sent f = fl_sent f0 \<and> fl_mavlink f = fl_mavlink f0 \<and>
    (rs \<noteq> [] \<and> fl_last f0 \<noteq> 0 \<and> fl_last f0 + ms 1500 \<le> fr_now (last rs) \<or> \<not> fl_seen f0 \<longrightarrow> flow_widgets f = [Connecting])"
proof -
  have step: "fl_ipc f' = fl_ipc g \<and> fl_sent f' = fl_sent g \<and> fl_mavlink f' = fl_mavlink g \<and>
      fl_last f' = fl_last g \<and> (fl_last g \<noteq> 0 \<and> fl_last g + ms 1500 \<le> fr_now r \<or> \<not> fl_seen g \<longrightarrow> \<not> fl_seen f')"
    if s: "flow_step av r g = Running f' ws" and c: "\<not> client_connected (fl_ipc g)" for r g f' ws
  proof -
    have k: "fl_ipc (foldl (\<lambda>f k. preview_key k f) x ks) = fl_ipc x \<and> fl_sent (foldl (\<lambda>f k. preview_key k f) x ks) = fl_sent x \<and>
        fl_mavlink (foldl (\<lambda>f k. preview_key k f) x ks) = fl_mavlink x" if "\<not> client_connected (fl_ipc x)" for x ks
      using that
    proof (induction ks arbitrary: x)
      case (Cons k ks)
      have "fl_ipc (preview_key k x) = fl_ipc x \<and> fl_sent (preview_key k x) = fl_sent x \<and> fl_mavlink (preview_key k x) = fl_mavlink x"
        using Cons.prems by (simp add: preview_key_def toggle_video_stream_def)
      then show ?case using Cons by simp
    qed simp
    have "heard f' = present_at (fr_now r) (heard g)"
      using flow_step_heard(1)[OF s] c by (simp add: lines_of_round_def poll_not_connected tells_telemetry_def)
    moreover have "fl_ipc f' = fl_ipc g" using flow_step_heard(2)[OF s] c by (simp add: poll_not_connected)
    moreover have "fl_sent f' = fl_sent g \<and> fl_mavlink f' = fl_mavlink g"
      using s k[OF c, of "fr_keys r"] c
      by (auto simp: flow_step_def flow_poll_def read_flow_controls_def telemetry_timeout_def take_video_frame_def
          flow_frame_rate_def Let_def split: if_splits option.splits prod.splits)
    ultimately show ?thesis by (auto simp: heard_def present_at_def ms_def split: if_splits)
  qed
  have "\<not> client_connected (fl_ipc f) \<and> fl_sent f = fl_sent f0 \<and> fl_mavlink f = fl_mavlink f0 \<and> fl_last f = fl_last f0 \<and>
    (rs \<noteq> [] \<and> fl_last f0 \<noteq> 0 \<and> fl_last f0 + ms 1500 \<le> fr_now (last rs) \<or> \<not> fl_seen f0 \<longrightarrow> \<not> fl_seen f)"
    using assms
  proof (induction rs arbitrary: f0)
    case (Cons r rs)
    obtain f1 ws where s: "flow_step av r f0 = Running f1 ws"
      using Cons.prems(2) by (auto split: outcome.splits)
    note st = step[OF s Cons.prems(1)]
    show ?case
    proof (cases "rs = []")
      case True
      then show ?thesis using Cons.prems s st by auto
    next
      case False
      then show ?thesis using Cons.IH[of f1] Cons.prems s st by auto
    qed
  qed simp
  then show ?thesis by (auto simp: flow_widgets_def Let_def)
qed

text \<open>A run of one round, with a heartbeat of the flight controller, and of one without a connection.\<close>

definition demo_round :: "int \<Rightarrow> recv_answer list \<Rightarrow> flow_round" where
  "demo_round now as =
    \<lparr>fr_tmp = ''/tmp'', fr_writable = (\<lambda>_. True), fr_open = True, fr_keys = [], fr_recv = as, fr_now = now, fr_video_ok = True,
     fr_frame = None, fr_uploaded = True, fr_surface = (1920, 1080)\<rparr>"

definition demo_start :: flow where
  "demo_start = flow_start default_flow_options ''/tmp'' (3, True) 0 (\<lambda>_. None)"

definition undrawn :: "flow_options \<Rightarrow> bool" where
  "undrawn o' \<longleftrightarrow> \<not> fo_preview o' \<and> \<not> fo_render_gles o'"

lemma demo_runs:
  assumes "flow_poll (demo_round now as) f = Some f1" "undrawn (fl_options f)" "undrawn (fl_options f1)"
  shows "flow_run True [demo_round now as] f = Some (flow_frame_rate now (telemetry_timeout now f1))"
proof -
  have "undrawn (fl_options (telemetry_timeout now f1))"
    "undrawn (fl_options (flow_frame_rate now (telemetry_timeout now f1)))"
    using assms(3)
    by (simp_all add: telemetry_timeout_def flow_frame_rate_def flow_send_def Let_def split: prod.split option.split)
  then show ?thesis
    using assms by (simp add: flow_step_def demo_round_def undrawn_def Let_def)
qed

theorem telemetry_present_1500ms_witness:
  "\<exists>f. flow_run True [demo_round (ms 20) [Data (line_payload ''mav alive fc 1'')]] demo_start = Some f \<and> flow_widgets f \<noteq> [Connecting]"
proof -
  let ?r = "demo_round (ms 20) [Data (line_payload ''mav alive fc 1'')]" and ?l = "''mav alive fc 1''"
  have o: "is_osd_telemetry_line ?l" by code_simp
  have n: "newline \<notin> set ?l" "plain_line ?l" by (simp_all add: newline_def plain_line_def)
  have c: "fl_ipc demo_start = \<lparr>cl_fd = 3, cl_buffer = [], cl_closed = []\<rparr>" "undrawn (fl_options demo_start)"
    by (simp_all add: demo_start_def flow_start_def client_connect_to_def client_close_def new_client_def flow_send_def
        client_send_line_def default_flow_options_def undrawn_def)
  have "drain_lines (line_payload ?l) = ([?l], [])"
    using drain_payloads[of "[?l]" "[]"] n by (simp add: drain_lines_none)
  then have p: "client_poll_lines (fr_recv ?r) (fl_ipc demo_start) = ([?l], \<lparr>cl_fd = 3, cl_buffer = [], cl_closed = []\<rparr>)"
    by (simp add: client_poll_lines_def c demo_round_def line_payload_def)
  let ?f1 = "telemetry_line (ms 20) (demo_start\<lparr>fl_ipc := \<lparr>cl_fd = 3, cl_buffer = [], cl_closed = []\<rparr>\<rparr>) ?l"
  have "flow_poll ?r demo_start = Some ?f1"
    using p by (simp add: flow_poll_def c client_connected_def flow_line_osd[OF o n(1)] demo_round_def)
  moreover have "undrawn (fl_options ?f1)" using c by (simp add: telemetry_line_def Let_def split: prod.split)
  ultimately obtain f where f: "flow_run True [?r] demo_start = Some f" using demo_runs c(2) by blast
  have "last_heard True [?r] demo_start 0 = ms 20"
    using f p o by (auto simp: lines_of_round_def tells_telemetry_def demo_round_def split: outcome.splits)
  then show ?thesis
    using telemetry_present_1500ms[OF _ f, of default_flow_options "''/tmp''" "(3, True)" 0 "\<lambda>_. None"] f
    by (simp add: demo_start_def demo_round_def ms_def)
qed

theorem flow_never_reconnects_witness:
  "\<exists>f. flow_run True [demo_round (ms 1600) []] (demo_start\<lparr>fl_ipc := new_client, fl_last := ms 20, fl_seen := True\<rparr>) = Some f \<and>
     flow_widgets f = [Connecting]"
proof -
  let ?f0 = "demo_start\<lparr>fl_ipc := new_client, fl_last := ms 20, fl_seen := True\<rparr>"
  have c: "\<not> client_connected (fl_ipc ?f0)" by (simp add: client_connected_def new_client_def)
  have o: "undrawn (fl_options ?f0)"
    by (simp add: demo_start_def flow_start_def flow_send_def client_send_line_def client_connect_to_def client_close_def
        new_client_def default_flow_options_def undrawn_def)
  obtain f where "flow_run True [demo_round (ms 1600) []] ?f0 = Some f"
    using demo_runs[of "ms 1600" "[]" ?f0 "read_flow_controls (demo_round (ms 1600) []) ?f0"] c o
    by (simp add: flow_poll_def read_flow_controls_def Let_def)
  with flow_never_reconnects[OF c this] show ?thesis by (auto simp: ms_def demo_round_def)
qed

end
