(* ===== verification/View_Process.thy ===== *)
theory View_Process
  imports Worker_Options Ui_Loop
begin

text \<open>
  Two small workers: \<open>src/glide_view/main.cpp\<close>, which decodes the video with a GStreamer pipeline, and the
  headless user interface of \<open>src/glide_ui/main.cpp\<close> (\<open>run_headless_ui\<close>). What GStreamer answers is an
  argument: which element factories exist, whether elements can be linked and started, and the messages
  on the bus. \<open>None\<close> is an exception that ends the process.
\<close>

section \<open>The pipeline of glide-view\<close>

datatype view_codec = H264 | H265 | Mjpeg

text \<open>\<open>None\<close>: the codec is not supported.\<close>

definition view_codec_of :: "string \<Rightarrow> view_codec option" where
  "view_codec_of s =
     (if s = ''h265'' then Some H265
      else if s = ''mjpeg'' \<or> s = ''mjpg'' \<or> s = ''jpeg'' then Some Mjpeg
      else if s = ''h264'' \<or> s = ''auto'' \<or> s = [] then Some H264
      else None)"

definition decoder_factories :: "view_codec \<Rightarrow> string list" where
  "decoder_factories c =
     (case c of
        Mjpeg \<Rightarrow> [''jpegdec'', ''avdec_mjpeg'']
      | H265 \<Rightarrow> [''mppvideodec'', ''v4l2h265dec'', ''v4l2slh265dec'', ''omxh265dec'', ''avdec_h265'']
      | H264 \<Rightarrow> [''mppvideodec'', ''v4l2h264dec'', ''v4l2slh264dec'', ''omxh264dec'', ''avdec_h264''])"

definition make_decoder :: "(string \<Rightarrow> bool) \<Rightarrow> view_codec \<Rightarrow> string option" where
  "make_decoder available c = List.find available (decoder_factories c)"

text \<open>The properties a decoder gets, each only if it has it.\<close>

definition configure_decoder :: "string \<Rightarrow> (string \<times> bool) list" where
  "configure_decoder factory =
     (if contains ''mpp'' factory
      then [(''dma-feature'', True), (''arm-afbc'', False), (''fast-mode'', True), (''qos'', False)] else [])
     @ (if contains ''omx'' factory then [(''disable-dma-feature'', False)] else [])"

definition hardware_decoder :: "string \<Rightarrow> bool" where
  "hardware_decoder factory \<longleftrightarrow> contains ''mpp'' factory \<or> contains ''v4l2'' factory \<or> contains ''omx'' factory"

text \<open>The elements in the order in which they are made; the decoder is the seventh.\<close>

definition elements_before :: "view_codec \<Rightarrow> string list" where
  "elements_before c =
     [''udpsrc'', ''capsfilter'',
      case c of Mjpeg \<Rightarrow> ''rtpjpegdepay'' | H265 \<Rightarrow> ''rtph265depay'' | H264 \<Rightarrow> ''rtph264depay'',
      case c of Mjpeg \<Rightarrow> ''identity'' | H265 \<Rightarrow> ''h265parse'' | H264 \<Rightarrow> ''h264parse'', ''capsfilter'', ''queue'']"

definition elements_after :: "bool \<Rightarrow> string list" where
  "elements_after display = ''queue'' # (if display then [''videoconvert'', ''autovideosink''] else [''appsink''])"

definition caps_encoding :: "view_codec \<Rightarrow> string" where
  "caps_encoding c = (case c of Mjpeg \<Rightarrow> ''JPEG'' | H265 \<Rightarrow> ''H265'' | H264 \<Rightarrow> ''H264'')"

definition video_caps :: "view_codec \<Rightarrow> string" where
  "video_caps c = (case c of Mjpeg \<Rightarrow> ''image/jpeg'' | H265 \<Rightarrow> ''video/x-h265'' | H264 \<Rightarrow> ''video/x-h264'')"

record gst_answers =
  ga_factory :: "string \<Rightarrow> bool"
  ga_pipeline :: bool
  ga_linked :: bool
  ga_playing :: bool

text \<open>
  A pipeline: the chain of its elements. \<open>vp_owned\<close> are the elements it holds and gives back with itself,
  \<open>vp_loose\<close> those that were made but not put into it.
\<close>

record view_pipeline =
  vp_running :: bool
  vp_port :: u16
  vp_owned :: "string list"
  vp_loose :: "string list"
  vp_settings :: "(string \<times> string \<times> int) list"

text \<open>What is set on the elements, by the names they have in the pipeline; most only if the element has the property.\<close>

definition pipeline_settings :: "view_options \<Rightarrow> (string \<times> string \<times> int) list" where
  "pipeline_settings o' =
     [(''udp-source'', ''port'', uint (vo_udp_port o')), (''udp-source'', ''buffer-size'', 33554432),
      (''parse'', ''config-interval'', - 1), (''input-queue'', ''max-size-buffers'', 64), (''input-queue'', ''max-size-bytes'', 0),
      (''input-queue'', ''max-size-time'', 0), (''input-queue'', ''leaky'', 0), (''output-queue'', ''max-size-buffers'', 8),
      (''output-queue'', ''max-size-bytes'', 0), (''output-queue'', ''max-size-time'', 0), (''output-queue'', ''leaky'', 2),
      (''sink'', ''sync'', 0), (''sink'', ''async'', 0), (''sink'', ''qos'', 0)]
     @ (if vo_display o' then [] else [(''sink'', ''drop'', 1), (''sink'', ''emit-signals'', 0), (''sink'', ''max-buffers'', 8)])"

definition start_pipeline :: "gst_answers \<Rightarrow> view_options \<Rightarrow> view_pipeline" where
  "start_pipeline g o' =
     (let none = \<lparr>vp_running = False, vp_port = vo_udp_port o', vp_owned = [], vp_loose = [],
                vp_settings = []\<rparr>; make = filter (ga_factory g) in
      case view_codec_of (vo_udp_codec o') of
        None \<Rightarrow> none\<lparr>vp_loose := make [''udpsrc'', ''capsfilter'']\<rparr>
      | Some c \<Rightarrow>
          (let before = make (elements_before c); after = make (elements_after (vo_display o'));
               decoder = (case make_decoder (ga_factory g) c of None \<Rightarrow> [] | Some d \<Rightarrow> [d]);
               all = before @ decoder @ after in
           if \<not> ga_pipeline g \<or> length before < 6 \<or> decoder = [] \<or> length after < length (elements_after (vo_display o'))
           then none\<lparr>vp_loose := all\<rparr>
           else if \<not> ga_linked g \<or> \<not> ga_playing g then none
           else none\<lparr>vp_running := True, vp_owned := all, vp_settings := pipeline_settings o'\<rparr>))"

datatype bus_message = Gst_error | Gst_eos | Gst_state_changed

text \<open>\<open>poll_bus\<close>: whether the pipeline goes on.\<close>

fun poll_bus :: "bus_message list \<Rightarrow> bool" where
  "poll_bus [] = True"
| "poll_bus (m # rest) = (if m = Gst_error \<or> m = Gst_eos then False else poll_bus rest)"

section \<open>Workers with a heartbeat\<close>

text \<open>
  The part of the state both have: the socket, what was sent with the time, when the next heartbeat is due.
\<close>

record worker =
  wk_ipc :: client
  wk_sent :: "(int \<times> string) list"
  wk_next :: int

definition worker_send :: "int \<Rightarrow> string \<Rightarrow> worker \<Rightarrow> worker" where
  "worker_send now l w =
     (case snd (client_send_line (\<lambda>_. 0) l (wk_ipc w)) of
        None \<Rightarrow> w | Some p \<Rightarrow> w\<lparr>wk_sent := wk_sent w @ [(now, p)]\<rparr>)"

text \<open>The clock is read for the comparison and again for the next time.\<close>

definition send_heartbeat :: "string \<Rightarrow> int \<Rightarrow> int \<Rightarrow> worker \<Rightarrow> worker" where
  "send_heartbeat name now now2 w =
     (if wk_next w \<le> now then (worker_send now (''heartbeat '' @ name) w)\<lparr>wk_next := now2 + ms 1000\<rparr> else w)"

definition connect_worker :: "int \<times> bool \<Rightarrow> int \<Rightarrow> string list \<Rightarrow> worker" where
  "connect_worker sock now greeting =
     (let (ok, c) = client_connect_to (fst sock) (snd sock) new_client;
          w = \<lparr>wk_ipc = c, wk_sent = [], wk_next = now\<rparr>
      in if ok then foldl (\<lambda>w l. worker_send now l w) w greeting else w)"

definition view_poll_ipc :: "recv_answer list \<Rightarrow> int \<Rightarrow> int \<Rightarrow> worker \<Rightarrow> worker" where
  "view_poll_ipc as now now2 w =
     (if \<not> client_connected (wk_ipc w) then w
      else send_heartbeat ''glide-view'' now now2 (w\<lparr>wk_ipc := snd (client_poll_lines as (wk_ipc w))\<rparr>))"

text \<open>The main program of glide-view: the exit code, and the socket at the end. A round is the bus, the data and the times.\<close>

fun view_decode_loop :: "(bus_message list \<times> recv_answer list \<times> int \<times> int) list \<Rightarrow> worker \<Rightarrow> int \<times> worker" where
  "view_decode_loop [] w = (0, w)"
| "view_decode_loop ((bus, as, now, now2) # rs) w =
     (if poll_bus bus then view_decode_loop rs (view_poll_ipc as now now2 w) else (1, w))"

definition view_main ::
  "gst_answers \<Rightarrow> int \<times> bool \<Rightarrow> int \<Rightarrow> view_options \<Rightarrow> (bus_message list \<times> recv_answer list \<times> int \<times> int) list \<Rightarrow> int \<times> worker" where
  "view_main g sock now o' rs =
     (let w = connect_worker sock now [''hello glide-view'', ''status glide-view ready''] in
      if vo_udp_video o'
      then (if \<not> vp_running (start_pipeline g o') then (1, w)
            else view_decode_loop rs
              (if client_connected (wk_ipc w) then worker_send now ''status glide-view udp-decode-ready'' w else w))
      else if vo_stay_alive o' then (0, foldl (\<lambda>w (_, as, n1, n2). view_poll_ipc as n1 n2 w) w rs)
      else (0, w))"

section \<open>The headless user interface\<close>

record headless =
  hl_worker :: worker
  hl_mavlink :: snapshot
  hl_files :: files

definition headless_line :: "string \<Rightarrow> (string \<Rightarrow> bool) \<Rightarrow> string \<Rightarrow> headless \<Rightarrow> headless option" where
  "headless_line tmp wr line h =
     (let on = (line \<noteq> [] \<and> last line = CHR ''1''); put = (\<lambda>g. Some (h\<lparr>hl_files := g (hl_files h)\<rparr>)) in
      if line = ''state fps 0'' \<or> line = ''state fps 1'' then put (set_fps_overlay_enabled tmp wr on)
      else if line = ''state coords 0'' \<or> line = ''state coords 1'' then put (set_coordinates_overlay_enabled tmp wr on)
      else if line = ''state compact 0'' \<or> line = ''state compact 1'' then put (set_compact_readouts_enabled tmp wr on)
      else if line = ''state topbar 0'' \<or> line = ''state topbar 1'' then put (set_top_bar_enabled tmp wr on)
      else if line \<in> {''state osd drone'', ''state osd rocket'', ''state osd rover'', ''state osd ship''}
      then put (set_osd_layout tmp wr (drop 10 line))
      else if starts_with ''state theme '' line
      then (let r = drop 12 line; key = takeWhile (\<lambda>c. c \<noteq> CHR '' '') r; val = drop (length key + 1) r in
            if CHR '' '' \<notin> set r \<or> length val \<noteq> 6 then Some h
            else map_option (\<lambda>v. h\<lparr>hl_files := set_theme_color tmp wr key (ucast v) (hl_files h)\<rparr>) (stoul 16 val))
      else Some (h\<lparr>hl_mavlink := snd (apply_ipc_line (hl_mavlink h) line)\<rparr>))"

fun headless_lines :: "string \<Rightarrow> (string \<Rightarrow> bool) \<Rightarrow> string list \<Rightarrow> headless \<Rightarrow> headless option" where
  "headless_lines tmp wr [] h = Some h"
| "headless_lines tmp wr (l # ls) h =
     (case headless_line tmp wr l h of None \<Rightarrow> None | Some h1 \<Rightarrow> headless_lines tmp wr ls h1)"

definition headless_round :: "string \<Rightarrow> (string \<Rightarrow> bool) \<Rightarrow> recv_answer list \<times> int \<times> int \<Rightarrow> headless \<Rightarrow> headless option" where
  "headless_round tmp wr r h =
     (let (as, now, now2) = r; w = hl_worker h in
      if \<not> client_connected (wk_ipc w) then Some h
      else let (ls, c) = client_poll_lines as (wk_ipc w) in
           map_option (\<lambda>h1. h1\<lparr>hl_worker := send_heartbeat ''glide-ui'' now now2 (hl_worker h1)\<rparr>)
             (headless_lines tmp wr ls (h\<lparr>hl_worker := w\<lparr>wk_ipc := c\<rparr>\<rparr>)))"

definition headless_start :: "int \<times> bool \<Rightarrow> int \<Rightarrow> files \<Rightarrow> headless" where
  "headless_start sock now fs =
     \<lparr>hl_worker = connect_worker sock now
        [''hello glide-ui'', ''status glide-ui ready headless'', ''get fps'', ''get coords'', ''get compact'', ''get topbar'',
         ''get osd'', ''get theme'', ''get net''],
      hl_mavlink = initial_snapshot, hl_files = fs\<rparr>"

fun headless_run :: "string \<Rightarrow> (string \<Rightarrow> bool) \<Rightarrow> (recv_answer list \<times> int \<times> int) list \<Rightarrow> headless \<Rightarrow> headless option" where
  "headless_run tmp wr [] h = Some h"
| "headless_run tmp wr (r # rs) h =
     (case headless_round tmp wr r h of None \<Rightarrow> None | Some h1 \<Rightarrow> headless_run tmp wr rs h1)"

section \<open>Guarantees\<close>

text \<open>A pipeline that starts has every element of its chain and no loose one.\<close>

lemma started_pipeline_complete:
  assumes "vp_running (start_pipeline g o')"
  obtains c d where "view_codec_of (vo_udp_codec o') = Some c" "make_decoder (ga_factory g) c = Some d"
    "vp_owned (start_pipeline g o') = elements_before c @ d # elements_after (vo_display o')"
    "vp_loose (start_pipeline g o') = []"
proof -
  have full: "filter P xs = xs" if "\<not> length (filter P xs) < length xs" for P and xs :: "string list"
    using that by (metis filter_True length_filter_less linorder_neqE_nat not_less_iff_gr_or_eq)
  obtain c where c: "view_codec_of (vo_udp_codec o') = Some c"
    using assms by (auto simp: start_pipeline_def Let_def split: option.splits)
  obtain d where d: "make_decoder (ga_factory g) c = Some d"
    using assms c by (auto simp: start_pipeline_def Let_def split: option.splits if_splits)
  have n: "length (elements_before c) = 6" by (simp add: elements_before_def)
  have "filter (ga_factory g) (elements_before c) = elements_before c"
    "filter (ga_factory g) (elements_after (vo_display o')) = elements_after (vo_display o')"
    using assms c d n by (auto simp: start_pipeline_def Let_def split: if_splits intro!: full)
  then show thesis using that[OF c d] assms c d by (simp add: start_pipeline_def Let_def split: if_splits)
qed

text \<open>An unsupported codec, or one missing element, leaves the elements that were made behind.\<close>

lemma failed_pipeline_leaks:
  "view_codec_of (vo_udp_codec o') = Some c \<Longrightarrow> make_decoder (ga_factory g) c = None \<Longrightarrow>
   ga_factory g ''udpsrc'' \<Longrightarrow> ''udpsrc'' \<in> set (vp_loose (start_pipeline g o'))"
  by (simp add: start_pipeline_def elements_before_def Let_def)

text \<open>Heartbeats are at least a second apart.\<close>

definition heartbeat_times :: "string \<Rightarrow> worker \<Rightarrow> int list" where
  "heartbeat_times name w = map fst (filter (\<lambda>e. snd e = line_payload (''heartbeat '' @ name)) (wk_sent w))"

definition spaced :: "worker \<Rightarrow> int list \<Rightarrow> bool" where
  "spaced w ts \<longleftrightarrow> sorted_wrt (\<lambda>a b. a + ms 1000 \<le> b) ts \<and> (\<forall>t \<in> set ts. t + ms 1000 \<le> wk_next w)"

lemma heartbeat_spaced:
  assumes "spaced w (heartbeat_times name w)" "now \<le> now2"
  shows "spaced (send_heartbeat name now now2 w) (heartbeat_times name (send_heartbeat name now now2 w))"
  using assms
  by (fastforce simp: send_heartbeat_def worker_send_def spaced_def heartbeat_times_def sorted_wrt_append client_send_line_def ms_def)

end
