(* ===== verification/Raster.thy ===== *)
theory Raster
  imports Cpp_Numbers "HOL-Library.Signed_Division"
begin

text \<open>
  The software rasterizer of \<open>src/glide_ui/minimap_widget.cpp\<close>: rectangles, circles, triangles, lines and
  letters in a buffer of ARGB pixels. A buffer of a picture of \<open>w\<close> by \<open>h\<close> pixels is the list of its rows.
  Coordinates are mathematical integers: the source uses \<open>int\<close> and the model covers the calls that do
  not overflow it.
\<close>

unbundle bit_operations_syntax

section \<open>Colors\<close>

definition argb :: "u8 \<Rightarrow> u8 \<Rightarrow> u8 \<Rightarrow> u8 \<Rightarrow> u32" where
  "argb a r g b = push_bit 24 (ucast a) OR push_bit 16 (ucast r) OR push_bit 8 (ucast g) OR ucast b"

definition rgb :: "u32 \<Rightarrow> u32" where
  "rgb v = 0xFF000000 OR (v AND 0x00FFFFFF)"

text \<open>The channel \<open>(color >> s) & 0xff\<close>.\<close>

definition channel :: "nat \<Rightarrow> u32 \<Rightarrow> u32" where
  "channel s c = drop_bit s c AND 0xFF"

definition blend :: "u32 \<Rightarrow> u32 \<Rightarrow> u32" where
  "blend color dest =
     (let a = channel 24 color; inv = 255 - a;
          mix = (\<lambda>s. ucast ((channel s color * a + channel s dest * inv) div 255))
      in argb 0xFF (mix 16) (mix 8) (mix 0))"

section \<open>Pixels\<close>

definition inside :: "int \<Rightarrow> int \<Rightarrow> int \<Rightarrow> int \<Rightarrow> bool" where
  "inside w h x y \<longleftrightarrow> \<not> (x < 0 \<or> y < 0 \<or> w \<le> x \<or> h \<le> y)"

definition at :: "int \<Rightarrow> int \<Rightarrow> int \<Rightarrow> nat" where
  "at w x y = nat y * nat w + nat x"

definition put_pixel :: "int \<Rightarrow> int \<Rightarrow> int \<Rightarrow> int \<Rightarrow> u32 \<Rightarrow> u32 list \<Rightarrow> u32 list" where
  "put_pixel w h x y color buf = (if \<not> inside w h x y then buf else buf[at w x y := color])"

definition blend_pixel :: "int \<Rightarrow> int \<Rightarrow> int \<Rightarrow> int \<Rightarrow> u32 \<Rightarrow> u32 list \<Rightarrow> u32 list" where
  "blend_pixel w h x y color buf =
     (if \<not> inside w h x y then buf
      else if channel 24 color = 0xFF then put_pixel w h x y color buf
      else buf[at w x y := blend color (buf ! at w x y)])"

section \<open>Shapes\<close>

text \<open>The points of two nested loops from \<open>a\<close> to \<open>b\<close>, both included, the outer one over \<open>y\<close>.\<close>

definition grid :: "int \<Rightarrow> int \<Rightarrow> int \<Rightarrow> int \<Rightarrow> (int \<times> int) list" where
  "grid ax bx ay by' = concat (map (\<lambda>y. map (\<lambda>x. (x, y)) [ax..bx]) [ay..by'])"

definition fill_row :: "nat \<Rightarrow> nat \<Rightarrow> u32 \<Rightarrow> u32 list \<Rightarrow> u32 list" where
  "fill_row i j color buf = take i buf @ replicate (min j (length buf) - i) color @ drop (max i j) buf"

definition fill_rect :: "int \<Rightarrow> int \<Rightarrow> int \<Rightarrow> int \<Rightarrow> int \<Rightarrow> int \<Rightarrow> u32 \<Rightarrow> u32 list \<Rightarrow> u32 list" where
  "fill_rect w h x y rw rh color buf =
     (let x1 = max 0 x; y1 = max 0 y; x2 = min w (x + rw); y2 = min h (y + rh) in
      if x2 \<le> x1 \<or> y2 \<le> y1 then buf
      else fold (\<lambda>yy. fill_row (nat (yy * w + x1)) (nat (yy * w + x2)) color) [y1..y2 - 1] buf)"

definition fill_circle :: "int \<Rightarrow> int \<Rightarrow> int \<Rightarrow> int \<Rightarrow> int \<Rightarrow> u32 \<Rightarrow> u32 list \<Rightarrow> u32 list" where
  "fill_circle w h cx cy r color buf =
     fold (\<lambda>(x, y). if x * x + y * y \<le> r * r then blend_pixel w h (cx + x) (cy + y) color else id) (grid (- r) r (- r) r) buf"

definition draw_circle :: "int \<Rightarrow> int \<Rightarrow> int \<Rightarrow> int \<Rightarrow> int \<Rightarrow> u32 \<Rightarrow> u32 list \<Rightarrow> u32 list" where
  "draw_circle w h cx cy r color buf =
     fold (\<lambda>(x, y). if x * x + y * y \<le> r * r then put_pixel w h (cx + x) (cy + y) color else id) (grid (- r) r (- r) r) buf"

definition draw_circle_outline :: "int \<Rightarrow> int \<Rightarrow> int \<Rightarrow> int \<Rightarrow> int \<Rightarrow> int \<Rightarrow> u32 \<Rightarrow> u32 list \<Rightarrow> u32 list" where
  "draw_circle_outline w h cx cy r thickness color buf =
     (let outer = r * r; inner_radius = max 0 (r - thickness); inner = inner_radius * inner_radius in
      fold (\<lambda>(x, y). if x * x + y * y \<le> outer \<and> inner \<le> x * x + y * y then blend_pixel w h (cx + x) (cy + y) color else id)
        (grid (- r) r (- r) r) buf)"

definition edge :: "int \<times> int \<Rightarrow> int \<times> int \<Rightarrow> int \<Rightarrow> int \<Rightarrow> int" where
  "edge a b x y = (x - fst a) * (snd b - snd a) - (y - snd a) * (fst b - fst a)"

definition in_triangle :: "int \<times> int \<Rightarrow> int \<times> int \<Rightarrow> int \<times> int \<Rightarrow> int \<Rightarrow> int \<Rightarrow> bool" where
  "in_triangle a b c x y \<longleftrightarrow>
     0 \<le> edge a b x y \<and> 0 \<le> edge b c x y \<and> 0 \<le> edge c a x y \<or>
     edge a b x y \<le> 0 \<and> edge b c x y \<le> 0 \<and> edge c a x y \<le> 0"

definition fill_triangle ::
  "int \<Rightarrow> int \<Rightarrow> int \<times> int \<Rightarrow> int \<times> int \<Rightarrow> int \<times> int \<Rightarrow> u32 \<Rightarrow> u32 list \<Rightarrow> u32 list" where
  "fill_triangle w h a b c color buf =
     fold (\<lambda>(x, y). if in_triangle a b c x y then put_pixel w h x y color else id)
       (grid (max 0 (min (fst a) (min (fst b) (fst c)))) (min (w - 1) (max (fst a) (max (fst b) (fst c))))
          (max 0 (min (snd a) (min (snd b) (snd c)))) (min (h - 1) (max (snd a) (max (snd b) (snd c))))) buf"

section \<open>Lines\<close>

text \<open>The loop of \<open>draw_line\<close>; \<open>None\<close> when it does not end.\<close>

partial_function (option) line_loop ::
  "int \<Rightarrow> int \<Rightarrow> u32 \<Rightarrow> int \<Rightarrow> int \<Rightarrow> int \<Rightarrow> int \<Rightarrow> int \<Rightarrow> int \<Rightarrow> int \<Rightarrow> int \<Rightarrow> int \<Rightarrow> u32 list \<Rightarrow> u32 list option" where
  "line_loop w h color x1 y1 dx sx dy sy error x0 y0 buf =
     (let buf1 = put_pixel w h x0 (y0 + 1) color (put_pixel w h (x0 + 1) y0 color (put_pixel w h x0 y0 color buf)) in
      if x0 = x1 \<and> y0 = y1 then Some buf1
      else let twice = 2 * error;
               right = (dy \<le> twice); down = (twice \<le> dx)
           in line_loop w h color x1 y1 dx sx dy sy (error + (if right then dy else 0) + (if down then dx else 0))
                (if right then x0 + sx else x0) (if down then y0 + sy else y0) buf1)"

definition draw_line :: "int \<Rightarrow> int \<Rightarrow> int \<Rightarrow> int \<Rightarrow> int \<Rightarrow> int \<Rightarrow> u32 \<Rightarrow> u32 list \<Rightarrow> u32 list option" where
  "draw_line w h x0 y0 x1 y1 color buf =
     (let dx = \<bar>x1 - x0\<bar>; dy = - \<bar>y1 - y0\<bar> in
      line_loop w h color x1 y1 dx (if x0 < x1 then 1 else - 1) dy (if y0 < y1 then 1 else - 1) (dx + dy) x0 y0 buf)"

text \<open>Several lines after each other.\<close>

fun draw_lines :: "int \<Rightarrow> int \<Rightarrow> u32 \<Rightarrow> (int \<times> int \<times> int \<times> int) list \<Rightarrow> u32 list \<Rightarrow> u32 list option" where
  "draw_lines w h color [] buf = Some buf"
| "draw_lines w h color ((x0, y0, x1, y1) # ls) buf =
     (case draw_line w h x0 y0 x1 y1 color buf of None \<Rightarrow> None | Some buf1 \<Rightarrow> draw_lines w h color ls buf1)"

definition draw_line_width :: "int \<Rightarrow> int \<Rightarrow> int \<Rightarrow> int \<Rightarrow> int \<Rightarrow> int \<Rightarrow> int \<Rightarrow> u32 \<Rightarrow> u32 list \<Rightarrow> u32 list option" where
  "draw_line_width w h x0 y0 x1 y1 thickness color buf =
     (let r = max 0 (thickness sdiv 2) in
      draw_lines w h color
        (map (\<lambda>(ox, oy). (x0 + ox, y0 + oy, x1 + ox, y1 + oy)) (filter (\<lambda>(ox, oy). ox * ox + oy * oy \<le> r * r) (grid (- r) r (- r) r)))
        buf)"

section \<open>Letters\<close>

definition letter_rows :: "char \<Rightarrow> string list" where
  "letter_rows c =
     (if c = CHR ''N'' then [''1001'', ''1101'', ''1101'', ''1011'', ''1011'', ''1001'', ''1001'']
      else if c = CHR ''S'' then [''1111'', ''1000'', ''1000'', ''1110'', ''0001'', ''0001'', ''1110'']
      else if c = CHR ''E'' then [''1111'', ''1000'', ''1000'', ''1110'', ''1000'', ''1000'', ''1111'']
      else if c = CHR ''W'' then [''10001'', ''10001'', ''10101'', ''10101'', ''10101'', ''11011'', ''10001'']
      else [])"

definition draw_segment_letter :: "int \<Rightarrow> int \<Rightarrow> int \<Rightarrow> int \<Rightarrow> char \<Rightarrow> int \<Rightarrow> u32 \<Rightarrow> u32 list \<Rightarrow> u32 list" where
  "draw_segment_letter w h x y letter scale color buf =
     (let rows = letter_rows letter in
      if rows = [] then buf
      else fold (\<lambda>(gx, gy). if rows ! nat gy ! nat gx = CHR ''1''
             then fill_rect w h (x + gx * scale) (y + gy * scale) scale scale color else id)
             (grid 0 (int (length (rows ! 0)) - 1) 0 6) buf)"

text \<open>The sine and cosine of the bearing times the radius, rounded, are arguments.\<close>

definition draw_compass_label :: "int \<Rightarrow> int \<Rightarrow> int \<Rightarrow> int \<Rightarrow> int \<times> int \<Rightarrow> char \<Rightarrow> u32 list \<Rightarrow> u32 list" where
  "draw_compass_label w h cx cy offset label buf =
     (let lw = (if label = CHR ''W'' then 5 * 2 else 4 * 2); lh = 7 * 2;
          x = cx + fst offset - lw sdiv 2; y = cy - snd offset - lh sdiv 2 in
      draw_segment_letter w h x y label 2 (argb 0xFF 0xF9 0xFF 0xF4)
        (draw_segment_letter w h (x + 1) (y + 1) label 2 (argb 0xFF 0x04 0x10 0x13) buf))"

end
