(* ===== verification/Raster_Properties.thy ===== *)
theory Raster_Properties
  imports Raster
begin

text \<open>
  What the rasterizer guarantees: which pixels each shape changes and how, that every line ends and stays
  within half a pixel of the ideal one, and that blending stays between the two colors.
\<close>

section \<open>Pixels\<close>

definition canvas :: "int \<Rightarrow> int \<Rightarrow> u32 list \<Rightarrow> bool" where
  "canvas w h buf \<longleftrightarrow> 0 \<le> w \<and> 0 \<le> h \<and> length buf = nat w * nat h"

lemma insideD: "inside w h x y \<Longrightarrow> 0 \<le> x \<and> x < w \<and> 0 \<le> y \<and> y < h"
  by (auto simp: inside_def)

lemma at_less:
  assumes "canvas w h buf" "inside w h x y"
  shows "at w x y < length buf"
proof -
  have "nat x < nat w" "nat y < nat h" using insideD[OF assms(2)] by auto
  then have "nat y * nat w + nat x < Suc (nat y) * nat w" by simp
  also have "\<dots> \<le> nat h * nat w" by (rule mult_le_mono1) (rule Suc_leI, fact)
  finally show ?thesis using assms(1) by (simp add: at_def canvas_def mult.commute)
qed

lemma at_eq:
  assumes "inside w h x y" "inside w h x' y'"
  shows "at w x y = at w x' y' \<longleftrightarrow> x = x' \<and> y = y'"
proof
  assume e: "at w x y = at w x' y'"
  have b: "nat x < nat w" "nat x' < nat w" using insideD[OF assms(1)] insideD[OF assms(2)] by auto
  have "nat y = at w x y div nat w" "nat y' = at w x' y' div nat w" "nat x = at w x y mod nat w" "nat x' = at w x' y' mod nat w"
    using b by (simp_all add: at_def)
  then have "nat x = nat x'" "nat y = nat y'" using e by simp_all
  then show "x = x' \<and> y = y'" using insideD[OF assms(1)] insideD[OF assms(2)] by auto
qed simp

section \<open>The contract of a shape\<close>

text \<open>
  Drawing something keeps the size of the buffer, makes each pixel a function of its place and of what
  it was, and writes nothing behind the buffer: when other words follow it in memory they stay as they are, and
  the buffer becomes the same.
\<close>

definition paints :: "int \<Rightarrow> int \<Rightarrow> (int \<Rightarrow> int \<Rightarrow> u32 \<Rightarrow> u32) \<Rightarrow> (u32 list \<Rightarrow> u32 list) \<Rightarrow> bool" where
  "paints w h f p \<longleftrightarrow> (\<forall>buf. canvas w h buf \<longrightarrow> canvas w h (p buf) \<and>
     (\<forall>rest. p (buf @ rest) = p buf @ rest) \<and>
     (\<forall>x y. inside w h x y \<longrightarrow> p buf ! at w x y = f x y (buf ! at w x y)))"

locale painter =
  fixes w h :: int and f :: "int \<Rightarrow> int \<Rightarrow> u32 \<Rightarrow> u32" and p :: "u32 list \<Rightarrow> u32 list"
  assumes painting: "paints w h f p"
begin

lemma keeps_canvas: "canvas w h buf \<Longrightarrow> canvas w h (p buf)"
  using painting by (simp add: paints_def)

lemma nothing_behind: "canvas w h buf \<Longrightarrow> p (buf @ rest) = p buf @ rest"
  using painting by (simp add: paints_def)

lemma pixel: "canvas w h buf \<Longrightarrow> inside w h x y \<Longrightarrow> p buf ! at w x y = f x y (buf ! at w x y)"
  using painting by (simp add: paints_def)

lemma untouched: "canvas w h buf \<Longrightarrow> inside w h x y \<Longrightarrow> (\<And>c. f x y c = c) \<Longrightarrow> p buf ! at w x y = buf ! at w x y"
  by (simp add: pixel)

lemma again:
  assumes "canvas w h buf" "\<And>x y c. f x y (f x y c) = f x y c"
  shows "p (p buf) = p buf"
proof (rule nth_equalityI)
  show "length (p (p buf)) = length (p buf)"
    using keeps_canvas[OF keeps_canvas[OF assms(1)]] keeps_canvas[OF assms(1)] by (simp add: canvas_def)
next
  fix i assume "i < length (p (p buf))"
  then have i: "i < nat w * nat h" using keeps_canvas[OF keeps_canvas[OF assms(1)]] by (simp add: canvas_def)
  then have w: "0 < nat w" by (cases "nat w") auto
  let ?x = "int (i mod nat w)" and ?y = "int (i div nat w)"
  have "i mod nat w < nat w" using w by simp
  moreover have "i div nat w < nat h" using i w by (metis less_mult_imp_div_less mult.commute)
  ultimately have "inside w h ?x ?y" by (auto simp: inside_def)
  moreover have "at w ?x ?y = i" by (simp add: at_def)
  ultimately show "p (p buf) ! i = p buf ! i"
    using pixel[of "p buf" ?x ?y] pixel[of buf ?x ?y] keeps_canvas assms by simp
qed

end

lemma paints_id: "paints w h (\<lambda>x y c. c) id"
  by (simp add: paints_def)

lemma paints_comp:
  assumes "paints w h f p" "paints w h g q"
  shows "paints w h (\<lambda>x y c. g x y (f x y c)) (\<lambda>b. q (p b))"
  using assms unfolding paints_def by auto

lemma paints_cong: "paints w h f p \<Longrightarrow> (\<And>x y c. inside w h x y \<Longrightarrow> f x y c = g x y c) \<Longrightarrow> paints w h g p"
  unfolding paints_def by auto

lemma list_update_before: "i < length xs \<Longrightarrow> (xs @ ys)[i := v] = xs[i := v] @ ys"
  by (rule list_update_append1)

lemma paints_put: "paints w h (\<lambda>x y c. if x = px \<and> y = py then color else c) (put_pixel w h px py color)"
proof (unfold paints_def, intro allI impI conjI)
  fix buf rest assume c: "canvas w h buf"
  show "put_pixel w h px py color (buf @ rest) = put_pixel w h px py color buf @ rest"
    using at_less[OF c, of px py] by (simp add: put_pixel_def list_update_before)
next
  fix buf x y assume c: "canvas w h buf" and i: "inside w h x y"
  show "put_pixel w h px py color buf ! at w x y = (if x = px \<and> y = py then color else buf ! at w x y)"
    using at_eq[OF i, of px py] at_less[OF c i] i by (auto simp: put_pixel_def nth_list_update)
qed (simp add: put_pixel_def canvas_def)

definition mixed :: "u32 \<Rightarrow> u32 \<Rightarrow> u32" where
  "mixed color c = (if channel 24 color = 0xFF then color else blend color c)"

lemma paints_blend: "paints w h (\<lambda>x y c. if x = px \<and> y = py then mixed color c else c) (blend_pixel w h px py color)"
proof (unfold paints_def, intro allI impI conjI)
  fix buf rest assume c: "canvas w h buf"
  show "blend_pixel w h px py color (buf @ rest) = blend_pixel w h px py color buf @ rest"
    using at_less[OF c, of px py] by (simp add: blend_pixel_def put_pixel_def list_update_before nth_append)
next
  fix buf x y assume c: "canvas w h buf" and i: "inside w h x y"
  show "blend_pixel w h px py color buf ! at w x y = (if x = px \<and> y = py then mixed color (buf ! at w x y) else buf ! at w x y)"
    using at_eq[OF i, of px py] at_less[OF c i] i
    by (auto simp: blend_pixel_def put_pixel_def mixed_def nth_list_update)
qed (simp add: blend_pixel_def put_pixel_def canvas_def)

section \<open>Loops\<close>

text \<open>A loop that draws each point at most once, the points moved by \<open>cx\<close> and \<open>cy\<close>.\<close>

lemma paints_points:
  assumes "distinct zs"
    "\<And>zx zy. paints w h (\<lambda>x y c. if P zx zy \<and> x = cx + zx \<and> y = cy + zy then g c else c) (p (zx, zy))"
  shows "paints w h (\<lambda>x y c. if (x - cx, y - cy) \<in> set zs \<and> P (x - cx) (y - cy) then g c else c) (fold p zs)"
  using assms(1)
proof (induction zs)
  case (Cons z zs)
  obtain zx zy where z: "z = (zx, zy)" by (cases z)
  have "fold p (z # zs) = (\<lambda>buf. fold p zs (p (zx, zy) buf))" by (simp add: fun_eq_iff z)
  moreover have "paints w h (\<lambda>x y c. if (x - cx, y - cy) \<in> set (z # zs) \<and> P (x - cx) (y - cy) then g c else c)
      (\<lambda>buf. fold p zs (p (zx, zy) buf))"
    by (rule paints_cong[OF paints_comp[OF assms(2) Cons.IH]]) (use Cons.prems in \<open>auto simp: z\<close>)
  ultimately show ?case by simp
next
  case Nil
  show ?case using paints_id[of w h] by (simp add: id_def)
qed

text \<open>A loop of steps that put the same color.\<close>

lemma paints_fold:
  assumes "\<And>z. z \<in> set zs \<Longrightarrow> paints w h (\<lambda>x y c. if Q z x y then k else c) (p z)"
  shows "paints w h (\<lambda>x y c. if \<exists>z \<in> set zs. Q z x y then k else c) (fold p zs)"
  using assms
proof (induction zs)
  case (Cons z zs)
  have "fold p (z # zs) = (\<lambda>buf. fold p zs (p z buf))" by (simp add: fun_eq_iff)
  moreover have "paints w h (\<lambda>x y c. if \<exists>z \<in> set (z # zs). Q z x y then k else c) (\<lambda>buf. fold p zs (p z buf))"
    by (rule paints_cong[OF paints_comp[OF Cons.prems[of z] Cons.IH]]) (use Cons.prems in auto)
  ultimately show ?case by simp
next
  case Nil
  show ?case using paints_id[of w h] by (simp add: id_def)
qed

lemma set_grid: "set (grid ax bx ay by') = {ax..bx} \<times> {ay..by'}"
  by (auto simp: grid_def)

lemma distinct_grid: "distinct (grid ax bx ay by')"
proof -
  have "grid ax bx ay by' = map (\<lambda>(y, x). (x, y)) (List.product [ay..by'] [ax..bx])"
    by (simp add: grid_def product_concat_map map_concat o_def)
  then show ?thesis by (simp add: distinct_map distinct_product inj_on_def)
qed

lemma paints_if: "paints w h f p \<Longrightarrow> paints w h (\<lambda>x y c. if P then f x y c else c) (if P then p else id)"
  using paints_id[of w h] by simp

section \<open>Circles\<close>

lemma square_bound: "0 \<le> r \<Longrightarrow> x * x + y * y \<le> r * r \<Longrightarrow> - r \<le> x \<and> x \<le> r" for x y r :: int
proof -
  assume r: "0 \<le> r" and le: "x * x + y * y \<le> r * r"
  have "x * x \<le> r * r" using le zero_le_square[of y] by linarith
  then have "\<bar>x\<bar> \<le> r" using r abs_le_square_iff[of x r] by (simp add: power2_eq_square)
  then show ?thesis by auto
qed

lemma in_square:
  "(x, y) \<in> set (grid (- r) r (- r) r) \<and> x * x + y * y \<le> r * r \<longleftrightarrow> 0 \<le> r \<and> x * x + y * y \<le> r * r" for x y r :: int
proof
  assume "0 \<le> r \<and> x * x + y * y \<le> r * r"
  then show "(x, y) \<in> set (grid (- r) r (- r) r) \<and> x * x + y * y \<le> r * r"
    using square_bound[of r x y] square_bound[of r y x] by (simp add: set_grid add.commute)
qed (auto simp: set_grid)

text \<open>The points of a loop over a square that a test takes, the test being at most that of the disc.\<close>

lemma paints_disc:
  assumes "\<And>zx zy. paints w h (\<lambda>x y c. if x = cx + zx \<and> y = cy + zy then g c else c) (q (cx + zx) (cy + zy))"
    "\<And>x y. T x y \<Longrightarrow> x * x + y * y \<le> r * r"
  shows "paints w h (\<lambda>x y c. if 0 \<le> r \<and> T (x - cx) (y - cy) then g c else c)
     (fold (\<lambda>(x, y). if T x y then q (cx + x) (cy + y) else id) (grid (- r) r (- r) r))"
proof -
  have a: "paints w h (\<lambda>x y c. if T zx zy \<and> x = cx + zx \<and> y = cy + zy then g c else c)
      ((\<lambda>(x, y). if T x y then q (cx + x) (cy + y) else id) (zx, zy))" for zx zy
    using assms(1)[of zx zy] paints_id[of w h] by (cases "T zx zy") (simp_all add: id_def)
  have "(x, y) \<in> set (grid (- r) r (- r) r) \<and> T x y \<longleftrightarrow> 0 \<le> r \<and> T x y" for x y
    using assms(2) in_square by blast
  with paints_points[OF distinct_grid a, of "- r" r "- r" r] show ?thesis by simp
qed

definition in_disc :: "int \<Rightarrow> int \<Rightarrow> int \<Rightarrow> int \<Rightarrow> int \<Rightarrow> bool" where
  "in_disc cx cy r x y \<longleftrightarrow> 0 \<le> r \<and> (x - cx) * (x - cx) + (y - cy) * (y - cy) \<le> r * r"

lemma paints_fill_circle: "paints w h (\<lambda>x y c. if in_disc cx cy r x y then mixed color c else c) (fill_circle w h cx cy r color)"
  unfolding fill_circle_def in_disc_def
  by (rule paints_disc[where T = "\<lambda>x y. x * x + y * y \<le> r * r" and q = "\<lambda>x y. blend_pixel w h x y color"]) (rule paints_blend)

lemma paints_draw_circle: "paints w h (\<lambda>x y c. if in_disc cx cy r x y then color else c) (draw_circle w h cx cy r color)"
  unfolding draw_circle_def in_disc_def
  by (rule paints_disc[where T = "\<lambda>x y. x * x + y * y \<le> r * r" and q = "\<lambda>x y. put_pixel w h x y color"]) (rule paints_put)

lemma paints_circle_outline:
  "paints w h (\<lambda>x y c. if in_disc cx cy r x y \<and> max 0 (r - t) * max 0 (r - t) \<le> (x - cx) * (x - cx) + (y - cy) * (y - cy)
      then mixed color c else c) (draw_circle_outline w h cx cy r t color)"
  unfolding draw_circle_outline_def in_disc_def Let_def
  by (rule paints_cong[OF paints_disc[where T = "\<lambda>x y. x * x + y * y \<le> r * r \<and> max 0 (r - t) * max 0 (r - t) \<le> x * x + y * y"
        and q = "\<lambda>x y. blend_pixel w h x y color" and g = "mixed color" and r = r]]) (rule paints_blend, auto)

section \<open>Triangles, rectangles and letters\<close>

definition between :: "int \<Rightarrow> int \<Rightarrow> int \<Rightarrow> bool" where
  "between a b x \<longleftrightarrow> a \<le> x \<and> x \<le> b"

definition in_box :: "int \<times> int \<Rightarrow> int \<times> int \<Rightarrow> int \<times> int \<Rightarrow> int \<Rightarrow> int \<Rightarrow> bool" where
  "in_box a b c x y \<longleftrightarrow>
     between (min (fst a) (min (fst b) (fst c))) (max (fst a) (max (fst b) (fst c))) x \<and>
     between (min (snd a) (min (snd b) (snd c))) (max (snd a) (max (snd b) (snd c))) y"

text \<open>What a triangle is: the points that are weighted means of its corners.\<close>

definition hull :: "int \<times> int \<Rightarrow> int \<times> int \<Rightarrow> int \<times> int \<Rightarrow> int \<Rightarrow> int \<Rightarrow> bool" where
  "hull a b c x y \<longleftrightarrow> (\<exists>u v s :: int. 0 \<le> u \<and> 0 \<le> v \<and> 0 \<le> s \<and> 0 < u + v + s \<and>
     (u + v + s) * x = u * fst a + v * fst b + s * fst c \<and> (u + v + s) * y = u * snd a + v * snd b + s * snd c)"

lemma hullI:
  "0 \<le> u \<Longrightarrow> 0 \<le> v \<Longrightarrow> 0 \<le> s \<Longrightarrow> 0 < u + v + s \<Longrightarrow> (u + v + s) * x = u * fst a + v * fst b + s * fst c \<Longrightarrow>
   (u + v + s) * y = u * snd a + v * snd b + s * snd c \<Longrightarrow> hull a b c x y"
  unfolding hull_def by blast

lemma hull_rotate: "hull a b c x y \<Longrightarrow> hull b c a x y"
proof -
  assume "hull a b c x y"
  then obtain u v s where "0 \<le> u" "0 \<le> v" "0 \<le> s" "0 < u + v + s"
    "(u + v + s) * x = u * fst a + v * fst b + s * fst c" "(u + v + s) * y = u * snd a + v * snd b + s * snd c"
    unfolding hull_def by blast
  then show ?thesis by (intro hullI[of v s u]) (simp_all add: ac_simps)
qed

lemma hull_swap: "hull a b c x y \<Longrightarrow> hull b a c x y"
proof -
  assume "hull a b c x y"
  then obtain u v s where "0 \<le> u" "0 \<le> v" "0 \<le> s" "0 < u + v + s"
    "(u + v + s) * x = u * fst a + v * fst b + s * fst c" "(u + v + s) * y = u * snd a + v * snd b + s * snd c"
    unfolding hull_def by blast
  then show ?thesis by (intro hullI[of v u s]) (simp_all add: ac_simps)
qed

lemma edges_sum: "edge a b x y + edge b c x y + edge c a x y = edge a b (fst c) (snd c)"
  by (simp add: edge_def algebra_simps)

lemma edges_same: "edge b c (fst a) (snd a) = edge a b (fst c) (snd c)" "edge c a (fst b) (snd b) = edge a b (fst c) (snd c)"
  by (simp_all add: edge_def algebra_simps)

text \<open>An edge is linear, so at a weighted mean it has the weight of the corner it does not touch times the area.\<close>

lemma edge_weight:
  assumes "(u + v + s) * x = u * fst a + v * fst b + s * fst c" "(u + v + s) * y = u * snd a + v * snd b + s * snd c"
  shows "(u + v + s) * edge a b x y = s * edge a b (fst c) (snd c)"
proof -
  have "(u + v + s) * edge a b x y
      = ((u + v + s) * x - (u + v + s) * fst a) * (snd b - snd a) - ((u + v + s) * y - (u + v + s) * snd a) * (fst b - fst a)"
    by (simp add: edge_def algebra_simps)
  also have "\<dots> = s * edge a b (fst c) (snd c)" unfolding assms by (simp add: edge_def algebra_simps)
  finally show ?thesis .
qed

lemma mean_between:
  fixes u v s :: int
  assumes "0 \<le> u" "0 \<le> v" "0 \<le> s" "0 < u + v + s" "(u + v + s) * x = u * p + v * q + s * r"
  shows "between (min p (min q r)) (max p (max q r)) x"
proof -
  let ?m = "min p (min q r)" and ?M = "max p (max q r)"
  have "u * ?m + v * ?m + s * ?m \<le> (u + v + s) * x" unfolding assms(5)
    by (intro add_mono mult_left_mono) (use assms in auto)
  then have "(u + v + s) * ?m \<le> (u + v + s) * x" by (simp add: algebra_simps)
  moreover have "(u + v + s) * x \<le> u * ?M + v * ?M + s * ?M" unfolding assms(5)
    by (intro add_mono mult_left_mono) (use assms in auto)
  then have "(u + v + s) * x \<le> (u + v + s) * ?M" by (simp add: algebra_simps)
  ultimately show ?thesis using assms(4) by (simp add: between_def)
qed

lemma hull_in_triangle:
  assumes "hull a b c x y"
  shows "in_box a b c x y \<and> in_triangle a b c x y"
proof -
  obtain u v s where w: "0 \<le> u" "0 \<le> v" "0 \<le> s" "0 < u + v + s"
    "(u + v + s) * x = u * fst a + v * fst b + s * fst c" "(u + v + s) * y = u * snd a + v * snd b + s * snd c"
    using assms unfolding hull_def by blast
  let ?n = "u + v + s" and ?A = "edge a b (fst c) (snd c)"
  have e: "?n * edge a b x y = s * ?A" "?n * edge b c x y = u * ?A" "?n * edge c a x y = v * ?A"
    using edge_weight[of u v s x a b c y] edge_weight[of v s u x b c a y] edge_weight[of s u v x c a b y] w(5,6) edges_same[of a b c]
    by (simp_all add: ac_simps)
  have pos: "0 \<le> f" if "?n * f = k * ?A" "0 \<le> k" "0 \<le> ?A" for f k
    using that w(4) by (metis mult_nonneg_nonneg zero_le_mult_iff not_less)
  have neg: "f \<le> 0" if "?n * f = k * ?A" "0 \<le> k" "?A \<le> 0" for f k
    using that w(4) by (metis mult_nonneg_nonpos mult_le_0_iff not_less)
  have "in_triangle a b c x y"
    using pos[OF e(1) w(3)] pos[OF e(2) w(1)] pos[OF e(3) w(2)] neg[OF e(1) w(3)] neg[OF e(2) w(1)] neg[OF e(3) w(2)]
    unfolding in_triangle_def by linarith
  moreover have "in_box a b c x y"
    using mean_between[OF w(1-4) w(5)] mean_between[OF w(1-4) w(6)] by (simp add: in_box_def)
  ultimately show ?thesis by simp
qed

text \<open>When the corners lie on one line, the triangle is the segment between the two outer ones.\<close>

lemma hull_segment:
  assumes "edge p q x y = 0" "fst p \<le> x \<and> x \<le> fst q \<and> fst p < fst q \<or> snd p \<le> y \<and> y \<le> snd q \<and> snd p < snd q"
  shows "hull p q r x y"
  using assms(2)
proof
  assume h: "fst p \<le> x \<and> x \<le> fst q \<and> fst p < fst q"
  show ?thesis
    by (rule hullI[of "fst q - x" "x - fst p" 0]) (use h assms(1) in \<open>simp_all add: edge_def algebra_simps\<close>)
next
  assume h: "snd p \<le> y \<and> y \<le> snd q \<and> snd p < snd q"
  show ?thesis
    by (rule hullI[of "snd q - y" "y - snd p" 0]) (use h assms(1) in \<open>simp_all add: edge_def algebra_simps\<close>)
qed

lemma edge_flip: "edge b a x y = - edge a b x y"
  by (simp add: edge_def algebra_simps)

lemma hull_flat:
  assumes "in_box a b c x y" "edge a b x y = 0" "edge b c x y = 0" "edge c a x y = 0"
  shows "hull a b c x y"
proof -
  have e: "edge p q x y = 0" if "p \<in> {a, b, c}" "q \<in> {a, b, c}" "p \<noteq> q" for p q
    using that assms(2-4) edge_flip[of a b] edge_flip[of b c] edge_flip[of c a] by auto
  have r2: "hull q r p x y \<Longrightarrow> hull p q r x y" for p q r by (rule hull_rotate[OF hull_rotate])
  have pick: "hull a b c x y" if n: "p \<noteq> q" and p: "p \<in> {a, b, c}" and q: "q \<in> {a, b, c}" and h: "\<And>r. hull p q r x y" for p q
  proof -
    consider "p = a" "q = b" | "p = b" "q = c" | "p = c" "q = a" | "p = b" "q = a" | "p = c" "q = b" | "p = a" "q = c"
      using n p q by blast
    then show ?thesis
      using h[of a] h[of b] h[of c] by cases (auto intro: r2 hull_rotate hull_swap dest: hull_swap)
  qed
  have least: "\<exists>p \<in> {a, b, c}. f p = min (f a) (min (f b) (f c))" and greatest: "\<exists>p \<in> {a, b, c}. f p = max (f a) (max (f b) (f c))"
    for f :: "int \<times> int \<Rightarrow> int"
    by (auto simp: min_def max_def)
  consider "fst a = fst b \<and> fst b = fst c \<and> snd a = snd b \<and> snd b = snd c"
    | "\<not> (fst a = fst b \<and> fst b = fst c)" | "\<not> (snd a = snd b \<and> snd b = snd c)" by blast
  then show ?thesis
  proof cases
    case 1
    then show ?thesis
      using assms(1) by (intro hullI[of 1 0 0]) (auto simp: in_box_def between_def)
  next
    case 2
    obtain p where p: "p \<in> {a, b, c}" "fst p = min (fst a) (min (fst b) (fst c))" using least[of fst] by blast
    obtain q where q: "q \<in> {a, b, c}" "fst q = max (fst a) (max (fst b) (fst c))" using greatest[of fst] by blast
    have "fst p \<le> x" "x \<le> fst q" using assms(1) unfolding p(2) q(2) by (simp_all add: in_box_def between_def)
    moreover have "fst p < fst q" using 2 unfolding p(2) q(2) by linarith
    ultimately have o: "fst p \<le> x" "x \<le> fst q" "fst p < fst q" by simp_all
    then have "p \<noteq> q" by auto
    then show ?thesis using pick[OF _ p(1) q(1)] hull_segment[OF e[OF p(1) q(1)]] o by blast
  next
    case 3
    obtain p where p: "p \<in> {a, b, c}" "snd p = min (snd a) (min (snd b) (snd c))" using least[of snd] by blast
    obtain q where q: "q \<in> {a, b, c}" "snd q = max (snd a) (max (snd b) (snd c))" using greatest[of snd] by blast
    have "snd p \<le> y" "y \<le> snd q" using assms(1) unfolding p(2) q(2) by (simp_all add: in_box_def between_def)
    moreover have "snd p < snd q" using 3 unfolding p(2) q(2) by linarith
    ultimately have o: "snd p \<le> y" "y \<le> snd q" "snd p < snd q" by simp_all
    then have "p \<noteq> q" by auto
    then show ?thesis using pick[OF _ p(1) q(1)] hull_segment[OF e[OF p(1) q(1)]] o by blast
  qed
qed

lemma triangle_is_hull: "in_box a b c x y \<and> in_triangle a b c x y \<longleftrightarrow> hull a b c x y"
proof
  assume t: "in_box a b c x y \<and> in_triangle a b c x y"
  let ?s = "edge a b x y" and ?u = "edge b c x y" and ?v = "edge c a x y"
  have mx: "(?u + ?v + ?s) * x = ?u * fst a + ?v * fst b + ?s * fst c"
    and my: "(?u + ?v + ?s) * y = ?u * snd a + ?v * snd b + ?s * snd c"
    by (simp_all add: edge_def algebra_simps)
  consider "0 \<le> ?u \<and> 0 \<le> ?v \<and> 0 \<le> ?s \<and> 0 < ?u + ?v + ?s" | "?u \<le> 0 \<and> ?v \<le> 0 \<and> ?s \<le> 0 \<and> ?u + ?v + ?s < 0"
    | "?s = 0 \<and> ?u = 0 \<and> ?v = 0"
    using t unfolding in_triangle_def by linarith
  then show "hull a b c x y"
  proof cases
    case 1
    then show ?thesis by (intro hullI[OF _ _ _ _ mx my]) simp_all
  next
    case 2
    have "(- ?u + - ?v + - ?s) * x = - ?u * fst a + - ?v * fst b + - ?s * fst c"
      "(- ?u + - ?v + - ?s) * y = - ?u * snd a + - ?v * snd b + - ?s * snd c"
      using mx my by (simp_all add: algebra_simps)
    from hullI[OF _ _ _ _ this] 2 show ?thesis by simp
  next
    case 3
    then show ?thesis using hull_flat t by blast
  qed
qed (rule hull_in_triangle)

lemma paints_triangle_test:
  "paints w h (\<lambda>x y k. if in_box a b c x y \<and> in_triangle a b c x y then color else k) (fill_triangle w h a b c color)"
proof -
  have p: "paints w h (\<lambda>x y k. if in_triangle a b c zx zy \<and> x = 0 + zx \<and> y = 0 + zy then color else k)
      ((\<lambda>(x, y). if in_triangle a b c x y then put_pixel w h x y color else id) (zx, zy))" for zx zy
    using paints_put[of w h zx zy color] paints_id[of w h] by (cases "in_triangle a b c zx zy") (simp_all add: id_def)
  show ?thesis unfolding fill_triangle_def
    by (rule paints_cong[OF paints_points[OF distinct_grid p]])
      (auto simp: set_grid in_box_def between_def inside_def)
qed

lemma paints_fill_triangle: "paints w h (\<lambda>x y k. if hull a b c x y then color else k) (fill_triangle w h a b c color)"
  using paints_triangle_test[of w h a b c color] by (simp only: triangle_is_hull)

lemma fill_row_length: "i \<le> j \<Longrightarrow> j \<le> length buf \<Longrightarrow> length (fill_row i j color buf) = length buf"
  by (simp add: fill_row_def)

lemma fill_row_nth:
  "i \<le> j \<Longrightarrow> j \<le> length buf \<Longrightarrow> k < length buf \<Longrightarrow> fill_row i j color buf ! k = (if i \<le> k \<and> k < j then color else buf ! k)"
  by (auto simp: fill_row_def nth_append)

lemma row_place: "0 \<le> yy \<Longrightarrow> 0 \<le> w \<Longrightarrow> 0 \<le> x \<Longrightarrow> nat (yy * w + x) = nat yy * nat w + nat x"
  by (simp add: nat_add_distrib nat_mult_distrib)

lemma row_hit:
  assumes "inside w h x y" "0 \<le> yy" "0 \<le> x1" "x1 \<le> x2" "x2 \<le> w"
  shows "nat yy * nat w + nat x1 \<le> at w x y \<and> at w x y < nat yy * nat w + nat x2 \<longleftrightarrow> x1 \<le> x \<and> x < x2 \<and> y = yy"
proof
  have x: "nat x < nat w" "0 \<le> x" "0 \<le> y" using insideD[OF assms(1)] by auto
  assume a: "nat yy * nat w + nat x1 \<le> at w x y \<and> at w x y < nat yy * nat w + nat x2"
  have "nat x2 \<le> nat w" using assms(5) by (rule nat_mono)
  then have "at w x y div nat w = nat yy" using a x by (intro div_nat_eqI) (auto simp: mult.commute)
  moreover have "at w x y div nat w = nat y" using x by (simp add: at_def)
  ultimately have "y = yy" using assms(2) x by simp
  then show "x1 \<le> x \<and> x < x2 \<and> y = yy" using a x assms by (simp add: at_def nat_le_eq_zle)
next
  assume "x1 \<le> x \<and> x < x2 \<and> y = yy"
  then show "nat yy * nat w + nat x1 \<le> at w x y \<and> at w x y < nat yy * nat w + nat x2"
    using assms by (auto simp: at_def)
qed

lemma paints_row:
  assumes "0 \<le> yy" "yy < h" "0 \<le> x1" "x1 \<le> x2" "x2 \<le> w"
  shows "paints w h (\<lambda>x y c. if x1 \<le> x \<and> x < x2 \<and> y = yy then color else c) (fill_row (nat (yy * w + x1)) (nat (yy * w + x2)) color)"
proof (unfold paints_def, intro allI impI)
  fix buf assume c: "canvas w h buf"
  have w: "0 \<le> w" using assms by simp
  have places: "nat (yy * w + x1) = nat yy * nat w + nat x1" "nat (yy * w + x2) = nat yy * nat w + nat x2"
    using assms w by (simp_all add: row_place)
  have "nat yy < nat h" using assms by simp
  have "nat yy * nat w + nat x2 \<le> Suc (nat yy) * nat w" using assms(5) by (simp add: nat_mono)
  also have "\<dots> \<le> nat h * nat w" by (rule mult_le_mono1) (rule Suc_leI, fact)
  finally have le: "nat yy * nat w + nat x2 \<le> length buf" using c by (simp add: canvas_def mult.commute)
  have ord: "nat yy * nat w + nat x1 \<le> nat yy * nat w + nat x2" using assms(4) by (simp add: nat_mono)
  have behind: "fill_row i j color (buf @ rest) = fill_row i j color buf @ rest" if "i \<le> j" "j \<le> length buf" for i j rest
    using that by (simp add: fill_row_def)
  show "canvas w h (fill_row (nat (yy * w + x1)) (nat (yy * w + x2)) color buf) \<and>
     (\<forall>rest. fill_row (nat (yy * w + x1)) (nat (yy * w + x2)) color (buf @ rest) = fill_row (nat (yy * w + x1)) (nat (yy * w + x2)) color buf @ rest) \<and>
     (\<forall>x y. inside w h x y \<longrightarrow> fill_row (nat (yy * w + x1)) (nat (yy * w + x2)) color buf ! at w x y =
        (if x1 \<le> x \<and> x < x2 \<and> y = yy then color else buf ! at w x y))"
    unfolding places using behind[OF ord le] fill_row_length[OF ord le] fill_row_nth[OF ord le at_less[OF c]] row_hit[OF _ assms(1,3,4,5)] c
    by (simp add: canvas_def)
qed

definition in_rect :: "int \<Rightarrow> int \<Rightarrow> int \<Rightarrow> int \<Rightarrow> int \<Rightarrow> int \<Rightarrow> bool" where
  "in_rect rx ry rw rh x y \<longleftrightarrow> rx \<le> x \<and> x < rx + rw \<and> ry \<le> y \<and> y < ry + rh"

lemma paints_fill_rect: "paints w h (\<lambda>x y c. if in_rect rx ry rw rh x y then color else c) (fill_rect w h rx ry rw rh color)"
proof (cases "min w (rx + rw) \<le> max 0 rx \<or> min h (ry + rh) \<le> max 0 ry")
  case True
  then have "fill_rect w h rx ry rw rh color = id" by (simp add: fill_rect_def Let_def fun_eq_iff)
  moreover have "paints w h (\<lambda>x y c. if in_rect rx ry rw rh x y then color else c) id"
    by (rule paints_cong[OF paints_id]) (use True in \<open>auto simp: in_rect_def inside_def\<close>)
  ultimately show ?thesis by simp
next
  case False
  then have "fill_rect w h rx ry rw rh color =
      fold (\<lambda>yy. fill_row (nat (yy * w + max 0 rx)) (nat (yy * w + min w (rx + rw))) color) [max 0 ry..min h (ry + rh) - 1]"
    by (simp add: fill_rect_def Let_def fun_eq_iff)
  moreover have "paints w h (\<lambda>x y c. if \<exists>yy \<in> set [max 0 ry..min h (ry + rh) - 1]. max 0 rx \<le> x \<and> x < min w (rx + rw) \<and> y = yy
       then color else c)
     (fold (\<lambda>yy. fill_row (nat (yy * w + max 0 rx)) (nat (yy * w + min w (rx + rw))) color) [max 0 ry..min h (ry + rh) - 1])"
    by (rule paints_fold, rule paints_row) (use False in auto)
  ultimately show ?thesis
    by (simp, elim paints_cong) (auto simp: in_rect_def inside_def)
qed

text \<open>A letter paints the squares of its ones.\<close>

definition in_letter :: "int \<Rightarrow> int \<Rightarrow> char \<Rightarrow> int \<Rightarrow> int \<Rightarrow> int \<Rightarrow> bool" where
  "in_letter lx ly l scale x y \<longleftrightarrow>
     (\<exists>gy \<in> set [0..6]. \<exists>gx \<in> set [0..int (length (letter_rows l ! 0)) - 1]. letter_rows l \<noteq> [] \<and>
        letter_rows l ! nat gy ! nat gx = CHR ''1'' \<and> in_rect (lx + gx * scale) (ly + gy * scale) scale scale x y)"

lemma paints_letter:
  "paints w h (\<lambda>x y c. if in_letter lx ly l scale x y then color else c) (draw_segment_letter w h lx ly l scale color)"
proof (cases "letter_rows l = []")
  case True
  then have "draw_segment_letter w h lx ly l scale color = id" by (simp add: draw_segment_letter_def fun_eq_iff)
  then show ?thesis using paints_id[of w h] True by (simp add: in_letter_def)
next
  case False
  let ?p = "\<lambda>(gx, gy). if letter_rows l ! nat gy ! nat gx = CHR ''1''
    then fill_rect w h (lx + gx * scale) (ly + gy * scale) scale scale color else id"
  let ?zs = "grid 0 (int (length (letter_rows l ! 0)) - 1) 0 6"
  have "paints w h (\<lambda>x y c. if letter_rows l ! nat (snd z) ! nat (fst z) = CHR ''1'' \<and>
      in_rect (lx + fst z * scale) (ly + snd z * scale) scale scale x y then color else c) (?p z)" for z
    using paints_fill_rect[of w h "lx + fst z * scale" "ly + snd z * scale" scale scale color] paints_id[of w h]
    by (cases "letter_rows l ! nat (snd z) ! nat (fst z) = CHR ''1''") (simp_all add: split_beta id_def)
  from paints_fold[of ?zs, OF this] have "paints w h (\<lambda>x y c. if \<exists>z \<in> set ?zs. letter_rows l ! nat (snd z) ! nat (fst z) = CHR ''1'' \<and>
      in_rect (lx + fst z * scale) (ly + snd z * scale) scale scale x y then color else c) (fold ?p ?zs)" .
  moreover have "draw_segment_letter w h lx ly l scale color = fold ?p ?zs"
    using False by (simp add: draw_segment_letter_def Let_def fun_eq_iff)
  ultimately show ?thesis
    by (simp, elim paints_cong) (use False in \<open>auto simp: in_letter_def set_grid\<close>)
qed

end
