(* ===== verification/Raster_Lines.thy ===== *)
theory Raster_Lines
  imports Raster_Properties
begin

text \<open>
  \<open>draw_line\<close> against the line it approximates: the loop with its error term visits, for each step of the
  longer side, the point of the ideal line rounded to the nearest pixel.
\<close>

section \<open>The reference\<close>

text \<open>\<open>a * t / m\<close>, rounded to the nearest integer, half up.\<close>

definition rounded :: "int \<Rightarrow> int \<Rightarrow> int \<Rightarrow> int" where
  "rounded m a t = (2 * t * a + m) div (2 * m)"

definition longer :: "int \<Rightarrow> int \<Rightarrow> int \<Rightarrow> int \<Rightarrow> int" where
  "longer x0 y0 x1 y1 = max \<bar>x1 - x0\<bar> \<bar>y1 - y0\<bar>"

definition line_point :: "int \<Rightarrow> int \<Rightarrow> int \<Rightarrow> int \<Rightarrow> int \<Rightarrow> int \<times> int" where
  "line_point x0 y0 x1 y1 t =
     (x0 + (if x0 < x1 then 1 else - 1) * rounded (longer x0 y0 x1 y1) \<bar>x1 - x0\<bar> t,
      y0 + (if y0 < y1 then 1 else - 1) * rounded (longer x0 y0 x1 y1) \<bar>y1 - y0\<bar> t)"

definition line_points :: "int \<Rightarrow> int \<Rightarrow> int \<Rightarrow> int \<Rightarrow> (int \<times> int) list" where
  "line_points x0 y0 x1 y1 = map (line_point x0 y0 x1 y1) [0..longer x0 y0 x1 y1]"

definition stamp :: "int \<Rightarrow> int \<Rightarrow> u32 \<Rightarrow> int \<times> int \<Rightarrow> u32 list \<Rightarrow> u32 list" where
  "stamp w h color p buf =
     put_pixel w h (fst p) (snd p + 1) color (put_pixel w h (fst p + 1) (snd p) color (put_pixel w h (fst p) (snd p) color buf))"

section \<open>Rounding\<close>

lemma rounded_bounds:
  assumes "0 < m"
  shows "2 * m * rounded m a t \<le> 2 * t * a + m" "2 * t * a + m < 2 * m * rounded m a t + 2 * m"
proof -
  have "2 * m * rounded m a t + (2 * t * a + m) mod (2 * m) = 2 * t * a + m"
    unfolding rounded_def by (metis mult_div_mod_eq)
  moreover have "0 \<le> (2 * t * a + m) mod (2 * m)" "(2 * t * a + m) mod (2 * m) < 2 * m" using assms by simp_all
  ultimately show "2 * m * rounded m a t \<le> 2 * t * a + m" "2 * t * a + m < 2 * m * rounded m a t + 2 * m" by linarith+
qed

lemma rounded_eqI:
  assumes "0 < m" "2 * m * q \<le> 2 * t * a + m" "2 * t * a + m < 2 * m * q + 2 * m"
  shows "rounded m a t = q"
proof -
  have "2 * t * a + m = q * (2 * m) + (2 * t * a + m - 2 * m * q)" by (simp add: algebra_simps)
  moreover have "0 \<le> 2 * t * a + m - 2 * m * q" "2 * t * a + m - 2 * m * q < 2 * m" using assms by linarith+
  ultimately show ?thesis unfolding rounded_def
    by (metis (no_types) add.right_neutral assms(1) div_mult_self3 div_pos_pos_trivial mult_eq_0_iff order_less_irrefl zero_neq_numeral)
qed

lemma rounded_full: "0 < m \<Longrightarrow> rounded m m t = t"
  by (rule rounded_eqI) (auto simp: algebra_simps)

lemma rounded_end: "0 \<le> a \<Longrightarrow> a \<le> m \<Longrightarrow> rounded m a m = a"
  by (cases "m = 0") (auto simp: rounded_def algebra_simps intro!: rounded_eqI[unfolded rounded_def])

lemma rounded_start: "0 \<le> m \<Longrightarrow> rounded m a 0 = 0"
  by (cases "m = 0") (auto simp: rounded_def)

lemma rounded_Suc:
  assumes "0 < m" "0 \<le> a" "a \<le> m"
  shows "rounded m a (t + 1) = (if 2 * m \<le> 2 * (t + 1) * a + m - 2 * m * rounded m a t then rounded m a t + 1 else rounded m a t)"
  using rounded_bounds[OF assms(1), where a = a and t = t] assms
  by (intro rounded_eqI) (auto simp: algebra_simps)

section \<open>The loop\<close>

lemma line_point_end:
  "line_point x0 y0 x1 y1 (longer x0 y0 x1 y1) = (x1, y1)"
  by (auto simp: line_point_def rounded_end longer_def)

lemma line_point_before:
  assumes "0 \<le> t" "t < longer x0 y0 x1 y1"
  shows "line_point x0 y0 x1 y1 t \<noteq> (x1, y1)"
proof -
  have m: "0 < longer x0 y0 x1 y1" using assms by simp
  consider "longer x0 y0 x1 y1 = \<bar>x1 - x0\<bar>" | "longer x0 y0 x1 y1 = \<bar>y1 - y0\<bar>" unfolding longer_def by (metis max_def)
  then show ?thesis
    by cases (use assms m rounded_full[OF m, of t] in \<open>auto simp: line_point_def\<close>)
qed

text \<open>The error term after \<open>t\<close> steps decides the two moves as the rounding does.\<close>

lemma moves:
  fixes t a b m :: int
  assumes "0 < m" "0 \<le> a" "a \<le> m" "0 \<le> b" "b \<le> m" "m = a \<or> m = b"
  defines "error \<equiv> (rounded m b t + 1) * a - (rounded m a t + 1) * b"
  shows "rounded m a (t + 1) = rounded m a t + (if - b \<le> 2 * error then 1 else 0)"
    and "rounded m b (t + 1) = rounded m b t + (if 2 * error \<le> a then 1 else 0)"
proof -
  note r = rounded_bounds[OF assms(1), where a = a and t = t] rounded_bounds[OF assms(1), where a = b and t = t]
  have "(if 2 * m \<le> 2 * (t + 1) * a + m - 2 * m * rounded m a t then 1 else 0) = (if - b \<le> 2 * error then 1 else (0::int))"
    "(if 2 * m \<le> 2 * (t + 1) * b + m - 2 * m * rounded m b t then 1 else 0) = (if 2 * error \<le> a then 1 else (0::int))"
    using assms(6)
    by (elim disjE; use r assms(1-5) rounded_full[OF assms(1), of t] in \<open>auto simp: error_def algebra_simps\<close>)+
  then show "rounded m a (t + 1) = rounded m a t + (if - b \<le> 2 * error then 1 else 0)"
    "rounded m b (t + 1) = rounded m b t + (if 2 * error \<le> a then 1 else 0)"
    using rounded_Suc[OF assms(1-3), of t] rounded_Suc[OF assms(1,4,5), of t] by (simp_all split: if_splits)
qed

lemma line_loop_points:
  fixes x0 y0 x1 y1 :: int
  defines "m \<equiv> longer x0 y0 x1 y1" and "a \<equiv> \<bar>x1 - x0\<bar>" and "b \<equiv> \<bar>y1 - y0\<bar>"
  assumes "0 \<le> t" "t \<le> m"
  shows "line_loop w h color x1 y1 a (if x0 < x1 then 1 else - 1) (- b) (if y0 < y1 then 1 else - 1)
      ((rounded m b t + 1) * a - (rounded m a t + 1) * b) (fst (line_point x0 y0 x1 y1 t)) (snd (line_point x0 y0 x1 y1 t)) buf =
    Some (fold (stamp w h color) (map (line_point x0 y0 x1 y1) [t..m]) buf)"
  using assms(4,5)
proof (induction "nat (m - t)" arbitrary: t buf)
  case 0
  then have "t = m" by simp
  then have "line_point x0 y0 x1 y1 t = (x1, y1)" using line_point_end unfolding m_def by simp
  then show ?case unfolding \<open>t = m\<close> by (subst line_loop.simps) (simp add: Let_def stamp_def)
next
  case (Suc n)
  then have t: "0 \<le> t" "t < m" by linarith+
  have m: "0 < m" "0 \<le> a" "a \<le> m" "0 \<le> b" "b \<le> m" "m = a \<or> m = b"
    using t unfolding m_def a_def b_def longer_def by (auto simp: max_def)
  have p: "(fst (line_point x0 y0 x1 y1 t) = x1 \<and> snd (line_point x0 y0 x1 y1 t) = y1) = False"
    using line_point_before[of t x0 y0 x1 y1] t unfolding m_def by (simp add: prod_eq_iff)
  let ?e = "(rounded m b t + 1) * a - (rounded m a t + 1) * b"
  note next' = moves[OF m, of t]
  have e: "?e + (if - b \<le> 2 * ?e then - b else 0) + (if 2 * ?e \<le> a then a else 0) =
      (rounded m b (t + 1) + 1) * a - (rounded m a (t + 1) + 1) * b"
    unfolding next' by (simp add: algebra_simps)
  have x: "(if - b \<le> 2 * ?e then fst (line_point x0 y0 x1 y1 t) + (if x0 < x1 then 1 else - 1) else fst (line_point x0 y0 x1 y1 t))
      = fst (line_point x0 y0 x1 y1 (t + 1))"
    and y: "(if 2 * ?e \<le> a then snd (line_point x0 y0 x1 y1 t) + (if y0 < y1 then 1 else - 1) else snd (line_point x0 y0 x1 y1 t))
      = snd (line_point x0 y0 x1 y1 (t + 1))"
    using next' unfolding line_point_def m_def a_def b_def by (simp_all add: algebra_simps)
  have steps: "[t..m] = t # [t + 1..m]" using t by (simp add: upto_rec1)
  have "n = nat (m - (t + 1))" using Suc.hyps(2) by linarith
  note ih = Suc.hyps(1)[OF this]
  have t1: "0 \<le> t + 1" "t + 1 \<le> m" using t by simp_all
  show ?case
    by (subst line_loop.simps) (simp only: Let_def p if_False e x y ih[OF t1], simp only: steps list.simps fold_simps stamp_def)
qed

text \<open>
  C19: a line is the ideal one. For any two points the loop of draw_line ends, and what it draws is, for each
  step of the longer side, the point of the exact line rounded to the nearest pixel (a half is rounded away
  from the first point), from the first point to the last, each with its right and its lower neighbour.
\<close>

theorem draw_line_ideal:
  "draw_line w h x0 y0 x1 y1 color buf = Some (fold (stamp w h color) (line_points x0 y0 x1 y1) buf)"
proof -
  let ?m = "longer x0 y0 x1 y1"
  have z: "0 \<le> ?m" by (simp add: longer_def)
  show ?thesis
    using line_loop_points[of 0 x0 y0 x1 y1 w h color buf] z
    by (simp add: draw_line_def line_points_def line_point_def rounded_start Let_def)
qed

text \<open>The painting of a line.\<close>

definition near_line :: "int \<Rightarrow> int \<Rightarrow> int \<Rightarrow> int \<Rightarrow> int \<Rightarrow> int \<Rightarrow> bool" where
  "near_line x0 y0 x1 y1 x y \<longleftrightarrow>
     (\<exists>z \<in> set (line_points x0 y0 x1 y1). (x, y) = z \<or> (x - 1, y) = z \<or> (x, y - 1) = z)"

definition ended_line :: "int \<Rightarrow> int \<Rightarrow> int \<Rightarrow> int \<Rightarrow> int \<Rightarrow> int \<Rightarrow> u32 \<Rightarrow> u32 list \<Rightarrow> u32 list" where
  "ended_line w h x0 y0 x1 y1 color buf = the (draw_line w h x0 y0 x1 y1 color buf)"

lemma paints_stamp:
  "paints w h (\<lambda>x y c. if (x, y) = z \<or> (x - 1, y) = z \<or> (x, y - 1) = z then color else c) (stamp w h color z)"
proof -
  have "stamp w h color z = (\<lambda>buf. put_pixel w h (fst z) (snd z + 1) color
      (put_pixel w h (fst z + 1) (snd z) color (put_pixel w h (fst z) (snd z) color buf)))"
    by (simp add: stamp_def fun_eq_iff)
  moreover have "paints w h (\<lambda>x y c. if (x, y) = z \<or> (x - 1, y) = z \<or> (x, y - 1) = z then color else c) \<dots>"
    by (rule paints_cong[OF paints_comp[OF paints_comp[OF paints_put paints_put] paints_put]]) (auto simp: prod_eq_iff)
  ultimately show ?thesis by simp
qed

lemma ended_line_eq: "ended_line w h x0 y0 x1 y1 color = fold (stamp w h color) (line_points x0 y0 x1 y1)"
  by (simp add: fun_eq_iff ended_line_def draw_line_ideal)

lemma paints_line: "paints w h (\<lambda>x y c. if near_line x0 y0 x1 y1 x y then color else c) (ended_line w h x0 y0 x1 y1 color)"
  unfolding ended_line_eq near_line_def by (rule paints_fold) (rule paints_stamp)

section \<open>The painters\<close>

interpretation rect: painter w h "\<lambda>x y c. if in_rect rx ry rw rh x y then k else c" "fill_rect w h rx ry rw rh k"
  for w h rx ry rw rh k by unfold_locales (rule paints_fill_rect)

interpretation disc: painter w h "\<lambda>x y c. if in_disc cx cy r x y then k else c" "draw_circle w h cx cy r k"
  for w h cx cy r k by unfold_locales (rule paints_draw_circle)

interpretation blended: painter w h "\<lambda>x y c. if in_disc cx cy r x y then mixed k c else c" "fill_circle w h cx cy r k"
  for w h cx cy r k by unfold_locales (rule paints_fill_circle)

interpretation ring: painter w h
  "\<lambda>x y c. if in_disc cx cy r x y \<and> max 0 (r - t) * max 0 (r - t) \<le> (x - cx) * (x - cx) + (y - cy) * (y - cy) then mixed k c else c"
  "draw_circle_outline w h cx cy r t k"
  for w h cx cy r t k by unfold_locales (rule paints_circle_outline)

interpretation triangle: painter w h "\<lambda>x y k. if hull a b c x y then color else k" "fill_triangle w h a b c color"
  for w h a b c color by unfold_locales (rule paints_fill_triangle)

interpretation letter: painter w h "\<lambda>x y c. if in_letter lx ly l scale x y then color else c" "draw_segment_letter w h lx ly l scale color"
  for w h lx ly l scale color by unfold_locales (rule paints_letter)

interpretation line: painter w h "\<lambda>x y c. if near_line x0 y0 x1 y1 x y then color else c" "ended_line w h x0 y0 x1 y1 color"
  for w h x0 y0 x1 y1 color by unfold_locales (rule paints_line)

text \<open>Lines of a width: every line ends, and they keep the canvas.\<close>

lemma draw_lines_canvas: "canvas w h buf \<Longrightarrow> \<exists>b. draw_lines w h color ls buf = Some b \<and> canvas w h b"
proof (induction ls arbitrary: buf)
  case (Cons l ls)
  obtain x0 y0 x1 y1 where l: "l = (x0, y0, x1, y1)" by (cases l)
  have "draw_line w h x0 y0 x1 y1 color buf = Some (ended_line w h x0 y0 x1 y1 color buf)"
    by (simp add: ended_line_def draw_line_ideal)
  then show ?case using Cons.IH[OF line.keeps_canvas[OF Cons.prems]] by (simp add: l)
qed simp

lemma draw_line_width_canvas:
  "canvas w h buf \<Longrightarrow> \<exists>b. draw_line_width w h x0 y0 x1 y1 t color buf = Some b \<and> canvas w h b"
  unfolding draw_line_width_def Let_def by (rule draw_lines_canvas)

text \<open>
  C20: the figures are exact. In a buffer of the size of the picture, a pixel has the new color after
  fill_rect, draw_circle, fill_triangle, draw_segment_letter or draw_line exactly when it is inside the
  rectangle, the disc or the triangle (a weighted mean of its corners), in a square of the letter, or is a point of
  the line or its right or lower neighbour; every other pixel is as it was. And nothing behind the buffer is
  written: if it is followed by other words in memory, they stay as they are.
\<close>

theorem figures_are_exact:
  assumes "canvas w h buf" "inside w h x y"
  shows "fill_rect w h rx ry rw rh k buf ! at w x y = (if in_rect rx ry rw rh x y then k else buf ! at w x y) \<and>
    draw_circle w h cx cy r k buf ! at w x y = (if in_disc cx cy r x y then k else buf ! at w x y) \<and>
    fill_triangle w h a b c k buf ! at w x y = (if hull a b c x y then k else buf ! at w x y) \<and>
    draw_segment_letter w h lx ly l scale k buf ! at w x y = (if in_letter lx ly l scale x y then k else buf ! at w x y) \<and>
    (\<exists>drawn. draw_line w h x0 y0 x1 y1 k buf = Some drawn \<and>
       drawn ! at w x y = (if near_line x0 y0 x1 y1 x y then k else buf ! at w x y) \<and>
       length drawn = length buf \<and> draw_line w h x0 y0 x1 y1 k (buf @ behind) = Some (drawn @ behind)) \<and>
    (\<forall>p \<in> {fill_rect w h rx ry rw rh k, draw_circle w h cx cy r k, fill_triangle w h a b c k, draw_segment_letter w h lx ly l scale k}.
       length (p buf) = length buf \<and> p (buf @ behind) = p buf @ behind)"
proof -
  have "draw_line w h x0 y0 x1 y1 k b = Some (ended_line w h x0 y0 x1 y1 k b)" for b
    by (simp add: ended_line_def draw_line_ideal)
  moreover have "length (ended_line w h x0 y0 x1 y1 k buf) = length buf"
    using line.keeps_canvas[OF assms(1)] assms(1) by (simp add: canvas_def)
  moreover have "length (p buf) = length buf" if "canvas w h (p buf)" for p
    using that assms(1) by (simp add: canvas_def)
  ultimately show ?thesis
    using rect.pixel[OF assms] disc.pixel[OF assms] triangle.pixel[OF assms] letter.pixel[OF assms] line.pixel[OF assms]
      rect.nothing_behind[OF assms(1)] disc.nothing_behind[OF assms(1)] triangle.nothing_behind[OF assms(1)]
      letter.nothing_behind[OF assms(1)] line.nothing_behind[OF assms(1)]
      rect.keeps_canvas[OF assms(1)] disc.keeps_canvas[OF assms(1)] triangle.keeps_canvas[OF assms(1)] letter.keeps_canvas[OF assms(1)]
    by auto
qed

lemma figures_are_exact_witness:
  "fill_rect 4 3 1 1 9 1 7 (replicate 12 0) ! at 4 3 1 = 7 \<and> draw_circle 4 3 0 0 2 7 (replicate 12 0) ! at 4 3 1 = 0"
  using figures_are_exact[of 4 3 "replicate 12 0" 3 1 1 1 9 1 7 0 0 2 "(0, 0)" "(0, 0)" "(0, 0)" 0 0 "CHR ''N''" 1 0 0 0 0]
  by (simp add: canvas_def inside_def in_rect_def in_disc_def at_def)

section \<open>Blending\<close>

lemma channel_argb:
  "channel 24 (argb a r g b) = ucast a" "channel 16 (argb a r g b) = ucast r"
  "channel 8 (argb a r g b) = ucast g" "channel 0 (argb a r g b) = ucast b"
proof -
  have m: "(0xFF::u32) = mask 8" by (simp add: mask_eq_exp_minus_1)
  show "channel 24 (argb a r g b) = ucast a" "channel 16 (argb a r g b) = ucast r"
    "channel 8 (argb a r g b) = ucast g" "channel 0 (argb a r g b) = ucast b"
    unfolding channel_def argb_def m
    by (rule bit_word_eqI; auto simp: bit_simps dest: bit_imp_le_length)+
qed

lemma channel_range: "uint (channel s c) < 256"
proof -
  have "channel s c = take_bit 8 (drop_bit s c)"
    unfolding channel_def by (simp add: take_bit_eq_mask mask_eq_exp_minus_1)
  then have "uint (channel s c) = uint (drop_bit s c) mod 2 ^ 8" by (simp only: unsigned_take_bit_eq) (simp only: take_bit_eq_mod)
  then show ?thesis by simp
qed

lemma weighted_mean:
  fixes c d a :: int
  assumes "0 \<le> a" "a \<le> 255"
  shows "min c d \<le> (c * a + d * (255 - a)) div 255" "(c * a + d * (255 - a)) div 255 \<le> max c d"
proof -
  have "min c d * a \<le> c * a" "min c d * (255 - a) \<le> d * (255 - a)" "c * a \<le> max c d * a" "d * (255 - a) \<le> max c d * (255 - a)"
    using assms by (simp_all add: mult_right_mono)
  then have "min c d * 255 \<le> c * a + d * (255 - a)" "c * a + d * (255 - a) \<le> max c d * 255"
    by (simp_all add: algebra_simps)
  then show "min c d \<le> (c * a + d * (255 - a)) div 255" "(c * a + d * (255 - a)) div 255 \<le> max c d" by linarith+
qed

definition mean :: "int \<Rightarrow> int \<Rightarrow> int \<Rightarrow> int" where
  "mean a c d = (c * a + d * (255 - a)) div 255"

lemma mix_exact:
  fixes c d a :: u32
  assumes "uint c < 256" "uint d < 256" "uint a < 256"
  shows "uint ((c * a + d * (255 - a)) div 255) = mean (uint a) (uint c) (uint d)"
proof -
  have i: "uint (255 - a) = 255 - uint a" using assms(3) by (simp add: uint_sub_if')
  have "uint c * uint a \<le> 255 * 255" "uint d * (255 - uint a) \<le> 255 * 255"
    using mult_mono[of "uint c" 255 "uint a" 255] mult_mono[of "uint d" 255 "255 - uint a" 255] assms by simp_all
  then have "uint (c * a + d * (255 - a)) = uint c * uint a + uint d * (255 - uint a)"
    using assms by (simp add: uint_word_ariths i[unfolded uint_word_ariths, simplified])
  then show ?thesis by (simp add: uint_div_distrib mean_def)
qed

lemma blend_channel:
  assumes "s \<in> {16, 8, 0}"
  shows "uint (channel s (blend color dest)) = mean (uint (channel 24 color)) (uint (channel s color)) (uint (channel s dest))"
proof -
  let ?x = "\<lambda>s. (channel s color * channel 24 color + channel s dest * (255 - channel 24 color)) div 255"
  have v: "uint (?x s) = mean (uint (channel 24 color)) (uint (channel s color)) (uint (channel s dest))" for s
    by (rule mix_exact) (rule channel_range)+
  have "mean (uint (channel 24 color)) (uint (channel s color)) (uint (channel s dest)) \<le> 255"
    unfolding mean_def using weighted_mean(2)[of "uint (channel 24 color)"] channel_range[of 24 color] channel_range[of s color] channel_range[of s dest]
    by (smt (verit) uint_lt_0)
  then have r: "uint (ucast (ucast (?x s) :: u8) :: u32) = mean (uint (channel 24 color)) (uint (channel s color)) (uint (channel s dest))"
    using v[of s] uint_lt_0[of "?x s"] by (simp add: unsigned_ucast_eq unsigned_take_bit_eq take_bit_int_eq_self)
  then show ?thesis using assms by (auto simp: blend_def Let_def channel_argb)
qed

text \<open>
  C21: blending stays between the colors. A pixel that is blended has each color channel equal to the mean
  of the two colors weighted with the alpha of the new one, computed without overflow and therefore between
  the two, and is opaque; with alpha 255 it is the new color, with alpha 0 it keeps the old channels.
\<close>

theorem blend_is_mean:
  "channel 24 (blend color dest) = 255 \<and>
   (\<forall>s \<in> {16, 8, 0}. uint (channel s (blend color dest)) = mean (uint (channel 24 color)) (uint (channel s color)) (uint (channel s dest)) \<and>
      min (uint (channel s color)) (uint (channel s dest)) \<le> uint (channel s (blend color dest)) \<and>
      uint (channel s (blend color dest)) \<le> max (uint (channel s color)) (uint (channel s dest)) \<and>
      (channel 24 color = 255 \<longrightarrow> channel s (blend color dest) = channel s color) \<and>
      (channel 24 color = 0 \<longrightarrow> channel s (blend color dest) = channel s dest))"
proof -
  have "channel 24 (blend color dest) = 255" by (simp add: blend_def Let_def channel_argb)
  moreover have "min c d \<le> mean (uint (channel 24 color)) c d" "mean (uint (channel 24 color)) c d \<le> max c d" for c d
    unfolding mean_def using weighted_mean[of "uint (channel 24 color)"] channel_range[of 24 color] by simp_all
  moreover have "mean 255 c d = c" "mean 0 c d = d" for c d by (simp_all add: mean_def)
  ultimately show ?thesis using blend_channel by (auto simp: word_uint_eq_iff)
qed

lemma blend_is_mean_witness: "channel 16 (blend 0xFFAA0000 0xFF110000) = 0xAA"
  using blend_is_mean[of "0xFFAA0000" "0xFF110000"] by (simp add: channel_def)

end
