(* ===== verification/Png.thy ===== *)
theory Png
  imports Raster
begin

text \<open>
  The PNG files of the map tiles: the writer of the demo tiles and the reader in
  \<open>src/glide_ui/minimap_widget.cpp\<close>, and the reader in \<open>src/glide_flow/gpu_map_renderer.cpp\<close>. What zlib does
  (\<open>compress2\<close>, \<open>uncompress\<close>, \<open>crc32\<close>) is an argument. The sizes of the rows are mathematical numbers: the model
  covers pictures for which the product of width and channels is an \<open>int\<close>.
\<close>

unbundle bit_operations_syntax

section \<open>Numbers and chunks\<close>

definition be32_bytes :: "u32 \<Rightarrow> bytes" where
  "be32_bytes v = [ucast (drop_bit 24 v AND 0xFF), ucast (drop_bit 16 v AND 0xFF), ucast (drop_bit 8 v AND 0xFF), ucast (v AND 0xFF)]"

text \<open>\<open>read_be32\<close>; the four bytes exist where it is called.\<close>

definition read_be32 :: "bytes \<Rightarrow> nat \<Rightarrow> u32" where
  "read_be32 bs i = push_bit 24 (ucast (bs ! i)) OR push_bit 16 (ucast (bs ! (i + 1))) OR push_bit 8 (ucast (bs ! (i + 2))) OR ucast (bs ! (i + 3))"

definition png_chunk :: "(bytes \<Rightarrow> u32) \<Rightarrow> string \<Rightarrow> bytes \<Rightarrow> bytes" where
  "png_chunk crc type data =
     be32_bytes (of_nat (length data)) @ bytes_of_text type @ data @ be32_bytes (crc (bytes_of_text type @ data))"

definition signature :: bytes where
  "signature = [137, 80, 78, 71, 13, 10, 26, 10]"

section \<open>The writer\<close>

definition rgb_bytes :: "u32 \<Rightarrow> bytes" where
  "rgb_bytes p = [ucast (channel 16 p), ucast (channel 8 p), ucast (channel 0 p)]"

text \<open>The rows, each after its filter byte.\<close>

definition raw_rows :: "nat \<Rightarrow> nat \<Rightarrow> u32 list \<Rightarrow> bytes" where
  "raw_rows w h pixels =
     concat (map (\<lambda>y. 0 # concat (map (\<lambda>x. rgb_bytes (pixels ! (y * w + x))) [0..<w])) [0..<h])"

text \<open>The bytes of the file; \<open>None\<close> when the data could not be compressed.\<close>

definition png_bytes :: "(bytes \<Rightarrow> u32) \<Rightarrow> (bytes \<Rightarrow> bytes option) \<Rightarrow> nat \<Rightarrow> nat \<Rightarrow> u32 list \<Rightarrow> bytes option" where
  "png_bytes crc compress w h pixels =
     map_option (\<lambda>data. signature
         @ png_chunk crc ''IHDR'' (be32_bytes (of_nat w) @ be32_bytes (of_nat h) @ [8, 2, 0, 0, 0])
         @ png_chunk crc ''IDAT'' data @ png_chunk crc ''IEND'' [])
       (compress (raw_rows w h pixels))"

section \<open>The reader\<close>

text \<open>\<open>Out_of_range\<close>: a byte behind the end of the file is read.\<close>

datatype 'a png = Rejected | Out_of_range | Read 'a

record png_header =
  ph_width :: int
  ph_height :: int
  ph_color :: u8
  ph_data :: bytes

definition no_header :: png_header where
  "no_header = \<lparr>ph_width = 0, ph_height = 0, ph_color = 0, ph_data = []\<rparr>"

definition read_ihdr :: "bytes \<Rightarrow> nat \<Rightarrow> png_header \<Rightarrow> png_header png" where
  "read_ihdr bs i h =
     (if length bs \<le> i + 12 then Out_of_range
      else if bs ! (i + 8) \<noteq> 8 \<or> bs ! (i + 12) \<noteq> 0 \<or> (bs ! (i + 9) \<noteq> 2 \<and> bs ! (i + 9) \<noteq> 6) then Rejected
      else Read (h\<lparr>ph_width := sint (read_be32 bs i), ph_height := sint (read_be32 bs (i + 4)), ph_color := bs ! (i + 9)\<rparr>))"

text \<open>The reader of the display tests one field after the other.\<close>

definition read_tile_ihdr :: "bytes \<Rightarrow> nat \<Rightarrow> png_header \<Rightarrow> png_header png" where
  "read_tile_ihdr bs i h =
     (if length bs \<le> i + 8 then Out_of_range
      else if bs ! (i + 8) \<noteq> 8 then Rejected
      else if length bs \<le> i + 9 then Out_of_range
      else if bs ! (i + 9) \<noteq> 2 \<and> bs ! (i + 9) \<noteq> 6 then Rejected
      else if length bs \<le> i + 12 then Out_of_range
      else if bs ! (i + 12) \<noteq> 0 then Rejected
      else Read (h\<lparr>ph_width := sint (read_be32 bs i), ph_height := sint (read_be32 bs (i + 4)), ph_color := bs ! (i + 9)\<rparr>))"

function read_chunks ::
  "(bytes \<Rightarrow> nat \<Rightarrow> png_header \<Rightarrow> png_header png) \<Rightarrow> bytes \<Rightarrow> nat \<Rightarrow> png_header \<Rightarrow> png_header png" where
  "read_chunks ihdr bs i h =
     (if length bs < i + 12 then Read h
      else let n = unat (read_be32 bs i) in
      if length bs < i + 4 + 4 + n + 4 then Rejected
      else let type = take 4 (drop (i + 4) bs); next' = i + 8 + n + 4 in
      if type = bytes_of_text ''IHDR''
      then (case ihdr bs (i + 8) h of Read h1 \<Rightarrow> read_chunks ihdr bs next' h1 | r \<Rightarrow> r)
      else if type = bytes_of_text ''IDAT'' then read_chunks ihdr bs next' (h\<lparr>ph_data := ph_data h @ take n (drop (i + 8) bs)\<rparr>)
      else if type = bytes_of_text ''IEND'' then Read h
      else read_chunks ihdr bs next' h)"
  by pat_completeness auto
termination by (relation "measure (\<lambda>(ihdr, bs, i, h). length bs + 12 - i)") auto

declare read_chunks.simps [simp del]

section \<open>Filters\<close>

definition paeth :: "u8 \<Rightarrow> u8 \<Rightarrow> u8 \<Rightarrow> u8" where
  "paeth a b c =
     (let p = uint a + uint b - uint c; pa = \<bar>p - uint a\<bar>; pb = \<bar>p - uint b\<bar>; pc = \<bar>p - uint c\<bar> in
      if pa \<le> pb \<and> pa \<le> pc then a else if pb \<le> pc then b else c)"

definition predictor :: "u8 \<Rightarrow> u8 \<Rightarrow> u8 \<Rightarrow> u8 \<Rightarrow> u8 option" where
  "predictor ft left up up_left =
     (if ft = 1 then Some left
      else if ft = 2 then Some up
      else if ft = 3 then Some (word_of_int ((uint left + uint up) div 2))
      else if ft = 4 then Some (paeth left up up_left)
      else if ft \<noteq> 0 then None
      else Some 0)"

text \<open>The byte \<open>ch\<close> places before the place \<open>x\<close>, 0 before the start.\<close>

definition before :: "nat \<Rightarrow> nat \<Rightarrow> bytes \<Rightarrow> u8" where
  "before ch x row = (if ch \<le> x then row ! (x - ch) else 0)"

text \<open>A row: \<open>row\<close> is what is decoded of it so far, \<open>previous\<close> the row above, 0 above the first one.\<close>

fun unfilter_row :: "nat \<Rightarrow> u8 \<Rightarrow> bytes \<Rightarrow> bytes \<Rightarrow> bytes \<Rightarrow> bytes option" where
  "unfilter_row ch ft previous row [] = Some row"
| "unfilter_row ch ft previous row (s # ss) =
     (case predictor ft (before ch (length row) row) (previous ! length row) (before ch (length row) previous) of
        None \<Rightarrow> None
      | Some p \<Rightarrow> unfilter_row ch ft previous (row @ [s + p]) ss)"

fun unfilter_rows :: "nat \<Rightarrow> nat \<Rightarrow> nat \<Rightarrow> bytes \<Rightarrow> bytes \<Rightarrow> bytes option" where
  "unfilter_rows ch stride 0 previous filtered = Some []"
| "unfilter_rows ch stride (Suc h) previous filtered =
     (case unfilter_row ch (filtered ! 0) previous [] (take stride (drop 1 filtered)) of
        None \<Rightarrow> None
      | Some row \<Rightarrow> map_option (\<lambda>rest. row @ rest) (unfilter_rows ch stride h row (drop (stride + 1) filtered)))"

definition pixel_of :: "nat \<Rightarrow> bytes \<Rightarrow> nat \<Rightarrow> u32" where
  "pixel_of ch raw i =
     argb (if ch = 4 then raw ! (i * ch + 3) else 0xFF) (raw ! (i * ch)) (raw ! (i * ch + 1)) (raw ! (i * ch + 2))"

record image =
  im_width :: nat
  im_height :: nat
  im_pixels :: "u32 list"

text \<open>\<open>uncompress n data\<close>: the data if they fit into \<open>n\<close> bytes, \<open>None\<close> for an error.\<close>

definition decode_png_bytes :: "(nat \<Rightarrow> bytes \<Rightarrow> bytes option) \<Rightarrow> bytes \<Rightarrow> image png" where
  "decode_png_bytes uncompress bs =
     (if take 8 bs \<noteq> signature then Rejected
      else case read_chunks read_ihdr bs 8 no_header of
        Rejected \<Rightarrow> Rejected | Out_of_range \<Rightarrow> Out_of_range
      | Read g \<Rightarrow>
          if ph_width g \<le> 0 \<or> ph_height g \<le> 0 \<or> ph_data g = [] then Rejected
          else let ch = (if ph_color g = 6 then 4 else 3); w = nat (ph_width g); h = nat (ph_height g);
                   stride = w * ch; n = (stride + 1) * h in
          (case uncompress n (ph_data g) of
             None \<Rightarrow> Rejected
           | Some filtered \<Rightarrow>
               if length filtered \<noteq> n then Rejected
               else case unfilter_rows ch stride h (replicate stride 0) filtered of
                 None \<Rightarrow> Rejected
               | Some raw \<Rightarrow> Read \<lparr>im_width = w, im_height = h, im_pixels = map (pixel_of ch raw) [0..<w * h]\<rparr>))"

text \<open>The reader of the display takes tiles of 256 by 256 pixels only.\<close>

definition decode_tile :: "(nat \<Rightarrow> bytes \<Rightarrow> bytes option) \<Rightarrow> bytes \<Rightarrow> u32 list png" where
  "decode_tile uncompress bs =
     (if take 8 bs \<noteq> signature then Rejected
      else case read_chunks read_tile_ihdr bs 8 no_header of
        Rejected \<Rightarrow> Rejected | Out_of_range \<Rightarrow> Out_of_range
      | Read g \<Rightarrow>
          if ph_width g \<noteq> 256 \<or> ph_height g \<noteq> 256 \<or> ph_data g = [] then Rejected
          else let ch = (if ph_color g = 6 then 4 else 3); stride = 256 * ch; n = (stride + 1) * 256 in
          (case uncompress n (ph_data g) of
             None \<Rightarrow> Rejected
           | Some filtered \<Rightarrow>
               if length filtered \<noteq> n then Rejected
               else case unfilter_rows ch stride 256 (replicate stride 0) filtered of
                 None \<Rightarrow> Rejected
               | Some raw \<Rightarrow> Read (map (pixel_of ch raw) [0..<256 * 256])))"

end
