(* ===== verification/Png_Properties.thy ===== *)
theory Png_Properties
  imports Png
begin

text \<open>
  What is written as a PNG file is read back, and the reader undoes each filter of the format.
\<close>

section \<open>Numbers and chunks\<close>

lemma be32_bytes_length [simp]: "length (be32_bytes v) = 4"
  by (simp add: be32_bytes_def)

lemma be32_joined:
  "push_bit 24 (ucast (ucast (drop_bit 24 v AND 0xFF) :: u8)) OR push_bit 16 (ucast (ucast (drop_bit 16 v AND 0xFF) :: u8)) OR
   push_bit 8 (ucast (ucast (drop_bit 8 v AND 0xFF) :: u8)) OR ucast (ucast (v AND 0xFF) :: u8) = (v :: u32)" (is "?l = v")
proof -
  have m: "(0xFF::u32) = mask 8" by (simp add: mask_eq_exp_minus_1)
  show ?thesis
  proof (rule bit_word_eqI)
    fix n assume "n < LENGTH(32)"
    then consider "n < 8" | "8 \<le> n \<and> n < 16" | "16 \<le> n \<and> n < 24" | "24 \<le> n \<and> n < 32" by fastforce
    then show "bit ?l n = bit v n"
      unfolding m by cases (auto simp: bit_simps)
  qed
qed

lemma read_be32_at: "read_be32 (xs @ be32_bytes v @ ys) (length xs) = v"
  unfolding read_be32_def be32_bytes_def using be32_joined[of v] by (simp add: nth_append)

lemma read_chunks_chunk:
  assumes "length type = 4" "length data < 2 ^ 32"
  shows "read_chunks ihdr (xs @ png_chunk crc type data @ ys) (length xs) h =
    (if bytes_of_text type = bytes_of_text ''IHDR''
     then (case ihdr (xs @ png_chunk crc type data @ ys) (length xs + 8) h of
             Read h1 \<Rightarrow> read_chunks ihdr (xs @ png_chunk crc type data @ ys) (length (xs @ png_chunk crc type data)) h1 | r \<Rightarrow> r)
     else if bytes_of_text type = bytes_of_text ''IDAT''
     then read_chunks ihdr (xs @ png_chunk crc type data @ ys) (length (xs @ png_chunk crc type data)) (h\<lparr>ph_data := ph_data h @ data\<rparr>)
     else if bytes_of_text type = bytes_of_text ''IEND'' then Read h
     else read_chunks ihdr (xs @ png_chunk crc type data @ ys) (length (xs @ png_chunk crc type data)) h)"
proof -
  let ?bs = "xs @ png_chunk crc type data @ ys"
  have n: "unat (read_be32 ?bs (length xs)) = length data"
    using assms(2) read_be32_at[of xs "of_nat (length data)"] by (simp add: png_chunk_def unat_of_nat)
  have len: "length (png_chunk crc type data) = 12 + length data"
    using assms(1) by (simp add: png_chunk_def bytes_of_text_def byte_of_char_def)
  have t: "take 4 (drop (length xs + 4) ?bs) = bytes_of_text type" and d: "take (length data) (drop (length xs + 8) ?bs) = data"
    using assms(1) by (simp_all add: png_chunk_def bytes_of_text_def byte_of_char_def)
  have c: "\<not> length ?bs < length xs + 12" "\<not> length ?bs < length xs + 4 + 4 + length data + 4"
    and e: "length xs + 8 + length data + 4 = length (xs @ png_chunk crc type data)"
    using len by simp_all
  show ?thesis
    by (subst read_chunks.simps) (simp only: Let_def n t d c e if_False)
qed

section \<open>Filters\<close>

text \<open>The filters of the format: each byte minus its predictor.\<close>

definition filter_row :: "nat \<Rightarrow> u8 \<Rightarrow> bytes \<Rightarrow> bytes \<Rightarrow> bytes" where
  "filter_row ch f previous raw =
     map (\<lambda>x. raw ! x - the (predictor f (before ch x raw) (previous ! x) (before ch x previous))) [0..<length raw]"

fun filter_rows :: "nat \<Rightarrow> bytes \<Rightarrow> (u8 \<times> bytes) list \<Rightarrow> bytes" where
  "filter_rows ch previous [] = []"
| "filter_rows ch previous ((f, row) # rows) = f # filter_row ch f previous row @ filter_rows ch row rows"

lemma predictor_some: "f \<le> 4 \<Longrightarrow> \<exists>p. predictor f a b c = Some p"
proof -
  assume "f \<le> 4"
  then have "unat f \<le> 4" by (simp add: word_le_nat_alt)
  then have "unat f = 0 \<or> unat f = 1 \<or> unat f = 2 \<or> unat f = 3 \<or> unat f = 4" by linarith
  then have "f = 0 \<or> f = 1 \<or> f = 2 \<or> f = 3 \<or> f = 4" by (simp add: word_unat_eq_iff)
  then show ?thesis by (auto simp: predictor_def)
qed

lemma before_take: "x \<le> length raw \<Longrightarrow> ch \<noteq> 0 \<Longrightarrow> before ch x (take x raw) = before ch x raw"
  by (auto simp: before_def)

lemma unfilter_row_from:
  assumes "f \<le> 4" "ch \<noteq> 0" "x \<le> length raw"
  shows "unfilter_row ch f previous (take x raw) (drop x (filter_row ch f previous raw)) = Some raw"
  using assms(3)
proof (induction "length raw - x" arbitrary: x)
  case 0
  then show ?case by (simp add: filter_row_def)
next
  case (Suc n)
  then have x: "x < length raw" by simp
  obtain p where p: "predictor f (before ch x raw) (previous ! x) (before ch x previous) = Some p"
    using predictor_some[OF assms(1)] by blast
  have "drop x (filter_row ch f previous raw) = (raw ! x - p) # drop (Suc x) (filter_row ch f previous raw)"
    using x p by (subst Cons_nth_drop_Suc[symmetric]) (simp_all add: filter_row_def)
  moreover have "take x raw @ [raw ! x] = take (Suc x) raw" using x by (simp add: take_Suc_conv_app_nth)
  ultimately show ?case using Suc.hyps(1)[of "Suc x"] Suc.hyps(2) x p assms(2)
    by (simp add: before_take min_def)
qed

lemma unfilter_row_inverts:
  "f \<le> 4 \<Longrightarrow> ch \<noteq> 0 \<Longrightarrow> unfilter_row ch f previous [] (filter_row ch f previous raw) = Some raw"
  using unfilter_row_from[of f ch 0 raw previous] by simp

lemma filter_row_length [simp]: "length (filter_row ch f previous raw) = length raw"
  by (simp add: filter_row_def)

text \<open>
  The filters as the PNG format defines them, on numbers: \<open>a\<close> is the byte one pixel to the left, \<open>b\<close> the one
  above, \<open>c\<close> the one above \<open>a\<close>, all 0 outside the picture; what is stored is the byte minus its prediction,
  modulo 256. The fourth filter predicts the first of \<open>a\<close>, \<open>b\<close>, \<open>c\<close> that is nearest to \<open>a + b - c\<close>.
\<close>

definition nearest :: "int \<Rightarrow> int list \<Rightarrow> int" where
  "nearest p xs = hd (filter (\<lambda>x. \<forall>y \<in> set xs. \<bar>p - x\<bar> \<le> \<bar>p - y\<bar>) xs)"

definition png_prediction :: "nat \<Rightarrow> int \<Rightarrow> int \<Rightarrow> int \<Rightarrow> int" where
  "png_prediction f a b c = [0, a, b, (a + b) div 2, nearest (a + b - c) [a, b, c]] ! f"

definition png_filter_row :: "nat \<Rightarrow> nat \<Rightarrow> int list \<Rightarrow> int list \<Rightarrow> int list" where
  "png_filter_row bpp f over row =
     map (\<lambda>x. (row ! x - png_prediction f (if x < bpp then 0 else row ! (x - bpp)) (over ! x)
                 (if x < bpp then 0 else over ! (x - bpp))) mod 256) [0..<length row]"

fun png_filter :: "nat \<Rightarrow> int list \<Rightarrow> (nat \<times> int list) list \<Rightarrow> int list" where
  "png_filter bpp over [] = []"
| "png_filter bpp over ((f, row) # rows) = int f # png_filter_row bpp f over row @ png_filter bpp row rows"

lemma paeth_nearest: "uint (paeth a b c) = nearest (uint a + uint b - uint c) [uint a, uint b, uint c]"
  by (auto simp: paeth_def nearest_def Let_def)

lemma average_fits: "uint (word_of_int ((uint (a :: u8) + uint (b :: u8)) div 2) :: u8) = (uint a + uint b) div 2"
  using uint_lt2p[of a] uint_lt2p[of b] uint_ge_0[of a] uint_ge_0[of b]
  by (simp add: uint_word_of_int)

lemma filter_types: "f \<le> (4 :: u8) \<Longrightarrow> f = 0 \<or> f = 1 \<or> f = 2 \<or> f = 3 \<or> f = 4"
proof -
  assume "f \<le> 4"
  then have "unat f \<le> 4" by (simp add: word_le_nat_alt)
  then have "unat f = 0 \<or> unat f = 1 \<or> unat f = 2 \<or> unat f = 3 \<or> unat f = 4" by linarith
  then show ?thesis by (simp add: word_unat_eq_iff)
qed

lemma predictor_is_png:
  assumes "f \<le> 4"
  shows "uint (the (predictor f a b c)) = png_prediction (unat f) (uint a) (uint b) (uint c)"
  using filter_types[OF assms] by (elim disjE) (simp_all add: predictor_def png_prediction_def average_fits paeth_nearest)

lemma minus_modulo: "(word_of_int ((uint r - uint p) mod 256) :: u8) = r - p"
proof -
  have "uint (word_of_int ((uint r - uint p) mod 256) :: u8) = (uint r - uint p) mod 256"
    by (simp add: uint_word_of_int)
  also have "\<dots> = uint (r - p)" by (simp add: uint_word_ariths)
  finally show ?thesis by (simp only: word_uint_eq_iff)
qed

lemma filter_row_is_png:
  assumes "f \<le> 4" "length previous = length row" "ch \<noteq> 0"
  shows "map word_of_int (png_filter_row ch (unat f) (map uint previous) (map uint row)) = filter_row ch f previous row"
proof -
  have "png_prediction (unat f) 0 (uint b) 0 = uint (the (predictor f 0 b 0))" for b
    using predictor_is_png[OF assms(1), of 0 b 0] by simp
  then show ?thesis
    using assms(2,3)
    by (auto simp: png_filter_row_def filter_row_def before_def predictor_is_png[OF assms(1), symmetric] minus_modulo)
qed

lemma filter_is_png:
  fixes rows :: "(u8 \<times> bytes) list"
  assumes "ch \<noteq> 0" "length previous = stride" "\<forall>(f, row) \<in> set rows. f \<le> 4 \<and> length row = stride"
  shows "map word_of_int (png_filter ch (map uint previous) (map (\<lambda>(f, row). (unat f, map uint row)) rows))
    = filter_rows ch previous rows"
  using assms(2,3)
proof (induction rows arbitrary: previous)
  case (Cons r rows)
  obtain f row where r: "r = (f, row)" by (cases r)
  then show ?case using Cons filter_row_is_png[of f previous row ch] assms(1) by (simp add: word_unat_eq_iff)
qed simp

text \<open>
  C26: the reader undoes the filters of the format. For rows of the same length, each filtered as the PNG
  format says with any of its five filters (none, left, above, the mean of both rounded down, the Paeth choice)
  against the row above it, unfiltering gives the rows back.
\<close>

theorem filters_undone:
  fixes rows :: "(u8 \<times> bytes) list"
  assumes "0 < ch" "length previous = stride" "\<forall>(f, row) \<in> set rows. f \<le> 4 \<and> length row = stride"
  shows "unfilter_rows ch stride (length rows) previous
      (map word_of_int (png_filter ch (map uint previous) (map (\<lambda>(f, row). (unat f, map uint row)) rows)))
    = Some (concat (map snd rows))"
proof -
  have "unfilter_rows ch stride (length rows) previous (filter_rows ch previous rows) = Some (concat (map snd rows))"
    using assms(3)
  proof (induction rows arbitrary: previous)
    case (Cons r rows)
    obtain f row where r: "r = (f, row)" by (cases r)
    have "f \<le> 4" "length row = stride" using Cons.prems by (auto simp: r)
    then show ?case using Cons.IH[of row] Cons.prems unfilter_row_inverts[of f ch previous row] assms(1) by (simp add: r)
  qed simp
  then show ?thesis using filter_is_png[of ch previous stride rows] assms by simp
qed

lemma filters_undone_witness:
  "unfilter_rows 1 2 2 [0, 0] (map word_of_int (png_filter 1 [0, 0] [(1, [3, 5]), (4, [7, 250])])) = Some [3, 5, 7, 250]"
proof -
  have "\<forall>(f, row) \<in> set [(1, [3, 5]), (4, [7, 250 :: u8])]. f \<le> (4 :: u8) \<and> length row = 2" by simp
  moreover have "length [(1 :: u8, [3, 5]), (4, [7, 250 :: u8])] = 2" "map uint [0, 0 :: u8] = [0, 0]"
    "map (\<lambda>(f, row). (unat f, map uint row)) [(1 :: u8, [3, 5]), (4, [7, 250 :: u8])] = [(1, [3, 5]), (4, [7, 250])]"
    "concat (map snd [(1 :: u8, [3, 5]), (4, [7, 250 :: u8])]) = [3, 5, 7, 250]" "length [0, 0 :: u8] = 2"
    by simp_all
  ultimately show ?thesis
    using filters_undone[of 1 "[0, 0]" 2 "[(1, [3, 5]), (4, [7, 250])]"] by (simp only: zero_less_one simp_thms)
qed

section \<open>Rows of pixels\<close>

lemma unfilter_plain_row: "unfilter_row ch 0 previous row ss = Some (row @ ss)"
  by (induction ss arbitrary: row) (simp_all add: predictor_def)

lemma unfilter_plain:
  "\<forall>row \<in> set rows. length row = stride \<Longrightarrow>
   unfilter_rows ch stride (length rows) previous (concat (map (\<lambda>r. 0 # r) rows)) = Some (concat rows)"
  by (induction rows arbitrary: previous) (simp_all add: unfilter_plain_row)

lemma rows_joined:
  "h * w \<le> length ps \<Longrightarrow> concat (map (\<lambda>y. concat (map (\<lambda>x. f (ps ! (y * w + x))) [0..<w])) [0..<h]) = concat (map f (take (h * w) ps))"
proof (induction h)
  case (Suc h)
  have "map (\<lambda>x. f (ps ! (h * w + x))) [0..<w] = map f (take w (drop (h * w) ps))"
    using Suc.prems by (auto simp: list_eq_iff_nth_eq)
  moreover have "take (Suc h * w) ps = take (h * w) ps @ take w (drop (h * w) ps)"
    by (metis mult_Suc add.commute take_add)
  ultimately show ?case using Suc by simp
qed simp

lemma rgb_bytes_length [simp]: "length (rgb_bytes p) = 3"
  by (simp add: rgb_bytes_def)

lemma raw_rows_length: "length (raw_rows w h ps) = (w * 3 + 1) * h"
  by (simp add: raw_rows_def length_concat o_def sum_list_triv)

lemma raw_rows_unfiltered:
  assumes "length ps = w * h"
  shows "unfilter_rows ch (w * 3) h previous (raw_rows w h ps) = Some (concat (map rgb_bytes ps))"
proof -
  let ?rows = "map (\<lambda>y. concat (map (\<lambda>x. rgb_bytes (ps ! (y * w + x))) [0..<w])) [0..<h]"
  have "raw_rows w h ps = concat (map (\<lambda>r. 0 # r) ?rows)" by (simp add: raw_rows_def o_def)
  moreover have "\<forall>row \<in> set ?rows. length row = w * 3" by (auto simp: length_concat o_def sum_list_triv)
  moreover have "concat ?rows = concat (map rgb_bytes ps)" using rows_joined[of h w ps rgb_bytes] assms by (simp add: mult.commute)
  ultimately show ?thesis using unfilter_plain[of ?rows "w * 3" ch previous] by simp
qed

lemma nth_triples: "i < length ps \<Longrightarrow> k < 3 \<Longrightarrow> concat (map rgb_bytes ps) ! (i * 3 + k) = rgb_bytes (ps ! i) ! k"
proof (induction ps arbitrary: i)
  case (Cons p ps)
  then show ?case by (cases i) (simp_all add: nth_append)
qed simp

lemma rgb_joined: "argb 0xFF (ucast (channel 16 p)) (ucast (channel 8 p)) (ucast (channel 0 p)) = rgb p" (is "?l = ?r")
proof (rule bit_word_eqI)
  have m: "(0xFF::u32) = mask 8" "(0xFF::u8) = mask 8" "(0x00FFFFFF::u32) = mask 24" "(0xFF000000::u32) = push_bit 24 (mask 8)"
    by (simp_all add: mask_eq_exp_minus_1)
  fix n assume "n < LENGTH(32)"
  then consider "n < 8" | "8 \<le> n \<and> n < 16" | "16 \<le> n \<and> n < 24" | "24 \<le> n \<and> n < 32" by fastforce
  then show "bit ?l n = bit ?r n"
    unfolding argb_def channel_def rgb_def m by cases (auto simp: bit_simps)
qed

lemma pixel_read_back:
  assumes "i < length ps"
  shows "pixel_of 3 (concat (map rgb_bytes ps)) i = rgb (ps ! i)"
  using nth_triples[OF assms, of 0] nth_triples[OF assms, of 1] nth_triples[OF assms, of 2]
  by (simp add: pixel_of_def rgb_bytes_def rgb_joined)

section \<open>Files\<close>

text \<open>What zlib promises: compressed data are not empty and expand to what they were made of, if it fits.\<close>

definition zlib :: "(bytes \<Rightarrow> bytes option) \<Rightarrow> (nat \<Rightarrow> bytes \<Rightarrow> bytes option) \<Rightarrow> bool" where
  "zlib compress uncompress \<longleftrightarrow>
     (\<forall>raw data. compress raw = Some data \<longrightarrow> data \<noteq> [] \<and> (\<forall>n. length raw \<le> n \<longrightarrow> uncompress n data = Some raw))"

lemma sint_of_small: "w < 2 ^ 31 \<Longrightarrow> sint (of_nat w :: u32) = int w"
  by (simp add: signed_of_nat signed_take_bit_int_eq_self)

lemma types_distinct:
  "bytes_of_text ''IDAT'' \<noteq> bytes_of_text ''IHDR''" "bytes_of_text ''IEND'' \<noteq> bytes_of_text ''IHDR''" "bytes_of_text ''IEND'' \<noteq> bytes_of_text ''IDAT''"
  by (simp_all add: bytes_of_text_def byte_of_char_def)

text \<open>The header that both readers take from a written file.\<close>

definition ihdr_reads :: "(bytes \<Rightarrow> nat \<Rightarrow> png_header \<Rightarrow> png_header png) \<Rightarrow> bool" where
  "ihdr_reads ihdr \<longleftrightarrow> (\<forall>xs a b ys h. ihdr (xs @ be32_bytes a @ be32_bytes b @ [8, 2, 0, 0, 0] @ ys) (length xs) h =
     Read (h\<lparr>ph_width := sint a, ph_height := sint b, ph_color := 2\<rparr>))"

lemma ihdr_bytes:
  fixes xs ys :: bytes and a b :: u32
  defines "bs \<equiv> xs @ be32_bytes a @ be32_bytes b @ [8, 2, 0, 0, 0] @ ys"
  shows "bs ! (length xs + 8) = 8" "bs ! (length xs + 9) = 2" "bs ! (length xs + 12) = 0" "length xs + 12 < length bs"
    "read_be32 bs (length xs) = a" "read_be32 bs (length xs + 4) = b"
  using read_be32_at[of xs a "be32_bytes b @ [8, 2, 0, 0, 0] @ ys"] read_be32_at[of "xs @ be32_bytes a" b "[8, 2, 0, 0, 0] @ ys"]
  by (simp_all add: bs_def nth_append)

lemma readers_read_header: "ihdr_reads read_ihdr" "ihdr_reads read_tile_ihdr"
  using ihdr_bytes by (simp_all add: ihdr_reads_def read_ihdr_def read_tile_ihdr_def)

lemma written_header:
  assumes "ihdr_reads ihdr" "length data < 2 ^ 32"
  shows "read_chunks ihdr (signature @ png_chunk crc ''IHDR'' (be32_bytes a @ be32_bytes b @ [8, 2, 0, 0, 0])
      @ png_chunk crc ''IDAT'' data @ png_chunk crc ''IEND'' []) 8 no_header =
    Read \<lparr>ph_width = sint a, ph_height = sint b, ph_color = 2, ph_data = data\<rparr>"
proof -
  let ?i = "be32_bytes a @ be32_bytes b @ [8, 2, 0, 0, 0] :: bytes"
  let ?c1 = "png_chunk crc ''IHDR'' ?i" and ?c2 = "png_chunk crc ''IDAT'' data" and ?c3 = "png_chunk crc ''IEND'' []"
  have s: "length signature = 8" by (simp add: signature_def)
  have l: "length ?i = 13" by simp
  let ?xs = "signature @ be32_bytes 13 @ bytes_of_text ''IHDR''"
  have x: "length ?xs = 16" by (simp add: s bytes_of_text_def byte_of_char_def)
  have "signature @ ?c1 @ ?c2 @ ?c3 = ?xs @ be32_bytes a @ be32_bytes b @ [8, 2, 0, 0, 0] @ be32_bytes (crc (bytes_of_text ''IHDR'' @ ?i)) @ ?c2 @ ?c3"
    by (simp add: png_chunk_def)
  moreover have "ihdr (?xs @ be32_bytes a @ be32_bytes b @ [8, 2, 0, 0, 0] @ be32_bytes (crc (bytes_of_text ''IHDR'' @ ?i)) @ ?c2 @ ?c3) (length ?xs) h =
      Read (h\<lparr>ph_width := sint a, ph_height := sint b, ph_color := 2\<rparr>)" for h
    using assms(1) unfolding ihdr_reads_def by blast
  ultimately have i: "ihdr (signature @ ?c1 @ ?c2 @ ?c3) (8 + 8) h = Read (h\<lparr>ph_width := sint a, ph_height := sint b, ph_color := 2\<rparr>)" for h
    unfolding x by simp
  show ?thesis
    using read_chunks_chunk[of "''IHDR''" ?i ihdr signature crc "?c2 @ ?c3" no_header]
      read_chunks_chunk[of "''IDAT''" data ihdr "signature @ ?c1" crc ?c3 "\<lparr>ph_width = sint a, ph_height = sint b, ph_color = 2, ph_data = []\<rparr>"]
      read_chunks_chunk[of "''IEND''" "[]" ihdr "signature @ ?c1 @ ?c2" crc "[]" "\<lparr>ph_width = sint a, ph_height = sint b, ph_color = 2, ph_data = data\<rparr>"]
      assms(2) i[of no_header] types_distinct
    by (simp add: s no_header_def)
qed

text \<open>
  C25: a written picture is read back. If zlib expands what it compressed, the file that write_png makes of a picture
  is read by decode_png_bytes as the same picture, opaque, and the tile reader of the display reads it in
  the same way when it is 256 by 256 pixels and takes no other size.
\<close>

theorem png_read_back:
  assumes "zlib compress uncompress" "png_bytes crc compress w h pixels = Some file"
    "compress (raw_rows w h pixels) = Some data" "length data < 2 ^ 32"
    "0 < w" "0 < h" "w < 2 ^ 31" "h < 2 ^ 31" "length pixels = w * h"
  shows "decode_png_bytes uncompress file = Read \<lparr>im_width = w, im_height = h, im_pixels = map rgb pixels\<rparr> \<and>
    decode_tile uncompress file = (if w = 256 \<and> h = 256 then Read (map rgb pixels) else Rejected)"
proof -
  have f: "file = signature @ png_chunk crc ''IHDR'' (be32_bytes (of_nat w) @ be32_bytes (of_nat h) @ [8, 2, 0, 0, 0])
      @ png_chunk crc ''IDAT'' data @ png_chunk crc ''IEND'' []"
    using assms(2,3) by (simp add: png_bytes_def)
  have t: "take 8 file = signature" by (simp add: f signature_def)
  have d: "data \<noteq> []" "uncompress ((w * 3 + 1) * h) data = Some (raw_rows w h pixels)"
    using assms(1,3) raw_rows_length[of w h pixels] by (simp_all add: zlib_def)
  have c: "read_chunks ihdr file 8 no_header = Read \<lparr>ph_width = int w, ph_height = int h, ph_color = 2, ph_data = data\<rparr>"
    if "ihdr_reads ihdr" for ihdr
    using written_header[OF that assms(4)] assms(7,8) by (simp add: f sint_of_small)
  have p: "map (pixel_of 3 (concat (map rgb_bytes pixels))) [0..<w * h] = map rgb pixels"
    using assms(9) by (auto simp: list_eq_iff_nth_eq pixel_read_back)
  note r = raw_rows_length raw_rows_unfiltered[OF assms(9)]
  have "decode_png_bytes uncompress file = Read \<lparr>im_width = w, im_height = h, im_pixels = map rgb pixels\<rparr>"
    using assms(5,6) d c[OF readers_read_header(1)] p by (simp add: decode_png_bytes_def t r Let_def)
  moreover have "decode_tile uncompress file = (if w = 256 \<and> h = 256 then Read (map rgb pixels) else Rejected)"
  proof (cases "w = 256 \<and> h = 256")
    case True
    then show ?thesis using d c[OF readers_read_header(2)] p r(1)[of w h pixels] r(2)[of 3 "replicate 768 0"]
      by (simp add: decode_tile_def t Let_def)
  next
    case False
    then show ?thesis using c[OF readers_read_header(2)] by (auto simp: decode_tile_def t Let_def)
  qed
  ultimately show ?thesis by simp
qed

lemma png_read_back_witness:
  "\<exists>file. png_bytes (\<lambda>_. 0) (\<lambda>raw. Some (0 # raw)) 1 1 [0x11223344] = Some file \<and>
     decode_png_bytes (\<lambda>n data. Some (tl data)) file = Read \<lparr>im_width = 1, im_height = 1, im_pixels = [0xFF223344]\<rparr>"
proof -
  have z: "zlib (\<lambda>raw. Some (0 # raw)) (\<lambda>n data. Some (tl data))" by (simp add: zlib_def)
  have "length (raw_rows 1 1 [0x11223344]) = 4" by (simp add: raw_rows_length)
  moreover obtain png where f: "png_bytes (\<lambda>_. 0) (\<lambda>raw. Some (0 # raw)) 1 1 [0x11223344] = Some png" by (simp add: png_bytes_def)
  moreover have "rgb 0x11223344 = 0xFF223344" by (simp add: rgb_def)
  ultimately show ?thesis using png_read_back[OF z f, of "0 # raw_rows 1 1 [0x11223344]"] by simp
qed

end
