(* ===== verification/Map_Tiles.thy ===== *)
theory Map_Tiles
  imports Png Ui_Loop "HOL-Library.AList"
begin

text \<open>
  Offline maps: the packages of \<open>src/glide_ui/offline_map_package.cpp\<close>, the choice of a package and the tile
  cache of \<open>MinimapWidget::Impl\<close> (\<open>src/glide_ui/minimap_widget.cpp\<close>), and the atlas of
  \<open>GpuMapRenderer\<close> (\<open>src/glide_flow/gpu_map_renderer.cpp\<close>). \<open>disk\<close> is what a file holds, \<open>None\<close> when it
  cannot be opened; \<open>uncompress\<close> is that of zlib.
\<close>

unbundle bit_operations_syntax

type_synonym disk = "string \<Rightarrow> bytes option"

section \<open>Packages\<close>

record tile_entry =
  te_offset :: u64
  te_length :: u32

record map_package =
  mp_path :: string
  mp_name :: string
  mp_attribution :: string
  mp_south :: fp
  mp_west :: fp
  mp_north :: fp
  mp_east :: fp
  mp_min_zoom :: int
  mp_max_zoom :: int
  mp_tiles :: "u64 \<Rightarrow> tile_entry option"

definition tile_key :: "int \<Rightarrow> int \<Rightarrow> int \<Rightarrow> u64" where
  "tile_key zoom x y =
     push_bit 58 (word_of_int zoom AND 0x3f) OR push_bit 29 (word_of_int x AND 0x1fffffff) OR (word_of_int y AND 0x1fffffff)"

text \<open>\<open>read_value\<close> and \<open>read_string\<close>: the next bytes of the stream, \<open>None\<close> when it ends before.\<close>

definition read_value :: "nat \<Rightarrow> bytes \<Rightarrow> (nat \<times> bytes) option" where
  "read_value n s = (if length s < n then None else Some (le_nat (take n s), drop n s))"

definition read_string :: "nat \<Rightarrow> bytes \<Rightarrow> (string \<times> bytes) option" where
  "read_string n s = (if length s < n then None else Some (text_of_bytes (take n s), drop n s))"

text \<open>Values of the given sizes after each other.\<close>

fun read_values :: "nat list \<Rightarrow> bytes \<Rightarrow> (nat list \<times> bytes) option" where
  "read_values [] s = Some ([], s)"
| "read_values (n # ns) s =
     (case read_value n s of
        None \<Rightarrow> None
      | Some (v, s1) \<Rightarrow> map_option (\<lambda>(vs, s2). (v # vs, s2)) (read_values ns s1))"

definition header_sizes :: "nat list" where
  "header_sizes = [4, 2, 1, 1, 8, 8, 8, 8, 2, 2, 4]"

fun read_index :: "nat \<Rightarrow> bytes \<Rightarrow> (u64 \<Rightarrow> tile_entry option) \<Rightarrow> (u64 \<Rightarrow> tile_entry option) option" where
  "read_index 0 s tiles = Some tiles"
| "read_index (Suc n) s tiles =
     (case read_values [1, 4, 4, 8, 4] s of
        Some ([zoom, x, y, offset, len], s1) \<Rightarrow>
          read_index n s1 (tiles(tile_key (int zoom) (sint (of_nat x :: u32)) (sint (of_nat y :: u32)) \<mapsto>
            \<lparr>te_offset = of_nat offset, te_length = of_nat len\<rparr>))
      | _ \<Rightarrow> None)"

definition magic :: bytes where
  "magic = bytes_of_text ''GLDMAP1'' @ [0]"

definition degrees :: "int \<Rightarrow> fp" where
  "degrees n = fp_of_int f64 n"

definition valid_header :: "nat list \<Rightarrow> bool" where
  "valid_header vs =
     (let b = (\<lambda>i. fp_of_bits64 (of_nat (vs ! i))); south = b 4; west = b 5; north = b 6; east = b 7 in
      \<not> (vs ! 0 \<noteq> 1 \<or> vs ! 1 \<noteq> 256 \<or> vs ! 3 < vs ! 2 \<or> 10000000 < vs ! 10 \<or>
         fp_less south (degrees (- 90)) \<or> fp_less (degrees 90) north \<or> fp_less west (degrees (- 180)) \<or> fp_less (degrees 180) east \<or>
         fp_ge south north \<or> fp_ge west east))"

definition open_package :: "disk \<Rightarrow> string \<Rightarrow> string + map_package" where
  "open_package disk place =
     (case disk place of
        None \<Rightarrow> Inl ''cannot open file''
      | Some s0 \<Rightarrow>
          if take 8 s0 \<noteq> magic then Inl ''not a GLDMAP1 package''
          else case read_values header_sizes (drop 8 s0) of
            None \<Rightarrow> Inl ''truncated header''
          | Some (vs, s1) \<Rightarrow>
              if \<not> valid_header vs then Inl ''unsupported or invalid header''
              else case read_string (vs ! 8) s1 of
                None \<Rightarrow> Inl ''truncated metadata''
              | Some (name, s2) \<Rightarrow>
                  (case read_string (vs ! 9) s2 of
                     None \<Rightarrow> Inl ''truncated metadata''
                   | Some (attribution, s3) \<Rightarrow>
                       (case read_index (vs ! 10) s3 Map.empty of
                          None \<Rightarrow> Inl ''truncated tile index''
                        | Some tiles \<Rightarrow>
                            Inr \<lparr>mp_path = place, mp_name = name, mp_attribution = attribution,
                              mp_south = fp_of_bits64 (of_nat (vs ! 4)), mp_west = fp_of_bits64 (of_nat (vs ! 5)),
                              mp_north = fp_of_bits64 (of_nat (vs ! 6)), mp_east = fp_of_bits64 (of_nat (vs ! 7)),
                              mp_min_zoom = int (vs ! 2), mp_max_zoom = int (vs ! 3), mp_tiles = tiles\<rparr>)))"

definition contains_point :: "map_package \<Rightarrow> fp \<Rightarrow> fp \<Rightarrow> bool" where
  "contains_point p lat lon \<longleftrightarrow> fp_ge lat (mp_south p) \<and> fp_ge (mp_north p) lat \<and> fp_ge lon (mp_west p) \<and> fp_ge (mp_east p) lon"

definition covered_area :: "map_package \<Rightarrow> fp" where
  "covered_area p = fp_mul f64 (fp_add f64 (mp_east p) (fp_neg (mp_west p))) (fp_add f64 (mp_north p) (fp_neg (mp_south p)))"

definition has_tile :: "map_package \<Rightarrow> int \<Rightarrow> int \<Rightarrow> int \<Rightarrow> bool" where
  "has_tile p zoom x y \<longleftrightarrow> mp_tiles p (tile_key zoom x y) \<noteq> None"

text \<open>
  \<open>read_tile\<close>: whether it succeeded, and the buffer afterwards. What is not read of the resized buffer is
  zero when the buffer was empty before.
\<close>

definition read_tile :: "disk \<Rightarrow> map_package \<Rightarrow> int \<Rightarrow> int \<Rightarrow> int \<Rightarrow> bool \<times> bytes" where
  "read_tile disk p zoom x y =
     (case mp_tiles p (tile_key zoom x y) of
        None \<Rightarrow> (False, [])
      | Some e \<Rightarrow>
          (case disk (mp_path p) of
             None \<Rightarrow> (False, [])
           | Some content \<Rightarrow>
               let n = unat (te_length e); off = sint (te_offset e) in
               if off < 0 then (False, replicate n 0)
               else let got = take n (drop (nat off) content) in
                 (length got = n, got @ replicate (n - length got) 0)))"

text \<open>The packages of a directory: its files in the order they are listed, with the extension, each once.\<close>

definition add_packages :: "disk \<Rightarrow> string list \<Rightarrow> map_package list \<times> string list \<Rightarrow> map_package list \<times> string list" where
  "add_packages disk places acc =
     foldl (\<lambda>(ps, seen) place.
        if place \<in> set seen then (ps, seen)
        else (case open_package disk place of Inl _ \<Rightarrow> (ps, place # seen) | Inr p \<Rightarrow> (ps @ [p], place # seen))) acc places"

definition discover_packages :: "disk \<Rightarrow> string list list \<Rightarrow> map_package list" where
  "discover_packages disk dirs = fst (foldl (\<lambda>acc places. add_packages disk places acc) ([], []) dirs)"

section \<open>The choice of a package\<close>

definition better :: "map_package \<Rightarrow> map_package \<Rightarrow> bool" where
  "better p q \<longleftrightarrow> mp_max_zoom q < mp_max_zoom p \<or> (mp_max_zoom p = mp_max_zoom q \<and> fp_less (covered_area p) (covered_area q))"

definition best_package :: "map_package list \<Rightarrow> fp \<Rightarrow> fp \<Rightarrow> nat option" where
  "best_package ps lat lon =
     foldl (\<lambda>best i. if \<not> contains_point (ps ! i) lat lon then best
                     else case best of None \<Rightarrow> Some i | Some b \<Rightarrow> if better (ps ! i) (ps ! b) then Some i else best)
       None [0..<length ps]"

section \<open>The tile cache\<close>

record tile =
  ti_width :: int
  ti_height :: int
  ti_pixels :: "u32 list"
  ti_used :: u64
  ti_loaded :: bool

text \<open>The cache is the list of its entries; the ticks differ, so their order does not matter.\<close>

record minimap =
  mm_root :: string
  mm_tile_size :: int
  mm_background :: u32
  mm_packages :: "map_package list"
  mm_active :: "nat option"
  mm_cache :: "(string \<times> tile) list"
  mm_tick :: u64

definition max_cached_tiles :: nat where
  "max_cached_tiles = 25"

definition select_package :: "fp \<Rightarrow> fp \<Rightarrow> minimap \<Rightarrow> minimap" where
  "select_package lat lon m =
     (let best = best_package (mm_packages m) lat lon in
      if best \<noteq> mm_active m then m\<lparr>mm_active := best, mm_cache := []\<rparr> else m)"

text \<open>The first entry with the least \<open>last_used\<close>.\<close>

fun victim :: "(string \<times> tile) list \<Rightarrow> (string \<times> tile) option" where
  "victim [] = None"
| "victim (e # es) = Some (foldl (\<lambda>v it. if ti_used (snd it) < ti_used (snd v) then it else v) e es)"

lemma victim_member: "victim c = Some v \<Longrightarrow> v \<in> set c"
proof (cases c)
  case (Cons e es)
  have "foldl (\<lambda>v it. if ti_used (snd it) < ti_used (snd v) then it else v) e es \<in> set (e # es)"
    by (induction es arbitrary: e) (fastforce split: if_splits)+
  moreover assume "victim c = Some v"
  ultimately show ?thesis by (simp add: Cons)
qed simp

function prune_cache :: "(string \<times> tile) list \<Rightarrow> (string \<times> tile) list" where
  "prune_cache c =
     (if length c \<le> max_cached_tiles then c
      else case victim c of None \<Rightarrow> c | Some v \<Rightarrow> prune_cache (remove1 v c))"
  by pat_completeness auto

termination
  by (relation "measure length") (auto dest!: victim_member simp: length_remove1 max_cached_tiles_def)

declare prune_cache.simps [simp del]

definition tile_path :: "string \<Rightarrow> int \<Rightarrow> int \<Rightarrow> int \<Rightarrow> string" where
  "tile_path root z x y = root @ ''/'' @ int_str z @ ''/'' @ int_str x @ ''/'' @ int_str y @ ''.png''"

definition tile_name :: "int \<Rightarrow> int \<Rightarrow> int \<Rightarrow> string" where
  "tile_name z x y = int_str z @ ''/'' @ int_str x @ ''/'' @ int_str y"

text \<open>The picture of a tile: from the package, else from the file; \<open>Out_of_range\<close> ends in undefined behaviour.\<close>

definition tile_image :: "disk \<Rightarrow> (nat \<Rightarrow> bytes \<Rightarrow> bytes option) \<Rightarrow> minimap \<Rightarrow> int \<Rightarrow> int \<Rightarrow> int \<Rightarrow> image png" where
  "tile_image disk uncompress m z x y =
     (let packed = (case mm_active m of
             None \<Rightarrow> Rejected
           | Some i \<Rightarrow> (let (ok, bs) = read_tile disk (mm_packages m ! i) z x y in if ok then decode_png_bytes uncompress bs else Rejected))
      in case packed of
           Rejected \<Rightarrow> (case disk (tile_path (mm_root m) z x y) of None \<Rightarrow> Rejected | Some bs \<Rightarrow> decode_png_bytes uncompress bs)
         | r \<Rightarrow> r)"

definition no_tile :: tile where
  "no_tile = \<lparr>ti_width = 0, ti_height = 0, ti_pixels = [], ti_used = 0, ti_loaded = False\<rparr>"

definition put_tile :: "string \<Rightarrow> tile \<Rightarrow> (string \<times> tile) list \<Rightarrow> (string \<times> tile) list" where
  "put_tile k t c = AList.update k t c"

text \<open>\<open>tile\<close>: the tile, \<open>None\<close> for a row outside the map; the outer \<open>None\<close> is undefined behaviour.\<close>

definition tile_at ::
  "disk \<Rightarrow> (nat \<Rightarrow> bytes \<Rightarrow> bytes option) \<Rightarrow> int \<Rightarrow> int \<Rightarrow> int \<Rightarrow> minimap \<Rightarrow> (tile option \<times> minimap) option" where
  "tile_at disk uncompress z x y m =
     (let max_tile = 2 ^ nat z in
      if y < 0 \<or> max_tile \<le> y then Some (None, m)
      else let x' = (x smod max_tile + max_tile) smod max_tile; key = tile_name z x' y; tick = mm_tick m + 1;
               t = (case map_of (mm_cache m) key of None \<Rightarrow> no_tile | Some t \<Rightarrow> t)\<lparr>ti_used := tick\<rparr>;
               m1 = m\<lparr>mm_tick := tick, mm_cache := put_tile key t (mm_cache m)\<rparr>;
               loaded = (\<lambda>w h px. let t1 = t\<lparr>ti_width := w, ti_height := h, ti_pixels := px, ti_loaded := True\<rparr>
                 in Some (Some t1, m1\<lparr>mm_cache := prune_cache (put_tile key t1 (mm_cache m1))\<rparr>)) in
      if ti_loaded t then Some (Some t, m1)
      else case tile_image disk uncompress m z x' y of
             Out_of_range \<Rightarrow> None
           | Read i \<Rightarrow> loaded (int (im_width i)) (int (im_height i)) (im_pixels i)
           | Rejected \<Rightarrow> loaded (mm_tile_size m) (mm_tile_size m)
               (replicate (nat (mm_tile_size m) * nat (mm_tile_size m)) (rgb (mm_background m))))"

end
