(* ===== verification/Map_Cache.thy ===== *)
theory Map_Cache
  imports Map_Tiles "HOL-Library.Multiset"
begin

text \<open>
  The tile cache is a cache of the 25 tiles used last: its entries, ordered by their last use, are the list that
  the textbook policy keeps.
\<close>

section \<open>The policy\<close>

definition lru :: "string \<Rightarrow> string list \<Rightarrow> string list" where
  "lru k ks = take max_cached_tiles (k # removeAll k ks)"

section \<open>The cache in the order of use\<close>

definition used :: "string \<times> tile \<Rightarrow> u64" where
  "used e = ti_used (snd e)"

definition recency :: "(string \<times> tile) list \<Rightarrow> string list" where
  "recency c = rev (map fst (sort_key used c))"

definition cache_ok :: "minimap \<Rightarrow> bool" where
  "cache_ok m \<longleftrightarrow> distinct (map fst (mm_cache m)) \<and> distinct (map used (mm_cache m)) \<and> length (mm_cache m) \<le> max_cached_tiles \<and>
     (\<forall>e \<in> set (mm_cache m). used e \<le> mm_tick m \<and> ti_loaded (snd e))"

lemma sort_key_unique:
  assumes "mset xs = mset ys" "distinct (map f ys)" "sorted (map f ys)"
  shows "sort_key f xs = ys"
proof (rule properties_for_sort_key[OF assms(1)[symmetric] _ assms(3)])
  fix k assume k: "k \<in> set ys"
  have d: "distinct zs \<Longrightarrow> inj_on f (set zs) \<Longrightarrow> k \<in> set zs \<Longrightarrow> filter (\<lambda>x. f k = f x) zs = [k]" for zs
    by (induction zs) (auto simp: inj_on_def filter_empty_conv)
  have "distinct ys" "inj_on f (set ys)" using assms(2) by (simp_all add: distinct_map)
  moreover have "distinct xs" "set xs = set ys"
    using assms(1) \<open>distinct ys\<close> by (metis mset_eq_imp_distinct_iff, metis mset_eq_setD)
  ultimately show "filter (\<lambda>x. f k = f x) ys = filter (\<lambda>x. f k = f x) xs" using d k by simp
qed

lemma put_tile_mset:
  "distinct (map fst c) \<Longrightarrow> mset (put_tile k t c) = mset (filter (\<lambda>e. fst e \<noteq> k) c @ [(k, t)])"
proof (induction c)
  case (Cons e c)
  show ?case
  proof (cases "fst e = k")
    case True
    have "filter (\<lambda>x. fst x \<noteq> k) c = c" using Cons.prems True by (auto simp: filter_id_conv rev_image_eqI)
    then have "filter_mset (\<lambda>x. fst x \<noteq> k) (mset c) = mset c" by (metis mset_filter)
    then show ?thesis using True by (cases e) (simp add: put_tile_def)
  next
    case False
    then show ?thesis using Cons by (cases e) (simp add: put_tile_def)
  qed
qed (simp add: put_tile_def)

text \<open>Using a tile makes it the last one.\<close>

lemma sort_put_tile:
  assumes "distinct (map fst c)" "distinct (map used c)" "\<forall>e \<in> set c. used e < ti_used t"
  shows "sort_key used (put_tile k t c) = sort_key used (filter (\<lambda>e. fst e \<noteq> k) c) @ [(k, t)]"
proof (rule sort_key_unique)
  show "mset (put_tile k t c) = mset (sort_key used (filter (\<lambda>e. fst e \<noteq> k) c) @ [(k, t)])"
    using put_tile_mset[OF assms(1)] by simp
  have "distinct (map used (sort_key used (filter (\<lambda>e. fst e \<noteq> k) c)))"
    using assms(2) by (simp add: distinct_map inj_on_def)
  then show "distinct (map used (sort_key used (filter (\<lambda>e. fst e \<noteq> k) c) @ [(k, t)]))"
    using assms(3) by (fastforce simp: used_def)
  show "sorted (map used (sort_key used (filter (\<lambda>e. fst e \<noteq> k) c) @ [(k, t)]))"
    using assms(3) by (auto simp: sorted_append used_def less_imp_le)
qed

lemma filter_sort: "distinct (map f c) \<Longrightarrow> sort_key f (filter P c) = filter P (sort_key f c)"
  by (rule sort_key_unique) (auto simp: distinct_map inj_on_def intro: sorted_filter)

lemma recency_put_tile:
  assumes "distinct (map fst c)" "distinct (map used c)" "\<forall>e \<in> set c. used e < ti_used t"
  shows "recency (put_tile k t c) = k # removeAll k (recency c)"
proof -
  have "map fst (filter (\<lambda>e. fst e \<noteq> k) zs) = removeAll k (map fst zs)" for zs :: "(string \<times> tile) list"
    by (induction zs) auto
  then show ?thesis
    unfolding recency_def sort_put_tile[OF assms] filter_sort[OF assms(2)]
    by (simp add: rev_filter removeAll_filter_not_eq rev_map)
qed

section \<open>Pruning\<close>

lemma foldl_least:
  "\<forall>x \<in> set (e # es). used (foldl (\<lambda>v it. if ti_used (snd it) < ti_used (snd v) then it else v) e es) \<le> used x"
proof (induction es arbitrary: e)
  case (Cons a es)
  let ?b = "if ti_used (snd a) < ti_used (snd e) then a else e"
  have "used ?b \<le> used e" "used ?b \<le> used a" by (simp_all add: used_def less_imp_le not_less)
  moreover note Cons.IH[of ?b]
  ultimately show ?case by (auto simp: used_def less_imp_le intro: order_trans)
qed simp

lemma victim_least:
  assumes "victim c = Some v" "distinct (map used c)"
  shows "\<forall>e \<in> set c. e \<noteq> v \<longrightarrow> used v < used e"
proof -
  obtain e es where c: "c = e # es" using assms(1) by (cases c) auto
  have "\<forall>x \<in> set (e # es). used (foldl (\<lambda>v it. if ti_used (snd it) < ti_used (snd v) then it else v) e es) \<le> used x"
    by (rule foldl_least)
  then have "\<forall>x \<in> set c. used v \<le> used x" using assms(1) by (simp add: c)
  moreover have "inj_on used (set c)" "v \<in> set c" using assms(2) victim_member[OF assms(1)] by (simp_all add: distinct_map)
  ultimately show ?thesis by (metis inj_onD order_le_less)
qed

lemma recency_remove_victim:
  assumes "victim c = Some v" "distinct (map used c)"
  shows "recency (remove1 v c) = butlast (recency c)"
proof -
  have v: "v \<in> set c" by (rule victim_member[OF assms(1)])
  have "sort_key used c = v # sort_key used (remove1 v c)"
  proof (rule sort_key_unique)
    show "mset c = mset (v # sort_key used (remove1 v c))" using v by simp
    have d: "distinct c" "inj_on used (set c)" using assms(2) by (simp_all add: distinct_map)
    then have "v \<notin> set (remove1 v c)" "distinct (remove1 v c)" "inj_on used (set (remove1 v c))"
      by (simp_all add: inj_on_def)
    then show "distinct (map used (v # sort_key used (remove1 v c)))"
      using d v by (auto simp: distinct_map inj_on_def)
    show "sorted (map used (v # sort_key used (remove1 v c)))"
      using victim_least[OF assms] d by (auto simp: less_imp_le)
  qed
  then show ?thesis by (simp add: recency_def)
qed

lemma recency_length [simp]: "length (recency c) = length c"
  by (simp add: recency_def)

lemma prune_one:
  assumes "length c \<le> Suc max_cached_tiles" "distinct (map used c)" "distinct (map fst c)"
  shows "recency (prune_cache c) = take max_cached_tiles (recency c) \<and> set (prune_cache c) \<subseteq> set c \<and>
    distinct (map used (prune_cache c)) \<and> distinct (map fst (prune_cache c)) \<and> length (prune_cache c) \<le> max_cached_tiles"
proof (cases "length c \<le> max_cached_tiles")
  case True
  then show ?thesis using assms by (simp add: prune_cache.simps[of c])
next
  case False
  then have n: "length c = Suc max_cached_tiles" using assms(1) by simp
  then obtain v where v: "victim c = Some v" by (cases c) auto
  have l: "length (remove1 v c) = max_cached_tiles" using victim_member[OF v] n by (simp add: length_remove1)
  then have p: "prune_cache c = remove1 v c" using False v by (simp add: prune_cache.simps[of c] prune_cache.simps[of "remove1 v c"])
  moreover have "butlast (recency c) = take max_cached_tiles (recency c)" using n by (simp add: butlast_conv_take)
  moreover have "distinct c" using assms(2) by (simp add: distinct_map)
  then have "distinct (map used (remove1 v c))" "distinct (map fst (remove1 v c))"
    using assms(2,3) by (simp_all add: distinct_map inj_on_def)
  ultimately show ?thesis using recency_remove_victim[OF v assms(2)] l assms(2,3) set_remove1_subset[of v c] by simp
qed

section \<open>A request\<close>

lemma put_tile_twice: "put_tile k t1 (put_tile k t c) = put_tile k t1 c"
  unfolding put_tile_def by (induction c) auto

lemma put_tile_keys: "distinct (map fst c) \<Longrightarrow> distinct (map fst (put_tile k t c))"
  unfolding put_tile_def by (rule distinct_update)

lemma put_tile_set: "distinct (map fst c) \<Longrightarrow> set (put_tile k t c) = insert (k, t) {e \<in> set c. fst e \<noteq> k}"
  using arg_cong[OF put_tile_mset[of c k t], of set_mset] by auto

lemma put_tile_used:
  assumes "distinct (map fst c)" "distinct (map used c)" "\<forall>e \<in> set c. used e < ti_used t"
  shows "distinct (map used (put_tile k t c))"
proof -
  have "distinct (map used (sort_key used (filter (\<lambda>e. fst e \<noteq> k) c)))"
    using assms(2) by (simp add: distinct_map inj_on_def)
  then have "distinct (map used (sort_key used (put_tile k t c)))"
    unfolding sort_put_tile[OF assms] using assms(3) by (fastforce simp: used_def)
  then show ?thesis by (simp add: distinct_map)
qed

text \<open>Putting a new tile in and pruning is a step of the policy, and the tile stays.\<close>

lemma put_and_prune:
  fixes k :: string
  assumes "distinct (map fst c)" "distinct (map used c)" "\<forall>e \<in> set c. used e < ti_used t" "length c \<le> max_cached_tiles"
  defines "d \<equiv> prune_cache (put_tile k t c)"
  shows "recency d = lru k (recency c) \<and> distinct (map used d) \<and> distinct (map fst d) \<and> length d \<le> max_cached_tiles \<and>
    set d \<subseteq> insert (k, t) (set c) \<and> map_of d k = Some t"
proof -
  have r: "recency (put_tile k t c) = k # removeAll k (recency c)" by (rule recency_put_tile[OF assms(1-3)])
  have "length (put_tile k t c) \<le> Suc max_cached_tiles"
    using arg_cong[OF r, of length] length_removeAll_less_eq[of k "recency c"] assms(4) by simp
  from prune_one[OF this put_tile_used[OF assms(1-3)] put_tile_keys[OF assms(1)], folded d_def]
  have p: "recency d = take max_cached_tiles (recency (put_tile k t c))" "set d \<subseteq> set (put_tile k t c)" "distinct (map used d)"
    "distinct (map fst d)" "length d \<le> max_cached_tiles" by auto
  have "k \<in> set (recency d)" unfolding p(1) r by (simp add: max_cached_tiles_def)
  then obtain t' where t': "(k, t') \<in> set d" by (auto simp: recency_def)
  then have "t' = t" using p(2) put_tile_set[OF assms(1)] by auto
  then have "map_of d k = Some t" using t' p(4) by simp
  then show ?thesis using p r put_tile_set[OF assms(1), of k t] by (auto simp: lru_def)
qed

text \<open>A tile that is there is only marked as used.\<close>

lemma put_known:
  assumes "distinct (map fst c)" "distinct (map used c)" "\<forall>e \<in> set c. used e < ti_used t" "length c \<le> max_cached_tiles"
    "map_of c k = Some old"
  shows "recency (put_tile k t c) = lru k (recency c)" "length (put_tile k t c) \<le> max_cached_tiles"
proof -
  have "k \<in> set (recency c)" using map_of_SomeD[OF assms(5)] by (force simp: recency_def)
  then have "length (removeAll k (recency c)) < length (recency c)" by (rule length_removeAll_less)
  then have l: "length (k # removeAll k (recency c)) \<le> max_cached_tiles" using assms(4) by simp
  then show "recency (put_tile k t c) = lru k (recency c)"
    unfolding lru_def recency_put_tile[OF assms(1-3)] by simp
  show "length (put_tile k t c) \<le> max_cached_tiles" using l recency_put_tile[OF assms(1-3), of k] by (metis recency_length)
qed

definition request_key :: "int \<times> int \<times> int \<Rightarrow> string option" where
  "request_key r = (let (z, x, y) = r in if y < 0 \<or> 2 ^ nat z \<le> y then None else Some (tile_name z (x mod 2 ^ nat z) y))"

lemma wraps: "0 < n \<Longrightarrow> (x smod n + n) smod n = x mod n" for x n :: int
proof -
  assume n: "0 < n"
  have "0 \<le> x smod n + n" using smod_int_range[of n x] n by auto
  then have "(x smod n + n) smod n = (x smod n + n) mod n" using n by (simp add: smod_mod_positive)
  also have "\<dots> = x mod n" by (simp add: signed_modulo_int_eq_modulo_int mod_diff_eq)
  finally show ?thesis .
qed

section \<open>Requests\<close>

fun tile_run :: "disk \<Rightarrow> (nat \<Rightarrow> bytes \<Rightarrow> bytes option) \<Rightarrow> (int \<times> int \<times> int) list \<Rightarrow> minimap \<Rightarrow> minimap option" where
  "tile_run disk uncompress [] m = Some m"
| "tile_run disk uncompress ((z, x, y) # rs) m =
     (case tile_at disk uncompress z x y m of None \<Rightarrow> None | Some (_, m1) \<Rightarrow> tile_run disk uncompress rs m1)"

text \<open>The images do not depend on the cache.\<close>

definition readable :: "disk \<Rightarrow> (nat \<Rightarrow> bytes \<Rightarrow> bytes option) \<Rightarrow> minimap \<Rightarrow> bool" where
  "readable disk uncompress m \<longleftrightarrow> (\<forall>z x y. tile_image disk uncompress m z x y \<noteq> Out_of_range)"

lemma image_cache_free: "tile_image disk uncompress (m\<lparr>mm_tick := n, mm_cache := c\<rparr>) z x y = tile_image disk uncompress m z x y"
  by (simp add: tile_image_def cong: option.case_cong png.case_cong)

lemma readable_cache_free: "readable disk uncompress (m\<lparr>mm_tick := n, mm_cache := c\<rparr>) = readable disk uncompress m"
  by (simp add: readable_def image_cache_free)

lemma next_tick:
  assumes "uint n + 1 < 2 ^ 64"
  shows "n < n + 1" "uint (n + 1 :: u64) = uint n + 1"
proof -
  show u: "uint (n + 1) = uint n + 1" using assms by (simp add: uint_word_ariths)
  then show "n < n + 1" by (simp add: word_less_def)
qed

text \<open>What a request within the map does.\<close>

definition step_ok :: "string \<Rightarrow> minimap \<Rightarrow> tile \<times> minimap \<Rightarrow> bool" where
  "step_ok key m r \<longleftrightarrow>
     (let (t, m1) = r in (\<exists>c. m1 = m\<lparr>mm_tick := mm_tick m + 1, mm_cache := c\<rparr>) \<and> cache_ok m1 \<and>
        recency (mm_cache m1) = lru key (recency (mm_cache m)) \<and> map_of (mm_cache m1) key = Some t)"

lemma known_step:
  assumes "cache_ok m" "uint (mm_tick m) + 1 < 2 ^ 64" "map_of (mm_cache m) key = Some t"
  shows "step_ok key m (t\<lparr>ti_used := mm_tick m + 1\<rparr>, m\<lparr>mm_tick := mm_tick m + 1,
    mm_cache := put_tile key (t\<lparr>ti_used := mm_tick m + 1\<rparr>) (mm_cache m)\<rparr>)"
proof -
  let ?t = "t\<lparr>ti_used := mm_tick m + 1\<rparr>"
  have c: "distinct (map fst (mm_cache m))" "distinct (map used (mm_cache m))" "\<forall>e \<in> set (mm_cache m). used e < ti_used ?t"
    "length (mm_cache m) \<le> max_cached_tiles" "\<forall>e \<in> set (mm_cache m). used e \<le> mm_tick m + 1 \<and> ti_loaded (snd e)"
    using assms(1) next_tick(1)[OF assms(2)] by (auto simp: cache_ok_def intro: order_le_less_trans less_imp_le)
  have "ti_loaded t" using c(5) map_of_SomeD[OF assms(3)] by auto
  then show ?thesis
    using put_known[OF c(1-4) assms(3)] put_tile_used[OF c(1-3), of key] put_tile_keys[OF c(1)] put_tile_set[OF c(1), of key ?t] c(5)
    by (auto simp: step_ok_def cache_ok_def used_def put_tile_def update_conv)
qed

lemma new_step:
  assumes "cache_ok m" "uint (mm_tick m) + 1 < 2 ^ 64" "ti_used t = mm_tick m + 1" "ti_loaded t"
  shows "step_ok key m (t, m\<lparr>mm_tick := mm_tick m + 1, mm_cache := prune_cache (put_tile key t (mm_cache m))\<rparr>)"
proof -
  have c: "distinct (map fst (mm_cache m))" "distinct (map used (mm_cache m))" "\<forall>e \<in> set (mm_cache m). used e < ti_used t"
    "length (mm_cache m) \<le> max_cached_tiles" "\<forall>e \<in> set (mm_cache m). used e \<le> mm_tick m + 1 \<and> ti_loaded (snd e)"
    using assms(1,3) next_tick(1)[OF assms(2)] by (auto simp: cache_ok_def intro: order_le_less_trans less_imp_le)
  note p = put_and_prune[OF c(1-4), of key]
  have "\<forall>e \<in> set (prune_cache (put_tile key t (mm_cache m))). used e \<le> mm_tick m + 1 \<and> ti_loaded (snd e)"
  proof
    fix e assume "e \<in> set (prune_cache (put_tile key t (mm_cache m)))"
    then have "e = (key, t) \<or> e \<in> set (mm_cache m)" using p by blast
    then show "used e \<le> mm_tick m + 1 \<and> ti_loaded (snd e)" using c(5) assms(3,4) by (auto simp: used_def)
  qed
  then show ?thesis using p by (auto simp: step_ok_def cache_ok_def)
qed

lemma request_step:
  assumes "cache_ok m" "uint (mm_tick m) + 1 < 2 ^ 64" "readable disk uncompress m" "request_key (z, x, y) = Some key"
  shows "\<exists>t m1. tile_at disk uncompress z x y m = Some (Some t, m1) \<and> step_ok key m (t, m1)"
proof -
  have r: "\<not> (y < 0 \<or> 2 ^ nat z \<le> y)" "key = tile_name z (x mod 2 ^ nat z) y"
    using assms(4) by (auto simp: request_key_def split: if_splits)
  show ?thesis
  proof (cases "map_of (mm_cache m) key")
    case (Some t)
    then have "ti_loaded t" using assms(1) map_of_SomeD[OF Some] by (auto simp: cache_ok_def)
    then show ?thesis using known_step[OF assms(1,2) Some] r Some by (auto simp: tile_at_def Let_def wraps)
  next
    case None
    let ?i = "tile_image disk uncompress m z (x mod 2 ^ nat z) y"
    have "?i \<noteq> Out_of_range" using assms(3) by (simp add: readable_def)
    then show ?thesis using new_step[OF assms(1,2), of _ key] r None
      by (cases ?i) (auto simp: tile_at_def Let_def wraps no_tile_def put_tile_twice)
  qed
qed

text \<open>
  C23: the tile cache keeps the tiles used last. From an empty cache, any requests (fewer than 2^64) are
  answered if the PNG files can be read, and the tiles in the cache, ordered from the last use, are those of the textbook
  policy: each request within the map moves its tile to the front and at most 25 are kept; columns wrap
  around, and rows outside the map change nothing.
\<close>

theorem cache_is_lru:
  assumes "mm_cache m = []" "mm_tick m = 0" "readable disk uncompress m" "length rs < 2 ^ 64"
  shows "\<exists>m1. tile_run disk uncompress rs m = Some m1 \<and> length (mm_cache m1) \<le> 25 \<and>
    recency (mm_cache m1) = foldl (\<lambda>ks r. case request_key r of None \<Rightarrow> ks | Some k \<Rightarrow> lru k ks) [] rs"
proof -
  have "\<exists>m1. tile_run disk uncompress rs m = Some m1 \<and> cache_ok m1 \<and>
      recency (mm_cache m1) = foldl (\<lambda>ks r. case request_key r of None \<Rightarrow> ks | Some k \<Rightarrow> lru k ks) (recency (mm_cache m)) rs"
    if "cache_ok m" "uint (mm_tick m) + int (length rs) < 2 ^ 64" "readable disk uncompress m" for m
    using that
  proof (induction rs arbitrary: m)
    case (Cons r rs)
    obtain z x y where r: "r = (z, x, y)" by (cases r)
    show ?case
    proof (cases "request_key r")
      case None
      then have "tile_at disk uncompress z x y m = Some (None, m)"
        by (auto simp: r request_key_def tile_at_def Let_def split: if_splits)
      then show ?thesis using Cons.IH[of m] Cons.prems None by (simp add: r)
    next
      case (Some key)
      have n: "uint (mm_tick m) + 1 < 2 ^ 64" using Cons.prems(2) by simp
      obtain t m1 where t: "tile_at disk uncompress z x y m = Some (Some t, m1)" "step_ok key m (t, m1)"
        using request_step[OF Cons.prems(1) n Cons.prems(3), of z x y key] Some by (auto simp: r)
      then obtain c where c: "m1 = m\<lparr>mm_tick := mm_tick m + 1, mm_cache := c\<rparr>" by (auto simp: step_ok_def)
      have "readable disk uncompress m1" using Cons.prems(3) readable_cache_free c by simp
      moreover have "uint (mm_tick m1) + int (length rs) < 2 ^ 64" using Cons.prems(2) next_tick(2)[OF n] by (simp add: c)
      ultimately show ?thesis using Cons.IH[of m1] t Some by (simp add: r step_ok_def)
    qed
  qed simp
  from this[of m] show ?thesis using assms by (auto simp: cache_ok_def recency_def max_cached_tiles_def)
qed

lemma cache_is_lru_witness:
  "\<exists>m1. tile_run (\<lambda>_. None) (\<lambda>_ _. None) [(1, 0, 0), (1, 3, 1), (1, 2, 0)]
      \<lparr>mm_root = ''maps'', mm_tile_size = 1, mm_background = 0, mm_packages = [], mm_active = None, mm_cache = [], mm_tick = 0\<rparr> = Some m1 \<and>
    recency (mm_cache m1) = [tile_name 1 0 0, tile_name 1 1 1]"
proof -
  let ?m = "\<lparr>mm_root = ''maps'', mm_tile_size = 1, mm_background = 0, mm_packages = [], mm_active = None, mm_cache = [], mm_tick = 0\<rparr>"
  have "readable (\<lambda>_. None) (\<lambda>_ _. None) ?m" by (simp add: readable_def tile_image_def)
  moreover have "tile_name 1 0 0 \<noteq> tile_name 1 1 1" by code_simp
  ultimately show ?thesis
    using cache_is_lru[of ?m "\<lambda>_. None" "\<lambda>_ _. None" "[(1, 0, 0), (1, 3, 1), (1, 2, 0)]"]
    by (auto simp: request_key_def lru_def max_cached_tiles_def)
qed

end
