(* ===== verification/Map_Packages.thy ===== *)
theory Map_Packages
  imports Complex_Main Map_Tiles "HOL-Library.Product_Lexorder"
begin

text \<open>
  The packages that \<open>scripts/generate_offline_osm_tiles.py\<close> writes (\<open>write_package\<close>) are read back by the
  program, and the package chosen for a position is the one the documentation promises.
\<close>

unbundle bit_operations_syntax

section \<open>The writer\<close>

type_synonym tile_file = "nat \<times> nat \<times> nat \<times> bytes"

definition tile_place :: "tile_file \<Rightarrow> nat \<times> nat \<times> nat" where
  "tile_place t = (let (z, x, y, p) = t in (z, x, y))"

definition tile_bytes :: "tile_file \<Rightarrow> bytes" where
  "tile_bytes t = (let (z, x, y, p) = t in p)"

text \<open>\<open>struct.pack\<close>: the values with their sizes, \<open>None\<close> when one does not fit.\<close>

definition struct_pack :: "(nat \<times> nat) list \<Rightarrow> bytes option" where
  "struct_pack vs = (if \<exists>(n, v) \<in> set vs. 256 ^ n \<le> v then None else Some (concat (map (\<lambda>(n, v). le_bytes n v) vs)))"

definition entry_values :: "nat \<Rightarrow> tile_file \<Rightarrow> (nat \<times> nat) list" where
  "entry_values offset t = (let (z, x, y, p) = t in [(1, z), (4, x), (4, y), (8, offset), (4, length p)])"

fun pack_entries :: "nat \<Rightarrow> tile_file list \<Rightarrow> bytes option" where
  "pack_entries offset [] = Some []"
| "pack_entries offset (t # ts) =
     (case struct_pack (entry_values offset t) of
        None \<Rightarrow> None
      | Some e \<Rightarrow> map_option (\<lambda>es. e @ es) (pack_entries (offset + length (tile_bytes t)) ts))"

text \<open>The header after the magic; the bounds are the bit patterns of the doubles.\<close>

definition header_values :: "nat list \<Rightarrow> nat \<times> nat \<times> nat \<times> nat \<Rightarrow> nat \<Rightarrow> nat \<Rightarrow> nat \<Rightarrow> (nat \<times> nat) list" where
  "header_values zooms bounds n a k =
     (let (south, west, north, east) = bounds in
      zip header_sizes [1, 256, Min (set zooms), Max (set zooms), south, west, north, east, n, a, k])"

definition write_package ::
  "nat list \<Rightarrow> nat \<times> nat \<times> nat \<times> nat \<Rightarrow> bytes \<Rightarrow> bytes \<Rightarrow> tile_file list \<Rightarrow> bytes option" where
  "write_package zooms bounds name attribution found =
     (let tiles = sort_key tile_place found;
          data_offset = 56 + length name + length attribution + length tiles * 21 in
      if tiles = [] then None
      else case pack_entries data_offset tiles of
        None \<Rightarrow> None
      | Some es \<Rightarrow>
          (case struct_pack (header_values zooms bounds (length name) (length attribution) (length tiles)) of
             None \<Rightarrow> None
           | Some header \<Rightarrow> Some (magic @ header @ name @ attribution @ es @ concat (map tile_bytes tiles))))"

section \<open>Reading what was packed\<close>

lemma read_packed:
  "struct_pack vs = Some bs \<Longrightarrow> read_values (map fst vs) (bs @ s) = Some (map snd vs, s)"
proof (induction vs arbitrary: bs)
  case (Cons v vs)
  obtain n a where v: "v = (n, a)" by (cases v)
  from Cons.prems obtain bs' where b: "struct_pack vs = Some bs'" "bs = le_bytes n a @ bs'" "a < 256 ^ n"
    by (auto simp: struct_pack_def v split: if_splits)
  have "read_value n (le_bytes n a @ bs' @ s) = Some (a, bs' @ s)"
    using b(3) by (simp add: read_value_def le_nat_le_bytes)
  then show ?case using Cons.IH[OF b(1)] by (simp add: v b(2))
qed (simp add: struct_pack_def)

lemma struct_pack_length: "struct_pack vs = Some bs \<Longrightarrow> length bs = sum_list (map fst vs)"
  by (auto simp: struct_pack_def length_concat o_def split_beta split: if_splits intro!: arg_cong[of _ _ sum_list])

text \<open>The entries with their offsets.\<close>

fun placed :: "nat \<Rightarrow> tile_file list \<Rightarrow> (u64 \<times> tile_entry) list" where
  "placed offset [] = []"
| "placed offset (t # ts) =
     (let (z, x, y, p) = t in
      (tile_key (int z) (sint (of_nat x :: u32)) (sint (of_nat y :: u32)), \<lparr>te_offset = of_nat offset, te_length = of_nat (length p)\<rparr>))
     # placed (offset + length (tile_bytes t)) ts"

definition put_entry :: "(u64 \<Rightarrow> tile_entry option) \<Rightarrow> u64 \<times> tile_entry \<Rightarrow> (u64 \<Rightarrow> tile_entry option)" where
  "put_entry m e = m(fst e \<mapsto> snd e)"

lemma put_entry_pair: "put_entry m (k, v) = m(k \<mapsto> v)"
  by (simp add: put_entry_def)

lemma read_index_packed:
  "pack_entries offset ts = Some es \<Longrightarrow>
   read_index (length ts) (es @ s) tiles = Some (foldl put_entry tiles (placed offset ts))"
proof (induction ts arbitrary: offset es tiles)
  case (Cons t ts)
  obtain z x y p where t: "t = (z, x, y, p)" by (cases t) auto
  obtain e es' where e: "struct_pack (entry_values offset t) = Some e" "pack_entries (offset + length (tile_bytes t)) ts = Some es'" "es = e @ es'"
    using Cons.prems by (auto split: option.splits)
  have "read_values [1, 4, 4, 8, 4] (e @ es' @ s) = Some ([z, x, y, offset, length p], es' @ s)"
    using read_packed[OF e(1), of "es' @ s"] by (simp add: entry_values_def t)
  then show ?case using Cons.IH[OF e(2)] by (simp add: e(3) t put_entry_pair fun_upd_def del: read_values.simps)
qed simp

lemma pack_entries_length: "pack_entries offset ts = Some es \<Longrightarrow> length es = length ts * 21"
proof (induction ts arbitrary: offset es)
  case (Cons t ts)
  then show ?case by (cases t) (auto split: option.splits simp: entry_values_def dest!: struct_pack_length)
qed simp

lemma entries_lookup:
  "distinct (map fst es) \<Longrightarrow> foldl put_entry m es k = (case map_of es k of None \<Rightarrow> m k | Some v \<Rightarrow> Some v)"
proof (induction es arbitrary: m)
  case (Cons e es)
  then show ?case using map_of_eq_None_iff[of es "fst e"] by (auto simp: put_entry_def split: option.split)
qed simp

section \<open>Keys\<close>

lemma bit_tile_key:
  assumes "0 \<le> z" "z < 64" "0 \<le> x" "x < 2 ^ 29" "0 \<le> y" "y < 2 ^ 29"
  shows "bit (tile_key z x y) n = (n < 64 \<and> (if 58 \<le> n then bit z (n - 58) else if 29 \<le> n then bit x (n - 29) else bit y n))"
proof -
  have m: "(0x3f :: u64) = mask 6" "(0x1fffffff :: u64) = mask 29" by (simp_all add: mask_eq_exp_minus_1)
  have high: "\<not> bit x n" if "29 \<le> n" "0 \<le> x" "x < 2 ^ 29" for x :: int and n
    using that by (metis bit_take_bit_iff leD take_bit_int_eq_self)
  show ?thesis
    unfolding tile_key_def m using high[of n x] high[of "n - 29" x] high[of n y] assms
    by (auto simp: bit_simps)
qed

lemma int_bits_eqI:
  fixes a b :: int
  assumes "0 \<le> a" "a < 2 ^ k" "0 \<le> b" "b < 2 ^ k" "\<And>n. n < k \<Longrightarrow> bit a n = bit b n"
  shows "a = b"
proof -
  have "take_bit k a = take_bit k b" by (rule bit_eqI) (use assms(5) in \<open>auto simp: bit_take_bit_iff\<close>)
  then show ?thesis using assms by (simp add: take_bit_int_eq_self)
qed

lemma tile_key_inj:
  assumes "tile_key z x y = tile_key z' x' y'"
    "0 \<le> z" "z < 64" "0 \<le> x" "x < 2 ^ 29" "0 \<le> y" "y < 2 ^ 29" "0 \<le> z'" "z' < 64" "0 \<le> x'" "x' < 2 ^ 29" "0 \<le> y'" "y' < 2 ^ 29"
  shows "z = z' \<and> x = x' \<and> y = y'"
proof -
  have e: "bit (tile_key z x y) n = bit (tile_key z' x' y') n" for n using assms(1) by simp
  note b = e[unfolded bit_tile_key[OF assms(2-7)] bit_tile_key[OF assms(8-13)]]
  have "z = z'"
  proof (rule int_bits_eqI[of _ 6])
    fix n :: nat assume "n < 6"
    then show "bit z n = bit z' n" using b[of "n + 58"] by simp
  qed (use assms in simp_all)
  moreover have "x = x'"
  proof (rule int_bits_eqI[of _ 29])
    fix n :: nat assume "n < 29"
    then show "bit x n = bit x' n" using b[of "n + 29"] by simp
  qed (use assms in simp_all)
  moreover have "y = y'"
  proof (rule int_bits_eqI[of _ 29])
    fix n :: nat assume "n < 29"
    then show "bit y n = bit y' n" using b[of n] by simp
  qed (use assms in simp_all)
  ultimately show ?thesis by simp
qed

section \<open>Where the tiles are\<close>

text \<open>Each tile is in the index, with the place of its bytes.\<close>

definition place_key :: "tile_file \<Rightarrow> u64" where
  "place_key t = (let (z, x, y, p) = t in tile_key (int z) (int x) (int y))"

definition in_key_range :: "tile_file \<Rightarrow> bool" where
  "in_key_range t \<longleftrightarrow> (let (z, x, y, p) = t in z < 64 \<and> x < 2 ^ 29 \<and> y < 2 ^ 29)"

lemma sint_u32_small: "n < 2 ^ 29 \<Longrightarrow> sint (of_nat n :: u32) = int n"
  by (simp add: signed_of_nat signed_take_bit_int_eq_self)

lemma placed_keys: "\<forall>t \<in> set ts. in_key_range t \<Longrightarrow> map fst (placed offset ts) = map place_key ts"
proof (induction ts arbitrary: offset)
  case (Cons t ts)
  then show ?case by (cases t) (simp add: place_key_def in_key_range_def sint_u32_small)
qed simp

lemma place_key_inj:
  assumes "in_key_range t" "in_key_range u" "place_key t = place_key u"
  shows "tile_place t = tile_place u"
proof -
  obtain z x y p z' x' y' p' where t: "t = (z, x, y, p)" "u = (z', x', y', p')" by (metis prod_cases4)
  have "int z = int z' \<and> int x = int x' \<and> int y = int y'"
    by (rule tile_key_inj) (use assms in \<open>auto simp: t place_key_def in_key_range_def\<close>)
  then show ?thesis by (simp add: t tile_place_def)
qed

lemma placed_entry:
  assumes "t \<in> set ts" "\<forall>t \<in> set ts. in_key_range t"
  shows "\<exists>o'. (place_key t, \<lparr>te_offset = of_nat o', te_length = of_nat (length (tile_bytes t))\<rparr>) \<in> set (placed offset ts) \<and>
    offset \<le> o' \<and> o' + length (tile_bytes t) \<le> offset + length (concat (map tile_bytes ts)) \<and>
    take (length (tile_bytes t)) (drop (o' - offset) (concat (map tile_bytes ts))) = tile_bytes t"
  using assms
proof (induction ts arbitrary: offset)
  case (Cons u ts)
  show ?case
  proof (cases "t = u")
    case True
    have "in_key_range t" using Cons.prems True by simp
    then show ?thesis using True by (intro exI[of _ offset]) (auto simp: place_key_def in_key_range_def tile_bytes_def sint_u32_small split: prod.split)
  next
    case False
    then obtain o' where "(place_key t, \<lparr>te_offset = of_nat o', te_length = of_nat (length (tile_bytes t))\<rparr>)
        \<in> set (placed (offset + length (tile_bytes u)) ts)" "offset + length (tile_bytes u) \<le> o'"
      "o' + length (tile_bytes t) \<le> offset + length (tile_bytes u) + length (concat (map tile_bytes ts))"
      "take (length (tile_bytes t)) (drop (o' - (offset + length (tile_bytes u))) (concat (map tile_bytes ts))) = tile_bytes t"
      using Cons.IH[of "offset + length (tile_bytes u)"] Cons.prems by auto
    then show ?thesis by (intro exI[of _ o']) (auto simp: diff_diff_eq)
  qed
qed simp

section \<open>The round trip\<close>

definition bounds_valid :: "nat \<times> nat \<times> nat \<times> nat \<Rightarrow> bool" where
  "bounds_valid b =
     (let (south, west, north, east) = b; f = (\<lambda>n. fp_of_bits64 (of_nat n)) in
      \<not> fp_less (f south) (degrees (- 90)) \<and> \<not> fp_less (degrees 90) (f north) \<and>
      \<not> fp_less (f west) (degrees (- 180)) \<and> \<not> fp_less (degrees 180) (f east) \<and>
      \<not> fp_ge (f south) (f north) \<and> \<not> fp_ge (f west) (f east))"

lemma packed_lengths:
  "pack_entries offset ts = Some es \<Longrightarrow> \<forall>t \<in> set ts. length (tile_bytes t) < 2 ^ 32"
proof (induction ts arbitrary: offset es)
  case (Cons t ts)
  then show ?case
    by (cases t) (auto simp: entry_values_def struct_pack_def tile_bytes_def split: option.splits if_splits)
qed simp

text \<open>Opening what was written.\<close>

lemma written_parts:
  assumes "write_package zooms bounds name attribution found = Some content"
  obtains header es where
    "content = magic @ header @ name @ attribution @ es @ concat (map tile_bytes (sort_key tile_place found))"
    "pack_entries (56 + length name + length attribution + length found * 21) (sort_key tile_place found) = Some es"
    "struct_pack (header_values zooms bounds (length name) (length attribution) (length found)) = Some header"
    "length header = 48" "length es = length found * 21"
proof -
  obtain header es where p: "content = magic @ header @ name @ attribution @ es @ concat (map tile_bytes (sort_key tile_place found))"
    "pack_entries (56 + length name + length attribution + length found * 21) (sort_key tile_place found) = Some es"
    "struct_pack (header_values zooms bounds (length name) (length attribution) (length found)) = Some header"
    using assms by (auto simp: write_package_def Let_def split: if_splits option.splits)
  moreover have "length header = 48"
    using struct_pack_length[OF p(3)] by (simp add: header_values_def header_sizes_def split: prod.splits)
  moreover have "length es = length found * 21" using pack_entries_length[OF p(2)] by simp
  ultimately show thesis using that by blast
qed

lemma header_read:
  assumes "struct_pack (header_values zooms bounds n a k) = Some header"
  shows "read_values header_sizes (header @ s) =
    Some ([1, 256, Min (set zooms), Max (set zooms), fst bounds, fst (snd bounds), fst (snd (snd bounds)), snd (snd (snd bounds)), n, a, k], s)"
  using read_packed[OF assms, of s]
  by (simp add: header_values_def header_sizes_def split_beta del: read_values.simps)

lemma header_valid:
  assumes "bounds_valid bounds" "zooms \<noteq> []" "k \<le> 10000000"
  shows "valid_header [1, 256, Min (set zooms), Max (set zooms), fst bounds, fst (snd bounds), fst (snd (snd bounds)), snd (snd (snd bounds)), n, a, k]"
proof -
  have "Min (set zooms) \<le> Max (set zooms)" using assms(2) by simp
  then show ?thesis using assms(1,3)
    by (cases bounds) (auto simp: valid_header_def bounds_valid_def Let_def not_less)
qed

lemma written_opens:
  assumes "write_package zooms bounds name attribution found = Some content" "disk place = Some content"
    "zooms \<noteq> []" "bounds_valid bounds" "length found \<le> 10000000"
  shows "\<exists>p. open_package disk place = Inr p \<and> mp_path p = place \<and> mp_name p = text_of_bytes name \<and>
    mp_attribution p = text_of_bytes attribution \<and> mp_min_zoom p = int (Min (set zooms)) \<and> mp_max_zoom p = int (Max (set zooms)) \<and>
    mp_tiles p = foldl put_entry Map.empty (placed (56 + length name + length attribution + length found * 21) (sort_key tile_place found))"
proof -
  obtain header es where w: "content = magic @ header @ name @ attribution @ es @ concat (map tile_bytes (sort_key tile_place found))"
    "pack_entries (56 + length name + length attribution + length found * 21) (sort_key tile_place found) = Some es"
    "struct_pack (header_values zooms bounds (length name) (length attribution) (length found)) = Some header"
    "length header = 48" "length es = length found * 21"
    by (rule written_parts[OF assms(1)])
  have m: "take 8 content = magic" "drop 8 content = header @ name @ attribution @ es @ concat (map tile_bytes (sort_key tile_place found))"
    by (simp_all add: w(1) magic_def bytes_of_text_def)
  have i: "read_index (length found) (es @ s) Map.empty = Some (foldl put_entry Map.empty
      (placed (56 + length name + length attribution + length found * 21) (sort_key tile_place found)))" for s
    using read_index_packed[OF w(2), of s Map.empty] by simp
  show ?thesis
    unfolding open_package_def assms(2)
    by (simp add: m header_read[OF w(3)] header_valid[OF assms(4,3,5)] read_string_def i del: One_nat_def)
qed

text \<open>
  C22: what the script writes is read back. For tiles of different places, in the range of the keys, and valid
  bounds, the file that generate_offline_osm_tiles.py writes is opened by the program, with its name,
  attribution and zooms; every tile that was packed is read back with exactly its bytes, and no other tile of
  the range is found.
\<close>

theorem package_read_back:
  assumes "write_package zooms bounds name attribution found = Some content" "disk place = Some content"
    "zooms \<noteq> []" "bounds_valid bounds" "length found \<le> 10000000" "\<forall>t \<in> set found. in_key_range t"
    "distinct (map tile_place found)" "length content < 2 ^ 63"
  shows "\<exists>p. open_package disk place = Inr p \<and> mp_name p = text_of_bytes name \<and> mp_attribution p = text_of_bytes attribution \<and>
    mp_min_zoom p = int (Min (set zooms)) \<and> mp_max_zoom p = int (Max (set zooms)) \<and>
    (\<forall>(z, x, y, bs) \<in> set found. read_tile disk p (int z) (int x) (int y) = (True, bs)) \<and>
    (\<forall>z x y. z < 64 \<longrightarrow> x < 2 ^ 29 \<longrightarrow> y < 2 ^ 29 \<longrightarrow>
       has_tile p (int z) (int x) (int y) = ((z, x, y) \<in> tile_place ` set found))"
proof -
  let ?ts = "sort_key tile_place found" and ?off = "56 + length name + length attribution + length found * 21"
  obtain p where p: "open_package disk place = Inr p" "mp_path p = place" "mp_name p = text_of_bytes name"
    "mp_attribution p = text_of_bytes attribution" "mp_min_zoom p = int (Min (set zooms))" "mp_max_zoom p = int (Max (set zooms))"
    "mp_tiles p = foldl put_entry Map.empty (placed ?off ?ts)"
    using written_opens[where disk = disk and place = place, OF assms(1-5)] by blast
  obtain header es where w: "content = magic @ header @ name @ attribution @ es @ concat (map tile_bytes ?ts)"
    "pack_entries ?off ?ts = Some es" "length header = 48" "length es = length found * 21"
    by (rule written_parts[OF assms(1)])
  have r: "\<forall>t \<in> set ?ts. in_key_range t" using assms(6) by simp
  have k: "map fst (placed ?off ?ts) = map place_key ?ts" by (rule placed_keys[OF r])
  have inj: "inj_on place_key (set found)"
  proof (rule inj_onI)
    fix t u assume t: "t \<in> set found" "u \<in> set found" "place_key t = place_key u"
    then have "tile_place t = tile_place u" using place_key_inj assms(6) by blast
    then show "t = u" using assms(7) t(1,2) by (auto simp: distinct_map dest: inj_onD)
  qed
  have "distinct (map place_key ?ts)" using inj assms(7) by (simp add: distinct_map)
  then have d: "distinct (map fst (placed ?off ?ts))" by (simp add: k)
  have head: "drop ?off content = concat (map tile_bytes ?ts)" and len: "length content = ?off + length (concat (map tile_bytes ?ts))"
  proof -
    have l: "length (magic @ header @ name @ attribution @ es) = ?off" using w(3,4) by (simp add: magic_def bytes_of_text_def)
    have c: "content = (magic @ header @ name @ attribution @ es) @ concat (map tile_bytes ?ts)" using w(1) by simp
    show "drop ?off content = concat (map tile_bytes ?ts)" "length content = ?off + length (concat (map tile_bytes ?ts))"
      unfolding c l[symmetric] by simp_all
  qed
  have tile: "read_tile disk p (int z) (int x) (int y) = (True, bs)" if t: "(z, x, y, bs) \<in> set found" for z x y bs
  proof -
    obtain o' where o: "(place_key (z, x, y, bs), \<lparr>te_offset = of_nat o', te_length = of_nat (length bs)\<rparr>) \<in> set (placed ?off ?ts)"
      "?off \<le> o'" "o' + length bs \<le> ?off + length (concat (map tile_bytes ?ts))"
      "take (length bs) (drop (o' - ?off) (concat (map tile_bytes ?ts))) = bs"
      using placed_entry[of "(z, x, y, bs)" ?ts ?off] r t by (auto simp: tile_bytes_def)
    have e: "mp_tiles p (tile_key (int z) (int x) (int y)) = Some \<lparr>te_offset = of_nat o', te_length = of_nat (length bs)\<rparr>"
      using entries_lookup[OF d] map_of_is_SomeI[OF d o(1)] by (simp add: p(7) place_key_def)
    have n: "unat (of_nat (length bs) :: u32) = length bs"
    proof -
      have "length (tile_bytes (z, x, y, bs)) < 2 ^ 32" using packed_lengths[OF w(2)] t by (auto simp del: One_nat_def)
      then show ?thesis by (simp add: tile_bytes_def unat_of_nat)
    qed
    have "o' < 2 ^ 63" using o(3) len assms(8) by linarith
    then have f: "sint (of_nat o' :: u64) = int o'" by (simp add: signed_of_nat signed_take_bit_int_eq_self)
    have "drop o' content = drop (o' - ?off) (drop ?off content)" using o(2) by simp
    then have "drop o' content = drop (o' - ?off) (concat (map tile_bytes ?ts))" by (simp only: head)
    then have "take (length bs) (drop o' content) = bs" using o(4) by simp
    moreover have "length bs \<le> length content - o'" using o(3) len by linarith
    ultimately show ?thesis by (simp add: read_tile_def e p(2) assms(2) n f Let_def min_absorb2)
  qed
  have has: "has_tile p (int z) (int x) (int y) = ((z, x, y) \<in> tile_place ` set found)" if b: "z < 64" "x < 2 ^ 29" "y < 2 ^ 29" for z x y
  proof -
    have "has_tile p (int z) (int x) (int y) \<longleftrightarrow> place_key (z, x, y, []) \<in> place_key ` set found"
    proof -
      have "mp_tiles p (tile_key (int z) (int x) (int y)) = map_of (placed ?off ?ts) (place_key (z, x, y, []))"
        using entries_lookup[OF d, of Map.empty "place_key (z, x, y, [])"]
        by (simp add: p(7) place_key_def split: option.splits)
      moreover have "fst ` set (placed ?off ?ts) = place_key ` set found" using arg_cong[OF k, of set] by simp
      ultimately show ?thesis unfolding has_tile_def by (simp add: map_of_eq_None_iff)
    qed
    also have "\<dots> \<longleftrightarrow> (z, x, y) \<in> tile_place ` set found"
    proof
      assume "place_key (z, x, y, []) \<in> place_key ` set found"
      then obtain u where u: "u \<in> set found" "place_key (z, x, y, []) = place_key u" by blast
      have "tile_place (z, x, y, []) = tile_place u"
        by (rule place_key_inj[OF _ _ u(2)]) (use b u(1) assms(6) in \<open>auto simp: in_key_range_def\<close>)
      then show "(z, x, y) \<in> tile_place ` set found" using u(1) by (auto simp: tile_place_def)
    next
      assume "(z, x, y) \<in> tile_place ` set found"
      then show "place_key (z, x, y, []) \<in> place_key ` set found" by (force simp: tile_place_def place_key_def)
    qed
    finally show ?thesis .
  qed
  show ?thesis using p tile has by (intro exI[of _ p]) (simp add: split_beta)
qed

lemma package_read_back_witness:
  "\<exists>content p. write_package [1] (0, 0, 4607182418800017408, 4607182418800017408) [79] [] [(1, 1, 0, [7, 8])] = Some content \<and>
     open_package (\<lambda>_. Some content) ''a.glidemap'' = Inr p \<and> read_tile (\<lambda>_. Some content) p 1 1 0 = (True, [7, 8])"
proof -
  obtain content where c: "write_package [1] (0, 0, 4607182418800017408, 4607182418800017408) [79] [] [(1, 1, 0, [7, 8])] = Some content"
    by (simp add: write_package_def Let_def struct_pack_def header_values_def header_sizes_def entry_values_def tile_bytes_def)
  have l: "length content = 80"
    by (rule written_parts[OF c]) (simp add: magic_def bytes_of_text_def tile_bytes_def)
  have b: "bounds_valid (0, 0, 4607182418800017408, 4607182418800017408)"
    by (simp add: bounds_valid_def degrees_def fp_of_bits64_def fp_of_int_def fp_round_def f64_def floor_log2_def bitlen.simps rne_def
        fp_ge_def Let_def)
  have r: "\<forall>t \<in> set [(1, 1, 0, [7, 8])]. in_key_range t" "distinct (map tile_place [(1, 1, 0, [7, 8])])"
    "length [(1, 1, 0, [7, 8])] \<le> 10000000" "[1] \<noteq> []" "length content < 2 ^ 63"
    by (simp_all add: in_key_range_def l)
  from package_read_back[OF c refl r(4) b r(3,1,2,5), of "''a.glidemap''"] c show ?thesis by (auto simp del: One_nat_def)
qed

section \<open>The choice of a package\<close>

text \<open>Floating point numbers that are not NaN are ordered by their kind and value.\<close>

definition fp_kind :: "fp \<Rightarrow> int" where
  "fp_kind x = (case x of FInf True \<Rightarrow> - 1 | FInf False \<Rightarrow> 1 | _ \<Rightarrow> 0)"

definition fp_value :: "fp \<Rightarrow> real" where
  "fp_value x = (case x of FFin neg m e \<Rightarrow> (if neg then - 1 else 1) * of_nat m * 2 powi e | _ \<Rightarrow> 0)"

definition is_nan :: "fp \<Rightarrow> bool" where
  "is_nan x = (case x of FNan _ \<Rightarrow> True | _ \<Rightarrow> False)"

lemma fp_less_fin:
  "fp_less (FFin n1 m1 e1) (FFin n2 m2 e2) \<longleftrightarrow> fp_value (FFin n1 m1 e1) < fp_value (FFin n2 m2 e2)"
proof -
  define k where "k = min e1 e2"
  have scale: "fp_value (FFin n m e) =
      real_of_int (if n then - int (m * 2 ^ nat (e - k)) else int (m * 2 ^ nat (e - k))) * 2 powi k" if "k \<le> e" for n m e
  proof -
    have "(2::real) powi e = 2 powi (e - k) * 2 powi k" by (simp flip: power_int_add)
    then show ?thesis using that by (simp add: fp_value_def power_int_def[of _ "e - k"])
  qed
  have "(2::real) powi k > 0" by simp
  then have "real_of_int a * 2 powi k < real_of_int b * 2 powi k \<longleftrightarrow> a < b" for a b
    by (simp add: mult_less_cancel_right_pos)
  moreover have "k \<le> e1" "k \<le> e2" by (simp_all add: k_def)
  ultimately show ?thesis by (simp only: scale fp_less.simps Let_def k_def[symmetric])
qed

lemma fp_value_inf: "fp_value (FInf n) = 0"
  by (simp add: fp_value_def)

lemma fp_less_order:
  "\<not> is_nan x \<Longrightarrow> \<not> is_nan y \<Longrightarrow> fp_less x y \<longleftrightarrow> (fp_kind x, fp_value x) < (fp_kind y, fp_value y)"
  by (cases x; cases y)
    (auto simp: is_nan_def fp_kind_def fp_less_fin fp_value_inf less_prod_def simp del: fp_less.simps(1) split: bool.splits)

definition rank :: "map_package \<Rightarrow> int \<times> int \<times> real" where
  "rank p = (- mp_max_zoom p, fp_kind (covered_area p), fp_value (covered_area p))"

lemma better_rank:
  "\<not> is_nan (covered_area p) \<Longrightarrow> \<not> is_nan (covered_area q) \<Longrightarrow> better p q \<longleftrightarrow> rank p < rank q"
  by (auto simp: better_def rank_def fp_less_order less_prod_def)

definition first_best :: "map_package list \<Rightarrow> fp \<Rightarrow> fp \<Rightarrow> nat \<Rightarrow> nat option \<Rightarrow> bool" where
  "first_best ps lat lon n best \<longleftrightarrow>
     (case best of
        None \<Rightarrow> \<forall>j < n. \<not> contains_point (ps ! j) lat lon
      | Some i \<Rightarrow> i < n \<and> contains_point (ps ! i) lat lon \<and>
          (\<forall>j < n. contains_point (ps ! j) lat lon \<longrightarrow> \<not> better (ps ! j) (ps ! i)) \<and>
          (\<forall>j < i. contains_point (ps ! j) lat lon \<longrightarrow> better (ps ! i) (ps ! j)))"

text \<open>The loop keeps the first of the best packages, in the code's own terms.\<close>

lemma best_package_first:
  assumes "\<forall>p \<in> set ps. \<not> is_nan (covered_area p)"
  shows "first_best ps lat lon (length ps) (best_package ps lat lon)"
proof -
  let ?f = "\<lambda>best i. if \<not> contains_point (ps ! i) lat lon then best
      else case best of None \<Rightarrow> Some i | Some b \<Rightarrow> if better (ps ! i) (ps ! b) then Some i else best"
  let ?C = "\<lambda>j. contains_point (ps ! j) lat lon" and ?R = "\<lambda>j. rank (ps ! j)"
  have r: "better (ps ! i) (ps ! j) \<longleftrightarrow> ?R i < ?R j" if "i < length ps" "j < length ps" for i j
    using better_rank assms that by simp
  have none: "first_best ps lat lon n None \<longleftrightarrow> (\<forall>j < n. \<not> ?C j)" for n
    by (simp add: first_best_def)
  have some: "first_best ps lat lon n (Some i) \<longleftrightarrow>
      i < n \<and> ?C i \<and> (\<forall>j < n. ?C j \<longrightarrow> ?R i \<le> ?R j) \<and> (\<forall>j < i. ?C j \<longrightarrow> ?R i < ?R j)" if "n \<le> length ps" for n i
  proof (cases "i < n")
    case True
    have "better (ps ! j) (ps ! i) \<longleftrightarrow> ?R j < ?R i" if "j < n" for j using r that True \<open>n \<le> length ps\<close> by simp
    moreover have "better (ps ! i) (ps ! j) \<longleftrightarrow> ?R i < ?R j" if "j < i" for j using r that True \<open>n \<le> length ps\<close> by simp
    ultimately show ?thesis by (auto simp: first_best_def not_less)
  qed (simp add: first_best_def)
  have "first_best ps lat lon n (foldl ?f None [0..<n])" if "n \<le> length ps" for n
    using that
  proof (induction n)
    case (Suc n)
    then have ih: "first_best ps lat lon n (foldl ?f None [0..<n])" and n: "n < length ps" "n \<le> length ps" "Suc n \<le> length ps" by simp_all
    have step: "foldl ?f None [0..<Suc n] = ?f (foldl ?f None [0..<n]) n" by simp
    show ?case
    proof (cases "foldl ?f None [0..<n]")
      case None
      then have "\<forall>j < n. \<not> ?C j" using ih none by simp
      then show ?thesis unfolding step None using n by (auto simp: none some less_Suc_eq)
    next
      case (Some b)
      then have b: "b < n" "?C b" "\<forall>j < n. ?C j \<longrightarrow> ?R b \<le> ?R j" "\<forall>j < b. ?C j \<longrightarrow> ?R b < ?R j"
        using ih some[OF n(2)] by simp_all
      have e: "better (ps ! n) (ps ! b) \<longleftrightarrow> ?R n < ?R b" using r n b(1) by simp
      show ?thesis
      proof (cases "?C n \<and> ?R n < ?R b")
        case True
        then have "\<forall>j < n. ?C j \<longrightarrow> ?R n < ?R j" using b(3) by (meson order_less_le_trans)
        moreover have "?f (Some b) n = Some n" using True e by simp
        ultimately show ?thesis unfolding step Some using True some[OF n(3), of n] by (auto simp: less_Suc_eq less_imp_le)
      next
        case False
        then have "?f (Some b) n = Some b" using e by simp
        moreover have "?C n \<longrightarrow> ?R b \<le> ?R n" using False by (simp add: not_less)
        ultimately show ?thesis unfolding step Some using b some[OF n(3), of b] by (auto simp: less_Suc_eq)
      qed
    qed
  qed (simp add: none)
  then show ?thesis by (simp add: best_package_def)
qed

text \<open>
  The same in terms of numbers: \<open>extent\<close> orders the floating point numbers that are not NaN as real numbers,
  with the infinities at the ends. A package covers a position between its borders, in latitude and in
  longitude; one package is preferred to another for a higher maximum zoom or, with the same one, for a
  smaller area, which is its width times its height in degrees.
\<close>

definition extent :: "fp \<Rightarrow> int \<times> real" where
  "extent x = (fp_kind x, fp_value x)"

definition covers :: "map_package \<Rightarrow> fp \<Rightarrow> fp \<Rightarrow> bool" where
  "covers p lat lon \<longleftrightarrow> \<not> (\<exists>x \<in> {mp_south p, mp_north p, mp_west p, mp_east p, lat, lon}. is_nan x) \<and>
     extent (mp_south p) \<le> extent lat \<and> extent lat \<le> extent (mp_north p) \<and>
     extent (mp_west p) \<le> extent lon \<and> extent lon \<le> extent (mp_east p)"

definition square_degrees :: "map_package \<Rightarrow> fp" where
  "square_degrees p =
     (let width = fp_add f64 (mp_east p) (fp_neg (mp_west p)); height = fp_add f64 (mp_north p) (fp_neg (mp_south p))
      in fp_mul f64 width height)"

definition preferred :: "map_package \<Rightarrow> map_package \<Rightarrow> bool" where
  "preferred p q \<longleftrightarrow> mp_max_zoom q < mp_max_zoom p \<or>
     mp_max_zoom p = mp_max_zoom q \<and> extent (square_degrees p) < extent (square_degrees q)"

lemma fp_ge_extent: "fp_ge x y \<longleftrightarrow> \<not> is_nan x \<and> \<not> is_nan y \<and> extent y \<le> extent x"
proof (cases "is_nan x \<or> is_nan y")
  case True
  then show ?thesis by (cases x; cases y) (simp_all add: fp_ge_def is_nan_def)
next
  case False
  then have "fp_ge x y \<longleftrightarrow> \<not> fp_less x y"
    by (cases x; cases y) (simp_all add: fp_ge_def is_nan_def del: fp_less.simps)
  then show ?thesis using False fp_less_order[of x y] unfolding extent_def by (metis not_less)
qed

lemma contains_point_covers: "contains_point p lat lon \<longleftrightarrow> covers p lat lon"
  by (auto simp: contains_point_def covers_def fp_ge_extent)

lemma better_preferred:
  "\<not> is_nan (square_degrees p) \<Longrightarrow> \<not> is_nan (square_degrees q) \<Longrightarrow> better p q \<longleftrightarrow> preferred p q"
  by (auto simp: better_def preferred_def covered_area_def square_degrees_def Let_def extent_def fp_less_order)

definition best_choice :: "map_package list \<Rightarrow> fp \<Rightarrow> fp \<Rightarrow> nat option \<Rightarrow> bool" where
  "best_choice ps lat lon best \<longleftrightarrow>
     (case best of
        None \<Rightarrow> \<forall>j < length ps. \<not> covers (ps ! j) lat lon
      | Some i \<Rightarrow> i < length ps \<and> covers (ps ! i) lat lon \<and>
          (\<forall>j < length ps. covers (ps ! j) lat lon \<longrightarrow> \<not> preferred (ps ! j) (ps ! i)) \<and>
          (\<forall>j < i. covers (ps ! j) lat lon \<longrightarrow> preferred (ps ! i) (ps ! j)))"

text \<open>
  C24: the package is ranked as documented. If no area is a NaN, a package is chosen exactly when one covers the
  position (its latitude between south and north, its longitude between west and east); the chosen one covers it,
  none that covers it has a higher maximum zoom, or the same and a smaller area in square degrees, and of equal
  ones it is the first.
\<close>

theorem best_package_ranked:
  assumes "\<forall>p \<in> set ps. \<not> is_nan (square_degrees p)"
  shows "best_choice ps lat lon (best_package ps lat lon)"
proof -
  have a: "\<forall>p \<in> set ps. \<not> is_nan (covered_area p)"
    using assms by (simp add: covered_area_def square_degrees_def Let_def)
  have b: "better (ps ! i) (ps ! j) \<longleftrightarrow> preferred (ps ! i) (ps ! j)" if "i < length ps" "j < length ps" for i j
    using better_preferred assms that by simp
  show ?thesis
  proof (cases "best_package ps lat lon")
    case None
    then show ?thesis
      using best_package_first[OF a, of lat lon] by (simp add: first_best_def best_choice_def contains_point_covers)
  next
    case (Some i)
    then have "i < length ps" using best_package_first[OF a, of lat lon] by (simp add: first_best_def)
    then show ?thesis
      using best_package_first[OF a, of lat lon] Some b by (auto simp: first_best_def best_choice_def contains_point_covers)
  qed
qed

definition point_package :: "int \<Rightarrow> map_package" where
  "point_package zoom =
     (let z = FFin False 0 0 in
      \<lparr>mp_path = [], mp_name = [], mp_attribution = [], mp_south = z, mp_west = z, mp_north = z, mp_east = z,
       mp_min_zoom = 0, mp_max_zoom = zoom, mp_tiles = Map.empty\<rparr>)"

lemma best_package_ranked_witness:
  "best_choice [point_package 15, point_package 16] (FFin False 0 0) (FFin False 0 0) (Some 1)"
proof -
  let ?ps = "[point_package 15, point_package 16]"
  have a: "covered_area (point_package z) = FFin False 0 (- 1074)" for z
    by (simp add: covered_area_def point_package_def fp_mul_def fp_add_def fp_neg_def fp_round_def Let_def f64_def)
  have s: "square_degrees p = covered_area p" for p by (simp add: covered_area_def square_degrees_def Let_def)
  have "best_package ?ps (FFin False 0 0) (FFin False 0 0) = Some 1"
    by (simp add: best_package_def upt_rec contains_point_def better_def fp_ge_def a) (simp add: point_package_def Let_def)
  then show ?thesis
    using best_package_ranked[of ?ps "FFin False 0 0" "FFin False 0 0"] by (simp add: is_nan_def s a)
qed

end
