(* ===== verification/Spec2Isabelle.thy ===== *)
theory Spec2Isabelle
  imports Telemetry_Flow Ipc Net_Discovery Preview_Control Platform Rockchip_Streams Imx_Streams
    Cedar_Pictures Controller_Rounds Ui_Properties Flow_Properties View_Process
    Raster_Lines Png_Properties Map_Cache Map_Packages
begin

text \<open>
  OpenHD-Glide is the ground display of an OpenHD video link: a controller process
  (\<open>src/openhd_glide\<close>) talks MAVLink with the OpenHD system, shows the video a hardware decoder
  (\<open>src/video\<close>) makes of an RTP stream, and starts worker processes (\<open>glide-view\<close>, \<open>glide-flow\<close>,
  \<open>glide-ui\<close>) that it feeds with text lines over a local socket. This development models the parts
  that carry that logic, translated from the C++ sources, and proves what makes them correct.

  \<^bold>\<open>How the parts interact.\<close> Bytes from the OpenHD system reach \<open>UdpBridge::poll\<close>
  (\<open>src/common/mavlink_udp_bridge.cpp\<close>), which cuts them into MAVLink frames, learns the addresses of
  the systems from their heartbeats and turns each frame into text lines \<open>mav ...\<close>. The controller
  sends these lines to its workers through \<open>ipc::Server\<close> (\<open>src/common/ipc.cpp\<close>); each worker applies
  them to its \<open>Snapshot\<close> with \<open>apply_ipc_line\<close> (\<open>src/common/mavlink_state.cpp\<close>). In the other
  direction a worker's action lines \<open>mav set\<close> and \<open>mav command\<close> become MAVLink packets
  (\<open>handle_action_line\<close>, \<open>send_packet\<close>). Beside this, \<open>DiscoveryService\<close>
  (\<open>src/common/network_discovery.cpp\<close>) finds other ground stations by UDP broadcast,
  \<open>src/common/preview_control.cpp\<close> keeps display settings in files, \<open>src/platform\<close> probes the
  processor cores, the display planes and the running processes and gives each worker a core, and
  \<open>src/video\<close> turns RTP packets into pictures for the Rockchip, i.MX and Cedar decoders and keeps the
  decoded frames until they are shown. \<open>src/openhd_glide/main.cpp\<close> is the controller: it reads the
  options, starts the workers with their command lines, and in each round passes telemetry and peers to
  them, answers and stores what they ask for, and ends them all when one ends.

  \<^bold>\<open>Theories.\<close>
  \<^item> \<open>Glide_Prelude\<close>: integer types, bytes and text, \<open>lastn\<close>, and the contract
    \<open>incremental_reader\<close> of a reader that keeps the unread rest of its input.
  \<^item> \<open>Cpp_Text\<close>, \<open>Cpp_Float\<close>: what the sources use of the C++ library: \<open>std::istringstream\<close>
    extraction with its stream state, \<open>std::getline\<close>, \<open>std::stoi\<close>, \<open>std::strtol\<close>, integer printing, and IEEE binary
    floating point (rounding to nearest even, conversion from and to text and bytes).
  \<^item> \<open>OpenHD_Protocol\<close>: the tables and offsets of \<open>src/common/openhd_protocol.hpp\<close>.
  \<^item> \<open>Mavlink_Wire\<close>: checksum, fields, \<open>parse_datagram\<close>, \<open>parse_stream\<close>, addressing and the packet
    bytes. \<open>Mavlink_Decode\<close>: \<open>decode_frame\<close>, one definition for each message. \<open>Mavlink_State\<close>: the
    record \<open>snapshot\<close> and \<open>apply_ipc_line\<close>, one definition for each key. \<open>Mavlink_Bridge\<close>: the record
    \<open>bridge\<close> and the operations of \<open>UdpBridge\<close>. \<open>Telemetry_Flow\<close>: both together, from a frame to the
    snapshot.
  \<^item> \<open>Ipc\<close>: client and server of \<open>src/common/ipc.cpp\<close>. \<open>Net_Discovery\<close>: the discovery service and the
    point-to-point set-up. \<open>Preview_Control\<close>: the settings. \<open>Platform\<close>: \<open>src/platform\<close>.
  \<^item> \<open>Rtp\<close>: the RTP header, aggregation packets and bounded queues. \<open>Jpeg_Rtp\<close>: the JPEG header of
    RTP/JPEG. \<open>Rtp_Contracts\<close>: senders, DMA buffer frames, and the contracts of the decoders.
    \<open>Rockchip_Decoder\<close>: the record \<open>decoder\<close> and the operations of \<open>RockchipMppRtpDecoder\<close>.
    \<open>Rockchip_Streams\<close>: its guarantees over packet streams and interleavings. \<open>Imx_Decoder\<close> and
    \<open>Imx_Streams\<close> the same for \<open>ImxVpuRtpDecoder\<close>; \<open>Cedar_Decoder\<close>, \<open>Cedar_Streams\<close> (bit reader, recovery)
    and \<open>Cedar_Pictures\<close> (pictures) for \<open>CedarRtpDecoder\<close>.
  \<^item> \<open>Cpp_Numbers\<close>: \<open>std::stoul\<close>, \<open>std::stod\<close>, comparison, sums and printing of floating point numbers.
    \<open>Controller\<close>: the record \<open>world\<close> and the rounds of the controller (\<open>poll_runtime_controls\<close>,
    \<open>handle_*_line\<close>). \<open>Controller_Start\<close>: options, command lines and the two stacks. \<open>Controller_Flow\<close>,
    \<open>Controller_Safety\<close>, \<open>Controller_Rounds\<close>: their guarantees.
  \<^item> \<open>src/glide_ui/main.cpp\<close>, the menu and the map: \<open>Ui_Settings\<close> (files of the device, map and telemetry
    settings), \<open>Ui_State\<close> (the record \<open>ui\<close>, the rows of each panel, which widgets the state points to and
    which exist), \<open>Ui_Keys\<close> (clicks, keys and overlays), \<open>Ui_Loop\<close> (lines of the controller,
    reconnection, flight path, the rounds). \<open>Ui_Device\<close>, \<open>Ui_Flow\<close>, \<open>Ui_Invariants\<close>, \<open>Ui_Properties\<close>: their guarantees.
  \<^item> The workers: \<open>Worker_Options\<close> (the options of \<open>glide-flow\<close>, \<open>glide-view\<close> and \<open>glide-ui\<close>, against the
    command lines of the controller), \<open>Flow_Process\<close> and \<open>Flow_Properties\<close> (\<open>src/glide_flow/main.cpp\<close>: lines,
    keys, presence of telemetry, which widgets a frame shows, and their texts), \<open>View_Process\<close>
    (\<open>src/glide_view/main.cpp\<close>: the GStreamer pipeline and its loop, and the headless \<open>glide-ui\<close>).
  \<^item> The map: \<open>Raster\<close> (the rasterizer of \<open>src/glide_ui/minimap_widget.cpp\<close>), \<open>Raster_Properties\<close> and
    \<open>Raster_Lines\<close> (each figure, the line against the ideal one); \<open>Png\<close> and \<open>Png_Properties\<close> (the PNG
    writer of the demo tiles and both readers, without zlib); \<open>Map_Tiles\<close> (\<open>offline_map_package.cpp\<close>, the
    choice of a package, the tile cache and the script \<open>generate_offline_osm_tiles.py\<close>), \<open>Map_Cache\<close> (the
    cache keeps the 25 tiles used last) and \<open>Map_Packages\<close> (packages are read back, the best one is chosen).

  \<^bold>\<open>State and outside world.\<close> The members of each class are the fields of one record, each
  operation is a function that returns the new record, and a loop over a system call is a recursion
  over the list of its answers, so every answer the system may give is covered. Sockets, \<open>getaddrinfo\<close>,
  interfaces, files, processes, MPP and the clock are arguments. What an operation does to the
  outside (bytes on the wire, datagrams, descriptors closed, frames given back, packets handed to
  MPP) is recorded in a field of the state. The branches for Linux are modelled, those for Windows
  are not. Machine integers are words of their width where they wrap; text is a list of
  characters, and the conversions between text and numbers follow the C++ library.

  \<^bold>\<open>Contracts.\<close> \<open>incremental_reader\<close> (prelude) is interpreted for \<open>parse_stream\<close> and for
  \<open>drain_lines\<close>; the independence of both protocols from how the input was cut rests on it.
  \<open>stored_setting\<close> and \<open>two_settings\<close> (\<open>Preview_Control\<close>) are interpreted for each setting. \<open>fragment_reader\<close>,
  \<open>frame_owner\<close> and \<open>frame_ledger\<close> (\<open>Rtp_Contracts\<close>; the ledger gives the owner by a sublocale) say how
  fragments of a unit are put together and that frames are given back once; the decoders are their
  interpretations. \<open>worker_invariant\<close> (\<open>Controller_Flow\<close>) lifts a property that every kind of worker line
  keeps to whole rounds; it is interpreted for the stored settings, the telemetry and the shown link.
  \<open>ui_invariant\<close> (\<open>Ui_Flow\<close>) does the same for keys, clicks, lines and rounds of the user interface, and
  \<open>settings_invariant\<close> (\<open>Ui_Invariants\<close>) is the case of a property of the settings only, which gives it by a
  sublocale; they are interpreted for the flags of the map, the widget pointers, the map file and the
  stored settings. \<open>option_invariant\<close> (\<open>Controller_Rounds\<close>) lifts what every option keeps to a whole command line.
  \<open>painter\<close> (\<open>Raster_Properties\<close>) says that drawing makes each pixel a function of its place and of what it
  was, and keeps the size of the picture; it is interpreted for the seven figures of the map.

  \<^bold>\<open>What the properties show.\<close> Telemetry: the value of each modelled message reaches the snapshot
  field it belongs to (\<open>gps_position_arrives\<close>, \<open>flight_controller_heartbeat_arrives\<close> and lemmas for other
  messages), whatever lines arrive the snapshot stays well
  formed, and reading does not depend on how the stream was cut. Commands: an action line puts
  exactly the described packet on the wire, and the program's own reader reads packets back. Local
  socket: lines arrive as sent, the client table stays consistent, ended clients are removed. Discovery: the probe of a
  scan, the answer to it and the entry it makes lead two nodes to each other, through the ports they are bound to, the peer table stays well formed, scans end. Platform: each worker gets
  the fastest core that is left. Decoders: fragments and slices reach MPP as the unit and the picture they were, late packets
  change nothing, the seed goes in at most once, and no frame is lost or given back twice; Cedar's bit
  reader refines the payload without its emulation bytes, after its start or a loss no slice reaches it before an IDR
  picture, and an IDR picture of whole or fragmented slices reaches it as one unit.
  Controller: what it tells about a setting is what its file says unless a worker wrote the file, and a setting line puts
  both right, a new worker gets the whole state, the
  telemetry of a round is applied, a shown TCP link is open, options are in range, no worker is left.
  User interface: at every moment of a run a restart shows the same settings and the same map (only the coordinates overlay
  is put away when the map reopens), stored device settings are loaded again within their ranges, no pointer outlives its widget,
  the map puts the coordinates overlay away and leaving it brings the overlay back, the keys do what the buttons do (except on the
  panels of the link and the developer), and after its hello it shows the state of the controller.
  Workers: they read from their command lines what the controller means (\<open>workers_understand\<close>); the display
  process takes telemetry as present for exactly 1500 ms, and it never connects to the controller again.
  Map: each figure colors exactly its pixels, a triangle those that are weighted means of its corners, and writes nothing
  behind the buffer (\<open>figures_are_exact\<close>), a line stays within half a pixel of the ideal
  one (\<open>draw_line_ideal\<close>), blending is the rounded mean, the reader undoes every filter of the PNG format and reads back what
  is written, the tile cache refines the policy of the least recently used, and packages written by the script
  are read back and ranked by zoom, then by their area in square degrees.
  Some theorems show behaviour that looks unintended: \<open>reconnect_keeps_old_bytes\<close>, \<open>openhd_detection\<close>,
  \<open>partial_picture_after_gap\<close>, \<open>theme_line_ends_process\<close>, \<open>dropped_picture_counts_gap\<close>,
  \<open>link_keys_misplaced\<close>, \<open>only_bad_color_ends_ui\<close> and \<open>flow_never_reconnects\<close>.

  \<^bold>\<open>Termination and bounds.\<close> No fuel is used: \<open>parse_datagram\<close>, \<open>parse_stream\<close>, \<open>drain_lines\<close> and
  \<open>aggregated\<close> are total by the length of their input. A receive loop ends where the list of answers
  ends, which stands for the socket having no more input. The 128 decode calls of the i.MX decoder and
  the four and eight of Cedar are the bounds of the code itself. \<open>line_loop\<close> (\<open>Raster\<close>) is a partial function:
  that it returns, and after how many steps, is part of \<open>draw_line_ideal\<close>.

  \<^bold>\<open>Not modelled.\<close> The OpenGL drawing, fonts and windows (\<open>src/glide_flow\<close>, \<open>src/dev\<close>, the look of the widgets in
  \<open>src/glide_ui\<close>), the projection and the composition of a map frame, the atlas texture, zlib and \<open>std::filesystem\<close>, the rendering loops of the controller's video preview, the window of the SDL preview of \<open>glide-ui\<close>,
  logging and the tools. Counters and coordinates that the sources keep in \<open>int\<close> (client numbers, the place of the preview,
  pixel coordinates, row lengths) are unbounded here, and \<open>tile_at\<close> shifts by any zoom, where the shift of the source is defined
  below 31 only; the values that occur are far below these limits. In the model of the controller's rounds only the
  controller writes the settings files; \<open>shared_loop\<close> adds the workers' writes.
\<close>

end
